(* ===== verification/Prelude.thy ===== *)
theory Prelude
  imports Complex_Main "HOL-Library.AList"
begin

text \<open>
  Shared by every component: the Python errors the engine can raise, the error monad, the
  Python operations the source uses on strings, numbers, slices, dictionaries and sorted
  lists, and the lemmas about them. Prices (Python floats) are exact reals here; timestamps
  are Python integers (milliseconds of UTC), so mathematical integers.
\<close>

section \<open>Errors and the error monad\<close>

datatype py_error =
    ValueError | TypeError | KeyError | IndexError | AssertionError
  | ZeroDivisionError | OverflowError | AttributeError | FileNotFoundError
  | MarketDataError | StoreError

type_synonym 'a result = "py_error + 'a"
type_synonym ms = int
type_synonym price = real

named_theorems py_defs \<open>definitions of the Python operations, for evaluating closed terms\<close>
named_theorems frame_simps \<open>fields an operation leaves unchanged\<close>

fun bindR :: "'a result \<Rightarrow> ('a \<Rightarrow> 'b result) \<Rightarrow> 'b result" where
  "bindR (Inl e) f = Inl e"
| "bindR (Inr x) f = f x"

lemma bindR_Inr_iff: "bindR m f = Inr y \<longleftrightarrow> (\<exists>x. m = Inr x \<and> f x = Inr y)"
  by (cases m) auto

lemma bindR_Inl_iff: "bindR m f = Inl e \<longleftrightarrow> m = Inl e \<or> (\<exists>x. m = Inr x \<and> f x = Inl e)"
  by (cases m) auto

lemma bindR_Inr_right [simp]: "bindR m Inr = m"
  by (cases m) auto

lemma bindR_unit: "bindR m (\<lambda>_. n) = Inr (u::unit) \<longleftrightarrow> m = Inr () \<and> n = Inr ()"
  by (cases m) auto

fun mapR :: "('a \<Rightarrow> 'b result) \<Rightarrow> 'a list \<Rightarrow> 'b list result" where
  "mapR f [] = Inr []"
| "mapR f (x # xs) = bindR (f x) (\<lambda>y. bindR (mapR f xs) (\<lambda>ys. Inr (y # ys)))"

lemma mapR_length: "mapR f xs = Inr ys \<Longrightarrow> length ys = length xs"
  by (induction xs arbitrary: ys) (auto simp: bindR_Inr_iff)

section \<open>Association lists\<close>

lemma set_update_subset: "set (AList.update k v al) \<subseteq> insert (k, v) (set al)"
  by (induction al) auto

section \<open>Truthiness: the Python expression \<open>a or b\<close>\<close>

definition int_or :: "int option \<Rightarrow> int \<Rightarrow> int" where
  [py_defs]: "int_or a b = (case a of None \<Rightarrow> b | Some x \<Rightarrow> if x = 0 then b else x)"

definition num_or :: "int \<Rightarrow> int \<Rightarrow> int" where
  [py_defs]: "num_or a b = (if a = 0 then b else a)"

definition str_or :: "string \<Rightarrow> string \<Rightarrow> string" where
  [py_defs]: "str_or a b = (if a = [] then b else a)"

lemma str_or_empty [simp]: "str_or s [] = s"
  by (simp add: str_or_def)

section \<open>Numbers\<close>

text \<open>\<open>int(x)\<close> on a float truncates towards zero.\<close>

definition trunc :: "real \<Rightarrow> int" where
  [py_defs]: "trunc x = (if 0 \<le> x then \<lfloor>x\<rfloor> else \<lceil>x\<rceil>)"

lemma trunc_of_int [simp]: "trunc (of_int n) = n"
  by (simp add: trunc_def)

lemma trunc_numeral [simp]: "trunc (numeral n) = numeral n"
  by (simp add: trunc_def)

lemma trunc_0 [simp]: "trunc 0 = 0"
  by (simp add: trunc_def)

lemma trunc_mono: "x \<le> y \<Longrightarrow> trunc x \<le> trunc y"
proof -
  assume "x \<le> y"
  moreover have "\<lceil>x\<rceil> \<le> \<lfloor>y\<rfloor>" if "\<not> 0 \<le> x" "0 \<le> y"
  proof -
    have "\<lceil>x\<rceil> \<le> 0" using that(1) by (simp add: ceiling_le_iff)
    moreover have "0 \<le> \<lfloor>y\<rfloor>" using that(2) by simp
    ultimately show ?thesis by (rule order_trans)
  qed
  ultimately show ?thesis
    unfolding trunc_def by (auto intro: floor_mono ceiling_mono)
qed

text \<open>\<open>round(x, n)\<close> rounds to \<open>n\<close> decimals, ties to the even last digit.\<close>

definition round_half_even :: "real \<Rightarrow> int" where
  [py_defs]: "round_half_even x =
     (let f = \<lfloor>x\<rfloor>; d = x - of_int f
      in if d < 1/2 then f else if 1/2 < d then f + 1 else if even f then f else f + 1)"

definition py_round :: "nat \<Rightarrow> real \<Rightarrow> real" where
  [py_defs]: "py_round n x = of_int (round_half_even (x * 10 ^ n)) / 10 ^ n"

lemma round_half_even_of_int [simp]: "round_half_even (of_int k) = k"
  by (simp add: round_half_even_def)

lemma py_round_idem [simp]: "py_round n (py_round n x) = py_round n x"
  by (simp add: py_round_def)

lemma round_half_even_error: "\<bar>of_int (round_half_even x) - x\<bar> \<le> 1/2"
  unfolding round_half_even_def Let_def by (auto simp: abs_if) linarith+

lemma round_half_even_mono: "x \<le> y \<Longrightarrow> round_half_even x \<le> round_half_even y"
proof (cases "\<lfloor>x\<rfloor> = \<lfloor>y\<rfloor>")
  case True
  assume "x \<le> y"
  then show ?thesis using True by (auto simp: round_half_even_def Let_def)
next
  case False
  assume "x \<le> y"
  then have "\<lfloor>x\<rfloor> + 1 \<le> \<lfloor>y\<rfloor>" using False floor_mono [of x y] by linarith
  moreover have "round_half_even x \<le> \<lfloor>x\<rfloor> + 1" "\<lfloor>y\<rfloor> \<le> round_half_even y"
    by (auto simp: round_half_even_def Let_def)
  ultimately show ?thesis by linarith
qed

lemma py_round_error: "\<bar>py_round n x - x\<bar> \<le> 1 / (2 * 10 ^ n)"
proof -
  have "\<bar>of_int (round_half_even (x * 10 ^ n)) - x * 10 ^ n\<bar> \<le> 1/2"
    by (rule round_half_even_error)
  then have "\<bar>(py_round n x - x) * 10 ^ n\<bar> \<le> 1/2"
    by (simp add: py_round_def left_diff_distrib)
  then have "\<bar>py_round n x - x\<bar> * 10 ^ n \<le> 1/2"
    by (simp add: abs_mult)
  then show ?thesis by (simp add: field_simps)
qed

section \<open>Strings (ASCII)\<close>

definition lower_char :: "char \<Rightarrow> char" where
  [py_defs]: "lower_char c =
     (let n = (of_char c :: nat) in if 65 \<le> n \<and> n \<le> 90 then char_of (n + 32) else c)"

definition upper_char :: "char \<Rightarrow> char" where
  [py_defs]: "upper_char c =
     (let n = (of_char c :: nat) in if 97 \<le> n \<and> n \<le> 122 then char_of (n - 32) else c)"

definition lower :: "string \<Rightarrow> string" where
  [py_defs]: "lower s = map lower_char s"

definition upper :: "string \<Rightarrow> string" where
  [py_defs]: "upper s = map upper_char s"

definition is_space :: "char \<Rightarrow> bool" where
  [py_defs]: "is_space c \<longleftrightarrow> (let n = (of_char c :: nat) in n = 32 \<or> 9 \<le> n \<and> n \<le> 13 \<or> 28 \<le> n \<and> n \<le> 31)"

definition strip :: "string \<Rightarrow> string" where
  [py_defs]: "strip s = rev (dropWhile is_space (rev (dropWhile is_space s)))"

definition ends_with :: "string \<Rightarrow> string \<Rightarrow> bool" where
  [py_defs]: "ends_with s t \<longleftrightarrow> length t \<le> length s \<and> drop (length s - length t) s = t"

definition drop_last :: "nat \<Rightarrow> string \<Rightarrow> string" where
  [py_defs]: "drop_last n s = take (length s - n) s"

lemma ends_with_append [simp]: "ends_with (s @ t) t"
  by (simp add: ends_with_def)

lemma drop_last_append [simp]: "drop_last (length t) (s @ t) = s"
  by (simp add: drop_last_def)

lemma upper_idem [simp]: "upper (upper s) = upper s"
proof -
  have "upper_char (upper_char c) = upper_char c" for c
    by (auto simp: upper_char_def Let_def of_char_of)
  then show ?thesis by (simp add: upper_def)
qed

definition is_digit :: "char \<Rightarrow> bool" where
  [py_defs]: "is_digit c \<longleftrightarrow> (let n = (of_char c :: nat) in 48 \<le> n \<and> n \<le> 57)"

definition digit_value :: "char \<Rightarrow> int" where
  [py_defs]: "digit_value c = int (of_char c) - 48"

text \<open>
  \<open>int(s)\<close> on a string: surrounding white space, one sign, then digits, a single underscore
  allowed between two digits; anything else raises \<open>ValueError\<close>.
\<close>

fun digits_value :: "int \<Rightarrow> bool \<Rightarrow> string \<Rightarrow> int result" where
  "digits_value acc seen [] = (if seen then Inr acc else Inl ValueError)"
| "digits_value acc seen (c # cs) =
     (if is_digit c then digits_value (acc * 10 + digit_value c) True cs
      else if c = CHR ''_'' \<and> seen then digits_value acc False cs
      else Inl ValueError)"

definition py_int :: "string \<Rightarrow> int result" where
  [py_defs]: "py_int s =
     (case strip s of
        [] \<Rightarrow> Inl ValueError
      | c # cs \<Rightarrow>
          if c = CHR ''-'' then bindR (digits_value 0 False cs) (\<lambda>n. Inr (- n))
          else if c = CHR ''+'' then digits_value 0 False cs
          else digits_value 0 False (c # cs))"

lemma digits_value_last_bad:
  "\<not> is_digit c \<Longrightarrow> c \<noteq> CHR ''_'' \<Longrightarrow> digits_value acc seen (s @ [c]) = Inl ValueError"
  by (induction s arbitrary: acc seen) auto

lemma strip_snoc: "\<not> is_space c \<Longrightarrow> strip (s @ [c]) = dropWhile is_space s @ [c]"
  by (auto simp: strip_def dropWhile_append split: if_splits)

lemma py_int_last_bad:
  assumes "\<not> is_digit c" "c \<noteq> CHR ''_''" "\<not> is_space c"
  shows "py_int (s @ [c]) = Inl ValueError"
proof -
  have bad: "digits_value 0 False (u @ [c]) = Inl ValueError" for u
    using assms(1,2) by (rule digits_value_last_bad)
  show ?thesis
  proof (cases "dropWhile is_space s")
    case Nil
    then have "strip (s @ [c]) = [c]" using strip_snoc [OF assms(3), of s] by simp
    then show ?thesis
      using assms bad [of "[]"] by (simp add: py_int_def)
  next
    case (Cons a as)
    then show ?thesis
      using assms bad [of as] bad [of "a # as"] by (simp add: py_int_def strip_snoc)
  qed
qed

text \<open>Decimal printing of an integer, as \<open>str\<close> and f-strings do.\<close>

fun show_nat :: "nat \<Rightarrow> string" where
  "show_nat n = (if n < 10 then [char_of (48 + n)] else show_nat (n div 10) @ [char_of (48 + n mod 10)])"

declare show_nat.simps [simp del]

definition show_int :: "int \<Rightarrow> string" where
  [py_defs]: "show_int n = (if n < 0 then CHR ''-'' # show_nat (nat (- n)) else show_nat (nat n))"

lemma is_digit_char_of: "n < 10 \<Longrightarrow> is_digit (char_of (48 + n)) \<and> digit_value (char_of (48 + n)) = int n"
  by (simp add: is_digit_def digit_value_def Let_def of_char_of)

lemma digits_value_append:
  "set s \<subseteq> {c. is_digit c} \<Longrightarrow> s \<noteq> [] \<Longrightarrow>
   digits_value acc seen (s @ t) =
   digits_value (foldl (\<lambda>a c. a * 10 + digit_value c) acc s) True t"
proof (induction s arbitrary: acc seen)
  case (Cons c s)
  show ?case
  proof (cases "s = []")
    case True
    with Cons.prems show ?thesis by simp
  next
    case False
    with Cons.prems show ?thesis
      using Cons.IH [of "acc * 10 + digit_value c" True] by simp
  qed
qed simp

lemma show_nat_digits: "set (show_nat n) \<subseteq> {c. is_digit c} \<and> show_nat n \<noteq> []"
proof (induction n rule: show_nat.induct)
  case (1 n)
  then show ?case
    by (subst (1 2) show_nat.simps) (auto simp: is_digit_char_of)
qed

lemma show_nat_value: "foldl (\<lambda>a c. a * 10 + digit_value c) 0 (show_nat n) = int n"
proof (induction n rule: show_nat.induct)
  case (1 n)
  then show ?case
    by (subst show_nat.simps) (auto simp: is_digit_char_of zdiv_int zmod_int)
qed

text \<open>The format \<open>:.nf\<close> of a number.\<close>

definition pad_left :: "nat \<Rightarrow> string \<Rightarrow> string" where
  [py_defs]: "pad_left n s = replicate (n - length s) CHR ''0'' @ s"

definition fmt_fixed :: "nat \<Rightarrow> real \<Rightarrow> string" where
  [py_defs]: "fmt_fixed n x =
     (let k = nat (round_half_even (\<bar>x\<bar> * 10 ^ n))
      in (if x < 0 then ''-'' else []) @ show_nat (k div 10 ^ n) @
         (if n = 0 then [] else ''.'' @ pad_left n (show_nat (k mod 10 ^ n))))"

section \<open>Slices, positions, sorting\<close>

text \<open>\<open>xs[lo:hi]\<close> for non-negative bounds, and \<open>xs[-n:]\<close> for any integer \<open>n\<close>:
  \<open>n = 0\<close> is the whole list and a negative \<open>n\<close> drops from the front.\<close>

definition slice :: "'a list \<Rightarrow> nat \<Rightarrow> nat \<Rightarrow> 'a list" where
  [py_defs]: "slice xs lo hi = take (hi - lo) (drop lo xs)"

definition last_slice :: "'a list \<Rightarrow> int \<Rightarrow> 'a list" where
  [py_defs]: "last_slice xs n = (if n \<le> 0 then drop (nat (- n)) xs else drop (length xs - nat n) xs)"

lemma set_slice: "set (slice xs lo hi) \<subseteq> set xs"
  unfolding slice_def by (meson set_drop_subset set_take_subset subset_trans)

lemma set_last_slice: "set (last_slice xs n) \<subseteq> set xs"
  unfolding last_slice_def by (auto dest: in_set_dropD)

text \<open>
  \<open>sorted(xs, key=f, reverse=True)\<close> is stable: elements of equal key keep their order. The
  library's \<open>sort_key\<close> is stable and ascending, so the list is reversed on both sides.
\<close>

definition sort_desc :: "('a \<Rightarrow> 'k::linorder) \<Rightarrow> 'a list \<Rightarrow> 'a list" where
  [py_defs]: "sort_desc f xs = rev (sort_key f (rev xs))"

lemma set_sort_desc [simp]: "set (sort_desc f xs) = set xs"
  by (simp add: sort_desc_def)

lemma length_sort_desc [simp]: "length (sort_desc f xs) = length xs"
  by (simp add: sort_desc_def)

lemma sorted_sort_desc: "sorted_wrt (\<lambda>x y. f y \<le> f x) (sort_desc f xs)"
proof -
  have "sorted (map f (sort_key f (rev xs)))" by simp
  then have "sorted_wrt (\<lambda>x y. f x \<le> f y) (sort_key f (rev xs))"
    by (simp add: sorted_map)
  then show ?thesis by (simp add: sort_desc_def sorted_wrt_rev)
qed

lemma distinct_map_sort_desc: "distinct (map g xs) \<Longrightarrow> distinct (map g (sort_desc f xs))"
  unfolding distinct_map by (auto simp: sort_desc_def)

text \<open>\<open>max(xs, key=f)\<close> is the first element of greatest key, \<open>min\<close> the first of least.\<close>

fun max_by :: "('a \<Rightarrow> 'k::linorder) \<Rightarrow> 'a \<Rightarrow> 'a list \<Rightarrow> 'a" where
  "max_by f b [] = b"
| "max_by f b (x # xs) = (if f b < f x then max_by f x xs else max_by f b xs)"

fun min_by :: "('a \<Rightarrow> 'k::linorder) \<Rightarrow> 'a \<Rightarrow> 'a list \<Rightarrow> 'a" where
  "min_by f b [] = b"
| "min_by f b (x # xs) = (if f x < f b then min_by f x xs else min_by f b xs)"

lemma max_by_in: "max_by f b xs \<in> insert b (set xs)"
  by (induction xs arbitrary: b) auto

lemma max_by_ge: "y \<in> insert b (set xs) \<Longrightarrow> f y \<le> f (max_by f b xs)"
proof (induction xs arbitrary: b y)
  case (Cons x xs)
  have "f b \<le> f (max_by f b (x # xs)) \<and> f x \<le> f (max_by f b (x # xs))"
    using Cons.IH [of x x] Cons.IH [of b b] by auto
  then show ?case
    using Cons.prems Cons.IH [of y x] Cons.IH [of y b] by auto
qed simp

lemma min_by_in: "min_by f b xs \<in> insert b (set xs)"
  by (induction xs arbitrary: b) auto

lemma min_by_le: "y \<in> insert b (set xs) \<Longrightarrow> f (min_by f b xs) \<le> f y"
proof (induction xs arbitrary: b y)
  case (Cons x xs)
  have "f (min_by f b (x # xs)) \<le> f b \<and> f (min_by f b (x # xs)) \<le> f x"
    using Cons.IH [of x x] Cons.IH [of b b] by auto
  then show ?case
    using Cons.prems Cons.IH [of y x] Cons.IH [of y b] by auto
qed simp

end
