(* ===== verification/Intervals.thy ===== *)
theory Intervals
  imports Prelude
begin

text \<open>
  Timeframe strings: \<open>interval_to_minutes\<close> of config/settings.py and the two copies of
  \<open>_interval_to_ms\<close> (domain/signals/builder.py, domain/entities/trade.py), which are the
  same text. A string that \<open>int\<close> refuses is a \<open>ValueError\<close>.
\<close>

definition interval_to_minutes :: "string \<Rightarrow> int result" where
  "interval_to_minutes interval =
     (let s = lower (strip interval) in
      if ends_with s ''min'' then py_int (drop_last 3 s)
      else if ends_with s ''h'' then bindR (py_int (drop_last 1 s)) (\<lambda>n. Inr (n * 60))
      else if ends_with s ''day'' then bindR (py_int (drop_last 3 s)) (\<lambda>n. Inr (n * 60 * 24))
      else if ends_with s ''week'' then bindR (py_int (drop_last 4 s)) (\<lambda>n. Inr (n * 60 * 24 * 7))
      else Inl ValueError)"

definition interval_to_ms :: "string \<Rightarrow> int result" where
  "interval_to_ms interval =
     (let s = lower (strip interval) in
      if ends_with s ''min'' then bindR (py_int (drop_last 3 s)) (\<lambda>n. Inr (n * 60 * 1000))
      else if ends_with s ''h'' then bindR (py_int (drop_last 1 s)) (\<lambda>n. Inr (n * 60 * 60 * 1000))
      else if ends_with s ''day'' then bindR (py_int (drop_last 3 s)) (\<lambda>n. Inr (n * 24 * 60 * 60 * 1000))
      else if ends_with s ''week'' then bindR (py_int (drop_last 4 s)) (\<lambda>n. Inr (n * 7 * 24 * 60 * 60 * 1000))
      else if ends_with s ''month'' then bindR (py_int (drop_last 5 s)) (\<lambda>n. Inr (n * 30 * 24 * 60 * 60 * 1000))
      else Inr 0)"

definition settings_interval_to_ms :: "string \<Rightarrow> int result" where
  "settings_interval_to_ms interval = bindR (interval_to_minutes interval) (\<lambda>m. Inr (m * 60 * 1000))"

text \<open>\<open>f"{interval_to_minutes(htf)}/{interval_to_minutes(ltf)}"\<close>, the key of every per-pair table.\<close>

definition tf_key :: "string \<Rightarrow> string \<Rightarrow> string result" where
  "tf_key htf ltf =
     bindR (interval_to_minutes htf) (\<lambda>h. bindR (interval_to_minutes ltf)
       (\<lambda>l. Inr (show_int h @ ''/'' @ show_int l)))"

lemmas interval_eval = interval_to_minutes_def interval_to_ms_def py_defs

lemma interval_examples:
  "interval_to_minutes ''5min'' = Inr 5" "interval_to_minutes '' 4H '' = Inr 240"
  "interval_to_minutes ''1day'' = Inr 1440" "interval_to_minutes ''5x'' = Inl ValueError"
  "interval_to_ms ''5min'' = Inr 300000" "interval_to_ms ''1h'' = Inr 3600000"
  by code_simp+

lemma tf_key_examples: "tf_key ''1h'' ''5min'' = Inr ''60/5''"
  by code_simp

text \<open>Every interval string whose last letter is the \<open>h\<close> of ``month'' takes the hour branch.\<close>

lemma lower_append: "lower (s @ t) = lower s @ lower t"
  by (simp add: lower_def)

lemma strip_month: "strip (s @ ''month'') = dropWhile is_space (s @ ''month'')"
proof -
  have "strip ((s @ ''mont'') @ [CHR ''h'']) = dropWhile is_space (s @ ''mont'') @ [CHR ''h'']"
    by (rule strip_snoc) (simp add: is_space_def)
  moreover have "dropWhile is_space ((s @ ''mont'') @ [CHR ''h'']) = dropWhile is_space (s @ ''mont'') @ [CHR ''h'']"
    by (cases "dropWhile is_space s = []") (auto simp: dropWhile_append is_space_def)
  ultimately show ?thesis by simp
qed

lemma strip_month_ends: "\<exists>u. strip (s @ ''month'') = u @ ''month''"
proof -
  have "dropWhile is_space (s @ ''month'') = dropWhile is_space s @ ''month''"
    by (auto simp: dropWhile_append is_space_def)
  then show ?thesis by (simp add: strip_month)
qed

text \<open>Printing an interval in minutes and reading it back.\<close>

lemma strip_id:
  assumes "s \<noteq> []" "\<not> is_space (hd s)" "\<not> is_space (last s)"
  shows "strip s = s"
proof -
  have "dropWhile is_space s = s" using assms by (cases s) auto
  moreover have "dropWhile is_space (rev s) = rev s"
    using assms by (cases "rev s") (auto simp: hd_rev [symmetric])
  ultimately show ?thesis by (simp add: strip_def)
qed

lemma digit_not_space: "is_digit c \<Longrightarrow> \<not> is_space c"
  by (auto simp: is_digit_def is_space_def Let_def)

lemma show_nat_ends: "\<not> is_space (hd (show_nat n))" "\<not> is_space (last (show_nat n))"
  using show_nat_digits [of n] hd_in_set [of "show_nat n"] last_in_set [of "show_nat n"]
  by (auto simp: digit_not_space subset_iff)

lemma digit_lower: "is_digit c \<Longrightarrow> lower_char c = c"
  by (auto simp: is_digit_def lower_char_def Let_def)

lemma lower_show_nat: "lower (show_nat n) = show_nat n"
  using show_nat_digits [of n] unfolding lower_def
  by (intro map_idI) (auto simp: digit_lower)

lemma py_int_show_nat: "py_int (show_nat n) = Inr (int n)"
proof -
  have ds: "set (show_nat n) \<subseteq> {c. is_digit c}" "show_nat n \<noteq> []"
    using show_nat_digits [of n] by auto
  have st: "strip (show_nat n) = show_nat n"
    using ds(2) show_nat_ends by (rule strip_id)
  obtain c cs where c: "show_nat n = c # cs" using ds(2) by (cases "show_nat n") auto
  have "is_digit c" using ds(1) c by auto
  then have nosign: "c \<noteq> CHR ''-''" "c \<noteq> CHR ''+''" by (auto simp: is_digit_def)
  have "digits_value 0 False (show_nat n @ []) = Inr (int n)"
    using digits_value_append [OF ds, of 0 False "[]"] by (simp add: show_nat_value)
  then show ?thesis
    using nosign st unfolding py_int_def by (simp add: c del: digits_value.simps)
qed

lemma interval_to_minutes_show: "interval_to_minutes (show_nat n @ ''min'') = Inr (int n)"
proof -
  have ds: "set (show_nat n) \<subseteq> {c. is_digit c}" "show_nat n \<noteq> []"
    using show_nat_digits [of n] by auto
  have "strip (show_nat n @ ''min'') = show_nat n @ ''min''"
    using ds(2) show_nat_ends(1) [of n] by (intro strip_id) (auto simp: hd_append is_space_def)
  moreover have "lower (show_nat n @ ''min'') = show_nat n @ ''min''"
    unfolding lower_append lower_show_nat by (simp add: py_defs)
  moreover have "drop_last 3 (show_nat n @ ''min'') = show_nat n"
    using drop_last_append [of "''min''" "show_nat n"] by (simp add: numeral_3_eq_3)
  ultimately show ?thesis
    using ends_with_append [of "show_nat n" "''min''"]
    by (simp add: interval_to_minutes_def py_int_show_nat)
qed

end
