(* ===== verification/Entities.thy ===== *)
theory Entities
  imports Intervals
begin

text \<open>
  The trading entities of domain/entities: the enumerations of enums.py with their string
  values, the candle (candle.py), the HTF range and the rejection candle (ranges.py), the trade
  signal (trade.py) and the closed-trade record (session.py). Field names carry a short prefix
  (\<open>c_\<close>, \<open>z_\<close>, \<open>r_\<close>, \<open>s_\<close>, \<open>cr_\<close>) because HOL fields are global constants.
\<close>

section \<open>Enumerations\<close>

datatype signal_direction = LONG | SHORT

datatype signal_status =
  PENDING | TRIGGERED | TP1_HIT | TP2_HIT | SL_HIT | INVALIDATED | EXPIRED

datatype signal_outcome =
  O_WIN_FULL | O_BREAKEVEN | O_LOSS | O_INVALIDATED | O_EXPIRED

datatype signal_event =
    SIGNAL_PENDING | SIGNAL_TRIGGERED | SIGNAL_TP1_HIT | SIGNAL_TP2_HIT | SIGNAL_SL_HIT
  | SIGNAL_INVALIDATED | SIGNAL_EXPIRED | SIGNAL_UPDATED

datatype bos_dir = BULLISH | BEARISH

datatype candle_pattern = SHOOTING_STAR | HAMMER | CRT_SELL | CRT_BUY

datatype trend_bias = BIAS_LONG | BIAS_SHORT | BIAS_NEUTRAL

fun direction_value :: "signal_direction \<Rightarrow> string" where
  "direction_value LONG = ''LONG''" | "direction_value SHORT = ''SHORT''"

fun status_value :: "signal_status \<Rightarrow> string" where
  "status_value PENDING = ''PENDING''" | "status_value TRIGGERED = ''TRIGGERED''"
| "status_value TP1_HIT = ''TP1_HIT''" | "status_value TP2_HIT = ''TP2_HIT''"
| "status_value SL_HIT = ''SL_HIT''" | "status_value INVALIDATED = ''INVALIDATED''"
| "status_value EXPIRED = ''EXPIRED''"

fun outcome_value :: "signal_outcome \<Rightarrow> string" where
  "outcome_value O_WIN_FULL = ''WIN_FULL''" | "outcome_value O_BREAKEVEN = ''BREAKEVEN''"
| "outcome_value O_LOSS = ''LOSS''" | "outcome_value O_INVALIDATED = ''INVALIDATED''"
| "outcome_value O_EXPIRED = ''EXPIRED''"

fun event_value :: "signal_event \<Rightarrow> string" where
  "event_value SIGNAL_PENDING = ''signal.pending''"
| "event_value SIGNAL_TRIGGERED = ''signal.triggered''"
| "event_value SIGNAL_TP1_HIT = ''signal.tp1_hit''"
| "event_value SIGNAL_TP2_HIT = ''signal.tp2_hit''"
| "event_value SIGNAL_SL_HIT = ''signal.sl_hit''"
| "event_value SIGNAL_INVALIDATED = ''signal.invalidated''"
| "event_value SIGNAL_EXPIRED = ''signal.expired''"
| "event_value SIGNAL_UPDATED = ''signal.updated''"

fun bos_value :: "bos_dir \<Rightarrow> string" where
  "bos_value BULLISH = ''BULLISH''" | "bos_value BEARISH = ''BEARISH''"

fun pattern_value :: "candle_pattern \<Rightarrow> string" where
  "pattern_value SHOOTING_STAR = ''SHOOTING_STAR''" | "pattern_value HAMMER = ''HAMMER''"
| "pattern_value CRT_SELL = ''CRT_SELL''" | "pattern_value CRT_BUY = ''CRT_BUY''"

fun bias_value :: "trend_bias \<Rightarrow> string" where
  "bias_value BIAS_LONG = ''LONG''" | "bias_value BIAS_SHORT = ''SHORT''"
| "bias_value BIAS_NEUTRAL = ''NEUTRAL''"

text \<open>\<open>SignalDirection(v)\<close> and its kin: the member with that value, else \<open>ValueError\<close>.\<close>

definition enum_of :: "('a \<Rightarrow> string) \<Rightarrow> 'a list \<Rightarrow> string \<Rightarrow> 'a result" where
  "enum_of val members s =
     (case filter (\<lambda>m. val m = s) members of [] \<Rightarrow> Inl ValueError | m # _ \<Rightarrow> Inr m)"

definition direction_of :: "string \<Rightarrow> signal_direction result" where
  "direction_of = enum_of direction_value [LONG, SHORT]"

definition status_of :: "string \<Rightarrow> signal_status result" where
  "status_of = enum_of status_value
     [PENDING, TRIGGERED, TP1_HIT, TP2_HIT, SL_HIT, INVALIDATED, EXPIRED]"

definition outcome_of :: "string \<Rightarrow> signal_outcome result" where
  "outcome_of = enum_of outcome_value
     [O_WIN_FULL, O_BREAKEVEN, O_LOSS, O_INVALIDATED, O_EXPIRED]"

definition bos_of :: "string \<Rightarrow> bos_dir result" where
  "bos_of = enum_of bos_value [BULLISH, BEARISH]"

definition pattern_of :: "string \<Rightarrow> candle_pattern result" where
  "pattern_of = enum_of pattern_value [SHOOTING_STAR, HAMMER, CRT_SELL, CRT_BUY]"

named_theorems enum_roundtrip

lemma direction_of_value [simp, enum_roundtrip]: "direction_of (direction_value d) = Inr d"
  by (cases d) (simp_all add: direction_of_def enum_of_def)

lemma status_of_value [simp, enum_roundtrip]: "status_of (status_value d) = Inr d"
  by (cases d) (simp_all add: status_of_def enum_of_def)

lemma outcome_of_value [simp, enum_roundtrip]: "outcome_of (outcome_value d) = Inr d"
  by (cases d) (simp_all add: outcome_of_def enum_of_def)

lemma bos_of_value [simp, enum_roundtrip]: "bos_of (bos_value d) = Inr d"
  by (cases d) (simp_all add: bos_of_def enum_of_def)

lemma pattern_of_value [simp, enum_roundtrip]: "pattern_of (pattern_value d) = Inr d"
  by (cases d) (simp_all add: pattern_of_def enum_of_def)

lemma direction_value_inj [simp]: "direction_value a = direction_value b \<longleftrightarrow> a = b"
  by (cases a; cases b) auto

lemma outcome_value_inj [simp]: "outcome_value a = outcome_value b \<longleftrightarrow> a = b"
  by (cases a; cases b) auto

lemma bos_value_inj [simp]: "bos_value a = bos_value b \<longleftrightarrow> a = b"
  by (cases a; cases b) auto

lemma direction_value_neq_Nil [simp]: "direction_value d \<noteq> []"
  by (cases d) auto

text \<open>The outcome groups at the foot of enums.py hold string values.\<close>

definition WIN_OUTCOMES :: "string set" where
  "WIN_OUTCOMES = {outcome_value O_WIN_FULL, outcome_value O_BREAKEVEN}"

definition CLOSED_OUTCOMES :: "string set" where
  "CLOSED_OUTCOMES = WIN_OUTCOMES \<union> {outcome_value O_LOSS}"

definition VOID_OUTCOMES :: "string set" where
  "VOID_OUTCOMES = {outcome_value O_INVALIDATED, outcome_value O_EXPIRED}"

lemma loss_not_win: "outcome_value O_LOSS \<notin> WIN_OUTCOMES"
  by (simp add: WIN_OUTCOMES_def)

lemma outcome_groups_partition:
  "outcome_value o' \<in> CLOSED_OUTCOMES \<longleftrightarrow> outcome_value o' \<notin> VOID_OUTCOMES"
  by (cases o') (simp_all add: CLOSED_OUTCOMES_def WIN_OUTCOMES_def VOID_OUTCOMES_def)

subsection \<open>Lifecycle order of the statuses\<close>

text \<open>
  The order in which a signal can pass through its statuses, as an instance of the library's
  linear order: every status of the enumeration at its place in the declaration.
\<close>

fun status_rank :: "signal_status \<Rightarrow> nat" where
  "status_rank PENDING = 0" | "status_rank TRIGGERED = 1" | "status_rank TP1_HIT = 2"
| "status_rank TP2_HIT = 3" | "status_rank SL_HIT = 4" | "status_rank INVALIDATED = 5"
| "status_rank EXPIRED = 6"

lemma status_rank_inj: "status_rank a = status_rank b \<Longrightarrow> a = b"
  by (cases a; cases b) auto

instantiation signal_status :: linorder
begin

definition less_eq_signal_status :: "signal_status \<Rightarrow> signal_status \<Rightarrow> bool" where
  "less_eq_signal_status a b \<longleftrightarrow> status_rank a \<le> status_rank b"

definition less_signal_status :: "signal_status \<Rightarrow> signal_status \<Rightarrow> bool" where
  "less_signal_status a b \<longleftrightarrow> status_rank a < status_rank b"

instance
  by standard (auto simp: less_eq_signal_status_def less_signal_status_def dest: status_rank_inj)

end

lemma open_status_lowest:
  "TRIGGERED \<le> (st::signal_status) \<longleftrightarrow> st \<noteq> PENDING"
  by (cases st) (simp_all add: less_eq_signal_status_def)

section \<open>Candles and structural ranges\<close>

record candle =
  c_timestamp :: ms
  c_open :: price
  c_high :: price
  c_low :: price
  c_close :: price
  c_volume :: real

text \<open>\<open>Candle(timestamp, open, high, low, close)\<close>: the volume defaults to 0.\<close>

definition mk_candle :: "ms \<Rightarrow> price \<Rightarrow> price \<Rightarrow> price \<Rightarrow> price \<Rightarrow> candle" where
  "mk_candle t op hi lo cl =
     \<lparr>c_timestamp = t, c_open = op, c_high = hi, c_low = lo, c_close = cl, c_volume = 0\<rparr>"

definition total_range :: "candle \<Rightarrow> price" where
  "total_range c = c_high c - c_low c"

definition candle_body :: "candle \<Rightarrow> price" where
  "candle_body c = \<bar>c_close c - c_open c\<bar>"

definition is_bullish :: "candle \<Rightarrow> bool" where
  "is_bullish c \<longleftrightarrow> c_open c \<le> c_close c"

definition upper_wick :: "candle \<Rightarrow> price" where
  "upper_wick c = c_high c - max (c_open c) (c_close c)"

definition lower_wick :: "candle \<Rightarrow> price" where
  "lower_wick c = min (c_open c) (c_close c) - c_low c"

text \<open>What a price feed delivers: open and close lie between low and high.\<close>

definition wf_candle :: "candle \<Rightarrow> bool" where
  "wf_candle c \<longleftrightarrow> c_low c \<le> c_open c \<and> c_open c \<le> c_high c \<and>
     c_low c \<le> c_close c \<and> c_close c \<le> c_high c"

lemma wf_candle_parts:
  "wf_candle c \<Longrightarrow> upper_wick c + candle_body c + lower_wick c = total_range c"
  by (auto simp: upper_wick_def lower_wick_def candle_body_def total_range_def max_def min_def abs_if)

record htf_zone =
  z_range_high :: price
  z_range_low :: price
  z_bos_direction :: bos_dir
  z_timestamp :: ms
  z_broken_at :: ms
  z_tp_level :: price
  z_htf_candle_open :: ms
  z_htf_candle_close :: ms

definition midpoint :: "htf_zone \<Rightarrow> price" where
  "midpoint z = (z_range_high z + z_range_low z) / 2"

definition height :: "htf_zone \<Rightarrow> price" where
  "height z = z_range_high z - z_range_low z"

definition signal_dir :: "htf_zone \<Rightarrow> signal_direction" where
  "signal_dir z = (if z_bos_direction z = BEARISH then SHORT else LONG)"

record rejection =
  r_open :: price
  r_high :: price
  r_low :: price
  r_close :: price
  r_timestamp :: ms
  r_wick_ratio :: real
  r_pattern :: candle_pattern

definition wick_tip :: "rejection \<Rightarrow> price" where
  "wick_tip r = (if r_pattern r \<in> {SHOOTING_STAR, CRT_SELL} then r_high r else r_low r)"

section \<open>JSON values\<close>

datatype json =
    JNull | JBool bool | JInt int | JFloat real | JStr string
  | JArr "json list" | JObj "(string \<times> json) list"

section \<open>The trade signal\<close>

record trade_signal =
  s_id :: string
  s_symbol :: string
  s_direction :: signal_direction
  s_status :: signal_status
  s_entry_price :: price
  s_stop_loss :: price
  s_tp1 :: price
  s_tp2 :: price
  s_htf_range :: htf_zone
  s_rejection :: rejection
  s_rr :: real
  s_risk_pips :: real
  s_htf_interval :: string
  s_ltf_interval :: string
  s_zone_attempt :: int
  s_broker :: string
  s_price_source_used :: string
  s_candle_close_price :: "price option"
  s_live_bid :: "price option"
  s_live_ask :: "price option"
  s_price_drift :: "price option"
  s_created_at :: ms
  s_pending_at :: "ms option"
  s_triggered_at :: "ms option"
  s_setup_open_at :: "ms option"
  s_setup_close_at :: "ms option"
  s_detected_at :: "ms option"
  s_emitted_at :: "ms option"
  s_tp1_hit_at :: "ms option"
  s_tp2_hit_at :: "ms option"
  s_sl_hit_at :: "ms option"
  s_invalidated_at :: "ms option"
  s_expired_at :: "ms option"
  s_closed_at :: "ms option"
  s_outcome :: "signal_outcome option"
  s_realized_rr :: "real option"
  s_close_price :: "price option"
  s_chart_path :: "string option"
  s_chart_data :: "json option"

section \<open>The closed-trade record\<close>

record closed_record =
  cr_signal_id :: string
  cr_symbol :: string
  cr_direction :: string
  cr_outcome :: string
  cr_realized_rr :: real
  cr_closed_at :: ms
  cr_htf_ts :: ms
  cr_ltf_ts :: ms
  cr_rej_ts :: ms
  cr_entry_ts :: ms
  cr_entry :: price
  cr_sl :: price
  cr_tp1 :: price
  cr_tp2 :: price
  cr_rr :: real
  cr_wick_ratio :: real
  cr_pattern :: string
  cr_htf_interval :: string
  cr_ltf_interval :: string
  cr_zone_attempt :: int
  cr_htf_high :: price
  cr_htf_low :: price
  cr_tp_level :: price
  cr_ltf_high :: price
  cr_ltf_low :: price

text \<open>A record with every optional field at its default.\<close>

definition mk_closed_record ::
  "string \<Rightarrow> string \<Rightarrow> string \<Rightarrow> string \<Rightarrow> real \<Rightarrow> ms \<Rightarrow> closed_record" where
  "mk_closed_record i symb dir out rrr cat =
     \<lparr>cr_signal_id = i, cr_symbol = symb, cr_direction = dir, cr_outcome = out,
      cr_realized_rr = rrr, cr_closed_at = cat, cr_htf_ts = 0, cr_ltf_ts = 0, cr_rej_ts = 0,
      cr_entry_ts = 0, cr_entry = 0, cr_sl = 0, cr_tp1 = 0, cr_tp2 = 0, cr_rr = 0,
      cr_wick_ratio = 0, cr_pattern = [], cr_htf_interval = [], cr_ltf_interval = [],
      cr_zone_attempt = 1, cr_htf_high = 0, cr_htf_low = 0, cr_tp_level = 0,
      cr_ltf_high = 0, cr_ltf_low = 0\<rparr>"

section \<open>Calendar arithmetic on UTC milliseconds\<close>

text \<open>
  \<open>datetime.fromtimestamp(ms / 1000, tz=utc)\<close>: its hour, its date (as the day number since the
  epoch, which \<open>isoformat\<close> prints injectively) and its weekday (the epoch was a Thursday).
\<close>

definition utc_day :: "ms \<Rightarrow> int" where
  "utc_day t = t div 86400000"

definition utc_hour :: "ms \<Rightarrow> int" where
  "utc_hour t = (t div 3600000) mod 24"

definition day_start_ms :: "int \<Rightarrow> ms" where
  "day_start_ms d = d * 86400000"

definition utc_weekday :: "ms \<Rightarrow> int" where
  "utc_weekday t = (utc_day t + 3) mod 7"

definition utc_second_of_day :: "ms \<Rightarrow> int" where
  "utc_second_of_day t = (t div 1000) mod 86400"

text \<open>
  The civil date of a day number, for \<open>strftime\<close>: the days are counted in eras of 400 years
  from 1 March 0000.
\<close>

definition civil_of_day :: "int \<Rightarrow> int \<times> int \<times> int" where
  "civil_of_day z0 =
     (let z = z0 + 719468;
          era = z div 146097;
          doe = z mod 146097;
          yoe = (doe - doe div 1460 + doe div 36524 - doe div 146096) div 365;
          doy = doe - (365 * yoe + yoe div 4 - yoe div 100);
          mp = (5 * doy + 2) div 153;
          d = doy - (153 * mp + 2) div 5 + 1;
          m = (if mp < 10 then mp + 3 else mp - 9);
          y = yoe + era * 400 + (if m \<le> 2 then 1 else 0)
      in (y, m, d))"

definition pad2 :: "int \<Rightarrow> string" where
  "pad2 n = pad_left 2 (show_int n)"

definition iso_date :: "int \<Rightarrow> string" where
  "iso_date day =
     (case civil_of_day day of (y, m, d) \<Rightarrow>
        pad_left 4 (show_int y) @ ''-'' @ pad2 m @ ''-'' @ pad2 d)"

lemma utc_hour_range: "0 \<le> utc_hour t \<and> utc_hour t < 24"
  by (simp add: utc_hour_def)

lemma utc_weekday_range: "0 \<le> utc_weekday t \<and> utc_weekday t < 7"
  by (simp add: utc_weekday_def)

lemma utc_day_start: "utc_day (day_start_ms d) = d"
  by (simp add: utc_day_def day_start_ms_def)

lemma day_start_le: "day_start_ms (utc_day t) \<le> t \<and> t < day_start_ms (utc_day t + 1)"
  unfolding utc_day_def day_start_ms_def by presburger

end
