(* ===== verification/Settings.thy ===== *)
theory Settings
  imports Entities
begin

text \<open>
  config/settings.py: the frozen settings, their defaults, the validation done by
  \<open>__post_init__\<close> and the per-timeframe accessors. Python dicts that are iterated are
  association lists with distinct keys; \<open>map_of\<close> is \<open>dict.get\<close>. Paths are strings.
\<close>

section \<open>Data\<close>

type_synonym 'v dict = "(string \<times> 'v) list"
type_synonym dtime = "int \<times> int"

record session_window =
  ses_start :: dtime
  ses_end :: dtime
  ses_enabled :: bool
  ses_blocked :: "int set"

text \<open>An entry of \<open>trade_management_tf_overrides\<close>: the keys that are present.\<close>

record tm_override =
  ov_tp1_trigger_pct :: "real option"
  ov_tp1_close_pct :: "real option"
  ov_move_sl_to_be :: "bool option"

record rr_entry =
  rre_min :: "real option"
  rre_max :: "real option"

datatype lookback = LB_Int int | LB_Map "int dict"

record settings =
  g_base_dir :: string
  g_log_level :: string
  g_log_dir :: string
  g_manager_symbols :: "string list"
  g_mt5_terminal_path :: string
  g_mt5_login :: int
  g_mt5_password :: string
  g_mt5_server :: string
  g_mt5_timeout_ms :: int
  g_mt5_portable :: bool
  g_mt5_profile :: string
  g_broker_time_offset_ms :: int
  g_mt5_symbol_aliases :: "string dict"
  g_weekend_sleep_enabled :: bool
  g_weekend_close_weekday :: int
  g_weekend_close_time :: dtime
  g_weekend_reopen_weekday :: int
  g_weekend_reopen_time :: dtime
  g_apex_env :: string
  g_apex_live_confirm :: string
  g_apex_disable_trading :: bool
  g_tf_pairs :: "(string \<times> string) list"
  g_tf_entry_models :: "string dict"
  g_htf_lookback :: lookback
  g_htf_outputsize :: int
  g_stop_placement_method :: string
  g_max_sl_zone_mult :: real
  g_max_spread_to_sl_ratio :: real
  g_min_rr :: real
  g_max_rr :: real
  g_max_emit_lag_ms :: int
  g_tf_max_rr :: "real dict"
  g_symbol_rr_filter :: "rr_entry dict dict"
  g_signal_expiry_hours :: real
  g_max_htf_zones_per_dir :: int
  g_max_signal_count_per_zone :: int
  g_use_trend_filter :: bool
  g_tp1_trigger_pct :: real
  g_tp1_close_pct :: real
  g_move_sl_to_be_on_tp1 :: bool
  g_trade_management_tf_overrides :: "tm_override dict dict"
  g_use_invalidation :: bool
  g_multi_tf_independent_positions :: bool
  g_entry_model :: string
  g_crt_mode :: string
  g_signal_price_source :: string
  g_use_displacement_filter :: bool
  g_displacement_atr_period :: int
  g_displacement_atr_mult :: real
  g_tf_displacement_mult :: "real dict"
  g_max_consecutive_losses :: int
  g_pause_after_streak_h :: real
  g_use_session_filter :: bool
  g_sessions :: "session_window dict"

definition default_sessions :: "session_window dict" where
  "default_sessions =
     [(''TOKYO'', \<lparr>ses_start = (0, 0), ses_end = (8, 0), ses_enabled = False, ses_blocked = {}\<rparr>),
      (''LONDON'', \<lparr>ses_start = (8, 0), ses_end = (16, 0), ses_enabled = True, ses_blocked = {9}\<rparr>),
      (''NEW_YORK'', \<lparr>ses_start = (16, 0), ses_end = (0, 0), ses_enabled = True, ses_blocked = {17, 19}\<rparr>)]"

definition STOP_BUFFER_PCT :: real where "STOP_BUFFER_PCT = 0.00001"
definition CANDLE_BUFFER_MS :: int where "CANDLE_BUFFER_MS = 400"
definition PIVOT_BARS :: nat where "PIVOT_BARS = 1"

text \<open>\<open>Settings()\<close>: every field at its default, the working directory a parameter.\<close>

definition default_settings :: "string \<Rightarrow> settings" where
  "default_settings cwd =
     \<lparr>g_base_dir = cwd, g_log_level = ''INFO'', g_log_dir = ''logs'', g_manager_symbols = [],
      g_mt5_terminal_path = [], g_mt5_login = 0, g_mt5_password = [], g_mt5_server = [],
      g_mt5_timeout_ms = 60000, g_mt5_portable = False, g_mt5_profile = [],
      g_broker_time_offset_ms = 0, g_mt5_symbol_aliases = [], g_weekend_sleep_enabled = True,
      g_weekend_close_weekday = 5, g_weekend_close_time = (0, 0), g_weekend_reopen_weekday = 0,
      g_weekend_reopen_time = (0, 0), g_apex_env = ''paper'', g_apex_live_confirm = [],
      g_apex_disable_trading = False, g_tf_pairs = [(''1h'', ''5min'')], g_tf_entry_models = [],
      g_htf_lookback = LB_Int 120, g_htf_outputsize = 1000, g_stop_placement_method = ''wick'',
      g_max_sl_zone_mult = 2, g_max_spread_to_sl_ratio = 0.35, g_min_rr = 1.5, g_max_rr = 9,
      g_max_emit_lag_ms = 90000, g_tf_max_rr = [], g_symbol_rr_filter = [],
      g_signal_expiry_hours = 120, g_max_htf_zones_per_dir = 1, g_max_signal_count_per_zone = 1,
      g_use_trend_filter = True, g_tp1_trigger_pct = 50, g_tp1_close_pct = 0,
      g_move_sl_to_be_on_tp1 = True, g_trade_management_tf_overrides = [],
      g_use_invalidation = False, g_multi_tf_independent_positions = True,
      g_entry_model = ''crt'', g_crt_mode = ''previous_candle'',
      g_signal_price_source = ''candle_close'', g_use_displacement_filter = True,
      g_displacement_atr_period = 10, g_displacement_atr_mult = 1.2, g_tf_displacement_mult = [],
      g_max_consecutive_losses = 10, g_pause_after_streak_h = 10, g_use_session_filter = True,
      g_sessions = default_sessions\<rparr>"

section \<open>Accessors\<close>

definition dict_get :: "'v dict \<Rightarrow> string \<Rightarrow> 'v \<Rightarrow> 'v" where
  "dict_get m k dflt = (case map_of m k of None \<Rightarrow> dflt | Some v \<Rightarrow> v)"

text \<open>\<open>self.tf_pairs[0][0]\<close> raises \<open>IndexError\<close> on an empty tuple.\<close>

definition htf_interval :: "settings \<Rightarrow> string result" where
  "htf_interval s = (case g_tf_pairs s of [] \<Rightarrow> Inl IndexError | p # _ \<Rightarrow> Inr (fst p))"

definition ltf_interval :: "settings \<Rightarrow> string result" where
  "ltf_interval s = (case g_tf_pairs s of [] \<Rightarrow> Inl IndexError | p # _ \<Rightarrow> Inr (snd p))"

definition htf_minutes :: "settings \<Rightarrow> int result" where
  "htf_minutes s = bindR (htf_interval s) interval_to_minutes"

definition ltf_minutes :: "settings \<Rightarrow> int result" where
  "ltf_minutes s = bindR (ltf_interval s) interval_to_minutes"

definition resolve_htf_lookback :: "settings \<Rightarrow> string \<Rightarrow> string \<Rightarrow> int result" where
  "resolve_htf_lookback s htf ltf =
     (case g_htf_lookback s of
        LB_Int n \<Rightarrow> Inr n
      | LB_Map lb \<Rightarrow>
          if htf = ''*'' \<or> ltf = ''*'' then Inr (dict_get lb ''*'' 120)
          else bindR (tf_key htf ltf) (\<lambda>key. Inr (dict_get lb key (dict_get lb ''*'' 120))))"

definition rejection_stale_hours :: "string \<Rightarrow> real result" where
  "rejection_stale_hours ltf =
     bindR (interval_to_minutes ltf) (\<lambda>m. Inr (py_round 4 (of_int (m * 2) / 60)))"

definition entry_model_for :: "settings \<Rightarrow> string \<Rightarrow> string \<Rightarrow> string result" where
  "entry_model_for s htf ltf =
     bindR (tf_key htf ltf) (\<lambda>key. Inr (dict_get (g_tf_entry_models s) key (g_entry_model s)))"

definition displacement_mult_for :: "settings \<Rightarrow> string \<Rightarrow> string \<Rightarrow> real result" where
  "displacement_mult_for s htf ltf =
     bindR (tf_key htf ltf)
       (\<lambda>key. Inr (dict_get (g_tf_displacement_mult s) key (g_displacement_atr_mult s)))"

section \<open>Validation: \<open>__post_init__\<close>\<close>

definition require :: "bool \<Rightarrow> unit result" where
  "require ok = (if ok then Inr () else Inl ValueError)"

fun check_all :: "('a \<Rightarrow> unit result) \<Rightarrow> 'a list \<Rightarrow> unit result" where
  "check_all f [] = Inr ()"
| "check_all f (x # xs) = bindR (f x) (\<lambda>_. check_all f xs)"

definition check_pair :: "string \<times> string \<Rightarrow> unit result" where
  "check_pair p = bindR (interval_to_minutes (fst p)) (\<lambda>h.
     bindR (interval_to_minutes (snd p)) (\<lambda>l. require (l \<le> h)))"

text \<open>
  The loop over \<open>trade_management_tf_overrides.items()\<close>: \<open>override\<close> is the timeframe map of a
  symbol, so \<open>override.get("tp1_trigger_pct")\<close> looks the name up among the timeframe keys; were
  it there, comparing the mapping found with a float would raise \<open>TypeError\<close>.
\<close>

definition check_tm_override :: "string \<times> tm_override dict \<Rightarrow> unit result" where
  "check_tm_override kv =
     (if map_of (snd kv) ''tp1_trigger_pct'' \<noteq> None \<or> map_of (snd kv) ''tp1_close_pct'' \<noteq> None
      then Inl TypeError else Inr ())"

definition check_rr_entry :: "rr_entry \<Rightarrow> unit result" where
  "check_rr_entry e =
     bindR (require (case rre_min e of None \<Rightarrow> True | Some v \<Rightarrow> 0 < v))
       (\<lambda>_. require (case rre_max e of None \<Rightarrow> True | Some v \<Rightarrow> 0 \<le> v))"

definition post_init :: "settings \<Rightarrow> unit result" where
  "post_init s =
     bindR (check_all check_pair (g_tf_pairs s)) (\<lambda>_.
     bindR (require (g_entry_model s = ''crt'')) (\<lambda>_.
     bindR (check_all (\<lambda>kv. require (snd kv = ''crt'')) (g_tf_entry_models s)) (\<lambda>_.
     bindR (require (g_crt_mode s = ''previous_candle'')) (\<lambda>_.
     bindR (require (g_stop_placement_method s = ''wick'')) (\<lambda>_.
     bindR (require (1 \<le> g_max_signal_count_per_zone s)) (\<lambda>_.
     bindR (require (0 \<le> g_max_spread_to_sl_ratio s)) (\<lambda>_.
     bindR (require (g_apex_env s \<in> {''paper'', ''live''})) (\<lambda>_.
     bindR (require (\<not> (g_apex_env s = ''live'' \<and> g_apex_live_confirm s \<noteq> ''YES_I_ACCEPT_RISK''))) (\<lambda>_.
     bindR (require (\<not> (g_tp1_trigger_pct s \<le> 0 \<or> 100 \<le> g_tp1_trigger_pct s))) (\<lambda>_.
     bindR (require (\<not> (g_tp1_close_pct s < 0 \<or> 100 < g_tp1_close_pct s))) (\<lambda>_.
     bindR (check_all check_tm_override (g_trade_management_tf_overrides s)) (\<lambda>_.
     check_all (\<lambda>kv. check_all (\<lambda>kv'. check_rr_entry (snd kv')) (snd kv))
       (g_symbol_rr_filter s)))))))))))))"

section \<open>What validated settings guarantee\<close>

lemma require_ok [simp]: "require b = Inr u \<longleftrightarrow> b"
  by (simp add: require_def)

lemma require_True [simp]: "require True = Inr ()"
  by (simp add: require_def)

lemma check_all_ok: "check_all f xs = Inr u \<longleftrightarrow> (\<forall>x \<in> set xs. f x = Inr ())"
  by (induction xs) (auto simp: bindR_Inr_iff)

lemma check_pair_ok:
  "check_pair p = Inr u \<longleftrightarrow>
   (\<exists>h l. interval_to_minutes (fst p) = Inr h \<and> interval_to_minutes (snd p) = Inr l \<and> l \<le> h)"
  by (auto simp: check_pair_def bindR_Inr_iff)

lemma check_rr_entry_ok:
  "check_rr_entry e = Inr u \<longleftrightarrow>
   (\<forall>v. rre_min e = Some v \<longrightarrow> 0 < v) \<and> (\<forall>v. rre_max e = Some v \<longrightarrow> 0 \<le> v)"
  by (auto simp: check_rr_entry_def bindR_unit split: option.splits)

text \<open>
  settings that pass validation trade only supported modes, have every timeframe pair
  readable with the HTF at least the LTF, a zone cap of at least one signal, TP1 percentages in
  range, non-negative RR filters, and live trading only with the explicit confirmation.
\<close>

theorem post_init_guarantees:
  assumes "post_init s = Inr u"
  shows "(\<forall>(htf, ltf) \<in> set (g_tf_pairs s). \<exists>h l. interval_to_minutes htf = Inr h \<and>
      interval_to_minutes ltf = Inr l \<and> l \<le> h) \<and>
    g_entry_model s = ''crt'' \<and> g_crt_mode s = ''previous_candle'' \<and>
    g_stop_placement_method s = ''wick'' \<and> 1 \<le> g_max_signal_count_per_zone s \<and>
    0 \<le> g_max_spread_to_sl_ratio s \<and> g_apex_env s \<in> {''paper'', ''live''} \<and>
    (g_apex_env s = ''live'' \<longrightarrow> g_apex_live_confirm s = ''YES_I_ACCEPT_RISK'') \<and>
    0 < g_tp1_trigger_pct s \<and> g_tp1_trigger_pct s < 100 \<and>
    0 \<le> g_tp1_close_pct s \<and> g_tp1_close_pct s \<le> 100 \<and>
    (\<forall>(symbol, tfs) \<in> set (g_symbol_rr_filter s). \<forall>(tf, e) \<in> set tfs.
      (\<forall>v. rre_min e = Some v \<longrightarrow> 0 < v) \<and> (\<forall>v. rre_max e = Some v \<longrightarrow> 0 \<le> v))"
  using assms
  by (auto simp: post_init_def bindR_unit check_all_ok check_pair_ok check_rr_entry_ok not_le not_less
      simp del: One_nat_def)

theorem post_init_guarantees_witness:
  "post_init (default_settings []) = Inr () \<and> 0 < g_tp1_trigger_pct (default_settings []) \<and>
   1 \<le> g_max_signal_count_per_zone (default_settings [])"
proof -
  have "post_init (default_settings []) = Inr ()" by code_simp
  with post_init_guarantees [OF this] show ?thesis by blast
qed

lemma default_interval: "interval_to_minutes ''1h'' = Inr 60" "interval_to_minutes ''5min'' = Inr 5"
  by code_simp+

lemma default_settings_valid: "post_init (default_settings cwd) = Inr ()"
  by (simp add: post_init_def default_settings_def check_pair_ok bindR_unit default_interval)

text \<open>
  the range check of the per-timeframe trade-management overrides never looks at an override:
  settings stay accepted whatever percentages the overrides hold, as long as no timeframe key is
  spelled like a percentage key.
\<close>

theorem tm_overrides_unchecked:
  assumes "post_init s = Inr ()"
    and "\<forall>(symbol, tfs) \<in> set ovs. \<forall>(tf, ov) \<in> set tfs. tf \<noteq> ''tp1_trigger_pct'' \<and> tf \<noteq> ''tp1_close_pct''"
  shows "post_init (s\<lparr>g_trade_management_tf_overrides := ovs\<rparr>) = Inr ()"
proof -
  have "check_tm_override kv = Inr ()" if kv: "kv \<in> set ovs" for kv
  proof -
    have "map_of (snd kv) k = None" if "k = ''tp1_trigger_pct'' \<or> k = ''tp1_close_pct''" for k
      using assms(2) kv that by (fastforce simp: map_of_eq_None_iff)
    then show ?thesis by (simp add: check_tm_override_def)
  qed
  then have "check_all check_tm_override ovs = Inr ()" by (simp add: check_all_ok)
  then show ?thesis using assms(1) by (simp add: post_init_def bindR_unit)
qed

theorem tm_overrides_unchecked_witness:
  "post_init ((default_settings [])\<lparr>g_trade_management_tf_overrides :=
     [(''XAUUSD'', [(''60/5'', \<lparr>ov_tp1_trigger_pct = Some 150, ov_tp1_close_pct = None,
        ov_move_sl_to_be = None\<rparr>)])]\<rparr>) = Inr ()"
  by (rule tm_overrides_unchecked [OF default_settings_valid]) simp

text \<open>
  the effective HTF lookback of a pair is the pair's own entry, else the wildcard entry, else
  120, and a scalar setting is used for every pair.
\<close>

theorem resolve_htf_lookback_priority:
  assumes "g_htf_lookback s = LB_Map lb" "htf \<noteq> ''*''" "ltf \<noteq> ''*''" "tf_key htf ltf = Inr key"
  shows "resolve_htf_lookback s htf ltf =
    Inr (case map_of lb key of Some n \<Rightarrow> n
         | None \<Rightarrow> (case map_of lb ''*'' of Some n \<Rightarrow> n | None \<Rightarrow> 120))"
  using assms by (simp add: resolve_htf_lookback_def dict_get_def split: option.split)

theorem resolve_htf_lookback_priority_witness:
  "resolve_htf_lookback ((default_settings [])\<lparr>g_htf_lookback := LB_Map [(''*'', 90), (''60/5'', 60)]\<rparr>)
     ''1h'' ''5min'' = Inr 60"
  using resolve_htf_lookback_priority
    [of "(default_settings [])\<lparr>g_htf_lookback := LB_Map [(''*'', 90), (''60/5'', 60)]\<rparr>"
      "[(''*'', 90), (''60/5'', 60)]" "''1h''" "''5min''" "''60/5''"] tf_key_examples
  by simp

end
