(* ===== verification/Profiles.thy ===== *)
theory Profiles
  imports Settings
begin

text \<open>
  domain/assets/profiles.py: the asset class tables, the session filter and \<open>AssetRegistry\<close>,
  which resolves the parameters of one symbol and timeframe pair from the settings.
\<close>

record asset_profile =
  p_min_rr :: real
  p_max_rr :: real
  p_use_session_filter :: bool
  p_sessions :: "session_window dict"
  p_stop_placement :: string
  p_stop_buffer_pct :: real
  p_max_sl_zone_mult :: real
  p_tp1_trigger_pct :: real
  p_tp1_close_pct :: real
  p_move_sl_to_be_on_tp1 :: bool
  p_use_invalidation :: bool
  p_signal_expiry_hours :: real
  p_use_trend_filter :: bool
  p_htf_lookback :: int
  p_multi_tf_independent_positions :: bool
  p_signal_price_source :: string

section \<open>Symbols and classes\<close>

definition ASSET_CLASS_MAP :: "string dict" where
  "ASSET_CLASS_MAP = [(''XAUUSD'', ''COMMODITY''), (''XAGUSD'', ''COMMODITY'')]"

definition unslash :: "string \<Rightarrow> string" where
  "unslash s = filter (\<lambda>c. c \<noteq> CHR ''/'') s"

definition STRIP_MAP :: "string dict" where
  "STRIP_MAP = map (\<lambda>(k, _). (unslash k, k)) ASSET_CLASS_MAP"

definition normalize_symbol :: "string \<Rightarrow> string" where
  "normalize_symbol symbol = dict_get STRIP_MAP (unslash (upper symbol)) (upper symbol)"

definition get_asset_class :: "string \<Rightarrow> string" where
  "get_asset_class symbol = dict_get ASSET_CLASS_MAP (normalize_symbol symbol) ''FOREX''"

section \<open>Sessions\<close>

definition tokyo_window :: session_window where
  "tokyo_window = \<lparr>ses_start = (0, 0), ses_end = (8, 0), ses_enabled = True, ses_blocked = {}\<rparr>"

definition london_window :: session_window where
  "london_window = \<lparr>ses_start = (8, 0), ses_end = (16, 0), ses_enabled = True, ses_blocked = {9}\<rparr>"

definition new_york_window :: session_window where
  "new_york_window =
     \<lparr>ses_start = (16, 0), ses_end = (0, 0), ses_enabled = True, ses_blocked = {17, 19}\<rparr>"

definition SESSIONS_FOREX :: "session_window dict" where
  "SESSIONS_FOREX = [(''LONDON'', london_window), (''NEW_YORK'', new_york_window)]"

definition SESSIONS_COMMODITY :: "session_window dict" where
  "SESSIONS_COMMODITY =
     [(''TOKYO'', tokyo_window), (''LONDON'', london_window), (''NEW_YORK'', new_york_window)]"

definition SESSIONS_INDICES :: "session_window dict" where
  "SESSIONS_INDICES = [(''LONDON'', london_window), (''NEW_YORK'', new_york_window)]"

definition SESSIONS_ASIA_INDICES :: "session_window dict" where
  "SESSIONS_ASIA_INDICES = [(''TOKYO'', tokyo_window), (''LONDON'', london_window)]"

definition CLASS_SESSIONS :: "session_window dict dict" where
  "CLASS_SESSIONS =
     [(''FOREX'', SESSIONS_FOREX), (''COMMODITY'', SESSIONS_COMMODITY),
      (''INDICES'', SESSIONS_INDICES), (''ASIA_INDICES'', SESSIONS_ASIA_INDICES)]"

definition session_accepts :: "session_window \<Rightarrow> int \<Rightarrow> bool" where
  "session_accepts s hour \<longleftrightarrow>
     ses_enabled s \<and> hour \<notin> ses_blocked s \<and>
     (let sh = fst (ses_start s); eh = fst (ses_end s) in
      if eh = 0 then sh \<le> hour else sh \<le> hour \<and> hour < eh)"

definition in_session :: "asset_profile \<Rightarrow> ms \<Rightarrow> bool" where
  "in_session p ts_ms \<longleftrightarrow>
     \<not> p_use_session_filter p \<or>
     list_ex (\<lambda>(name, s). session_accepts s (utc_hour ts_ms)) (p_sessions p)"

section \<open>Overrides\<close>

text \<open>\<open>_CLASS_OVERRIDES\<close>: the \<open>max_rr\<close> of a class and, for some, its stop buffer.\<close>

definition CLASS_OVERRIDES :: "(real \<times> real option) dict" where
  "CLASS_OVERRIDES =
     [(''FOREX'', 2.5, None), (''COMMODITY'', 8, None), (''INDICES'', 8, None),
      (''ASIA_INDICES'', 8, None), (''CRYPTO'', 8, Some 0.02)]"

definition SYMBOL_OVERRIDES :: "(real \<times> real option) dict" where
  "SYMBOL_OVERRIDES = []"

definition apply_override :: "(real \<times> real option) option \<Rightarrow> asset_profile \<Rightarrow> asset_profile" where
  "apply_override ov p =
     (case ov of
        None \<Rightarrow> p
      | Some (m, b) \<Rightarrow>
          p\<lparr>p_max_rr := m,
            p_stop_buffer_pct := (case b of None \<Rightarrow> p_stop_buffer_pct p | Some x \<Rightarrow> x)\<rparr>)"

definition truthy_str :: "string option \<Rightarrow> bool" where
  "truthy_str o' = (case o' of None \<Rightarrow> False | Some s \<Rightarrow> s \<noteq> [])"

definition or_star :: "string option \<Rightarrow> string" where
  "or_star o' = (case o' of None \<Rightarrow> ''*'' | Some s \<Rightarrow> if s = [] then ''*'' else s)"

definition resolve_tf_max_rr :: "settings \<Rightarrow> string \<Rightarrow> string \<Rightarrow> real \<Rightarrow> real result" where
  "resolve_tf_max_rr cfg htf ltf fallback =
     bindR (tf_key htf ltf) (\<lambda>key. Inr (dict_get (g_tf_max_rr cfg) key fallback))"

definition empty_override :: tm_override where
  "empty_override = \<lparr>ov_tp1_trigger_pct = None, ov_tp1_close_pct = None, ov_move_sl_to_be = None\<rparr>"

text \<open>
  The candidate loop: an absent or empty symbol map, and an absent or empty entry, move on to
  the next candidate.
\<close>

fun first_override :: "tm_override dict dict \<Rightarrow> (string \<times> string) list \<Rightarrow> tm_override" where
  "first_override ovs [] = empty_override"
| "first_override ovs ((sy, tf) # rest) =
     (case map_of ovs sy of
        None \<Rightarrow> first_override ovs rest
      | Some m \<Rightarrow>
          (case map_of m tf of
             None \<Rightarrow> first_override ovs rest
           | Some e \<Rightarrow> if e = empty_override then first_override ovs rest else e))"

definition resolve_tf_trade_management ::
  "settings \<Rightarrow> string \<Rightarrow> string \<Rightarrow> string \<Rightarrow> tm_override result" where
  "resolve_tf_trade_management cfg sy htf ltf =
     (let overrides = g_trade_management_tf_overrides cfg in
      if overrides = [] then Inr empty_override
      else bindR (tf_key htf ltf) (\<lambda>key.
        Inr (first_override overrides [(sy, key), (sy, ''*''), (''*'', key), (''*'', ''*'')])))"

definition apply_tm_override :: "tm_override \<Rightarrow> asset_profile \<Rightarrow> asset_profile" where
  "apply_tm_override ov p =
     p\<lparr>p_tp1_trigger_pct := (case ov_tp1_trigger_pct ov of None \<Rightarrow> p_tp1_trigger_pct p | Some x \<Rightarrow> x),
       p_tp1_close_pct := (case ov_tp1_close_pct ov of None \<Rightarrow> p_tp1_close_pct p | Some x \<Rightarrow> x),
       p_move_sl_to_be_on_tp1 :=
         (case ov_move_sl_to_be ov of None \<Rightarrow> p_move_sl_to_be_on_tp1 p | Some x \<Rightarrow> x)\<rparr>"

text \<open>The loop of \<open>_resolve_symbol_rr\<close>: \<open>mn\<close> and \<open>mx\<close> are what has been found so far.\<close>

fun rr_walk ::
  "rr_entry dict dict \<Rightarrow> (string \<times> string) list \<Rightarrow> real option \<Rightarrow> real option \<Rightarrow> real option \<times> real option"
where
  "rr_walk filters [] mn mx = (mn, mx)"
| "rr_walk filters ((sy, tf) # rest) mn mx =
     (if mn \<noteq> None \<and> mx \<noteq> None then (mn, mx)
      else case map_of filters sy of
        None \<Rightarrow> rr_walk filters rest mn mx
      | Some m \<Rightarrow>
          (case map_of m tf of
             None \<Rightarrow> rr_walk filters rest mn mx
           | Some e \<Rightarrow>
               rr_walk filters rest (if mn = None then rre_min e else mn)
                 (if mx = None then rre_max e else mx)))"

definition rr_candidates :: "string \<Rightarrow> string option \<Rightarrow> (string \<times> string) list" where
  "rr_candidates sy tfk =
     (case tfk of
        None \<Rightarrow> [(sy, ''*''), (''*'', ''*'')]
      | Some k \<Rightarrow> [(sy, k), (sy, ''*''), (''*'', k), (''*'', ''*'')])"

definition resolve_symbol_rr ::
  "settings \<Rightarrow> string \<Rightarrow> string option \<Rightarrow> string option \<Rightarrow> real \<Rightarrow> real \<Rightarrow> (real \<times> real) result" where
  "resolve_symbol_rr cfg sy htf ltf current_min current_max =
     (let filters = g_symbol_rr_filter cfg in
      if filters = [] then Inr (current_min, current_max)
      else bindR
        (if truthy_str htf \<and> truthy_str ltf
         then bindR (tf_key (the htf) (the ltf)) (\<lambda>k. Inr (Some k)) else Inr None)
        (\<lambda>tfk. case rr_walk filters (rr_candidates sy tfk) None None of
           (mn, mx) \<Rightarrow> Inr (case mn of None \<Rightarrow> current_min | Some x \<Rightarrow> x,
                            case mx of None \<Rightarrow> current_max | Some x \<Rightarrow> x)))"

section \<open>The registry\<close>

definition base_profile :: "settings \<Rightarrow> int \<Rightarrow> asset_profile" where
  "base_profile cfg lookback =
     \<lparr>p_min_rr = g_min_rr cfg, p_max_rr = g_max_rr cfg,
      p_use_session_filter = g_use_session_filter cfg, p_sessions = g_sessions cfg,
      p_stop_placement = g_stop_placement_method cfg, p_stop_buffer_pct = STOP_BUFFER_PCT,
      p_max_sl_zone_mult = g_max_sl_zone_mult cfg, p_tp1_trigger_pct = g_tp1_trigger_pct cfg,
      p_tp1_close_pct = g_tp1_close_pct cfg, p_move_sl_to_be_on_tp1 = g_move_sl_to_be_on_tp1 cfg,
      p_use_invalidation = g_use_invalidation cfg, p_signal_expiry_hours = g_signal_expiry_hours cfg,
      p_use_trend_filter = g_use_trend_filter cfg, p_htf_lookback = lookback,
      p_multi_tf_independent_positions = g_multi_tf_independent_positions cfg,
      p_signal_price_source = g_signal_price_source cfg\<rparr>"

text \<open>Steps 2 to 4: class and symbol overrides, then the sessions of the class.\<close>

definition class_profile :: "settings \<Rightarrow> string \<Rightarrow> asset_profile \<Rightarrow> asset_profile" where
  "class_profile cfg symbol b =
     (let class_key = dict_get ASSET_CLASS_MAP symbol ''FOREX'' in
      (apply_override (map_of SYMBOL_OVERRIDES symbol)
         (apply_override (map_of CLASS_OVERRIDES class_key) b))
      \<lparr>p_sessions := dict_get CLASS_SESSIONS class_key (g_sessions cfg)\<rparr>)"

text \<open>Step 5: the timeframe-aware reward cap and trade management.\<close>

definition pair_profile ::
  "settings \<Rightarrow> string \<Rightarrow> string option \<Rightarrow> string option \<Rightarrow> asset_profile \<Rightarrow> asset_profile result" where
  "pair_profile cfg symbol htf ltf b =
     (if truthy_str htf \<and> truthy_str ltf
      then bindR (resolve_tf_max_rr cfg (the htf) (the ltf) (p_max_rr b)) (\<lambda>m.
           bindR (resolve_tf_trade_management cfg symbol (the htf) (the ltf)) (\<lambda>ov.
           Inr (apply_tm_override ov (b\<lparr>p_max_rr := m\<rparr>))))
      else Inr b)"

definition registry_get ::
  "settings \<Rightarrow> string \<Rightarrow> string option \<Rightarrow> string option \<Rightarrow> asset_profile result" where
  "registry_get cfg symbol0 htf ltf =
     (let symbol = normalize_symbol symbol0 in
      bindR (resolve_htf_lookback cfg (or_star htf) (or_star ltf)) (\<lambda>lb.
      bindR (pair_profile cfg symbol htf ltf (class_profile cfg symbol (base_profile cfg lb))) (\<lambda>b.
      bindR (resolve_symbol_rr cfg symbol htf ltf (p_min_rr b) (p_max_rr b)) (\<lambda>(mn, mx).
      Inr (b\<lparr>p_min_rr := mn, p_max_rr := mx\<rparr>)))))"

section \<open>Laws\<close>

lemma unslash_idem [simp]: "unslash (unslash s) = unslash s"
  by (simp add: unslash_def)

lemma class_map_upper: "(k, c) \<in> set ASSET_CLASS_MAP \<Longrightarrow> upper k = k \<and> unslash k = k"
  by (auto simp: ASSET_CLASS_MAP_def upper_def upper_char_def unslash_def Let_def)

lemma dict_get_cases: "dict_get m k dflt = dflt \<or> (k, dict_get m k dflt) \<in> set m"
  by (auto simp: dict_get_def split: option.split dest: map_of_SomeD)

lemma STRIP_MAP_eq: "STRIP_MAP = [(''XAUUSD'', ''XAUUSD''), (''XAGUSD'', ''XAGUSD'')]"
  by (simp add: STRIP_MAP_def ASSET_CLASS_MAP_def unslash_def)

text \<open>
  a symbol that is in the table in any spelling (slash or not, any case) is mapped to its
  table key; any other symbol is only upper-cased, slash included; normalising twice is
  normalising once.
\<close>

theorem normalize_symbol_spec:
  "normalize_symbol s =
     (if unslash (upper s) \<in> {''XAUUSD'', ''XAGUSD''} then unslash (upper s) else upper s) \<and>
   normalize_symbol (normalize_symbol s) = normalize_symbol s"
proof -
  have eq: "normalize_symbol u =
     (if unslash (upper u) \<in> {''XAUUSD'', ''XAGUSD''} then unslash (upper u) else upper u)" for u
    by (simp add: normalize_symbol_def STRIP_MAP_eq dict_get_def)
  have fix1: "upper ''XAUUSD'' = ''XAUUSD''" "upper ''XAGUSD'' = ''XAGUSD''"
    "unslash ''XAUUSD'' = ''XAUUSD''" "unslash ''XAGUSD'' = ''XAGUSD''"
    by code_simp+
  show ?thesis by (auto simp: eq fix1)
qed

lemma session_accepts_simps:
  "session_accepts tokyo_window h \<longleftrightarrow> 0 \<le> h \<and> h < 8"
  "session_accepts london_window h \<longleftrightarrow> 8 \<le> h \<and> h < 16 \<and> h \<noteq> 9"
  "session_accepts new_york_window h \<longleftrightarrow> 16 \<le> h \<and> h \<noteq> 17 \<and> h \<noteq> 19"
  by (auto simp: session_accepts_def tokyo_window_def london_window_def new_york_window_def)

lemmas class_table_defs = CLASS_SESSIONS_def SESSIONS_FOREX_def SESSIONS_COMMODITY_def
  SESSIONS_INDICES_def SESSIONS_ASIA_INDICES_def CLASS_OVERRIDES_def SYMBOL_OVERRIDES_def

lemma apply_tm_override_frame [simp]:
  "p_sessions (apply_tm_override ov p) = p_sessions p"
  "p_use_session_filter (apply_tm_override ov p) = p_use_session_filter p"
  "p_stop_buffer_pct (apply_tm_override ov p) = p_stop_buffer_pct p"
  "p_min_rr (apply_tm_override ov p) = p_min_rr p"
  "p_max_rr (apply_tm_override ov p) = p_max_rr p"
  by (simp_all add: apply_tm_override_def)

lemma apply_override_frame [simp]:
  "p_use_session_filter (apply_override ov p) = p_use_session_filter p"
  "p_min_rr (apply_override ov p) = p_min_rr p"
  by (simp_all add: apply_override_def split: option.split prod.split)

lemma pair_profile_frame:
  "pair_profile cfg symbol htf ltf b = Inr b' \<Longrightarrow>
   p_sessions b' = p_sessions b \<and> p_use_session_filter b' = p_use_session_filter b \<and>
   p_stop_buffer_pct b' = p_stop_buffer_pct b \<and> p_min_rr b' = p_min_rr b"
  by (auto simp: pair_profile_def bindR_Inr_iff split: if_splits)

lemma registry_get_frame:
  assumes "registry_get cfg s htf ltf = Inr p"
  shows "p_sessions p = dict_get CLASS_SESSIONS (get_asset_class s) (g_sessions cfg)"
    and "p_use_session_filter p = g_use_session_filter cfg"
proof -
  from assms obtain lb b where
    b: "pair_profile cfg (normalize_symbol s) htf ltf
          (class_profile cfg (normalize_symbol s) (base_profile cfg lb)) = Inr b"
    and p: "\<exists>mn mx. p = b\<lparr>p_min_rr := mn, p_max_rr := mx\<rparr>"
    by (auto simp: registry_get_def bindR_Inr_iff Let_def)
  show "p_sessions p = dict_get CLASS_SESSIONS (get_asset_class s) (g_sessions cfg)"
    using p pair_profile_frame [OF b] by (auto simp: class_profile_def Let_def get_asset_class_def)
  show "p_use_session_filter p = g_use_session_filter cfg"
    using p pair_profile_frame [OF b] by (auto simp: class_profile_def Let_def base_profile_def)
qed

text \<open>
  The percentages of a profile are in range when the settings are validated and the overrides per
  timeframe, which the validation does not reach (\<open>tm_overrides_unchecked\<close>), are in range as well.
\<close>

definition overrides_in_range :: "settings \<Rightarrow> bool" where
  "overrides_in_range cfg \<longleftrightarrow>
     (\<forall>(symbol, tfs) \<in> set (g_trade_management_tf_overrides cfg). \<forall>(tf, ov) \<in> set tfs.
        (\<forall>x. ov_tp1_trigger_pct ov = Some x \<longrightarrow> 0 < x \<and> x < 100) \<and>
        (\<forall>x. ov_tp1_close_pct ov = Some x \<longrightarrow> 0 \<le> x \<and> x \<le> 100))"

lemma first_override_cases:
  "first_override ovs cs = empty_override \<or>
   (\<exists>sy m tf. (sy, m) \<in> set ovs \<and> (tf, first_override ovs cs) \<in> set m)"
  by (induction ovs cs rule: first_override.induct) (auto split: option.splits, (meson map_of_SomeD)+)

lemma resolved_override_in_range:
  assumes "overrides_in_range cfg" "resolve_tf_trade_management cfg sy htf ltf = Inr ov"
  shows "(\<forall>x. ov_tp1_trigger_pct ov = Some x \<longrightarrow> 0 < x \<and> x < 100) \<and>
    (\<forall>x. ov_tp1_close_pct ov = Some x \<longrightarrow> 0 \<le> x \<and> x \<le> 100)"
proof -
  let ?ovs = "g_trade_management_tf_overrides cfg"
  have "ov = empty_override \<or> (\<exists>cs. ov = first_override ?ovs cs)"
    using assms(2) by (auto simp: resolve_tf_trade_management_def Let_def bindR_Inr_iff simp del: first_override.simps split: if_splits)
  then consider "ov = empty_override" | sy' m tf where "(sy', m) \<in> set ?ovs" "(tf, ov) \<in> set m"
    using first_override_cases [of ?ovs] by blast
  then show ?thesis
  proof cases
    case 1
    then show ?thesis by (simp add: empty_override_def)
  next
    case 2
    from bspec [OF assms(1) [unfolded overrides_in_range_def] 2(1)] 2(2) show ?thesis by fastforce
  qed
qed

lemma registry_pct_range:
  assumes "post_init cfg = Inr ()" "overrides_in_range cfg" "registry_get cfg s htf ltf = Inr p"
  shows "0 < p_tp1_trigger_pct p \<and> p_tp1_trigger_pct p < 100 \<and> 0 \<le> p_tp1_close_pct p \<and> p_tp1_close_pct p \<le> 100"
proof -
  have cfg: "0 < g_tp1_trigger_pct cfg" "g_tp1_trigger_pct cfg < 100" "0 \<le> g_tp1_close_pct cfg" "g_tp1_close_pct cfg \<le> 100"
    using post_init_guarantees [OF assms(1)] by simp_all
  have cls: "p_tp1_trigger_pct (class_profile cfg u (base_profile cfg lb)) = g_tp1_trigger_pct cfg"
    "p_tp1_close_pct (class_profile cfg u (base_profile cfg lb)) = g_tp1_close_pct cfg" for u lb
    by (simp_all add: class_profile_def Let_def apply_override_def base_profile_def split: option.split prod.split)
  from assms(3) obtain lb b mn mx where
    b: "pair_profile cfg (normalize_symbol s) htf ltf (class_profile cfg (normalize_symbol s) (base_profile cfg lb)) = Inr b"
    and p: "p = b\<lparr>p_min_rr := mn, p_max_rr := mx\<rparr>"
    by (auto simp: registry_get_def bindR_Inr_iff Let_def)
  have "0 < p_tp1_trigger_pct b \<and> p_tp1_trigger_pct b < 100 \<and> 0 \<le> p_tp1_close_pct b \<and> p_tp1_close_pct b \<le> 100"
    using b cfg resolved_override_in_range [OF assms(2)]
    by (auto simp: pair_profile_def bindR_Inr_iff cls apply_tm_override_def split: if_splits option.split)
  with p show ?thesis by simp
qed

text \<open>The profile of gold on 1h/5min under the default settings.\<close>

definition ex_profile :: asset_profile where
  "ex_profile =
     \<lparr>p_min_rr = 1.5, p_max_rr = 8, p_use_session_filter = True, p_sessions = SESSIONS_COMMODITY,
      p_stop_placement = ''wick'', p_stop_buffer_pct = 0.00001, p_max_sl_zone_mult = 2,
      p_tp1_trigger_pct = 50, p_tp1_close_pct = 0, p_move_sl_to_be_on_tp1 = True,
      p_use_invalidation = False, p_signal_expiry_hours = 120, p_use_trend_filter = True,
      p_htf_lookback = 120, p_multi_tf_independent_positions = True,
      p_signal_price_source = ''candle_close''\<rparr>"

lemma ex_profile_fields:
  "p_tp1_trigger_pct ex_profile = 50" "p_tp1_close_pct ex_profile = 0"
  "p_max_rr ex_profile = 8" "p_min_rr ex_profile = 1.5" "p_move_sl_to_be_on_tp1 ex_profile"
  by (simp_all add: ex_profile_def)

lemma ex_profile_registry:
  "registry_get (default_settings []) ''XAUUSD'' (Some ''1h'') (Some ''5min'') = Inr ex_profile"
  by code_simp

lemma asset_class_cases: "get_asset_class s = ''FOREX'' \<or> get_asset_class s = ''COMMODITY''"
  by (simp add: get_asset_class_def dict_get_def ASSET_CLASS_MAP_def)

text \<open>
  the trading hours of a resolved profile: when the filter is on, a metal trades at every UTC
  hour except 9, 17 and 19, and every other symbol at the hours from 8 except those three. The
  configured sessions play no part, whatever they are.
\<close>

theorem registry_trading_hours:
  assumes "registry_get cfg s htf ltf = Inr p"
  shows "in_session p t \<longleftrightarrow> \<not> g_use_session_filter cfg \<or>
    utc_hour t \<notin> {9, 17, 19} \<and> (get_asset_class s = ''COMMODITY'' \<or> 8 \<le> utc_hour t)"
proof -
  note f = registry_get_frame [OF assms]
  have h: "0 \<le> utc_hour t" using utc_hour_range by simp
  show ?thesis
  proof (cases "get_asset_class s = ''COMMODITY''")
    case True
    then have "p_sessions p = SESSIONS_COMMODITY"
      using f(1) by (simp add: CLASS_SESSIONS_def dict_get_def)
    then show ?thesis
      using True f(2) h by (auto simp: in_session_def SESSIONS_COMMODITY_def session_accepts_simps)
  next
    case False
    then have "p_sessions p = SESSIONS_FOREX"
      using f(1) asset_class_cases [of s] by (simp add: CLASS_SESSIONS_def dict_get_def)
    then show ?thesis
      using False f(2) h by (auto simp: in_session_def SESSIONS_FOREX_def session_accepts_simps)
  qed
qed

theorem registry_trading_hours_witness:
  "registry_get (default_settings []) ''XAUUSD'' (Some ''1h'') (Some ''5min'') = Inr ex_profile \<and>
   in_session ex_profile 3600000 \<and> \<not> in_session ex_profile (9 * 3600000)"
proof -
  have "g_use_session_filter (default_settings [])" "get_asset_class ''XAUUSD'' = ''COMMODITY''"
    by code_simp+
  then show ?thesis
    using registry_trading_hours [OF ex_profile_registry] ex_profile_registry
    by (simp add: utc_hour_def)
qed

text \<open>What a candidate contributes to the RR filter, and the first that contributes.\<close>

definition rr_lookup :: "rr_entry dict dict \<Rightarrow> (rr_entry \<Rightarrow> real option) \<Rightarrow> string \<times> string \<Rightarrow> real option" where
  "rr_lookup filters field c =
     Option.bind (map_of filters (fst c)) (\<lambda>m. Option.bind (map_of m (snd c)) field)"

fun first_some :: "('a \<Rightarrow> 'b option) \<Rightarrow> 'a list \<Rightarrow> 'b option" where
  "first_some f [] = None"
| "first_some f (x # xs) = (case f x of None \<Rightarrow> first_some f xs | Some y \<Rightarrow> Some y)"

lemma rr_walk_first:
  "rr_walk filters cs mn mx =
   ((case mn of None \<Rightarrow> first_some (rr_lookup filters rre_min) cs | Some x \<Rightarrow> Some x),
    (case mx of None \<Rightarrow> first_some (rr_lookup filters rre_max) cs | Some x \<Rightarrow> Some x))"
proof (induction cs arbitrary: mn mx)
  case (Cons c cs)
  obtain sy tf where c: "c = (sy, tf)" by (cases c)
  show ?case
    by (cases mn; cases mx; cases "map_of filters sy"; cases "map_of (the (map_of filters sy)) tf")
      (simp_all add: c Cons.IH rr_lookup_def split: option.splits)
qed (simp split: option.split)

text \<open>
  the RR filter resolves the minimum and the maximum independently, each from the most
  specific entry that sets it: symbol and pair, then symbol, then pair, then global, and the
  inherited value when no entry sets it.
\<close>

theorem resolve_symbol_rr_priority:
  assumes "resolve_symbol_rr cfg sy (Some htf) (Some ltf) mn mx = Inr (mn', mx')"
    and "htf \<noteq> []" "ltf \<noteq> []" "tf_key htf ltf = Inr k"
  shows "mn' = (case first_some (rr_lookup (g_symbol_rr_filter cfg) rre_min)
                  [(sy, k), (sy, ''*''), (''*'', k), (''*'', ''*'')] of None \<Rightarrow> mn | Some x \<Rightarrow> x) \<and>
    mx' = (case first_some (rr_lookup (g_symbol_rr_filter cfg) rre_max)
                  [(sy, k), (sy, ''*''), (''*'', k), (''*'', ''*'')] of None \<Rightarrow> mx | Some x \<Rightarrow> x)"
proof (cases "g_symbol_rr_filter cfg = []")
  case True
  then show ?thesis using assms(1) by (simp add: resolve_symbol_rr_def rr_lookup_def)
next
  case False
  then show ?thesis
    using assms by (simp add: resolve_symbol_rr_def truthy_str_def rr_candidates_def Let_def rr_walk_first
        del: first_some.simps)
qed

theorem resolve_symbol_rr_priority_witness:
  "resolve_symbol_rr ((default_settings [])\<lparr>g_symbol_rr_filter :=
      [(''XAUUSD'', [(''60/5'', \<lparr>rre_min = Some 2, rre_max = None\<rparr>)]),
       (''*'', [(''*'', \<lparr>rre_min = Some 1, rre_max = Some 5\<rparr>)])]\<rparr>)
      ''XAUUSD'' (Some ''1h'') (Some ''5min'') 3 9 = Inr (2, 5) \<and>
   (2::real) = (case first_some (rr_lookup
      [(''XAUUSD'', [(''60/5'', \<lparr>rre_min = Some 2, rre_max = None\<rparr>)]),
       (''*'', [(''*'', \<lparr>rre_min = Some 1, rre_max = Some 5\<rparr>)])] rre_min)
      [(''XAUUSD'', ''60/5''), (''XAUUSD'', ''*''), (''*'', ''60/5''), (''*'', ''*'')] of
      None \<Rightarrow> 3 | Some x \<Rightarrow> x)"
  (is "resolve_symbol_rr ?c _ _ _ _ _ = _ \<and> _")
proof -
  have r: "resolve_symbol_rr ?c ''XAUUSD'' (Some ''1h'') (Some ''5min'') 3 9 = Inr (2, 5)"
    by code_simp
  show ?thesis
    using resolve_symbol_rr_priority [OF r, of "''60/5''"] tf_key_examples r by simp
qed

text \<open>
  the registry never reads the configured \<open>sessions\<close> or the global \<open>max_rr\<close>: the table of the
  asset class, FOREX for an unknown symbol, always replaces them.
\<close>

theorem registry_ignores_config_sessions:
  "registry_get (cfg\<lparr>g_sessions := ses, g_max_rr := m\<rparr>) s htf ltf = registry_get cfg s htf ltf"
proof -
  have known: "dict_get ASSET_CLASS_MAP u ''FOREX'' \<in> {''FOREX'', ''COMMODITY''}" for u
    by (simp add: dict_get_def ASSET_CLASS_MAP_def)
  have cls: "class_profile (cfg\<lparr>g_sessions := ses, g_max_rr := m\<rparr>) u
       (base_profile (cfg\<lparr>g_sessions := ses, g_max_rr := m\<rparr>) lb) =
     class_profile cfg u (base_profile cfg lb)" for u lb
    using known [of u]
    by (auto simp: class_profile_def Let_def base_profile_def apply_override_def CLASS_SESSIONS_def
        CLASS_OVERRIDES_def SYMBOL_OVERRIDES_def dict_get_def)
  have lb: "resolve_htf_lookback (cfg\<lparr>g_sessions := ses, g_max_rr := m\<rparr>) h l = resolve_htf_lookback cfg h l"
    for h l by (simp add: resolve_htf_lookback_def)
  have pp: "pair_profile (cfg\<lparr>g_sessions := ses, g_max_rr := m\<rparr>) u h l b = pair_profile cfg u h l b"
    for u h l b
    by (simp add: pair_profile_def resolve_tf_max_rr_def resolve_tf_trade_management_def)
  have rr: "resolve_symbol_rr (cfg\<lparr>g_sessions := ses, g_max_rr := m\<rparr>) u h l a b =
      resolve_symbol_rr cfg u h l a b" for u h l a b
    by (simp add: resolve_symbol_rr_def)
  show ?thesis by (simp add: registry_get_def Let_def cls lb pp rr)
qed

end
