(* ===== verification/Rejection.thy ===== *)
theory Rejection
  imports Entities
begin

text \<open>
  domain/market/rejection.py: the candle-range-theory (CRT) trigger and its score, with
  domain/signals/entry.py, which dispatches to it.
\<close>

record rejection_score =
  rs_wick_penetration :: real
  rs_close_proximity :: real
  rs_wick_ratio :: real
  rs_total :: real

definition score_compute :: "real \<Rightarrow> real \<Rightarrow> real \<Rightarrow> rejection_score" where
  "score_compute wp cp wr =
     \<lparr>rs_wick_penetration = wp, rs_close_proximity = cp, rs_wick_ratio = wr,
      rs_total = wp * 0.5 + wr * 0.3 + cp * 0.2\<rparr>"

definition inside_htf :: "candle \<Rightarrow> htf_zone \<Rightarrow> bool" where
  "inside_htf c z \<longleftrightarrow> c_low c \<le> z_range_high z \<and> z_range_low z \<le> c_high c"

definition eps8 :: real where
  "eps8 = 1 / 10 ^ 8"

definition mk_rejection :: "candle \<Rightarrow> real \<Rightarrow> candle_pattern \<Rightarrow> rejection" where
  "mk_rejection c wr pat =
     \<lparr>r_open = c_open c, r_high = c_high c, r_low = c_low c, r_close = c_close c,
      r_timestamp = c_timestamp c, r_wick_ratio = wr, r_pattern = pat\<rparr>"

definition crt_sell :: "candle \<Rightarrow> price \<Rightarrow> (rejection \<times> rejection_score) option" where
  "crt_sell c level =
     (if c_high c \<le> level then None
      else if level \<le> c_close c then None
      else let range = total_range c;
               sweep_wick = c_high c - max (c_open c) (c_close c);
               wick_ratio = (if eps8 < range then sweep_wick / range else 0);
               zone_size = c_high c - level
           in if zone_size < eps8 then None
              else let wick_penetration = zone_size / zone_size;
                       close_proximity = (if eps8 < range then (level - c_close c) / range else 0)
                   in Some (mk_rejection c wick_ratio CRT_SELL,
                            score_compute wick_penetration close_proximity wick_ratio))"

definition crt_buy :: "candle \<Rightarrow> price \<Rightarrow> (rejection \<times> rejection_score) option" where
  "crt_buy c level =
     (if level \<le> c_low c then None
      else if c_close c \<le> level then None
      else let range = total_range c;
               sweep_wick = min (c_open c) (c_close c) - c_low c;
               wick_ratio = (if eps8 < range then sweep_wick / range else 0);
               zone_size = level - c_low c
           in if zone_size < eps8 then None
              else let wick_penetration = zone_size / zone_size;
                       close_proximity = (if eps8 < range then (c_close c - level) / range else 0)
                   in Some (mk_rejection c wick_ratio CRT_BUY,
                            score_compute wick_penetration close_proximity wick_ratio))"

definition crt_check ::
  "candle \<Rightarrow> candle \<Rightarrow> signal_direction \<Rightarrow> htf_zone option \<Rightarrow> (rejection \<times> rejection_score) option" where
  "crt_check c prev d htf =
     (if (case htf of None \<Rightarrow> False | Some z \<Rightarrow> \<not> inside_htf c z) then None
      else if d = SHORT then crt_sell c (c_high prev)
      else crt_buy c (c_low prev))"

text \<open>The loop \<open>for i in range(len(candles) - 1, 0, -1)\<close>.\<close>

fun crt_scan ::
  "candle list \<Rightarrow> signal_direction \<Rightarrow> htf_zone option \<Rightarrow> nat \<Rightarrow> (rejection \<times> rejection_score) option" where
  "crt_scan cs d htf 0 = None"
| "crt_scan cs d htf (Suc i) =
     (case crt_check (cs ! Suc i) (cs ! i) d htf of
        Some r \<Rightarrow> Some r
      | None \<Rightarrow> crt_scan cs d htf i)"

definition find_most_recent ::
  "candle list \<Rightarrow> signal_direction \<Rightarrow> htf_zone option \<Rightarrow> (rejection \<times> rejection_score) option" where
  "find_most_recent cs d htf = crt_scan cs d htf (length cs - 1)"

definition find_entry ::
  "candle list \<Rightarrow> signal_direction \<Rightarrow> htf_zone \<Rightarrow> (rejection \<times> rejection_score) option" where
  "find_entry ltf_zone d htf = find_most_recent ltf_zone d (Some htf)"

section \<open>A worked example\<close>

text \<open>A demand zone and a candle that sweeps below the previous low and closes back above.\<close>

definition ex_demand :: htf_zone where
  "ex_demand =
     \<lparr>z_range_high = 104, z_range_low = 100, z_bos_direction = BULLISH, z_timestamp = 36000000,
      z_broken_at = 39600000, z_tp_level = 112, z_htf_candle_open = 36000000,
      z_htf_candle_close = 39600000\<rparr>"

definition ex_prev :: candle where
  "ex_prev = mk_candle 43200000 104 105 103 104"

definition ex_sweep :: candle where
  "ex_sweep = mk_candle 43500000 104 105 102 104"

definition ex_rejection :: rejection where
  "ex_rejection =
     \<lparr>r_open = 104, r_high = 105, r_low = 102, r_close = 104, r_timestamp = 43500000,
      r_wick_ratio = 2/3, r_pattern = CRT_BUY\<rparr>"

lemma ex_entry:
  "find_entry [ex_prev, ex_sweep] LONG ex_demand =
   Some (ex_rejection, score_compute 1 (1/3) (2/3))"
  by code_simp

section \<open>What a trigger says\<close>

lemmas crt_defs = crt_check_def crt_sell_def crt_buy_def Let_def mk_rejection_def score_compute_def

lemma eps8_pos: "0 < eps8"
  by (simp add: eps8_def)

text \<open>The candle swept the level by at least \<open>eps8\<close> and closed back on the other side.\<close>

definition sweeps_back :: "candle \<Rightarrow> candle \<Rightarrow> signal_direction \<Rightarrow> bool" where
  "sweeps_back c prev d =
     (case d of
        SHORT \<Rightarrow> c_high prev + eps8 \<le> c_high c \<and> c_close c < c_high prev
      | LONG \<Rightarrow> c_low c + eps8 \<le> c_low prev \<and> c_low prev < c_close c)"

lemma crt_check_None:
  "crt_check c prev d htf = None \<longleftrightarrow>
     \<not> sweeps_back c prev d \<or> (\<exists>z. htf = Some z \<and> \<not> inside_htf c z)"
  using eps8_pos
  by (cases d) (auto simp: crt_defs sweeps_back_def split: option.splits)

lemma crt_check_Some:
  assumes "crt_check c prev d htf = Some (r, s)"
  shows "r_open r = c_open c \<and> r_high r = c_high c \<and> r_low r = c_low c \<and> r_close r = c_close c \<and>
    r_timestamp r = c_timestamp c \<and> r_pattern r = (if d = SHORT then CRT_SELL else CRT_BUY) \<and>
    wick_tip r = (if d = SHORT then c_high c else c_low c) \<and> rs_wick_ratio s = r_wick_ratio r"
  using assms by (cases d) (auto simp: crt_defs wick_tip_def split: option.splits if_splits)

lemma crt_scan_None:
  "crt_scan cs d htf n = None \<longleftrightarrow> (\<forall>i < n. crt_check (cs ! Suc i) (cs ! i) d htf = None)"
  by (induction n) (auto simp: less_Suc_eq split: option.splits)

lemma crt_scan_Some:
  "crt_scan cs d htf n = Some r \<longleftrightarrow>
   (\<exists>i < n. crt_check (cs ! Suc i) (cs ! i) d htf = Some r \<and>
      (\<forall>j < n. i < j \<longrightarrow> crt_check (cs ! Suc j) (cs ! j) d htf = None))"
proof (induction n)
  case (Suc n)
  show ?case
  proof (cases "crt_check (cs ! Suc n) (cs ! n) d htf")
    case None
    then show ?thesis using Suc.IH by (auto simp: less_Suc_eq)
  next
    case (Some r')
    then show ?thesis by (auto simp: less_Suc_eq intro: exI [of _ n])
  qed
qed simp

lemma find_entry_candle:
  "find_entry cs d z = Some (r, sc) \<Longrightarrow> \<exists>c \<in> set cs. r_timestamp r = c_timestamp c"
  unfolding find_entry_def find_most_recent_def crt_scan_Some
  by (auto dest!: crt_check_Some intro: nth_mem)

text \<open>
  the entry is the most recent qualifying candle: it touches the zone, it swept the previous
  candle's extreme by at least 1e-8 and closed back inside, no later candle qualifies, and the
  returned rejection is that candle. No entry means that no candle qualifies.
\<close>

theorem find_entry_spec:
  "(case find_entry cs d z of
      None \<Rightarrow> \<forall>i. Suc i < length cs \<longrightarrow>
        \<not> (sweeps_back (cs ! Suc i) (cs ! i) d \<and> inside_htf (cs ! Suc i) z)
    | Some (r, s) \<Rightarrow> \<exists>i. Suc i < length cs \<and>
        sweeps_back (cs ! Suc i) (cs ! i) d \<and> inside_htf (cs ! Suc i) z \<and>
        r_timestamp r = c_timestamp (cs ! Suc i) \<and> r_close r = c_close (cs ! Suc i) \<and>
        wick_tip r = (if d = SHORT then c_high (cs ! Suc i) else c_low (cs ! Suc i)) \<and>
        (\<forall>j. i < j \<and> Suc j < length cs \<longrightarrow>
          \<not> (sweeps_back (cs ! Suc j) (cs ! j) d \<and> inside_htf (cs ! Suc j) z)))"
proof (cases "find_entry cs d z")
  case None
  have "\<forall>i < length cs - 1. crt_check (cs ! Suc i) (cs ! i) d (Some z) = None"
    using None by (simp only: find_entry_def find_most_recent_def crt_scan_None)
  then show ?thesis
    unfolding None option.case by (auto simp: crt_check_None less_diff_conv)
next
  case (Some p)
  obtain r s where p: "p = (r, s)" by (cases p)
  from Some p obtain i where i: "i < length cs - 1"
    and hit: "crt_check (cs ! Suc i) (cs ! i) d (Some z) = Some (r, s)"
    and later: "\<forall>j < length cs - 1. i < j \<longrightarrow> crt_check (cs ! Suc j) (cs ! j) d (Some z) = None"
    unfolding find_entry_def find_most_recent_def crt_scan_Some by auto
  have "crt_check (cs ! Suc i) (cs ! i) d (Some z) \<noteq> None" using hit by simp
  then have ok: "sweeps_back (cs ! Suc i) (cs ! i) d \<and> inside_htf (cs ! Suc i) z"
    unfolding crt_check_None by simp
  show ?thesis
    unfolding Some p option.case prod.case
    using i ok later crt_check_Some [OF hit]
    by (intro exI [of _ i]) (simp add: crt_check_None less_diff_conv)
qed

theorem find_entry_spec_witness:
  "\<exists>i. Suc i < length [ex_prev, ex_sweep] \<and>
     sweeps_back ([ex_prev, ex_sweep] ! Suc i) ([ex_prev, ex_sweep] ! i) LONG \<and>
     r_timestamp ex_rejection = c_timestamp ([ex_prev, ex_sweep] ! Suc i)"
  using find_entry_spec [of "[ex_prev, ex_sweep]" LONG ex_demand] unfolding ex_entry by auto

text \<open>
  on well-formed candles the score components of a trigger lie in their ranges: penetration is
  1, wick ratio and close proximity lie in [0, 1] and the total in [0.5, 1].
\<close>

theorem crt_check_score_bounds:
  assumes "wf_candle c" "wf_candle prev" "crt_check c prev d htf = Some (r, s)"
  shows "rs_wick_penetration s = 1 \<and> 0 \<le> rs_wick_ratio s \<and> rs_wick_ratio s \<le> 1 \<and>
    0 \<le> rs_close_proximity s \<and> rs_close_proximity s \<le> 1 \<and>
    0.5 \<le> rs_total s \<and> rs_total s \<le> 1"
proof -
  have comp: "rs_total s = rs_wick_penetration s * 0.5 + rs_wick_ratio s * 0.3 + rs_close_proximity s * 0.2"
    using assms(3) by (cases d) (auto simp: crt_defs split: option.splits if_splits)
  have one: "rs_wick_penetration s = 1"
    using assms(3) eps8_pos by (cases d) (auto simp: crt_defs split: option.splits if_splits)
  have wr: "0 \<le> rs_wick_ratio s \<and> rs_wick_ratio s \<le> 1"
    using assms(1,3) eps8_pos
    by (cases d) (auto simp: crt_defs wf_candle_def total_range_def divide_simps
        split: option.splits if_splits)
  have cp: "0 \<le> rs_close_proximity s \<and> rs_close_proximity s \<le> 1"
    using assms eps8_pos
    by (cases d) (auto simp: crt_defs wf_candle_def total_range_def divide_simps
        split: option.splits if_splits)
  show ?thesis using comp one wr cp by simp
qed

theorem crt_check_score_bounds_witness:
  "crt_check ex_sweep ex_prev LONG (Some ex_demand) = Some (ex_rejection, score_compute 1 (1/3) (2/3)) \<and>
   0.5 \<le> rs_total (score_compute 1 (1/3) (2/3)) \<and> rs_total (score_compute 1 (1/3) (2/3)) \<le> 1"
proof -
  have c: "crt_check ex_sweep ex_prev LONG (Some ex_demand) = Some (ex_rejection, score_compute 1 (1/3) (2/3))"
    by code_simp
  have "wf_candle ex_sweep" "wf_candle ex_prev" by code_simp+
  then show ?thesis using crt_check_score_bounds [OF _ _ c] c by blast
qed

end
