(* ===== verification/Dedup.thy ===== *)
theory Dedup
  imports Rejection "HOL-Library.AList" "HOL-Library.Multiset"
begin

text \<open>
  domain/signals/dedup.py: the deduplication state and its rules. The reason of a refusal, a
  formatted message in the source, is a value of \<open>emit_reason\<close> that keeps its data;
  \<open>reason_head\<close> is the text of the message before its first colon, which is all the engine ever
  parses.
\<close>

section \<open>State and keys\<close>

type_synonym zone_key = "string \<times> string \<times> string \<times> ms \<times> string"
type_synonym rej_key = "string \<times> string \<times> string \<times> ms"
type_synonym dir_key = "string \<times> string \<times> string \<times> string"

text \<open>\<open>open_dir\<close> keeps its insertion order, which the statistics list.\<close>

record dedup_state =
  ds_dead_zones :: "zone_key set"
  ds_zone_counts :: "zone_key \<Rightarrow> int option"
  ds_open_dir :: "(dir_key \<times> ms option) list"
  ds_seen_rej :: "rej_key set"

definition empty_dedup :: dedup_state where
  "empty_dedup =
     \<lparr>ds_dead_zones = {}, ds_zone_counts = (\<lambda>_. None), ds_open_dir = [], ds_seen_rej = {}\<rparr>"

text \<open>\<open>htf_interval or ""\<close> on a string is the string.\<close>

definition dedup_keys ::
  "string \<Rightarrow> string \<Rightarrow> string \<Rightarrow> ms \<Rightarrow> ms \<Rightarrow> string \<Rightarrow> zone_key \<times> rej_key" where
  "dedup_keys symbol htf ltf htf_ts rej_ts direction =
     ((symbol, str_or htf [], str_or ltf [], htf_ts, direction),
      (symbol, str_or htf [], str_or ltf [], rej_ts))"

definition zone_count :: "dedup_state \<Rightarrow> zone_key \<Rightarrow> int" where
  "zone_count st k = (case ds_zone_counts st k of None \<Rightarrow> 0 | Some n \<Rightarrow> n)"

definition dir_key_of :: "bool \<Rightarrow> string \<Rightarrow> string \<Rightarrow> string \<Rightarrow> string \<Rightarrow> dir_key" where
  "dir_key_of multi symbol dir htf ltf =
     (if multi then (symbol, dir, htf, ltf) else (symbol, dir, [], []))"

section \<open>Operations\<close>

definition count_zone :: "zone_key \<Rightarrow> int \<Rightarrow> dedup_state \<Rightarrow> dedup_state" where
  "count_zone zk cap st =
     (let n = zone_count st zk + 1 in
      st\<lparr>ds_zone_counts := (ds_zone_counts st)(zk \<mapsto> n),
         ds_dead_zones := (if cap \<le> n then insert zk (ds_dead_zones st) else ds_dead_zones st)\<rparr>)"

definition replay_record :: "int \<Rightarrow> closed_record \<Rightarrow> dedup_state \<Rightarrow> dedup_state" where
  "replay_record cap rec st =
     (case dedup_keys (cr_symbol rec) (cr_htf_interval rec) (cr_ltf_interval rec) (cr_htf_ts rec)
             (cr_rej_ts rec) (cr_direction rec) of
        (zk, rk) \<Rightarrow>
          let st1 = count_zone zk cap st in
          if cr_rej_ts rec = 0 then st1 else st1\<lparr>ds_seen_rej := insert rk (ds_seen_rej st1)\<rparr>)"

definition dedup_replay :: "closed_record list \<Rightarrow> int \<Rightarrow> dedup_state \<Rightarrow> dedup_state" where
  "dedup_replay recs cap st = fold (replay_record cap) recs st"

definition dedup_register ::
  "string \<Rightarrow> signal_direction \<Rightarrow> htf_zone \<Rightarrow> rejection \<Rightarrow> string \<Rightarrow> string \<Rightarrow> bool \<Rightarrow> int \<Rightarrow>
   dedup_state \<Rightarrow> int \<times> dedup_state" where
  "dedup_register symbol d z r htf ltf multi cap st =
     (case dedup_keys symbol htf ltf (z_timestamp z) (r_timestamp r) (direction_value d) of
        (zk, rk) \<Rightarrow>
          let attempt = zone_count st zk + 1;
              st1 = count_zone zk cap st;
              st2 = st1\<lparr>ds_seen_rej := insert rk (ds_seen_rej st1)\<rparr>
          in (attempt,
              st2\<lparr>ds_open_dir :=
                    AList.update (dir_key_of multi symbol (direction_value d) htf ltf) None
                      (ds_open_dir st2)\<rparr>))"

definition release_direction ::
  "string \<Rightarrow> string \<Rightarrow> string \<Rightarrow> string \<Rightarrow> bool \<Rightarrow> dedup_state \<Rightarrow> dedup_state" where
  "release_direction symbol dir htf ltf multi st =
     st\<lparr>ds_open_dir := AList.delete (dir_key_of multi symbol dir htf ltf) (ds_open_dir st)\<rparr>"

definition is_direction_open ::
  "string \<Rightarrow> signal_direction \<Rightarrow> string \<Rightarrow> string \<Rightarrow> bool \<Rightarrow> dedup_state \<Rightarrow> bool" where
  "is_direction_open symbol d htf ltf multi st \<longleftrightarrow>
     dir_key_of multi symbol (direction_value d) htf ltf \<in> fst ` set (ds_open_dir st)"

section \<open>The gate\<close>

datatype emit_reason =
    R_Allowed
  | R_ZoneLimit string int int ms
  | R_Stale string real real
  | R_SeenRej string ms
  | R_Paused int
  | R_PositionOpen string signal_direction

text \<open>The UTF-8 bytes of the dash in the pause message.\<close>

definition em_dash :: string where
  "em_dash = [CHR 0xE2, CHR 0x80, CHR 0x94]"

fun reason_head :: "emit_reason \<Rightarrow> string" where
  "reason_head R_Allowed = []"
| "reason_head (R_ZoneLimit sy n m t) = ''A''"
| "reason_head (R_Stale sy age mx) = ''D''"
| "reason_head (R_SeenRej sy t) = ''E''"
| "reason_head (R_Paused mins) =
     ''PAUSED after loss streak '' @ em_dash @ '' '' @ show_int mins @ ''min remaining''"
| "reason_head (R_PositionOpen sy d) =
     takeWhile (\<lambda>c. c \<noteq> CHR '':'') (''POSITION OPEN on '' @ sy @ '' '' @ direction_value d)"

record dedup_result =
  dr_allowed :: bool
  dr_reason :: emit_reason

definition dedup_should_emit ::
  "dedup_state \<Rightarrow> htf_zone \<Rightarrow> rejection \<Rightarrow> signal_direction \<Rightarrow> string \<Rightarrow> ms \<Rightarrow> real \<Rightarrow> string \<Rightarrow> string \<Rightarrow>
   int \<Rightarrow> dedup_result" where
  "dedup_should_emit st z r d symbol current_ts stale_hours htf ltf cap =
     (case dedup_keys symbol htf ltf (z_timestamp z) (r_timestamp r) (direction_value d) of
        (zk, rk) \<Rightarrow>
          if zk \<in> ds_dead_zones st \<or> cap \<le> zone_count st zk
          then \<lparr>dr_allowed = False,
                dr_reason = R_ZoneLimit symbol (zone_count st zk) cap (z_timestamp z)\<rparr>
          else if stale_hours * 3600000 < of_int (current_ts - r_timestamp r)
          then \<lparr>dr_allowed = False,
                dr_reason = R_Stale symbol (of_int (current_ts - r_timestamp r) / 3600000) stale_hours\<rparr>
          else if rk \<in> ds_seen_rej st
          then \<lparr>dr_allowed = False, dr_reason = R_SeenRej symbol (r_timestamp r)\<rparr>
          else \<lparr>dr_allowed = True, dr_reason = R_Allowed\<rparr>)"

section \<open>Emission gates\<close>

text \<open>
  The contract of a gate with a memory, whoever keeps it: what a commit adds to the count of a
  zone, that an admitted candidate has a fresh rejection key and a zone below the cap, and that
  both memories only grow.
\<close>

locale emission_gate =
  fixes allowed :: "'s \<Rightarrow> 'e \<Rightarrow> bool"
    and commit :: "'s \<Rightarrow> 'e \<Rightarrow> 's"
    and rej :: "'e \<Rightarrow> 'r"
    and zone :: "'e \<Rightarrow> 'z"
    and seen :: "'s \<Rightarrow> 'r \<Rightarrow> bool"
    and used :: "'s \<Rightarrow> 'z \<Rightarrow> int"
    and cap :: int
  assumes allowed_fresh: "allowed s e \<Longrightarrow> \<not> seen s (rej e)"
    and allowed_below: "allowed s e \<Longrightarrow> used s (zone e) < cap"
    and commit_seen: "seen (commit s e) r \<longleftrightarrow> seen s r \<or> r = rej e"
    and commit_used: "used (commit s e) z = used s z + (if z = zone e then 1 else 0)"
begin

text \<open>Candidates offered one after the other; an admitted one is committed.\<close>

fun offer :: "'s \<Rightarrow> 'e list \<Rightarrow> 'e list \<times> 's" where
  "offer s [] = ([], s)"
| "offer s (e # es) =
     (if allowed s e then (case offer (commit s e) es of (out, s') \<Rightarrow> (e # out, s'))
      else offer s es)"

lemma offer_fresh: "offer s es = (out, s') \<Longrightarrow> e \<in> set out \<Longrightarrow> \<not> seen s (rej e)"
proof (induction es arbitrary: s out)
  case (Cons x es)
  show ?case
  proof (cases "allowed s x")
    case True
    then obtain out' where o: "offer (commit s x) es = (out', s')" and out: "out = x # out'"
      using Cons.prems by (auto split: prod.splits)
    show ?thesis
      using Cons.IH [OF o] Cons.prems(2) allowed_fresh [OF True] by (auto simp: out commit_seen)
  next
    case False
    then show ?thesis using Cons.IH Cons.prems by simp
  qed
qed simp

lemma offer_once: "offer s es = (out, s') \<Longrightarrow> distinct (map rej out)"
proof (induction es arbitrary: s out)
  case (Cons x es)
  show ?case
  proof (cases "allowed s x")
    case True
    then obtain out' where o: "offer (commit s x) es = (out', s')" and out: "out = x # out'"
      using Cons.prems by (auto split: prod.splits)
    show ?thesis
      using Cons.IH [OF o] offer_fresh [OF o] by (auto simp: out commit_seen) metis
  next
    case False
    then show ?thesis using Cons.IH Cons.prems by simp
  qed
qed simp

lemma offer_used:
  "offer s es = (out, s') \<Longrightarrow>
   used s' z = used s z + int (length (filter (\<lambda>e. zone e = z) out))"
  by (induction es arbitrary: s out) (auto simp: commit_used split: if_splits prod.splits)

lemma offer_capped:
  "offer s es = (out, s') \<Longrightarrow> used s z \<le> cap \<Longrightarrow> used s' z \<le> cap"
proof (induction es arbitrary: s out)
  case (Cons x es)
  show ?case
  proof (cases "allowed s x")
    case True
    then obtain out' where o: "offer (commit s x) es = (out', s')"
      using Cons.prems(1) by (auto split: prod.splits)
    have "used (commit s x) z \<le> cap"
      using allowed_below [OF True] Cons.prems(2) by (auto simp: commit_used)
    then show ?thesis using Cons.IH [OF o] by simp
  next
    case False
    then show ?thesis using Cons.IH Cons.prems by simp
  qed
qed simp

end

section \<open>The deduplication state is such a gate\<close>

record candidate =
  oc_symbol :: string
  oc_dir :: signal_direction
  oc_zone :: htf_zone
  oc_rej :: rejection
  oc_htf :: string
  oc_ltf :: string
  oc_now :: ms
  oc_stale :: real

definition cand_keys :: "candidate \<Rightarrow> zone_key \<times> rej_key" where
  "cand_keys e = dedup_keys (oc_symbol e) (oc_htf e) (oc_ltf e) (z_timestamp (oc_zone e))
     (r_timestamp (oc_rej e)) (direction_value (oc_dir e))"

definition cand_allowed :: "int \<Rightarrow> dedup_state \<Rightarrow> candidate \<Rightarrow> bool" where
  "cand_allowed cap st e = dr_allowed (dedup_should_emit st (oc_zone e) (oc_rej e) (oc_dir e)
     (oc_symbol e) (oc_now e) (oc_stale e) (oc_htf e) (oc_ltf e) cap)"

definition cand_register :: "bool \<Rightarrow> int \<Rightarrow> dedup_state \<Rightarrow> candidate \<Rightarrow> dedup_state" where
  "cand_register multi cap st e = snd (dedup_register (oc_symbol e) (oc_dir e) (oc_zone e)
     (oc_rej e) (oc_htf e) (oc_ltf e) multi cap st)"

lemma count_zone_simps [simp]:
  "zone_count (count_zone zk cap st) k = zone_count st k + (if k = zk then 1 else 0)"
  "ds_seen_rej (count_zone zk cap st) = ds_seen_rej st"
  "ds_open_dir (count_zone zk cap st) = ds_open_dir st"
  "k \<in> ds_dead_zones (count_zone zk cap st) \<longleftrightarrow>
     k \<in> ds_dead_zones st \<or> k = zk \<and> cap \<le> zone_count st zk + 1"
  by (auto simp: count_zone_def zone_count_def Let_def)

lemma zone_count_frame [simp]:
  "zone_count (st\<lparr>ds_seen_rej := S\<rparr>) k = zone_count st k"
  "zone_count (st\<lparr>ds_open_dir := D\<rparr>) k = zone_count st k"
  "zone_count (st\<lparr>ds_seen_rej := S, ds_open_dir := D\<rparr>) k = zone_count st k"
  by (simp_all add: zone_count_def)

lemma dedup_register_simps:
  "fst (dedup_register sy d z r htf ltf multi cap st) =
     zone_count st (fst (dedup_keys sy htf ltf (z_timestamp z) (r_timestamp r) (direction_value d))) + 1"
  "ds_seen_rej (snd (dedup_register sy d z r htf ltf multi cap st)) =
     insert (snd (dedup_keys sy htf ltf (z_timestamp z) (r_timestamp r) (direction_value d))) (ds_seen_rej st)"
  "zone_count (snd (dedup_register sy d z r htf ltf multi cap st)) k = zone_count st k +
     (if k = fst (dedup_keys sy htf ltf (z_timestamp z) (r_timestamp r) (direction_value d)) then 1 else 0)"
  "k' \<in> ds_dead_zones (snd (dedup_register sy d z r htf ltf multi cap st)) \<longleftrightarrow>
     k' \<in> ds_dead_zones st \<or>
     k' = fst (dedup_keys sy htf ltf (z_timestamp z) (r_timestamp r) (direction_value d)) \<and>
     cap \<le> zone_count st k' + 1"
  "ds_open_dir (snd (dedup_register sy d z r htf ltf multi cap st)) =
     AList.update (dir_key_of multi sy (direction_value d) htf ltf) None (ds_open_dir st)"
  by (simp_all add: dedup_register_def dedup_keys_def Let_def) auto

lemma dedup_should_emit_iff:
  "dr_allowed (dedup_should_emit st z r d sy now stale htf ltf cap) \<longleftrightarrow>
     (case dedup_keys sy htf ltf (z_timestamp z) (r_timestamp r) (direction_value d) of
        (zk, rk) \<Rightarrow> zk \<notin> ds_dead_zones st \<and> zone_count st zk < cap \<and>
          of_int (now - r_timestamp r) \<le> stale * 3600000 \<and> rk \<notin> ds_seen_rej st)"
  by (auto simp: dedup_should_emit_def split: prod.splits)

interpretation dedup: emission_gate "cand_allowed cap" "cand_register multi cap"
  "\<lambda>e. snd (cand_keys e)" "\<lambda>e. fst (cand_keys e)" "\<lambda>st r. r \<in> ds_seen_rej st" zone_count cap
  for cap multi
  by unfold_locales
    (auto simp: cand_allowed_def cand_register_def cand_keys_def dedup_should_emit_iff
      dedup_register_simps split: prod.splits)

text \<open>The worked example as a candidate: admitted on an empty state, refused once registered.\<close>

definition ex_cand :: candidate where
  "ex_cand = \<lparr>oc_symbol = ''XAUUSD'', oc_dir = LONG, oc_zone = ex_demand, oc_rej = ex_rejection,
     oc_htf = ''1h'', oc_ltf = ''5min'', oc_now = 43500000, oc_stale = 1\<rparr>"

lemma ex_cand_allowed: "cand_allowed 1 empty_dedup ex_cand"
  by code_simp

lemma ex_cand_refused: "\<not> cand_allowed 1 (cand_register True 1 empty_dedup ex_cand) ex_cand"
  by code_simp

lemma ex_offer:
  "dedup.offer 1 True empty_dedup [ex_cand, ex_cand] =
   ([ex_cand], cand_register True 1 empty_dedup ex_cand)"
  unfolding dedup.offer.simps by (simp only: ex_cand_allowed ex_cand_refused if_True if_False prod.case)

text \<open>
  C39: whatever candidates are offered in whatever order, each rejection candle is emitted at most
  once per symbol and timeframe pair, no candidate whose candle had been used before comes out,
  and no zone is used beyond its cap.
\<close>

theorem dedup_offer_safe:
  assumes "dedup.offer cap multi st es = (out, st')" "zone_count st zk \<le> cap"
  shows "distinct (map (\<lambda>e. snd (cand_keys e)) out) \<and>
    (\<forall>e \<in> set out. snd (cand_keys e) \<notin> ds_seen_rej st) \<and>
    zone_count st' zk = zone_count st zk + int (length (filter (\<lambda>e. fst (cand_keys e) = zk) out)) \<and>
    zone_count st' zk \<le> cap"
  using dedup.offer_once [OF assms(1)] dedup.offer_fresh [OF assms(1)]
    dedup.offer_used [OF assms(1), of zk] dedup.offer_capped [OF assms]
  by blast

theorem dedup_offer_safe_witness:
  "dedup.offer 1 True empty_dedup [ex_cand, ex_cand] =
     ([ex_cand], cand_register True 1 empty_dedup ex_cand) \<and>
   zone_count (cand_register True 1 empty_dedup ex_cand) (fst (cand_keys ex_cand)) \<le> 1"
proof -
  have "zone_count empty_dedup (fst (cand_keys ex_cand)) \<le> 1"
    by (simp add: zone_count_def empty_dedup_def)
  from dedup_offer_safe [OF ex_offer this] ex_offer show ?thesis by blast
qed

section \<open>Restart\<close>

definition rec_keys :: "closed_record \<Rightarrow> zone_key \<times> rej_key" where
  "rec_keys rec = dedup_keys (cr_symbol rec) (cr_htf_interval rec) (cr_ltf_interval rec)
     (cr_htf_ts rec) (cr_rej_ts rec) (cr_direction rec)"

lemma replay_record_simps:
  "zone_count (replay_record cap rec st) k = zone_count st k + (if k = fst (rec_keys rec) then 1 else 0)"
  "ds_seen_rej (replay_record cap rec st) =
     (if cr_rej_ts rec = 0 then ds_seen_rej st else insert (snd (rec_keys rec)) (ds_seen_rej st))"
  "k \<in> ds_dead_zones (replay_record cap rec st) \<longleftrightarrow>
     k \<in> ds_dead_zones st \<or> k = fst (rec_keys rec) \<and> cap \<le> zone_count st k + 1"
  "ds_open_dir (replay_record cap rec st) = ds_open_dir st"
  by (auto simp: replay_record_def rec_keys_def Let_def split: prod.splits)

text \<open>
  Counting a list of zone keys one by one: the count grows by the occurrences and a zone is dead
  from the moment its count reaches the cap.
\<close>

lemma fold_counts:
  assumes step: "\<And>x s k. zone_count (f x s) k = zone_count s k + (if k = g x then 1 else 0)"
    and dead: "\<And>x s k. k \<in> ds_dead_zones (f x s) \<longleftrightarrow>
      k \<in> ds_dead_zones s \<or> k = g x \<and> cap \<le> zone_count s k + 1"
  shows "zone_count (fold f xs s) k = zone_count s k + int (count_list (map g xs) k) \<and>
    (k \<in> ds_dead_zones (fold f xs s) \<longleftrightarrow>
      k \<in> ds_dead_zones s \<or>
      0 < count_list (map g xs) k \<and> cap \<le> zone_count s k + int (count_list (map g xs) k))"
proof (induction xs arbitrary: s)
  case (Cons x xs)
  show ?case
    using Cons.IH [of "f x s"] by (auto simp: step dead)
qed simp

lemma fold_seen:
  assumes "\<And>x s. ds_seen_rej (f x s) = insert (h x) (ds_seen_rej s)"
  shows "ds_seen_rej (fold f xs s) = h ` set xs \<union> ds_seen_rej s"
  using assms by (induction xs arbitrary: s) auto

text \<open>
  a restart forgets nothing: replaying the closed records of a set of emitted signals, in
  whatever order the store returns them, rebuilds the zone counts, the dead zones and the used
  rejection candles that registering the signals had built.
\<close>

theorem dedup_replay_rebuilds:
  assumes "mset (map rec_keys recs) = mset (map cand_keys es)"
    and "\<forall>rec \<in> set recs. cr_rej_ts rec \<noteq> 0"
  shows "zone_count (dedup_replay recs cap st) zk =
      zone_count (fold (\<lambda>e s. cand_register multi cap s e) es st) zk \<and>
    ds_dead_zones (dedup_replay recs cap st) =
      ds_dead_zones (fold (\<lambda>e s. cand_register multi cap s e) es st) \<and>
    ds_seen_rej (dedup_replay recs cap st) =
      ds_seen_rej (fold (\<lambda>e s. cand_register multi cap s e) es st)"
proof -
  have "mset (map fst (map rec_keys recs)) = mset (map fst (map cand_keys es))"
    using arg_cong [OF assms(1), of "image_mset fst"] by (simp only: mset_map)
  then have "count_list (map fst (map rec_keys recs)) k = count_list (map fst (map cand_keys es)) k" for k
    by (simp only: count_mset [symmetric])
  then have cnt: "count_list (map (\<lambda>r. fst (rec_keys r)) recs) k =
      count_list (map (\<lambda>e. fst (cand_keys e)) es) k" for k
    by (simp add: comp_def)
  have R: "zone_count (fold (replay_record cap) recs st) k =
      zone_count st k + int (count_list (map (\<lambda>r. fst (rec_keys r)) recs) k) \<and>
    (k \<in> ds_dead_zones (fold (replay_record cap) recs st) \<longleftrightarrow> k \<in> ds_dead_zones st \<or>
      0 < count_list (map (\<lambda>r. fst (rec_keys r)) recs) k \<and>
      cap \<le> zone_count st k + int (count_list (map (\<lambda>r. fst (rec_keys r)) recs) k))" for k
    by (rule fold_counts) (auto simp: replay_record_simps)
  have C: "zone_count (fold (\<lambda>e s. cand_register multi cap s e) es st) k =
      zone_count st k + int (count_list (map (\<lambda>e. fst (cand_keys e)) es) k) \<and>
    (k \<in> ds_dead_zones (fold (\<lambda>e s. cand_register multi cap s e) es st) \<longleftrightarrow> k \<in> ds_dead_zones st \<or>
      0 < count_list (map (\<lambda>e. fst (cand_keys e)) es) k \<and>
      cap \<le> zone_count st k + int (count_list (map (\<lambda>e. fst (cand_keys e)) es) k))" for k
    by (rule fold_counts) (auto simp: cand_register_def cand_keys_def dedup_register_simps)
  have "ds_seen_rej (fold (\<lambda>e s. cand_register multi cap s e) es st) =
      (\<lambda>e. snd (cand_keys e)) ` set es \<union> ds_seen_rej st"
    by (rule fold_seen) (simp add: cand_register_def cand_keys_def dedup_register_simps)
  moreover have "ds_seen_rej (fold (replay_record cap) recs st) =
      (\<lambda>r. snd (rec_keys r)) ` set recs \<union> ds_seen_rej st"
    using assms(2) by (induction recs arbitrary: st) (auto simp: replay_record_simps)
  moreover have "rec_keys ` set recs = cand_keys ` set es"
    using arg_cong [OF assms(1), of set_mset] by simp
  then have "snd ` rec_keys ` set recs = snd ` cand_keys ` set es" by simp
  then have "(\<lambda>r. snd (rec_keys r)) ` set recs = (\<lambda>e. snd (cand_keys e)) ` set es"
    by (simp add: image_image)
  ultimately have seen: "ds_seen_rej (fold (replay_record cap) recs st) =
      ds_seen_rej (fold (\<lambda>e s. cand_register multi cap s e) es st)"
    by simp
  have dead: "ds_dead_zones (fold (replay_record cap) recs st) =
      ds_dead_zones (fold (\<lambda>e s. cand_register multi cap s e) es st)"
    by (rule set_eqI) (simp only: R C cnt)
  show ?thesis
    unfolding dedup_replay_def using dead seen by (simp only: R C cnt)
qed

theorem dedup_replay_rebuilds_witness:
  "ds_seen_rej (dedup_replay
     [(mk_closed_record ''id1'' ''XAUUSD'' ''LONG'' ''LOSS'' (- 1) 50000000)
        \<lparr>cr_htf_ts := 36000000, cr_rej_ts := 43500000, cr_htf_interval := ''1h'',
         cr_ltf_interval := ''5min''\<rparr>] 1 empty_dedup) =
   ds_seen_rej (fold (\<lambda>e s. cand_register True 1 s e) [ex_cand] empty_dedup)"
  by (rule dedup_replay_rebuilds [THEN conjunct2, THEN conjunct2])
    (simp_all add: rec_keys_def cand_keys_def mk_closed_record_def ex_cand_def ex_demand_def
      ex_rejection_def)

end
