(* ===== verification/Trade_Management.thy ===== *)
theory Trade_Management
  imports Entities
begin

text \<open>
  domain/trade_management.py: the partial-close arithmetic shared by the live lifecycle and the
  backtester.
\<close>

definition pct_fraction :: "real \<Rightarrow> real" where
  "pct_fraction value = value / 100"

definition tp1_level :: "signal_direction \<Rightarrow> price \<Rightarrow> price \<Rightarrow> real \<Rightarrow> price" where
  "tp1_level d entry_price tp2 tp1_trigger_pct =
     (let fraction = pct_fraction tp1_trigger_pct in
      if d = LONG then entry_price + \<bar>tp2 - entry_price\<bar> * fraction
      else entry_price - \<bar>tp2 - entry_price\<bar> * fraction)"

definition tp1_booked_rr :: "real \<Rightarrow> real \<Rightarrow> real \<Rightarrow> real" where
  "tp1_booked_rr full_rr tp1_trigger_pct tp1_close_pct =
     full_rr * pct_fraction tp1_trigger_pct * pct_fraction tp1_close_pct"

definition breakeven_price :: "signal_direction \<Rightarrow> price \<Rightarrow> price" where
  "breakeven_price d entry_price = entry_price"

definition protected_breakeven_rr :: "real \<Rightarrow> real \<Rightarrow> real \<Rightarrow> real" where
  "protected_breakeven_rr full_rr tp1_trigger_pct tp1_close_pct =
     tp1_booked_rr full_rr tp1_trigger_pct tp1_close_pct"

definition tp2_weighted_rr :: "real \<Rightarrow> real \<Rightarrow> real \<Rightarrow> real" where
  "tp2_weighted_rr full_rr tp1_trigger_pct tp1_close_pct =
     (let close_fraction = pct_fraction tp1_close_pct;
          tp1_rr = full_rr * pct_fraction tp1_trigger_pct
      in tp1_rr * close_fraction + full_rr * (1 - close_fraction))"

lemmas tm_defs = pct_fraction_def tp1_level_def tp1_booked_rr_def breakeven_price_def
  protected_breakeven_rr_def tp2_weighted_rr_def Let_def

lemma tp1_level_convex:
  "d = LONG \<and> entry \<le> tp2 \<or> d = SHORT \<and> tp2 \<le> entry \<Longrightarrow>
   tp1_level d entry tp2 pct = (1 - pct / 100) * entry + pct / 100 * tp2"
  by (auto simp: tm_defs field_simps abs_if)

text \<open>
  with a trigger percentage between 0 and 100 the partial target lies strictly between entry
  and final target, on the side of the trade.
\<close>

theorem tp1_level_between:
  assumes "0 < pct" "pct < 100"
    and "d = LONG \<and> entry < tp2 \<or> d = SHORT \<and> tp2 < entry"
  shows "(d = LONG \<and> entry < tp1_level d entry tp2 pct \<and> tp1_level d entry tp2 pct < tp2) \<or>
    (d = SHORT \<and> tp2 < tp1_level d entry tp2 pct \<and> tp1_level d entry tp2 pct < entry)"
proof -
  define w f where "w = \<bar>tp2 - entry\<bar>" and "f = pct / 100"
  have "0 < w" "0 < f" "f < 1" using assms by (auto simp: w_def f_def)
  then have "0 < w * f \<and> w * f < w"
    using mult_strict_left_mono [of f 1 w] by simp
  then show ?thesis
    using assms(3) by (auto simp: tp1_level_def pct_fraction_def Let_def w_def f_def abs_if)
qed

theorem tp1_level_between_witness:
  "100 < tp1_level LONG 100 110 50 \<and> tp1_level LONG 100 110 50 < 110"
  using tp1_level_between [of 50 LONG 100 110] by simp

text \<open>Outside that range it does not.\<close>

lemma tp1_level_sides:
  assumes "d = LONG \<and> entry < tp2 \<or> d = SHORT \<and> tp2 < entry"
  shows "(if d = LONG then entry < tp1_level d entry tp2 pct else tp1_level d entry tp2 pct < entry) \<longleftrightarrow> 0 < pct"
    and "(if d = LONG then tp1_level d entry tp2 pct < tp2 else tp2 < tp1_level d entry tp2 pct) \<longleftrightarrow> pct < 100"
proof -
  define w where "w = \<bar>tp2 - entry\<bar>"
  have w: "0 < w" using assms by (auto simp: w_def)
  have "0 < w * (pct / 100) \<longleftrightarrow> 0 < pct" "w * (pct / 100) < w \<longleftrightarrow> pct < 100"
    using w by (simp_all add: zero_less_mult_iff field_simps)
  then show "(if d = LONG then entry < tp1_level d entry tp2 pct else tp1_level d entry tp2 pct < entry) \<longleftrightarrow> 0 < pct"
    "(if d = LONG then tp1_level d entry tp2 pct < tp2 else tp2 < tp1_level d entry tp2 pct) \<longleftrightarrow> pct < 100"
    using assms by (auto simp: tp1_level_def pct_fraction_def Let_def w_def abs_if)
qed

lemma tp2_weighted_bounds:
  assumes "0 \<le> rr" "0 \<le> trig" "trig \<le> 100" "0 \<le> cls" "cls \<le> 100"
  shows "0 \<le> tp1_booked_rr rr trig cls \<and> tp1_booked_rr rr trig cls \<le> rr \<and>
    tp1_booked_rr rr trig cls \<le> tp2_weighted_rr rr trig cls \<and>
    0 \<le> tp2_weighted_rr rr trig cls \<and> tp2_weighted_rr rr trig cls \<le> rr"
proof -
  have eq: "tp2_weighted_rr rr trig cls = tp1_booked_rr rr trig cls + rr * (1 - cls / 100)"
    by (simp add: tm_defs)
  have nonneg: "0 \<le> tp1_booked_rr rr trig cls" using assms by (simp add: tm_defs)
  have "rr * (trig / 100) \<le> rr"
    using assms mult_left_mono [of "trig / 100" 1 rr] by simp
  then have "rr * (trig / 100) * (cls / 100) \<le> rr * (cls / 100)"
    using assms(4) by (intro mult_right_mono) simp_all
  then have "tp2_weighted_rr rr trig cls \<le> rr" by (simp add: tm_defs field_simps)
  moreover have "0 \<le> rr * (1 - cls / 100)" using assms by simp
  ultimately show ?thesis using eq nonneg by linarith
qed

text \<open>
  what a winning trade books is the part booked at TP1 plus the full reward of the part left
  open; for percentages within range it lies between the booked part and the full reward, so
  a partial close never earns more than no partial close.
\<close>

theorem tp2_weighted_rr_bounds:
  assumes "0 \<le> rr" "0 \<le> trig" "trig \<le> 100" "0 \<le> cls" "cls \<le> 100"
  shows "tp2_weighted_rr rr trig cls = tp1_booked_rr rr trig cls + rr * (1 - cls / 100) \<and>
    0 \<le> tp1_booked_rr rr trig cls \<and>
    tp1_booked_rr rr trig cls \<le> tp2_weighted_rr rr trig cls \<and> tp2_weighted_rr rr trig cls \<le> rr"
proof -
  have "tp2_weighted_rr rr trig cls = tp1_booked_rr rr trig cls + rr * (1 - cls / 100)"
    by (simp add: tm_defs)
  then show ?thesis using tp2_weighted_bounds [OF assms] by blast
qed

theorem tp2_weighted_rr_bounds_witness:
  "0 \<le> tp1_booked_rr 4 50 25 \<and> tp2_weighted_rr 4 50 25 \<le> 4"
  using tp2_weighted_rr_bounds [of 4 50 25] by simp

end
