(* ===== verification/Builder.thy ===== *)
theory Builder
  imports Profiles Trade_Management Rejection
begin

text \<open>
  domain/signals/builder.py: the quality gates and the construction of a signal, with
  app/engine/decision_engine.py, the facade every caller goes through. A gate that fails is
  \<open>Inr None\<close>; an LTF interval that cannot be read raises after all gates have passed.
\<close>

definition entry_of :: "asset_profile \<Rightarrow> signal_direction \<Rightarrow> price option \<Rightarrow> price option \<Rightarrow> rejection \<Rightarrow> price" where
  "entry_of p d live_bid live_ask rej =
     (let use_live = (p_signal_price_source p = ''live_bidask'') in
      if use_live \<and> d = SHORT \<and> live_bid \<noteq> None then the live_bid
      else if use_live \<and> d = LONG \<and> live_ask \<noteq> None then the live_ask
      else r_close rej)"

definition stop_of :: "asset_profile \<Rightarrow> signal_direction \<Rightarrow> rejection \<Rightarrow> price" where
  "stop_of p d rej =
     (let sl_level = wick_tip rej; buffer = sl_level * p_stop_buffer_pct p
      in if d = SHORT then sl_level + buffer else sl_level - buffer)"

text \<open>The record built at the end, every other field at the default of the class.\<close>

definition mk_signal ::
  "string \<Rightarrow> string \<Rightarrow> string \<Rightarrow> string \<Rightarrow> string \<Rightarrow> htf_zone \<Rightarrow> rejection \<Rightarrow> price \<Rightarrow> price \<Rightarrow> price \<Rightarrow> price \<Rightarrow>
   real \<Rightarrow> real \<Rightarrow> int \<Rightarrow> price option \<Rightarrow> price option \<Rightarrow> trade_signal" where
  "mk_signal signal_id symbol htf ltf broker z rej entry sl tp1 tp2 rr risk iv live_bid live_ask =
     (let src = (if entry \<noteq> r_close rej then ''live_bidask'' else ''candle_close'') in
     \<lparr>s_id = signal_id, s_symbol = symbol, s_direction = signal_dir z, s_status = TRIGGERED,
      s_entry_price = entry, s_stop_loss = sl, s_tp1 = tp1, s_tp2 = tp2, s_htf_range = z,
      s_rejection = rej, s_rr = rr, s_risk_pips = risk, s_htf_interval = htf,
      s_ltf_interval = ltf, s_zone_attempt = 1, s_broker = broker, s_price_source_used = src,
      s_candle_close_price = Some (r_close rej), s_live_bid = live_bid, s_live_ask = live_ask,
      s_price_drift = (if src = ''live_bidask'' then Some (entry - r_close rej) else None),
      s_created_at = r_timestamp rej, s_pending_at = None,
      s_triggered_at = Some (r_timestamp rej + iv), s_setup_open_at = Some (r_timestamp rej),
      s_setup_close_at = Some (r_timestamp rej + iv), s_detected_at = None, s_emitted_at = None,
      s_tp1_hit_at = None, s_tp2_hit_at = None, s_sl_hit_at = None, s_invalidated_at = None,
      s_expired_at = None, s_closed_at = None, s_outcome = None, s_realized_rr = None,
      s_close_price = None, s_chart_path = None, s_chart_data = None\<rparr>)"

definition build_signal ::
  "string \<Rightarrow> string \<Rightarrow> string \<Rightarrow> htf_zone \<Rightarrow> rejection \<Rightarrow> string \<Rightarrow> asset_profile \<Rightarrow> string \<Rightarrow>
   price option \<Rightarrow> price option \<Rightarrow> trade_signal option result" where
  "build_signal symbol htf ltf z rej signal_id p broker live_bid live_ask =
     (let d = signal_dir z;
          entry = entry_of p d live_bid live_ask rej;
          sl = stop_of p d rej
      in
      if d = SHORT \<and> sl \<le> entry then Inr None
      else if d = LONG \<and> entry \<le> sl then Inr None
      else let risk = \<bar>entry - sl\<bar> in
      if risk < eps8 then Inr None
      else let zone_h = height z in
      if 0 < zone_h \<and> zone_h * p_max_sl_zone_mult p < risk then Inr None
      else let tp2 = z_tp_level z in
      if d = SHORT \<and> entry \<le> tp2 then Inr None
      else if d = LONG \<and> tp2 \<le> entry then Inr None
      else let reward = \<bar>tp2 - entry\<bar>; rr = reward / risk in
      if rr < p_min_rr p then Inr None
      else let capped = (0 < p_max_rr p \<and> p_max_rr p < rr);
               tp2' = (if capped
                       then let capped_reward = p_max_rr p * risk in
                            if d = LONG then entry + capped_reward else entry - capped_reward
                       else tp2);
               rr' = (if capped then p_max_rr p else rr)
      in
      if \<not> in_session p (r_timestamp rej) then Inr None
      else let tp1 = tp1_level d entry tp2' (p_tp1_trigger_pct p) in
      bindR (interval_to_ms ltf) (\<lambda>iv.
        Inr (Some (mk_signal signal_id symbol htf ltf broker z rej entry sl tp1 tp2' rr' risk iv
                     live_bid live_ask))))"

record decision =
  dec_signal :: "trade_signal option"
  dec_reason :: string
  dec_blocked_reason :: "string option"

definition evaluate_setup ::
  "string \<Rightarrow> string \<Rightarrow> string \<Rightarrow> htf_zone \<Rightarrow> rejection \<Rightarrow> string \<Rightarrow> asset_profile \<Rightarrow> string \<Rightarrow> string option \<Rightarrow>
   price option \<Rightarrow> price option \<Rightarrow> decision result" where
  "evaluate_setup symbol htf ltf z rej signal_id p broker blocked_reason live_bid live_ask =
     (if truthy_str blocked_reason
      then Inr \<lparr>dec_signal = None, dec_reason = ''blocked'', dec_blocked_reason = blocked_reason\<rparr>
      else bindR (build_signal symbol htf ltf z rej signal_id p broker live_bid live_ask) (\<lambda>sig.
        case sig of
          None \<Rightarrow> Inr \<lparr>dec_signal = None, dec_reason = ''blocked'',
                       dec_blocked_reason = Some ''signal_quality_gate''\<rparr>
        | Some t \<Rightarrow> Inr \<lparr>dec_signal = Some t, dec_reason = ''valid_signal'',
                        dec_blocked_reason = None\<rparr>))"

section \<open>The gates as one predicate\<close>

definition beyond :: "signal_direction \<Rightarrow> price \<Rightarrow> price \<Rightarrow> bool" where
  "beyond d a b \<longleftrightarrow> (case d of LONG \<Rightarrow> a < b | SHORT \<Rightarrow> b < a)"

definition gates_ok :: "asset_profile \<Rightarrow> htf_zone \<Rightarrow> rejection \<Rightarrow> price \<Rightarrow> price \<Rightarrow> bool" where
  "gates_ok p z rej entry sl \<longleftrightarrow>
     beyond (signal_dir z) sl entry \<and> beyond (signal_dir z) entry (z_tp_level z) \<and>
     eps8 \<le> \<bar>entry - sl\<bar> \<and>
     (0 < height z \<longrightarrow> \<bar>entry - sl\<bar> \<le> height z * p_max_sl_zone_mult p) \<and>
     p_min_rr p \<le> \<bar>z_tp_level z - entry\<bar> / \<bar>entry - sl\<bar> \<and>
     in_session p (r_timestamp rej)"

definition final_rr :: "asset_profile \<Rightarrow> real \<Rightarrow> real" where
  "final_rr p rr = (if 0 < p_max_rr p then min rr (p_max_rr p) else rr)"

definition final_tp2 :: "asset_profile \<Rightarrow> signal_direction \<Rightarrow> price \<Rightarrow> price \<Rightarrow> price \<Rightarrow> price" where
  "final_tp2 p d entry sl tp2 =
     (if 0 < p_max_rr p \<and> p_max_rr p < \<bar>tp2 - entry\<bar> / \<bar>entry - sl\<bar>
      then (if d = LONG then entry + p_max_rr p * \<bar>entry - sl\<bar> else entry - p_max_rr p * \<bar>entry - sl\<bar>)
      else tp2)"

lemma build_signal_eq:
  "build_signal symbol htf ltf z rej i p broker live_bid live_ask =
    (if gates_ok p z rej (entry_of p (signal_dir z) live_bid live_ask rej) (stop_of p (signal_dir z) rej)
     then bindR (interval_to_ms ltf) (\<lambda>iv.
       Inr (Some (mk_signal i symbol htf ltf broker z rej
         (entry_of p (signal_dir z) live_bid live_ask rej) (stop_of p (signal_dir z) rej)
         (tp1_level (signal_dir z) (entry_of p (signal_dir z) live_bid live_ask rej)
           (final_tp2 p (signal_dir z) (entry_of p (signal_dir z) live_bid live_ask rej)
             (stop_of p (signal_dir z) rej) (z_tp_level z)) (p_tp1_trigger_pct p))
         (final_tp2 p (signal_dir z) (entry_of p (signal_dir z) live_bid live_ask rej)
             (stop_of p (signal_dir z) rej) (z_tp_level z))
         (final_rr p (\<bar>z_tp_level z - entry_of p (signal_dir z) live_bid live_ask rej\<bar> /
            \<bar>entry_of p (signal_dir z) live_bid live_ask rej - stop_of p (signal_dir z) rej\<bar>))
         \<bar>entry_of p (signal_dir z) live_bid live_ask rej - stop_of p (signal_dir z) rej\<bar>
         iv live_bid live_ask)))
     else Inr None)"
proof -
  define entry sl where "entry = entry_of p (signal_dir z) live_bid live_ask rej"
    and "sl = stop_of p (signal_dir z) rej"
  have rr: "(if 0 < p_max_rr p \<and> p_max_rr p < x then p_max_rr p else x) = final_rr p x" for x
    by (simp add: final_rr_def min_def)
  show ?thesis
    unfolding build_signal_def Let_def entry_def [symmetric] sl_def [symmetric] rr
    by (cases "signal_dir z")
      (simp_all add: gates_ok_def beyond_def final_tp2_def not_less not_le)
qed

text \<open>
  the builder is exactly its gates: with the entry and the stop fixed, no signal comes out
  unless every gate holds, and when every gate holds the signal is the one with the capped
  reward, or the error of an unreadable LTF interval.
\<close>

theorem build_signal_gates:
  "let d = signal_dir z; entry = entry_of p d live_bid live_ask rej; sl = stop_of p d rej;
       tp2 = final_tp2 p d entry sl (z_tp_level z)
   in build_signal symbol htf ltf z rej i p broker live_bid live_ask =
      (if gates_ok p z rej entry sl
       then bindR (interval_to_ms ltf) (\<lambda>iv.
         Inr (Some (mk_signal i symbol htf ltf broker z rej entry sl
           (tp1_level d entry tp2 (p_tp1_trigger_pct p)) tp2
           (final_rr p (\<bar>z_tp_level z - entry\<bar> / \<bar>entry - sl\<bar>)) \<bar>entry - sl\<bar> iv live_bid live_ask)))
       else Inr None)"
  unfolding Let_def by (rule build_signal_eq)

text \<open>The signal of the worked example: gold, one hour over five minutes.\<close>

definition ex_signal :: trade_signal where
  "ex_signal = mk_signal ''id1'' ''XAUUSD'' ''1h'' ''5min'' ''b'' ex_demand ex_rejection 104 101.99898
     108 112 (8 / 2.00102) 2.00102 300000 None None"

lemma ex_build:
  "build_signal ''XAUUSD'' ''1h'' ''5min'' ex_demand ex_rejection ''id1'' ex_profile ''b'' None None =
   Inr (Some ex_signal)"
  by code_simp

lemma mk_signal_simps [simp]:
  "s_id (mk_signal i symbol htf ltf br z rej e sl t1 t2 rr risk iv b a) = i"
  "s_symbol (mk_signal i symbol htf ltf br z rej e sl t1 t2 rr risk iv b a) = symbol"
  "s_direction (mk_signal i symbol htf ltf br z rej e sl t1 t2 rr risk iv b a) = signal_dir z"
  "s_status (mk_signal i symbol htf ltf br z rej e sl t1 t2 rr risk iv b a) = TRIGGERED"
  "s_entry_price (mk_signal i symbol htf ltf br z rej e sl t1 t2 rr risk iv b a) = e"
  "s_stop_loss (mk_signal i symbol htf ltf br z rej e sl t1 t2 rr risk iv b a) = sl"
  "s_tp1 (mk_signal i symbol htf ltf br z rej e sl t1 t2 rr risk iv b a) = t1"
  "s_tp2 (mk_signal i symbol htf ltf br z rej e sl t1 t2 rr risk iv b a) = t2"
  "s_rr (mk_signal i symbol htf ltf br z rej e sl t1 t2 rr risk iv b a) = rr"
  "s_risk_pips (mk_signal i symbol htf ltf br z rej e sl t1 t2 rr risk iv b a) = risk"
  "s_htf_range (mk_signal i symbol htf ltf br z rej e sl t1 t2 rr risk iv b a) = z"
  "s_rejection (mk_signal i symbol htf ltf br z rej e sl t1 t2 rr risk iv b a) = rej"
  "s_created_at (mk_signal i symbol htf ltf br z rej e sl t1 t2 rr risk iv b a) = r_timestamp rej"
  "s_triggered_at (mk_signal i symbol htf ltf br z rej e sl t1 t2 rr risk iv b a) = Some (r_timestamp rej + iv)"
  "s_outcome (mk_signal i symbol htf ltf br z rej e sl t1 t2 rr risk iv b a) = None"
  by (simp_all add: mk_signal_def Let_def)

text \<open>
  C36: every signal the builder returns, whatever the profile: stop, entry and TP2 are strictly
  ordered on the side of the trade, the risk is at least 1e-8 and within the zone cap, the
  recorded ratio is exactly reward over risk and never above a positive cap, and the rejection
  candle is inside a session. TP1 lies strictly between entry and TP2 exactly when the trigger
  percentage of the profile is strictly between 0 and 100; it is when the profile comes from
  validated settings whose overrides per timeframe are in range, which the validation does not
  check for the overrides.
\<close>

theorem build_signal_sound:
  assumes "build_signal symbol htf ltf z rej i p broker live_bid live_ask = Inr (Some t)"
  shows "s_direction t = signal_dir z \<and> s_status t = TRIGGERED \<and>
    beyond (s_direction t) (s_stop_loss t) (s_entry_price t) \<and>
    beyond (s_direction t) (s_entry_price t) (s_tp2 t) \<and>
    (beyond (s_direction t) (s_entry_price t) (s_tp1 t) \<longleftrightarrow> 0 < p_tp1_trigger_pct p) \<and>
    (beyond (s_direction t) (s_tp1 t) (s_tp2 t) \<longleftrightarrow> p_tp1_trigger_pct p < 100) \<and>
    (\<forall>cfg. post_init cfg = Inr () \<and> overrides_in_range cfg \<and> registry_get cfg symbol (Some htf) (Some ltf) = Inr p \<longrightarrow>
       beyond (s_direction t) (s_entry_price t) (s_tp1 t) \<and> beyond (s_direction t) (s_tp1 t) (s_tp2 t)) \<and>
    s_risk_pips t = \<bar>s_entry_price t - s_stop_loss t\<bar> \<and> eps8 \<le> s_risk_pips t \<and>
    (0 < height z \<longrightarrow> s_risk_pips t \<le> height z * p_max_sl_zone_mult p) \<and>
    s_rr t = \<bar>s_tp2 t - s_entry_price t\<bar> / s_risk_pips t \<and>
    (0 < p_max_rr p \<longrightarrow> s_rr t \<le> p_max_rr p) \<and> in_session p (r_timestamp rej)"
proof -
  define d where "d = signal_dir z"
  define entry sl where "entry = entry_of p d live_bid live_ask rej" and "sl = stop_of p d rej"
  define tp2 where "tp2 = final_tp2 p d entry sl (z_tp_level z)"
  let ?rr = "\<bar>z_tp_level z - entry\<bar> / \<bar>entry - sl\<bar>"
  from assms(1) obtain iv where g: "gates_ok p z rej entry sl"
    and t: "t = mk_signal i symbol htf ltf broker z rej entry sl
      (tp1_level d entry tp2 (p_tp1_trigger_pct p)) tp2 (final_rr p ?rr) \<bar>entry - sl\<bar> iv live_bid live_ask"
    unfolding build_signal_eq entry_def sl_def tp2_def d_def
    by (auto simp: bindR_Inr_iff split: if_splits)
  have pos: "0 < \<bar>entry - sl\<bar>" using g eps8_pos unfolding gates_ok_def by linarith
  have bt: "beyond d entry tp2"
    using g pos mult_pos_pos [OF _ pos, of "p_max_rr p"]
    by (cases d) (auto simp: gates_ok_def beyond_def tp2_def final_tp2_def d_def)
  have tp1: "beyond d entry (tp1_level d entry tp2 (p_tp1_trigger_pct p)) \<longleftrightarrow> 0 < p_tp1_trigger_pct p"
    "beyond d (tp1_level d entry tp2 (p_tp1_trigger_pct p)) tp2 \<longleftrightarrow> p_tp1_trigger_pct p < 100"
    using tp1_level_sides [of d entry tp2 "p_tp1_trigger_pct p"] bt
    by (cases d; simp add: beyond_def)+
  have rr: "final_rr p ?rr = \<bar>tp2 - entry\<bar> / \<bar>entry - sl\<bar>"
    using pos by (auto simp: final_rr_def tp2_def final_tp2_def min_def abs_mult)
  show ?thesis
    using g tp1 bt rr registry_pct_range [of _ symbol "Some htf" "Some ltf" p]
    by (simp add: t gates_ok_def d_def final_rr_def) blast
qed

theorem build_signal_sound_witness:
  "build_signal ''XAUUSD'' ''1h'' ''5min'' ex_demand ex_rejection ''id1'' ex_profile ''b'' None None =
     Inr (Some ex_signal) \<and>
   beyond (s_direction ex_signal) (s_stop_loss ex_signal) (s_entry_price ex_signal) \<and>
   beyond (s_direction ex_signal) (s_entry_price ex_signal) (s_tp1 ex_signal) \<and>
   beyond (s_direction ex_signal) (s_tp1 ex_signal) (s_tp2 ex_signal) \<and>
   s_rr ex_signal = \<bar>s_tp2 ex_signal - s_entry_price ex_signal\<bar> / s_risk_pips ex_signal"
proof -
  have "overrides_in_range (default_settings [])" by (simp add: overrides_in_range_def default_settings_def)
  with build_signal_sound [OF ex_build] ex_build default_settings_valid ex_profile_registry show ?thesis by blast
qed

text \<open>
  the reward floor survives the cap: if the cap is off or at least the floor, the recorded
  ratio is at least \<open>min_rr\<close>; with a positive cap below the floor every signal is below the
  floor.
\<close>

theorem build_signal_rr_floor:
  assumes "build_signal symbol htf ltf z rej i p broker live_bid live_ask = Inr (Some t)"
  shows "(p_max_rr p \<le> 0 \<or> p_min_rr p \<le> p_max_rr p \<longrightarrow> p_min_rr p \<le> s_rr t) \<and>
    (0 < p_max_rr p \<and> p_max_rr p < p_min_rr p \<longrightarrow> s_rr t = p_max_rr p \<and> s_rr t < p_min_rr p)"
  using assms unfolding build_signal_eq
  by (auto simp: bindR_Inr_iff gates_ok_def final_rr_def split: if_splits)

theorem build_signal_rr_floor_witness:
  "build_signal ''XAUUSD'' ''1h'' ''5min'' ex_demand ex_rejection ''id1'' ex_profile ''b'' None None =
     Inr (Some ex_signal) \<and> 1.5 \<le> s_rr ex_signal"
  using build_signal_rr_floor [OF ex_build] ex_build ex_profile_fields by simp

text \<open>
  a setup that is already blocked is never built, and a setup is reported valid exactly when
  it carries a signal.
\<close>

theorem evaluate_setup_outcome:
  assumes "evaluate_setup symbol htf ltf z rej i p broker blocked live_bid live_ask = Inr dcn"
  shows "(truthy_str blocked \<longrightarrow> dec_signal dcn = None \<and> dec_blocked_reason dcn = blocked) \<and>
    (dec_reason dcn = ''valid_signal'' \<longleftrightarrow> dec_signal dcn \<noteq> None) \<and>
    (dec_signal dcn = None \<longleftrightarrow> dec_blocked_reason dcn \<noteq> None) \<and>
    (\<forall>t. dec_signal dcn = Some t \<longrightarrow>
       build_signal symbol htf ltf z rej i p broker live_bid live_ask = Inr (Some t))"
  using assms
  by (auto simp: evaluate_setup_def bindR_Inr_iff truthy_str_def split: if_splits option.splits)

theorem evaluate_setup_outcome_witness:
  "evaluate_setup ''XAUUSD'' ''1h'' ''5min'' ex_demand ex_rejection ''id1'' ex_profile ''b''
     (Some ''paused'') None None =
     Inr \<lparr>dec_signal = None, dec_reason = ''blocked'', dec_blocked_reason = Some ''paused''\<rparr> \<and>
   dec_signal \<lparr>dec_signal = None, dec_reason = ''blocked'', dec_blocked_reason = Some ''paused''\<rparr> = None"
proof -
  have r: "evaluate_setup ''XAUUSD'' ''1h'' ''5min'' ex_demand ex_rejection ''id1'' ex_profile ''b''
     (Some ''paused'') None None =
     Inr \<lparr>dec_signal = None, dec_reason = ''blocked'', dec_blocked_reason = Some ''paused''\<rparr>"
    by (simp add: evaluate_setup_def truthy_str_def)
  show ?thesis using evaluate_setup_outcome [OF r] r by (simp add: truthy_str_def)
qed

end
