(* ===== verification/Lifecycle.thy ===== *)
theory Lifecycle
  imports Builder
begin

text \<open>
  app/engine/market_replay.py: candle normalisation, the one-candle lifecycle step shared by
  the live service, the status query and the backtester, and the replay of a whole candle
  list. A step returns its outcome and the updated signal; a candle that normalisation rejects
  raises before anything is changed.
\<close>

section \<open>Normalisation\<close>

text \<open>
  What a \<open>Candle\<close> object may hold before it is validated: a timestamp that may not be an
  integer, and floats that may be missing, not a number or infinite.
\<close>

datatype raw_num = NumNone | NumNaN | NumInf bool | NumFin real

record raw_candle =
  rw_timestamp :: "int option"
  rw_open :: raw_num
  rw_high :: raw_num
  rw_low :: raw_num
  rw_close :: raw_num
  rw_volume :: raw_num

text \<open>\<open>datetime.fromtimestamp\<close> accepts the years 1 to 9999 and C time values only.\<close>

definition from_timestamp :: "ms \<Rightarrow> unit result" where
  "from_timestamp t =
     (if \<bar>t div 1000\<bar> \<ge> 2 ^ 63 then Inl OverflowError
      else if -62135596800000 \<le> t \<and> t < 253402300800000 then Inr () else Inl ValueError)"

definition finite_num :: "raw_num \<Rightarrow> real result" where
  "finite_num v = (case v of NumFin x \<Rightarrow> Inr x | _ \<Rightarrow> Inl ValueError)"

definition normalize_candle :: "raw_candle \<Rightarrow> candle result" where
  "normalize_candle c =
     (case rw_timestamp c of
        None \<Rightarrow> Inl TypeError
      | Some t \<Rightarrow>
          bindR (from_timestamp t) (\<lambda>_.
          bindR (finite_num (rw_open c)) (\<lambda>op.
          bindR (finite_num (rw_high c)) (\<lambda>hi.
          bindR (finite_num (rw_low c)) (\<lambda>lo.
          bindR (finite_num (rw_close c)) (\<lambda>cl.
          bindR (finite_num (rw_volume c)) (\<lambda>vol.
            if hi < lo then Inl ValueError
            else Inr \<lparr>c_timestamp = t, c_open = op, c_high = hi, c_low = lo, c_close = cl,
                      c_volume = vol\<rparr>)))))))"

definition raw_of :: "candle \<Rightarrow> raw_candle" where
  "raw_of c =
     \<lparr>rw_timestamp = Some (c_timestamp c), rw_open = NumFin (c_open c), rw_high = NumFin (c_high c),
      rw_low = NumFin (c_low c), rw_close = NumFin (c_close c), rw_volume = NumFin (c_volume c)\<rparr>"

definition accepts_candle :: "candle \<Rightarrow> bool" where
  "accepts_candle c \<longleftrightarrow>
     -62135596800000 \<le> c_timestamp c \<and> c_timestamp c < 253402300800000 \<and> c_low c \<le> c_high c"

lemma normalize_raw_of:
  "normalize_candle (raw_of c) = Inr c' \<longleftrightarrow> accepts_candle c \<and> c' = c"
  by (auto simp: normalize_candle_def raw_of_def from_timestamp_def finite_num_def accepts_candle_def
      bindR_Inr_iff split: if_splits)

lemma normalize_candle_Inr:
  "normalize_candle r = Inr c \<longleftrightarrow> r = raw_of c \<and> accepts_candle c"
proof
  assume n: "normalize_candle r = Inr c"
  then have "r = raw_of c"
    by (auto simp: normalize_candle_def raw_of_def finite_num_def bindR_Inr_iff
        split: option.splits raw_num.splits if_splits)
  with n show "r = raw_of c \<and> accepts_candle c"
    using normalize_raw_of by simp
qed (simp add: normalize_raw_of)

text \<open>
  normalisation accepts exactly the candles whose timestamp is an integer in the calendar
  range, whose five numbers are finite and whose high is not below the low, and it changes no
  value of an accepted candle.
\<close>

theorem normalize_candle_spec:
  "(\<exists>c. normalize_candle r = Inr c) \<longleftrightarrow>
   (\<exists>t op hi lo cl vol. r = \<lparr>rw_timestamp = Some t, rw_open = NumFin op, rw_high = NumFin hi,
      rw_low = NumFin lo, rw_close = NumFin cl, rw_volume = NumFin vol\<rparr> \<and>
      -62135596800000 \<le> t \<and> t < 253402300800000 \<and> lo \<le> hi \<and>
      normalize_candle r = Inr \<lparr>c_timestamp = t, c_open = op, c_high = hi, c_low = lo,
        c_close = cl, c_volume = vol\<rparr>)"
proof
  assume "\<exists>c. normalize_candle r = Inr c"
  then obtain c where c: "normalize_candle r = Inr c" ..
  then have "r = raw_of c" "accepts_candle c" by (simp_all add: normalize_candle_Inr)
  then show "\<exists>t op hi lo cl vol. r = \<lparr>rw_timestamp = Some t, rw_open = NumFin op, rw_high = NumFin hi,
      rw_low = NumFin lo, rw_close = NumFin cl, rw_volume = NumFin vol\<rparr> \<and>
      -62135596800000 \<le> t \<and> t < 253402300800000 \<and> lo \<le> hi \<and>
      normalize_candle r = Inr \<lparr>c_timestamp = t, c_open = op, c_high = hi, c_low = lo,
        c_close = cl, c_volume = vol\<rparr>"
    using c
    by (intro exI [of _ "c_timestamp c"] exI [of _ "c_open c"] exI [of _ "c_high c"]
        exI [of _ "c_low c"] exI [of _ "c_close c"] exI [of _ "c_volume c"])
      (simp add: raw_of_def accepts_candle_def)
qed auto

section \<open>One step\<close>

record step_outcome =
  so_terminal :: bool
  so_emit_tp1 :: bool

definition protected_be_price :: "trade_signal \<Rightarrow> asset_profile \<Rightarrow> price" where
  "protected_be_price s p = breakeven_price (s_direction s) (s_entry_price s)"

definition protected_be_rr :: "trade_signal \<Rightarrow> asset_profile \<Rightarrow> real" where
  "protected_be_rr s p = protected_breakeven_rr (s_rr s) (p_tp1_trigger_pct p) (p_tp1_close_pct p)"

definition expiry_ms :: "asset_profile \<Rightarrow> int" where
  "expiry_ms p = trunc (p_signal_expiry_hours p * 3600000)"

text \<open>The expiry branch.\<close>

definition expire_signal :: "trade_signal \<Rightarrow> candle \<Rightarrow> asset_profile \<Rightarrow> ms \<Rightarrow> trade_signal" where
  "expire_signal s c p now =
     (if s_status s = TRIGGERED
      then s\<lparr>s_outcome := Some O_EXPIRED, s_realized_rr := Some 0, s_close_price := Some (c_close c)\<rparr>
      else if s_status s = TP1_HIT
      then (if p_move_sl_to_be_on_tp1 p
            then s\<lparr>s_outcome := Some O_BREAKEVEN, s_realized_rr := Some (protected_be_rr s p),
                   s_close_price := Some (protected_be_price s p)\<rparr>
            else s\<lparr>s_outcome := Some O_EXPIRED, s_realized_rr := Some 0,
                   s_close_price := Some (c_close c)\<rparr>)
      else s)
     \<lparr>s_status := EXPIRED, s_expired_at := Some now, s_closed_at := Some now\<rparr>"

definition win_signal :: "trade_signal \<Rightarrow> asset_profile \<Rightarrow> ms \<Rightarrow> trade_signal" where
  "win_signal s p now =
     s\<lparr>s_status := TP2_HIT, s_outcome := Some O_WIN_FULL,
       s_realized_rr := Some (tp2_weighted_rr (s_rr s) (p_tp1_trigger_pct p) (p_tp1_close_pct p)),
       s_tp2_hit_at := Some now, s_closed_at := Some now, s_close_price := Some (s_tp2 s)\<rparr>"

definition lose_signal :: "trade_signal \<Rightarrow> ms \<Rightarrow> trade_signal" where
  "lose_signal s now =
     s\<lparr>s_status := SL_HIT, s_outcome := Some O_LOSS, s_realized_rr := Some (- 1),
       s_sl_hit_at := Some now, s_closed_at := Some now, s_close_price := Some (s_stop_loss s)\<rparr>"

definition protect_signal :: "trade_signal \<Rightarrow> asset_profile \<Rightarrow> ms \<Rightarrow> price \<Rightarrow> trade_signal" where
  "protect_signal s p now effective_sl =
     s\<lparr>s_sl_hit_at := Some now, s_closed_at := Some now, s_status := SL_HIT,
       s_outcome := Some O_BREAKEVEN, s_realized_rr := Some (protected_be_rr s p),
       s_close_price := Some effective_sl\<rparr>"

definition effective_stop :: "trade_signal \<Rightarrow> asset_profile \<Rightarrow> price" where
  "effective_stop s p =
     (if s_status s = TP1_HIT \<and> p_move_sl_to_be_on_tp1 p then protected_be_price s p
      else s_stop_loss s)"

text \<open>A level at or beyond which the candle traded, against the trade or with it.\<close>

definition hits_stop :: "trade_signal \<Rightarrow> candle \<Rightarrow> price \<Rightarrow> bool" where
  "hits_stop s c level \<longleftrightarrow> (if s_direction s = SHORT then level \<le> c_high c else c_low c \<le> level)"

definition hits_target :: "trade_signal \<Rightarrow> candle \<Rightarrow> price \<Rightarrow> bool" where
  "hits_target s c level \<longleftrightarrow> (if s_direction s = SHORT then c_low c \<le> level else level \<le> c_high c)"

definition step_normalized ::
  "trade_signal \<Rightarrow> candle \<Rightarrow> asset_profile \<Rightarrow> ms \<Rightarrow> step_outcome \<times> trade_signal" where
  "step_normalized s c p now =
     (if expiry_ms p < now - s_created_at s
      then (\<lparr>so_terminal = True, so_emit_tp1 = False\<rparr>, expire_signal s c p now)
      else
        let effective_sl = effective_stop s p;
            sl_hit = hits_stop s c effective_sl;
            tp1_chk = hits_target s c (s_tp1 s);
            tp2_hit = hits_target s c (s_tp2 s)
        in
        if s_status s = TRIGGERED \<and> tp1_chk \<and> tp2_hit
        then (\<lparr>so_terminal = True, so_emit_tp1 = False\<rparr>,
              (win_signal s p now)\<lparr>s_tp1_hit_at := Some now\<rparr>)
        else if s_status s = TRIGGERED \<and> sl_hit
        then (\<lparr>so_terminal = True, so_emit_tp1 = False\<rparr>, lose_signal s now)
        else
          let emit_tp1 = (s_status s = TRIGGERED \<and> tp1_chk);
              s1 = (if emit_tp1 then s\<lparr>s_status := TP1_HIT, s_tp1_hit_at := Some now\<rparr> else s)
          in
          if s_status s1 = TP1_HIT \<and> tp2_hit
          then (\<lparr>so_terminal = True, so_emit_tp1 = emit_tp1\<rparr>, win_signal s1 p now)
          else if s_status s1 = TP1_HIT \<and> sl_hit
          then (\<lparr>so_terminal = True, so_emit_tp1 = emit_tp1\<rparr>,
                if p_move_sl_to_be_on_tp1 p then protect_signal s1 p now effective_sl
                else lose_signal s1 now)
          else (\<lparr>so_terminal = False, so_emit_tp1 = emit_tp1\<rparr>, s1))"

definition step_signal_state ::
  "trade_signal \<Rightarrow> raw_candle \<Rightarrow> asset_profile \<Rightarrow> ms \<Rightarrow> (step_outcome \<times> trade_signal) result" where
  "step_signal_state s c p now =
     bindR (normalize_candle c) (\<lambda>c'. Inr (step_normalized s c' p now))"

section \<open>Replay\<close>

text \<open>A loop of steps that stops at the first terminal outcome, or at the first exception.\<close>

fun run_steps :: "('c \<Rightarrow> 's \<Rightarrow> (bool \<times> 's) result) \<Rightarrow> 'c list \<Rightarrow> 's \<Rightarrow> (bool \<times> 's) result" where
  "run_steps step [] s = Inr (False, s)"
| "run_steps step (c # cs) s =
     bindR (step c s) (\<lambda>(terminal, s'). if terminal then Inr (True, s') else run_steps step cs s')"

definition replay_step :: "asset_profile \<Rightarrow> raw_candle \<Rightarrow> trade_signal \<Rightarrow> (bool \<times> trade_signal) result" where
  "replay_step p c s =
     bindR (step_signal_state s c p (case rw_timestamp c of None \<Rightarrow> 0 | Some t \<Rightarrow> t))
       (\<lambda>(so, s'). Inr (so_terminal so, s'))"

definition replay_signal_lifecycle ::
  "trade_signal \<Rightarrow> raw_candle list \<Rightarrow> asset_profile \<Rightarrow> trade_signal result" where
  "replay_signal_lifecycle s cs p =
     bindR (run_steps (replay_step p) cs s) (\<lambda>(terminal, probe). Inr probe)"

text \<open>A candle that reaches the first target of the worked example only, and one that reaches both.\<close>

definition ex_tp1_candle :: candle where
  "ex_tp1_candle = mk_candle 43800000 104 109 103 108"

definition ex_wide_candle :: candle where
  "ex_wide_candle = mk_candle 44100000 108 113 101 112"

lemma ex_candles_ok: "accepts_candle ex_tp1_candle" "accepts_candle ex_wide_candle"
  by (simp_all add: accepts_candle_def ex_tp1_candle_def ex_wide_candle_def mk_candle_def)

lemma ex_normalized:
  "normalize_candle (raw_of ex_tp1_candle) = Inr ex_tp1_candle"
  "normalize_candle (raw_of ex_wide_candle) = Inr ex_wide_candle"
  using ex_candles_ok by (simp_all add: normalize_raw_of)

definition ex_after_tp1 :: trade_signal where
  "ex_after_tp1 = ex_signal\<lparr>s_status := TP1_HIT, s_tp1_hit_at := Some 43800000\<rparr>"

lemma ex_step_tp1:
  "step_signal_state ex_signal (raw_of ex_tp1_candle) ex_profile 43800000 =
   Inr (\<lparr>so_terminal = False, so_emit_tp1 = True\<rparr>, ex_after_tp1)"
  by code_simp

lemma ex_step_tp2:
  "step_signal_state ex_after_tp1 (raw_of ex_wide_candle) ex_profile 44100000 =
   Inr (\<lparr>so_terminal = True, so_emit_tp1 = False\<rparr>, win_signal ex_after_tp1 ex_profile 44100000)"
  by code_simp

section \<open>Laws of one step\<close>

definition open_status :: "signal_status \<Rightarrow> bool" where
  "open_status st \<longleftrightarrow> st = TRIGGERED \<or> st = TP1_HIT"

lemma open_status_simps [simp]:
  "open_status TRIGGERED" "open_status TP1_HIT" "\<not> open_status PENDING" "\<not> open_status TP2_HIT"
  "\<not> open_status SL_HIT" "\<not> open_status INVALIDATED" "\<not> open_status EXPIRED"
  by (simp_all add: open_status_def)

lemma open_status_cases:
  "open_status st \<Longrightarrow> (st = TRIGGERED \<Longrightarrow> P) \<Longrightarrow> (st = TP1_HIT \<Longrightarrow> P) \<Longrightarrow> P"
  by (auto simp: open_status_def)

abbreviation is_open :: "trade_signal \<Rightarrow> bool" where
  "is_open s \<equiv> open_status (s_status s)"

text \<open>The state machine of the statuses, as a relation.\<close>

inductive status_step :: "signal_status \<Rightarrow> signal_status \<Rightarrow> bool" where
  stay: "open_status a \<Longrightarrow> status_step a a"
| trigger_tp1: "status_step TRIGGERED TP1_HIT"
| take_profit: "open_status a \<Longrightarrow> status_step a TP2_HIT"
| stop_out: "open_status a \<Longrightarrow> status_step a SL_HIT"
| expire: "status_step a EXPIRED"

inductive_cases status_stepE: "status_step a b"
inductive_simps status_step_open: "status_step TRIGGERED b" "status_step TP1_HIT b"

lemma status_step_up: "status_step a b \<Longrightarrow> a \<le> b"
  by (cases a) (auto elim!: status_stepE simp: less_eq_signal_status_def)

lemma status_steps_up: "status_step\<^sup>*\<^sup>* a b \<Longrightarrow> a \<le> b"
  by (induction rule: rtranclp_induct) (auto dest: status_step_up)

lemmas step_defs = step_normalized_def expire_signal_def win_signal_def lose_signal_def
  protect_signal_def effective_stop_def Let_def

lemma step_refines_machine:
  assumes "is_open s" "step_normalized s c p now = (so, s')"
  shows "status_step (s_status s) (s_status s')"
  using assms
  by (elim open_status_cases) (auto simp: step_defs status_step_open split: if_splits)

lemma step_terminal_iff:
  assumes "is_open s" "step_normalized s c p now = (so, s')"
  shows "so_terminal so \<longleftrightarrow> \<not> is_open s'"
  using assms by (elim open_status_cases) (auto simp: step_defs split: if_splits)

lemma step_tp1_event:
  assumes "step_normalized s c p now = (so, s')"
  shows "so_emit_tp1 so \<longrightarrow> \<not> so_terminal so \<and> s_status s = TRIGGERED \<and> s_status s' = TP1_HIT"
  using assms
  by (auto simp: step_defs hits_stop_def hits_target_def split: if_splits)

text \<open>A signal with its lifecycle fields erased: what no step may change.\<close>

definition setup_of :: "trade_signal \<Rightarrow> trade_signal" where
  "setup_of s =
     s\<lparr>s_status := TRIGGERED, s_outcome := None, s_realized_rr := None, s_close_price := None,
       s_tp1_hit_at := None, s_tp2_hit_at := None, s_sl_hit_at := None, s_expired_at := None,
       s_closed_at := None\<rparr>"

lemma setup_of_fields:
  "setup_of s' = setup_of s \<Longrightarrow>
   s_id s' = s_id s \<and> s_symbol s' = s_symbol s \<and> s_direction s' = s_direction s \<and>
   s_entry_price s' = s_entry_price s \<and> s_stop_loss s' = s_stop_loss s \<and> s_tp1 s' = s_tp1 s \<and>
   s_tp2 s' = s_tp2 s \<and> s_rr s' = s_rr s \<and> s_created_at s' = s_created_at s \<and>
   s_triggered_at s' = s_triggered_at s \<and> s_htf_interval s' = s_htf_interval s \<and>
   s_ltf_interval s' = s_ltf_interval s \<and> s_htf_range s' = s_htf_range s \<and>
   s_rejection s' = s_rejection s"
  by (cases s; cases s') (simp add: setup_of_def)

lemma step_setup: "step_normalized s c p now = (so, s') \<Longrightarrow> setup_of s' = setup_of s"
  by (auto simp: step_defs setup_of_def split: if_splits)

lemma step_signal_state_Inr:
  "step_signal_state s c p now = Inr (so, s') \<longleftrightarrow>
   (\<exists>c'. normalize_candle c = Inr c' \<and> step_normalized s c' p now = (so, s'))"
  by (auto simp: step_signal_state_def bindR_Inr_iff)

text \<open>
  C30: a step of an open signal follows the status machine and never moves back, touches only the
  lifecycle fields, is terminal exactly when it leaves the open statuses, and announces TP1
  exactly on the transition from TRIGGERED to TP1_HIT, never together with a close.
\<close>

theorem step_signal_state_machine:
  assumes "is_open s" "step_signal_state s c p now = Inr (so, s')"
  shows "status_step (s_status s) (s_status s') \<and> s_status s \<le> s_status s' \<and>
    setup_of s' = setup_of s \<and> (so_terminal so \<longleftrightarrow> \<not> is_open s') \<and>
    (so_emit_tp1 so \<longleftrightarrow> s_status s = TRIGGERED \<and> s_status s' = TP1_HIT)"
proof -
  from assms(2) obtain c' where st: "step_normalized s c' p now = (so, s')"
    by (auto simp: step_signal_state_Inr)
  have "so_emit_tp1 so \<longleftrightarrow> s_status s = TRIGGERED \<and> s_status s' = TP1_HIT"
    using st assms(1) by (elim open_status_cases) (auto simp: step_defs split: if_splits)
  then show ?thesis
    using step_refines_machine [OF assms(1) st] step_terminal_iff [OF assms(1) st] step_setup [OF st]
      status_step_up by blast
qed

theorem step_signal_state_machine_witness:
  "is_open ex_signal \<and> status_step (s_status ex_signal) (s_status ex_after_tp1) \<and>
   setup_of ex_after_tp1 = setup_of ex_signal"
proof -
  have "is_open ex_signal" by code_simp
  with step_signal_state_machine [OF this ex_step_tp1] show ?thesis by blast
qed

text \<open>The outcome, booked ratio and price that a closed status may carry.\<close>

definition closed_as ::
  "trade_signal \<Rightarrow> asset_profile \<Rightarrow> price \<Rightarrow> signal_status \<Rightarrow> signal_outcome \<Rightarrow> real \<Rightarrow> price \<Rightarrow> bool" where
  "closed_as s p px st oc rr cp \<longleftrightarrow>
     (st = TP2_HIT \<and> oc = O_WIN_FULL \<and> cp = s_tp2 s \<and>
        rr = tp2_weighted_rr (s_rr s) (p_tp1_trigger_pct p) (p_tp1_close_pct p)) \<or>
     (st = SL_HIT \<and> oc = O_LOSS \<and> cp = s_stop_loss s \<and> rr = - 1) \<or>
     (st \<in> {SL_HIT, EXPIRED} \<and> oc = O_BREAKEVEN \<and> cp = s_entry_price s \<and> s_status s = TP1_HIT \<and>
        p_move_sl_to_be_on_tp1 p \<and>
        rr = tp1_booked_rr (s_rr s) (p_tp1_trigger_pct p) (p_tp1_close_pct p)) \<or>
     (st = EXPIRED \<and> oc = O_EXPIRED \<and> cp = px \<and> rr = 0)"

lemma step_closed_as:
  assumes "is_open s" "step_normalized s c p now = (so, s')" "so_terminal so"
  shows "s_closed_at s' = Some now \<and>
    (\<exists>oc rr cp. s_outcome s' = Some oc \<and> s_realized_rr s' = Some rr \<and> s_close_price s' = Some cp \<and>
      closed_as s p (c_close c) (s_status s') oc rr cp)"
  using assms
  by (elim open_status_cases)
    (auto simp: step_defs closed_as_def protected_be_rr_def protected_be_price_def
      protected_breakeven_rr_def breakeven_price_def split: if_splits)

text \<open>
  a terminal step of an open signal always records when, how, at what price and at what
  ratio it closed, and the four agree: TP2 books the weighted ratio at the target, a stop books
  -1 at the stop price or the protected ratio at the entry, an expiry books nothing at the
  candle's close or the protected ratio.
\<close>

theorem step_signal_state_closes:
  assumes "is_open s" "step_signal_state s c p now = Inr (so, s')" "so_terminal so"
  shows "s_closed_at s' = Some now \<and>
    (\<exists>c' oc rr cp. normalize_candle c = Inr c' \<and> s_outcome s' = Some oc \<and>
      s_realized_rr s' = Some rr \<and> s_close_price s' = Some cp \<and>
      closed_as s p (c_close c') (s_status s') oc rr cp)"
  using assms step_closed_as unfolding step_signal_state_Inr by blast

theorem step_signal_state_closes_witness:
  "is_open ex_after_tp1 \<and> (s_closed_at (win_signal ex_after_tp1 ex_profile 44100000) = Some 44100000)"
proof -
  have o: "is_open ex_after_tp1" by (simp add: ex_after_tp1_def)
  show ?thesis using step_signal_state_closes [OF o ex_step_tp2] o by simp
qed

definition pct_in_range :: "asset_profile \<Rightarrow> bool" where
  "pct_in_range p \<longleftrightarrow> 0 \<le> p_tp1_trigger_pct p \<and> p_tp1_trigger_pct p \<le> 100 \<and>
     0 \<le> p_tp1_close_pct p \<and> p_tp1_close_pct p \<le> 100"

text \<open>
  The bounds of the two weighted ratios, from the trade-management theory.
\<close>

lemma weighted_bounds:
  assumes "pct_in_range p" "0 \<le> rr"
  shows "0 \<le> tp1_booked_rr rr (p_tp1_trigger_pct p) (p_tp1_close_pct p)"
    and "tp1_booked_rr rr (p_tp1_trigger_pct p) (p_tp1_close_pct p) \<le> rr"
    and "0 \<le> tp2_weighted_rr rr (p_tp1_trigger_pct p) (p_tp1_close_pct p)"
    and "tp2_weighted_rr rr (p_tp1_trigger_pct p) (p_tp1_close_pct p) \<le> rr"
  using tp2_weighted_bounds [of rr "p_tp1_trigger_pct p" "p_tp1_close_pct p"] assms
  unfolding pct_in_range_def by auto

lemma built_rr_pos:
  "build_signal symbol htf ltf z rej i p broker bid ask = Inr (Some t) \<Longrightarrow> 0 \<le> s_rr t"
  unfolding build_signal_eq
  by (auto simp: bindR_Inr_iff final_rr_def mk_signal_def Let_def split: if_splits)

text \<open>
  C29: the money rule of the lifecycle. Take a signal of the builder, under a profile that comes
  from validated settings whose overrides per timeframe have their percentages in range (the
  validation checks the global percentages only: \<open>tm_overrides_unchecked\<close>), in any state with the
  ratio it was built with: when it closes it books at least -1 and at most that ratio, and
  once TP1 is hit with the stop moved to break-even it never books a loss.
\<close>

theorem realized_rr_bounds:
  assumes "post_init cfg = Inr ()" "overrides_in_range cfg" "registry_get cfg symbol (Some htf) (Some ltf) = Inr p"
    and "build_signal symbol htf ltf z rej i p broker bid ask = Inr (Some s0)" "s_rr s = s_rr s0"
    and "is_open s" "step_signal_state s c p now = Inr (so, s')" "so_terminal so"
  shows "\<exists>rr. s_realized_rr s' = Some rr \<and> - 1 \<le> rr \<and> rr \<le> s_rr s0 \<and>
    (s_status s = TP1_HIT \<and> p_move_sl_to_be_on_tp1 p \<longrightarrow> 0 \<le> rr)"
proof -
  have p: "pct_in_range p" using registry_pct_range [OF assms(1-3)] by (simp add: pct_in_range_def)
  have pos: "0 \<le> s_rr s" using built_rr_pos [OF assms(4)] assms(5) by simp
  from assms(7) obtain c' where st: "step_normalized s c' p now = (so, s')"
    by (auto simp: step_signal_state_Inr)
  from step_closed_as [OF assms(6) st assms(8)] obtain oc rr cp where
    rr: "s_realized_rr s' = Some rr" and oc: "s_outcome s' = Some oc"
    and cl: "closed_as s p (c_close c') (s_status s') oc rr cp"
    by blast
  note b = weighted_bounds [OF p pos]
  have "s_outcome s' \<noteq> Some O_LOSS" if "s_status s = TP1_HIT" "p_move_sl_to_be_on_tp1 p"
    using st that assms(8) by (auto simp: step_defs split: if_splits)
  then show ?thesis
    using rr oc cl b pos assms(5) by (auto simp: closed_as_def)
qed

theorem realized_rr_bounds_witness:
  "is_open ex_after_tp1 \<and>
   (\<exists>rr. s_realized_rr (win_signal ex_after_tp1 ex_profile 44100000) = Some rr \<and> 0 \<le> rr \<and> rr \<le> s_rr ex_signal)"
proof -
  have o: "is_open ex_after_tp1" "s_rr ex_after_tp1 = s_rr ex_signal" by (simp_all add: ex_after_tp1_def)
  have "overrides_in_range (default_settings [])" by (simp add: overrides_in_range_def default_settings_def)
  note r = realized_rr_bounds [OF default_settings_valid this ex_profile_registry ex_build o(2,1) ex_step_tp2]
  have "s_status ex_after_tp1 = TP1_HIT" "p_move_sl_to_be_on_tp1 ex_profile"
    by (simp_all add: ex_after_tp1_def ex_profile_fields)
  with r o(1) show ?thesis by auto
qed

text \<open>
  expiry comes first: once the signal is older than the expiry the step closes it as EXPIRED
  whatever the candle did; before that, a candle that touches neither the effective stop nor
  TP1 nor TP2 changes nothing.
\<close>

theorem step_signal_state_quiet_or_expired:
  assumes "is_open s" "step_signal_state s c p now = Inr (so, s')" "normalize_candle c = Inr c'"
  shows "(expiry_ms p < now - s_created_at s \<longrightarrow> so_terminal so \<and> s_status s' = EXPIRED) \<and>
    (now - s_created_at s \<le> expiry_ms p \<longrightarrow>
      \<not> hits_stop s c' (effective_stop s p) \<longrightarrow> \<not> hits_target s c' (s_tp1 s) \<longrightarrow>
      \<not> hits_target s c' (s_tp2 s) \<longrightarrow> \<not> so_terminal so \<and> s' = s)"
proof -
  from assms(2,3) have st: "step_normalized s c' p now = (so, s')"
    by (auto simp: step_signal_state_Inr)
  show ?thesis
    using st assms(1) by (elim open_status_cases) (auto simp: step_normalized_def expire_signal_def Let_def)
qed

theorem step_signal_state_quiet_or_expired_witness:
  "expiry_ms (ex_profile\<lparr>p_signal_expiry_hours := 0\<rparr>) < 43800000 - s_created_at ex_signal \<and>
   s_status (expire_signal ex_signal ex_tp1_candle (ex_profile\<lparr>p_signal_expiry_hours := 0\<rparr>) 43800000) = EXPIRED"
proof -
  have o: "is_open ex_signal" by (simp add: ex_signal_def)
  have st: "step_signal_state ex_signal (raw_of ex_tp1_candle) (ex_profile\<lparr>p_signal_expiry_hours := 0\<rparr>) 43800000 =
    Inr (\<lparr>so_terminal = True, so_emit_tp1 = False\<rparr>,
      expire_signal ex_signal ex_tp1_candle (ex_profile\<lparr>p_signal_expiry_hours := 0\<rparr>) 43800000)"
    by code_simp
  have old: "expiry_ms (ex_profile\<lparr>p_signal_expiry_hours := 0\<rparr>) < 43800000 - s_created_at ex_signal"
    by code_simp
  show ?thesis
    using step_signal_state_quiet_or_expired [OF o st ex_normalized(1)] old by blast
qed

text \<open>
  a candle that reaches TP1 and TP2 closes a triggered signal as a full win even when the same
  candle reaches the stop, so the order of the touches inside one candle is decided for the
  trade.
\<close>

theorem same_bar_target_beats_stop:
  assumes "s_status s = TRIGGERED" "normalize_candle c = Inr c'" "now - s_created_at s \<le> expiry_ms p"
    and "hits_target s c' (s_tp1 s)" "hits_target s c' (s_tp2 s)" "hits_stop s c' (s_stop_loss s)"
  shows "\<exists>s'. step_signal_state s c p now = Inr (\<lparr>so_terminal = True, so_emit_tp1 = False\<rparr>, s') \<and>
    s_status s' = TP2_HIT \<and> s_outcome s' = Some O_WIN_FULL \<and> s_close_price s' = Some (s_tp2 s)"
  using assms by (simp add: step_signal_state_def step_normalized_def win_signal_def Let_def)

theorem same_bar_target_beats_stop_witness:
  "hits_stop ex_signal ex_wide_candle (s_stop_loss ex_signal) \<and>
   (\<exists>s'. step_signal_state ex_signal (raw_of ex_wide_candle) ex_profile 44100000 =
      Inr (\<lparr>so_terminal = True, so_emit_tp1 = False\<rparr>, s') \<and> s_outcome s' = Some O_WIN_FULL)"
proof -
  have h: "s_status ex_signal = TRIGGERED" "44100000 - s_created_at ex_signal \<le> expiry_ms ex_profile"
    "hits_target ex_signal ex_wide_candle (s_tp1 ex_signal)"
    "hits_target ex_signal ex_wide_candle (s_tp2 ex_signal)"
    "hits_stop ex_signal ex_wide_candle (s_stop_loss ex_signal)"
    by code_simp+
  show ?thesis
    using same_bar_target_beats_stop [OF h(1) ex_normalized(2) h(2-5)] h(5) by blast
qed

section \<open>Replay laws\<close>

lemma run_steps_append:
  "run_steps step (xs @ ys) s =
   bindR (run_steps step xs s) (\<lambda>(t, s'). if t then Inr (True, s') else run_steps step ys s')"
proof (induction xs arbitrary: s)
  case (Cons x xs)
  show ?case
  proof (cases "step x s")
    case (Inr ts)
    then show ?thesis by (cases ts) (simp add: Cons.IH)
  qed simp
qed simp

text \<open>
  The interface the callers of the lifecycle rely on, whoever steps the signal: a step never
  moves the rank of an open state back, its flag tells whether the state is still open, and it
  keeps what the caller fixed.
\<close>

locale stepper =
  fixes step :: "'c \<Rightarrow> 's \<Rightarrow> (bool \<times> 's) result"
    and opn :: "'s \<Rightarrow> bool"
    and rank :: "'s \<Rightarrow> 'r::linorder"
    and frozen :: "'s \<Rightarrow> 'f"
  assumes step_rank: "opn s \<Longrightarrow> step c s = Inr (t, s') \<Longrightarrow> rank s \<le> rank s'"
    and step_flag: "opn s \<Longrightarrow> step c s = Inr (t, s') \<Longrightarrow> opn s' \<longleftrightarrow> \<not> t"
    and step_frozen: "opn s \<Longrightarrow> step c s = Inr (t, s') \<Longrightarrow> frozen s' = frozen s"
begin

lemma run_laws:
  "opn s \<Longrightarrow> run_steps step cs s = Inr (t, s') \<Longrightarrow>
   rank s \<le> rank s' \<and> (opn s' \<longleftrightarrow> \<not> t) \<and> frozen s' = frozen s"
proof (induction cs arbitrary: s)
  case (Cons c cs)
  from Cons.prems(2) obtain t1 s1 where one: "step c s = Inr (t1, s1)"
    and rest: "(if t1 then Inr (True, s1) else run_steps step cs s1) = Inr (t, s')"
    by (auto simp: bindR_Inr_iff)
  note laws = step_rank [OF Cons.prems(1) one] step_flag [OF Cons.prems(1) one]
    step_frozen [OF Cons.prems(1) one]
  show ?case
  proof (cases t1)
    case True
    then show ?thesis using rest laws by simp
  next
    case False
    then show ?thesis using Cons.IH [of s1] rest laws by fastforce
  qed
qed simp

text \<open>A caller that stops when the state is no longer open sees the same run.\<close>

fun run_while :: "'c list \<Rightarrow> 's \<Rightarrow> 's result" where
  "run_while [] s = Inr s"
| "run_while (c # cs) s =
     (if opn s then bindR (step c s) (\<lambda>(_, s'). run_while cs s') else Inr s)"

lemma run_while_closed: "\<not> opn s \<Longrightarrow> run_while cs s = Inr s"
  by (cases cs) auto

lemma run_while_eq:
  "opn s \<Longrightarrow> run_while cs s = bindR (run_steps step cs s) (\<lambda>(t, s'). Inr s')"
proof (induction cs arbitrary: s)
  case (Cons c cs)
  show ?case
  proof (cases "step c s")
    case (Inr ts)
    then obtain t s' where one: "step c s = Inr (t, s')" by (cases ts) auto
    show ?thesis
      using Cons.prems Cons.IH [of s'] step_flag [OF Cons.prems one]
      by (cases t) (simp_all add: one run_while_closed)
  qed (use Cons.prems in simp)
qed simp

end

interpretation life: stepper "replay_step p" is_open s_status setup_of for p
proof
  fix s c t s'
  assume o: "is_open s" and st: "replay_step p c s = Inr (t, s')"
  then obtain so where so: "step_signal_state s c p (case rw_timestamp c of None \<Rightarrow> 0 | Some t \<Rightarrow> t) = Inr (so, s')"
    and t: "t = so_terminal so"
    by (auto simp: replay_step_def bindR_Inr_iff)
  then obtain c' where n: "step_normalized s c' p (case rw_timestamp c of None \<Rightarrow> 0 | Some t \<Rightarrow> t) = (so, s')"
    by (auto simp: step_signal_state_Inr)
  show "s_status s \<le> s_status s'"
    using status_step_up [OF step_refines_machine [OF o n]] .
  show "is_open s' \<longleftrightarrow> \<not> t"
    using step_terminal_iff [OF o n] t by simp
  show "setup_of s' = setup_of s" using step_setup [OF n] .
qed

text \<open>
  C31: replaying candles in batches is replaying them at once, which is what makes the live
  watchlist, the status query and the backtester agree: after a prefix that closed the signal
  nothing that follows matters, and after a prefix that left it open the replay continues from
  the state reached.
\<close>

theorem replay_in_batches:
  assumes "is_open s" "replay_signal_lifecycle s xs p = Inr s1"
  shows "replay_signal_lifecycle s (xs @ ys) p =
      (if is_open s1 then replay_signal_lifecycle s1 ys p else Inr s1) \<and>
    s_status s \<le> s_status s1 \<and> setup_of s1 = setup_of s"
proof -
  from assms(2) obtain t where r: "run_steps (replay_step p) xs s = Inr (t, s1)"
    by (auto simp: replay_signal_lifecycle_def bindR_Inr_iff)
  note laws = life.run_laws [OF assms(1) r]
  show ?thesis
    using laws by (auto simp: replay_signal_lifecycle_def run_steps_append r)
qed

theorem replay_in_batches_witness:
  "replay_signal_lifecycle ex_signal ([raw_of ex_tp1_candle] @ [raw_of ex_wide_candle]) ex_profile =
   replay_signal_lifecycle ex_after_tp1 [raw_of ex_wide_candle] ex_profile"
proof -
  have o: "is_open ex_signal" "is_open ex_after_tp1" by (simp_all add: ex_signal_def ex_after_tp1_def)
  have r: "replay_signal_lifecycle ex_signal [raw_of ex_tp1_candle] ex_profile = Inr ex_after_tp1"
    by code_simp
  show ?thesis using replay_in_batches [OF o(1) r] o(2) by simp
qed

end
