(* ===== verification/Wire.thy ===== *)
theory Wire
  imports Lifecycle
begin

text \<open>
  The wire format of domain/entities/trade.py: \<open>TradeSignal.to_dict\<close> and \<open>from_dict\<close> over JSON
  values, and \<open>WsMessage.to_dict\<close> of domain/entities/session.py. Dictionaries are association
  lists with distinct keys. The record fields are typed, so a JSON value of another kind in
  \<open>from_dict\<close>, which Python would store unchecked, is a \<open>TypeError\<close> here.
\<close>

section \<open>Writing\<close>

definition jopt :: "('a \<Rightarrow> json) \<Rightarrow> 'a option \<Rightarrow> json" where
  "jopt f o' = (case o' of None \<Rightarrow> JNull | Some x \<Rightarrow> f x)"

definition zone_to_dict :: "htf_zone \<Rightarrow> json" where
  "zone_to_dict z = JObj
     [(''rangeHigh'', JFloat (z_range_high z)),
      (''rangeLow'', JFloat (z_range_low z)),
      (''bosDirection'', JStr (bos_value (z_bos_direction z))),
      (''timestamp'', JInt (z_timestamp z)),
      (''brokenAt'', JInt (z_broken_at z)),
      (''tpLevel'', JFloat (z_tp_level z)),
      (''midpoint'', JFloat (midpoint z)),
      (''height'', JFloat (py_round 6 (height z))),
      (''htfCandleOpen'', JInt (z_htf_candle_open z)),
      (''htfCandleClose'', JInt (z_htf_candle_close z))]"

definition rejection_to_dict :: "rejection \<Rightarrow> ms \<Rightarrow> json" where
  "rejection_to_dict r close_at = JObj
     [(''open'', JFloat (r_open r)),
      (''high'', JFloat (r_high r)),
      (''low'', JFloat (r_low r)),
      (''close'', JFloat (r_close r)),
      (''timestamp'', JInt (r_timestamp r)),
      (''closeAt'', JInt close_at),
      (''wickRatio'', JFloat (py_round 4 (r_wick_ratio r))),
      (''pattern'', JStr (pattern_value (r_pattern r))),
      (''wickTip'', JFloat (wick_tip r))]"

text \<open>\<open>a or b\<close> on an optional integer whose alternative may raise.\<close>

definition or_else :: "ms option \<Rightarrow> ms result \<Rightarrow> ms result" where
  "or_else a b = (case a of None \<Rightarrow> b | Some x \<Rightarrow> if x = 0 then b else Inr x)"

definition close_at_of :: "trade_signal \<Rightarrow> ms result" where
  "close_at_of s =
     or_else (s_setup_close_at s)
       (bindR (interval_to_ms (s_ltf_interval s)) (\<lambda>iv. Inr (r_timestamp (s_rejection s) + iv)))"

definition open_at_of :: "trade_signal \<Rightarrow> ms" where
  "open_at_of s = int_or (s_setup_open_at s) (r_timestamp (s_rejection s))"

definition signal_entries :: "trade_signal \<Rightarrow> ms \<Rightarrow> (string \<times> json) list" where
  "signal_entries s close_at =
     [(''id'', JStr (s_id s)),
      (''symbol'', JStr (s_symbol s)),
      (''direction'', JStr (direction_value (s_direction s))),
      (''status'', JStr (status_value (s_status s))),
      (''entryPrice'', JFloat (s_entry_price s)),
      (''stopLoss'', JFloat (s_stop_loss s)),
      (''tp1'', JFloat (s_tp1 s)),
      (''tp2'', JFloat (s_tp2 s)),
      (''riskRewardRatio'', JFloat (py_round 4 (s_rr s))),
      (''riskPips'', JFloat (py_round 6 (s_risk_pips s))),
      (''htfInterval'', JStr (s_htf_interval s)),
      (''ltfInterval'', JStr (s_ltf_interval s)),
      (''zoneAttempt'', JInt (s_zone_attempt s)),
      (''broker'', JStr (s_broker s)),
      (''htfRange'', zone_to_dict (s_htf_range s)),
      (''rejectionCandle'', rejection_to_dict (s_rejection s) close_at),
      (''createdAt'', JInt (s_created_at s)),
      (''pendingAt'', jopt JInt (s_pending_at s)),
      (''triggeredAt'', jopt JInt (s_triggered_at s)),
      (''setupCandleOpenAt'', JInt (open_at_of s)),
      (''setupCandleCloseAt'', JInt close_at),
      (''detectedAt'', jopt JInt (s_detected_at s)),
      (''emittedAt'', jopt JInt (s_emitted_at s)),
      (''rejectionCandleCloseAt'', JInt close_at),
      (''tp1HitAt'', jopt JInt (s_tp1_hit_at s)),
      (''tp2HitAt'', jopt JInt (s_tp2_hit_at s)),
      (''slHitAt'', jopt JInt (s_sl_hit_at s)),
      (''invalidatedAt'', jopt JInt (s_invalidated_at s)),
      (''expiredAt'', jopt JInt (s_expired_at s)),
      (''closedAt'', jopt JInt (s_closed_at s)),
      (''outcome'', jopt (\<lambda>oc. JStr (outcome_value oc)) (s_outcome s)),
      (''realizedRR'', jopt JFloat (s_realized_rr s)),
      (''closePrice'', jopt JFloat (s_close_price s)),
      (''chartPath'', jopt JStr (s_chart_path s)),
      (''chartData'', jopt (\<lambda>j. j) (s_chart_data s))]"

definition to_dict :: "trade_signal \<Rightarrow> json result" where
  "to_dict s = bindR (close_at_of s) (\<lambda>close_at. Inr (JObj (signal_entries s close_at)))"

text \<open>The WebSocket envelope.\<close>

definition ws_message :: "signal_event \<Rightarrow> json \<Rightarrow> json" where
  "ws_message ev payload = JObj [(''event'', JStr (event_value ev)), (''payload'', payload)]"

section \<open>Reading\<close>

definition need :: "(string \<times> json) list \<Rightarrow> string \<Rightarrow> json result" where
  "need d k = (case map_of d k of None \<Rightarrow> Inl KeyError | Some v \<Rightarrow> Inr v)"

definition get_or :: "(string \<times> json) list \<Rightarrow> string \<Rightarrow> json \<Rightarrow> json" where
  "get_or d k dflt = (case map_of d k of None \<Rightarrow> dflt | Some v \<Rightarrow> v)"

fun as_num :: "json \<Rightarrow> real result" where
  "as_num (JInt n) = Inr (of_int n)" | "as_num (JFloat x) = Inr x" | "as_num _ = Inl TypeError"

fun as_int :: "json \<Rightarrow> int result" where
  "as_int (JInt n) = Inr n" | "as_int _ = Inl TypeError"

fun as_str :: "json \<Rightarrow> string result" where
  "as_str (JStr s) = Inr s" | "as_str _ = Inl TypeError"

fun as_obj :: "json \<Rightarrow> (string \<times> json) list result" where
  "as_obj (JObj d) = Inr d" | "as_obj _ = Inl TypeError"

fun as_opt :: "(json \<Rightarrow> 'a result) \<Rightarrow> json \<Rightarrow> 'a option result" where
  "as_opt f JNull = Inr None"
| "as_opt f j = bindR (f j) (\<lambda>x. Inr (Some x))"

text \<open>\<open>int(v)\<close> on a JSON value.\<close>

fun int_of_json :: "json \<Rightarrow> int result" where
  "int_of_json (JInt n) = Inr n"
| "int_of_json (JFloat x) = Inr (trunc x)"
| "int_of_json (JBool b) = Inr (if b then 1 else 0)"
| "int_of_json (JStr s) = py_int s"
| "int_of_json _ = Inl TypeError"

text \<open>\<open>Enum(v)\<close> on a JSON value: a value that is no member's raises \<open>ValueError\<close>.\<close>

fun enum_json :: "(string \<Rightarrow> 'a result) \<Rightarrow> json \<Rightarrow> 'a result" where
  "enum_json f (JStr s) = f s" | "enum_json f _ = Inl ValueError"

fun truthy :: "json \<Rightarrow> bool" where
  "truthy JNull = False"
| "truthy (JBool b) = b"
| "truthy (JInt n) = (n \<noteq> 0)"
| "truthy (JFloat x) = (x \<noteq> 0)"
| "truthy (JStr s) = (s \<noteq> [])"
| "truthy (JArr xs) = (xs \<noteq> [])"
| "truthy (JObj d) = (d \<noteq> [])"

definition jor :: "json \<Rightarrow> json \<Rightarrow> json" where
  "jor a b = (if truthy a then a else b)"

text \<open>\<open>SignalOutcome(v) if v else None\<close>.\<close>

definition read_outcome :: "json \<Rightarrow> signal_outcome option result" where
  "read_outcome v =
     (if truthy v then bindR (enum_json outcome_of v) (\<lambda>oc. Inr (Some oc)) else Inr None)"

definition zone_from_dict :: "(string \<times> json) list \<Rightarrow> htf_zone result" where
  "zone_from_dict hr =
     bindR (bindR (need hr ''rangeHigh'') as_num) (\<lambda>hi.
     bindR (bindR (need hr ''rangeLow'') as_num) (\<lambda>lo.
     bindR (bindR (need hr ''bosDirection'') (enum_json bos_of)) (\<lambda>d.
     bindR (bindR (need hr ''timestamp'') as_int) (\<lambda>ts.
     bindR (as_int (jor (get_or hr ''brokenAt'' JNull) (JInt 0))) (\<lambda>ba.
     bindR (as_num (jor (get_or hr ''tpLevel'' JNull) (JFloat 0))) (\<lambda>tp.
     bindR (as_int (jor (get_or hr ''htfCandleOpen'' JNull) (JInt 0))) (\<lambda>ho.
     bindR (as_int (jor (get_or hr ''htfCandleClose'' JNull) (JInt 0))) (\<lambda>hc.
     Inr \<lparr>z_range_high = hi, z_range_low = lo, z_bos_direction = d, z_timestamp = ts,
          z_broken_at = ba, z_tp_level = tp, z_htf_candle_open = ho, z_htf_candle_close = hc\<rparr>))))))))"

definition rejection_from_dict :: "(string \<times> json) list \<Rightarrow> rejection result" where
  "rejection_from_dict rc =
     bindR (bindR (need rc ''open'') as_num) (\<lambda>op.
     bindR (bindR (need rc ''high'') as_num) (\<lambda>hi.
     bindR (bindR (need rc ''low'') as_num) (\<lambda>lo.
     bindR (bindR (need rc ''close'') as_num) (\<lambda>cl.
     bindR (bindR (need rc ''timestamp'') as_int) (\<lambda>ts.
     bindR (bindR (need rc ''wickRatio'') as_num) (\<lambda>wr.
     bindR (bindR (need rc ''pattern'') (enum_json pattern_of)) (\<lambda>pat.
     Inr \<lparr>r_open = op, r_high = hi, r_low = lo, r_close = cl, r_timestamp = ts,
          r_wick_ratio = wr, r_pattern = pat\<rparr>)))))))"

text \<open>The scalar fields in the order the constructor call evaluates them.\<close>

definition from_dict :: "json \<Rightarrow> trade_signal result" where
  "from_dict j =
     bindR (as_obj j) (\<lambda>d.
     bindR (bindR (need d ''htfRange'') as_obj) (\<lambda>hr.
     bindR (bindR (need d ''rejectionCandle'') as_obj) (\<lambda>rc.
     bindR (bindR (need d ''id'') as_str) (\<lambda>v_id.
     bindR (bindR (need d ''symbol'') as_str) (\<lambda>v_symbol.
     bindR (bindR (need d ''direction'') (enum_json direction_of)) (\<lambda>v_dir.
     bindR (bindR (need d ''status'') (enum_json status_of)) (\<lambda>v_status.
     bindR (bindR (need d ''entryPrice'') as_num) (\<lambda>v_entry.
     bindR (bindR (need d ''stopLoss'') as_num) (\<lambda>v_sl.
     bindR (bindR (need d ''tp1'') as_num) (\<lambda>v_tp1.
     bindR (bindR (need d ''tp2'') as_num) (\<lambda>v_tp2.
     bindR (bindR (need d ''riskRewardRatio'') as_num) (\<lambda>v_rr.
     bindR (bindR (need d ''riskPips'') as_num) (\<lambda>v_risk.
     bindR (as_str (get_or d ''htfInterval'' (JStr ''1h''))) (\<lambda>v_htf.
     bindR (as_str (get_or d ''ltfInterval'' (JStr ''5min''))) (\<lambda>v_ltf.
     bindR (int_of_json (get_or d ''zoneAttempt'' (JInt 1))) (\<lambda>v_attempt.
     bindR (as_str (get_or d ''broker'' (JStr []))) (\<lambda>v_broker.
     bindR (zone_from_dict hr) (\<lambda>v_zone.
     bindR (rejection_from_dict rc) (\<lambda>v_rej.
     bindR (bindR (need d ''createdAt'') as_int) (\<lambda>v_created.
     bindR (as_opt as_int (get_or d ''pendingAt'' JNull)) (\<lambda>v_pending.
     bindR (as_opt as_int (get_or d ''triggeredAt'' JNull)) (\<lambda>v_triggered.
     bindR (as_opt as_int (get_or d ''setupCandleOpenAt'' JNull)) (\<lambda>v_sopen.
     bindR (as_opt as_int (jor (get_or d ''setupCandleCloseAt'' JNull)
                               (get_or d ''rejectionCandleCloseAt'' JNull))) (\<lambda>v_sclose.
     bindR (as_opt as_int (get_or d ''detectedAt'' JNull)) (\<lambda>v_detected.
     bindR (as_opt as_int (get_or d ''emittedAt'' JNull)) (\<lambda>v_emitted.
     bindR (as_opt as_int (get_or d ''tp1HitAt'' JNull)) (\<lambda>v_tp1at.
     bindR (as_opt as_int (get_or d ''tp2HitAt'' JNull)) (\<lambda>v_tp2at.
     bindR (as_opt as_int (get_or d ''slHitAt'' JNull)) (\<lambda>v_slat.
     bindR (as_opt as_int (get_or d ''invalidatedAt'' JNull)) (\<lambda>v_inv.
     bindR (as_opt as_int (get_or d ''expiredAt'' JNull)) (\<lambda>v_exp.
     bindR (as_opt as_int (get_or d ''closedAt'' JNull)) (\<lambda>v_closed.
     bindR (read_outcome (get_or d ''outcome'' JNull)) (\<lambda>v_outcome.
     bindR (as_opt as_num (get_or d ''realizedRR'' JNull)) (\<lambda>v_real.
     bindR (as_opt as_num (get_or d ''closePrice'' JNull)) (\<lambda>v_cprice.
     bindR (as_opt as_str (get_or d ''chartPath'' JNull)) (\<lambda>v_cpath.
     bindR (as_opt Inr (get_or d ''chartData'' JNull)) (\<lambda>v_cdata.
     Inr \<lparr>s_id = v_id, s_symbol = v_symbol, s_direction = v_dir, s_status = v_status,
          s_entry_price = v_entry, s_stop_loss = v_sl, s_tp1 = v_tp1, s_tp2 = v_tp2,
          s_htf_range = v_zone, s_rejection = v_rej, s_rr = v_rr, s_risk_pips = v_risk,
          s_htf_interval = v_htf, s_ltf_interval = v_ltf, s_zone_attempt = v_attempt,
          s_broker = v_broker, s_price_source_used = ''candle_close'',
          s_candle_close_price = None, s_live_bid = None, s_live_ask = None,
          s_price_drift = None, s_created_at = v_created, s_pending_at = v_pending,
          s_triggered_at = v_triggered, s_setup_open_at = v_sopen, s_setup_close_at = v_sclose,
          s_detected_at = v_detected, s_emitted_at = v_emitted, s_tp1_hit_at = v_tp1at,
          s_tp2_hit_at = v_tp2at, s_sl_hit_at = v_slat, s_invalidated_at = v_inv,
          s_expired_at = v_exp, s_closed_at = v_closed, s_outcome = v_outcome,
          s_realized_rr = v_real, s_close_price = v_cprice, s_chart_path = v_cpath,
          s_chart_data = v_cdata\<rparr>)))))))))))))))))))))))))))))))))))))"

section \<open>Round trip\<close>

text \<open>What survives the wire: rounded ratios, the two setup times made explicit, and no pricing
  diagnostics.\<close>

definition wire_normal :: "trade_signal \<Rightarrow> ms \<Rightarrow> trade_signal" where
  "wire_normal s close_at =
     s\<lparr>s_rr := py_round 4 (s_rr s), s_risk_pips := py_round 6 (s_risk_pips s),
       s_rejection := (s_rejection s)\<lparr>r_wick_ratio := py_round 4 (r_wick_ratio (s_rejection s))\<rparr>,
       s_price_source_used := ''candle_close'', s_candle_close_price := None, s_live_bid := None,
       s_live_ask := None, s_price_drift := None,
       s_setup_open_at := Some (open_at_of s), s_setup_close_at := Some close_at\<rparr>"

lemma as_opt_jopt [simp]:
  "(\<And>x. g (f x) = Inr x) \<Longrightarrow> (\<And>x. f x \<noteq> JNull) \<Longrightarrow> as_opt g (jopt f o') = Inr o'"
proof -
  assume fg: "\<And>x. g (f x) = Inr x" and nn: "\<And>x. f x \<noteq> JNull"
  show ?thesis
  proof (cases o')
    case (Some x)
    have "as_opt g (f x) = bindR (g (f x)) (\<lambda>x. Inr (Some x))"
      using nn [of x] by (cases "f x") simp_all
    then show ?thesis using Some fg by (simp add: jopt_def)
  qed (simp add: jopt_def)
qed

lemma outcome_value_neq_Nil [simp]: "outcome_value oc \<noteq> []"
  by (cases oc) auto

lemma zone_roundtrip:
  "zone_to_dict z = JObj d \<Longrightarrow> zone_from_dict d = Inr z"
  by (cases z) (auto simp: zone_to_dict_def zone_from_dict_def need_def get_or_def jor_def)

lemma rejection_roundtrip:
  "rejection_to_dict r t = JObj d \<Longrightarrow>
   rejection_from_dict d = Inr (r\<lparr>r_wick_ratio := py_round 4 (r_wick_ratio r)\<rparr>)"
  by (cases r) (auto simp: rejection_to_dict_def rejection_from_dict_def need_def)

lemma wire_lookups:
  "map_of (signal_entries s t) ''id'' = Some (JStr (s_id s))"
  "map_of (signal_entries s t) ''symbol'' = Some (JStr (s_symbol s))"
  "map_of (signal_entries s t) ''direction'' = Some (JStr (direction_value (s_direction s)))"
  "map_of (signal_entries s t) ''status'' = Some (JStr (status_value (s_status s)))"
  "map_of (signal_entries s t) ''entryPrice'' = Some (JFloat (s_entry_price s))"
  "map_of (signal_entries s t) ''stopLoss'' = Some (JFloat (s_stop_loss s))"
  "map_of (signal_entries s t) ''tp1'' = Some (JFloat (s_tp1 s))"
  "map_of (signal_entries s t) ''tp2'' = Some (JFloat (s_tp2 s))"
  "map_of (signal_entries s t) ''riskRewardRatio'' = Some (JFloat (py_round 4 (s_rr s)))"
  "map_of (signal_entries s t) ''riskPips'' = Some (JFloat (py_round 6 (s_risk_pips s)))"
  "map_of (signal_entries s t) ''htfInterval'' = Some (JStr (s_htf_interval s))"
  "map_of (signal_entries s t) ''ltfInterval'' = Some (JStr (s_ltf_interval s))"
  "map_of (signal_entries s t) ''zoneAttempt'' = Some (JInt (s_zone_attempt s))"
  "map_of (signal_entries s t) ''broker'' = Some (JStr (s_broker s))"
  "map_of (signal_entries s t) ''htfRange'' = Some (zone_to_dict (s_htf_range s))"
  "map_of (signal_entries s t) ''rejectionCandle'' = Some (rejection_to_dict (s_rejection s) t)"
  "map_of (signal_entries s t) ''createdAt'' = Some (JInt (s_created_at s))"
  "map_of (signal_entries s t) ''pendingAt'' = Some (jopt JInt (s_pending_at s))"
  "map_of (signal_entries s t) ''triggeredAt'' = Some (jopt JInt (s_triggered_at s))"
  "map_of (signal_entries s t) ''setupCandleOpenAt'' = Some (JInt (open_at_of s))"
  "map_of (signal_entries s t) ''setupCandleCloseAt'' = Some (JInt t)"
  "map_of (signal_entries s t) ''detectedAt'' = Some (jopt JInt (s_detected_at s))"
  "map_of (signal_entries s t) ''emittedAt'' = Some (jopt JInt (s_emitted_at s))"
  "map_of (signal_entries s t) ''rejectionCandleCloseAt'' = Some (JInt t)"
  "map_of (signal_entries s t) ''tp1HitAt'' = Some (jopt JInt (s_tp1_hit_at s))"
  "map_of (signal_entries s t) ''tp2HitAt'' = Some (jopt JInt (s_tp2_hit_at s))"
  "map_of (signal_entries s t) ''slHitAt'' = Some (jopt JInt (s_sl_hit_at s))"
  "map_of (signal_entries s t) ''invalidatedAt'' = Some (jopt JInt (s_invalidated_at s))"
  "map_of (signal_entries s t) ''expiredAt'' = Some (jopt JInt (s_expired_at s))"
  "map_of (signal_entries s t) ''closedAt'' = Some (jopt JInt (s_closed_at s))"
  "map_of (signal_entries s t) ''outcome'' = Some (jopt (\<lambda>oc. JStr (outcome_value oc)) (s_outcome s))"
  "map_of (signal_entries s t) ''realizedRR'' = Some (jopt JFloat (s_realized_rr s))"
  "map_of (signal_entries s t) ''closePrice'' = Some (jopt JFloat (s_close_price s))"
  "map_of (signal_entries s t) ''chartPath'' = Some (jopt JStr (s_chart_path s))"
  "map_of (signal_entries s t) ''chartData'' = Some (jopt (\<lambda>j. j) (s_chart_data s))"
  by (simp_all add: signal_entries_def)

lemma zone_to_dict_obj: "as_obj (zone_to_dict z) = Inr (case zone_to_dict z of JObj d \<Rightarrow> d)"
  by (simp add: zone_to_dict_def)

lemma rejection_to_dict_obj:
  "as_obj (rejection_to_dict r t) = Inr (case rejection_to_dict r t of JObj d \<Rightarrow> d)"
  by (simp add: rejection_to_dict_def)

lemma zone_from_to [simp]: "zone_from_dict (case zone_to_dict z of JObj d \<Rightarrow> d) = Inr z"
  using zone_roundtrip [of z] by (simp add: zone_to_dict_def)

lemma rejection_from_to [simp]:
  "rejection_from_dict (case rejection_to_dict r t of JObj d \<Rightarrow> d) =
   Inr (r\<lparr>r_wick_ratio := py_round 4 (r_wick_ratio r)\<rparr>)"
  using rejection_roundtrip [of r t] by (simp add: rejection_to_dict_def)

lemma outcome_from_jopt [simp]:
  "read_outcome (jopt (\<lambda>oc. JStr (outcome_value oc)) o') = Inr o'"
  by (cases o') (simp_all add: jopt_def read_outcome_def)

lemma jor_same [simp]: "jor a a = a"
  by (simp add: jor_def)

lemma chart_data_jopt:
  "cd \<noteq> Some JNull \<Longrightarrow> as_opt Inr (jopt (\<lambda>j. j) cd) = Inr cd"
proof (cases cd)
  case (Some j)
  then show "cd \<noteq> Some JNull \<Longrightarrow> as_opt Inr (jopt (\<lambda>j. j) cd) = Inr cd"
    by (cases j) (simp_all add: jopt_def)
qed (simp add: jopt_def)

lemma from_to_dict:
  assumes "close_at_of s = Inr t" "s_chart_data s \<noteq> Some JNull"
  shows "from_dict (JObj (signal_entries s t)) = Inr (wire_normal s t)"
  unfolding from_dict_def need_def get_or_def
  by (simp add: wire_lookups zone_to_dict_obj rejection_to_dict_obj chart_data_jopt [OF assms(2)])
    (rule trade_signal.equality; simp add: wire_normal_def)

text \<open>
  C40: what is written can be read back: the signal that comes back is the one written, with the
  three ratios rounded as on the wire and the setup times made explicit; its pricing
  diagnostics are gone.
\<close>

theorem wire_roundtrip:
  assumes "to_dict s = Inr j" "s_chart_data s \<noteq> Some JNull"
  shows "\<exists>t. close_at_of s = Inr t \<and> from_dict j = Inr (wire_normal s t)"
  using assms from_to_dict by (auto simp: to_dict_def bindR_Inr_iff)

text \<open>The worked example closes its setup candle at 43800000.\<close>

lemma ex_close_at: "close_at_of ex_signal = Inr 43800000"
  by (simp add: close_at_of_def or_else_def ex_signal_def mk_signal_def ex_rejection_def)

lemma ex_to_dict: "to_dict ex_signal = Inr (JObj (signal_entries ex_signal 43800000))"
  by (simp add: to_dict_def ex_close_at)

lemma ex_no_chart: "s_chart_data ex_signal \<noteq> Some JNull"
  by (simp add: ex_signal_def mk_signal_def)

theorem wire_roundtrip_witness:
  "from_dict (JObj (signal_entries ex_signal 43800000)) = Inr (wire_normal ex_signal 43800000)"
  using wire_roundtrip [OF ex_to_dict ex_no_chart] ex_close_at by auto

text \<open>
  a signal that has crossed the wire once crosses it again unchanged, if its setup times are
  not the epoch itself.
\<close>

theorem wire_stable:
  assumes "to_dict s = Inr j" "from_dict j = Inr s'" "s_chart_data s \<noteq> Some JNull"
    and "\<forall>t. close_at_of s = Inr t \<longrightarrow> t \<noteq> 0"
  shows "\<exists>j'. to_dict s' = Inr j' \<and> from_dict j' = Inr s'"
proof -
  from assms(1) obtain t where t: "close_at_of s = Inr t" and j: "j = JObj (signal_entries s t)"
    by (auto simp: to_dict_def bindR_Inr_iff)
  have s': "s' = wire_normal s t" using from_to_dict [OF t assms(3)] assms(2) j by simp
  have op: "open_at_of s' = open_at_of s"
    by (simp add: s' wire_normal_def open_at_of_def int_or_def split: option.split)
  have cl: "close_at_of s' = Inr t"
    using assms(4) t by (simp add: s' wire_normal_def close_at_of_def or_else_def)
  have "wire_normal s' t = s'"
    unfolding wire_normal_def op by (simp add: s' wire_normal_def)
  then show ?thesis
    using from_to_dict [OF cl] assms(3) cl by (simp add: to_dict_def s' wire_normal_def)
qed

theorem wire_stable_witness:
  "\<exists>j'. to_dict (wire_normal ex_signal 43800000) = Inr j' \<and>
     from_dict j' = Inr (wire_normal ex_signal 43800000)"
  by (rule wire_stable [OF ex_to_dict from_to_dict [OF ex_close_at ex_no_chart] ex_no_chart])
    (simp add: ex_close_at)

end
