(* ===== verification/Store.thy ===== *)
theory Store
  imports Wire "HOL-Library.AList"
begin

text \<open>
  infrastructure/persistence/signal_store.py (the two SQLite tables and the statements over them)
  and session_store.py (the session JSON backup and the live CSV files). A table is the list of
  its rows in insertion order; \<open>ORDER BY\<close> is a stable sort of that order; a session day is its day
  number. Disk failures, which every method logs and swallows or lets the caller swallow, are
  not modelled, nor are the connection handling and the locks around each statement.
\<close>

section \<open>Keyed stores\<close>

text \<open>What a client of a keyed store relies on.\<close>

locale keyed_store =
  fixes put :: "'k \<Rightarrow> 'v \<Rightarrow> 's \<Rightarrow> 's"
    and del :: "'k \<Rightarrow> 's \<Rightarrow> 's"
    and get :: "'s \<Rightarrow> 'k \<Rightarrow> 'w option"
    and view :: "'v \<Rightarrow> 'w"
  assumes get_put: "get (put k v s) k' = (if k' = k then Some (view v) else get s k')"
    and get_del: "get (del k s) k' = (if k' = k then None else get s k')"
begin

text \<open>A history of writes: \<open>(k, Some v)\<close> puts, \<open>(k, None)\<close> deletes.\<close>

definition write1 :: "'k \<times> 'v option \<Rightarrow> 's \<Rightarrow> 's" where
  "write1 w s = (case w of (k, Some v) \<Rightarrow> put k v s | (k, None) \<Rightarrow> del k s)"

definition writes :: "('k \<times> 'v option) list \<Rightarrow> 's \<Rightarrow> 's" where
  "writes ws s = fold write1 ws s"

lemma get_write1:
  "get (write1 w s) k = (if k = fst w then map_option view (snd w) else get s k)"
  by (cases w; cases "snd w") (auto simp: write1_def get_put get_del)

text \<open>The value under a key is that of the last write to it.\<close>

lemma get_writes:
  "get (writes ws s) k =
   (let us = filter (\<lambda>w. fst w = k) ws in
    if us = [] then get s k else map_option view (snd (last us)))"
  by (induction ws rule: rev_induct) (auto simp: writes_def get_write1 Let_def)

end

interpretation assoc: keyed_store AList.update AList.delete map_of "\<lambda>v. v"
proof
  fix k k' :: 'k and v :: 'v and s
  show "map_of (AList.update k v s) k' = (if k' = k then Some v else map_of s k')"
    by (simp add: update_conv')
  show "map_of (AList.delete k s) k' = (if k' = k then None else map_of s k')"
    by (simp add: delete_conv')
qed

section \<open>The open table\<close>

record open_row =
  or_signal_id :: string
  or_symbol :: string
  or_direction :: string
  or_htf_interval :: string
  or_ltf_interval :: string
  or_status :: string
  or_created_at :: ms
  or_triggered_at :: "ms option"
  or_tp1_hit_at :: "ms option"
  or_raw_json :: json
  or_updated_at :: ms

record signal_store =
  tb_open :: "open_row list"
  tb_closed :: "(closed_record \<times> int) list"

definition empty_store :: signal_store where
  "empty_store = \<lparr>tb_open = [], tb_closed = []\<rparr>"

text \<open>\<open>ON CONFLICT(signal_id) DO UPDATE\<close>: only four columns of the present row change.\<close>

fun upsert_row :: "open_row \<Rightarrow> open_row list \<Rightarrow> open_row list" where
  "upsert_row r [] = [r]"
| "upsert_row r (x # xs) =
     (if or_signal_id x = or_signal_id r
      then x\<lparr>or_status := or_status r, or_tp1_hit_at := or_tp1_hit_at r,
             or_raw_json := or_raw_json r, or_updated_at := or_updated_at r\<rparr> # xs
      else x # upsert_row r xs)"

definition row_of_signal :: "trade_signal \<Rightarrow> json \<Rightarrow> ms \<Rightarrow> open_row" where
  "row_of_signal s j now =
     \<lparr>or_signal_id = s_id s, or_symbol = s_symbol s, or_direction = direction_value (s_direction s),
      or_htf_interval = s_htf_interval s, or_ltf_interval = s_ltf_interval s,
      or_status = status_value (s_status s), or_created_at = s_created_at s,
      or_triggered_at = s_triggered_at s, or_tp1_hit_at = s_tp1_hit_at s, or_raw_json = j,
      or_updated_at = now\<rparr>"

definition upsert_open :: "trade_signal \<Rightarrow> ms \<Rightarrow> signal_store \<Rightarrow> signal_store result" where
  "upsert_open s now_ms st =
     bindR (to_dict s) (\<lambda>d. Inr (st\<lparr>tb_open := upsert_row (row_of_signal s d now_ms) (tb_open st)\<rparr>))"

definition delete_open :: "string \<Rightarrow> signal_store \<Rightarrow> signal_store" where
  "delete_open i st = st\<lparr>tb_open := filter (\<lambda>r. or_signal_id r \<noteq> i) (tb_open st)\<rparr>"

definition load_open_signals :: "signal_store \<Rightarrow> json list" where
  "load_open_signals st = map or_raw_json (sort_key or_created_at (tb_open st))"

definition get_open :: "signal_store \<Rightarrow> string \<Rightarrow> json option" where
  "get_open st i = map_option or_raw_json (find (\<lambda>r. or_signal_id r = i) (tb_open st))"

section \<open>The closed table\<close>

text \<open>The table has no column for the zone attempt: what is read back carries the default.\<close>

definition closed_columns :: "closed_record \<Rightarrow> closed_record" where
  "closed_columns rec = rec\<lparr>cr_zone_attempt := 1\<rparr>"

definition insert_closed :: "closed_record \<Rightarrow> int \<Rightarrow> signal_store \<Rightarrow> signal_store" where
  "insert_closed rec day st =
     (if cr_signal_id rec \<in> (\<lambda>x. cr_signal_id (fst x)) ` set (tb_closed st) then st
      else st\<lparr>tb_closed := tb_closed st @ [(closed_columns rec, day)]\<rparr>)"

definition load_closed_for_session :: "int \<Rightarrow> signal_store \<Rightarrow> closed_record list" where
  "load_closed_for_session day st =
     sort_key cr_closed_at (map fst (filter (\<lambda>x. snd x = day) (tb_closed st)))"

definition dedup_columns :: "closed_record \<Rightarrow> closed_record" where
  "dedup_columns rec =
     (mk_closed_record (cr_signal_id rec) (cr_symbol rec) (cr_direction rec) (cr_outcome rec)
        (cr_realized_rr rec) (cr_closed_at rec))
     \<lparr>cr_htf_interval := cr_htf_interval rec, cr_ltf_interval := cr_ltf_interval rec,
      cr_htf_ts := cr_htf_ts rec, cr_ltf_ts := cr_ltf_ts rec, cr_rej_ts := cr_rej_ts rec\<rparr>"

definition load_closed_for_dedup :: "signal_store \<Rightarrow> closed_record list" where
  "load_closed_for_dedup st = map dedup_columns (sort_key cr_closed_at (map fst (tb_closed st)))"

section \<open>The session backup and the live CSV\<close>

definition ms_to_utc_str :: "ms \<Rightarrow> string" where
  "ms_to_utc_str t =
     iso_date (utc_day t) @ '' '' @ pad2 (utc_hour t) @ '':'' @ pad2 ((t div 60000) mod 60)"

record session_store =
  sj_records :: "int \<Rightarrow> closed_record list option"
  sj_csv :: "string \<Rightarrow> (string \<times> json) list list"

definition empty_session_store :: session_store where
  "empty_session_store = \<lparr>sj_records = (\<lambda>_. None), sj_csv = (\<lambda>_. [])\<rparr>"

definition append_record :: "closed_record \<Rightarrow> int \<Rightarrow> session_store \<Rightarrow> session_store" where
  "append_record rec day ss =
     ss\<lparr>sj_records := (sj_records ss)(day \<mapsto>
          (case sj_records ss day of None \<Rightarrow> [] | Some rs \<Rightarrow> rs) @ [rec])\<rparr>"

definition load_records_from_json :: "int \<Rightarrow> session_store \<Rightarrow> closed_record list" where
  "load_records_from_json day ss = (case sj_records ss day of None \<Rightarrow> [] | Some rs \<Rightarrow> rs)"

definition csv_row :: "closed_record \<Rightarrow> (string \<times> json) list" where
  "csv_row rec =
     [(''id'', JStr (cr_signal_id rec)), (''symbol'', JStr (cr_symbol rec)),
      (''direction'', JStr (cr_direction rec)),
      (''entry_dt'', JStr (ms_to_utc_str (num_or (cr_entry_ts rec) (cr_htf_ts rec)))),
      (''close_dt'', JStr (ms_to_utc_str (cr_closed_at rec))),
      (''entry'', JFloat (py_round 5 (cr_entry rec))), (''sl'', JFloat (py_round 5 (cr_sl rec))),
      (''tp1'', JFloat (py_round 5 (cr_tp1 rec))), (''tp2'', JFloat (py_round 5 (cr_tp2 rec))),
      (''rr'', JFloat (py_round 3 (cr_rr rec))), (''outcome'', JStr (cr_outcome rec)),
      (''realized_rr'', JFloat (py_round 4 (cr_realized_rr rec))),
      (''htf_interval'', JStr (cr_htf_interval rec)), (''ltf_interval'', JStr (cr_ltf_interval rec)),
      (''pattern'', JStr (str_or (cr_pattern rec) [])),
      (''wick_ratio'', JFloat (py_round 3 (cr_wick_ratio rec))),
      (''htf_high'', JFloat (py_round 5 (cr_htf_high rec))),
      (''htf_low'', JFloat (py_round 5 (cr_htf_low rec))),
      (''tp_level'', JFloat (py_round 5 (cr_tp_level rec))),
      (''ltf_high'', JFloat (py_round 5 (cr_ltf_high rec))),
      (''ltf_low'', JFloat (py_round 5 (cr_ltf_low rec))), (''chart'', JStr [])]"

text \<open>The file of a symbol is named by the symbol without its slashes.\<close>

definition append_csv :: "closed_record \<Rightarrow> session_store \<Rightarrow> session_store" where
  "append_csv rec ss =
     (let f = unslash (cr_symbol rec)
      in ss\<lparr>sj_csv := (sj_csv ss)(f := sj_csv ss f @ [csv_row rec])\<rparr>)"

section \<open>Laws of the tables\<close>

lemma upsert_row_ids:
  "set (map or_signal_id (upsert_row r rows)) = insert (or_signal_id r) (set (map or_signal_id rows))"
  by (induction rows) auto

lemma upsert_row_distinct:
  "distinct (map or_signal_id rows) \<Longrightarrow> distinct (map or_signal_id (upsert_row r rows))"
proof (induction rows)
  case (Cons x xs)
  then show ?case using upsert_row_ids [of r xs] by auto
qed simp

lemma find_upsert:
  "map_option or_raw_json (find (\<lambda>x. or_signal_id x = i) (upsert_row r rows)) =
   (if i = or_signal_id r then Some (or_raw_json r)
    else map_option or_raw_json (find (\<lambda>x. or_signal_id x = i) rows))"
  by (induction rows) auto

lemma find_filter_ids:
  "find (\<lambda>x. or_signal_id x = i) (filter (\<lambda>r. or_signal_id r \<noteq> k) rows) =
   (if i = k then None else find (\<lambda>x. or_signal_id x = i) rows)"
  by (induction rows) auto

text \<open>A write to the open table: the serialised signal under its id.\<close>

definition put_open :: "string \<Rightarrow> open_row \<Rightarrow> signal_store \<Rightarrow> signal_store" where
  "put_open i r st = st\<lparr>tb_open := upsert_row (r\<lparr>or_signal_id := i\<rparr>) (tb_open st)\<rparr>"

interpretation open_table: keyed_store put_open delete_open get_open or_raw_json
  by unfold_locales (simp_all add: put_open_def delete_open_def get_open_def find_upsert find_filter_ids)

text \<open>The primary keys of both tables.\<close>

definition store_ok :: "signal_store \<Rightarrow> bool" where
  "store_ok st \<longleftrightarrow> distinct (map or_signal_id (tb_open st)) \<and>
     distinct (map (\<lambda>x. cr_signal_id (fst x)) (tb_closed st))"

lemma store_ok_ops [intro]:
  "store_ok st \<Longrightarrow> store_ok (delete_open i st)"
  "store_ok st \<Longrightarrow> store_ok (insert_closed rec day st)"
  "store_ok st \<Longrightarrow> upsert_open s now st = Inr st' \<Longrightarrow> store_ok st'"
  by (auto simp: store_ok_def delete_open_def insert_closed_def upsert_open_def bindR_Inr_iff
      closed_columns_def distinct_map_filter upsert_row_distinct)

lemma insert_closed_idem:
  "insert_closed rec day (insert_closed rec day' st) = insert_closed rec day' st"
  by (auto simp: insert_closed_def closed_columns_def)

lemma upsert_open_put:
  "upsert_open s now st = Inr st' \<Longrightarrow>
   \<exists>d. to_dict s = Inr d \<and> st' = put_open (s_id s) (row_of_signal s d now) st"
  by (auto simp: upsert_open_def bindR_Inr_iff put_open_def row_of_signal_def)

text \<open>
  the open table is a keyed store of serialised signals: a signal written is what the table
  holds under its id, every other id is untouched, a deleted id is gone, and reading the row
  back gives the signal as it crosses the wire.
\<close>

theorem open_table_roundtrip:
  assumes "upsert_open s now st = Inr st'" "s_chart_data s \<noteq> Some JNull"
  shows "\<exists>j t. get_open st' (s_id s) = Some j \<and> close_at_of s = Inr t \<and>
      from_dict j = Inr (wire_normal s t) \<and>
      (\<forall>i. i \<noteq> s_id s \<longrightarrow> get_open st' i = get_open st i) \<and>
      get_open (delete_open (s_id s) st') (s_id s) = None"
proof -
  from upsert_open_put [OF assms(1)] obtain d where d: "to_dict s = Inr d"
    and st': "st' = put_open (s_id s) (row_of_signal s d now) st" by blast
  from d obtain t where t: "close_at_of s = Inr t" and "d = JObj (signal_entries s t)"
    by (auto simp: to_dict_def bindR_Inr_iff)
  then have "from_dict d = Inr (wire_normal s t)" using from_to_dict [OF t assms(2)] by simp
  then show ?thesis
    using t by (auto simp: st' open_table.get_put open_table.get_del row_of_signal_def)
qed

theorem open_table_roundtrip_witness:
  "\<exists>st'. upsert_open ex_signal 43800000 empty_store = Inr st' \<and>
     get_open st' (s_id ex_signal) = Some (JObj (signal_entries ex_signal 43800000))"
proof -
  let ?st = "empty_store\<lparr>tb_open :=
    upsert_row (row_of_signal ex_signal (JObj (signal_entries ex_signal 43800000)) 43800000) []\<rparr>"
  have u: "upsert_open ex_signal 43800000 empty_store = Inr ?st"
    by (simp add: upsert_open_def ex_to_dict empty_store_def)
  then show ?thesis
    using open_table_roundtrip [OF u ex_no_chart]
    by (auto simp: get_open_def row_of_signal_def empty_store_def)
qed

text \<open>
  the closed table keeps the first record of an id: inserting is idempotent, never replaces a
  record, and every record inserted once is returned, in closing order, for its session day and
  for deduplication, without its zone attempt.
\<close>

theorem closed_table_first_wins:
  assumes "store_ok st"
  shows "insert_closed rec day (insert_closed rec day st) = insert_closed rec day st \<and>
    set (tb_closed st) \<subseteq> set (tb_closed (insert_closed rec day st)) \<and>
    (cr_signal_id rec \<notin> (\<lambda>x. cr_signal_id (fst x)) ` set (tb_closed st) \<longrightarrow>
      closed_columns rec \<in> set (load_closed_for_session day (insert_closed rec day st)) \<and>
      dedup_columns rec \<in> set (load_closed_for_dedup (insert_closed rec day st))) \<and>
    sorted (map cr_closed_at (load_closed_for_session day st)) \<and>
    store_ok (insert_closed rec day st)"
proof -
  have eq: "dedup_columns (closed_columns rec) = dedup_columns rec"
    by (simp add: dedup_columns_def closed_columns_def mk_closed_record_def)
  have fresh: "closed_columns rec \<in> set (load_closed_for_session day (insert_closed rec day st)) \<and>
      dedup_columns rec \<in> set (load_closed_for_dedup (insert_closed rec day st))"
    if "cr_signal_id rec \<notin> (\<lambda>x. cr_signal_id (fst x)) ` set (tb_closed st)"
    using that by (simp add: insert_closed_def load_closed_for_session_def load_closed_for_dedup_def eq)
  have sub: "set (tb_closed st) \<subseteq> set (tb_closed (insert_closed rec day st))"
    by (auto simp: insert_closed_def)
  have "sorted (map cr_closed_at (load_closed_for_session day st))"
    by (simp add: load_closed_for_session_def)
  then show ?thesis
    using fresh sub insert_closed_idem store_ok_ops(2) [OF assms] by blast
qed

theorem closed_table_first_wins_witness:
  "store_ok empty_store \<and>
   dedup_columns (mk_closed_record ''id1'' ''XAUUSD'' ''LONG'' ''LOSS'' (- 1) 5) \<in>
     set (load_closed_for_dedup
       (insert_closed (mk_closed_record ''id1'' ''XAUUSD'' ''LONG'' ''LOSS'' (- 1) 5) 0 empty_store))"
proof -
  have ok: "store_ok empty_store" by (simp add: store_ok_def empty_store_def)
  have "cr_signal_id (mk_closed_record ''id1'' ''XAUUSD'' ''LONG'' ''LOSS'' (- 1) 5) \<notin>
    (\<lambda>x. cr_signal_id (fst x)) ` set (tb_closed empty_store)"
    by (simp add: empty_store_def)
  with closed_table_first_wins [OF ok] ok show ?thesis by blast
qed

end
