(* ===== verification/Coordinator.thy ===== *)
theory Coordinator
  imports Profiles Dedup Store
begin

text \<open>
  app/session/coordinator.py: the session state around the deduplication rules: trade history,
  circuit breaker, midnight rollover. The wall clock is a function \<open>clk\<close> from the number of
  readings made so far to the time read, and the record counts the readings. A method returns
  its value or the exception it raises together with the state it leaves, because what was
  changed before an exception stays changed.
\<close>

section \<open>State\<close>

record coordinator =
  co_session_day :: int
  co_session_start :: ms
  co_state :: dedup_state
  co_history :: "closed_record list"
  co_paused_until :: "ms option"
  co_store :: signal_store
  co_files :: session_store
  co_ticks :: nat

type_synonym clock = "nat \<Rightarrow> ms"

definition read_clock :: "clock \<Rightarrow> coordinator \<Rightarrow> ms \<times> coordinator" where
  "read_clock clk c = (clk (co_ticks c), c\<lparr>co_ticks := Suc (co_ticks c)\<rparr>)"

text \<open>\<open>deque(maxlen=500)\<close>: appending to a full deque drops its oldest element.\<close>

definition history_append :: "closed_record \<Rightarrow> closed_record list \<Rightarrow> closed_record list" where
  "history_append rec h = (let h' = h @ [rec] in drop (length h' - 500) h')"

section \<open>Queries\<close>

definition closed_of :: "closed_record list \<Rightarrow> closed_record list" where
  "closed_of h = filter (\<lambda>r. cr_outcome r \<in> CLOSED_OUTCOMES) h"

definition wins_of :: "closed_record list \<Rightarrow> closed_record list" where
  "wins_of h = filter (\<lambda>r. cr_outcome r \<in> WIN_OUTCOMES) (closed_of h)"

definition session_r :: "coordinator \<Rightarrow> real" where
  "session_r c = sum_list (map cr_realized_rr (closed_of (co_history c)))"

text \<open>The losses since the last win, newest first; void trades are passed over.\<close>

fun loss_streak :: "closed_record list \<Rightarrow> closed_record list" where
  "loss_streak [] = []"
| "loss_streak (r # rs) =
     (if cr_outcome r = outcome_value O_LOSS then r # loss_streak rs
      else if cr_outcome r \<in> WIN_OUTCOMES then []
      else loss_streak rs)"

definition consecutive_losses :: "coordinator \<Rightarrow> nat" where
  "consecutive_losses c = length (loss_streak (rev (co_history c)))"

definition win_rate :: "coordinator \<Rightarrow> real option" where
  "win_rate c =
     (let closed_recs = closed_of (co_history c) in
      if closed_recs = [] then None
      else Some (of_nat (length (wins_of (co_history c))) / of_nat (length closed_recs)))"

definition paused_at :: "coordinator \<Rightarrow> ms \<Rightarrow> bool" where
  "paused_at c now = (case co_paused_until c of None \<Rightarrow> False | Some t \<Rightarrow> t \<noteq> 0 \<and> now < t)"

text \<open>\<open>datetime.isoformat()\<close> of a UTC time.\<close>

definition iso_datetime :: "ms \<Rightarrow> string" where
  "iso_datetime t =
     iso_date (utc_day t) @ ''T'' @ pad2 (utc_hour t) @ '':'' @ pad2 ((t div 60000) mod 60) @ '':'' @
     pad2 ((t div 1000) mod 60) @
     (if t mod 1000 = 0 then [] else ''.'' @ pad_left 6 (show_int (t mod 1000 * 1000))) @ ''+00:00''"

definition position_label :: "dir_key \<Rightarrow> string" where
  "position_label k = (case k of (s, d, h, l) \<Rightarrow> s @ '':'' @ d @ ''['' @ h @ ''/'' @ l @ '']'')"

definition stats_json :: "coordinator \<Rightarrow> ms \<Rightarrow> json" where
  "stats_json c now =
     (let h = co_history c; closed_recs = closed_of h; paused = paused_at c now in
      JObj [(''session_day'', JStr (iso_date (co_session_day c))),
            (''session_r'', JFloat (py_round 2 (session_r c))),
            (''total_signals'', JInt (int (length h))),
            (''wins'', JInt (int (length (wins_of h)))),
            (''losses'', JInt (int (length (filter (\<lambda>r. cr_outcome r = outcome_value O_LOSS) closed_recs)))),
            (''voids'', JInt (int (length (filter (\<lambda>r. cr_outcome r \<in> VOID_OUTCOMES) h)))),
            (''win_rate'', (case win_rate c of None \<Rightarrow> JNull | Some w \<Rightarrow> JFloat (py_round 1 (w * 100)))),
            (''consecutive_losses'', JInt (int (consecutive_losses c))),
            (''paused'', JBool paused),
            (''paused_until'', (if paused then JStr (iso_datetime (the (co_paused_until c))) else JNull)),
            (''dead_zones'', JInt (int (card (ds_dead_zones (co_state c))))),
            (''open_positions'', JArr (map (\<lambda>kv. JStr (position_label (fst kv))) (ds_open_dir (co_state c))))])"

definition stats :: "clock \<Rightarrow> coordinator \<Rightarrow> json \<times> coordinator" where
  "stats clk c = (case read_clock clk c of (now, c') \<Rightarrow> (stats_json c' now, c'))"

text \<open>\<open>status_line\<close> only builds a log line, but reads the clock.\<close>

definition status_line_tick :: "clock \<Rightarrow> coordinator \<Rightarrow> coordinator" where
  "status_line_tick clk c = snd (read_clock clk c)"

section \<open>Circuit breaker, rollover, loading\<close>

definition check_streak :: "settings \<Rightarrow> clock \<Rightarrow> coordinator \<Rightarrow> unit result \<times> coordinator" where
  "check_streak cfg clk c =
     (let cl = int (consecutive_losses c) in
      if cl < g_max_consecutive_losses cfg then (Inr (), c\<lparr>co_paused_until := None\<rparr>)
      else case loss_streak (rev (co_history c)) of
             [] \<Rightarrow> (Inl IndexError, c)
           | last_loss # _ \<Rightarrow>
               let pause_until = cr_closed_at last_loss + trunc (g_pause_after_streak_h cfg * 3600000) in
               (case read_clock clk c of (now, c') \<Rightarrow>
                  if now < pause_until then (Inr (), c'\<lparr>co_paused_until := Some pause_until\<rparr>)
                  else (Inr (), c'\<lparr>co_paused_until := None\<rparr>)))"

definition load_session :: "settings \<Rightarrow> clock \<Rightarrow> coordinator \<Rightarrow> unit result \<times> coordinator" where
  "load_session cfg clk c =
     (let records = load_closed_for_session (co_session_day c) (co_store c);
          records' = (if records = [] then load_records_from_json (co_session_day c) (co_files c)
                      else records)
      in if records' = [] then (Inr (), c)
         else check_streak cfg clk (c\<lparr>co_history := fold history_append records' (co_history c)\<rparr>))"

definition load_dedup_state :: "settings \<Rightarrow> coordinator \<Rightarrow> coordinator" where
  "load_dedup_state cfg c =
     c\<lparr>co_state := dedup_replay (load_closed_for_dedup (co_store c)) (g_max_signal_count_per_zone cfg)
                    (co_state c)\<rparr>"

text \<open>\<open>SessionCoordinator(signal_store, session_store, settings)\<close>.\<close>

definition new_coordinator ::
  "settings \<Rightarrow> clock \<Rightarrow> nat \<Rightarrow> signal_store \<Rightarrow> session_store \<Rightarrow> unit result \<times> coordinator" where
  "new_coordinator cfg clk ticks store files =
     (let now = clk ticks;
          c0 = \<lparr>co_session_day = utc_day now, co_session_start = day_start_ms (utc_day now),
                co_state = empty_dedup, co_history = [], co_paused_until = None, co_store = store,
                co_files = files, co_ticks = Suc ticks\<rparr>
      in case load_session cfg clk c0 of
           (Inl e, c1) \<Rightarrow> (Inl e, c1)
         | (Inr _, c1) \<Rightarrow> (Inr (), load_dedup_state cfg c1))"

definition maybe_rollover :: "settings \<Rightarrow> clock \<Rightarrow> ms \<Rightarrow> coordinator \<Rightarrow> unit result \<times> coordinator" where
  "maybe_rollover cfg clk now c =
     (let new_day = utc_day now in
      if new_day = co_session_day c then (Inr (), c)
      else load_session cfg clk
             (c\<lparr>co_session_day := new_day, co_session_start := day_start_ms new_day,
               co_history := [], co_paused_until := None\<rparr>))"

definition release_expired_directions :: "ms \<Rightarrow> coordinator \<Rightarrow> coordinator" where
  "release_expired_directions now c =
     c\<lparr>co_state := (co_state c)\<lparr>ds_open_dir :=
         filter (\<lambda>kv. case snd kv of None \<Rightarrow> True | Some ts \<Rightarrow> \<not> ts \<le> now) (ds_open_dir (co_state c))\<rparr>\<rparr>"

section \<open>The gate, registration, outcomes\<close>

definition co_should_emit ::
  "settings \<Rightarrow> clock \<Rightarrow> htf_zone \<Rightarrow> rejection \<Rightarrow> signal_direction \<Rightarrow> string \<Rightarrow> ms \<Rightarrow> string \<Rightarrow> string \<Rightarrow>
   coordinator \<Rightarrow> (bool \<times> emit_reason) result \<times> coordinator" where
  "co_should_emit cfg clk z r d symbol current_ts htf ltf c =
     (case maybe_rollover cfg clk current_ts c of
        (Inl e, c1) \<Rightarrow> (Inl e, c1)
      | (Inr _, c1) \<Rightarrow>
          let c2 = release_expired_directions current_ts c1;
              multi = g_multi_tf_independent_positions cfg
          in
          if paused_at c2 current_ts
          then (Inr (False, R_Paused ((the (co_paused_until c2) - current_ts) div 60000)), c2)
          else if is_direction_open symbol d htf ltf multi (co_state c2)
          then (Inr (False, R_PositionOpen symbol d), c2)
          else (case rejection_stale_hours ltf of
                  Inl e \<Rightarrow> (Inl e, c2)
                | Inr stale \<Rightarrow>
                    let res = dedup_should_emit (co_state c2) z r d symbol current_ts stale htf ltf
                                (g_max_signal_count_per_zone cfg)
                    in (Inr (dr_allowed res, dr_reason res), c2)))"

definition co_register_signal ::
  "settings \<Rightarrow> string \<Rightarrow> signal_direction \<Rightarrow> htf_zone \<Rightarrow> rejection \<Rightarrow> string \<Rightarrow> string \<Rightarrow>
   coordinator \<Rightarrow> int \<times> coordinator" where
  "co_register_signal cfg symbol d z r htf ltf c =
     (case dedup_register symbol d z r htf ltf (g_multi_tf_independent_positions cfg)
             (g_max_signal_count_per_zone cfg) (co_state c) of
        (attempt, st) \<Rightarrow> (attempt, c\<lparr>co_state := st\<rparr>))"

definition co_record_outcome ::
  "settings \<Rightarrow> clock \<Rightarrow> closed_record \<Rightarrow> coordinator \<Rightarrow> unit result \<times> coordinator" where
  "co_record_outcome cfg clk rec c =
     (let c1 = c\<lparr>co_state := release_direction (cr_symbol rec) (cr_direction rec) (cr_htf_interval rec)
                     (cr_ltf_interval rec) (g_multi_tf_independent_positions cfg) (co_state c),
                 co_history := history_append rec (co_history c),
                 co_store := insert_closed rec (co_session_day c) (co_store c),
                 co_files := append_csv rec (append_record rec (co_session_day c) (co_files c))\<rparr>
      in case check_streak cfg clk c1 of
           (Inl e, c2) \<Rightarrow> (Inl e, c2)
         | (Inr _, c2) \<Rightarrow> (Inr (), status_line_tick clk c2))"

section \<open>A worked example\<close>

text \<open>A coordinator of the first day of the epoch with nothing stored.\<close>

definition ex_co :: coordinator where
  "ex_co = \<lparr>co_session_day = 0, co_session_start = 0, co_state = empty_dedup, co_history = [],
     co_paused_until = None, co_store = empty_store, co_files = empty_session_store, co_ticks = 0\<rparr>"

lemma ex_stale_hours: "rejection_stale_hours ''5min'' = Inr (1667 / 10000)"
  by code_simp

lemma ex_release: "release_expired_directions t ex_co = ex_co"
  by (simp add: release_expired_directions_def ex_co_def empty_dedup_def)

lemma ex_default_fields:
  "g_multi_tf_independent_positions (default_settings w) = True"
  "g_max_signal_count_per_zone (default_settings w) = 1"
  "g_max_consecutive_losses (default_settings w) = 10"
  by (simp_all add: default_settings_def)

lemma ex_day: "utc_day 43500000 = 0" "utc_day 90000000 = 1"
  by (simp_all add: utc_day_def)

lemma ex_dedup_allowed:
  "dedup_should_emit empty_dedup ex_demand ex_rejection LONG ''XAUUSD'' 43500000 (1667 / 10000)
     ''1h'' ''5min'' 1 = \<lparr>dr_allowed = True, dr_reason = R_Allowed\<rparr>"
  by code_simp

lemma ex_ask:
  "co_should_emit (default_settings []) clk ex_demand ex_rejection LONG ''XAUUSD'' 43500000
     ''1h'' ''5min'' ex_co = (Inr (True, R_Allowed), ex_co)"
proof -
  have "maybe_rollover (default_settings []) clk 43500000 ex_co = (Inr (), ex_co)"
    by (simp add: maybe_rollover_def ex_day ex_co_def)
  moreover have "\<not> paused_at ex_co 43500000" by (simp add: paused_at_def ex_co_def)
  moreover have "co_state ex_co = empty_dedup" by (simp add: ex_co_def)
  moreover have "\<not> is_direction_open sy d h l m empty_dedup" for sy d h l m
    by (simp add: is_direction_open_def empty_dedup_def)
  ultimately show ?thesis
    by (simp add: co_should_emit_def ex_release ex_stale_hours ex_default_fields ex_dedup_allowed Let_def)
qed

section \<open>Frames\<close>

lemma read_clock_frame [frame_simps]:
  "co_state (snd (read_clock clk c)) = co_state c"
  "co_history (snd (read_clock clk c)) = co_history c"
  "co_paused_until (snd (read_clock clk c)) = co_paused_until c"
  "co_store (snd (read_clock clk c)) = co_store c"
  "co_files (snd (read_clock clk c)) = co_files c"
  "co_session_day (snd (read_clock clk c)) = co_session_day c"
  by (simp_all add: read_clock_def)

lemma check_streak_frame:
  "check_streak cfg clk c = (r, c') \<Longrightarrow>
   co_state c' = co_state c \<and> co_history c' = co_history c \<and> co_store c' = co_store c \<and>
   co_files c' = co_files c \<and> co_session_day c' = co_session_day c"
  by (auto simp: check_streak_def Let_def read_clock_def split: if_splits list.splits)

lemma load_session_frame:
  "load_session cfg clk c = (r, c') \<Longrightarrow>
   co_state c' = co_state c \<and> co_store c' = co_store c \<and> co_files c' = co_files c \<and>
   co_session_day c' = co_session_day c"
  by (auto simp: load_session_def Let_def dest!: check_streak_frame split: if_splits)

lemma maybe_rollover_frame:
  "maybe_rollover cfg clk now c = (r, c') \<Longrightarrow>
   co_state c' = co_state c \<and> co_store c' = co_store c \<and> co_files c' = co_files c \<and>
   co_session_day c' = utc_day now"
  by (auto simp: maybe_rollover_def Let_def dest!: load_session_frame split: if_splits)

lemma release_expired_frame:
  "ds_seen_rej (co_state (release_expired_directions now c)) = ds_seen_rej (co_state c)"
  "ds_dead_zones (co_state (release_expired_directions now c)) = ds_dead_zones (co_state c)"
  "zone_count (co_state (release_expired_directions now c)) k = zone_count (co_state c) k"
  "co_store (release_expired_directions now c) = co_store c"
  "co_session_day (release_expired_directions now c) = co_session_day c"
  "co_paused_until (release_expired_directions now c) = co_paused_until c"
  by (simp_all add: release_expired_directions_def zone_count_def)

section \<open>The emission gate\<close>



section \<open>The circuit breaker\<close>

lemma loss_streak_losses: "rec \<in> set (loss_streak h) \<Longrightarrow> cr_outcome rec = outcome_value O_LOSS"
  by (induction h) (auto split: if_splits)

text \<open>
  the pause rule: with a positive limit the check never raises, and afterwards trading is
  paused exactly when the losing streak has reached the limit and the pause counted from the
  newest loss is not over; with a limit of zero or less and no losing streak it raises
  \<open>IndexError\<close>.
\<close>

theorem check_streak_spec:
  "(0 < g_max_consecutive_losses cfg \<longrightarrow>
      (\<exists>c'. check_streak cfg clk c = (Inr (), c') \<and>
        (\<forall>t. co_paused_until c' = Some t \<longleftrightarrow>
          g_max_consecutive_losses cfg \<le> int (consecutive_losses c) \<and>
          t = cr_closed_at (hd (loss_streak (rev (co_history c)))) +
              trunc (g_pause_after_streak_h cfg * 3600000) \<and>
          clk (co_ticks c) < t))) \<and>
   (g_max_consecutive_losses cfg \<le> 0 \<and> consecutive_losses c = 0 \<longrightarrow>
      check_streak cfg clk c = (Inl IndexError, c))"
  by (auto simp: check_streak_def Let_def read_clock_def consecutive_losses_def split: list.split)

theorem check_streak_spec_witness:
  "check_streak ((default_settings [])\<lparr>g_max_consecutive_losses := 0\<rparr>) (\<lambda>_. 0) ex_co =
     (Inl IndexError, ex_co)"
proof -
  have "g_max_consecutive_losses ((default_settings [])\<lparr>g_max_consecutive_losses := 0\<rparr>) \<le> 0"
    "consecutive_losses ex_co = 0"
    by (simp_all add: consecutive_losses_def ex_co_def)
  then show ?thesis using check_streak_spec by blast
qed

text \<open>
  midnight ends a pause: at the first question of a new UTC day for which nothing is stored yet
  the losing streak and the pause are gone, however much of the pause was left, while zone
  counts, used candles and open positions are all kept.
\<close>

theorem rollover_clears_pause:
  assumes "utc_day now \<noteq> co_session_day c"
    and "load_closed_for_session (utc_day now) (co_store c) = []"
    and "load_records_from_json (utc_day now) (co_files c) = []"
  shows "\<exists>c'. maybe_rollover cfg clk now c = (Inr (), c') \<and> co_paused_until c' = None \<and>
    \<not> paused_at c' now \<and> consecutive_losses c' = 0 \<and> co_state c' = co_state c"
  using assms
  by (simp add: maybe_rollover_def load_session_def paused_at_def consecutive_losses_def Let_def)

theorem rollover_clears_pause_witness:
  "paused_at (ex_co\<lparr>co_paused_until := Some 99000000\<rparr>) 90000000 \<and>
   (\<exists>c'. maybe_rollover (default_settings []) (\<lambda>_. 0) 90000000 (ex_co\<lparr>co_paused_until := Some 99000000\<rparr>) =
      (Inr (), c') \<and> \<not> paused_at c' 90000000)"
proof -
  have "utc_day 90000000 \<noteq> co_session_day (ex_co\<lparr>co_paused_until := Some 99000000\<rparr>)"
    "load_closed_for_session (utc_day 90000000) (co_store (ex_co\<lparr>co_paused_until := Some 99000000\<rparr>)) = []"
    "load_records_from_json (utc_day 90000000) (co_files (ex_co\<lparr>co_paused_until := Some 99000000\<rparr>)) = []"
    by (simp_all add: ex_day ex_co_def load_closed_for_session_def empty_store_def
        load_records_from_json_def empty_session_store_def)
  from rollover_clears_pause [OF this] show ?thesis by (auto simp: paused_at_def)
qed

section \<open>Position locks\<close>

text \<open>The operations of the coordinator, as the steps of a machine.\<close>

inductive co_step :: "settings \<Rightarrow> clock \<Rightarrow> coordinator \<Rightarrow> dir_key option \<Rightarrow> coordinator \<Rightarrow> bool"
  for cfg clk where
  ask: "co_should_emit cfg clk z r d symbol now htf ltf c = (res, c') \<Longrightarrow> co_step cfg clk c None c'"
| register: "co_register_signal cfg symbol d z r htf ltf c = (n, c') \<Longrightarrow> co_step cfg clk c None c'"
| outcome: "co_record_outcome cfg clk rec c = (res, c') \<Longrightarrow>
    co_step cfg clk c (Some (dir_key_of (g_multi_tf_independent_positions cfg) (cr_symbol rec)
      (cr_direction rec) (cr_htf_interval rec) (cr_ltf_interval rec))) c'"

text \<open>A run of steps none of which closes a trade of the direction \<open>k\<close>.\<close>

inductive co_run :: "settings \<Rightarrow> clock \<Rightarrow> dir_key \<Rightarrow> coordinator \<Rightarrow> coordinator \<Rightarrow> bool"
  for cfg clk k where
  refl: "co_run cfg clk k c c"
| more: "co_run cfg clk k c c1 \<Longrightarrow> co_step cfg clk c1 o' c2 \<Longrightarrow> o' \<noteq> Some k \<Longrightarrow> co_run cfg clk k c c2"

text \<open>No lock ever carries an expiry time.\<close>

definition locks_plain :: "coordinator \<Rightarrow> bool" where
  "locks_plain c \<longleftrightarrow> snd ` set (ds_open_dir (co_state c)) \<subseteq> {None}"

definition locked :: "dir_key \<Rightarrow> coordinator \<Rightarrow> bool" where
  "locked k c \<longleftrightarrow> k \<in> fst ` set (ds_open_dir (co_state c))"

lemma release_expired_plain: "locks_plain c \<Longrightarrow> release_expired_directions now c = c"
proof -
  assume "locks_plain c"
  then have "filter (\<lambda>kv. case snd kv of None \<Rightarrow> True | Some ts \<Rightarrow> \<not> ts \<le> now) (ds_open_dir (co_state c)) =
    ds_open_dir (co_state c)"
    by (intro filter_True) (auto simp: locks_plain_def split: option.split)
  then show ?thesis by (simp add: release_expired_directions_def)
qed

lemma co_should_emit_state:
  assumes "co_should_emit cfg clk z r d symbol now htf ltf c = (res, c')" "locks_plain c"
  shows "co_state c' = co_state c"
proof -
  obtain r1 c1 where ro: "maybe_rollover cfg clk now c = (r1, c1)" by (cases "maybe_rollover cfg clk now c")
  have "co_state c1 = co_state c" using maybe_rollover_frame [OF ro] by simp
  moreover have "release_expired_directions now c1 = c1"
    using assms(2) \<open>co_state c1 = co_state c\<close> by (intro release_expired_plain) (simp add: locks_plain_def)
  ultimately show ?thesis
    using assms(1) ro
    by (auto simp: co_should_emit_def Let_def split: if_splits sum.splits)
qed

lemma co_record_outcome_state:
  "co_record_outcome cfg clk rec c = (res, c') \<Longrightarrow>
   co_state c' = release_direction (cr_symbol rec) (cr_direction rec) (cr_htf_interval rec)
     (cr_ltf_interval rec) (g_multi_tf_independent_positions cfg) (co_state c) \<and>
   co_history c' = history_append rec (co_history c) \<and>
   co_store c' = insert_closed rec (co_session_day c) (co_store c)"
  by (auto simp: co_record_outcome_def Let_def status_line_tick_def frame_simps
      dest!: check_streak_frame split: prod.splits sum.splits)

lemma update_entries: "fst ` set (AList.update k v xs) = insert k (fst ` set xs)"
  by (induction xs) auto

lemma update_values: "snd ` set (AList.update k v xs) \<subseteq> insert v (snd ` set xs)"
  by (induction xs) auto

lemma co_register_open_dir:
  assumes "co_register_signal cfg symbol d z r htf ltf c = (n, c')"
  shows "ds_open_dir (co_state c') =
    AList.update (dir_key_of (g_multi_tf_independent_positions cfg) symbol (direction_value d) htf ltf)
      None (ds_open_dir (co_state c))"
proof -
  have "co_state c' = snd (dedup_register symbol d z r htf ltf (g_multi_tf_independent_positions cfg)
      (g_max_signal_count_per_zone cfg) (co_state c))"
    using assms by (auto simp: co_register_signal_def split: prod.splits)
  then show ?thesis by (simp only: dedup_register_simps)
qed

lemma co_step_locks:
  assumes "co_step cfg clk c o' c'" "locks_plain c"
  shows "locks_plain c' \<and> (locked k c \<longrightarrow> o' \<noteq> Some k \<longrightarrow> locked k c')"
  using assms
proof (induction rule: co_step.induct)
  case (ask z r d symbol now htf ltf c res c')
  then show ?case using co_should_emit_state [OF ask(1)] by (simp add: locks_plain_def locked_def)
next
  case (register symbol d z r htf ltf c n c')
  let ?k = "dir_key_of (g_multi_tf_independent_positions cfg) symbol (direction_value d) htf ltf"
  note e = co_register_open_dir [OF register(1)]
  have "snd ` set (ds_open_dir (co_state c)) \<subseteq> {None}"
    using register(2) by (simp only: locks_plain_def)
  then have "insert None (snd ` set (ds_open_dir (co_state c))) \<subseteq> {None}"
    by (simp only: insert_subset insertI1 simp_thms)
  then have "locks_plain c'"
    unfolding locks_plain_def e using update_values by (rule order_trans [rotated])
  moreover have "locked k c'" if "locked k c"
    using that unfolding locked_def e update_entries by (rule insertI2)
  ultimately show ?case by (intro conjI impI)
next
  case (outcome rec c res c')
  let ?k = "dir_key_of (g_multi_tf_independent_positions cfg) (cr_symbol rec) (cr_direction rec)
     (cr_htf_interval rec) (cr_ltf_interval rec)"
  have e: "ds_open_dir (co_state c') = AList.delete ?k (ds_open_dir (co_state c))"
    using co_record_outcome_state [OF outcome(1)] by (simp add: release_direction_def)
  have "set (AList.delete ?k (ds_open_dir (co_state c))) = {kv \<in> set (ds_open_dir (co_state c)). fst kv \<noteq> ?k}"
    by (auto simp: AList.delete_eq)
  then show ?case
    using outcome(2) unfolding locks_plain_def locked_def e by auto
qed

lemma co_run_locks:
  assumes "co_run cfg clk k c c'" "locks_plain c" "locked k c"
  shows "locks_plain c' \<and> locked k c'"
  using assms by (induction rule: co_run.induct) (auto dest: co_step_locks)

text \<open>
  one position per direction: from the moment a direction is registered, and through any
  sequence of questions, registrations and closed trades other than one of that direction, no
  further signal of the direction is let through.
\<close>

theorem position_lock_holds:
  assumes "locks_plain c0" "co_register_signal cfg symbol d z r htf ltf c0 = (n, c1)"
    and "co_run cfg clk (dir_key_of (g_multi_tf_independent_positions cfg) symbol (direction_value d) htf ltf) c1 c2"
  shows "fst (co_should_emit cfg clk z' r' d symbol now htf ltf c2) \<noteq> Inr (True, why)"
proof -
  let ?k = "dir_key_of (g_multi_tf_independent_positions cfg) symbol (direction_value d) htf ltf"
  have "co_step cfg clk c0 None c1" using assms(2) by (rule co_step.register)
  then have "locks_plain c1" using co_step_locks assms(1) by blast
  moreover have "locked ?k c1"
    unfolding locked_def co_register_open_dir [OF assms(2)] update_entries by simp
  ultimately have c2: "locks_plain c2 \<and> locked ?k c2" using co_run_locks [OF assms(3)] by blast
  show ?thesis
  proof
    assume a: "fst (co_should_emit cfg clk z' r' d symbol now htf ltf c2) = Inr (True, why)"
    then obtain c3 where e: "co_should_emit cfg clk z' r' d symbol now htf ltf c2 = (Inr (True, why), c3)"
      by (cases "co_should_emit cfg clk z' r' d symbol now htf ltf c2") auto
    have "co_state c3 = co_state c2" using co_should_emit_state [OF e] c2 by blast
    moreover have "\<not> is_direction_open symbol d htf ltf (g_multi_tf_independent_positions cfg) (co_state c3)"
      using e by (auto simp: co_should_emit_def Let_def split: if_splits sum.splits prod.splits)
    ultimately show False using c2 by (simp add: is_direction_open_def locked_def)
  qed
qed

theorem position_lock_holds_witness:
  "fst (co_should_emit (default_settings []) (\<lambda>_. 0) ex_demand ex_rejection LONG ''XAUUSD'' 43500000
     ''1h'' ''5min'' (snd (co_register_signal (default_settings []) ''XAUUSD'' LONG ex_demand
       ex_rejection ''1h'' ''5min'' ex_co))) \<noteq> Inr (True, R_Allowed)"
proof -
  have "locks_plain ex_co" by (simp add: locks_plain_def ex_co_def empty_dedup_def)
  then show ?thesis
    by (rule position_lock_holds [OF _ surjective_pairing co_run.refl])
qed

text \<open>
  closing a trade frees its direction, appends it to the history, stores it under the current
  session day unless its id is stored already, and writes it to the session backup.
\<close>

theorem co_record_outcome_effect:
  assumes "co_record_outcome cfg clk rec c = (res, c')" "distinct (map fst (ds_open_dir (co_state c)))"
  shows "\<not> locked (dir_key_of (g_multi_tf_independent_positions cfg) (cr_symbol rec) (cr_direction rec)
      (cr_htf_interval rec) (cr_ltf_interval rec)) c' \<and>
    last (co_history c') = rec \<and>
    (length (co_history c) \<le> 500 \<longrightarrow> length (co_history c') = min 500 (Suc (length (co_history c)))) \<and>
    cr_signal_id rec \<in> (\<lambda>x. cr_signal_id (fst x)) ` set (tb_closed (co_store c')) \<and>
    load_records_from_json (co_session_day c) (co_files c') =
      load_records_from_json (co_session_day c) (co_files c) @ [rec]"
proof -
  have st: "co_state c' = release_direction (cr_symbol rec) (cr_direction rec) (cr_htf_interval rec)
     (cr_ltf_interval rec) (g_multi_tf_independent_positions cfg) (co_state c)"
    and h: "co_history c' = history_append rec (co_history c)"
    and db: "co_store c' = insert_closed rec (co_session_day c) (co_store c)"
    using co_record_outcome_state [OF assms(1)] by blast+
  have fl: "co_files c' = append_csv rec (append_record rec (co_session_day c) (co_files c))"
    using assms(1)
    by (auto simp: co_record_outcome_def Let_def status_line_tick_def frame_simps
        dest!: check_streak_frame split: prod.splits sum.splits)
  have "last (history_append rec h0) = rec" for h0
    by (simp add: history_append_def Let_def)
  moreover have "cr_signal_id rec \<in> (\<lambda>x. cr_signal_id (fst x)) `
      set (tb_closed (insert_closed rec day tb))" for day tb
    by (auto simp: insert_closed_def closed_columns_def)
  ultimately show ?thesis
    by (auto simp: st h db fl locked_def release_direction_def AList.delete_eq history_append_def
        load_records_from_json_def append_record_def append_csv_def Let_def split: option.splits)
qed

theorem co_record_outcome_effect_witness:
  "last (co_history (snd (co_record_outcome (default_settings []) (\<lambda>_. 0)
      (mk_closed_record ''id1'' ''XAUUSD'' ''LONG'' ''LOSS'' (- 1) 5) ex_co))) =
    mk_closed_record ''id1'' ''XAUUSD'' ''LONG'' ''LOSS'' (- 1) 5"
proof -
  have "distinct (map fst (ds_open_dir (co_state ex_co)))" by (simp add: ex_co_def empty_dedup_def)
  from co_record_outcome_effect [OF surjective_pairing this] show ?thesis by blast
qed

end
