(* ===== verification/Effects.thy ===== *)
theory Effects
  imports Prelude
begin

text \<open>
  State and exceptions together: a computation over a state returns a value or the exception
  raised, and in both cases the state it leaves.
\<close>

type_synonym ('s, 'a) sm = "'s \<Rightarrow> 'a result \<times> 's"

definition returnS :: "'a \<Rightarrow> ('s, 'a) sm" where "returnS x s = (Inr x, s)"
definition raiseS :: "py_error \<Rightarrow> ('s, 'a) sm" where "raiseS e s = (Inl e, s)"
definition readS :: "('s \<Rightarrow> 'a) \<Rightarrow> ('s, 'a) sm" where "readS f s = (Inr (f s), s)"
definition modS :: "('s \<Rightarrow> 's) \<Rightarrow> ('s, unit) sm" where "modS f s = (Inr (), f s)"
definition liftR :: "'a result \<Rightarrow> ('s, 'a) sm" where "liftR r s = (r, s)"

definition bindS :: "('s, 'a) sm \<Rightarrow> ('a \<Rightarrow> ('s, 'b) sm) \<Rightarrow> ('s, 'b) sm" where
  "bindS m f s = (case m s of (Inl e, s') \<Rightarrow> (Inl e, s') | (Inr x, s') \<Rightarrow> f x s')"

abbreviation thenS :: "('s, 'a) sm \<Rightarrow> ('s, 'b) sm \<Rightarrow> ('s, 'b) sm" where
  "thenS m n \<equiv> bindS m (\<lambda>_. n)"

definition whenS :: "bool \<Rightarrow> ('s, unit) sm \<Rightarrow> ('s, unit) sm" where
  "whenS b m = (if b then m else returnS ())"

text \<open>\<open>try: ... except Exception\<close>: the exception becomes a value, the state stays.\<close>

definition tryS :: "('s, 'a) sm \<Rightarrow> ('s, 'a result) sm" where
  "tryS m s = (case m s of (r, s') \<Rightarrow> (Inr r, s'))"

fun forS :: "'b list \<Rightarrow> ('b \<Rightarrow> ('s, unit) sm) \<Rightarrow> ('s, unit) sm" where
  "forS [] f = returnS ()"
| "forS (x # xs) f = thenS (f x) (forS xs f)"

lemmas effect_defs = returnS_def raiseS_def readS_def modS_def liftR_def whenS_def tryS_def

lemma bindS_cases:
  assumes "bindS m f s = (r, s')"
  obtains e where "m s = (Inl e, s')" "r = Inl e"
  | x s1 where "m s = (Inr x, s1)" "f x s1 = (r, s')"
  using assms by (cases "m s"; cases "fst (m s)") (auto simp: bindS_def)

text \<open>
  A state relation that holds from before to after of a computation, whether or not it raises;
  the rules go through a program statement by statement.
\<close>

definition keeps :: "('s \<Rightarrow> 's \<Rightarrow> bool) \<Rightarrow> ('s, 'a) sm \<Rightarrow> bool" where
  "keeps R m \<longleftrightarrow> (\<forall>s. R s (snd (m s)))"

named_theorems keeps_intro \<open>statements that respect a preorder on states\<close>

lemma keeps_pure [keeps_intro]:
  assumes "reflp R"
  shows "keeps R (returnS x)" "keeps R (raiseS e)" "keeps R (readS g)" "keeps R (liftR q)"
  using assms by (simp_all add: keeps_def effect_defs reflp_def)

lemma keeps_bind [keeps_intro]:
  assumes "transp R" "keeps R m" "\<And>x. keeps R (f x)"
  shows "keeps R (bindS m f)"
  unfolding keeps_def
proof
  fix s
  have 1: "R s (snd (m s))" using assms(2) by (simp add: keeps_def)
  show "R s (snd (bindS m f s))"
  proof (cases "m s")
    case (Pair r s1)
    show ?thesis
    proof (cases r)
      case (Inl e)
      then show ?thesis using 1 Pair by (simp add: bindS_def)
    next
      case (Inr x)
      have "R s1 (snd (f x s1))" using assms(3) [of x] by (simp add: keeps_def)
      then show ?thesis
        using 1 Pair Inr assms(1) by (auto simp: bindS_def elim: transpE)
    qed
  qed
qed

lemma keeps_mod: "(\<And>s. R s (f s)) \<Longrightarrow> keeps R (modS f)"
  by (simp add: keeps_def modS_def)

lemma keeps_when [keeps_intro]: "reflp R \<Longrightarrow> keeps R m \<Longrightarrow> keeps R (whenS b m)"
  by (simp add: whenS_def keeps_pure)

lemma keeps_try [keeps_intro]: "keeps R m \<Longrightarrow> keeps R (tryS m)"
  by (simp add: keeps_def tryS_def split: prod.splits) (metis snd_conv)

lemma keeps_for [keeps_intro]:
  "reflp R \<Longrightarrow> transp R \<Longrightarrow> (\<And>x. x \<in> set xs \<Longrightarrow> keeps R (f x)) \<Longrightarrow> keeps R (forS xs f)"
  by (induction xs) (auto intro!: keeps_pure keeps_bind)

lemma keepsD: "keeps R m \<Longrightarrow> m s = (r, s') \<Longrightarrow> R s s'"
  by (metis keeps_def snd_conv)

text \<open>Reading an exception-free result before going on.\<close>

lemma keeps_bind_lift [keeps_intro]:
  assumes "reflp R" "\<And>x. r = Inr x \<Longrightarrow> keeps R (f x)"
  shows "keeps R (bindS (liftR r) f)"
proof (cases r)
  case (Inl e)
  then show ?thesis using assms(1) by (simp add: keeps_def bindS_def liftR_def reflp_def)
next
  case (Inr x)
  then have "bindS (liftR r) f = f x" by (simp add: bindS_def liftR_def fun_eq_iff)
  then show ?thesis using assms(2) Inr by simp
qed

lemma keeps_bind_read:
  assumes "\<And>s. R s (snd (f (g s) s))"
  shows "keeps R (bindS (readS g) f)"
  using assms by (simp add: keeps_def bindS_def readS_def)

section \<open>Triples\<close>

text \<open>
  From a state satisfying \<open>P\<close> a computation either returns, and \<open>Q\<close> holds of the value and the
  state, or raises, and \<open>E\<close> holds of the state.
\<close>

definition valid :: "('s \<Rightarrow> bool) \<Rightarrow> ('s, 'a) sm \<Rightarrow> ('a \<Rightarrow> 's \<Rightarrow> bool) \<Rightarrow> ('s \<Rightarrow> bool) \<Rightarrow> bool" where
  "valid P m Q E \<longleftrightarrow>
     (\<forall>s. P s \<longrightarrow> (case m s of (Inr x, s') \<Rightarrow> Q x s' | (Inl e, s') \<Rightarrow> E s'))"

named_theorems valid_intro \<open>triples of the statements\<close>

lemma valid_return [valid_intro]: "(\<And>s. P s \<Longrightarrow> Q x s) \<Longrightarrow> valid P (returnS x) Q E"
  by (simp add: valid_def returnS_def)

lemma valid_raise [valid_intro]: "(\<And>s. P s \<Longrightarrow> E s) \<Longrightarrow> valid P (raiseS e) Q E"
  by (simp add: valid_def raiseS_def)

lemma valid_mod: "(\<And>s. P s \<Longrightarrow> Q () (f s)) \<Longrightarrow> valid P (modS f) Q E"
  by (simp add: valid_def modS_def)

lemma valid_bind:
  assumes "valid P m Q E" "\<And>x. valid (Q x) (f x) R E"
  shows "valid P (bindS m f) R E"
  unfolding valid_def
proof (intro allI impI)
  fix s assume "P s"
  then have m: "case m s of (Inr x, s') \<Rightarrow> Q x s' | (Inl e, s') \<Rightarrow> E s'"
    using assms(1) by (simp add: valid_def)
  show "case bindS m f s of (Inr x, s') \<Rightarrow> R x s' | (Inl e, s') \<Rightarrow> E s'"
  proof (cases "m s")
    case (Pair r s1)
    show ?thesis
    proof (cases r)
      case (Inl e)
      then show ?thesis using m Pair by (simp add: bindS_def)
    next
      case (Inr x)
      then have "Q x s1" using m Pair by simp
      then show ?thesis using assms(2) [of x] Pair Inr by (simp add: valid_def bindS_def)
    qed
  qed
qed

lemma valid_bind_lift:
  assumes "\<And>x. r = Inr x \<Longrightarrow> valid P (f x) Q E" "\<And>s. P s \<Longrightarrow> E s"
  shows "valid P (bindS (liftR r) f) Q E"
proof (cases r)
  case (Inl e)
  then show ?thesis using assms(2) by (simp add: valid_def bindS_def liftR_def)
next
  case (Inr x)
  then have "bindS (liftR r) f = f x" by (simp add: bindS_def liftR_def fun_eq_iff)
  then show ?thesis using assms(1) Inr by simp
qed

lemma valid_bind_read:
  "(\<And>x. valid (\<lambda>s. P s \<and> g s = x) (f x) Q E) \<Longrightarrow> valid P (bindS (readS g) f) Q E"
  by (simp add: valid_def bindS_def readS_def)

lemma valid_when:
  "(b \<Longrightarrow> valid P m Q E) \<Longrightarrow> (\<And>s. \<not> b \<Longrightarrow> P s \<Longrightarrow> Q () s) \<Longrightarrow> valid P (whenS b m) Q E"
  by (cases b) (simp_all add: whenS_def valid_return)

lemma valid_if:
  "(b \<Longrightarrow> valid P m Q E) \<Longrightarrow> (\<not> b \<Longrightarrow> valid P n Q E) \<Longrightarrow> valid P (if b then m else n) Q E"
  by simp

lemma valid_prod:
  "(\<And>a b. y = (a, b) \<Longrightarrow> valid P (f a b) Q E) \<Longrightarrow> valid P (case y of (a, b) \<Rightarrow> f a b) Q E"
  by (cases y) simp

lemma valid_pre: "valid P' m Q E \<Longrightarrow> (\<And>s. P s \<Longrightarrow> P' s) \<Longrightarrow> valid P m Q E"
  by (simp add: valid_def)

lemma valid_post:
  "valid P m Q' E \<Longrightarrow> (\<And>x s. Q' x s \<Longrightarrow> Q x s) \<Longrightarrow> valid P m Q E"
  by (fastforce simp: valid_def split: prod.splits sum.splits)

lemma valid_try:
  "valid P m (\<lambda>x s. Q (Inr x) s) E' \<Longrightarrow> (\<And>e s. E' s \<Longrightarrow> Q (Inl e) s) \<Longrightarrow> valid P (tryS m) Q E"
proof -
  assume v: "valid P m (\<lambda>x s. Q (Inr x) s) E'" and e: "\<And>e s. E' s \<Longrightarrow> Q (Inl e) s"
  show ?thesis
    unfolding valid_def
  proof (intro allI impI)
    fix s assume "P s"
    then have "case m s of (Inr x, s') \<Rightarrow> Q (Inr x) s' | (Inl e, s') \<Rightarrow> E' s'"
      using v by (simp add: valid_def)
    then show "case tryS m s of (Inr x, s') \<Rightarrow> Q x s' | (Inl e, s') \<Rightarrow> E s'"
      using e by (cases "m s"; cases "fst (m s)") (auto simp: tryS_def)
  qed
qed

lemma valid_for:
  "(\<And>x. x \<in> set xs \<Longrightarrow> valid I (f x) (\<lambda>_. I) I) \<Longrightarrow> valid I (forS xs f) (\<lambda>_. I) I"
proof (induction xs)
  case Nil
  then show ?case by (simp add: valid_return)
next
  case (Cons x xs)
  then show ?case by (auto intro!: valid_bind)
qed

lemma validD:
  "valid P m Q E \<Longrightarrow> P s \<Longrightarrow> m s = (Inr x, s') \<Longrightarrow> Q x s'"
  "valid P m Q E \<Longrightarrow> P s \<Longrightarrow> m s = (Inl e, s') \<Longrightarrow> E s'"
  by (force simp: valid_def)+

text \<open>A property of the value alone, whatever the state.\<close>

abbreviation yields :: "('a \<Rightarrow> bool) \<Rightarrow> ('s, 'a) sm \<Rightarrow> bool" where
  "yields P m \<equiv> valid (\<lambda>_. True) m (\<lambda>x _. P x) (\<lambda>_. True)"

lemma valid_any: "yields (\<lambda>_. True) m"
  by (simp add: valid_def split: prod.split sum.split)

named_theorems yields_intro \<open>what a computation may return\<close>

lemma yields_return [yields_intro]: "P x \<Longrightarrow> yields P (returnS x)"
  by (simp add: valid_return)

lemma yields_raise [yields_intro]: "yields P (raiseS e)"
  by (simp add: valid_raise)

lemma yields_last: "(\<And>x. yields P (f x)) \<Longrightarrow> yields P (bindS m f)"
  by (rule valid_bind [OF valid_any])

lemma yields_bind: "yields A m \<Longrightarrow> (\<And>x. A x \<Longrightarrow> yields P (f x)) \<Longrightarrow> yields P (bindS m f)"
  by (rule valid_bind, assumption) (auto simp: valid_def)

text \<open>A computation that does not touch a projection of the state keeps what is said of it.\<close>

lemma valid_frame:
  assumes "keeps (\<lambda>s s'. g s' = g s) m"
  shows "valid (\<lambda>s. J (g s)) m (\<lambda>_ s. J (g s)) (\<lambda>s. J (g s))"
  using assms by (auto simp: valid_def keeps_def split: prod.split sum.split) (metis snd_conv)+

end
