(* ===== verification/Swings.thy ===== *)
theory Swings
  imports Entities
begin

text \<open>
  domain/market/swings.py: pivots, the break-of-structure (BOS) detector, the displacement
  filter and the HTF zone finder. \<open>pivot_bars\<close>, \<open>atr_period\<close> and \<open>max_zones_per_dir\<close> are
  non-negative in every call of the engine, so natural numbers.
\<close>

section \<open>Pivots\<close>

text \<open>Candle \<open>i\<close> is a pivot high: strictly above \<open>left\<close> candles before and \<open>right\<close> after.\<close>

definition pivot_high_at :: "candle list \<Rightarrow> nat \<Rightarrow> nat \<Rightarrow> nat \<Rightarrow> bool" where
  "pivot_high_at cs left right i \<longleftrightarrow>
     (\<forall>j \<in> {1..left}. c_high (cs ! (i - j)) < c_high (cs ! i)) \<and>
     (\<forall>j \<in> {1..right}. c_high (cs ! (i + j)) < c_high (cs ! i))"

definition pivot_low_at :: "candle list \<Rightarrow> nat \<Rightarrow> nat \<Rightarrow> nat \<Rightarrow> bool" where
  "pivot_low_at cs left right i \<longleftrightarrow>
     (\<forall>j \<in> {1..left}. c_low (cs ! i) < c_low (cs ! (i - j))) \<and>
     (\<forall>j \<in> {1..right}. c_low (cs ! i) < c_low (cs ! (i + j)))"

definition find_pivot_highs :: "candle list \<Rightarrow> nat \<Rightarrow> nat \<Rightarrow> candle list" where
  "find_pivot_highs cs left right =
     map (\<lambda>i. cs ! i) (filter (pivot_high_at cs left right) [left ..< length cs - right])"

definition find_pivot_lows :: "candle list \<Rightarrow> nat \<Rightarrow> nat \<Rightarrow> candle list" where
  "find_pivot_lows cs left right =
     map (\<lambda>i. cs ! i) (filter (pivot_low_at cs left right) [left ..< length cs - right])"

definition pivot_high_ts :: "candle list \<Rightarrow> nat \<Rightarrow> ms set" where
  "pivot_high_ts cs n = set (map c_timestamp (find_pivot_highs cs n n))"

definition pivot_low_ts :: "candle list \<Rightarrow> nat \<Rightarrow> ms set" where
  "pivot_low_ts cs n = set (map c_timestamp (find_pivot_lows cs n n))"

section \<open>Break of structure\<close>

text \<open>An event is (time of the breaking candle, direction, broken level, zone candle).\<close>

type_synonym bos_event = "ms \<times> bos_dir \<times> price \<times> candle"

text \<open>
  The walk over the candles: \<open>ph\<close> and \<open>pl\<close> are the last confirmed pivots; both are reset
  after an event.
\<close>

fun bos_walk :: "ms set \<Rightarrow> ms set \<Rightarrow> candle option \<Rightarrow> candle option \<Rightarrow> candle list \<Rightarrow> bos_event list" where
  "bos_walk hts lts ph pl [] = []"
| "bos_walk hts lts ph pl (c # cs) =
     (let ph' = (if c_timestamp c \<in> hts then Some c else ph);
          pl' = (if c_timestamp c \<in> lts then Some c else pl)
      in case (ph', pl') of
           (Some h, Some l) \<Rightarrow>
             if c_timestamp h < c_timestamp c \<and> c_high h < c_close c
             then (c_timestamp c, BULLISH, c_high h, l) # bos_walk hts lts None None cs
             else if c_timestamp l < c_timestamp c \<and> c_close c < c_low l
             then (c_timestamp c, BEARISH, c_low l, h) # bos_walk hts lts None None cs
             else bos_walk hts lts ph' pl' cs
         | _ \<Rightarrow> bos_walk hts lts ph' pl' cs)"

definition detect_bos_events :: "candle list \<Rightarrow> nat \<Rightarrow> bos_event list" where
  "detect_bos_events cs pivot_bars =
     bos_walk (pivot_high_ts cs pivot_bars) (pivot_low_ts cs pivot_bars) None None cs"

section \<open>Displacement\<close>

fun index_of_ts :: "candle list \<Rightarrow> ms \<Rightarrow> nat option" where
  "index_of_ts [] t = None"
| "index_of_ts (c # cs) t =
     (if c_timestamp c = t then Some 0 else map_option Suc (index_of_ts cs t))"

definition avg_body :: "candle list \<Rightarrow> real" where
  "avg_body cs = sum_list (map candle_body cs) / of_nat (length cs)"

definition detect_displacement :: "candle list \<Rightarrow> ms \<Rightarrow> nat \<Rightarrow> real \<Rightarrow> bool" where
  "detect_displacement cs bos_ts atr_period atr_mult =
     (case index_of_ts cs bos_ts of
        None \<Rightarrow> True
      | Some bos_idx \<Rightarrow>
          if bos_idx = 0 then True
          else let prior = slice cs (bos_idx - atr_period) bos_idx in
               if prior = [] then True
               else if avg_body prior < 1 / 10 ^ 10 then True
               else atr_mult * avg_body prior \<le> candle_body (cs ! bos_idx))"

section \<open>HTF zones\<close>

definition taken_out :: "candle list \<Rightarrow> ms \<Rightarrow> bos_dir \<Rightarrow> candle \<Rightarrow> bool" where
  "taken_out cs bos_ts d swing =
     (case d of
        BEARISH \<Rightarrow> list_ex (\<lambda>c. bos_ts < c_timestamp c \<and> c_high swing < c_close c) cs
      | BULLISH \<Rightarrow> list_ex (\<lambda>c. bos_ts < c_timestamp c \<and> c_close c < c_low swing) cs)"

definition zone_tp :: "candle list \<Rightarrow> ms \<Rightarrow> bos_dir \<Rightarrow> candle \<Rightarrow> price" where
  "zone_tp cs bos_ts d swing =
     (case d of
        BEARISH \<Rightarrow>
          (case filter (\<lambda>c. bos_ts < c_timestamp c \<and> c_low c < c_low swing) cs of
             [] \<Rightarrow> c_low swing | x # xs \<Rightarrow> c_low (min_by c_low x xs))
      | BULLISH \<Rightarrow>
          (case filter (\<lambda>c. bos_ts < c_timestamp c \<and> c_high swing < c_high c) cs of
             [] \<Rightarrow> c_high swing | x # xs \<Rightarrow> c_high (max_by c_high x xs)))"

definition mk_zone :: "candle list \<Rightarrow> int \<Rightarrow> ms \<Rightarrow> bos_dir \<Rightarrow> candle \<Rightarrow> htf_zone" where
  "mk_zone cs htf_interval_ms bos_ts d swing =
     \<lparr>z_range_high = c_high swing, z_range_low = c_low swing, z_bos_direction = d,
      z_timestamp = c_timestamp swing, z_broken_at = bos_ts,
      z_tp_level = zone_tp cs bos_ts d swing,
      z_htf_candle_open = c_timestamp swing,
      z_htf_candle_close = c_timestamp swing + htf_interval_ms\<rparr>"

text \<open>The loop over the events: \<open>sb\<close> and \<open>su\<close> are the bearish and bullish swings already seen.\<close>

fun zone_loop ::
  "candle list \<Rightarrow> int \<Rightarrow> ms set \<Rightarrow> ms set \<Rightarrow> bos_event list \<Rightarrow> htf_zone list" where
  "zone_loop cs iv sb su [] = []"
| "zone_loop cs iv sb su ((bos_ts, d, level, swing) # es) =
     (let swing_ts = c_timestamp swing in
      case d of
        BEARISH \<Rightarrow>
          if swing_ts \<in> sb then zone_loop cs iv sb su es
          else if taken_out cs bos_ts BEARISH swing
          then zone_loop cs iv (insert swing_ts sb) su es
          else mk_zone cs iv bos_ts BEARISH swing # zone_loop cs iv (insert swing_ts sb) su es
      | BULLISH \<Rightarrow>
          if swing_ts \<in> su then zone_loop cs iv sb su es
          else if taken_out cs bos_ts BULLISH swing
          then zone_loop cs iv sb (insert swing_ts su) es
          else mk_zone cs iv bos_ts BULLISH swing # zone_loop cs iv sb (insert swing_ts su) es)"

definition zones_of_dir :: "bos_dir \<Rightarrow> nat \<Rightarrow> htf_zone list \<Rightarrow> htf_zone list" where
  "zones_of_dir d n zs = take n (sort_desc z_timestamp (filter (\<lambda>z. z_bos_direction z = d) zs))"

definition find_htf_ranges :: "candle list \<Rightarrow> nat \<Rightarrow> int \<Rightarrow> nat \<Rightarrow> htf_zone list" where
  "find_htf_ranges cs pivot_bars htf_interval_ms max_zones_per_dir =
     (if length cs < 3 then []
      else let fresh = zone_loop cs htf_interval_ms {} {} (detect_bos_events cs pivot_bars)
           in zones_of_dir BEARISH max_zones_per_dir fresh @
              zones_of_dir BULLISH max_zones_per_dir fresh)"

section \<open>What a BOS event says\<close>

lemma pivot_high_tsE:
  assumes "t \<in> pivot_high_ts cs n"
  obtains i where "n \<le> i" "i + n < length cs" "c_timestamp (cs ! i) = t" "pivot_high_at cs n n i"
  using assms by (auto simp: pivot_high_ts_def find_pivot_highs_def)

lemma pivot_low_tsE:
  assumes "t \<in> pivot_low_ts cs n"
  obtains i where "n \<le> i" "i + n < length cs" "c_timestamp (cs ! i) = t" "pivot_low_at cs n n i"
  using assms by (auto simp: pivot_low_ts_def find_pivot_lows_def)

text \<open>
  The invariant of the walk: the remembered pivots are candles of the list whose timestamps
  are confirmed pivot times, and an event is made from them.
\<close>

definition bos_sound :: "ms set \<Rightarrow> ms set \<Rightarrow> candle set \<Rightarrow> bos_event \<Rightarrow> bool" where
  "bos_sound hts lts C e \<longleftrightarrow>
     (case e of (t, d, level, swing) \<Rightarrow>
        \<exists>c \<in> C. \<exists>h \<in> C. \<exists>l \<in> C. c_timestamp c = t \<and> c_timestamp h \<in> hts \<and> c_timestamp l \<in> lts \<and>
          (case d of
             BULLISH \<Rightarrow> c_timestamp h < t \<and> level = c_high h \<and> level < c_close c \<and> swing = l
           | BEARISH \<Rightarrow> c_timestamp l < t \<and> level = c_low l \<and> c_close c < level \<and> swing = h))"

lemma bos_walk_sound:
  assumes "set cs \<subseteq> C"
    and "\<And>h. ph = Some h \<Longrightarrow> h \<in> C \<and> c_timestamp h \<in> hts"
    and "\<And>l. pl = Some l \<Longrightarrow> l \<in> C \<and> c_timestamp l \<in> lts"
    and "e \<in> set (bos_walk hts lts ph pl cs)"
  shows "bos_sound hts lts C e"
  using assms
proof (induction cs arbitrary: ph pl)
  case (Cons c cs)
  define ph' where "ph' = (if c_timestamp c \<in> hts then Some c else ph)"
  define pl' where "pl' = (if c_timestamp c \<in> lts then Some c else pl)"
  have sub: "set cs \<subseteq> C" and c: "c \<in> C" using Cons.prems(1) by auto
  have H: "\<And>h. ph' = Some h \<Longrightarrow> h \<in> C \<and> c_timestamp h \<in> hts"
    using Cons.prems(2) c by (auto simp: ph'_def split: if_splits)
  have L: "\<And>l. pl' = Some l \<Longrightarrow> l \<in> C \<and> c_timestamp l \<in> lts"
    using Cons.prems(3) c by (auto simp: pl'_def split: if_splits)
  have IH0: "e \<in> set (bos_walk hts lts None None cs) \<Longrightarrow> bos_sound hts lts C e"
    by (rule Cons.IH [OF sub, of None None]) auto
  have IH1: "e \<in> set (bos_walk hts lts ph' pl' cs) \<Longrightarrow> bos_sound hts lts C e"
    by (rule Cons.IH [OF sub, of ph' pl']) (use H L in blast)+
  have e: "e \<in> set (case (ph', pl') of
           (Some h, Some l) \<Rightarrow>
             if c_timestamp h < c_timestamp c \<and> c_high h < c_close c
             then (c_timestamp c, BULLISH, c_high h, l) # bos_walk hts lts None None cs
             else if c_timestamp l < c_timestamp c \<and> c_close c < c_low l
             then (c_timestamp c, BEARISH, c_low l, h) # bos_walk hts lts None None cs
             else bos_walk hts lts ph' pl' cs
         | _ \<Rightarrow> bos_walk hts lts ph' pl' cs)"
    using Cons.prems(4)
    unfolding bos_walk.simps(2) Let_def ph'_def [symmetric] pl'_def [symmetric] .
  show ?case
  proof (cases "\<exists>h l. ph' = Some h \<and> pl' = Some l")
    case True
    then obtain h l where p: "ph' = Some h" "pl' = Some l" by blast
    have new: "bos_sound hts lts C (c_timestamp c, BULLISH, c_high h, l)"
      if "c_timestamp h < c_timestamp c" "c_high h < c_close c"
      using that H [OF p(1)] L [OF p(2)] c by (auto simp: bos_sound_def)
    have new': "bos_sound hts lts C (c_timestamp c, BEARISH, c_low l, h)"
      if "c_timestamp l < c_timestamp c" "c_close c < c_low l"
      using that H [OF p(1)] L [OF p(2)] c by (auto simp: bos_sound_def)
    show ?thesis
      using e IH0 IH1 new new' unfolding p by (auto split: if_splits)
  qed (use e IH1 in \<open>auto split: option.splits\<close>)
qed simp

lemma detect_bos_events_sound:
  "e \<in> set (detect_bos_events cs n) \<Longrightarrow> bos_sound (pivot_high_ts cs n) (pivot_low_ts cs n) (set cs) e"
  unfolding detect_bos_events_def by (rule bos_walk_sound) auto

text \<open>Events come in the order of the candles, one per candle at most.\<close>

lemma bos_walk_subset: "fst ` set (bos_walk hts lts ph pl cs) \<subseteq> c_timestamp ` set cs"
proof (induction cs arbitrary: ph pl)
  case (Cons c cs)
  have "fst ` set (bos_walk hts lts ph' pl' cs) \<subseteq> insert (c_timestamp c) (c_timestamp ` set cs)"
    for ph' pl' using Cons.IH [of ph' pl'] by blast
  then show ?case
    by (simp add: Let_def del: image_subset_iff split: option.split)
qed simp

lemma bos_walk_increasing:
  assumes "sorted_wrt (<) (map c_timestamp cs)"
  shows "sorted_wrt (<) (map fst (bos_walk hts lts ph pl cs))"
  using assms
proof (induction cs arbitrary: ph pl)
  case (Cons c cs)
  have IH: "sorted_wrt (<) (map fst (bos_walk hts lts ph' pl' cs))" for ph' pl'
    using Cons.IH Cons.prems by simp
  have later: "\<forall>e \<in> set (bos_walk hts lts ph' pl' cs). c_timestamp c < fst e" for ph' pl'
    using bos_walk_subset [of hts lts ph' pl' cs] Cons.prems by fastforce
  show ?case
    using IH later by (simp add: Let_def split: option.split)
qed simp

section \<open>A worked example\<close>

text \<open>A pivot high, a pivot low, and a close above the high: one bullish break.\<close>

definition ex_bull :: "candle list" where
  "ex_bull = [mk_candle 1 6 10 5 9, mk_candle 2 9 12 6 7, mk_candle 3 7 11 4 6,
     mk_candle 4 6 11 5 10, mk_candle 5 10 14 9 13]"

definition ex_bull_zone :: htf_zone where
  "ex_bull_zone =
     \<lparr>z_range_high = 11, z_range_low = 4, z_bos_direction = BULLISH, z_timestamp = 3,
      z_broken_at = 5, z_tp_level = 11, z_htf_candle_open = 3, z_htf_candle_close = 103\<rparr>"

lemma ex_bull_events: "detect_bos_events ex_bull 1 = [(5, BULLISH, 12, mk_candle 3 7 11 4 6)]"
  by code_simp

lemma ex_bull_zones: "find_htf_ranges ex_bull 1 100 3 = [ex_bull_zone]"
  by code_simp

lemma ex_bull_sorted: "sorted_wrt (<) (map c_timestamp ex_bull)"
  by code_simp

section \<open>What a zone says\<close>

text \<open>
  Reference for the loop over the events: keep the first event of every (direction, swing
  candle), drop the ones whose zone was taken out, build the zones.
\<close>

fun first_by :: "('a \<Rightarrow> 'k) \<Rightarrow> 'k set \<Rightarrow> 'a list \<Rightarrow> 'a list" where
  "first_by k seen [] = []"
| "first_by k seen (x # xs) =
     (if k x \<in> seen then first_by k seen xs else x # first_by k (insert (k x) seen) xs)"

lemma first_by_subset: "set (first_by k seen xs) \<subseteq> set xs"
  by (induction xs arbitrary: seen) auto

lemma first_by_fresh: "x \<in> set (first_by k seen xs) \<Longrightarrow> k x \<notin> seen"
  by (induction xs arbitrary: seen) (auto split: if_splits)

lemma first_by_distinct: "distinct (map k (first_by k seen xs))"
  by (induction xs arbitrary: seen) (auto dest: first_by_fresh)

lemma first_by_covers: "x \<in> set xs \<Longrightarrow> k x \<in> seen \<or> k x \<in> k ` set (first_by k seen xs)"
  by (induction xs arbitrary: seen) auto

definition event_key :: "bos_event \<Rightarrow> bos_dir \<times> ms" where
  "event_key = (\<lambda>(t, d, level, swing). (d, c_timestamp swing))"

definition event_fresh :: "candle list \<Rightarrow> bos_event \<Rightarrow> bool" where
  "event_fresh cs = (\<lambda>(t, d, level, swing). \<not> taken_out cs t d swing)"

definition event_zone :: "candle list \<Rightarrow> int \<Rightarrow> bos_event \<Rightarrow> htf_zone" where
  "event_zone cs iv = (\<lambda>(t, d, level, swing). mk_zone cs iv t d swing)"

lemmas event_defs = event_key_def event_fresh_def event_zone_def

lemma zone_loop_eq:
  assumes "\<And>x. x \<in> sb \<longleftrightarrow> (BEARISH, x) \<in> K" "\<And>x. x \<in> su \<longleftrightarrow> (BULLISH, x) \<in> K"
  shows "zone_loop cs iv sb su es =
   map (event_zone cs iv) (filter (event_fresh cs) (first_by event_key K es))"
  using assms
proof (induction es arbitrary: sb su K)
  case (Cons e es)
  obtain t d lv sw where e: "e = (t, d, lv, sw)" by (cases e)
  have B: "zone_loop cs iv (insert (c_timestamp sw) sb) su es =
    map (event_zone cs iv) (filter (event_fresh cs)
      (first_by event_key (insert (BEARISH, c_timestamp sw) K) es))"
    by (rule Cons.IH) (auto simp: Cons.prems)
  have U: "zone_loop cs iv sb (insert (c_timestamp sw) su) es =
    map (event_zone cs iv) (filter (event_fresh cs)
      (first_by event_key (insert (BULLISH, c_timestamp sw) K) es))"
    by (rule Cons.IH) (auto simp: Cons.prems)
  show ?case
    by (cases d) (auto simp: e event_defs [abs_def] Let_def B [unfolded event_defs]
      U [unfolded event_defs] Cons.IH [OF Cons.prems, unfolded event_defs] Cons.prems)
qed simp

lemma mk_zone_simps [simp]:
  "z_range_high (mk_zone cs iv t d sw) = c_high sw"
  "z_range_low (mk_zone cs iv t d sw) = c_low sw"
  "z_bos_direction (mk_zone cs iv t d sw) = d"
  "z_timestamp (mk_zone cs iv t d sw) = c_timestamp sw"
  "z_broken_at (mk_zone cs iv t d sw) = t"
  "z_tp_level (mk_zone cs iv t d sw) = zone_tp cs t d sw"
  "z_htf_candle_open (mk_zone cs iv t d sw) = c_timestamp sw"
  "z_htf_candle_close (mk_zone cs iv t d sw) = c_timestamp sw + iv"
  by (simp_all add: mk_zone_def)

text \<open>The target is the extreme reached after the break, never inside the zone.\<close>

lemma zone_tp_bearish:
  "zone_tp cs t BEARISH sw \<le> c_low sw \<and>
   (\<forall>c \<in> set cs. t < c_timestamp c \<longrightarrow> zone_tp cs t BEARISH sw \<le> c_low c) \<and>
   (zone_tp cs t BEARISH sw = c_low sw \<or>
    (\<exists>c \<in> set cs. t < c_timestamp c \<and> zone_tp cs t BEARISH sw = c_low c))"
proof (cases "filter (\<lambda>c. t < c_timestamp c \<and> c_low c < c_low sw) cs")
  case Nil
  then have "\<forall>c \<in> set cs. t < c_timestamp c \<longrightarrow> c_low sw \<le> c_low c"
    by (auto simp: filter_empty_conv not_less)
  with Nil show ?thesis by (simp add: zone_tp_def)
next
  case (Cons x xs)
  let ?m = "min_by c_low x xs"
  have S: "insert x (set xs) = {c \<in> set cs. t < c_timestamp c \<and> c_low c < c_low sw}"
    using arg_cong [OF Cons, of set] by auto
  have in': "?m \<in> set cs \<and> t < c_timestamp ?m \<and> c_low ?m < c_low sw"
    using min_by_in [of c_low x xs] unfolding S by simp
  have "c_low ?m \<le> c_low c" if "c \<in> set cs" "t < c_timestamp c" for c
    using that in' min_by_le [of c x xs c_low] unfolding S by fastforce
  then show ?thesis using in' Cons by (auto simp: zone_tp_def)
qed

lemma zone_tp_bullish:
  "c_high sw \<le> zone_tp cs t BULLISH sw \<and>
   (\<forall>c \<in> set cs. t < c_timestamp c \<longrightarrow> c_high c \<le> zone_tp cs t BULLISH sw) \<and>
   (zone_tp cs t BULLISH sw = c_high sw \<or>
    (\<exists>c \<in> set cs. t < c_timestamp c \<and> zone_tp cs t BULLISH sw = c_high c))"
proof (cases "filter (\<lambda>c. t < c_timestamp c \<and> c_high sw < c_high c) cs")
  case Nil
  then have "\<forall>c \<in> set cs. t < c_timestamp c \<longrightarrow> c_high c \<le> c_high sw"
    by (auto simp: filter_empty_conv not_less)
  with Nil show ?thesis by (simp add: zone_tp_def)
next
  case (Cons x xs)
  let ?m = "max_by c_high x xs"
  have S: "insert x (set xs) = {c \<in> set cs. t < c_timestamp c \<and> c_high sw < c_high c}"
    using arg_cong [OF Cons, of set] by auto
  have in': "?m \<in> set cs \<and> t < c_timestamp ?m \<and> c_high sw < c_high ?m"
    using max_by_in [of c_high x xs] unfolding S by simp
  have "c_high c \<le> c_high ?m" if "c \<in> set cs" "t < c_timestamp c" for c
    using that in' max_by_ge [of c x xs c_high] unfolding S by fastforce
  then show ?thesis using in' Cons by (auto simp: zone_tp_def)
qed

lemma find_htf_ranges_in_fresh:
  "z \<in> set (find_htf_ranges cs n iv k) \<Longrightarrow>
   \<exists>e \<in> set (first_by event_key {} (detect_bos_events cs n)). event_fresh cs e \<and> z = event_zone cs iv e"
  using zone_loop_eq [of "{}" "{}" "{}" cs iv "detect_bos_events cs n"]
  by (auto simp: find_htf_ranges_def zones_of_dir_def Let_def dest!: in_set_takeD split: if_splits)

lemma zone_tp_extreme:
  "zone_tp cs t BEARISH sw = Min (insert (c_low sw) (c_low ` {c \<in> set cs. t < c_timestamp c}))"
  "zone_tp cs t BULLISH sw = Max (insert (c_high sw) (c_high ` {c \<in> set cs. t < c_timestamp c}))"
  using zone_tp_bearish [where cs = cs and t = t and sw = sw] zone_tp_bullish [where cs = cs and t = t and sw = sw]
  by (intro Min_eqI [symmetric] Max_eqI [symmetric]; force)+

text \<open>
  C37: every zone the finder returns is the zone of a real break of structure: the swing candle
  and the breaking candle are candles of the list, the break closed beyond a confirmed pivot
  that precedes it, no later candle closed through the far side of the zone, and the target is
  exactly the extreme of the candles after the break, or the edge of the zone when they do not
  go beyond it; candles before the break play no part in it.
\<close>

theorem find_htf_ranges_sound:
  assumes "z \<in> set (find_htf_ranges cs n iv k)"
  shows "\<exists>level swing. swing \<in> set cs \<and>
    (z_broken_at z, z_bos_direction z, level, swing) \<in> set (detect_bos_events cs n) \<and>
    bos_sound (pivot_high_ts cs n) (pivot_low_ts cs n) (set cs)
      (z_broken_at z, z_bos_direction z, level, swing) \<and>
    z_range_high z = c_high swing \<and> z_range_low z = c_low swing \<and>
    z_timestamp z = c_timestamp swing \<and>
    (let later = {c \<in> set cs. z_broken_at z < c_timestamp c} in
       case z_bos_direction z of
         BEARISH \<Rightarrow> (\<forall>c \<in> later. c_close c \<le> z_range_high z) \<and>
           z_tp_level z = Min (insert (z_range_low z) (c_low ` later))
       | BULLISH \<Rightarrow> (\<forall>c \<in> later. z_range_low z \<le> c_close c) \<and>
           z_tp_level z = Max (insert (z_range_high z) (c_high ` later)))"
proof -
  from find_htf_ranges_in_fresh [OF assms] obtain t d lv sw where
    e: "(t, d, lv, sw) \<in> set (detect_bos_events cs n)"
    and f: "\<not> taken_out cs t d sw" and z: "z = mk_zone cs iv t d sw"
    using first_by_subset [of event_key "{}" "detect_bos_events cs n"]
    by (auto simp: event_defs)
  have sd: "bos_sound (pivot_high_ts cs n) (pivot_low_ts cs n) (set cs) (t, d, lv, sw)"
    using e by (rule detect_bos_events_sound)
  then have "sw \<in> set cs" by (cases d) (auto simp: bos_sound_def)
  with e sd f z show ?thesis
    by (intro exI [of _ lv] exI [of _ sw])
      (cases d; fastforce simp: zone_tp_extreme taken_out_def list_ex_iff not_less)
qed

text \<open>After the break at 5 the price runs to 16, and before it no candle is higher than 18.\<close>

definition ex_run :: "candle list" where
  "ex_run = mk_candle 0 15 18 14 15 # ex_bull @ [mk_candle 6 13 16 12 15, mk_candle 7 15 15 11 12]"

theorem find_htf_ranges_sound_witness:
  "\<exists>z level swing. z \<in> set (find_htf_ranges ex_run 1 100 3) \<and> z_bos_direction z = BULLISH \<and> z_tp_level z = 16 \<and>
     (z_broken_at z, z_bos_direction z, level, swing) \<in> set (detect_bos_events ex_run 1) \<and>
     z_tp_level z = Max (insert (z_range_high z) (c_high ` {c \<in> set ex_run. z_broken_at z < c_timestamp c}))"
proof -
  have "find_htf_ranges ex_run 1 100 3 = [ex_bull_zone\<lparr>z_tp_level := 16\<rparr>]" by code_simp
  then have z: "ex_bull_zone\<lparr>z_tp_level := 16\<rparr> \<in> set (find_htf_ranges ex_run 1 100 3)" by simp
  have d: "z_bos_direction (ex_bull_zone\<lparr>z_tp_level := 16\<rparr>) = BULLISH" "z_tp_level (ex_bull_zone\<lparr>z_tp_level := 16\<rparr>) = 16"
    by (simp_all add: ex_bull_zone_def)
  from find_htf_ranges_sound [OF z] obtain level swing where
    "(z_broken_at (ex_bull_zone\<lparr>z_tp_level := 16\<rparr>), z_bos_direction (ex_bull_zone\<lparr>z_tp_level := 16\<rparr>), level, swing)
      \<in> set (detect_bos_events ex_run 1)"
    "z_tp_level (ex_bull_zone\<lparr>z_tp_level := 16\<rparr>) = Max (insert (z_range_high (ex_bull_zone\<lparr>z_tp_level := 16\<rparr>))
      (c_high ` {c \<in> set ex_run. z_broken_at (ex_bull_zone\<lparr>z_tp_level := 16\<rparr>) < c_timestamp c}))"
    unfolding d(1) bos_dir.case Let_def by blast
  with z d show ?thesis by blast
qed

lemma set_zones_of_dir:
  "set (zones_of_dir d k zs) \<subseteq> {z \<in> set zs. z_bos_direction z = d}"
  unfolding zones_of_dir_def by (auto dest: in_set_takeD)

lemma zones_of_dir_sorted: "sorted_wrt (\<lambda>a b. z_timestamp b \<le> z_timestamp a) (zones_of_dir d k zs)"
  unfolding zones_of_dir_def by (intro sorted_wrt_take sorted_sort_desc)

lemma zones_of_dir_length: "length (zones_of_dir d k zs) \<le> k"
  by (simp add: zones_of_dir_def)

lemma zone_loop_distinct:
  "distinct (map (\<lambda>z. (z_bos_direction z, z_timestamp z)) (zone_loop cs iv {} {} es))"
proof -
  have "map (\<lambda>z. (z_bos_direction z, z_timestamp z)) (zone_loop cs iv {} {} es) =
    map event_key (filter (event_fresh cs) (first_by event_key {} es))"
    using zone_loop_eq [of "{}" "{}" "{}" cs iv es] by (auto simp: event_defs)
  moreover have "distinct (map event_key (filter (event_fresh cs) (first_by event_key {} es)))"
    using first_by_distinct [of event_key "{}" es] by (rule distinct_map_filter)
  ultimately show ?thesis by simp
qed

lemma zones_of_dir_distinct:
  assumes "distinct (map (\<lambda>z. (z_bos_direction z, z_timestamp z)) zs)"
  shows "distinct (map z_timestamp (zones_of_dir d k zs))"
proof -
  let ?f = "filter (\<lambda>z. z_bos_direction z = d) zs"
  have "inj_on z_timestamp (set ?f)"
    using assms by (auto simp: distinct_map inj_on_def)
  moreover have "distinct ?f" using assms by (auto simp: distinct_map)
  ultimately have "distinct (map z_timestamp (sort_desc z_timestamp ?f))"
    by (intro distinct_map_sort_desc) (simp add: distinct_map)
  then show ?thesis
    unfolding zones_of_dir_def take_map [symmetric] by (rule distinct_take)
qed

text \<open>
  the finder keeps at most \<open>max_zones_per_dir\<close> zones of each direction, supply zones first,
  newest first in each direction, and never two zones on the same swing candle in one direction.
\<close>

theorem find_htf_ranges_shape:
  "\<exists>sell buy. find_htf_ranges cs n iv k = sell @ buy \<and>
     length sell \<le> k \<and> length buy \<le> k \<and>
     z_bos_direction ` set sell \<subseteq> {BEARISH} \<and> z_bos_direction ` set buy \<subseteq> {BULLISH} \<and>
     sorted_wrt (\<lambda>a b. z_timestamp b < z_timestamp a) sell \<and>
     sorted_wrt (\<lambda>a b. z_timestamp b < z_timestamp a) buy"
proof (cases "length cs < 3")
  case False
  let ?zs = "zone_loop cs iv {} {} (detect_bos_events cs n)"
  have strict: "sorted_wrt (\<lambda>a b. z_timestamp b < z_timestamp a) (zones_of_dir d k ?zs)" for d
    using zones_of_dir_sorted [of d k ?zs] zones_of_dir_distinct [OF zone_loop_distinct, of d k]
    by (simp add: sorted_wrt_iff_nth_less distinct_conv_nth order_less_le nth_eq_iff_index_eq)
  show ?thesis
    using False strict zones_of_dir_length set_zones_of_dir [of BEARISH k ?zs]
      set_zones_of_dir [of BULLISH k ?zs]
    by (intro exI [of _ "zones_of_dir BEARISH k ?zs"] exI [of _ "zones_of_dir BULLISH k ?zs"])
      (auto simp: find_htf_ranges_def Let_def)
qed (simp add: find_htf_ranges_def)

text \<open>
  nothing is lost: every fresh first break of a swing gives a zone, when the per-direction
  cap is at least the number of events.
\<close>

theorem find_htf_ranges_complete:
  assumes "length (detect_bos_events cs n) \<le> k" "3 \<le> length cs"
  shows "set (find_htf_ranges cs n iv k) =
    event_zone cs iv ` {e \<in> set (first_by event_key {} (detect_bos_events cs n)). event_fresh cs e}"
proof -
  let ?es = "detect_bos_events cs n"
  let ?zs = "zone_loop cs iv {} {} ?es"
  have zs: "?zs = map (event_zone cs iv) (filter (event_fresh cs) (first_by event_key {} ?es))"
    by (rule zone_loop_eq) auto
  have "length (first_by key K es) \<le> length es" for key K and es :: "bos_event list"
    by (induction es arbitrary: K) (simp_all add: le_SucI)
  then have "length ?zs \<le> k"
    unfolding zs using assms(1) length_filter_le le_trans by (metis length_map)
  then have all: "set (zones_of_dir d k ?zs) = {z \<in> set ?zs. z_bos_direction z = d}" for d
    unfolding zones_of_dir_def
    by (subst take_all) (auto intro: le_trans [OF length_filter_le])
  have "set (find_htf_ranges cs n iv k) = set ?zs"
    using assms(2) bos_dir.exhaust by (auto simp: find_htf_ranges_def Let_def all)
  then show ?thesis unfolding zs by auto
qed

theorem find_htf_ranges_complete_witness:
  "set (find_htf_ranges ex_bull 1 100 3) =
    event_zone ex_bull 100 `
      {e \<in> set (first_by event_key {} (detect_bos_events ex_bull 1)). event_fresh ex_bull e}"
  by (rule find_htf_ranges_complete, unfold ex_bull_events) (simp_all add: ex_bull_def)

text \<open>
  in chronological candles the breaks come in strictly increasing time, each at a
  candle of the list.
\<close>

theorem detect_bos_events_chronological:
  assumes "sorted_wrt (<) (map c_timestamp cs)"
  shows "sorted_wrt (<) (map fst (detect_bos_events cs n)) \<and>
    fst ` set (detect_bos_events cs n) \<subseteq> c_timestamp ` set cs"
  unfolding detect_bos_events_def
  using bos_walk_increasing [OF assms] bos_walk_subset by blast

theorem detect_bos_events_chronological_witness:
  "sorted_wrt (<) (map fst (detect_bos_events ex_bull 1)) \<and>
   fst ` set (detect_bos_events ex_bull 1) \<subseteq> c_timestamp ` set ex_bull"
  by (rule detect_bos_events_chronological) (rule ex_bull_sorted)

section \<open>Displacement looks only backwards\<close>

lemma index_of_ts_append:
  "index_of_ts cs t = Some i \<Longrightarrow> index_of_ts (cs @ ds) t = Some i"
  by (induction cs arbitrary: i) (auto split: if_splits)

lemma index_of_ts_less: "index_of_ts cs t = Some i \<Longrightarrow> i < length cs \<and> c_timestamp (cs ! i) = t"
  by (induction cs arbitrary: i) (auto split: if_splits)

lemma slice_append: "hi \<le> length cs \<Longrightarrow> slice (cs @ ds) lo hi = slice cs lo hi"
  by (simp add: slice_def)

text \<open>
  once the breaking candle is in the list, candles that arrive later never change the
  displacement verdict.
\<close>

theorem detect_displacement_no_lookahead:
  assumes "bos_ts \<in> c_timestamp ` set cs"
  shows "detect_displacement (cs @ ds) bos_ts p m = detect_displacement cs bos_ts p m"
proof -
  have "index_of_ts cs bos_ts \<noteq> None"
    using assms by (induction cs) auto
  then obtain i where i: "index_of_ts cs bos_ts = Some i" by auto
  then show ?thesis
    using index_of_ts_less [OF i] index_of_ts_append [OF i, of ds]
    by (simp add: detect_displacement_def slice_append nth_append Let_def)
qed

theorem detect_displacement_no_lookahead_witness:
  "detect_displacement (ex_bull @ [mk_candle 6 13 99 1 50]) 5 10 2 = detect_displacement ex_bull 5 10 2 \<and>
   \<not> detect_displacement ex_bull 5 10 2"
proof -
  have "5 \<in> c_timestamp ` set ex_bull" by code_simp
  moreover have "\<not> detect_displacement ex_bull 5 10 2" by code_simp
  ultimately show ?thesis using detect_displacement_no_lookahead [of 5 ex_bull] by blast
qed

end
