(* ===== verification/Structure.thy ===== *)
theory Structure
  imports Swings
begin

text \<open>
  domain/market/structure.py: the HTF trend bias, read off the most recent break of structure.
\<close>

record structure_result =
  st_bias :: trend_bias
  st_last_bos :: "bos_dir option"
  st_last_bos_ts :: "ms option"
  st_last_bos_level :: "price option"
  st_bos_count :: nat
  st_reason :: string

definition allows :: "structure_result \<Rightarrow> string \<Rightarrow> bool" where
  "allows r direction \<longleftrightarrow> bias_value (st_bias r) = direction"

definition neutral_result :: "string \<Rightarrow> structure_result" where
  "neutral_result why =
     \<lparr>st_bias = BIAS_NEUTRAL, st_last_bos = None, st_last_bos_ts = None,
      st_last_bos_level = None, st_bos_count = 0, st_reason = why\<rparr>"

definition structure_run :: "candle list \<Rightarrow> nat \<Rightarrow> structure_result" where
  "structure_run cs pivot_bars =
     (if length cs < 3
      then neutral_result (''Too few candles ('' @ show_nat (length cs) @ '')'')
      else case detect_bos_events cs pivot_bars of
             [] \<Rightarrow> neutral_result ''No BOS detected''
           | e # es \<Rightarrow>
               (case max_by fst e es of (last_ts, last_dir, last_level, _) \<Rightarrow>
                  \<lparr>st_bias = (if last_dir = BULLISH then BIAS_LONG else BIAS_SHORT),
                   st_last_bos = Some last_dir, st_last_bos_ts = Some last_ts,
                   st_last_bos_level = Some last_level, st_bos_count = Suc (length es),
                   st_reason = ''Last '' @ bos_value last_dir @ '' BOS broke '' @
                     fmt_fixed 5 last_level\<rparr>))"

definition detect :: "candle list \<Rightarrow> nat \<Rightarrow> structure_result" where
  "detect cs pivot_bars = structure_run cs pivot_bars"

definition detect_at :: "candle list \<Rightarrow> ms \<Rightarrow> nat \<Rightarrow> structure_result" where
  "detect_at cs current_ts pivot_bars =
     structure_run (filter (\<lambda>c. c_timestamp c \<le> current_ts) cs) pivot_bars"

section \<open>The bias is the direction of the last break\<close>

lemma max_by_last:
  "sorted_wrt (\<lambda>a b. f a < f b) (x # xs) \<Longrightarrow> max_by f x xs = last (x # xs)"
proof (induction xs arbitrary: x)
  case (Cons y ys)
  then show ?case using Cons.IH [of y] by simp
qed simp

text \<open>
  on chronological candles the bias is that of the last break of structure, with its time and
  level; it is neutral exactly when there are fewer than three candles or no break at all.
\<close>

theorem detect_last_break:
  assumes "sorted_wrt (<) (map c_timestamp cs)"
  shows "(st_bias (detect cs n) = BIAS_NEUTRAL \<longleftrightarrow> length cs < 3 \<or> detect_bos_events cs n = []) \<and>
    (3 \<le> length cs \<longrightarrow> detect_bos_events cs n \<noteq> [] \<longrightarrow>
      (case last (detect_bos_events cs n) of (t, d, level, swing) \<Rightarrow>
         st_bias (detect cs n) = (if d = BULLISH then BIAS_LONG else BIAS_SHORT) \<and>
         st_last_bos (detect cs n) = Some d \<and> st_last_bos_ts (detect cs n) = Some t \<and>
         st_last_bos_level (detect cs n) = Some level \<and>
         st_bos_count (detect cs n) = length (detect_bos_events cs n)))"
proof (cases "length cs < 3")
  case True
  then show ?thesis by (simp add: detect_def structure_run_def neutral_result_def)
next
  case False
  show ?thesis
  proof (cases "detect_bos_events cs n")
    case Nil
    then show ?thesis using False by (simp add: detect_def structure_run_def neutral_result_def)
  next
    case (Cons e es)
    have "sorted_wrt (<) (map fst (e # es))"
      using bos_walk_increasing [OF assms] Cons [symmetric] by (simp add: detect_bos_events_def)
    then have "max_by fst e es = last (e # es)"
      by (intro max_by_last) (simp add: sorted_wrt_map)
    then show ?thesis
      using False Cons by (auto simp: detect_def structure_run_def split: prod.split)
  qed
qed

theorem detect_last_break_witness:
  "st_bias (detect ex_bull 1) = BIAS_LONG \<and> st_last_bos_ts (detect ex_bull 1) = Some 5"
  using detect_last_break [OF ex_bull_sorted, of 1] unfolding ex_bull_events by (simp add: ex_bull_def)

text \<open>
  the analysis at a past time is the analysis of the candles known then: candles opened after
  \<open>current_ts\<close> are never read, wherever they stand in the list.
\<close>

theorem detect_at_no_lookahead:
  assumes "filter (\<lambda>c. c_timestamp c \<le> t) cs = filter (\<lambda>c. c_timestamp c \<le> t) ds"
  shows "detect_at cs t n = detect_at ds t n \<and>
    (\<forall>ts. st_last_bos_ts (detect_at cs t n) = Some ts \<longrightarrow> ts \<le> t)"
proof -
  let ?cs = "filter (\<lambda>c. c_timestamp c \<le> t) cs"
  have "ts \<le> t" if ts: "st_last_bos_ts (detect_at cs t n) = Some ts" for ts
  proof -
    have "ts \<in> fst ` set (detect_bos_events ?cs n)"
    proof (cases "detect_bos_events ?cs n")
      case Nil
      then show ?thesis
        using ts by (simp add: detect_at_def structure_run_def neutral_result_def split: if_splits)
    next
      case (Cons e es)
      then have "ts = fst (max_by fst e es)"
        using ts by (auto simp: detect_at_def structure_run_def neutral_result_def
            split: if_splits prod.splits)
      then show ?thesis using max_by_in [of fst e es] unfolding Cons by auto
    qed
    then have "ts \<in> c_timestamp ` set ?cs"
      using bos_walk_subset unfolding detect_bos_events_def by (rule rev_subsetD)
    then show ?thesis by auto
  qed
  moreover have "detect_at cs t n = detect_at ds t n"
    unfolding detect_at_def assms ..
  ultimately show ?thesis by blast
qed

theorem detect_at_no_lookahead_witness:
  "detect_at (ex_bull @ [mk_candle 6 1 2 0 1]) 5 1 = detect_at ex_bull 5 1 \<and>
   st_last_bos_ts (detect_at ex_bull 5 1) = Some 5"
proof -
  have "filter (\<lambda>c. c_timestamp c \<le> 5) (ex_bull @ [mk_candle 6 1 2 0 1]) =
    filter (\<lambda>c. c_timestamp c \<le> 5) ex_bull"
    by code_simp
  moreover have "filter (\<lambda>c. c_timestamp c \<le> 5) ex_bull = ex_bull" by code_simp
  then have "st_last_bos_ts (detect_at ex_bull 5 1) = Some 5"
    unfolding detect_at_def structure_run_def by (simp only: ex_bull_events) (simp add: ex_bull_def)
  ultimately show ?thesis using detect_at_no_lookahead by blast
qed

end
