(* ===== verification/Bisect.thy ===== *)
theory Bisect
  imports Prelude
begin

text \<open>
  The standard library's \<open>bisect_left\<close> and \<open>bisect_right\<close>, as the candle windows of the live
  service and of the backtester use them: the binary search itself, and, on a sorted list,
  the position it finds.
\<close>

function bisect_go :: "(int \<Rightarrow> bool) \<Rightarrow> int list \<Rightarrow> nat \<Rightarrow> nat \<Rightarrow> nat" where
  "bisect_go p a lo hi =
     (if lo < hi
      then let mid = (lo + hi) div 2 in
           if p (a ! mid) then bisect_go p a (mid + 1) hi else bisect_go p a lo mid
      else lo)"
  by pat_completeness auto
termination
  by (relation "measure (\<lambda>(p, a, lo, hi). hi - lo)") auto

declare bisect_go.simps [simp del]

definition bisect_left :: "int list \<Rightarrow> int \<Rightarrow> nat" where
  "bisect_left a x = bisect_go (\<lambda>y. y < x) a 0 (length a)"

definition bisect_right :: "int list \<Rightarrow> int \<Rightarrow> nat" where
  "bisect_right a x = bisect_go (\<lambda>y. \<not> x < y) a 0 (length a)"

lemma bisect_go_boundary:
  assumes "lo \<le> hi" "hi \<le> length a"
    and down: "\<And>i j. i \<le> j \<Longrightarrow> j < length a \<Longrightarrow> p (a ! j) \<Longrightarrow> p (a ! i)"
    and "\<And>i. i < lo \<Longrightarrow> p (a ! i)"
    and "\<And>i. hi \<le> i \<Longrightarrow> i < length a \<Longrightarrow> \<not> p (a ! i)"
  shows "let k = bisect_go p a lo hi in
    k \<le> length a \<and> (\<forall>i < k. p (a ! i)) \<and> (\<forall>i. k \<le> i \<and> i < length a \<longrightarrow> \<not> p (a ! i))"
  using assms
proof (induction p a lo hi rule: bisect_go.induct)
  case (1 p a lo hi)
  let ?mid = "(lo + hi) div 2"
  show ?case
  proof (cases "lo < hi")
    case False
    then have "bisect_go p a lo hi = lo" by (simp add: bisect_go.simps)
    with False "1.prems" show ?thesis by (auto simp: Let_def)
  next
    case True
    then have m: "lo \<le> ?mid" "?mid < hi" by auto
    show ?thesis
    proof (cases "p (a ! ?mid)")
      case T: True
      have "i < ?mid + 1 \<Longrightarrow> p (a ! i)" for i
        using "1.prems"(3) [of i ?mid] T m "1.prems"(2) by simp
      then show ?thesis
        using "1.IH"(1) [OF True refl T] "1.prems" m T True
        by (auto simp: bisect_go.simps [of p a lo hi])
    next
      case F: False
      have "?mid \<le> i \<Longrightarrow> i < length a \<Longrightarrow> \<not> p (a ! i)" for i
        using "1.prems"(3) [of ?mid i] F by blast
      then show ?thesis
        using "1.IH"(2) [OF True refl F] "1.prems" m F True
        by (auto simp: bisect_go.simps [of p a lo hi])
    qed
  qed
qed

lemma boundary_take_drop:
  assumes "k \<le> length a" "\<forall>i < k. p (a ! i)" "\<forall>i. k \<le> i \<and> i < length a \<longrightarrow> \<not> p (a ! i)"
  shows "filter p a = take k a" "filter (\<lambda>x. \<not> p x) a = drop k a"
proof -
  have t: "\<forall>x \<in> set (take k a). p x" and d: "\<forall>x \<in> set (drop k a). \<not> p x"
    using assms by (auto simp: in_set_conv_nth)
  have "filter p (take k a @ drop k a) = take k a"
    unfolding filter_append using t d by (simp add: filter_id_conv filter_empty_conv)
  then show "filter p a = take k a" by simp
  have "filter (\<lambda>x. \<not> p x) (take k a @ drop k a) = drop k a"
    unfolding filter_append using t d by (simp add: filter_id_conv filter_empty_conv)
  then show "filter (\<lambda>x. \<not> p x) a = drop k a" by simp
qed

lemma bisect_left_spec:
  assumes "sorted a"
  shows "bisect_left a x \<le> length a"
    "\<forall>i < bisect_left a x. a ! i < x"
    "\<forall>i. bisect_left a x \<le> i \<and> i < length a \<longrightarrow> \<not> a ! i < x"
proof -
  have down: "\<And>i j. i \<le> j \<Longrightarrow> j < length a \<Longrightarrow> a ! j < x \<Longrightarrow> a ! i < x"
    using assms by (meson order_le_less_trans sorted_nth_mono)
  show "bisect_left a x \<le> length a" "\<forall>i < bisect_left a x. a ! i < x"
    "\<forall>i. bisect_left a x \<le> i \<and> i < length a \<longrightarrow> \<not> a ! i < x"
    using bisect_go_boundary [of 0 "length a" a "\<lambda>y. y < x", OF _ _ down]
    by (simp_all add: bisect_left_def Let_def)
qed

lemma bisect_right_spec:
  assumes "sorted a"
  shows "bisect_right a x \<le> length a"
    "\<forall>i < bisect_right a x. a ! i \<le> x"
    "\<forall>i. bisect_right a x \<le> i \<and> i < length a \<longrightarrow> \<not> a ! i \<le> x"
proof -
  have down: "\<And>i j. i \<le> j \<Longrightarrow> j < length a \<Longrightarrow> \<not> x < a ! j \<Longrightarrow> \<not> x < a ! i"
    using assms sorted_nth_mono by fastforce
  show "bisect_right a x \<le> length a" "\<forall>i < bisect_right a x. a ! i \<le> x"
    "\<forall>i. bisect_right a x \<le> i \<and> i < length a \<longrightarrow> \<not> a ! i \<le> x"
    using bisect_go_boundary [of 0 "length a" a "\<lambda>y. \<not> x < y", OF _ _ down]
    by (simp_all add: bisect_right_def Let_def not_less)
qed

text \<open>The prefix up to the right boundary holds exactly the elements at or before the bound.\<close>

lemma take_bisect_right:
  assumes "sorted (map f xs)"
  shows "take (bisect_right (map f xs) x) xs = filter (\<lambda>c. f c \<le> x) xs"
proof -
  let ?k = "bisect_right (map f xs) x"
  note spec = bisect_right_spec [OF assms, of x]
  have "filter (\<lambda>c. f c \<le> x) xs = take ?k xs"
  proof (rule boundary_take_drop(1))
    show "?k \<le> length xs" using spec(1) by simp
    show "\<forall>i < ?k. f (xs ! i) \<le> x" using spec(1,2) by auto
    show "\<forall>i. ?k \<le> i \<and> i < length xs \<longrightarrow> \<not> f (xs ! i) \<le> x" using spec(3) by auto
  qed
  then show ?thesis by simp
qed

lemma drop_bisect_left:
  assumes "sorted (map f xs)"
  shows "drop (bisect_left (map f xs) x) xs = filter (\<lambda>c. x \<le> f c) xs"
proof -
  let ?k = "bisect_left (map f xs) x"
  note spec = bisect_left_spec [OF assms, of x]
  have "filter (\<lambda>c. \<not> f c < x) xs = drop ?k xs"
  proof (rule boundary_take_drop(2))
    show "?k \<le> length xs" using spec(1) by simp
    show "\<forall>i < ?k. f (xs ! i) < x" using spec(1,2) by auto
    show "\<forall>i. ?k \<le> i \<and> i < length xs \<longrightarrow> \<not> f (xs ! i) < x" using spec(3) by auto
  qed
  then show ?thesis by (simp add: not_less)
qed

lemma drop_bisect_right:
  assumes "sorted (map f xs)"
  shows "drop (bisect_right (map f xs) x) xs = filter (\<lambda>c. x < f c) xs"
proof -
  let ?k = "bisect_right (map f xs) x"
  note spec = bisect_right_spec [OF assms, of x]
  have "filter (\<lambda>c. \<not> f c \<le> x) xs = drop ?k xs"
  proof (rule boundary_take_drop(2))
    show "?k \<le> length xs" using spec(1) by simp
    show "\<forall>i < ?k. f (xs ! i) \<le> x" using spec(1,2) by auto
    show "\<forall>i. ?k \<le> i \<and> i < length xs \<longrightarrow> \<not> f (xs ! i) \<le> x" using spec(3) by auto
  qed
  then show ?thesis by (simp add: not_le)
qed

lemma slice_bisect_window:
  assumes "sorted (map f xs)"
  shows "slice (take (bisect_right (map f xs) hi) xs) (bisect_left (map f xs) lo)
           (bisect_right (map f xs) hi) = filter (\<lambda>c. lo \<le> f c \<and> f c \<le> hi) xs"
proof -
  let ?l = "bisect_left (map f xs) lo" and ?r = "bisect_right (map f xs) hi"
  have "slice (take ?r xs) ?l ?r = drop ?l (take ?r xs)"
    by (simp add: slice_def)
  also have "\<dots> = take (?r - ?l) (drop ?l xs)"
    by (simp add: drop_take)
  also have "\<dots> = filter (\<lambda>c. f c \<le> hi) (filter (\<lambda>c. lo \<le> f c) xs)"
  proof -
    have "filter (\<lambda>c. f c \<le> hi) (drop ?l xs) = take (?r - ?l) (drop ?l xs)"
    proof (rule boundary_take_drop(1))
      note R = bisect_right_spec [OF assms, of hi]
      show "?r - ?l \<le> length (drop ?l xs)" using R(1) by simp
      show "\<forall>i < ?r - ?l. f (drop ?l xs ! i) \<le> hi" using R(1,2) by (auto simp: less_diff_conv add.commute)
      show "\<forall>i. ?r - ?l \<le> i \<and> i < length (drop ?l xs) \<longrightarrow> \<not> f (drop ?l xs ! i) \<le> hi"
        using R(3) by (simp add: le_diff_conv add.commute less_diff_conv)
    qed
    then show ?thesis using drop_bisect_left [OF assms, of lo] by simp
  qed
  finally show ?thesis by (simp add: filter_filter conj_commute)
qed

end
