(* ===== verification/Service.thy ===== *)
theory Service
  imports Coordinator Effects Structure Bisect
begin

text \<open>
  app/services/signal_service.py: the analysis pipeline and the watchlist of open signals.

  The market data client is a parameter: what its three methods return may depend on how often
  the clock has been read before the call, so the feed can change over time. The listeners are
  the list of the events delivered, in order; the metrics collector is the list of the calls
  made to it (\<open>sv_metrics\<close>), present when \<open>v_has_metrics\<close>. The signal store is the one the
  session coordinator holds. Log lines are left out, except that \<open>status_line\<close> reads the clock.
  The pairs of one analysis run one after the other, and a pair is not interrupted while it
  waits for candles.
\<close>

section \<open>State\<close>

datatype metric_call =
    M_Increment string int
  | M_Gauge string real
  | M_Event signal_event json
  | M_AnalyzeStart string ms
  | M_RejectionFound string ms
  | M_SignalEmitted string string ms string
  | M_SetActive "json list"

type_synonym pair_key = "string \<times> string \<times> string"

record pending_key =
  pk_symbol :: string
  pk_htf :: string
  pk_ltf :: string
  pk_htf_ts :: ms
  pk_direction :: string

record service =
  sv_co :: coordinator
  sv_watchlist :: "(string \<times> trade_signal) list"
  sv_last_htf :: "(pair_key \<times> candle list) list"
  sv_last_ltf :: "(pair_key \<times> candle list) list"
  sv_last_ranges :: "(pair_key \<times> htf_zone list) list"
  sv_current_fired :: "(string \<times> ms) list"
  sv_pending :: "(pending_key \<times> ms) list"
  sv_events :: "(signal_event \<times> json) list"
  sv_metrics :: "metric_call list"

record svc_env =
  v_cfg :: settings
  v_clk :: clock
  v_has_metrics :: bool
  v_fetch :: "nat \<Rightarrow> string \<Rightarrow> string \<Rightarrow> int \<Rightarrow> candle list result"
  v_fetch_range :: "nat \<Rightarrow> string \<Rightarrow> string \<Rightarrow> ms \<Rightarrow> ms option \<Rightarrow> candle list result"
  v_tick :: "nat \<Rightarrow> string \<Rightarrow> (price option \<times> price option) result"

definition new_service :: "coordinator \<Rightarrow> service" where
  "new_service co =
     \<lparr>sv_co = co, sv_watchlist = [], sv_last_htf = [], sv_last_ltf = [], sv_last_ranges = [],
      sv_current_fired = [], sv_pending = [], sv_events = [], sv_metrics = []\<rparr>"

section \<open>Calls to the parts\<close>

definition now_ms :: "svc_env \<Rightarrow> (service, ms) sm" where
  "now_ms v sv = (case read_clock (v_clk v) (sv_co sv) of (t, co) \<Rightarrow> (Inr t, sv\<lparr>sv_co := co\<rparr>))"

definition status_line :: "svc_env \<Rightarrow> (service, unit) sm" where
  "status_line v = thenS (now_ms v) (returnS ())"

definition svc_stats :: "svc_env \<Rightarrow> (service, json) sm" where
  "svc_stats v sv = (case stats (v_clk v) (sv_co sv) of (j, co) \<Rightarrow> (Inr j, sv\<lparr>sv_co := co\<rparr>))"

definition call_co :: "(coordinator \<Rightarrow> 'a result \<times> coordinator) \<Rightarrow> (service, 'a) sm" where
  "call_co f sv = (case f (sv_co sv) of (r, co) \<Rightarrow> (r, sv\<lparr>sv_co := co\<rparr>))"

definition ticks :: "(service, nat) sm" where
  "ticks = readS (\<lambda>sv. co_ticks (sv_co sv))"

definition metric :: "svc_env \<Rightarrow> metric_call \<Rightarrow> (service, unit) sm" where
  "metric v m = whenS (v_has_metrics v) (modS (\<lambda>sv. sv\<lparr>sv_metrics := sv_metrics sv @ [m]\<rparr>))"

text \<open>\<open>_emit\<close>: the collector first, then every listener; both are shielded from exceptions.\<close>

definition emit :: "svc_env \<Rightarrow> signal_event \<Rightarrow> json \<Rightarrow> (service, unit) sm" where
  "emit v ev payload =
     thenS (metric v (M_Event ev payload))
       (modS (\<lambda>sv. sv\<lparr>sv_events := sv_events sv @ [(ev, payload)]\<rparr>))"

text \<open>\<open>try: self._store.upsert_open(signal, now) except: log\<close>.\<close>

definition store_upsert :: "trade_signal \<Rightarrow> ms \<Rightarrow> (service, unit) sm" where
  "store_upsert s now = modS (\<lambda>sv.
     case upsert_open s now (co_store (sv_co sv)) of
       Inl e \<Rightarrow> sv
     | Inr st \<Rightarrow> sv\<lparr>sv_co := (sv_co sv)\<lparr>co_store := st\<rparr>\<rparr>)"

definition persist_open_signals :: "svc_env \<Rightarrow> (service, unit) sm" where
  "persist_open_signals v =
     bindS (now_ms v) (\<lambda>now.
     bindS (readS (\<lambda>sv. map snd (sv_watchlist sv))) (\<lambda>sigs. forS sigs (\<lambda>s. store_upsert s now)))"

definition watch_put :: "trade_signal \<Rightarrow> (service, unit) sm" where
  "watch_put s = modS (\<lambda>sv. sv\<lparr>sv_watchlist := AList.update (s_id s) s (sv_watchlist sv)\<rparr>)"

definition watch_pop :: "string \<Rightarrow> (service, unit) sm" where
  "watch_pop i = modS (\<lambda>sv. sv\<lparr>sv_watchlist := AList.delete i (sv_watchlist sv)\<rparr>)"

definition get_active_signals :: "service \<Rightarrow> trade_signal list" where
  "get_active_signals sv = filter is_open (map snd (sv_watchlist sv))"

definition get_signal :: "string \<Rightarrow> service \<Rightarrow> trade_signal option" where
  "get_signal i sv = map_of (sv_watchlist sv) i"

definition publish_active :: "svc_env \<Rightarrow> (service \<Rightarrow> trade_signal list) \<Rightarrow> (service, unit) sm" where
  "publish_active v sel =
     whenS (v_has_metrics v)
       (bindS (readS sel) (\<lambda>sigs. bindS (liftR (mapR to_dict sigs)) (\<lambda>js. metric v (M_SetActive js))))"

section \<open>Restoring open signals\<close>

text \<open>One row: \<open>True\<close> when it was restored.\<close>

definition restore_row :: "svc_env \<Rightarrow> ms \<Rightarrow> json \<Rightarrow> (service, bool) sm" where
  "restore_row v now raw =
     bindS (liftR (from_dict raw)) (\<lambda>s.
       if \<not> is_open s then returnS False
       else if g_signal_expiry_hours (v_cfg v) * 3600000 < of_int (now - s_created_at s)
       then returnS False
       else
         thenS (watch_put s)
         (bindS (call_co (\<lambda>c. case co_register_signal (v_cfg v) (s_symbol s) (s_direction s)
                   (s_htf_range s) (s_rejection s) (s_htf_interval s) (s_ltf_interval s) c of
                   (n, c') \<Rightarrow> (Inr n, c'))) (\<lambda>n.
          thenS (watch_put (s\<lparr>s_zone_attempt := n\<rparr>)) (returnS True))))"

fun restore_rows :: "svc_env \<Rightarrow> ms \<Rightarrow> json list \<Rightarrow> (service, nat) sm" where
  "restore_rows v now [] = returnS 0"
| "restore_rows v now (raw # rows) =
     bindS (tryS (restore_row v now raw)) (\<lambda>r.
     bindS (restore_rows v now rows) (\<lambda>n.
     returnS (case r of Inr True \<Rightarrow> Suc n | _ \<Rightarrow> n)))"

definition initialize :: "svc_env \<Rightarrow> (service, unit) sm" where
  "initialize v =
     bindS (readS (\<lambda>sv. load_open_signals (co_store (sv_co sv)))) (\<lambda>rows.
     bindS (now_ms v) (\<lambda>now.
     bindS (restore_rows v now rows) (\<lambda>restored.
     whenS (0 < restored) (publish_active v (\<lambda>sv. map snd (sv_watchlist sv))))))"

section \<open>Lifecycle of an open signal\<close>

definition close_event :: "signal_status \<Rightarrow> signal_event result" where
  "close_event st =
     (case st of EXPIRED \<Rightarrow> Inr SIGNAL_EXPIRED | TP2_HIT \<Rightarrow> Inr SIGNAL_TP2_HIT
      | INVALIDATED \<Rightarrow> Inr SIGNAL_INVALIDATED | SL_HIT \<Rightarrow> Inr SIGNAL_SL_HIT | _ \<Rightarrow> Inl KeyError)"

definition update_payload ::
  "svc_env \<Rightarrow> trade_signal \<Rightarrow> signal_event \<Rightarrow> signal_status \<Rightarrow> price option \<Rightarrow> (service, json) sm" where
  "update_payload v s ev prev px =
     bindS (liftR (to_dict s)) (\<lambda>d.
     bindS (svc_stats v) (\<lambda>st.
     returnS (JObj
       [(''event'', JStr (event_value ev)), (''signalId'', JStr (s_id s)),
        (''symbol'', JStr (s_symbol s)), (''previousStatus'', JStr (status_value prev)),
        (''currentStatus'', JStr (status_value (s_status s))),
        (''outcome'', jopt (\<lambda>oc. JStr (outcome_value oc)) (s_outcome s)),
        (''realizedRR'', jopt JFloat (s_realized_rr s)), (''price'', jopt JFloat px),
        (''timestamp'', JInt (int_or (s_closed_at s) (s_created_at s))),
        (''signal'', d), (''sessionStats'', st)])))"

definition record_of_signal :: "trade_signal \<Rightarrow> signal_outcome \<Rightarrow> real \<Rightarrow> ms \<Rightarrow> closed_record" where
  "record_of_signal s oc rr closed_at =
     (mk_closed_record (s_id s) (s_symbol s) (direction_value (s_direction s)) (outcome_value oc) rr
        closed_at)
     \<lparr>cr_htf_ts := z_timestamp (s_htf_range s), cr_rej_ts := r_timestamp (s_rejection s),
      cr_entry := s_entry_price s, cr_entry_ts := int_or (s_triggered_at s) (s_created_at s),
      cr_pattern := pattern_value (r_pattern (s_rejection s)),
      cr_htf_interval := str_or (s_htf_interval s) [], cr_ltf_interval := str_or (s_ltf_interval s) [],
      cr_zone_attempt := s_zone_attempt s, cr_sl := s_stop_loss s, cr_tp1 := s_tp1 s,
      cr_tp2 := s_tp2 s, cr_rr := s_rr s, cr_wick_ratio := r_wick_ratio (s_rejection s),
      cr_htf_high := z_range_high (s_htf_range s), cr_htf_low := z_range_low (s_htf_range s),
      cr_tp_level := z_tp_level (s_htf_range s)\<rparr>"

text \<open>A missing outcome or closing time would be an \<open>AttributeError\<close>, here a \<open>TypeError\<close>.\<close>

definition close_signal :: "svc_env \<Rightarrow> trade_signal \<Rightarrow> signal_event \<Rightarrow> signal_status \<Rightarrow> (service, unit) sm" where
  "close_signal v s ev prev =
     (case s_realized_rr s of
        None \<Rightarrow> raiseS AssertionError
      | Some rr \<Rightarrow>
          thenS (watch_pop (s_id s))
          (thenS (modS (\<lambda>sv. sv\<lparr>sv_co := (sv_co sv)\<lparr>co_store := delete_open (s_id s) (co_store (sv_co sv))\<rparr>\<rparr>))
          (case (s_outcome s, s_closed_at s) of
             (Some oc, Some closed_at) \<Rightarrow>
               thenS (call_co (co_record_outcome (v_cfg v) (v_clk v) (record_of_signal s oc rr closed_at)))
               (thenS (publish_active v get_active_signals)
               (thenS (status_line v)
               (bindS (update_payload v s ev prev (s_close_price s)) (\<lambda>p. emit v ev p))))
           | _ \<Rightarrow> raiseS TypeError)))"

text \<open>
  One candle for one signal; the updated signal is returned, and is what the watchlist holds.
  First what follows the lifecycle step, whose result has already replaced the fields.
\<close>

definition apply_outcome ::
  "svc_env \<Rightarrow> trade_signal \<Rightarrow> candle \<Rightarrow> ms \<Rightarrow> step_outcome \<Rightarrow> trade_signal \<Rightarrow> (service, trade_signal) sm" where
  "apply_outcome v s c now step s' =
     thenS (watch_put s')
     (thenS (whenS (so_emit_tp1 step)
        (bindS (update_payload v s' SIGNAL_TP1_HIT (s_status s) (Some (c_close c)))
           (\<lambda>pl. emit v SIGNAL_TP1_HIT pl)))
     (let prev = (if so_emit_tp1 step then TP1_HIT else s_status s) in
      if so_terminal step
      then bindS (liftR (close_event (s_status s'))) (\<lambda>ev.
           thenS (close_signal v s' ev prev) (returnS s'))
      else thenS (whenS (so_emit_tp1 step) (store_upsert s' now)) (returnS s')))"

definition evaluate_signal :: "svc_env \<Rightarrow> trade_signal \<Rightarrow> candle \<Rightarrow> ms \<Rightarrow> (service, trade_signal) sm" where
  "evaluate_signal v s c now =
     bindS (liftR (registry_get (v_cfg v) (s_symbol s) (Some (s_htf_interval s)) (Some (s_ltf_interval s)))) (\<lambda>p.
     bindS (liftR (step_signal_state s (raw_of c) p now)) (\<lambda>(step, s'). apply_outcome v s c now step s'))"

text \<open>The candles of one signal, until it is no longer open.\<close>

fun evaluate_candles :: "svc_env \<Rightarrow> trade_signal \<Rightarrow> candle list \<Rightarrow> (service, unit) sm" where
  "evaluate_candles v s [] = returnS ()"
| "evaluate_candles v s (c # cs) =
     bindS (evaluate_signal v s c (c_timestamp c)) (\<lambda>s'.
       if is_open s' then evaluate_candles v s' cs else returnS ())"

definition min_list_of :: "int list \<Rightarrow> int" where
  "min_list_of xs = (case xs of [] \<Rightarrow> 0 | x # ys \<Rightarrow> min_by (\<lambda>n. n) x ys)"

definition fetch_and_evaluate :: "svc_env \<Rightarrow> string \<Rightarrow> ms \<Rightarrow> string \<Rightarrow> trade_signal list \<Rightarrow> (service, unit) sm" where
  "fetch_and_evaluate v symbol now ltf sigs =
     (let oldest_ts = min_list_of (map s_created_at sigs) in
      bindS (liftR (interval_to_minutes ltf)) (\<lambda>m.
      let ltf_ms = m * 60 * 1000 in
      if ltf_ms = 0 then raiseS ZeroDivisionError
      else
        let last_closed_open = (now div ltf_ms) * ltf_ms - ltf_ms;
            fetch_until = last_closed_open + ltf_ms
        in
        bindS ticks (\<lambda>n.
        bindS (tryS (liftR (v_fetch_range v n symbol ltf oldest_ts (Some fetch_until)))) (\<lambda>r.
          case r of
            Inl e \<Rightarrow> returnS ()
          | Inr candles0 \<Rightarrow>
              let candles = filter (\<lambda>c. c_timestamp c \<le> last_closed_open) candles0 in
              if length candles < 2 then returnS ()
              else forS sigs (\<lambda>s.
                evaluate_candles v s
                  (filter (\<lambda>c. int_or (s_triggered_at s) 0 < c_timestamp c) candles))))))"

text \<open>The signals grouped by LTF interval, in the order the intervals first appear.\<close>

fun group_by_ltf :: "trade_signal list \<Rightarrow> (string \<times> trade_signal list) list \<Rightarrow> (string \<times> trade_signal list) list" where
  "group_by_ltf [] g = g"
| "group_by_ltf (s # ss) g =
     group_by_ltf ss (AList.update (s_ltf_interval s)
       ((case map_of g (s_ltf_interval s) of None \<Rightarrow> [] | Some xs \<Rightarrow> xs) @ [s]) g)"

definition update_watchlist :: "svc_env \<Rightarrow> string \<Rightarrow> (service, unit) sm" where
  "update_watchlist v symbol =
     bindS (readS (\<lambda>sv. filter (\<lambda>s. s_symbol s = symbol) (map snd (sv_watchlist sv)))) (\<lambda>open_signals.
     if open_signals = [] then returnS ()
     else bindS (now_ms v) (\<lambda>now.
       forS (group_by_ltf open_signals []) (\<lambda>(ltf, sigs).
         thenS (tryS (fetch_and_evaluate v symbol now ltf sigs)) (returnS ()))))"

section \<open>Analysis of one pair\<close>

text \<open>What the zone loop reads: fixed once the candles of the pair are known.\<close>

record pair_ctx =
  pc_symbol :: string
  pc_htf :: string
  pc_ltf :: string
  pc_fired_at :: ms
  pc_pair_fired_at :: ms
  pc_ltf_ms :: int
  pc_metric :: string
  pc_profile :: asset_profile
  pc_structure :: "structure_result option"
  pc_ltf_timestamps :: "ms list"
  pc_hi :: nat
  pc_ltf_visible :: "candle list"

definition pair_key_of :: "pair_ctx \<Rightarrow> pair_key" where
  "pair_key_of x = (pc_symbol x, pc_htf x, pc_ltf x)"

definition zone_pending_key :: "pair_ctx \<Rightarrow> htf_zone \<Rightarrow> pending_key" where
  "zone_pending_key x z =
     \<lparr>pk_symbol = pc_symbol x, pk_htf = pc_htf x, pk_ltf = pc_ltf x, pk_htf_ts = z_timestamp z,
      pk_direction = direction_value (signal_dir z)\<rparr>"

definition zone_start :: "htf_zone \<Rightarrow> ms" where
  "zone_start z = num_or (z_broken_at z) (z_timestamp z)"

text \<open>\<open>SignalPendingPayload(...)\<close> of domain/entities/payloads.py, as the service fills it.\<close>

definition pending_payload :: "pair_ctx \<Rightarrow> htf_zone \<Rightarrow> json" where
  "pending_payload x z = JObj
     [(''symbol'', JStr (pc_symbol x)), (''direction'', JStr (direction_value (signal_dir z))),
      (''status'', JStr ''PENDING''),
      (''htfRange'', JObj
         [(''rangeHigh'', JFloat (z_range_high z)), (''rangeLow'', JFloat (z_range_low z)),
          (''bosDirection'', JStr (bos_value (z_bos_direction z))), (''timestamp'', JInt (z_timestamp z)),
          (''htfCandleOpen'', JInt (z_htf_candle_open z)), (''htfCandleClose'', JInt (z_htf_candle_close z)),
          (''brokenAt'', JInt (z_broken_at z)), (''tpLevel'', JFloat (z_tp_level z))]),
      (''pendingAt'', JInt (pc_pair_fired_at x)), (''htfInterval'', JStr (pc_htf x)),
      (''ltfInterval'', JStr (pc_ltf x))]"

definition announce_pending :: "svc_env \<Rightarrow> pair_ctx \<Rightarrow> htf_zone \<Rightarrow> (service, unit) sm" where
  "announce_pending v x z =
     bindS (readS (\<lambda>sv. map_of (sv_pending sv) (zone_pending_key x z))) (\<lambda>present.
       whenS (present = None)
         (thenS (modS (\<lambda>sv. sv\<lparr>sv_pending := AList.update (zone_pending_key x z) (zone_start z) (sv_pending sv)\<rparr>))
            (emit v SIGNAL_PENDING (pending_payload x z))))"

definition reason_key :: "emit_reason \<Rightarrow> string" where
  "reason_key r = str_or (lower (strip (reason_head r))) ''unknown''"

definition signal_id_of :: "pair_ctx \<Rightarrow> rejection \<Rightarrow> signal_direction \<Rightarrow> string" where
  "signal_id_of x rej d =
     pc_symbol x @ ''_'' @ pc_htf x @ ''_'' @ pc_ltf x @ ''_'' @ show_int (r_timestamp rej) @ ''_'' @
     direction_value d"

text \<open>The tick, for pricing diagnostics; a feed that fails leaves both sides unknown.\<close>

definition live_prices :: "svc_env \<Rightarrow> pair_ctx \<Rightarrow> (service, price option \<times> price option) sm" where
  "live_prices v x =
     bindS ticks (\<lambda>n.
       case v_tick v n (pc_symbol x) of
         Inr ba \<Rightarrow> returnS ba
       | Inl e \<Rightarrow>
           thenS (whenS (p_signal_price_source (pc_profile x) = ''live_bidask'')
                    (metric v (M_Increment ''signals.live_tick_unavailable'' 1)))
             (returnS (None, None)))"

text \<open>From an accepted decision to the emitted signal.\<close>

definition emit_signal ::
  "svc_env \<Rightarrow> pair_ctx \<Rightarrow> htf_zone \<Rightarrow> rejection \<Rightarrow> trade_signal \<Rightarrow> (service, trade_signal) sm" where
  "emit_signal v x z rej sig0 =
     thenS (case s_price_drift sig0 of
              None \<Rightarrow> returnS ()
            | Some dr \<Rightarrow>
                thenS (metric v (M_Gauge ''signals.last_price_drift'' dr))
                  (metric v (M_Gauge (''signals.'' @ pc_symbol x @ ''.last_price_drift'') dr)))
     (bindS (now_ms v) (\<lambda>detected_at.
     let close_at = r_timestamp rej + pc_ltf_ms x;
         emit_lag_ms = detected_at - close_at;
         sig1 = sig0\<lparr>s_setup_open_at := Some (r_timestamp rej), s_setup_close_at := Some close_at,
                     s_detected_at := Some detected_at, s_emitted_at := Some detected_at\<rparr>
     in
     thenS (metric v (M_Gauge ''latency.emit_lag_ms'' (of_int emit_lag_ms)))
     (thenS (metric v (M_Gauge ''latency.last_signal_emit_lag_ms'' (of_int emit_lag_ms)))
     (thenS (metric v (M_Gauge ''signals.last_signal_rr'' (s_rr sig1)))
     (bindS (call_co (\<lambda>c. case co_register_signal (v_cfg v) (pc_symbol x) (signal_dir z) z rej
               (pc_htf x) (pc_ltf x) c of (n, c') \<Rightarrow> (Inr n, c'))) (\<lambda>attempt.
     let sig = sig1\<lparr>s_zone_attempt := attempt\<rparr> in
     thenS (modS (\<lambda>sv. sv\<lparr>sv_pending := AList.delete (zone_pending_key x z) (sv_pending sv)\<rparr>))
     (thenS (watch_put sig)
     (thenS (store_upsert sig (pc_pair_fired_at x))
     (bindS (liftR (to_dict sig)) (\<lambda>d.
     thenS (emit v SIGNAL_TRIGGERED d)
     (thenS (whenS (v_has_metrics v)
        (bindS (readS (\<lambda>sv. case map_of (sv_current_fired sv) (pc_symbol x) of None \<Rightarrow> 0 | Some t \<Rightarrow> t)) (\<lambda>f.
         thenS (metric v (M_SignalEmitted (s_id sig) (pc_symbol x) f (pc_htf x @ ''/'' @ pc_ltf x)))
           (publish_active v get_active_signals))))
      (returnS sig))))))))))))"

text \<open>
  One zone: \<open>Some\<close> signal ends the loop, \<open>None\<close> moves on to the next zone. In three parts: what
  follows a positive answer of the coordinator, what follows a rejection found, and the whole.
\<close>

definition build_and_emit :: "svc_env \<Rightarrow> pair_ctx \<Rightarrow> htf_zone \<Rightarrow> rejection \<Rightarrow> (service, trade_signal option) sm" where
  "build_and_emit v x z rej =
     (let signal_id = signal_id_of x rej (signal_dir z) in
      bindS (readS (\<lambda>sv. map_of (sv_watchlist sv) signal_id)) (\<lambda>present.
      if present \<noteq> None
      then thenS (metric v (M_Increment ''signals.watchlist_duplicate'' 1)) (returnS None)
      else
      bindS (live_prices v x) (\<lambda>(live_bid, live_ask).
      bindS (liftR (evaluate_setup (pc_symbol x) (pc_htf x) (pc_ltf x) z rej signal_id
               (pc_profile x) (g_mt5_profile (v_cfg v)) None live_bid live_ask)) (\<lambda>dcn.
      case dec_signal dcn of
        None \<Rightarrow>
          thenS (metric v (M_Increment ''signals.decision_blocked'' 1))
          (thenS (whenS (truthy_str (dec_blocked_reason dcn))
             (metric v (M_Increment (''signals.decision_blocked.'' @ the (dec_blocked_reason dcn)) 1)))
          (returnS None))
      | Some sig \<Rightarrow>
          bindS (emit_signal v x z rej sig) (\<lambda>s. returnS (Some s))))))"

definition try_rejection :: "svc_env \<Rightarrow> pair_ctx \<Rightarrow> htf_zone \<Rightarrow> rejection \<Rightarrow> (service, trade_signal option) sm" where
  "try_rejection v x z rej =
     thenS (metric v (M_RejectionFound (pc_symbol x) (pc_fired_at x)))
     (bindS (now_ms v) (\<lambda>real_now.
     let emit_lag_ms = real_now - (r_timestamp rej + pc_ltf_ms x) in
     thenS (metric v (M_Gauge ''latency.candidate_emit_lag_ms'' (of_int emit_lag_ms)))
     (thenS (metric v (M_Gauge (''latency.'' @ pc_symbol x @ ''.'' @ pc_htf x @ ''_'' @ pc_ltf x @
               ''.candidate_emit_lag_ms'') (of_int emit_lag_ms)))
     (if g_max_emit_lag_ms (v_cfg v) < emit_lag_ms
      then thenS (metric v (M_Increment ''signals.stale_skipped'' 1))
           (thenS (metric v (M_Gauge ''signals.last_stale_lag_ms'' (of_int emit_lag_ms)))
           (thenS (metric v (M_Gauge ''signals.last_stale_rejection_open'' (of_int (r_timestamp rej))))
           (returnS None)))
      else
      bindS (call_co (co_should_emit (v_cfg v) (v_clk v) z rej (signal_dir z) (pc_symbol x)
               (pc_pair_fired_at x) (pc_htf x) (pc_ltf x))) (\<lambda>(allowed, reason).
      if \<not> allowed
      then thenS (metric v (M_Increment ''signals.dedup_blocked'' 1))
           (thenS (metric v (M_Increment (''signals.dedup_blocked.'' @ reason_key reason) 1))
           (returnS None))
      else build_and_emit v x z rej)))))"

definition zone_candles :: "pair_ctx \<Rightarrow> htf_zone \<Rightarrow> candle list" where
  "zone_candles x z =
     (let lo = bisect_left (pc_ltf_timestamps x) (zone_start z) in slice (pc_ltf_visible x) lo (pc_hi x))"

definition process_zone :: "svc_env \<Rightarrow> pair_ctx \<Rightarrow> htf_zone \<Rightarrow> (service, trade_signal option) sm" where
  "process_zone v x z =
     (let d = signal_dir z in
      if (case pc_structure x of None \<Rightarrow> False | Some st \<Rightarrow> \<not> allows st (direction_value d))
      then thenS (metric v (M_Increment ''signals.trend_blocked'' 1))
             (thenS (metric v (M_Increment (''signals.trend_blocked.'' @ lower (direction_value d)) 1))
                (returnS None))
      else
        thenS (announce_pending v x z)
        (case find_entry (zone_candles x z) d z of
           None \<Rightarrow> thenS (metric v (M_Increment ''signals.no_rejection'' 1)) (returnS None)
         | Some (rej, score) \<Rightarrow> try_rejection v x z rej))"

fun zone_walk :: "svc_env \<Rightarrow> pair_ctx \<Rightarrow> htf_zone list \<Rightarrow> (service, trade_signal list) sm" where
  "zone_walk v x [] = returnS []"
| "zone_walk v x (z # zs) =
     bindS (process_zone v x z) (\<lambda>r.
       case r of Some s \<Rightarrow> returnS [s] | None \<Rightarrow> zone_walk v x zs)"

text \<open>The structure, the zones, the displacement filter and the eviction of stale pendings.\<close>

definition scan_zones ::
  "svc_env \<Rightarrow> pair_ctx \<Rightarrow> int \<Rightarrow> candle list \<Rightarrow> candle list \<Rightarrow> (service, trade_signal list) sm" where
  "scan_zones v x htf_ms htf htf_visible =
     (let cfg = v_cfg v;
          structure = (if p_use_trend_filter (pc_profile x) then Some (detect htf PIVOT_BARS) else None)
      in
      if (case structure of None \<Rightarrow> False | Some st \<Rightarrow> st_bias st = BIAS_NEUTRAL)
      then thenS (metric v (M_Increment ''signals.trend_blocked'' 1))
           (thenS (metric v (M_Increment ''signals.trend_blocked.neutral'' 1)) (returnS []))
      else
      let ranges0 = find_htf_ranges htf PIVOT_BARS htf_ms (nat (g_max_htf_zones_per_dir cfg)) in
      bindS (if g_use_displacement_filter cfg
             then bindS (liftR (displacement_mult_for cfg (pc_htf x) (pc_ltf x))) (\<lambda>mult.
                  let ranges = filter (\<lambda>z. detect_displacement htf_visible (z_broken_at z)
                                 (nat (g_displacement_atr_period cfg)) mult) ranges0;
                      blocked = int (length ranges0) - int (length ranges)
                  in thenS (whenS (0 < blocked) (metric v (M_Increment ''filters.displacement_blocked'' blocked)))
                       (returnS ranges))
             else returnS ranges0) (\<lambda>ranges.
      thenS (metric v (M_Gauge (pc_metric x @ ''.htf_ranges'') (of_nat (length ranges))))
      (thenS (modS (\<lambda>sv. sv\<lparr>sv_last_ranges := AList.update (pair_key_of x) ranges (sv_last_ranges sv)\<rparr>))
      (let stale_cutoff = pc_pair_fired_at x - trunc (g_signal_expiry_hours cfg * 3600000) in
       thenS (modS (\<lambda>sv. sv\<lparr>sv_pending := filter (\<lambda>kv. stale_cutoff < snd kv) (sv_pending sv)\<rparr>))
       (zone_walk v (x\<lparr>pc_structure := structure\<rparr>) ranges)))))"

definition analyze_pair ::
  "svc_env \<Rightarrow> string \<Rightarrow> ms \<Rightarrow> string \<times> string \<Rightarrow> (service, trade_signal list) sm" where
  "analyze_pair v symbol fired_at pair =
     (let htf_iv = fst pair; ltf_iv = snd pair; cfg = v_cfg v;
          pair_metric = ''scanner.'' @ symbol @ ''.'' @ htf_iv @ ''_'' @ ltf_iv
      in
      bindS (liftR (registry_get cfg symbol (Some htf_iv) (Some ltf_iv))) (\<lambda>profile.
      bindS (liftR (settings_interval_to_ms htf_iv)) (\<lambda>htf_ms.
      bindS (liftR (settings_interval_to_ms ltf_iv)) (\<lambda>ltf_ms.
      bindS (liftR (entry_model_for cfg htf_iv ltf_iv)) (\<lambda>entry_model.
      if ltf_ms = 0 then raiseS ZeroDivisionError
      else if fired_at mod ltf_ms \<noteq> 0
      then thenS (metric v (M_Increment ''scanner.pair_skipped.awaiting_ltf_close'' 1))
           (thenS (metric v (M_Increment (pair_metric @ ''.skipped.awaiting_ltf_close'') 1)) (returnS []))
      else
      let pair_fired_at = (fired_at div ltf_ms) * ltf_ms - ltf_ms in
      bindS (now_ms v) (\<lambda>real_now.
      let drift_ms = ((real_now div ltf_ms) * ltf_ms - ltf_ms) - pair_fired_at in
      thenS (whenS (0 < drift_ms)
        (thenS (metric v (M_Increment ''scanner.analysis_drift_detected'' 1))
        (thenS (metric v (M_Gauge ''scanner.analysis_drift_ms'' (of_int drift_ms)))
        (metric v (M_Gauge (pair_metric @ ''.analysis_drift_ms'') (of_int drift_ms))))))
      (bindS ticks (\<lambda>n1.
      bindS (liftR (v_fetch v n1 symbol htf_iv (g_htf_outputsize cfg))) (\<lambda>htf_full.
      if length htf_full < 10
      then thenS (metric v (M_Increment ''scanner.insufficient_htf'' 1)) (returnS [])
      else
      let htf_visible = filter (\<lambda>c. c_timestamp c \<le> fired_at - htf_ms) htf_full in
      if length htf_visible < 10
      then thenS (metric v (M_Increment ''scanner.insufficient_closed_htf'' 1)) (returnS [])
      else
      let htf = last_slice htf_visible (p_htf_lookback profile) in
      thenS (modS (\<lambda>sv. sv\<lparr>sv_last_htf := AList.update (symbol, htf_iv, ltf_iv) htf (sv_last_htf sv)\<rparr>))
      (bindS (liftR (case htf of [] \<Rightarrow> Inl IndexError | c # _ \<Rightarrow> Inr (c_timestamp c))) (\<lambda>htf_start.
      bindS ticks (\<lambda>n2.
      bindS (liftR (v_fetch_range v n2 symbol ltf_iv htf_start (Some fired_at))) (\<lambda>ltf_all.
      let ltf_timestamps = map c_timestamp ltf_all;
          hi = bisect_right ltf_timestamps pair_fired_at;
          ltf_visible = take hi ltf_all
      in
      thenS (modS (\<lambda>sv. sv\<lparr>sv_last_ltf := AList.update (symbol, htf_iv, ltf_iv) ltf_visible (sv_last_ltf sv)\<rparr>))
      (if length ltf_visible < 10
       then thenS (metric v (M_Increment ''scanner.insufficient_ltf'' 1)) (returnS [])
       else
       let scan_lag_ms = real_now - (pair_fired_at + ltf_ms) in
       thenS (metric v (M_Increment ''scanner.pair_scans'' 1))
       (thenS (metric v (M_Increment (pair_metric @ ''.scans'') 1))
       (thenS (metric v (M_Gauge ''scanner.scan_lag_ms'' (of_int scan_lag_ms)))
       (thenS (metric v (M_Gauge (pair_metric @ ''.scan_lag_ms'') (of_int scan_lag_ms)))
       (thenS (metric v (M_Gauge (pair_metric @ ''.latest_visible_ltf_open'')
                 (of_int (c_timestamp (last ltf_visible)))))
       (thenS (metric v (M_Gauge (pair_metric @ ''.pair_fired_at'') (of_int pair_fired_at)))
       (scan_zones v
          \<lparr>pc_symbol = symbol, pc_htf = htf_iv, pc_ltf = ltf_iv, pc_fired_at = fired_at,
           pc_pair_fired_at = pair_fired_at, pc_ltf_ms = ltf_ms, pc_metric = pair_metric,
           pc_profile = profile, pc_structure = None, pc_ltf_timestamps = ltf_timestamps,
           pc_hi = hi, pc_ltf_visible = ltf_visible\<rparr>
          htf_ms htf htf_visible))))))))))))))))))))"

section \<open>Analysis of a symbol\<close>

fun analyze_pairs :: "svc_env \<Rightarrow> string \<Rightarrow> ms \<Rightarrow> (string \<times> string) list \<Rightarrow> (service, trade_signal list) sm" where
  "analyze_pairs v symbol fired_at [] = returnS []"
| "analyze_pairs v symbol fired_at (pr # prs) =
     bindS (tryS (analyze_pair v symbol fired_at pr)) (\<lambda>r.
     bindS (analyze_pairs v symbol fired_at prs) (\<lambda>more.
     returnS ((case r of Inl e \<Rightarrow> [] | Inr new \<Rightarrow> new) @ more)))"

definition stat_num :: "string \<Rightarrow> json \<Rightarrow> real" where
  "stat_num k j =
     (case j of
        JObj d \<Rightarrow> (case get_or d k (JInt 0) of JInt n \<Rightarrow> of_int n | JFloat r \<Rightarrow> r
                   | JArr xs \<Rightarrow> of_nat (length xs) | _ \<Rightarrow> 0)
      | _ \<Rightarrow> 0)"

text \<open>What the collector is told at the end; without a collector nothing of it happens.\<close>

definition report_analysis :: "svc_env \<Rightarrow> string \<Rightarrow> ms \<Rightarrow> (service, unit) sm" where
  "report_analysis v symbol analyze_started =
     whenS (v_has_metrics v)
       (bindS (now_ms v) (\<lambda>t.
        let duration_ms = of_int (t - analyze_started) in
        bindS (svc_stats v) (\<lambda>st.
        bindS (readS (\<lambda>sv. (length (sv_watchlist sv), length (sv_pending sv)))) (\<lambda>(nw, np).
        thenS (metric v (M_Gauge ''scanner.analysis_ms'' duration_ms))
        (thenS (metric v (M_Gauge (''scanner.'' @ symbol @ ''.analysis_ms'') duration_ms))
        (thenS (metric v (M_Gauge ''state.watchlist_open'' (of_nat nw)))
        (thenS (metric v (M_Gauge ''state.pending_zones'' (of_nat np)))
        (thenS (metric v (M_Gauge ''state.session_r'' (stat_num ''session_r'' st)))
        (thenS (metric v (M_Gauge ''state.dead_zones'' (stat_num ''dead_zones'' st)))
        (metric v (M_Gauge ''state.open_positions'' (stat_num ''open_positions'' st))))))))))))"

definition analyze_at :: "svc_env \<Rightarrow> string \<Rightarrow> ms \<Rightarrow> (service, trade_signal list) sm" where
  "analyze_at v symbol fired_at =
     bindS (now_ms v) (\<lambda>analyze_started.
     thenS (metric v (M_AnalyzeStart symbol fired_at))
     (thenS (metric v (M_Gauge (''scanner.'' @ symbol @ ''.analysis_fired_at'') (of_int fired_at)))
     (thenS (modS (\<lambda>sv. sv\<lparr>sv_current_fired := AList.update symbol fired_at (sv_current_fired sv)\<rparr>))
     (thenS (status_line v)
     (bindS (analyze_pairs v symbol fired_at (g_tf_pairs (v_cfg v))) (\<lambda>all_new.
     thenS (report_analysis v symbol analyze_started) (returnS all_new)))))))"

definition analyze :: "svc_env \<Rightarrow> string \<Rightarrow> ms \<Rightarrow> (service, trade_signal list) sm" where
  "analyze v symbol fired_at0 =
     bindS (if fired_at0 = 0 then now_ms v else returnS fired_at0) (\<lambda>fired_at. analyze_at v symbol fired_at)"

section \<open>Queries\<close>

definition get_session_stats :: "svc_env \<Rightarrow> (service, json) sm" where
  "get_session_stats v = svc_stats v"

definition armed_zone :: "pair_key \<Rightarrow> ms \<Rightarrow> htf_zone \<Rightarrow> json" where
  "armed_zone k fired_at z =
     (case k of (symbol, htf, ltf) \<Rightarrow> JObj
       [(''symbol'', JStr symbol), (''direction'', JStr (direction_value (signal_dir z))),
        (''htfInterval'', JStr htf), (''ltfInterval'', JStr ltf), (''pendingAt'', JInt fired_at),
        (''htfRange'', JObj
          [(''rangeHigh'', JFloat (z_range_high z)), (''rangeLow'', JFloat (z_range_low z)),
           (''bosDirection'', JStr (bos_value (z_bos_direction z))), (''timestamp'', JInt (z_timestamp z)),
           (''tpLevel'', JFloat (z_tp_level z)), (''brokenAt'', JInt (z_broken_at z)),
           (''htfCandleOpen'', JInt (z_htf_candle_open z)),
           (''htfCandleClose'', JInt (z_htf_candle_close z))])])"

definition get_armed_zones :: "svc_env \<Rightarrow> (service, json list) sm" where
  "get_armed_zones v =
     bindS (now_ms v) (\<lambda>fired_at.
     readS (\<lambda>sv. concat (map (\<lambda>(k, zs). map (armed_zone k fired_at) zs) (sv_last_ranges sv))))"

text \<open>The probe: the signal as it was when triggered.\<close>

definition reset_probe :: "trade_signal \<Rightarrow> trade_signal" where
  "reset_probe s =
     s\<lparr>s_status := TRIGGERED, s_tp1_hit_at := None, s_tp2_hit_at := None, s_sl_hit_at := None,
       s_outcome := None, s_realized_rr := None, s_closed_at := None, s_close_price := None,
       s_expired_at := None, s_invalidated_at := None\<rparr>"

definition simulate_lifecycle :: "settings \<Rightarrow> trade_signal \<Rightarrow> candle list \<Rightarrow> trade_signal result" where
  "simulate_lifecycle cfg probe cs =
     bindR (registry_get cfg (s_symbol probe) (Some (s_htf_interval probe)) (Some (s_ltf_interval probe))) (\<lambda>p.
     bindR (run_steps (replay_step p) (map raw_of cs) probe) (\<lambda>(t, s). Inr s))"

definition error_result :: "string \<Rightarrow> json \<Rightarrow> string \<Rightarrow> json" where
  "error_result request_id signal_dict msg =
     JObj [(''requestId'', JStr request_id), (''error'', JStr msg),
           (''signalId'', (case signal_dict of JObj d \<Rightarrow> get_or d ''id'' (JStr []) | _ \<Rightarrow> JStr [])),
           (''status'', JNull), (''outcome'', JNull), (''realizedRR'', JNull), (''tp1HitAt'', JNull),
           (''tp2HitAt'', JNull), (''slHitAt'', JNull), (''closePrice'', JNull),
           (''candlesScanned'', JInt 0)]"

definition status_result :: "string \<Rightarrow> trade_signal \<Rightarrow> trade_signal \<Rightarrow> nat \<Rightarrow> json" where
  "status_result request_id s probe n =
     JObj [(''requestId'', JStr request_id), (''signalId'', JStr (s_id s)),
           (''status'', JStr (status_value (s_status probe))),
           (''outcome'', jopt (\<lambda>oc. JStr (outcome_value oc)) (s_outcome probe)),
           (''realizedRR'', jopt JFloat (s_realized_rr probe)),
           (''tp1HitAt'', jopt JInt (s_tp1_hit_at probe)), (''tp2HitAt'', jopt JInt (s_tp2_hit_at probe)),
           (''slHitAt'', jopt JInt (s_sl_hit_at probe)), (''closePrice'', jopt JFloat (s_close_price probe)),
           (''candlesScanned'', JInt (int n))]"

text \<open>
  The status query: the text of an exception is not modelled, only that there is one. A
  lifecycle step that raises is not caught.
\<close>

definition query_signal_status :: "svc_env \<Rightarrow> json \<Rightarrow> string \<Rightarrow> (service, json) sm" where
  "query_signal_status v signal_dict request_id =
     (case from_dict signal_dict of
        Inl e \<Rightarrow> returnS (error_result request_id signal_dict ''deserialise error'')
      | Inr s \<Rightarrow>
          if s_ltf_interval s = []
          then returnS (error_result request_id signal_dict ''signal has no ltf_interval'')
          else
            let fetch_from = int_or (s_triggered_at s) (s_created_at s) in
            bindS ticks (\<lambda>n.
              case v_fetch_range v n (s_symbol s) (s_ltf_interval s) fetch_from None of
                Inl e \<Rightarrow> returnS (error_result request_id signal_dict ''candle fetch failed'')
              | Inr cs \<Rightarrow>
                  if cs = [] then returnS (error_result request_id signal_dict ''no candles returned'')
                  else bindS (liftR (simulate_lifecycle (v_cfg v) (reset_probe s)
                         (filter (\<lambda>c. fetch_from < c_timestamp c) cs)))
                       (\<lambda>probe. returnS (status_result request_id s probe (length cs)))))"

end
