(* ===== verification/Service_Laws.thy ===== *)
theory Service_Laws
  imports Service
begin

text \<open>
  Laws of the signal service: the watchlist holds open signals only, every rejection candle is
  announced at most once in any run, and the live lifecycle of a signal is the replay of its
  candles.
\<close>

section \<open>What the services of a step leave alone\<close>

text \<open>The part of the state the laws are about: watchlist, delivered events, used candles.\<close>

definition core :: "service \<Rightarrow> (string \<times> trade_signal) list \<times> (signal_event \<times> json) list \<times> rej_key set" where
  "core sv = (sv_watchlist sv, sv_events sv, ds_seen_rej (co_state (sv_co sv)))"

abbreviation same_core :: "service \<Rightarrow> service \<Rightarrow> bool" where
  "same_core sv sv' \<equiv> core sv' = core sv"

abbreviation neutral :: "(service, 'a) sm \<Rightarrow> bool" where
  "neutral m \<equiv> keeps same_core m"

lemma same_core_refl [simp]: "reflp same_core"
  by (simp add: reflp_def)

lemma same_core_trans [simp]: "transp same_core"
  by (auto simp: transp_def)

named_theorems neutral_intro \<open>neutral statements\<close>

lemma neutral_pure [neutral_intro]:
  "neutral (returnS x)" "neutral (raiseS e)" "neutral (readS g)" "neutral (liftR q)"
  by (simp_all add: keeps_pure)

lemma neutral_bind [neutral_intro]:
  "neutral m \<Longrightarrow> (\<And>x. neutral (f x)) \<Longrightarrow> neutral (bindS m f)"
  by (rule keeps_bind) simp_all

lemma neutral_when [neutral_intro]: "neutral m \<Longrightarrow> neutral (whenS b m)"
  by (simp add: keeps_when)

lemma neutral_now [neutral_intro]: "neutral (now_ms v)"
  by (simp add: keeps_def now_ms_def read_clock_def core_def)

lemma neutral_status [neutral_intro]: "neutral (status_line v)"
  unfolding status_line_def by (intro neutral_intro)

lemma neutral_stats [neutral_intro]: "neutral (svc_stats v)"
  by (simp add: keeps_def svc_stats_def stats_def read_clock_def core_def)

lemma neutral_ticks [neutral_intro]: "neutral ticks"
  unfolding ticks_def by (intro neutral_intro)

lemma neutral_metric [neutral_intro]: "neutral (metric v m)"
  unfolding metric_def by (intro neutral_intro keeps_mod) (simp add: core_def)

lemma neutral_publish [neutral_intro]: "neutral (publish_active v sel)"
  unfolding publish_active_def by (intro neutral_intro)

lemma neutral_store [neutral_intro]: "neutral (store_upsert s t)"
  unfolding store_upsert_def by (intro keeps_mod) (simp add: core_def split: sum.split)

lemma neutral_payload [neutral_intro]: "neutral (update_payload v s ev prev px)"
  unfolding update_payload_def by (intro neutral_intro)

lemma neutral_prices [neutral_intro]: "neutral (live_prices v x)"
  unfolding live_prices_def
  by (intro neutral_intro) (auto split: sum.split intro!: neutral_intro)

lemma neutral_ask [neutral_intro]:
  "neutral (call_co (co_should_emit cfg clk z r d symbol t htf ltf))"
proof -
  have "ds_seen_rej (co_state c') = ds_seen_rej (co_state c)"
    if "co_should_emit cfg clk z r d symbol t htf ltf c = (res, c')" for c res c'
  proof -
    obtain r1 c1 where ro: "maybe_rollover cfg clk t c = (r1, c1)"
      by (cases "maybe_rollover cfg clk t c")
    then show ?thesis
      using that maybe_rollover_frame [OF ro]
      by (auto simp: co_should_emit_def Let_def release_expired_frame split: sum.splits if_splits)
  qed
  then show ?thesis by (auto simp: keeps_def call_co_def core_def split: prod.split)
qed

lemma neutral_outcome [neutral_intro]:
  "neutral (call_co (co_record_outcome cfg clk rec))"
  by (auto simp: keeps_def call_co_def core_def release_direction_def
      dest!: co_record_outcome_state split: prod.split)

text \<open>A neutral statement in a triple about the core.\<close>

lemma valid_neutral:
  "neutral m \<Longrightarrow> valid (\<lambda>s. J (core s)) m (\<lambda>_ s. J (core s)) (\<lambda>s. J (core s))"
  by (rule valid_frame)

lemma valid_skip:
  assumes "neutral m" "\<And>x. valid (\<lambda>s. J (core s)) (f x) Q E" "\<And>s. J (core s) \<Longrightarrow> E s"
  shows "valid (\<lambda>s. J (core s)) (bindS m f) Q E"
proof (rule valid_bind)
  show "valid (\<lambda>s. J (core s)) m (\<lambda>_ s. J (core s)) E"
    using valid_neutral [OF assms(1), of J] assms(3)
    by (fastforce simp: valid_def split: prod.splits sum.splits)
qed (rule assms(2))

text \<open>A triple from one core at a time.\<close>

lemma valid_by_core:
  assumes "\<And>s0 w e u. P s0 \<Longrightarrow> core s0 = (w, e, u) \<Longrightarrow> valid (\<lambda>s. core s = (w, e, u)) m Q E"
  shows "valid P m Q E"
  unfolding valid_def
proof (intro allI impI)
  fix s0 assume p: "P s0"
  obtain w e u where c: "core s0 = (w, e, u)" by (cases "core s0")
  from assms [OF p c, unfolded valid_def, rule_format, OF c]
  show "case m s0 of (Inr x, s') \<Rightarrow> Q x s' | (Inl e, s') \<Rightarrow> E s'" .
qed

section \<open>The watchlist\<close>

definition watch_ok :: "(string \<times> trade_signal) list \<Rightarrow> bool" where
  "watch_ok w \<longleftrightarrow> distinct (map fst w) \<and> (\<forall>(i, s) \<in> set w. s_id s = i \<and> is_open s)"

lemma watch_ok_update: "watch_ok w \<Longrightarrow> is_open s \<Longrightarrow> watch_ok (AList.update (s_id s) s w)"
proof -
  assume w: "watch_ok w" and o: "is_open s"
  have "set (AList.update (s_id s) s w) \<subseteq> insert (s_id s, s) (set w)"
    by (induction w) auto
  then show ?thesis using w o by (auto simp: watch_ok_def distinct_update)
qed

lemma watch_ok_delete:
  assumes "watch_ok w" shows "watch_ok (AList.delete i w)"
proof -
  have "distinct (map fst (AList.delete i w))"
    using assms unfolding watch_ok_def by (intro distinct_delete) simp
  moreover have "\<forall>(j, s) \<in> set (AList.delete i w). s_id s = j \<and> is_open s"
    using assms unfolding watch_ok_def AList.delete_eq set_filter by simp
  ultimately show ?thesis unfolding watch_ok_def by simp
qed

lemma delete_update_id: "AList.delete i (AList.update i s w) = AList.delete i w"
  by (simp add: delete_update_same)

section \<open>Evaluating one candle\<close>

text \<open>A close announces one event and empties the place of the signal.\<close>

text \<open>
  Every update event of the lifecycle, as a relation on the core: the watchlist as given, the
  events extended by lifecycle updates only, the used candles unchanged.
\<close>

definition lifecycle_only ::
  "(signal_event \<times> json) list \<Rightarrow> (signal_event \<times> json) list \<Rightarrow> bool" where
  "lifecycle_only ev ev' \<longleftrightarrow>
     filter (\<lambda>e. fst e = SIGNAL_TRIGGERED) ev' = filter (\<lambda>e. fst e = SIGNAL_TRIGGERED) ev"

lemma lifecycle_only_refl [simp]: "lifecycle_only ev ev"
  by (simp add: lifecycle_only_def)

lemma valid_emit:
  assumes "\<And>w e seen. J (w, e, seen) \<Longrightarrow> K (w, e @ [(ev, payload)], seen)"
    and "\<And>s. J (core s) \<Longrightarrow> E s"
  shows "valid (\<lambda>s. J (core s)) (emit v ev payload) (\<lambda>_ s. K (core s)) E"
  unfolding emit_def
  by (rule valid_skip [OF neutral_metric])
    (use assms in \<open>auto intro!: valid_mod simp: core_def\<close>)

lemma valid_watch:
  assumes "\<And>w e seen. J (w, e, seen) \<Longrightarrow> K (AList.update (s_id s) s w, e, seen)"
  shows "valid (\<lambda>sv. J (core sv)) (watch_put s) (\<lambda>_ sv. K (core sv)) E"
  unfolding watch_put_def by (rule valid_mod) (use assms in \<open>auto simp: core_def\<close>)

lemma valid_pop:
  assumes "\<And>w e seen. J (w, e, seen) \<Longrightarrow> K (AList.delete i w, e, seen)"
  shows "valid (\<lambda>sv. J (core sv)) (watch_pop i) (\<lambda>_ sv. K (core sv)) E"
  unfolding watch_pop_def by (rule valid_mod) (use assms in \<open>auto simp: core_def\<close>)

text \<open>What holds after one candle: \<open>w0\<close>, \<open>ev0\<close>, \<open>u0\<close> are the core before it.\<close>

definition evaluated ::
  "(string \<times> trade_signal) list \<Rightarrow> (signal_event \<times> json) list \<Rightarrow> rej_key set \<Rightarrow> trade_signal \<Rightarrow>
   (string \<times> trade_signal) list \<times> (signal_event \<times> json) list \<times> rej_key set \<Rightarrow> bool" where
  "evaluated w0 ev0 u0 s' x =
     (case x of (w, ev, u) \<Rightarrow>
        w = (if is_open s' then AList.update (s_id s') s' w0 else AList.delete (s_id s') w0) \<and>
        lifecycle_only ev0 ev \<and> u = u0)"

lemma evaluated_seen: "evaluated w0 ev0 u0 s' (w, ev, u) \<Longrightarrow> u = u0"
  by (simp add: evaluated_def)

lemma evaluated_emit:
  "evaluated w0 ev0 u0 s' (w, ev, u) \<Longrightarrow> k \<noteq> SIGNAL_TRIGGERED \<Longrightarrow>
   evaluated w0 ev0 u0 s' (w, ev @ [(k, p)], u)"
  by (simp add: evaluated_def lifecycle_only_def)

lemma evaluated_trans:
  assumes "evaluated w0 ev0 u0 s1 (w1, ev1, u1)" "is_open s1"
    and "evaluated w1 ev1 u1 s2 x" "s_id s2 = s_id s1"
  shows "evaluated w0 ev0 u0 s2 x"
proof -
  obtain w ev u where x: "x = (w, ev, u)" by (cases x)
  have w1: "w1 = AList.update (s_id s2) s1 w0" using assms(1,2,4) by (simp add: evaluated_def)
  have "w = (if is_open s2 then AList.update (s_id s2) s2 w1 else AList.delete (s_id s2) w1)"
    using assms(3) by (simp add: evaluated_def x)
  also have "\<dots> = (if is_open s2 then AList.update (s_id s2) s2 w0 else AList.delete (s_id s2) w0)"
    unfolding w1 by (simp only: update_last delete_update_same)
  finally show ?thesis
    using assms(1,3) by (simp add: evaluated_def x lifecycle_only_def)
qed

lemma valid_weaken:
  assumes "valid P m Q' E'" "\<And>x s. Q' x s \<Longrightarrow> Q x s" "\<And>s. E' s \<Longrightarrow> E s"
  shows "valid P m Q E"
  using assms by (fastforce simp: valid_def split: prod.splits sum.splits)

lemma valid_closing:
  assumes "s_outcome s = Some oc" "s_realized_rr s = Some rr" "s_closed_at s = Some cat"
    and "\<not> is_open s" "k \<noteq> SIGNAL_TRIGGERED"
  shows "valid (\<lambda>sv. core sv = (AList.update (s_id s) s w0, ev0, u0)) (close_signal v s k prev)
    (\<lambda>_ sv. evaluated w0 ev0 u0 s (core sv)) (\<lambda>sv. evaluated w0 ev0 u0 s (core sv))"
proof -
  let ?J = "evaluated w0 ev0 u0 s"
  have gone: "neutral (modS (\<lambda>sv. sv\<lparr>sv_co := (sv_co sv)\<lparr>co_store := delete_open (s_id s) (co_store (sv_co sv))\<rparr>\<rparr>))"
    by (rule keeps_mod) (simp add: core_def)
  have tail: "valid (\<lambda>sv. ?J (core sv))
    (bindS (update_payload v s k prev (s_close_price s)) (\<lambda>p. emit v k p))
    (\<lambda>_ sv. ?J (core sv)) (\<lambda>sv. ?J (core sv))"
    by (rule valid_skip [OF neutral_payload])
      (use evaluated_emit assms(5) in \<open>auto intro!: valid_emit\<close>)
  have pop: "valid (\<lambda>sv. core sv = (AList.update (s_id s) s w0, ev0, u0)) (watch_pop (s_id s))
    (\<lambda>_ sv. ?J (core sv)) (\<lambda>sv. ?J (core sv))"
    by (rule valid_pop) (use assms(4) in \<open>auto simp: evaluated_def delete_update_same\<close>)
  show ?thesis
    unfolding close_signal_def assms(1-3) option.case prod.case
    by (rule valid_bind [OF pop],
        rule valid_skip [OF gone],
        rule valid_skip [OF neutral_outcome],
        rule valid_skip [OF neutral_publish],
        rule valid_skip [OF neutral_status],
        rule tail)
qed

text \<open>What one candle leaves: nothing at all, or the place of the signal updated.\<close>

definition stepped_or_not ::
  "(string \<times> trade_signal) list \<Rightarrow> (signal_event \<times> json) list \<Rightarrow> rej_key set \<Rightarrow> trade_signal \<Rightarrow>
   (string \<times> trade_signal) list \<times> (signal_event \<times> json) list \<times> rej_key set \<Rightarrow> bool" where
  "stepped_or_not w0 ev0 u0 s x \<longleftrightarrow>
     x = (w0, ev0, u0) \<or> (\<exists>s'. setup_of s' = setup_of s \<and> evaluated w0 ev0 u0 s' x)"

lemma stepped_refl [simp]: "stepped_or_not w0 ev0 u0 s (w0, ev0, u0)"
  by (simp add: stepped_or_not_def)

lemma steppedI: "setup_of s' = setup_of s \<Longrightarrow> evaluated w0 ev0 u0 s' x \<Longrightarrow> stepped_or_not w0 ev0 u0 s x"
  by (auto simp: stepped_or_not_def)

lemma terminal_step_closes:
  assumes "is_open s" "step_signal_state s c p now = Inr (so, s')" "so_terminal so"
  obtains oc rr k where "s_outcome s' = Some oc" "s_realized_rr s' = Some rr" "s_closed_at s' = Some now"
    "close_event (s_status s') = Inr k" "k \<noteq> SIGNAL_TRIGGERED" "\<not> is_open s'" "\<not> so_emit_tp1 so"
proof -
  from assms(2) obtain c' where st: "step_normalized s c' p now = (so, s')"
    by (auto simp: step_signal_state_Inr)
  from step_closed_as [OF assms(1) st assms(3)] obtain oc rr cp where
    f: "s_closed_at s' = Some now" "s_outcome s' = Some oc" "s_realized_rr s' = Some rr"
    and cl: "closed_as s p (c_close c') (s_status s') oc rr cp"
    by blast
  have "s_status s' = TP2_HIT \<or> s_status s' = SL_HIT \<or> s_status s' = EXPIRED"
    using cl by (auto simp: closed_as_def)
  then obtain k where "close_event (s_status s') = Inr k" "k \<noteq> SIGNAL_TRIGGERED"
    by (auto simp: close_event_def)
  moreover have "\<not> is_open s'" using step_terminal_iff [OF assms(1) st] assms(3) by simp
  moreover have "\<not> so_emit_tp1 so" using step_tp1_event [OF st] assms(3) by blast
  ultimately show ?thesis using f that by blast
qed

lemma skip_when_False [simp]:
  "thenS (whenS False m) n = n"
  by (simp add: fun_eq_iff bindS_def whenS_def returnS_def)

lemma bind_lift_Inr [simp]: "bindS (liftR (Inr k)) g = g k"
  by (simp add: fun_eq_iff bindS_def liftR_def)

lemma valid_apply_terminal:
  assumes "is_open s" "step_signal_state s (raw_of c) p now = Inr (so, s')" "so_terminal so"
  shows "valid (\<lambda>sv. core sv = (w0, ev0, u0)) (apply_outcome v s c now so s')
    (\<lambda>r sv. r = s' \<and> evaluated w0 ev0 u0 s' (core sv)) (\<lambda>sv. stepped_or_not w0 ev0 u0 s (core sv))"
proof -
  obtain oc rr k where f: "s_outcome s' = Some oc" "s_realized_rr s' = Some rr" "s_closed_at s' = Some now"
    and k: "close_event (s_status s') = Inr k" "k \<noteq> SIGNAL_TRIGGERED" "\<not> is_open s'" "\<not> so_emit_tp1 so"
    by (rule terminal_step_closes [OF assms]) blast
  have same: "setup_of s' = setup_of s"
    using assms(2) step_setup by (auto simp: step_signal_state_Inr)
  have put: "valid (\<lambda>sv. core sv = (w0, ev0, u0)) (watch_put s')
    (\<lambda>_ sv. core sv = (AList.update (s_id s') s' w0, ev0, u0)) (\<lambda>sv. stepped_or_not w0 ev0 u0 s (core sv))"
    by (rule valid_watch) simp
  have "valid (\<lambda>sv. core sv = (AList.update (s_id s') s' w0, ev0, u0)) (close_signal v s' k (s_status s))
    (\<lambda>_ sv. evaluated w0 ev0 u0 s' (core sv)) (\<lambda>sv. stepped_or_not w0 ev0 u0 s (core sv))"
    by (rule valid_weaken [OF valid_closing [OF f k(3,2)]]) (use same in \<open>auto intro: steppedI\<close>)
  note closes = this
  have "apply_outcome v s c now so s' =
    thenS (watch_put s') (thenS (close_signal v s' k (s_status s)) (returnS s'))"
    unfolding apply_outcome_def Let_def using assms(3) k(1,4) by simp
  then show ?thesis
    by (simp only:)
      (rule valid_bind [OF put], rule valid_bind [OF closes], auto intro!: valid_return)
qed

lemma valid_apply_open:
  assumes "is_open s" "step_signal_state s (raw_of c) p now = Inr (so, s')" "\<not> so_terminal so"
  shows "valid (\<lambda>sv. core sv = (w0, ev0, u0)) (apply_outcome v s c now so s')
    (\<lambda>r sv. r = s' \<and> evaluated w0 ev0 u0 s' (core sv)) (\<lambda>sv. stepped_or_not w0 ev0 u0 s (core sv))"
proof -
  let ?J = "evaluated w0 ev0 u0 s'" and ?E = "\<lambda>sv. stepped_or_not w0 ev0 u0 s (core sv)"
  from assms(2) obtain c' where n: "step_normalized s c' p now = (so, s')"
    by (auto simp: step_signal_state_Inr)
  have op: "is_open s'" using step_terminal_iff [OF assms(1) n] assms(3) by simp
  have e: "?E sv" if "?J (core sv)" for sv using step_setup [OF n] that by (rule steppedI)
  have put: "valid (\<lambda>sv. core sv = (w0, ev0, u0)) (watch_put s') (\<lambda>_ sv. ?J (core sv)) ?E"
    by (rule valid_watch) (use op in \<open>simp add: evaluated_def\<close>)
  have tp1: "valid (\<lambda>sv. ?J (core sv)) (whenS (so_emit_tp1 so)
     (bindS (update_payload v s' SIGNAL_TP1_HIT (s_status s) (Some (c_close c)))
      (\<lambda>pl. emit v SIGNAL_TP1_HIT pl))) (\<lambda>_ sv. ?J (core sv)) ?E"
    by (rule valid_when, rule valid_skip [OF neutral_payload])
      (use e evaluated_emit in \<open>auto intro!: valid_emit\<close>)
  have "apply_outcome v s c now so s' = thenS (watch_put s')
    (thenS (whenS (so_emit_tp1 so)
       (bindS (update_payload v s' SIGNAL_TP1_HIT (s_status s) (Some (c_close c)))
        (\<lambda>pl. emit v SIGNAL_TP1_HIT pl)))
     (thenS (whenS (so_emit_tp1 so) (store_upsert s' now)) (returnS s')))"
    unfolding apply_outcome_def Let_def using assms(3) by simp
  then show ?thesis
    by (simp only:)
      (rule valid_bind [OF put], rule valid_bind [OF tp1],
        rule valid_skip [OF neutral_when [OF neutral_store]], use e in \<open>auto intro!: valid_return\<close>)
qed

text \<open>One candle: the signal returned is the one the lifecycle step gives.\<close>

definition stepped_by :: "svc_env \<Rightarrow> trade_signal \<Rightarrow> candle \<Rightarrow> ms \<Rightarrow> trade_signal \<Rightarrow> bool" where
  "stepped_by v s c now s' \<longleftrightarrow>
     (\<exists>p so. registry_get (v_cfg v) (s_symbol s) (Some (s_htf_interval s)) (Some (s_ltf_interval s)) = Inr p \<and>
       step_signal_state s (raw_of c) p now = Inr (so, s'))"

lemma valid_evaluate_signal:
  assumes "is_open s"
  shows "valid (\<lambda>sv. core sv = (w0, ev0, u0)) (evaluate_signal v s c now)
    (\<lambda>s' sv. stepped_by v s c now s' \<and> evaluated w0 ev0 u0 s' (core sv))
    (\<lambda>sv. stepped_or_not w0 ev0 u0 s (core sv))"
  unfolding evaluate_signal_def
proof (intro valid_bind_lift)
  fix p x
  assume p: "registry_get (v_cfg v) (s_symbol s) (Some (s_htf_interval s)) (Some (s_ltf_interval s)) = Inr p"
    and st: "step_signal_state s (raw_of c) p now = Inr x"
  obtain so s' where x: "x = (so, s')" by (cases x)
  have by_step: "stepped_by v s c now s'" using p st x by (auto simp: stepped_by_def)
  have "valid (\<lambda>sv. core sv = (w0, ev0, u0)) (apply_outcome v s c now so s')
    (\<lambda>r sv. r = s' \<and> evaluated w0 ev0 u0 s' (core sv)) (\<lambda>sv. stepped_or_not w0 ev0 u0 s (core sv))"
    using valid_apply_terminal [OF assms st [unfolded x]] valid_apply_open [OF assms st [unfolded x]]
    by (cases "so_terminal so") blast+
  then show "valid (\<lambda>sv. core sv = (w0, ev0, u0))
      (case x of (step, s') \<Rightarrow> apply_outcome v s c now step s')
      (\<lambda>s' sv. stepped_by v s c now s' \<and> evaluated w0 ev0 u0 s' (core sv))
      (\<lambda>sv. stepped_or_not w0 ev0 u0 s (core sv))"
    unfolding x prod.case by (rule valid_weaken) (use by_step in auto)
qed simp_all

section \<open>Evaluating the candles of a signal\<close>

lemma stepped_by_setup: "stepped_by v s c now s' \<Longrightarrow> setup_of s' = setup_of s"
  using step_setup by (auto simp: stepped_by_def step_signal_state_Inr)

lemma stepped_or_not_trans:
  assumes "evaluated w0 ev0 u0 s1 (w1, ev1, u1)" "is_open s1" "setup_of s1 = setup_of s"
    and "stepped_or_not w1 ev1 u1 s1 x"
  shows "stepped_or_not w0 ev0 u0 s x"
  using assms(4) unfolding stepped_or_not_def
proof
  assume "x = (w1, ev1, u1)"
  then show "x = (w0, ev0, u0) \<or> (\<exists>s'. setup_of s' = setup_of s \<and> evaluated w0 ev0 u0 s' x)"
    using assms(1,3) by blast
next
  assume "\<exists>s'. setup_of s' = setup_of s1 \<and> evaluated w1 ev1 u1 s' x"
  then obtain s' where s': "setup_of s' = setup_of s1" "evaluated w1 ev1 u1 s' x" by blast
  have "evaluated w0 ev0 u0 s' x"
    using evaluated_trans [OF assms(1,2) s'(2)] setup_of_fields [OF s'(1)] by blast
  then show "x = (w0, ev0, u0) \<or> (\<exists>s'. setup_of s' = setup_of s \<and> evaluated w0 ev0 u0 s' x)"
    using s'(1) assms(3) by metis
qed

text \<open>The candles of a signal, whatever the step says about each of them.\<close>

inductive replayed :: "svc_env \<Rightarrow> trade_signal \<Rightarrow> candle list \<Rightarrow> trade_signal \<Rightarrow> bool" for v where
  all_read: "replayed v s [] s"
| closes: "stepped_by v s c (c_timestamp c) s' \<Longrightarrow> \<not> is_open s' \<Longrightarrow> replayed v s (c # cs) s'"
| goes_on: "stepped_by v s c (c_timestamp c) s' \<Longrightarrow> is_open s' \<Longrightarrow> replayed v s' cs s'' \<Longrightarrow>
    replayed v s (c # cs) s''"

lemma valid_evaluate_candles:
  assumes "is_open s"
  shows "valid (\<lambda>sv. core sv = (w0, ev0, u0)) (evaluate_candles v s cs)
    (\<lambda>_ sv. \<exists>s'. replayed v s cs s' \<and>
       (cs = [] \<and> core sv = (w0, ev0, u0) \<or> evaluated w0 ev0 u0 s' (core sv)))
    (\<lambda>sv. stepped_or_not w0 ev0 u0 s (core sv))"
  using assms
proof (induction cs arbitrary: s w0 ev0 u0)
  case Nil
  then show ?case by (auto intro!: valid_return replayed.all_read)
next
  case (Cons c cs)
  let ?Q = "\<lambda>_ sv. \<exists>s'. replayed v s (c # cs) s' \<and>
       (c # cs = [] \<and> core sv = (w0, ev0, u0) \<or> evaluated w0 ev0 u0 s' (core sv))"
  let ?E = "\<lambda>sv. stepped_or_not w0 ev0 u0 s (core sv)"
  have rest: "valid (\<lambda>sv. stepped_by v s c (c_timestamp c) s' \<and> evaluated w0 ev0 u0 s' (core sv))
     (if is_open s' then evaluate_candles v s' cs else returnS ()) ?Q ?E" for s'
  proof (cases "is_open s'")
    case True
    have step: "valid (\<lambda>sv. core sv = (w1, ev1, u1)) (evaluate_candles v s' cs) ?Q ?E"
      if st: "stepped_by v s c (c_timestamp c) s'" and one: "evaluated w0 ev0 u0 s' (w1, ev1, u1)"
      for w1 ev1 u1
    proof (rule valid_weaken [OF Cons.IH [OF True]])
      fix x sv
      assume "\<exists>s''. replayed v s' cs s'' \<and>
        (cs = [] \<and> core sv = (w1, ev1, u1) \<or> evaluated w1 ev1 u1 s'' (core sv))"
      then obtain s'' where r: "replayed v s' cs s''"
        and c: "cs = [] \<and> core sv = (w1, ev1, u1) \<or> evaluated w1 ev1 u1 s'' (core sv)" by blast
      have id: "s_id s'' = s_id s'"
        using r by (induction rule: replayed.induct)
          (auto dest!: stepped_by_setup setup_of_fields)
      have "s'' = s'" if "cs = []" using r that by (auto elim: replayed.cases)
      then have "evaluated w0 ev0 u0 s'' (core sv)"
        using c one evaluated_trans [OF one True _ id, of "core sv"] by metis
      then show "?Q x sv" using replayed.goes_on [OF st True r] by blast
    next
      fix sv assume "stepped_or_not w1 ev1 u1 s' (core sv)"
      then show "?E sv" using stepped_or_not_trans [OF one True stepped_by_setup [OF st]] by blast
    qed
    show ?thesis
      unfolding if_P [OF True]
    proof (rule valid_by_core)
      fix s0 w e u
      assume "stepped_by v s c (c_timestamp c) s' \<and> evaluated w0 ev0 u0 s' (core s0)" "core s0 = (w, e, u)"
      then show "valid (\<lambda>s. core s = (w, e, u)) (evaluate_candles v s' cs) ?Q ?E"
        using step by simp
    qed
  next
    case False
    then show ?thesis by (auto intro!: valid_return intro: replayed.closes)
  qed
  show ?case
    unfolding evaluate_candles.simps
    by (rule valid_bind [OF valid_evaluate_signal [OF Cons.prems]]) (rule rest)
qed

text \<open>With the profile found, the run is the replay of the candles.\<close>

lemma replayed_is_replay:
  assumes "replayed v s cs s'" "is_open s"
    and "registry_get (v_cfg v) (s_symbol s) (Some (s_htf_interval s)) (Some (s_ltf_interval s)) = Inr p"
  shows "replay_signal_lifecycle s (map raw_of cs) p = Inr s'"
  using assms
proof (induction rule: replayed.induct)
  case (all_read s)
  then show ?case by (simp add: replay_signal_lifecycle_def)
next
  case (closes s c s' cs)
  then obtain so where st: "step_signal_state s (raw_of c) p (c_timestamp c) = Inr (so, s')"
    by (auto simp: stepped_by_def)
  then have "so_terminal so" using closes step_signal_state_Inr step_terminal_iff by blast
  then show ?case by (simp add: replay_signal_lifecycle_def replay_step_def raw_of_def [of c] st [unfolded raw_of_def])
next
  case (goes_on s c s' cs s'')
  then obtain so where st: "step_signal_state s (raw_of c) p (c_timestamp c) = Inr (so, s')"
    by (auto simp: stepped_by_def)
  have "\<not> so_terminal so" using st goes_on step_signal_state_Inr step_terminal_iff by blast
  moreover have "replay_signal_lifecycle s' (map raw_of cs) p = Inr s''"
    using goes_on setup_of_fields [OF stepped_by_setup [OF goes_on(1)]] by auto
  ultimately show ?case
    by (simp add: replay_signal_lifecycle_def replay_step_def raw_of_def [of c] st [unfolded raw_of_def])
qed

text \<open>
  C2: the live watchlist is the replay: when the candles of an open signal have been evaluated,
  the watchlist holds under its id what the pure lifecycle replay makes of the same candles, or
  nothing once that closed it, and every other entry is untouched.
\<close>

theorem live_equals_replay:
  assumes "is_open s" "map_of (sv_watchlist sv) (s_id s) = Some s"
    and "registry_get (v_cfg v) (s_symbol s) (Some (s_htf_interval s)) (Some (s_ltf_interval s)) = Inr p"
    and "evaluate_candles v s cs sv = (Inr (), sv')"
  shows "\<exists>s'. replay_signal_lifecycle s (map raw_of cs) p = Inr s' \<and>
    map_of (sv_watchlist sv') =
      (map_of (sv_watchlist sv))(s_id s := (if is_open s' then Some s' else None))"
proof -
  obtain w0 ev0 u0 where c0: "core sv = (w0, ev0, u0)" by (cases "core sv")
  from validD(1) [OF valid_evaluate_candles [OF assms(1)] c0 assms(4)] obtain s' where
    r: "replayed v s cs s'"
    and w: "cs = [] \<and> core sv' = (w0, ev0, u0) \<or> evaluated w0 ev0 u0 s' (core sv')" by blast
  have id: "s_id s' = s_id s"
    using r by (induction rule: replayed.induct) (auto dest!: stepped_by_setup setup_of_fields)
  have "map_of (sv_watchlist sv') =
      (map_of (sv_watchlist sv))(s_id s := (if is_open s' then Some s' else None))"
    using w
  proof
    assume n: "cs = [] \<and> core sv' = (w0, ev0, u0)"
    then have "s' = s" using r by (auto elim: replayed.cases)
    then show ?thesis using n c0 assms(1,2) by (auto simp: core_def fun_upd_idem)
  next
    assume "evaluated w0 ev0 u0 s' (core sv')"
    then show ?thesis
      using c0 id by (auto simp: core_def evaluated_def AList.update_conv AList.delete_conv)
  qed
  then show ?thesis using replayed_is_replay [OF r assms(1,3)] by blast
qed

text \<open>A service whose watchlist holds the worked example, and a feed without candles.\<close>

definition ex_env :: svc_env where
  "ex_env = \<lparr>v_cfg = default_settings [], v_clk = (\<lambda>_. 43800000), v_has_metrics = False,
     v_fetch = (\<lambda>_ _ _ _. Inr []), v_fetch_range = (\<lambda>_ _ _ _ _. Inr []),
     v_tick = (\<lambda>_ _. Inr (None, None))\<rparr>"

definition ex_service :: service where
  "ex_service = (new_service ex_co)\<lparr>sv_watchlist := [(''id1'', ex_signal)]\<rparr>"

lemma ex_id: "s_id ex_signal = ''id1''" "s_id ex_after_tp1 = ''id1''"
  "s_symbol ex_signal = ''XAUUSD''" "s_htf_interval ex_signal = ''1h''" "s_ltf_interval ex_signal = ''5min''"
  by (simp_all add: ex_after_tp1_def ex_signal_def mk_signal_def)

lemma ex_metrics: "\<not> v_has_metrics ex_env"
  by (simp add: ex_env_def)

lemma update_payload_returns:
  "close_at_of s = Inr t \<Longrightarrow> \<exists>p c. update_payload v s k prev px sv = (Inr p, sv\<lparr>sv_co := c\<rparr>)"
  by (auto simp: update_payload_def bindS_def liftR_def to_dict_def svc_stats_def stats_def
      read_clock_def returnS_def)

lemma ex_evaluates:
  "\<exists>sv'. evaluate_candles ex_env ex_signal [ex_tp1_candle] ex_service = (Inr (), sv') \<and>
     sv_watchlist sv' = [(''id1'', ex_after_tp1)]"
proof -
  have o: "is_open ex_after_tp1" by (simp add: ex_after_tp1_def)
  have ca: "close_at_of ex_after_tp1 = Inr 43800000"
    by (simp add: ex_after_tp1_def close_at_of_def or_else_def ex_signal_def mk_signal_def ex_rejection_def)
  let ?sv1 = "ex_service\<lparr>sv_watchlist := [(''id1'', ex_after_tp1)]\<rparr>"
  obtain pl c where pl: "update_payload ex_env ex_after_tp1 SIGNAL_TP1_HIT (s_status ex_signal)
      (Some (c_close ex_tp1_candle)) ?sv1 = (Inr pl, ?sv1\<lparr>sv_co := c\<rparr>)"
    using update_payload_returns [OF ca] by blast
  have reg: "registry_get (v_cfg ex_env) (s_symbol ex_signal) (Some (s_htf_interval ex_signal))
      (Some (s_ltf_interval ex_signal)) = Inr ex_profile"
    unfolding ex_id ex_env_def svc_env.simps by (rule ex_profile_registry)
  have t: "c_timestamp ex_tp1_candle = 43800000" by (simp add: ex_tp1_candle_def mk_candle_def)
  have put: "watch_put ex_after_tp1 ex_service = (Inr (), ?sv1)"
    by (simp add: watch_put_def modS_def ex_id ex_service_def)
  show ?thesis
    unfolding evaluate_candles.simps evaluate_signal_def reg t ex_step_tp1 bind_lift_Inr prod.case
      apply_outcome_def Let_def
    by (simp add: bindS_def put whenS_def pl emit_def metric_def ex_metrics returnS_def modS_def
        store_upsert_def o split: sum.split)
qed

theorem live_equals_replay_witness:
  "replay_signal_lifecycle ex_signal (map raw_of [ex_tp1_candle]) ex_profile = Inr ex_after_tp1 \<and>
   (\<exists>s' sv'. evaluate_candles ex_env ex_signal [ex_tp1_candle] ex_service = (Inr (), sv') \<and>
     replay_signal_lifecycle ex_signal (map raw_of [ex_tp1_candle]) ex_profile = Inr s' \<and>
     map_of (sv_watchlist sv') ''id1'' = Some s')"
proof -
  obtain sv' where e: "evaluate_candles ex_env ex_signal [ex_tp1_candle] ex_service = (Inr (), sv')"
    "sv_watchlist sv' = [(''id1'', ex_after_tp1)]"
    using ex_evaluates by blast
  have o: "is_open ex_signal" by (simp add: ex_signal_def)
  have w: "map_of (sv_watchlist ex_service) (s_id ex_signal) = Some ex_signal"
    by (simp add: ex_service_def ex_id)
  have reg: "registry_get (v_cfg ex_env) (s_symbol ex_signal) (Some (s_htf_interval ex_signal))
      (Some (s_ltf_interval ex_signal)) = Inr ex_profile"
    unfolding ex_id ex_env_def svc_env.simps by (rule ex_profile_registry)
  from live_equals_replay [OF o w reg e(1)] obtain s' where
    s': "replay_signal_lifecycle ex_signal (map raw_of [ex_tp1_candle]) ex_profile = Inr s'"
    and m: "map_of (sv_watchlist sv') =
      (map_of (sv_watchlist ex_service))(s_id ex_signal := (if is_open s' then Some s' else None))"
    by blast
  have "s' = ex_after_tp1" using fun_cong [OF m, of "''id1''"] e(2) by (simp add: ex_id split: if_splits)
  then show ?thesis using s' e by auto
qed

section \<open>The invariant of the service\<close>

text \<open>The candle an announced signal was built on, read back from its payload.\<close>

definition rej_key_of :: "trade_signal \<Rightarrow> rej_key" where
  "rej_key_of s = snd (dedup_keys (s_symbol s) (s_htf_interval s) (s_ltf_interval s)
     (z_timestamp (s_htf_range s)) (r_timestamp (s_rejection s)) (direction_value (s_direction s)))"

definition announced_key :: "json \<Rightarrow> rej_key option" where
  "announced_key j = (case from_dict j of Inl e \<Rightarrow> None | Inr s \<Rightarrow> Some (rej_key_of s))"

definition trig_keys :: "(signal_event \<times> json) list \<Rightarrow> rej_key option list" where
  "trig_keys ev = map (\<lambda>e. announced_key (snd e)) (filter (\<lambda>e. fst e = SIGNAL_TRIGGERED) ev)"

lemma trig_keys_simps [simp]:
  "trig_keys [] = []"
  "trig_keys (ev @ [(k, p)]) = trig_keys ev @ (if k = SIGNAL_TRIGGERED then [announced_key p] else [])"
  by (simp_all add: trig_keys_def)

lemma lifecycle_only_keys: "lifecycle_only ev ev' \<Longrightarrow> trig_keys ev' = trig_keys ev"
  by (simp add: lifecycle_only_def trig_keys_def)

text \<open>
  The invariant: the watchlist holds open signals under their own ids, and the announced candles
  are distinct and all used.
\<close>

fun svc_ok :: "(string \<times> trade_signal) list \<times> (signal_event \<times> json) list \<times> rej_key set \<Rightarrow> bool" where
  "svc_ok (w, ev, u) \<longleftrightarrow> watch_ok w \<and> distinct (trig_keys ev) \<and> set (trig_keys ev) \<subseteq> Some ` u"

abbreviation keeps_ok :: "(service, 'a) sm \<Rightarrow> bool" where
  "keeps_ok m \<equiv> valid (\<lambda>sv. svc_ok (core sv)) m (\<lambda>_ sv. svc_ok (core sv)) (\<lambda>sv. svc_ok (core sv))"

named_theorems ok_intro \<open>statements that keep the invariant of the service\<close>

lemma ok_neutral: "neutral m \<Longrightarrow> keeps_ok m"
  by (rule valid_neutral)

lemma ok_pure [ok_intro]: "keeps_ok (returnS x)" "keeps_ok (raiseS e)" "keeps_ok (readS g)" "keeps_ok (liftR r)"
  by (rule ok_neutral, rule neutral_pure)+

lemma ok_bind [ok_intro]: "keeps_ok m \<Longrightarrow> (\<And>x. keeps_ok (f x)) \<Longrightarrow> keeps_ok (bindS m f)"
  by (rule valid_bind)

lemma ok_when [ok_intro]: "keeps_ok m \<Longrightarrow> keeps_ok (whenS b m)"
  by (rule valid_when)

lemma ok_try [ok_intro]: "keeps_ok m \<Longrightarrow> keeps_ok (tryS m)"
  by (rule valid_try)

lemma ok_for [ok_intro]: "(\<And>x. x \<in> set xs \<Longrightarrow> keeps_ok (f x)) \<Longrightarrow> keeps_ok (forS xs f)"
  by (rule valid_for)

lemma ok_emit [ok_intro]: "k \<noteq> SIGNAL_TRIGGERED \<Longrightarrow> keeps_ok (emit v k p)"
  by (rule valid_emit) auto

lemma ok_mod: "(\<And>sv. core (f sv) = core sv) \<Longrightarrow> keeps_ok (modS f)"
  by (rule valid_mod) simp

lemma ok_evaluated: "svc_ok (w0, ev0, u0) \<Longrightarrow> evaluated w0 ev0 u0 s x \<Longrightarrow> svc_ok x"
  by (cases x) (auto simp: evaluated_def watch_ok_update watch_ok_delete lifecycle_only_keys)

lemma ok_stepped: "svc_ok (w0, ev0, u0) \<Longrightarrow> stepped_or_not w0 ev0 u0 s x \<Longrightarrow> svc_ok x"
  using ok_evaluated unfolding stepped_or_not_def by metis

lemma ok_evaluate_candles: "is_open s \<Longrightarrow> keeps_ok (evaluate_candles v s cs)"
proof (rule valid_by_core)
  fix s0 w e u
  assume o: "is_open s" and c: "svc_ok (core s0)" "core s0 = (w, e, u)"
  then have ok: "svc_ok (w, e, u)" by simp
  show "valid (\<lambda>s. core s = (w, e, u)) (evaluate_candles v s cs) (\<lambda>_ sv. svc_ok (core sv)) (\<lambda>sv. svc_ok (core sv))"
    by (rule valid_weaken [OF valid_evaluate_candles [OF o]])
      (use ok_evaluated [OF ok, of _ "core _"] ok_stepped [OF ok, of _ "core _"] ok in
        \<open>auto simp del: svc_ok.simps split_paired_All\<close>)
qed

lemma group_by_ltf_members:
  "x \<in> set (group_by_ltf ss g) \<Longrightarrow> s \<in> set (snd x) \<Longrightarrow>
   s \<in> set ss \<or> (\<exists>y \<in> set g. s \<in> set (snd y))"
proof (induction ss arbitrary: g)
  case (Cons a ss)
  have upd: "y \<in> set (AList.update k xs g) \<Longrightarrow> y = (k, xs) \<or> y \<in> set g" for y k xs
    by (induction g) (auto split: if_splits)
  from Cons.IH [OF _ Cons.prems(2)] Cons.prems(1)
  have "s \<in> set ss \<or> (\<exists>y \<in> set (AList.update (s_ltf_interval a)
       ((case map_of g (s_ltf_interval a) of None \<Rightarrow> [] | Some xs \<Rightarrow> xs) @ [a]) g). s \<in> set (snd y))"
    by simp
  then show ?case
    using upd map_of_SomeD by (fastforce split: option.splits)
qed auto

lemma ok_fetch_and_evaluate:
  assumes "\<And>s. s \<in> set sigs \<Longrightarrow> is_open s"
  shows "keeps_ok (fetch_and_evaluate v symbol now ltf sigs)"
  unfolding fetch_and_evaluate_def Let_def
  by (intro ok_intro ok_neutral [OF neutral_ticks] valid_if)
    (auto intro!: ok_intro ok_evaluate_candles assms split: sum.split)

lemma ok_update_watchlist: "keeps_ok (update_watchlist v symbol)"
  unfolding update_watchlist_def
proof (rule valid_bind_read)
  fix sigs
  let ?P = "\<lambda>sv. svc_ok (core sv) \<and> filter (\<lambda>s. s_symbol s = symbol) (map snd (sv_watchlist sv)) = sigs"
  let ?m = "if sigs = [] then returnS ()
     else bindS (now_ms v) (\<lambda>now.
       forS (group_by_ltf sigs []) (\<lambda>(ltf, sigs).
         thenS (tryS (fetch_and_evaluate v symbol now ltf sigs)) (returnS ())))"
  show "valid ?P ?m (\<lambda>_ sv. svc_ok (core sv)) (\<lambda>sv. svc_ok (core sv))"
  proof (cases "\<forall>s \<in> set sigs. is_open s")
    case True
    have "keeps_ok ?m"
      by (intro valid_if ok_intro ok_neutral [OF neutral_now])
        (use True in \<open>auto intro!: ok_intro ok_fetch_and_evaluate dest: group_by_ltf_members\<close>)
    then show ?thesis by (rule valid_pre) simp
  next
    case False
    have "\<not> ?P sv" for sv
    proof
      assume p: "?P sv"
      have "watch_ok (sv_watchlist sv)" using conjunct1 [OF p] by (simp add: core_def)
      then have "\<forall>s \<in> set (map snd (sv_watchlist sv)). is_open s" by (auto simp: watch_ok_def)
      with p False show False by auto
    qed
    then show ?thesis unfolding valid_def by blast
  qed
qed

section \<open>The analysis keeps the invariant\<close>

lemma ok_metric [ok_intro]: "keeps_ok (metric v m)"
  by (rule ok_neutral [OF neutral_metric])

lemma ok_now [ok_intro]: "keeps_ok (now_ms v)"
  by (rule ok_neutral [OF neutral_now])

lemma ok_ticks [ok_intro]: "keeps_ok ticks"
  by (rule ok_neutral [OF neutral_ticks])

lemma ok_publish [ok_intro]: "keeps_ok (publish_active v sel)"
  by (rule ok_neutral [OF neutral_publish])

lemma ok_status [ok_intro]: "keeps_ok (status_line v)"
  by (rule ok_neutral [OF neutral_status])

lemma ok_stats [ok_intro]: "keeps_ok (svc_stats v)"
  by (rule ok_neutral [OF neutral_stats])

lemma ok_announce: "keeps_ok (announce_pending v x z)"
  unfolding announce_pending_def by (intro ok_intro ok_mod) (simp_all add: core_def)

text \<open>A positive answer of the coordinator means that the candle is fresh.\<close>

lemma co_should_emit_fresh:
  assumes "co_should_emit cfg clk z r d symbol now htf ltf c = (Inr (True, why), c')"
  shows "snd (dedup_keys symbol htf ltf (z_timestamp z) (r_timestamp r) (direction_value d))
    \<notin> ds_seen_rej (co_state c)"
proof -
  from assms obtain a c1 where ro: "maybe_rollover cfg clk now c = (Inr a, c1)"
    by (auto simp: co_should_emit_def split: prod.splits sum.splits)
  then have "ds_seen_rej (co_state (release_expired_directions now c1)) = ds_seen_rej (co_state c)"
    using maybe_rollover_frame [OF ro] by (simp add: release_expired_frame)
  then show ?thesis
    using assms ro
    by (auto simp: co_should_emit_def Let_def dedup_should_emit_iff split: if_splits sum.splits prod.splits)
qed

definition ctx_key :: "pair_ctx \<Rightarrow> htf_zone \<Rightarrow> rejection \<Rightarrow> rej_key" where
  "ctx_key x z rej = snd (dedup_keys (pc_symbol x) (pc_htf x) (pc_ltf x) (z_timestamp z)
     (r_timestamp rej) (direction_value (signal_dir z)))"

fun fresh_ok :: "rej_key \<Rightarrow> (string \<times> trade_signal) list \<times> (signal_event \<times> json) list \<times> rej_key set \<Rightarrow> bool" where
  "fresh_ok k (w, ev, u) \<longleftrightarrow> svc_ok (w, ev, u) \<and> k \<notin> u"

fun used_ok :: "rej_key \<Rightarrow> (string \<times> trade_signal) list \<times> (signal_event \<times> json) list \<times> rej_key set \<Rightarrow> bool" where
  "used_ok k (w, ev, u) \<longleftrightarrow> svc_ok (w, ev, u) \<and> k \<in> u \<and> Some k \<notin> set (trig_keys ev)"

lemma fresh_ok_ok: "fresh_ok k c \<Longrightarrow> svc_ok c" by (cases c) simp
lemma used_ok_ok: "used_ok k c \<Longrightarrow> svc_ok c" by (cases c) simp

lemma valid_ask:
  "valid (\<lambda>sv. svc_ok (core sv))
     (call_co (co_should_emit cfg clk z rej (signal_dir z) (pc_symbol x) t (pc_htf x) (pc_ltf x)))
     (\<lambda>(allowed, why) sv. svc_ok (core sv) \<and> (allowed \<longrightarrow> fresh_ok (ctx_key x z rej) (core sv)))
     (\<lambda>sv. svc_ok (core sv))"
  unfolding valid_def
proof (intro allI impI)
  fix sv
  assume ok: "svc_ok (core sv)"
  let ?ask = "co_should_emit cfg clk z rej (signal_dir z) (pc_symbol x) t (pc_htf x) (pc_ltf x)"
  obtain r sv' where m: "call_co ?ask sv = (r, sv')" by (cases "call_co ?ask sv")
  have c: "core sv' = core sv" using keepsD [OF neutral_ask m] .
  have "ctx_key x z rej \<notin> ds_seen_rej (co_state (sv_co sv))" if "r = Inr (True, why)" for why
    using m that co_should_emit_fresh unfolding ctx_key_def
    by (auto simp: call_co_def split: prod.splits)
  then show "case call_co ?ask sv of
      (Inr y, s') \<Rightarrow> (case y of (allowed, why) \<Rightarrow> \<lambda>sv. svc_ok (core sv) \<and>
        (allowed \<longrightarrow> fresh_ok (ctx_key x z rej) (core sv))) s'
    | (Inl e, s') \<Rightarrow> svc_ok (core s')"
    unfolding m using ok by (auto simp: c split: sum.split) (auto simp: core_def)
qed

lemma valid_register:
  "valid (\<lambda>sv. fresh_ok (ctx_key x z rej) (core sv))
     (call_co (\<lambda>c. case co_register_signal cfg (pc_symbol x) (signal_dir z) z rej (pc_htf x) (pc_ltf x) c of
        (n, c') \<Rightarrow> (Inr n, c')))
     (\<lambda>_ sv. used_ok (ctx_key x z rej) (core sv)) E"
proof -
  have u: "ds_seen_rej (co_state c') = insert (ctx_key x z rej) (ds_seen_rej (co_state c))"
    if "co_register_signal cfg (pc_symbol x) (signal_dir z) z rej (pc_htf x) (pc_ltf x) c = (n, c')" for c n c'
  proof -
    have "co_state c' = snd (dedup_register (pc_symbol x) (signal_dir z) z rej (pc_htf x) (pc_ltf x)
        (g_multi_tf_independent_positions cfg) (g_max_signal_count_per_zone cfg) (co_state c))"
      using that by (auto simp: co_register_signal_def split: prod.splits)
    then show ?thesis by (simp add: dedup_register_simps(2) ctx_key_def)
  qed
  show ?thesis
    by (auto simp: valid_def call_co_def core_def u split: prod.split)
qed

text \<open>A signal as the builder leaves it, before the service completes it.\<close>

definition built_for :: "pair_ctx \<Rightarrow> htf_zone \<Rightarrow> rejection \<Rightarrow> trade_signal \<Rightarrow> bool" where
  "built_for x z rej s \<longleftrightarrow> is_open s \<and> rej_key_of s = ctx_key x z rej \<and> s_chart_data s = None \<and>
     s_rejection s = rej \<and> s_htf_range s = z \<and> s_ltf_interval s = pc_ltf x"

lemma build_signal_is_mk:
  assumes "build_signal symbol htf ltf z rej i p b lb la = Inr (Some s)"
  obtains e sl t1 t2 rr risk iv where "s = mk_signal i symbol htf ltf b z rej e sl t1 t2 rr risk iv lb la"
proof (cases "gates_ok p z rej (entry_of p (signal_dir z) lb la rej) (stop_of p (signal_dir z) rej)")
  case True
  show ?thesis
    using assms that unfolding build_signal_eq if_P [OF True] bindR_Inr_iff by blast
next
  case False
  show ?thesis using assms unfolding build_signal_eq if_not_P [OF False] by simp
qed

lemma built_signal:
  assumes "evaluate_setup (pc_symbol x) (pc_htf x) (pc_ltf x) z rej i p b None lb la = Inr dcn"
    and "dec_signal dcn = Some s"
  shows "built_for x z rej s"
proof -
  have "build_signal (pc_symbol x) (pc_htf x) (pc_ltf x) z rej i p b lb la = Inr (Some s)"
  proof (cases "build_signal (pc_symbol x) (pc_htf x) (pc_ltf x) z rej i p b lb la")
    case (Inl e)
    then show ?thesis using assms(1) by (simp add: evaluate_setup_def truthy_str_def)
  next
    case (Inr r)
    then show ?thesis
      using assms(1) assms(2) by (cases r) (simp_all add: evaluate_setup_def truthy_str_def, auto)
  qed
  then obtain e sl t1 t2 rr risk iv where
    s: "s = mk_signal i (pc_symbol x) (pc_htf x) (pc_ltf x) b z rej e sl t1 t2 rr risk iv lb la"
    by (rule build_signal_is_mk)
  have "s_chart_data s = None" "s_htf_interval s = pc_htf x" "s_ltf_interval s = pc_ltf x"
    unfolding s by (simp_all add: mk_signal_def Let_def)
  then show ?thesis
    by (simp add: built_for_def rej_key_of_def ctx_key_def s)
qed

lemma announced_key_to_dict:
  assumes "to_dict s = Inr d" "s_chart_data s = None"
  shows "announced_key d = Some (rej_key_of s)"
proof -
  from assms(1) obtain t where "close_at_of s = Inr t" "d = JObj (signal_entries s t)"
    by (auto simp: to_dict_def bindR_Inr_iff)
  then have "from_dict d = Inr (wire_normal s t)" using from_to_dict assms(2) by auto
  then show ?thesis by (simp add: announced_key_def rej_key_of_def wire_normal_def)
qed

lemma emit_trigger:
  assumes "announced_key d = Some k"
  shows "valid (\<lambda>sv. used_ok k (core sv)) (emit v SIGNAL_TRIGGERED d)
    (\<lambda>_ sv. svc_ok (core sv)) (\<lambda>sv. svc_ok (core sv))"
proof (rule valid_emit)
  fix w e u
  assume "used_ok k (w, e, u)"
  then show "svc_ok (w, e @ [(SIGNAL_TRIGGERED, d)], u)"
    using assms by auto
qed (rule used_ok_ok)

lemma used_watch:
  "is_open s \<Longrightarrow> valid (\<lambda>sv. used_ok k (core sv)) (watch_put s) (\<lambda>_ sv. used_ok k (core sv)) E"
  by (rule valid_watch) (auto simp: watch_ok_update)

lemma neutral_mod: "(\<And>sv. core (f sv) = core sv) \<Longrightarrow> neutral (modS f)"
  by (rule keeps_mod)

lemma ok_emit_signal:
  assumes "built_for x z rej s0"
  shows "valid (\<lambda>sv. fresh_ok (ctx_key x z rej) (core sv)) (emit_signal v x z rej s0)
    (\<lambda>_ sv. svc_ok (core sv)) (\<lambda>sv. svc_ok (core sv))"
  unfolding emit_signal_def Let_def
proof (rule valid_skip, goal_cases)
  case 1
  show ?case by (cases "s_price_drift s0") (auto intro!: neutral_intro)
next
  case (2 _)
  show ?case
  proof (rule valid_skip [OF neutral_now], goal_cases)
    case (1 now)
    show ?case
    proof (rule valid_skip [OF neutral_metric], rule valid_skip [OF neutral_metric],
        rule valid_skip [OF neutral_metric], rule valid_bind [OF valid_register], goal_cases)
      case (1 _ _ _ n)
      let ?s = "s0\<lparr>s_setup_open_at := Some (r_timestamp rej),
        s_setup_close_at := Some (r_timestamp rej + pc_ltf_ms x), s_detected_at := Some now,
        s_emitted_at := Some now, s_zone_attempt := n\<rparr>"
      have op: "is_open ?s" and cd: "s_chart_data ?s = None" and k: "rej_key_of ?s = ctx_key x z rej"
        using assms by (auto simp: built_for_def rej_key_of_def)
      show ?case
        by (rule valid_skip [OF neutral_mod], simp add: core_def,
            rule valid_bind [OF used_watch],
            use op in simp,
            rule valid_skip [OF neutral_store],
            rule valid_bind_lift,
            rule valid_bind [OF emit_trigger],
            use announced_key_to_dict [OF _ cd] k in simp)
          (auto intro!: ok_intro used_ok_ok)
    qed (auto intro: fresh_ok_ok)
  qed (auto intro: fresh_ok_ok)
qed (rule fresh_ok_ok)

lemma fresh_skip:
  assumes "neutral m" "\<And>y. valid (\<lambda>sv. fresh_ok k (core sv)) (f y) Q (\<lambda>sv. svc_ok (core sv))"
  shows "valid (\<lambda>sv. fresh_ok k (core sv)) (bindS m f) Q (\<lambda>sv. svc_ok (core sv))"
  by (rule valid_skip [OF assms]) (rule fresh_ok_ok)

lemma ok_fresh:
  assumes "keeps_ok m"
  shows "valid (\<lambda>sv. fresh_ok k (core sv)) m (\<lambda>_ sv. svc_ok (core sv)) (\<lambda>sv. svc_ok (core sv))"
  by (rule valid_pre [OF assms]) (rule fresh_ok_ok)

lemma ok_build_and_emit:
  "valid (\<lambda>sv. fresh_ok (ctx_key x z rej) (core sv)) (build_and_emit v x z rej)
     (\<lambda>_ sv. svc_ok (core sv)) (\<lambda>sv. svc_ok (core sv))"
  unfolding build_and_emit_def Let_def
proof (rule fresh_skip [OF neutral_pure(3)], rule valid_if, rule ok_fresh, intro ok_intro,
    rule fresh_skip [OF neutral_prices], rule valid_prod, rule valid_bind_lift)
  fix present y la lb dcn
  assume "evaluate_setup (pc_symbol x) (pc_htf x) (pc_ltf x) z rej (signal_id_of x rej (signal_dir z))
    (pc_profile x) (g_mt5_profile (v_cfg v)) None lb la = Inr dcn"
  note built = built_signal [OF this]
  show "valid (\<lambda>sv. fresh_ok (ctx_key x z rej) (core sv)) (case dec_signal dcn of
        None \<Rightarrow>
          thenS (metric v (M_Increment ''signals.decision_blocked'' 1))
          (thenS (whenS (truthy_str (dec_blocked_reason dcn))
             (metric v (M_Increment (''signals.decision_blocked.'' @ the (dec_blocked_reason dcn)) 1)))
          (returnS None))
      | Some sig \<Rightarrow> bindS (emit_signal v x z rej sig) (\<lambda>s. returnS (Some s)))
     (\<lambda>_ sv. svc_ok (core sv)) (\<lambda>sv. svc_ok (core sv))"
  proof (cases "dec_signal dcn")
    case None
    show ?thesis unfolding None option.case by (rule ok_fresh) (intro ok_intro)
  next
    case (Some s)
    show ?thesis
      unfolding Some option.case
      by (rule valid_bind [OF ok_emit_signal [OF built [OF Some]]]) (rule ok_pure)
  qed
qed (rule fresh_ok_ok)

lemma ok_ask_then:
  assumes "\<And>reason. keeps_ok (refuse reason)"
    and "valid (\<lambda>sv. fresh_ok (ctx_key x z rej) (core sv)) accept (\<lambda>_ sv. svc_ok (core sv)) (\<lambda>sv. svc_ok (core sv))"
  shows "keeps_ok (bindS
     (call_co (co_should_emit cfg clk z rej (signal_dir z) (pc_symbol x) t (pc_htf x) (pc_ltf x)))
     (\<lambda>(allowed, reason). if \<not> allowed then refuse reason else accept))"
proof (rule valid_bind [OF valid_ask], rule valid_prod, simp only: prod.case, rule valid_if)
  fix y allowed reason
  show "valid (\<lambda>sv. svc_ok (core sv) \<and> (allowed \<longrightarrow> fresh_ok (ctx_key x z rej) (core sv)))
    (refuse reason) (\<lambda>_ sv. svc_ok (core sv)) (\<lambda>sv. svc_ok (core sv))"
    by (rule valid_pre [OF assms(1)]) simp
next
  fix y allowed reason
  assume "\<not> \<not> allowed"
  then show "valid (\<lambda>sv. svc_ok (core sv) \<and> (allowed \<longrightarrow> fresh_ok (ctx_key x z rej) (core sv)))
    accept (\<lambda>_ sv. svc_ok (core sv)) (\<lambda>sv. svc_ok (core sv))"
    by (intro valid_pre [OF assms(2)]) simp
qed

lemma ok_try_rejection: "keeps_ok (try_rejection v x z rej)"
  unfolding try_rejection_def Let_def
  by (rule ok_bind [OF ok_metric], rule ok_bind [OF ok_now], rule ok_bind [OF ok_metric],
      rule ok_bind [OF ok_metric], rule valid_if, intro ok_intro,
      rule ok_ask_then [OF _ ok_build_and_emit], intro ok_intro)

lemma ok_process_zone: "keeps_ok (process_zone v x z)"
  unfolding process_zone_def Let_def
  by (intro valid_if ok_bind ok_pure ok_metric ok_announce)
    (auto intro!: ok_intro ok_try_rejection split: option.split)

lemma ok_zone_walk: "keeps_ok (zone_walk v x zs)"
proof (induction zs)
  case (Cons z zs)
  show ?case
    unfolding zone_walk.simps
    by (rule ok_bind [OF ok_process_zone]) (auto intro!: ok_intro Cons split: option.split)
qed (simp add: ok_intro)

lemma ok_scan_zones: "keeps_ok (scan_zones v x htf_ms htf vis)"
  unfolding scan_zones_def Let_def
  by (intro valid_if ok_intro ok_zone_walk ok_mod) (simp_all add: core_def)

lemma ok_analyze_pair: "keeps_ok (analyze_pair v symbol fired_at pr)"
  unfolding analyze_pair_def Let_def
  by (intro valid_if ok_intro ok_scan_zones ok_mod) (simp_all add: core_def)

lemma ok_analyze_pairs: "keeps_ok (analyze_pairs v symbol fired_at prs)"
proof (induction prs)
  case (Cons pr prs)
  show ?case unfolding analyze_pairs.simps by (intro ok_intro ok_analyze_pair Cons)
qed (simp add: ok_intro)

lemma ok_analyze: "keeps_ok (analyze v symbol fired_at)"
  unfolding analyze_def analyze_at_def report_analysis_def Let_def
  by (intro valid_if ok_intro ok_analyze_pairs ok_mod valid_prod) (simp_all add: core_def)

lemma ok_restore_row: "keeps_ok (restore_row v now raw)"
proof -
  have register: "keeps_ok (call_co (\<lambda>c. case co_register_signal cfg sy d z r htf ltf c of (n, c') \<Rightarrow> (Inr n, c')))"
    for cfg sy d z r htf ltf
  proof -
    have "ds_seen_rej (co_state c) \<subseteq> ds_seen_rej (co_state c')"
      if "co_register_signal cfg sy d z r htf ltf c = (n, c')" for c n c'
    proof -
      have "co_state c' = snd (dedup_register sy d z r htf ltf
        (g_multi_tf_independent_positions cfg) (g_max_signal_count_per_zone cfg) (co_state c))"
        using that by (auto simp: co_register_signal_def split: prod.splits)
      then show ?thesis by (auto simp: dedup_register_simps(2))
    qed
    then show ?thesis
      by (fastforce simp: valid_def call_co_def core_def split: prod.split)
  qed
  have put: "keeps_ok (watch_put s)" if "is_open s" for s
    by (rule valid_watch) (use that in \<open>auto simp: watch_ok_update\<close>)
  show ?thesis
    unfolding restore_row_def
  proof (rule valid_bind_lift, rule valid_if, rule ok_pure, rule valid_if, rule ok_pure)
    fix s :: trade_signal
    assume o: "\<not> \<not> is_open s"
    show "keeps_ok (thenS (watch_put s)
         (bindS (call_co (\<lambda>c. case co_register_signal (v_cfg v) (s_symbol s) (s_direction s)
                   (s_htf_range s) (s_rejection s) (s_htf_interval s) (s_ltf_interval s) c of
                   (n, c') \<Rightarrow> (Inr n, c'))) (\<lambda>n.
          thenS (watch_put (s\<lparr>s_zone_attempt := n\<rparr>)) (returnS True))))"
      by (rule ok_bind [OF put], use o in simp, rule ok_bind [OF register], rule ok_bind [OF put],
          use o in simp, rule ok_pure)
  qed
qed

lemma ok_restore_rows: "keeps_ok (restore_rows v now rows)"
proof (induction rows)
  case (Cons raw rows)
  show ?case unfolding restore_rows.simps by (intro ok_intro ok_restore_row Cons)
qed (simp add: ok_intro)

lemma ok_initialize: "keeps_ok (initialize v)"
  unfolding initialize_def by (intro ok_intro ok_restore_rows)

section \<open>Runs of the service\<close>

text \<open>
  The calls the rest of the program makes, in any order: the state is what a call leaves,
  whether it returned or raised.
\<close>

inductive svc_step :: "svc_env \<Rightarrow> service \<Rightarrow> service \<Rightarrow> bool" for v where
  initialize: "svc_step v sv (snd (initialize v sv))"
| analyze: "svc_step v sv (snd (analyze v symbol fired_at sv))"
| update: "svc_step v sv (snd (update_watchlist v symbol sv))"
| armed: "svc_step v sv (snd (get_armed_zones v sv))"
| query: "svc_step v sv (snd (query_signal_status v d request_id sv))"

inductive_cases svc_stepE: "svc_step v sv sv'"

lemma keeps_okD: "keeps_ok m \<Longrightarrow> svc_ok (core sv) \<Longrightarrow> svc_ok (core (snd (m sv)))"
  unfolding valid_def by (cases "m sv"; cases "fst (m sv)") force+

lemma ok_query: "keeps_ok (query_signal_status v d request_id)"
proof (cases "from_dict d")
  case (Inr s)
  show ?thesis
    unfolding query_signal_status_def Inr sum.case Let_def
    by (intro valid_if ok_intro) (auto intro!: ok_intro split: sum.split)
qed (simp add: query_signal_status_def ok_intro)

lemma svc_step_ok: "svc_step v sv sv' \<Longrightarrow> svc_ok (core sv) \<Longrightarrow> svc_ok (core sv')"
  by (erule svc_stepE)
    (simp_all only: keeps_okD ok_initialize ok_analyze ok_update_watchlist ok_query
      keeps_okD [OF ok_bind [OF ok_now ok_pure(3)]] get_armed_zones_def)

lemma svc_run_ok: "(svc_step v)\<^sup>*\<^sup>* sv sv' \<Longrightarrow> svc_ok (core sv) \<Longrightarrow> svc_ok (core sv')"
  by (induction rule: rtranclp_induct) (auto dest: svc_step_ok simp del: svc_ok.simps)

lemma new_service_ok: "svc_ok (core (new_service co))"
  by (simp add: core_def new_service_def watch_ok_def)

text \<open>
  C1: in any run of a new service, whatever the market data and the clock do and whether or not
  calls fail halfway, no rejection candle is announced twice: the candles of the
  SIGNAL_TRIGGERED payloads, read back from the payloads, are all different.
\<close>

theorem triggered_at_most_once:
  assumes "(svc_step v)\<^sup>*\<^sup>* (new_service co) sv"
  shows "distinct (map (\<lambda>e. announced_key (snd e)) (filter (\<lambda>e. fst e = SIGNAL_TRIGGERED) (sv_events sv))) \<and>
    (\<forall>e \<in> set (sv_events sv). fst e = SIGNAL_TRIGGERED \<longrightarrow>
       (\<exists>k \<in> ds_seen_rej (co_state (sv_co sv)). announced_key (snd e) = Some k))"
  using svc_run_ok [OF assms new_service_ok]
  by (auto simp: core_def trig_keys_def)

text \<open>
  C3: in any run of a new service the watchlist holds open signals only, each under its own id,
  no id twice.
\<close>

theorem watchlist_open_only:
  assumes "(svc_step v)\<^sup>*\<^sup>* (new_service co) sv"
  shows "distinct (map fst (sv_watchlist sv)) \<and>
    (\<forall>(i, s) \<in> set (sv_watchlist sv). s_id s = i \<and> is_open s) \<and>
    get_active_signals sv = map snd (sv_watchlist sv)"
proof -
  have "watch_ok (sv_watchlist sv)"
    using svc_run_ok [OF assms new_service_ok] by (simp add: core_def)
  moreover from this have "filter is_open (map snd (sv_watchlist sv)) = map snd (sv_watchlist sv)"
    by (intro filter_True) (auto simp: watch_ok_def)
  ultimately show ?thesis by (simp add: watch_ok_def get_active_signals_def)
qed

end
