(* ===== verification/Service_Causality.thy ===== *)
theory Service_Causality
  imports Service_Laws
begin

text \<open>
  What an analysis returns rests on the past: the candles of a zone are the ones between its
  break and the newest closed candle, and the rejection of every returned signal is one of them.
\<close>

section \<open>No lookahead\<close>

text \<open>The feed returns candles in the order of their times.\<close>

definition chronological :: "svc_env \<Rightarrow> bool" where
  "chronological v \<longleftrightarrow> (\<forall>n symbol iv t0 t1 cs.
     v_fetch_range v n symbol iv t0 t1 = Inr cs \<longrightarrow> sorted (map c_timestamp cs))"

definition on_setup :: "htf_zone \<Rightarrow> rejection \<Rightarrow> string \<Rightarrow> trade_signal \<Rightarrow> bool" where
  "on_setup z rej ltf s \<longleftrightarrow> s_rejection s = rej \<and> s_htf_range s = z \<and> s_ltf_interval s = ltf"

lemma emit_signal_yields: "on_setup z' rej' ltf s0 \<Longrightarrow> yields (on_setup z' rej' ltf) (emit_signal v x z rej s0)"
  unfolding emit_signal_def Let_def
  by (intro yields_last yields_return) (simp add: on_setup_def)

lemma build_and_emit_yields:
  "yields (\<lambda>r. \<forall>s. r = Some s \<longrightarrow> on_setup z rej (pc_ltf x) s) (build_and_emit v x z rej)"
  unfolding build_and_emit_def Let_def
proof (rule yields_last, rule valid_if, intro yields_last yields_return, simp,
    rule yields_last, rule valid_prod, rule valid_bind_lift)
  fix y la lb dcn
  assume "evaluate_setup (pc_symbol x) (pc_htf x) (pc_ltf x) z rej (signal_id_of x rej (signal_dir z))
    (pc_profile x) (g_mt5_profile (v_cfg v)) None la lb = Inr dcn"
  note built = built_signal [OF this]
  show "yields (\<lambda>r. \<forall>s. r = Some s \<longrightarrow> on_setup z rej (pc_ltf x) s) (case dec_signal dcn of
        None \<Rightarrow>
          thenS (metric v (M_Increment ''signals.decision_blocked'' 1))
          (thenS (whenS (truthy_str (dec_blocked_reason dcn))
             (metric v (M_Increment (''signals.decision_blocked.'' @ the (dec_blocked_reason dcn)) 1)))
          (returnS None))
      | Some sig \<Rightarrow> bindS (emit_signal v x z rej sig) (\<lambda>s. returnS (Some s)))"
  proof (cases "dec_signal dcn")
    case None
    show ?thesis unfolding None option.case by (intro yields_last yields_return) simp
  next
    case (Some s)
    have "on_setup z rej (pc_ltf x) s" using built [OF Some] by (simp add: built_for_def on_setup_def)
    then show ?thesis
      unfolding Some option.case
      by (rule yields_bind [OF emit_signal_yields]) (auto intro: yields_return)
  qed
qed simp

lemma try_rejection_yields:
  "yields (\<lambda>r. \<forall>s. r = Some s \<longrightarrow> on_setup z rej (pc_ltf x) s) (try_rejection v x z rej)"
  unfolding try_rejection_def Let_def
  by (rule yields_last, rule yields_last, rule yields_last, rule yields_last, rule valid_if,
      intro yields_last yields_return, simp, rule yields_last, rule valid_prod, rule valid_if,
      intro yields_last yields_return, simp, rule build_and_emit_yields)

text \<open>The context of a pair was cut from one chronological list of candles.\<close>

definition ctx_ok :: "pair_ctx \<Rightarrow> bool" where
  "ctx_ok x \<longleftrightarrow> (\<exists>cs. sorted (map c_timestamp cs) \<and> pc_ltf_timestamps x = map c_timestamp cs \<and>
     pc_hi x = bisect_right (map c_timestamp cs) (pc_pair_fired_at x) \<and>
     pc_ltf_visible x = take (bisect_right (map c_timestamp cs) (pc_pair_fired_at x)) cs)"

lemma zone_candles_window:
  assumes "ctx_ok x" "c \<in> set (zone_candles x z)"
  shows "zone_start z \<le> c_timestamp c \<and> c_timestamp c \<le> pc_pair_fired_at x"
proof -
  from assms(1) obtain cs where s: "sorted (map c_timestamp cs)"
    and f: "pc_ltf_timestamps x = map c_timestamp cs"
      "pc_hi x = bisect_right (map c_timestamp cs) (pc_pair_fired_at x)"
      "pc_ltf_visible x = take (bisect_right (map c_timestamp cs) (pc_pair_fired_at x)) cs"
    unfolding ctx_ok_def by blast
  show ?thesis
    using assms(2) unfolding zone_candles_def Let_def f slice_bisect_window [OF s] by simp
qed

definition in_window :: "pair_ctx \<Rightarrow> trade_signal \<Rightarrow> bool" where
  "in_window x s \<longleftrightarrow> s_ltf_interval s = pc_ltf x \<and>
     zone_start (s_htf_range s) \<le> r_timestamp (s_rejection s) \<and>
     r_timestamp (s_rejection s) \<le> pc_pair_fired_at x"

lemma process_zone_yields:
  assumes "ctx_ok x"
  shows "yields (\<lambda>r. \<forall>s. r = Some s \<longrightarrow> in_window x s) (process_zone v x z)"
  unfolding process_zone_def Let_def
proof (rule valid_if, intro yields_last yields_return, simp, rule yields_last)
  show "yields (\<lambda>r. \<forall>s. r = Some s \<longrightarrow> in_window x s)
    (case find_entry (zone_candles x z) (signal_dir z) z of
       None \<Rightarrow> thenS (metric v (M_Increment ''signals.no_rejection'' 1)) (returnS None)
     | Some (rej, score) \<Rightarrow> try_rejection v x z rej)"
  proof (cases "find_entry (zone_candles x z) (signal_dir z) z")
    case None
    show ?thesis unfolding None option.case by (intro yields_last yields_return) simp
  next
    case (Some p)
    obtain rej sc where p: "p = (rej, sc)" by (cases p)
    from find_entry_candle [OF Some [unfolded p]] obtain c where
      "c \<in> set (zone_candles x z)" "r_timestamp rej = c_timestamp c" by blast
    then have "zone_start z \<le> r_timestamp rej \<and> r_timestamp rej \<le> pc_pair_fired_at x"
      using zone_candles_window [OF assms] by simp
    then show ?thesis
      unfolding Some p option.case prod.case
      by (intro valid_weaken [OF try_rejection_yields]) (auto simp: on_setup_def in_window_def)
  qed
qed

lemma zone_walk_yields:
  assumes "ctx_ok x"
  shows "yields (\<lambda>r. \<forall>s \<in> set r. in_window x s) (zone_walk v x zs)"
proof (induction zs)
  case (Cons z zs)
  show ?case
    unfolding zone_walk.simps
  proof (rule yields_bind [OF process_zone_yields [OF assms]])
    fix r assume "\<forall>s. r = Some s \<longrightarrow> in_window x s"
    then show "yields (\<lambda>r. \<forall>s \<in> set r. in_window x s)
      (case r of None \<Rightarrow> zone_walk v x zs | Some s \<Rightarrow> returnS [s])"
      by (cases r) (auto intro: Cons yields_return)
  qed
qed (simp add: yields_return)

lemma in_window_structure [simp]: "in_window (x\<lparr>pc_structure := st\<rparr>) s = in_window x s"
  by (simp add: in_window_def)

lemma scan_zones_yields:
  assumes "ctx_ok x"
  shows "yields (\<lambda>r. \<forall>s \<in> set r. in_window x s) (scan_zones v x htf_ms htf vis)"
proof -
  have ctx: "ctx_ok (x\<lparr>pc_structure := st\<rparr>)" for st using assms by (simp add: ctx_ok_def)
  show ?thesis
    unfolding scan_zones_def Let_def
    by (rule valid_if, intro yields_last yields_return, simp,
        intro yields_last zone_walk_yields [OF ctx, simplified])
qed

lemma window_end: "(0::int) = t mod m \<Longrightarrow> t div m * m - m = t - m"
  using div_mult_mod_eq [of t m] by linarith

definition causal :: "ms \<Rightarrow> trade_signal \<Rightarrow> bool" where
  "causal fired_at s \<longleftrightarrow> (\<exists>m. settings_interval_to_ms (s_ltf_interval s) = Inr m \<and>
     zone_start (s_htf_range s) \<le> r_timestamp (s_rejection s) \<and>
     r_timestamp (s_rejection s) + m \<le> fired_at)"

lemma yields_nothing: "yields (\<lambda>r. \<forall>s \<in> set r. P s) (returnS [])"
  by (simp add: yields_return)

lemma analyze_pair_yields:
  assumes "chronological v"
  shows "yields (\<lambda>r. \<forall>s \<in> set r. causal fired_at s) (analyze_pair v symbol fired_at pr)"
  unfolding analyze_pair_def Let_def
proof (intro valid_if valid_bind_lift yields_raise yields_nothing yields_last, goal_cases)
  case (1 profile htf_ms ltf_ms em real_now _ n1 htf_full _ htf_start n2 ltf_all)
  let ?x = "\<lparr>pc_symbol = symbol, pc_htf = fst pr, pc_ltf = snd pr, pc_fired_at = fired_at,
    pc_pair_fired_at = fired_at div ltf_ms * ltf_ms - ltf_ms, pc_ltf_ms = ltf_ms,
    pc_metric = ''scanner.'' @ symbol @ ''.'' @ fst pr @ ''_'' @ snd pr, pc_profile = profile,
    pc_structure = None, pc_ltf_timestamps = map c_timestamp ltf_all,
    pc_hi = bisect_right (map c_timestamp ltf_all) (fired_at div ltf_ms * ltf_ms - ltf_ms),
    pc_ltf_visible = take (bisect_right (map c_timestamp ltf_all)
      (fired_at div ltf_ms * ltf_ms - ltf_ms)) ltf_all\<rparr>"
  have "sorted (map c_timestamp ltf_all)"
    using assms 1(11) unfolding chronological_def by blast
  then have "ctx_ok ?x" by (auto simp: ctx_ok_def)
  moreover have "causal fired_at s" if "in_window ?x s" for s
    using that 1(3,6) window_end [of fired_at ltf_ms] by (simp add: in_window_def causal_def)
  ultimately show ?case
    by (intro valid_weaken [OF scan_zones_yields]) simp_all
qed

lemma analyze_pairs_yields:
  assumes "chronological v"
  shows "yields (\<lambda>r. \<forall>s \<in> set r. causal fired_at s) (analyze_pairs v symbol fired_at prs)"
proof (induction prs)
  case (Cons pr prs)
  have one: "yields (\<lambda>r. \<forall>s \<in> (case r of Inl e \<Rightarrow> {} | Inr new \<Rightarrow> set new). causal fired_at s)
    (tryS (analyze_pair v symbol fired_at pr))"
    by (rule valid_try [OF valid_weaken [OF analyze_pair_yields [OF assms]]]) auto
  show ?case
    unfolding analyze_pairs.simps
  proof (rule yields_bind [OF one], rule yields_bind [OF Cons])
    fix r more
    assume "\<forall>s \<in> (case r of Inl e \<Rightarrow> {} | Inr new \<Rightarrow> set new). causal fired_at s"
      and "\<forall>s \<in> set more. causal fired_at s"
    then show "yields (\<lambda>r. \<forall>s \<in> set r. causal fired_at s)
      (returnS ((case r of Inl e \<Rightarrow> [] | Inr new \<Rightarrow> new) @ more))"
      by (cases r) (auto intro!: yields_return)
  qed
qed (simp add: yields_return)

text \<open>
  C4: no lookahead: on a chronological feed, every signal an analysis returns rests on a rejection
  candle that lies at or after the break of its zone and that had closed by the time of the
  analysis.
\<close>

theorem analyze_no_lookahead:
  assumes "chronological v" "fired_at \<noteq> 0" "analyze v symbol fired_at sv = (Inr sigs, sv')"
    and "s \<in> set sigs"
  shows "\<exists>m. settings_interval_to_ms (s_ltf_interval s) = Inr m \<and>
    zone_start (s_htf_range s) \<le> r_timestamp (s_rejection s) \<and>
    r_timestamp (s_rejection s) + m \<le> fired_at"
proof -
  have "yields (\<lambda>r. \<forall>s \<in> set r. causal fired_at s) (analyze_at v symbol fired_at)"
    unfolding analyze_at_def
    by (rule yields_last, rule yields_last, rule yields_last, rule yields_last, rule yields_last,
        rule yields_bind [OF analyze_pairs_yields [OF assms(1)]], rule yields_last, rule yields_return)
  moreover have "analyze v symbol fired_at = analyze_at v symbol fired_at"
    using assms(2) by (simp add: analyze_def bindS_def returnS_def fun_eq_iff)
  ultimately have y: "yields (\<lambda>r. \<forall>s \<in> set r. causal fired_at s) (analyze v symbol fired_at)" by simp
  from validD(1) [OF y TrueI assms(3)] assms(4) show ?thesis by (auto simp: causal_def)
qed

end
