(* ===== verification/Service_Restart.thy ===== *)
theory Service_Restart
  imports Service_Laws
begin

text \<open>What a restart takes back from the table of open signals.\<close>

section \<open>Restart\<close>

text \<open>A stored row that a restart takes back: decodable, open and not past its expiry.\<close>

definition restorable :: "svc_env \<Rightarrow> ms \<Rightarrow> json \<Rightarrow> trade_signal \<Rightarrow> bool" where
  "restorable v now raw s \<longleftrightarrow> from_dict raw = Inr s \<and> is_open s \<and>
     of_int (now - s_created_at s) \<le> g_signal_expiry_hours (v_cfg v) * 3600000"

lemma restore_row_cases:
  assumes "restore_row v now raw sv = (r, sv')"
  shows "(r \<noteq> Inr True \<and> sv' = sv \<and> (\<forall>s. \<not> restorable v now raw s)) \<or>
    (\<exists>s n c'. r = Inr True \<and> restorable v now raw s \<and>
       co_register_signal (v_cfg v) (s_symbol s) (s_direction s) (s_htf_range s) (s_rejection s)
         (s_htf_interval s) (s_ltf_interval s) (sv_co sv) = (n, c') \<and>
       sv' = sv\<lparr>sv_co := c', sv_watchlist := AList.update (s_id s) (s\<lparr>s_zone_attempt := n\<rparr>)
         (sv_watchlist sv)\<rparr>)"
proof (cases "\<exists>s. restorable v now raw s")
  case False
  then have "r \<noteq> Inr True \<and> sv' = sv"
    using assms unfolding restore_row_def restorable_def
    by (auto simp: bindS_def liftR_def returnS_def split: sum.splits if_splits)
  then show ?thesis using False by blast
next
  case True
  then obtain s where s: "restorable v now raw s" ..
  obtain n c' where reg: "co_register_signal (v_cfg v) (s_symbol s) (s_direction s) (s_htf_range s)
    (s_rejection s) (s_htf_interval s) (s_ltf_interval s) (sv_co sv) = (n, c')"
    by (cases "co_register_signal (v_cfg v) (s_symbol s) (s_direction s) (s_htf_range s)
      (s_rejection s) (s_htf_interval s) (s_ltf_interval s) (sv_co sv)")
  have "r = Inr True \<and> sv' = sv\<lparr>sv_co := c', sv_watchlist := AList.update (s_id s)
     (s\<lparr>s_zone_attempt := n\<rparr>) (AList.update (s_id s) s (sv_watchlist sv))\<rparr>"
    using assms s reg unfolding restore_row_def restorable_def
    by (simp add: bindS_def liftR_def returnS_def watch_put_def modS_def call_co_def not_less)
  then show ?thesis using s reg by (auto simp: update_last)
qed

lemma co_register_frame:
  assumes "co_register_signal cfg sy d z r htf ltf c = (n, c')"
  shows "ds_seen_rej (co_state c') = insert (snd (dedup_keys sy htf ltf (z_timestamp z) (r_timestamp r)
      (direction_value d))) (ds_seen_rej (co_state c))"
    and "co_store c' = co_store c"
proof -
  have c: "c' = c\<lparr>co_state := snd (dedup_register sy d z r htf ltf (g_multi_tf_independent_positions cfg)
      (g_max_signal_count_per_zone cfg) (co_state c))\<rparr>"
    using assms by (auto simp: co_register_signal_def split: prod.splits)
  show "ds_seen_rej (co_state c') = insert (snd (dedup_keys sy htf ltf (z_timestamp z) (r_timestamp r)
      (direction_value d))) (ds_seen_rej (co_state c))" "co_store c' = co_store c"
    by (simp_all add: c dedup_register_simps(2))
qed

lemma restore_rows_effect:
  assumes "restore_rows v now rows sv = (r, sv')"
  shows "(\<exists>k. r = Inr k \<and> k \<le> length rows \<and> (0 < k \<longleftrightarrow> (\<exists>raw \<in> set rows. \<exists>s. restorable v now raw s))) \<and>
    fst ` set (sv_watchlist sv') = fst ` set (sv_watchlist sv) \<union>
      {s_id s | s. \<exists>raw \<in> set rows. restorable v now raw s} \<and>
    ds_seen_rej (co_state (sv_co sv')) = ds_seen_rej (co_state (sv_co sv)) \<union>
      {rej_key_of s | s. \<exists>raw \<in> set rows. restorable v now raw s} \<and>
    co_store (sv_co sv') = co_store (sv_co sv) \<and> sv_events sv' = sv_events sv"
  using assms
proof (induction rows arbitrary: sv r sv')
  case Nil
  then show ?case by (auto simp: returnS_def)
next
  case (Cons raw rows)
  obtain q sv1 where one: "restore_row v now raw sv = (q, sv1)" by (cases "restore_row v now raw sv")
  obtain r2 sv2 where rest: "restore_rows v now rows sv1 = (r2, sv2)"
    by (cases "restore_rows v now rows sv1")
  note ih = Cons.IH [OF rest]
  from conjunct1 [OF ih] obtain k where r2: "r2 = Inr k" by (elim exE conjE)
  have res: "sv' = sv2" "r = Inr (case q of Inr True \<Rightarrow> Suc k | _ \<Rightarrow> k)"
    using Cons.prems by (simp_all add: bindS_def tryS_def one rest r2 returnS_def)
  have uniq: "restorable v now raw s \<Longrightarrow> restorable v now raw s' \<Longrightarrow> s = s'" for s s'
    by (simp add: restorable_def)
  from restore_row_cases [OF one] show ?case
  proof
    assume a: "q \<noteq> Inr True \<and> sv1 = sv \<and> (\<forall>s. \<not> restorable v now raw s)"
    then have "r = Inr k" using res(2) by (auto split: sum.splits bool.splits)
    then show ?thesis using ih a r2 by (auto simp: res(1))
  next
    assume "\<exists>s n c'. q = Inr True \<and> restorable v now raw s \<and>
       co_register_signal (v_cfg v) (s_symbol s) (s_direction s) (s_htf_range s) (s_rejection s)
         (s_htf_interval s) (s_ltf_interval s) (sv_co sv) = (n, c') \<and>
       sv1 = sv\<lparr>sv_co := c', sv_watchlist := AList.update (s_id s) (s\<lparr>s_zone_attempt := n\<rparr>)
         (sv_watchlist sv)\<rparr>"
    then obtain s n c' where b: "q = Inr True" "restorable v now raw s"
      and reg: "co_register_signal (v_cfg v) (s_symbol s) (s_direction s) (s_htf_range s) (s_rejection s)
         (s_htf_interval s) (s_ltf_interval s) (sv_co sv) = (n, c')"
      and sv1: "sv1 = sv\<lparr>sv_co := c', sv_watchlist := AList.update (s_id s) (s\<lparr>s_zone_attempt := n\<rparr>)
         (sv_watchlist sv)\<rparr>" by blast
    note fr = co_register_frame [OF reg]
    have row: "(\<exists>raw' \<in> set (raw # rows). restorable v now raw' s') \<longleftrightarrow>
      s' = s \<or> (\<exists>raw' \<in> set rows. restorable v now raw' s')" for s'
      using b(2) uniq by auto
    have ids: "fst ` set (sv_watchlist sv1) = insert (s_id s) (fst ` set (sv_watchlist sv))"
      by (simp add: sv1 update_entries)
    have seen: "ds_seen_rej (co_state (sv_co sv1)) = insert (rej_key_of s) (ds_seen_rej (co_state (sv_co sv)))"
      by (simp add: sv1 fr(1) rej_key_of_def)
    have more: "co_store (sv_co sv1) = co_store (sv_co sv)" "sv_events sv1 = sv_events sv"
      by (simp_all add: sv1 fr(2))
    show ?thesis
      using ih r2 res b(1) exI [of "restorable v now raw", OF b(2)] unfolding row ids seen more by auto
  qed
qed

lemma publish_frame: "snd (publish_active v sel sv) = sv\<lparr>sv_metrics := sv_metrics (snd (publish_active v sel sv))\<rparr>"
  by (auto simp: publish_active_def whenS_def returnS_def bindS_def readS_def liftR_def metric_def modS_def
      split: sum.split)

text \<open>
  C5: a restart takes back exactly the stored rows that decode to an open signal within its
  expiry: their ids join the watchlist and their candles count as used. Every other row is
  passed over: nothing of it enters the deduplication memory, and it stays in the store.
\<close>

theorem initialize_restores:
  assumes "initialize v sv = (r, sv')"
  shows "let now = v_clk v (co_ticks (sv_co sv));
             taken = {s. \<exists>raw \<in> set (load_open_signals (co_store (sv_co sv))). restorable v now raw s}
         in fst ` set (sv_watchlist sv') = fst ` set (sv_watchlist sv) \<union> s_id ` taken \<and>
            ds_seen_rej (co_state (sv_co sv')) = ds_seen_rej (co_state (sv_co sv)) \<union> rej_key_of ` taken \<and>
            co_store (sv_co sv') = co_store (sv_co sv) \<and> sv_events sv' = sv_events sv"
proof -
  let ?rows = "load_open_signals (co_store (sv_co sv))" and ?now = "v_clk v (co_ticks (sv_co sv))"
  let ?sv0 = "sv\<lparr>sv_co := (sv_co sv)\<lparr>co_ticks := Suc (co_ticks (sv_co sv))\<rparr>\<rparr>"
  obtain r1 sv1 where rows: "restore_rows v ?now ?rows ?sv0 = (r1, sv1)"
    by (cases "restore_rows v ?now ?rows ?sv0")
  note eff = restore_rows_effect [OF rows]
  from conjunct1 [OF eff] obtain k where r1: "r1 = Inr k" by (elim exE conjE)
  have "sv' = sv1 \<or> sv' = snd (publish_active v (\<lambda>sv. map snd (sv_watchlist sv)) sv1)"
    using assms
    by (auto simp: initialize_def bindS_def readS_def now_ms_def read_clock_def rows r1 whenS_def returnS_def
        split: if_splits)
  then obtain m where sv': "sv' = sv1\<lparr>sv_metrics := m\<rparr>"
    using publish_frame [of v _ sv1] by (metis service.surjective service.update_convs(9))
  have im: "s_id ` {s. \<exists>raw \<in> set ?rows. restorable v ?now raw s} = {s_id s | s. \<exists>raw \<in> set ?rows. restorable v ?now raw s}"
    "rej_key_of ` {s. \<exists>raw \<in> set ?rows. restorable v ?now raw s} =
      {rej_key_of s | s. \<exists>raw \<in> set ?rows. restorable v ?now raw s}" by auto
  show ?thesis
    unfolding Let_def im using eff by (simp add: sv')
qed

end
