(* ===== verification/Service_Example.thy ===== *)
theory Service_Example
  imports Service_Causality Service_Restart
begin

text \<open>
  One analysis worked through by the kernel: twelve hourly candles break a swing upwards, the
  five-minute candles sweep back into the zone left behind, and the service announces the zone
  and then the signal. The run serves as the concrete input of the properties of the service.
\<close>

section \<open>Market and settings\<close>

definition live_htf :: "candle list" where
  "live_htf = map (\<lambda>k. mk_candle (k * 3600000) 6 9 5 7) [0, 1, 2, 3, 4, 5] @
     [mk_candle 21600000 6 10 5 9, mk_candle 25200000 9 12 6 7, mk_candle 28800000 7 11 4 6,
      mk_candle 32400000 6 11 5 10, mk_candle 36000000 10 14 9 13, mk_candle 39600000 13 30 12 25]"

definition live_ltf :: "candle list" where
  "live_ltf = map (\<lambda>k. mk_candle (40200000 + k * 300000) 12 13 11 12) [0, 1, 2, 3, 4, 5, 6, 7, 8] @
     [mk_candle 42900000 12 12 8 9, mk_candle 43200000 9 10 7 9]"

definition live_cfg :: settings where
  "live_cfg = (default_settings [])\<lparr>g_use_displacement_filter := False, g_use_trend_filter := False\<rparr>"

definition live_env :: svc_env where
  "live_env = \<lparr>v_cfg = live_cfg, v_clk = (\<lambda>_. 43500000), v_has_metrics = True,
     v_fetch = (\<lambda>_ _ _ _. Inr live_htf), v_fetch_range = (\<lambda>_ _ _ _ _. Inr live_ltf),
     v_tick = (\<lambda>_ _. Inr (None, None))\<rparr>"

definition live_zone :: htf_zone where
  "live_zone = \<lparr>z_range_high = 11, z_range_low = 4, z_bos_direction = BULLISH, z_timestamp = 28800000,
     z_broken_at = 36000000, z_tp_level = 30, z_htf_candle_open = 28800000,
     z_htf_candle_close = 32400000\<rparr>"

definition live_rejection :: rejection where
  "live_rejection = \<lparr>r_open = 9, r_high = 10, r_low = 7, r_close = 9, r_timestamp = 43200000,
     r_wick_ratio = 2/3, r_pattern = CRT_BUY\<rparr>"

section \<open>The parts\<close>

lemma live_profile: "registry_get live_cfg ''XAUUSD'' (Some ''1h'') (Some ''5min'') =
   Inr (ex_profile\<lparr>p_use_trend_filter := False\<rparr>)"
  by code_simp

lemma live_intervals:
  "settings_interval_to_ms ''1h'' = Inr 3600000" "settings_interval_to_ms ''5min'' = Inr 300000"
  "interval_to_ms ''5min'' = Inr 300000"
  by code_simp+

lemma live_entry_model: "\<exists>m. entry_model_for live_cfg ''1h'' ''5min'' = Inr m"
  by (rule exI [of _ "''crt''"]) code_simp

lemma live_zones: "find_htf_ranges live_htf PIVOT_BARS 3600000 1 = [live_zone]"
  by code_simp

lemma live_entry:
  "fst (the (find_entry live_ltf LONG live_zone)) = live_rejection \<and> find_entry live_ltf LONG live_zone \<noteq> None"
  by code_simp

lemma live_window:
  "bisect_right (map c_timestamp live_ltf) 43200000 = 11" "bisect_left (map c_timestamp live_ltf) 36000000 = 0"
  "length live_ltf = 11"
  by code_simp+

lemma live_visible:
  "filter (\<lambda>c. c_timestamp c \<le> 39900000) live_htf = live_htf" "last_slice live_htf 120 = live_htf"
  by code_simp+

lemma live_gates:
  "gates_ok (ex_profile\<lparr>p_use_trend_filter := False\<rparr>) live_zone live_rejection
     (entry_of (ex_profile\<lparr>p_use_trend_filter := False\<rparr>) LONG None None live_rejection)
     (stop_of (ex_profile\<lparr>p_use_trend_filter := False\<rparr>) LONG live_rejection)"
  by code_simp

lemma live_dir: "signal_dir live_zone = LONG"
  by code_simp

lemma live_build:
  "\<exists>s. build_signal ''XAUUSD'' ''1h'' ''5min'' live_zone live_rejection i
     (ex_profile\<lparr>p_use_trend_filter := False\<rparr>) b None None = Inr (Some s)"
  unfolding build_signal_eq live_dir live_intervals by (simp add: live_gates)

section \<open>The run\<close>

lemma live_env_simps:
  "v_cfg live_env = live_cfg" "v_clk live_env n = 43500000" "v_has_metrics live_env"
  "v_fetch live_env n sy iv k = Inr live_htf" "v_fetch_range live_env n sy iv a b = Inr live_ltf"
  "v_tick live_env n sy = Inr (None, None)"
  by (simp_all add: live_env_def)

lemma live_cfg_simps:
  "g_max_emit_lag_ms live_cfg = 90000" "g_use_displacement_filter live_cfg = False"
  "g_max_htf_zones_per_dir live_cfg = 1" "g_tf_pairs live_cfg = [(''1h'', ''5min'')]"
  "g_max_signal_count_per_zone live_cfg = 1" "g_htf_outputsize live_cfg = 1000"
  by (simp_all add: live_cfg_def default_settings_def)

lemma live_metric: "metric live_env m sv = (Inr (), sv\<lparr>sv_metrics := sv_metrics sv @ [m]\<rparr>)"
  by (simp add: metric_def whenS_def live_env_simps modS_def)

lemma live_metric_bind: "bindS (metric live_env m) f sv = f () (sv\<lparr>sv_metrics := sv_metrics sv @ [m]\<rparr>)"
  by (simp add: bindS_def live_metric)

text \<open>The collector heard of the zone.\<close>

definition told :: "service \<Rightarrow> bool" where
  "told sv \<longleftrightarrow> (\<exists>p. M_Event SIGNAL_PENDING p \<in> set (sv_metrics sv))"

lemma told_more: "told sv \<Longrightarrow> told (sv\<lparr>sv_metrics := sv_metrics sv @ ms\<rparr>)"
  by (auto simp: told_def)

lemma live_now: "now_ms live_env sv = (Inr 43500000, sv\<lparr>sv_co := (sv_co sv)\<lparr>co_ticks := Suc (co_ticks (sv_co sv))\<rparr>\<rparr>)"
  by (simp add: now_ms_def read_clock_def live_env_simps)

lemma return_bind [simp]: "bindS (returnS x) f = f x"
  by (simp add: fun_eq_iff bindS_def returnS_def)

text \<open>A service that holds nothing yet, on the first day of the epoch.\<close>

definition idle :: "service \<Rightarrow> bool" where
  "idle sv \<longleftrightarrow> co_session_day (sv_co sv) = 0 \<and> co_paused_until (sv_co sv) = None \<and>
     co_state (sv_co sv) = empty_dedup \<and> sv_watchlist sv = []"

lemma live_dedup:
  "dedup_should_emit empty_dedup live_zone live_rejection LONG ''XAUUSD'' 43200000 (1667 / 10000)
     ''1h'' ''5min'' 1 = \<lparr>dr_allowed = True, dr_reason = R_Allowed\<rparr>"
  by code_simp

lemma live_ask:
  assumes "co_session_day c = 0" "co_paused_until c = None" "co_state c = empty_dedup"
  shows "co_should_emit live_cfg clk live_zone live_rejection LONG ''XAUUSD'' 43200000 ''1h'' ''5min'' c =
    (Inr (True, R_Allowed), c)"
proof -
  have "maybe_rollover live_cfg clk 43200000 c = (Inr (), c)"
    by (simp add: maybe_rollover_def utc_day_def assms(1))
  moreover have "release_expired_directions 43200000 c = c"
    using assms(3) by (simp add: release_expired_directions_def empty_dedup_def)
  moreover have "\<not> is_direction_open sy d h l m empty_dedup" for sy d h l m
    by (simp add: is_direction_open_def empty_dedup_def)
  ultimately show ?thesis
    using assms
    by (simp add: co_should_emit_def paused_at_def ex_stale_hours live_dedup live_cfg_simps Let_def)
qed

definition live_ctx :: "string \<Rightarrow> pair_ctx" where
  "live_ctx m = \<lparr>pc_symbol = ''XAUUSD'', pc_htf = ''1h'', pc_ltf = ''5min'', pc_fired_at = 43500000,
     pc_pair_fired_at = 43200000, pc_ltf_ms = 300000, pc_metric = m,
     pc_profile = ex_profile\<lparr>p_use_trend_filter := False\<rparr>, pc_structure = None,
     pc_ltf_timestamps = map c_timestamp live_ltf, pc_hi = 11, pc_ltf_visible = live_ltf\<rparr>"

lemma live_setup:
  "\<exists>s. evaluate_setup ''XAUUSD'' ''1h'' ''5min'' live_zone live_rejection i
     (ex_profile\<lparr>p_use_trend_filter := False\<rparr>) b None None None =
     Inr \<lparr>dec_signal = Some s, dec_reason = ''valid_signal'', dec_blocked_reason = None\<rparr>"
  using live_build [of i b] by (auto simp: evaluate_setup_def truthy_str_def)

lemma live_drift:
  "\<exists>ms. (case s_price_drift s of None \<Rightarrow> returnS ()
     | Some dr \<Rightarrow> thenS (metric live_env (M_Gauge a dr)) (metric live_env (M_Gauge b dr))) sv =
     (Inr (), sv\<lparr>sv_metrics := sv_metrics sv @ ms\<rparr>)"
  by (cases "s_price_drift s")
    (auto simp: returnS_def live_metric_bind live_metric intro: exI [of _ "[]"])

lemma live_to_dict: "s_setup_close_at s = Some 43500000 \<Longrightarrow> to_dict s = Inr (JObj (signal_entries s 43500000))"
  by (simp add: to_dict_def close_at_of_def or_else_def)

lemma live_dicts:
  "\<forall>s \<in> set ss. s_setup_close_at s = Some 43500000 \<Longrightarrow>
   mapR to_dict ss = Inr (map (\<lambda>s. JObj (signal_entries s 43500000)) ss)"
  by (induction ss) (simp_all add: live_to_dict)

lemma live_publish:
  assumes "\<forall>s \<in> snd ` set (sv_watchlist sv). s_setup_close_at s = Some 43500000"
  shows "publish_active live_env get_active_signals sv =
    (Inr (), sv\<lparr>sv_metrics := sv_metrics sv @
       [M_SetActive (map (\<lambda>s. JObj (signal_entries s 43500000)) (get_active_signals sv))]\<rparr>)"
proof -
  have "\<forall>s \<in> set (get_active_signals sv). s_setup_close_at s = Some 43500000"
    using assms by (auto simp: get_active_signals_def)
  from live_dicts [OF this] show ?thesis
    by (simp add: publish_active_def whenS_def live_env_simps bindS_def readS_def liftR_def live_metric)
qed

lemma live_emit:
  assumes "sv_watchlist sv = []"
  shows "\<exists>s' d sv'. emit_signal live_env (live_ctx m) live_zone live_rejection s sv = (Inr s', sv') \<and>
    sv_watchlist sv' = [(s_id s', s')] \<and> s_rejection s' = s_rejection s \<and>
    sv_events sv' = sv_events sv @ [(SIGNAL_TRIGGERED, d)] \<and> (told sv \<longrightarrow> told sv')"
proof -
  obtain ms where drift: "(case s_price_drift s of None \<Rightarrow> returnS ()
     | Some dr \<Rightarrow> thenS (metric live_env (M_Gauge ''signals.last_price_drift'' dr))
         (metric live_env (M_Gauge (''signals.'' @ pc_symbol (live_ctx m) @ ''.last_price_drift'') dr))) sv =
     (Inr (), sv\<lparr>sv_metrics := sv_metrics sv @ ms\<rparr>)"
    using live_drift by blast
  define sv0 where "sv0 = sv\<lparr>sv_metrics := sv_metrics sv @ ms\<rparr>"
  have sv0: "sv_watchlist sv0 = []" "sv_events sv0 = sv_events sv" "M_Event e p \<in> set (sv_metrics sv) \<Longrightarrow> M_Event e p \<in> set (sv_metrics sv0)" for e p
    using assms by (simp_all add: sv0_def)
  have ctx: "pc_ltf_ms (live_ctx m) = 300000" "r_timestamp live_rejection = 43200000"
    by (simp_all add: live_ctx_def live_rejection_def)
  show ?thesis
    unfolding emit_signal_def Let_def ctx
    by (simp add: bindS_def [of _ _ sv] drift sv0_def [symmetric])
      (auto simp: bindS_def live_metric live_now call_co_def modS_def watch_put_def store_upsert_def
        liftR_def live_to_dict emit_def whenS_def live_env_simps readS_def live_publish told_def
        returnS_def sv0(1,2) dest: sv0(3) split: prod.splits sum.splits)
qed

lemma live_zone_candles: "zone_candles (live_ctx m) live_zone = live_ltf"
proof -
  have "zone_start live_zone = 36000000" by (simp add: zone_start_def num_or_def live_zone_def)
  then show ?thesis
    by (simp add: zone_candles_def live_ctx_def live_window(2) slice_def live_window(3))
qed

lemma live_rejection_ts: "r_timestamp live_rejection = 43200000"
  by (simp add: live_rejection_def)

lemma live_ctx_simps:
  "pc_symbol (live_ctx m) = ''XAUUSD''" "pc_htf (live_ctx m) = ''1h''" "pc_ltf (live_ctx m) = ''5min''"
  "pc_pair_fired_at (live_ctx m) = 43200000" "pc_ltf_ms (live_ctx m) = 300000"
  "pc_profile (live_ctx m) = ex_profile\<lparr>p_use_trend_filter := False\<rparr>" "pc_structure (live_ctx m) = None"
  by (simp_all add: live_ctx_def)

lemma live_build_emit:
  assumes "idle sv"
  shows "\<exists>s d sv'. build_and_emit live_env (live_ctx m) live_zone live_rejection sv = (Inr (Some s), sv') \<and>
    sv_watchlist sv' = [(s_id s, s)] \<and> sv_events sv' = sv_events sv @ [(SIGNAL_TRIGGERED, d)] \<and>
    (told sv \<longrightarrow> told sv')"
proof -
  let ?i = "signal_id_of (live_ctx m) live_rejection LONG"
  obtain s where s: "evaluate_setup ''XAUUSD'' ''1h'' ''5min'' live_zone live_rejection ?i
     (ex_profile\<lparr>p_use_trend_filter := False\<rparr>) (g_mt5_profile live_cfg) None None None =
     Inr \<lparr>dec_signal = Some s, dec_reason = ''valid_signal'', dec_blocked_reason = None\<rparr>"
    using live_setup by blast
  have prices: "live_prices live_env (live_ctx m) sv' = (Inr (None, None), sv')" for sv'
    by (simp add: live_prices_def ticks_def bindS_def readS_def live_env_simps returnS_def)
  have w: "sv_watchlist sv = []" using assms by (simp add: idle_def)
  obtain s' d sv' where e: "emit_signal live_env (live_ctx m) live_zone live_rejection s sv = (Inr s', sv')"
    and eff: "sv_watchlist sv' = [(s_id s', s')]" "sv_events sv' = sv_events sv @ [(SIGNAL_TRIGGERED, d)]"
      "told sv \<longrightarrow> told sv'"
    using live_emit [OF w] by blast
  have "build_and_emit live_env (live_ctx m) live_zone live_rejection sv = (Inr (Some s'), sv')"
    unfolding build_and_emit_def live_dir live_ctx_simps live_env_simps Let_def
    by (simp add: bindS_def readS_def w prices s liftR_def e returnS_def)
  then show ?thesis using eff by blast
qed

lemma live_try:
  assumes "idle sv"
  shows "\<exists>s d sv'. try_rejection live_env (live_ctx m) live_zone live_rejection sv = (Inr (Some s), sv') \<and>
    sv_watchlist sv' = [(s_id s, s)] \<and> sv_events sv' = sv_events sv @ [(SIGNAL_TRIGGERED, d)] \<and>
    (told sv \<longrightarrow> told sv')"
proof -
  have ask: "call_co (co_should_emit live_cfg (v_clk live_env) live_zone live_rejection LONG ''XAUUSD''
      43200000 ''1h'' ''5min'') sv1 = (Inr (True, R_Allowed), sv1)" if "idle sv1" for sv1
    using that by (simp add: call_co_def live_ask idle_def)
  let ?sv1 = "\<lambda>ms. sv\<lparr>sv_co := (sv_co sv)\<lparr>co_ticks := Suc (co_ticks (sv_co sv))\<rparr>, sv_metrics := sv_metrics sv @ ms\<rparr>"
  have i1: "idle (?sv1 ms)" for ms using assms by (simp add: idle_def)
  have "\<exists>ms. try_rejection live_env (live_ctx m) live_zone live_rejection sv =
      build_and_emit live_env (live_ctx m) live_zone live_rejection (?sv1 ms)"
    unfolding try_rejection_def live_dir live_ctx_simps live_rejection_ts live_env_simps(1) live_cfg_simps Let_def
    by (rule exI [of _ "[M_RejectionFound ''XAUUSD'' (pc_fired_at (live_ctx m)), M_Gauge ''latency.candidate_emit_lag_ms'' 0,
        M_Gauge ''latency.XAUUSD.1h_5min.candidate_emit_lag_ms'' 0]"]) (simp add: bindS_def live_metric live_now ask i1)
  then obtain ms where t: "try_rejection live_env (live_ctx m) live_zone live_rejection sv =
      build_and_emit live_env (live_ctx m) live_zone live_rejection (?sv1 ms)"
    by blast
  have "told sv \<Longrightarrow> told (?sv1 ms)" by (auto simp: told_def)
  then show ?thesis using live_build_emit [OF i1 [of ms], of m] unfolding t by auto
qed

lemma live_pending:
  assumes "sv_pending sv = []"
  shows "\<exists>sv'. announce_pending live_env (live_ctx m) live_zone sv = (Inr (), sv') \<and> sv_co sv' = sv_co sv \<and>
     sv_watchlist sv' = sv_watchlist sv \<and> told sv' \<and>
     sv_events sv' = sv_events sv @ [(SIGNAL_PENDING, pending_payload (live_ctx m) live_zone)]"
  using assms
  by (auto simp: announce_pending_def bindS_def readS_def whenS_def returnS_def modS_def emit_def live_metric told_def)

lemma live_process:
  assumes "idle sv" "sv_pending sv = []"
  shows "\<exists>s d p sv'. process_zone live_env (live_ctx m) live_zone sv = (Inr (Some s), sv') \<and>
    sv_watchlist sv' = [(s_id s, s)] \<and> told sv' \<and>
    sv_events sv' = sv_events sv @ [(SIGNAL_PENDING, p), (SIGNAL_TRIGGERED, d)]"
proof -
  let ?p = "pending_payload (live_ctx m) live_zone"
  obtain sv1 where p: "announce_pending live_env (live_ctx m) live_zone sv = (Inr (), sv1)"
    "sv_co sv1 = sv_co sv" "sv_watchlist sv1 = sv_watchlist sv" "told sv1"
    "sv_events sv1 = sv_events sv @ [(SIGNAL_PENDING, ?p)]"
    using live_pending [OF assms(2)] by blast
  have "idle sv1" using assms p(2,3) by (simp add: idle_def)
  from live_try [OF this] obtain s d sv' where t:
    "try_rejection live_env (live_ctx m) live_zone live_rejection sv1 = (Inr (Some s), sv')"
    "sv_watchlist sv' = [(s_id s, s)]" "sv_events sv' = sv_events sv1 @ [(SIGNAL_TRIGGERED, d)]" "told sv1 \<longrightarrow> told sv'"
    by blast
  obtain sc where f: "find_entry live_ltf LONG live_zone = Some (live_rejection, sc)"
    using live_entry by (cases "find_entry live_ltf LONG live_zone") auto
  have "process_zone live_env (live_ctx m) live_zone sv = (Inr (Some s), sv')"
    unfolding process_zone_def live_dir live_ctx_simps live_zone_candles f Let_def
    by (simp add: bindS_def p(1) t(1))
  then show ?thesis using t(2-4) p(4,5) by auto
qed

lemma idle_updates [simp]:
  "idle (sv\<lparr>sv_last_htf := a\<rparr>) = idle sv" "idle (sv\<lparr>sv_last_ltf := b\<rparr>) = idle sv"
  "idle (sv\<lparr>sv_last_ranges := c\<rparr>) = idle sv" "idle (sv\<lparr>sv_pending := d\<rparr>) = idle sv"
  "idle (sv\<lparr>sv_current_fired := f\<rparr>) = idle sv" "idle (sv\<lparr>sv_metrics := ms\<rparr>) = idle sv"
  "idle (sv\<lparr>sv_co := (sv_co sv)\<lparr>co_ticks := n\<rparr>\<rparr>) = idle sv"
  by (simp_all add: idle_def)

lemma live_scan:
  assumes "idle sv" "sv_pending sv = []"
  shows "\<exists>s d p sv'. scan_zones live_env (live_ctx m) 3600000 live_htf live_htf sv = (Inr [s], sv') \<and>
    sv_watchlist sv' = [(s_id s, s)] \<and> told sv' \<and>
    sv_events sv' = sv_events sv @ [(SIGNAL_PENDING, p), (SIGNAL_TRIGGERED, d)]"
proof -
  have filt: "\<not> p_use_trend_filter (pc_profile (live_ctx m))" by (simp add: live_ctx_simps)
  have st: "(live_ctx m)\<lparr>pc_structure := None\<rparr> = live_ctx m" by (simp add: live_ctx_def)
  define sv1 where "sv1 = sv\<lparr>sv_metrics := sv_metrics sv @ [M_Gauge (pc_metric (live_ctx m) @ ''.htf_ranges'') 1],
    sv_last_ranges := AList.update (pair_key_of (live_ctx m)) [live_zone] (sv_last_ranges sv), sv_pending := []\<rparr>"
  have "idle sv1" "sv_pending sv1 = []" using assms by (simp_all add: sv1_def)
  from live_process [OF this, of m] obtain s d p sv' where p:
    "process_zone live_env (live_ctx m) live_zone sv1 = (Inr (Some s), sv')"
    "sv_watchlist sv' = [(s_id s, s)]" "told sv'"
    "sv_events sv' = sv_events sv1 @ [(SIGNAL_PENDING, p), (SIGNAL_TRIGGERED, d)]"
    by blast
  have one: "nat (g_max_htf_zones_per_dir live_cfg) = 1" by (simp add: live_cfg_simps)
  have "scan_zones live_env (live_ctx m) 3600000 live_htf live_htf sv = (Inr [s], sv')"
    unfolding scan_zones_def Let_def live_env_simps(1) one live_zones live_cfg_simps if_False
      if_not_P [OF filt] option.case return_bind st
    using p(1)
    by (simp add: bindS_def modS_def live_metric live_zones [simplified] sv1_def [symmetric] assms(2) returnS_def)
  then show ?thesis using p(2-4) by (auto simp: sv1_def)
qed

lemma live_pair:
  assumes "idle sv" "sv_pending sv = []"
  shows "\<exists>s d p sv'. analyze_pair live_env ''XAUUSD'' 43500000 (''1h'', ''5min'') sv = (Inr [s], sv') \<and>
    sv_watchlist sv' = [(s_id s, s)] \<and> told sv' \<and>
    sv_events sv' = sv_events sv @ [(SIGNAL_PENDING, p), (SIGNAL_TRIGGERED, d)]"
proof -
  obtain em where em: "entry_model_for live_cfg ''1h'' ''5min'' = Inr em" using live_entry_model by blast
  have look: "nat 120 = (120 :: nat)" "p_htf_lookback (ex_profile\<lparr>p_use_trend_filter := False\<rparr>) = 120"
    by (simp_all add: ex_profile_def)
  have len: "length live_htf = 12" "live_htf \<noteq> []" "length live_ltf = 11" by code_simp+
  have start: "(case live_htf of [] \<Rightarrow> Inl IndexError | c # _ \<Rightarrow> Inr (c_timestamp c)) = (Inr 0 :: ms result)"
    by code_simp
  let ?m = "''scanner.'' @ ''XAUUSD'' @ ''.'' @ ''1h'' @ ''_'' @ ''5min''"
  have all: "take 11 live_ltf = live_ltf" using len(3) by simp
  have "\<exists>sv1. analyze_pair live_env ''XAUUSD'' 43500000 (''1h'', ''5min'') sv =
      scan_zones live_env (live_ctx ?m) 3600000 live_htf live_htf sv1 \<and> idle sv1 \<and> sv_pending sv1 = [] \<and>
      sv_events sv1 = sv_events sv"
    unfolding analyze_pair_def Let_def live_env_simps(1) live_profile live_intervals em bind_lift_Inr
      fst_conv snd_conv live_cfg_simps
    by (simp add: bindS_def live_now live_metric whenS_def returnS_def ticks_def readS_def live_env_simps
        liftR_def modS_def len look live_visible live_window all start live_ctx_def)
      (rule exI, rule conjI, rule HOL.refl, simp add: assms)
  then obtain sv1 where a: "analyze_pair live_env ''XAUUSD'' 43500000 (''1h'', ''5min'') sv =
      scan_zones live_env (live_ctx ?m) 3600000 live_htf live_htf sv1"
    and i1: "idle sv1" "sv_pending sv1 = []" and e1: "sv_events sv1 = sv_events sv"
    by blast
  show ?thesis using live_scan [OF i1, of ?m] unfolding a e1 .
qed

text \<open>The service as it starts, and what the analysis of noon leaves.\<close>

definition live_start :: service where
  "live_start = new_service ex_co"

lemma live_report:
  "\<exists>sv'. report_analysis live_env symbol t0 sv = (Inr (), sv') \<and> sv_watchlist sv' = sv_watchlist sv \<and>
    sv_events sv' = sv_events sv \<and> (told sv \<longrightarrow> told sv')"
  by (auto simp: report_analysis_def bindS_def live_now svc_stats_def readS_def live_metric whenS_def
      live_env_simps told_def Let_def split: prod.splits)

lemma live_analysis:
  "\<exists>s d p sv'. analyze live_env ''XAUUSD'' 43500000 live_start = (Inr [s], sv') \<and>
    sv_watchlist sv' = [(s_id s, s)] \<and> told sv' \<and>
    sv_events sv' = [(SIGNAL_PENDING, p), (SIGNAL_TRIGGERED, d)]"
proof -
  define sv1 where "sv1 ms = live_start\<lparr>sv_metrics := ms, sv_current_fired := [(''XAUUSD'', 43500000)],
    sv_co := ex_co\<lparr>co_ticks := Suc (Suc 0)\<rparr>\<rparr>" for ms
  have i1: "idle (sv1 ms)" "sv_pending (sv1 ms) = []" "sv_events (sv1 ms) = []" for ms
    by (simp_all add: idle_def sv1_def ex_co_def live_start_def new_service_def)
  let ?ms = "[M_AnalyzeStart ''XAUUSD'' 43500000, M_Gauge ''scanner.XAUUSD.analysis_fired_at'' 43500000]"
  from live_pair [OF i1(1,2), of ?ms] obtain s d p sv' where p:
    "analyze_pair live_env ''XAUUSD'' 43500000 (''1h'', ''5min'') (sv1 ?ms) = (Inr [s], sv')"
    "sv_watchlist sv' = [(s_id s, s)]" "told sv'"
    "sv_events sv' = [(SIGNAL_PENDING, p), (SIGNAL_TRIGGERED, d)]"
    unfolding i1(3) by auto
  have fields: "sv_co live_start = ex_co" "sv_current_fired live_start = []" "co_ticks ex_co = 0" "sv_metrics live_start = []"
    by (simp_all add: live_start_def new_service_def ex_co_def)
  obtain sv'' where r: "report_analysis live_env ''XAUUSD'' 43500000 sv' = (Inr (), sv'')"
    "sv_watchlist sv'' = sv_watchlist sv'" "sv_events sv'' = sv_events sv'" "told sv' \<longrightarrow> told sv''"
    using live_report by blast
  have "analyze live_env ''XAUUSD'' 43500000 live_start = (Inr [s], sv'')"
    unfolding analyze_def analyze_at_def live_env_simps(1) live_cfg_simps
    by (simp add: live_env_simps bindS_def live_now live_metric modS_def status_line_def fields sv1_def [symmetric] tryS_def p(1)
        r(1) returnS_def whenS_def)
  then show ?thesis using p(2-4) r(2-4) by auto
qed

section \<open>The properties of the service on this run\<close>

lemma live_chronological: "chronological live_env"
proof -
  have "sorted (map c_timestamp live_ltf)" by code_simp
  then show ?thesis by (auto simp: chronological_def live_env_simps)
qed

theorem analyze_no_lookahead_witness:
  "\<exists>s sv' m. analyze live_env ''XAUUSD'' 43500000 live_start = (Inr [s], sv') \<and>
     settings_interval_to_ms (s_ltf_interval s) = Inr m \<and>
     r_timestamp (s_rejection s) + m \<le> 43500000"
proof -
  obtain s sv' where a: "analyze live_env ''XAUUSD'' 43500000 live_start = (Inr [s], sv')"
    using live_analysis by blast
  from analyze_no_lookahead [OF live_chronological _ a, of s] a show ?thesis by fastforce
qed

lemma live_run:
  "(svc_step live_env)\<^sup>*\<^sup>* live_start (snd (analyze live_env ''XAUUSD'' 43500000 live_start))"
  by (rule r_into_rtranclp) (rule svc_step.analyze)

theorem triggered_at_most_once_witness:
  "\<exists>e k sv. (svc_step live_env)\<^sup>*\<^sup>* (new_service ex_co) sv \<and> e \<in> set (sv_events sv) \<and>
     fst e = SIGNAL_TRIGGERED \<and> announced_key (snd e) = Some k \<and> k \<in> ds_seen_rej (co_state (sv_co sv))"
proof -
  let ?sv = "snd (analyze live_env ''XAUUSD'' 43500000 live_start)"
  obtain d pend where "sv_events ?sv = pend @ [(SIGNAL_TRIGGERED, d)]"
    using live_analysis by auto
  then have e: "(SIGNAL_TRIGGERED, d) \<in> set (sv_events ?sv)" by simp
  have run: "(svc_step live_env)\<^sup>*\<^sup>* (new_service ex_co) ?sv" using live_run by (simp add: live_start_def)
  from conjunct2 [OF triggered_at_most_once [OF run]] e run show ?thesis by fastforce
qed

theorem watchlist_open_only_witness:
  "\<exists>s sv. (svc_step live_env)\<^sup>*\<^sup>* (new_service ex_co) sv \<and> sv_watchlist sv = [(s_id s, s)] \<and>
     is_open s \<and> get_active_signals sv = [s]"
proof -
  let ?sv = "snd (analyze live_env ''XAUUSD'' 43500000 live_start)"
  obtain s where w: "sv_watchlist ?sv = [(s_id s, s)]" using live_analysis by auto
  have run: "(svc_step live_env)\<^sup>*\<^sup>* (new_service ex_co) ?sv" using live_run by (simp add: live_start_def)
  from watchlist_open_only [OF run] w run show ?thesis by fastforce
qed

section \<open>A restart\<close>

text \<open>A coordinator whose store holds the worked example as an open signal.\<close>

definition ex_boot :: service where
  "ex_boot = new_service (ex_co\<lparr>co_store := empty_store\<lparr>tb_open :=
     upsert_row (row_of_signal ex_signal (JObj (signal_entries ex_signal 43800000)) 43800000) []\<rparr>\<rparr>)"

lemma ex_boot_rows: "load_open_signals (co_store (sv_co ex_boot)) = [JObj (signal_entries ex_signal 43800000)]"
  by (simp add: ex_boot_def new_service_def load_open_signals_def row_of_signal_def
      sort_key_def empty_store_def)

lemma ex_boot_restorable:
  "restorable ex_env 43800000 (JObj (signal_entries ex_signal 43800000)) (wire_normal ex_signal 43800000)"
proof -
  have "is_open (wire_normal ex_signal 43800000)" by (simp add: wire_normal_def ex_signal_def)
  moreover have "s_created_at (wire_normal ex_signal 43800000) = 43500000"
    by (simp add: wire_normal_def ex_signal_def ex_rejection_def)
  ultimately show ?thesis
    using from_to_dict [OF ex_close_at ex_no_chart]
    by (simp add: restorable_def ex_env_def default_settings_def)
qed

theorem initialize_restores_witness:
  "\<exists>r sv'. initialize ex_env ex_boot = (r, sv') \<and> ''id1'' \<in> fst ` set (sv_watchlist sv') \<and>
     rej_key_of (wire_normal ex_signal 43800000) \<in> ds_seen_rej (co_state (sv_co sv'))"
proof -
  obtain r sv' where i: "initialize ex_env ex_boot = (r, sv')" by (cases "initialize ex_env ex_boot")
  have now: "v_clk ex_env (co_ticks (sv_co ex_boot)) = 43800000" by (simp add: ex_env_def)
  have id: "s_id (wire_normal ex_signal 43800000) = ''id1''" by (simp add: wire_normal_def ex_id)
  from initialize_restores [OF i, unfolded Let_def now ex_boot_rows] ex_boot_restorable
  have "s_id (wire_normal ex_signal 43800000) \<in> fst ` set (sv_watchlist sv') \<and>
    rej_key_of (wire_normal ex_signal 43800000) \<in> ds_seen_rej (co_state (sv_co sv'))" by auto
  then show ?thesis using i id by simp
qed

end
