(* ===== verification/Accounting.thy ===== *)
theory Accounting
  imports Lifecycle
begin

text \<open>
  app/backtesting/backtest.py, the account simulation: what one trade does to a balance, the run
  of a list of results through an account with its two kill conditions, the equity curve, the
  risk sweep and the figures of the printed summary. Console output and files are left out; the
  rows written to them are values.
\<close>

section \<open>Rendering of times\<close>

text \<open>
  \<open>datetime.fromtimestamp(ms / 1000, tz=utc).strftime(..)\<close>: the civil date and the time
  of day.
\<close>

definition show_date :: "ms \<Rightarrow> string" where
  "show_date t = iso_date (utc_day t)"

definition show_datetime :: "ms \<Rightarrow> string" where
  "show_datetime t =
     (let s = utc_second_of_day t in
      show_date t @ '' '' @ pad2 (s div 3600) @ '':'' @ pad2 (s div 60 mod 60) @ '':'' @ pad2 (s mod 60))"

definition fmt_date :: "ms \<Rightarrow> string result" where
  "fmt_date t = bindR (from_timestamp t) (\<lambda>_. Inr (show_date t))"

definition fmt_datetime :: "ms \<Rightarrow> string result" where
  "fmt_datetime t = bindR (from_timestamp t) (\<lambda>_. Inr (show_datetime t))"

section \<open>Results\<close>

record backtest_result =
  br_signal :: trade_signal
  br_outcome :: signal_outcome
  br_realized_rr :: real
  br_close_ts :: "ms option"
  br_close_price :: "price option"
  br_hit_entry_after_tp1 :: bool
  br_trail_mfe_price :: "price option"
  br_trailed_sl :: "price option"
  br_trailing_giveback_pct :: real

definition mk_result ::
  "trade_signal \<Rightarrow> signal_outcome \<Rightarrow> real \<Rightarrow> ms option \<Rightarrow> price option \<Rightarrow> backtest_result" where
  "mk_result s oc rr ts px =
     \<lparr>br_signal = s, br_outcome = oc, br_realized_rr = rr, br_close_ts = ts, br_close_price = px,
      br_hit_entry_after_tp1 = False, br_trail_mfe_price = None, br_trailed_sl = None,
      br_trailing_giveback_pct = 0\<rparr>"

text \<open>A time of the row; \<open>None / 1000\<close> raises.\<close>

definition fmt_required :: "ms option \<Rightarrow> string result" where
  "fmt_required t = (case t of None \<Rightarrow> Inl TypeError | Some x \<Rightarrow> fmt_datetime x)"

definition fmt_truthy :: "ms option \<Rightarrow> string result" where
  "fmt_truthy t = (if int_or t 0 = 0 then Inr [] else fmt_datetime (int_or t 0))"

definition round_or_blank :: "price option \<Rightarrow> json" where
  "round_or_blank px = (case px of None \<Rightarrow> JStr [] | Some x \<Rightarrow> JFloat (py_round 5 x))"

definition actionable_at :: "trade_signal \<Rightarrow> ms result" where
  "actionable_at s =
     (if int_or (s_setup_close_at s) 0 \<noteq> 0 then Inr (int_or (s_setup_close_at s) 0)
      else bindR (interval_to_minutes (s_ltf_interval s))
             (\<lambda>m. Inr (r_timestamp (s_rejection s) + m * 60 * 1000)))"

definition result_row :: "backtest_result \<Rightarrow> (string \<times> json) list result" where
  "result_row r =
     (let s = br_signal r in
      bindR (fmt_datetime (int_or (s_setup_open_at s) (r_timestamp (s_rejection s)))) (\<lambda>setup_dt.
      bindR (bindR (actionable_at s) fmt_datetime) (\<lambda>actionable_dt.
      bindR (fmt_required (s_triggered_at s)) (\<lambda>entry_dt.
      bindR (fmt_truthy (br_close_ts r)) (\<lambda>close_dt.
      Inr [(''id'', JStr (s_id s)), (''symbol'', JStr (s_symbol s)),
           (''direction'', JStr (direction_value (s_direction s))),
           (''setup_dt'', JStr setup_dt), (''actionable_dt'', JStr actionable_dt),
           (''entry_dt'', JStr entry_dt), (''close_dt'', JStr close_dt),
           (''entry'', JFloat (py_round 5 (s_entry_price s))),
           (''sl'', JFloat (py_round 5 (s_stop_loss s))),
           (''tp1'', JFloat (py_round 5 (s_tp1 s))), (''tp2'', JFloat (py_round 5 (s_tp2 s))),
           (''rr'', JFloat (py_round 3 (s_rr s))),
           (''outcome'', JStr (outcome_value (br_outcome r))),
           (''realized_rr'', JFloat (py_round 3 (br_realized_rr r))),
           (''hit_entry_after_tp1'', JBool (br_hit_entry_after_tp1 r)),
           (''trail_mfe_price'', round_or_blank (br_trail_mfe_price r)),
           (''trailed_sl'', round_or_blank (br_trailed_sl r)),
           (''trailing_giveback_pct'', JFloat (br_trailing_giveback_pct r)),
           (''htf_interval'', JStr (s_htf_interval s)), (''ltf_interval'', JStr (s_ltf_interval s)),
           (''pattern'', JStr (pattern_value (r_pattern (s_rejection s)))),
           (''zone_attempt'', JInt (s_zone_attempt s)),
           (''wick_ratio'', JFloat (py_round 3 (r_wick_ratio (s_rejection s)))),
           (''htf_high'', JFloat (py_round 5 (z_range_high (s_htf_range s)))),
           (''htf_low'', JFloat (py_round 5 (z_range_low (s_htf_range s)))),
           (''tp_level'', JFloat (py_round 5 (z_tp_level (s_htf_range s))))])))))"

section \<open>One trade\<close>

record trade_accounting =
  ta_risk_amount :: real
  ta_pnl :: real
  ta_balance_after :: real
  ta_peak_after :: real
  ta_drawdown_after :: real
  ta_drawdown_pct_after :: real

definition calculate_trade_accounting ::
  "real \<Rightarrow> real \<Rightarrow> real \<Rightarrow> real \<Rightarrow> real option \<Rightarrow> trade_accounting" where
  "calculate_trade_accounting balance_before result_r risk_percent peak_before risk_basis =
     (let risk_amount = (case risk_basis of None \<Rightarrow> balance_before | Some b \<Rightarrow> b) * (risk_percent / 100);
          pnl = result_r * risk_amount;
          balance_after = balance_before + pnl;
          peak_after = max peak_before balance_after;
          drawdown_after = peak_after - balance_after
      in \<lparr>ta_risk_amount = risk_amount, ta_pnl = pnl, ta_balance_after = balance_after,
          ta_peak_after = peak_after, ta_drawdown_after = drawdown_after,
          ta_drawdown_pct_after = (if 0 < peak_after then drawdown_after / peak_after * 100 else 0)\<rparr>)"

section \<open>The account\<close>

record report =
  rp_symbol :: string
  rp_results :: "backtest_result list"
  rp_cfg :: settings
  rp_start_balance :: real
  rp_risk_percent :: real
  rp_trailing_giveback_pct :: real
  rp_risk_type :: string
  rp_max_trailing_dd_pct :: "real option"
  rp_max_total_loss_pct :: "real option"
  rp_profile :: asset_profile

definition new_report ::
  "string \<Rightarrow> backtest_result list \<Rightarrow> settings \<Rightarrow> real \<Rightarrow> real \<Rightarrow> real \<Rightarrow> string \<Rightarrow> real option \<Rightarrow>
   real option \<Rightarrow> report result" where
  "new_report symbol rs cfg start risk giveback rtype mtr mtl =
     bindR (registry_get cfg symbol None None) (\<lambda>p.
       Inr \<lparr>rp_symbol = symbol, rp_results = rs, rp_cfg = cfg, rp_start_balance = start,
            rp_risk_percent = risk, rp_trailing_giveback_pct = giveback, rp_risk_type = rtype,
            rp_max_trailing_dd_pct = mtr, rp_max_total_loss_pct = mtl, rp_profile = p\<rparr>)"

datatype kill_reason = TrailingDD real | TotalLoss real

record blown_info =
  bl_reason :: kill_reason
  bl_trade_index :: nat
  bl_trade_date :: string
  bl_balance :: real
  bl_floor :: real
  bl_peak :: real

record per_trade = trade_accounting +
  pt_balance_before :: real
  pt_theoretical_rr :: real
  pt_executed_rr :: real
  pt_raw_entry :: price
  pt_executed_entry :: price
  pt_raw_exit :: price
  pt_executed_exit :: price
  pt_blown :: bool

text \<open>The parameters of one run, after the overrides are resolved.\<close>

record account =
  ac_start :: real
  ac_risk_percent :: real
  ac_risk_type :: string
  ac_max_trailing_dd_pct :: "real option"
  ac_max_total_loss_pct :: "real option"

definition fixed_basis :: "account \<Rightarrow> real option" where
  "fixed_basis a = (if ac_risk_type a = ''fixed'' then Some (ac_start a) else None)"

definition total_floor :: "account \<Rightarrow> real option" where
  "total_floor a = map_option (\<lambda>mtl. ac_start a * (1 - mtl / 100)) (ac_max_total_loss_pct a)"

definition trade_date :: "backtest_result \<Rightarrow> string result" where
  "trade_date r =
     (if int_or (br_close_ts r) 0 = 0 then Inr ''?'' else fmt_date (int_or (br_close_ts r) 0))"

text \<open>The kill conditions, the trailing drawdown first.\<close>

definition kill_check :: "account \<Rightarrow> nat \<Rightarrow> string \<Rightarrow> trade_accounting \<Rightarrow> blown_info option" where
  "kill_check a idx date acct =
     (let info = (\<lambda>reason floor. \<lparr>bl_reason = reason, bl_trade_index = idx, bl_trade_date = date,
                    bl_balance = ta_balance_after acct, bl_floor = floor,
                    bl_peak = ta_peak_after acct\<rparr>);
          total = (case (total_floor a, ac_max_total_loss_pct a) of
                     (Some fl, Some mtl) \<Rightarrow>
                       if ta_balance_after acct < fl then Some (info (TotalLoss mtl) fl) else None
                   | _ \<Rightarrow> None)
      in case ac_max_trailing_dd_pct a of
           None \<Rightarrow> total
         | Some mtr \<Rightarrow>
             let fl = ta_peak_after acct * (1 - mtr / 100) in
             if ta_balance_after acct < fl then Some (info (TrailingDD mtr) fl) else total)"

record account_state =
  as_balance :: real
  as_peak :: real
  as_max_dd :: real
  as_max_dd_pct :: real
  as_blown :: "blown_info option"

definition init_account :: "account \<Rightarrow> account_state" where
  "init_account a = \<lparr>as_balance = ac_start a, as_peak = ac_start a, as_max_dd = 0, as_max_dd_pct = 0,
     as_blown = None\<rparr>"

definition exit_price :: "backtest_result \<Rightarrow> price" where
  "exit_price r =
     (case br_close_price r of
        None \<Rightarrow> s_entry_price (br_signal r)
      | Some px \<Rightarrow> if px = 0 then s_entry_price (br_signal r) else px)"

definition book_trade ::
  "account \<Rightarrow> nat \<Rightarrow> account_state \<Rightarrow> backtest_result \<Rightarrow> (per_trade \<times> account_state) result" where
  "book_trade a idx st r =
     (let entry = s_entry_price (br_signal r);
          acct = calculate_trade_accounting (as_balance st) (br_realized_rr r) (ac_risk_percent a)
                   (as_peak st) (fixed_basis a)
      in bindR (trade_date r) (\<lambda>date.
      let blown = kill_check a idx date acct in
      Inr (trade_accounting.extend acct
             \<lparr>pt_balance_before = as_balance st, pt_theoretical_rr = br_realized_rr r,
              pt_executed_rr = br_realized_rr r, pt_raw_entry = entry, pt_executed_entry = entry,
              pt_raw_exit = exit_price r, pt_executed_exit = exit_price r,
              pt_blown = (blown \<noteq> None)\<rparr>,
           \<lparr>as_balance = ta_balance_after acct, as_peak = ta_peak_after acct,
            as_max_dd = max (as_max_dd st) (ta_drawdown_after acct),
            as_max_dd_pct = max (as_max_dd_pct st) (ta_drawdown_pct_after acct),
            as_blown = blown\<rparr>)))"

text \<open>The loop, which stops after the trade that blows the account.\<close>

fun run_account ::
  "account \<Rightarrow> nat \<Rightarrow> account_state \<Rightarrow> backtest_result list \<Rightarrow> (per_trade list \<times> account_state) result" where
  "run_account a idx st [] = Inr ([], st)"
| "run_account a idx st (r # rs) =
     bindR (book_trade a idx st r) (\<lambda>(row, st').
       if as_blown st' \<noteq> None then Inr ([row], st')
       else bindR (run_account a (Suc idx) st' rs) (\<lambda>(rows, st''). Inr (row # rows, st'')))"

record summary =
  sm_start_balance :: real
  sm_final_balance :: real
  sm_net_pnl :: real
  sm_net_pnl_pct :: real
  sm_max_drawdown :: real
  sm_max_drawdown_pct :: real
  sm_gross_profit :: real
  sm_gross_loss :: real
  sm_profit_factor :: "real option"
  sm_avg_pnl :: real
  sm_avg_win_pnl :: real
  sm_avg_loss_pnl :: real
  sm_best_trade_pnl :: real
  sm_worst_trade_pnl :: real
  sm_blown :: "blown_info option"

definition mean_or_0 :: "real list \<Rightarrow> real" where
  "mean_or_0 xs = (if xs = [] then 0 else sum_list xs / of_nat (length xs))"

definition max_or_0 :: "real list \<Rightarrow> real" where
  "max_or_0 xs = (case xs of [] \<Rightarrow> 0 | x # ys \<Rightarrow> max_by (\<lambda>v. v) x ys)"

definition min_or_0 :: "real list \<Rightarrow> real" where
  "min_or_0 xs = (case xs of [] \<Rightarrow> 0 | x # ys \<Rightarrow> min_by (\<lambda>v. v) x ys)"

definition summarize :: "account \<Rightarrow> per_trade list \<Rightarrow> account_state \<Rightarrow> summary" where
  "summarize a rows st =
     (let final = as_balance st;
          net_pnl = final - ac_start a;
          pnls = map ta_pnl rows;
          wins_pnl = filter (\<lambda>p. 0 < p) pnls;
          losses_pnl = filter (\<lambda>p. p < 0) pnls;
          gross_profit = sum_list wins_pnl;
          gross_loss = \<bar>sum_list losses_pnl\<bar>
      in \<lparr>sm_start_balance = ac_start a, sm_final_balance = final, sm_net_pnl = net_pnl,
          sm_net_pnl_pct = (if 0 < ac_start a then net_pnl / ac_start a * 100 else 0),
          sm_max_drawdown = as_max_dd st, sm_max_drawdown_pct = as_max_dd_pct st,
          sm_gross_profit = gross_profit, sm_gross_loss = gross_loss,
          sm_profit_factor = (if 0 < gross_loss then Some (gross_profit / gross_loss) else None),
          sm_avg_pnl = mean_or_0 pnls, sm_avg_win_pnl = mean_or_0 wins_pnl,
          sm_avg_loss_pnl = mean_or_0 losses_pnl, sm_best_trade_pnl = max_or_0 pnls,
          sm_worst_trade_pnl = min_or_0 pnls, sm_blown = as_blown st\<rparr>)"

definition either :: "'a option \<Rightarrow> 'a option \<Rightarrow> 'a option" where
  "either ov dflt = (case ov of None \<Rightarrow> dflt | Some x \<Rightarrow> Some x)"

definition account_of ::
  "report \<Rightarrow> real option \<Rightarrow> string option \<Rightarrow> real option \<Rightarrow> real option \<Rightarrow> account" where
  "account_of rp risk_percent risk_type mtr mtl =
     \<lparr>ac_start = rp_start_balance rp,
      ac_risk_percent = the (either risk_percent (Some (rp_risk_percent rp))),
      ac_risk_type = the (either risk_type (Some (rp_risk_type rp))),
      ac_max_trailing_dd_pct = either mtr (rp_max_trailing_dd_pct rp),
      ac_max_total_loss_pct = either mtl (rp_max_total_loss_pct rp)\<rparr>"

definition compute_accounting ::
  "account \<Rightarrow> backtest_result list \<Rightarrow> (per_trade list \<times> summary) result" where
  "compute_accounting a rs =
     bindR (run_account a 0 (init_account a) rs) (\<lambda>(rows, st). Inr (rows, summarize a rows st))"

section \<open>What is shown and saved\<close>

record curve_point =
  cp_time :: string
  cp_balance :: real
  cp_pnl :: real
  cp_result_r :: real
  cp_drawdown :: real
  cp_drawdown_pct :: real

definition curve_row :: "backtest_result \<times> per_trade \<Rightarrow> curve_point result" where
  "curve_row ra =
     (case ra of (r, a) \<Rightarrow>
        bindR (fmt_truthy (br_close_ts r)) (\<lambda>t.
        Inr \<lparr>cp_time = t, cp_balance = py_round 2 (ta_balance_after a), cp_pnl = py_round 2 (ta_pnl a),
             cp_result_r = py_round 4 (br_realized_rr r), cp_drawdown = py_round 2 (ta_drawdown_after a),
             cp_drawdown_pct = py_round 4 (ta_drawdown_pct_after a)\<rparr>))"

definition build_equity_curve ::
  "real \<Rightarrow> backtest_result list \<Rightarrow> per_trade list \<Rightarrow> curve_point list result" where
  "build_equity_curve start rs rows =
     bindR (mapR curve_row (zip rs rows)) (\<lambda>pts.
       Inr (\<lparr>cp_time = [], cp_balance = start, cp_pnl = 0, cp_result_r = 0, cp_drawdown = 0,
             cp_drawdown_pct = 0\<rparr> # pts))"

definition SWEEP_RISK_LEVELS :: "real list" where
  "SWEEP_RISK_LEVELS = [0.25, 0.5, 0.75, 1, 1.25, 1.5, 2, 2.5, 3, 5]"

record sweep_row =
  sw_risk :: real
  sw_summary :: summary
  sw_trades_run :: nat
  sw_current :: bool

definition sweep_level :: "report \<Rightarrow> real option \<Rightarrow> real option \<Rightarrow> real \<Rightarrow> sweep_row result" where
  "sweep_level rp mtr mtl level =
     bindR (compute_accounting (account_of rp (Some level) None mtr mtl) (rp_results rp)) (\<lambda>(rows, sm).
       Inr \<lparr>sw_risk = level, sw_summary = sm,
            sw_trades_run = (case sm_blown sm of None \<Rightarrow> length (rp_results rp)
                             | Some b \<Rightarrow> bl_trade_index b + 1),
            sw_current = (\<bar>level - rp_risk_percent rp\<bar> < 0.001)\<rparr>)"

fun first_blown :: "sweep_row list \<Rightarrow> real option" where
  "first_blown [] = None"
| "first_blown (w # ws) =
     (if sm_blown (sw_summary w) \<noteq> None then Some (sw_risk w) else first_blown ws)"

text \<open>The table and the level named as the first to blow; nothing is shown without results.\<close>

definition risk_sweep ::
  "report \<Rightarrow> real list \<Rightarrow> real option \<Rightarrow> real option \<Rightarrow> (sweep_row list \<times> real option) option result" where
  "risk_sweep rp levels0 mtr0 mtl0 =
     (if rp_results rp = [] then Inr None
      else
        let levels = (if levels0 = [] then SWEEP_RISK_LEVELS else levels0);
            mtr = either mtr0 (rp_max_trailing_dd_pct rp);
            mtl = either mtl0 (rp_max_total_loss_pct rp)
        in bindR (mapR (sweep_level rp mtr mtl) levels) (\<lambda>ws. Inr (Some (ws, first_blown ws))))"

text \<open>The figures of \<open>_print_summary\<close>; a profit factor over no loss is infinite, here \<open>None\<close>.\<close>

record figures =
  fg_wins :: nat
  fg_losses :: nat
  fg_breakevens :: nat
  fg_invalidated :: nat
  fg_expired :: nat
  fg_closed :: nat
  fg_longs :: nat
  fg_shorts :: nat
  fg_total_r :: real
  fg_win_rate :: real
  fg_profit_factor :: "real option"
  fg_avg_win :: "real option"
  fg_avg_loss :: "real option"

definition of_outcome :: "signal_outcome \<Rightarrow> backtest_result list \<Rightarrow> backtest_result list" where
  "of_outcome oc rs = filter (\<lambda>r. br_outcome r = oc) rs"

definition of_direction :: "signal_direction \<Rightarrow> backtest_result list \<Rightarrow> backtest_result list" where
  "of_direction d rs = filter (\<lambda>r. s_direction (br_signal r) = d) rs"

definition total_rr :: "backtest_result list \<Rightarrow> real" where
  "total_rr rs = sum_list (map br_realized_rr rs)"

definition summary_figures :: "backtest_result list \<Rightarrow> figures" where
  "summary_figures rs =
     (let wins = of_outcome O_WIN_FULL rs; losses = of_outcome O_LOSS rs;
          bes = of_outcome O_BREAKEVEN rs;
          closed = wins @ losses @ bes;
          pf_num = total_rr (wins @ bes); pf_den = \<bar>total_rr losses\<bar>
      in \<lparr>fg_wins = length wins, fg_losses = length losses, fg_breakevens = length bes,
          fg_invalidated = length (of_outcome O_INVALIDATED rs),
          fg_expired = length (of_outcome O_EXPIRED rs), fg_closed = length closed,
          fg_longs = length (of_direction LONG rs), fg_shorts = length (of_direction SHORT rs),
          fg_total_r = total_rr rs,
          fg_win_rate = (if closed = [] then 0 else of_nat (length wins) / of_nat (length closed) * 100),
          fg_profit_factor = (if pf_den = 0 then None else Some (pf_num / pf_den)),
          fg_avg_win = (if wins = [] \<and> bes = [] then None
                        else Some (total_rr (wins @ bes) / of_nat (length (wins @ bes)))),
          fg_avg_loss = (if losses = [] then None else Some (total_rr losses / of_nat (length losses)))\<rparr>)"

text \<open>One line per direction, each with an account of its own.\<close>

definition direction_line ::
  "account \<Rightarrow> signal_direction \<Rightarrow> backtest_result list \<Rightarrow> (figures \<times> summary) option result" where
  "direction_line a d rs =
     (let subset = of_direction d rs in
      if subset = [] then Inr None
      else bindR (compute_accounting a subset) (\<lambda>(rows, sm). Inr (Some (summary_figures subset, sm))))"

text \<open>The window of ratios of the pairs that occur: a single value or a range, \<open>RR_Inf\<close> for no cap.\<close>

datatype rr_bound = RR_One real | RR_Range real real | RR_Inf

definition rr_span :: "real list \<Rightarrow> rr_bound" where
  "rr_span vs =
     (let us = sorted_list_of_set (set vs) in
      if length us = 1 then RR_One (hd us) else RR_Range (hd us) (last us))"

definition pairs_of :: "backtest_result list \<Rightarrow> (string \<times> string) list" where
  "pairs_of rs =
     remdups (filter (\<lambda>(h, l). h \<noteq> [] \<and> l \<noteq> [])
       (map (\<lambda>r. (s_htf_interval (br_signal r), s_ltf_interval (br_signal r))) rs))"

definition rr_window_for_results ::
  "report \<Rightarrow> backtest_result list \<Rightarrow> asset_profile \<Rightarrow> (rr_bound \<times> rr_bound) result" where
  "rr_window_for_results rp rs fallback =
     (let pairs = pairs_of rs in
      if pairs = []
      then Inr (RR_One (p_min_rr fallback),
                if p_max_rr fallback = 0 then RR_Inf else RR_One (p_max_rr fallback))
      else
        bindR (mapR (\<lambda>(h, l). registry_get (rp_cfg rp) (rp_symbol rp) (Some h) (Some l)) pairs) (\<lambda>ps.
        Inr (rr_span (map p_min_rr ps),
             if list_ex (\<lambda>p. p_max_rr p = 0) ps then RR_Inf else rr_span (map p_max_rr ps))))"

text \<open>The accounting columns of a saved row.\<close>

definition acct_columns :: "per_trade \<Rightarrow> (string \<times> json) list" where
  "acct_columns a =
     map (\<lambda>(k, v). (k, JFloat (py_round 6 v)))
       [(''balance_before'', pt_balance_before a), (''risk_amount'', ta_risk_amount a),
        (''pnl'', ta_pnl a), (''balance_after'', ta_balance_after a),
        (''peak_balance_after'', ta_peak_after a), (''drawdown_after'', ta_drawdown_after a),
        (''drawdown_pct_after'', ta_drawdown_pct_after a),
        (''theoretical_rr'', pt_theoretical_rr a), (''executed_rr'', pt_executed_rr a),
        (''raw_entry_price'', pt_raw_entry a), (''executed_entry_price'', pt_executed_entry a),
        (''raw_exit_price'', pt_raw_exit a), (''executed_exit_price'', pt_executed_exit a)]"

definition saved_row :: "backtest_result \<times> per_trade \<Rightarrow> (string \<times> json) list result" where
  "saved_row ra = (case ra of (r, a) \<Rightarrow> bindR (result_row r) (\<lambda>d. Inr (d @ acct_columns a)))"

definition csv_rows :: "account \<Rightarrow> backtest_result list \<Rightarrow> (string \<times> json) list list result" where
  "csv_rows a rs =
     (if rs = [] then Inr []
      else bindR (compute_accounting a rs) (\<lambda>(rows, sm). mapR saved_row (zip rs rows)))"

definition blown_json :: "(real \<Rightarrow> string) \<Rightarrow> blown_info \<Rightarrow> json" where
  "blown_json repr b =
     JObj [(''reason'', JStr (case bl_reason b of
              TrailingDD p \<Rightarrow> ''trailing DD >'' @ repr p @ ''%''
            | TotalLoss p \<Rightarrow> ''total loss >'' @ repr p @ ''%'')),
           (''trade_index'', JInt (int (bl_trade_index b))), (''trade_date'', JStr (bl_trade_date b)),
           (''balance_at_blow'', JFloat (bl_balance b)), (''floor'', JFloat (bl_floor b)),
           (''peak_at_blow'', JFloat (bl_peak b))]"

definition summary_json :: "(real \<Rightarrow> string) \<Rightarrow> summary \<Rightarrow> json" where
  "summary_json repr sm =
     JObj (map (\<lambda>(k, v). (k, JFloat (py_round 6 v)))
             [(''start_balance'', sm_start_balance sm), (''final_balance'', sm_final_balance sm),
              (''net_pnl'', sm_net_pnl sm), (''net_pnl_pct'', sm_net_pnl_pct sm),
              (''max_drawdown'', sm_max_drawdown sm), (''max_drawdown_pct'', sm_max_drawdown_pct sm),
              (''gross_profit'', sm_gross_profit sm), (''gross_loss'', sm_gross_loss sm)] @
           [(''profit_factor_dollar'', case sm_profit_factor sm of None \<Rightarrow> JNull
                                       | Some v \<Rightarrow> JFloat (py_round 6 v))] @
           map (\<lambda>(k, v). (k, JFloat (py_round 6 v)))
             [(''avg_pnl'', sm_avg_pnl sm), (''avg_win_pnl'', sm_avg_win_pnl sm),
              (''avg_loss_pnl'', sm_avg_loss_pnl sm), (''best_trade_pnl'', sm_best_trade_pnl sm),
              (''worst_trade_pnl'', sm_worst_trade_pnl sm)] @
           [(''blown'', case sm_blown sm of None \<Rightarrow> JNull | Some b \<Rightarrow> blown_json repr b)])"

definition curve_json :: "curve_point \<Rightarrow> json" where
  "curve_json p =
     JObj [(''time'', JStr (cp_time p)), (''balance'', JFloat (cp_balance p)),
           (''pnl'', JFloat (cp_pnl p)), (''result_r'', JFloat (cp_result_r p)),
           (''drawdown'', JFloat (cp_drawdown p)), (''drawdown_pct'', JFloat (cp_drawdown_pct p))]"

text \<open>\<open>repr\<close> stands for Python's rendering of a float.\<close>

definition report_json :: "(real \<Rightarrow> string) \<Rightarrow> report \<Rightarrow> json result" where
  "report_json repr rp =
     (let a = account_of rp None None None None; rs = rp_results rp in
      bindR (compute_accounting a rs) (\<lambda>(rows, sm).
      bindR (build_equity_curve (ac_start a) rs rows) (\<lambda>curve.
      bindR (mapR saved_row (zip rs rows)) (\<lambda>trades.
      Inr (JObj
        [(''summary'', summary_json repr sm), (''risk_percent'', JFloat (rp_risk_percent rp)),
         (''trailing_giveback_pct'', JFloat (rp_trailing_giveback_pct rp)),
         (''equity_curve'', JArr (map curve_json curve)),
         (''trades'', JArr (map JObj trades))])))))"

end
