(* ===== verification/Trailing.thy ===== *)
theory Trailing
  imports Accounting
begin

text \<open>
  app/backtesting/backtest.py, the simulation of one signal over the candles that follow it: the
  shared replay, or the stop that follows the best price and gives back a part of the move.
\<close>

section \<open>Definitions\<close>

text \<open>A signal with no distance to its stop would divide by zero; built signals have one.\<close>

definition rr_at_price :: "trade_signal \<Rightarrow> price \<Rightarrow> real" where
  "rr_at_price s px =
     (if s_direction s = LONG then (px - s_entry_price s) / s_risk_pips s
      else (s_entry_price s - px) / s_risk_pips s)"

record trail =
  tr_sl :: price
  tr_mfe :: "price option"
  tr_trailed :: "price option"

definition price_or :: "price option \<Rightarrow> price \<Rightarrow> price" where
  "price_or a b = (case a of None \<Rightarrow> b | Some x \<Rightarrow> if x = 0 then b else x)"

definition advance_giveback_sl :: "real \<Rightarrow> trade_signal \<Rightarrow> candle \<Rightarrow> trail \<Rightarrow> trail" where
  "advance_giveback_sl pct s c t =
     (let entry = s_entry_price s in
      if s_direction s = LONG
      then
        let best = max (price_or (tr_mfe t) (c_high c)) (c_high c); move = best - entry in
        if move \<le> 0 then t\<lparr>tr_mfe := Some best\<rparr>
        else
          let proposed = entry + move * (1 - pct / 100) in
          if tr_sl t < proposed \<and> proposed < c_close c
          then \<lparr>tr_sl = proposed, tr_mfe = Some best, tr_trailed = Some proposed\<rparr>
          else t\<lparr>tr_mfe := Some best\<rparr>
      else
        let best = min (price_or (tr_mfe t) (c_low c)) (c_low c); move = entry - best in
        if move \<le> 0 then t\<lparr>tr_mfe := Some best\<rparr>
        else
          let proposed = entry - move * (1 - pct / 100) in
          if proposed < tr_sl t \<and> c_close c < proposed
          then \<lparr>tr_sl = proposed, tr_mfe = Some best, tr_trailed = Some proposed\<rparr>
          else t\<lparr>tr_mfe := Some best\<rparr>)"

text \<open>What the loop over the candles carries; the signal is the copy being probed.\<close>

record probe =
  pr_signal :: trade_signal
  pr_trail :: trail
  pr_tp1_seen :: bool
  pr_hit_entry :: bool

definition trailing_result ::
  "real \<Rightarrow> probe \<Rightarrow> signal_outcome \<Rightarrow> real \<Rightarrow> ms \<Rightarrow> price \<Rightarrow> bool \<Rightarrow> backtest_result" where
  "trailing_result pct pr oc rr ts px tp2_hit =
     (let s1 = (pr_signal pr)\<lparr>s_outcome := Some oc, s_realized_rr := Some rr,
                              s_close_price := Some px, s_closed_at := Some ts\<rparr>;
          s2 = (if tp2_hit then s1\<lparr>s_tp2_hit_at := Some ts\<rparr> else s1)
      in \<lparr>br_signal = s2, br_outcome = oc, br_realized_rr = rr, br_close_ts = Some ts,
          br_close_price = Some px, br_hit_entry_after_tp1 = pr_hit_entry pr,
          br_trail_mfe_price = tr_mfe (pr_trail pr), br_trailed_sl = tr_trailed (pr_trail pr),
          br_trailing_giveback_pct = pct\<rparr>)"

text \<open>The signal is beyond its expiry when the first candle after it is seen.\<close>

definition trailing_expired :: "real \<Rightarrow> asset_profile \<Rightarrow> probe \<Rightarrow> candle \<Rightarrow> backtest_result" where
  "trailing_expired pct p pr c =
     (if pr_tp1_seen pr \<and> p_move_sl_to_be_on_tp1 p
      then trailing_result pct pr O_BREAKEVEN (protected_be_rr (pr_signal pr) p) (c_timestamp c)
             (protected_be_price (pr_signal pr) p) False
      else trailing_result pct pr O_EXPIRED 0 (c_timestamp c) (c_close c) False)"

definition trailing_stop_out :: "real \<Rightarrow> asset_profile \<Rightarrow> probe \<Rightarrow> candle \<Rightarrow> price \<Rightarrow> backtest_result" where
  "trailing_stop_out pct p pr c effective_sl =
     (if pr_tp1_seen pr \<and> p_move_sl_to_be_on_tp1 p
      then trailing_result pct pr O_BREAKEVEN
             (max (protected_be_rr (pr_signal pr) p) (rr_at_price (pr_signal pr) effective_sl))
             (c_timestamp c) effective_sl False
      else trailing_result pct pr O_LOSS (- 1) (c_timestamp c) (s_stop_loss (pr_signal pr)) False)"

text \<open>One candle: \<open>Inl\<close> a result that ends the loop, \<open>Inr\<close> the probe to go on with.\<close>

definition trailing_step ::
  "real \<Rightarrow> asset_profile \<Rightarrow> int \<Rightarrow> probe \<Rightarrow> candle \<Rightarrow> backtest_result + probe" where
  "trailing_step pct p cutoff pr c =
     (if cutoff < c_timestamp c then Inl (trailing_expired pct p pr c)
      else
        let s = pr_signal pr; moves = p_move_sl_to_be_on_tp1 p;
            tp1_now = hits_target s c (s_tp1 s);
            tp2_now = hits_target s c (s_tp2 s);
            effective_sl = (if pr_tp1_seen pr \<and> moves then tr_sl (pr_trail pr) else s_stop_loss s);
            sl_now = hits_stop s c effective_sl;
            pr1 = (if pr_tp1_seen pr \<and> hits_stop s c (s_entry_price s)
                   then pr\<lparr>pr_hit_entry := True\<rparr> else pr)
        in
        if (pr_tp1_seen pr \<or> tp1_now) \<and> tp2_now
        then Inl (trailing_result pct pr1 O_WIN_FULL (s_rr s) (c_timestamp c) (s_tp2 s) True)
        else if sl_now then Inl (trailing_stop_out pct p pr1 c effective_sl)
        else
          let pr2 = (if tp1_now \<and> \<not> pr_tp1_seen pr
                     then pr1\<lparr>pr_tp1_seen := True, pr_signal := s\<lparr>s_tp1_hit_at := Some (c_timestamp c)\<rparr>,
                              pr_trail := (pr_trail pr1)\<lparr>tr_sl :=
                                (if moves then protected_be_price s p else s_stop_loss s)\<rparr>\<rparr>
                     else pr1)
          in Inr (if pr_tp1_seen pr2 \<and> moves
                  then pr2\<lparr>pr_trail := advance_giveback_sl pct (pr_signal pr2) c (pr_trail pr2)\<rparr>
                  else pr2))"

fun trailing_loop :: "real \<Rightarrow> asset_profile \<Rightarrow> int \<Rightarrow> candle list \<Rightarrow> probe \<Rightarrow> backtest_result" where
  "trailing_loop pct p cutoff [] pr =
     (mk_result (pr_signal pr) O_EXPIRED 0 None None)
       \<lparr>br_hit_entry_after_tp1 := pr_hit_entry pr, br_trail_mfe_price := tr_mfe (pr_trail pr),
        br_trailed_sl := tr_trailed (pr_trail pr), br_trailing_giveback_pct := pct\<rparr>"
| "trailing_loop pct p cutoff (c # cs) pr =
     (case trailing_step pct p cutoff pr c of Inl r \<Rightarrow> r | Inr pr' \<Rightarrow> trailing_loop pct p cutoff cs pr')"

definition init_probe :: "trade_signal \<Rightarrow> probe" where
  "init_probe s =
     \<lparr>pr_signal = s, pr_trail = \<lparr>tr_sl = s_stop_loss s, tr_mfe = None, tr_trailed = None\<rparr>,
      pr_tp1_seen = False, pr_hit_entry = False\<rparr>"

definition expiry_cutoff :: "trade_signal \<Rightarrow> asset_profile \<Rightarrow> int" where
  "expiry_cutoff s p = trunc (of_int (s_created_at s) + p_signal_expiry_hours p * 3600000)"

definition simulate_with_giveback_trailing ::
  "real \<Rightarrow> trade_signal \<Rightarrow> candle list \<Rightarrow> asset_profile \<Rightarrow> backtest_result" where
  "simulate_with_giveback_trailing pct s future p =
     (if future = [] then mk_result s O_EXPIRED 0 None None
      else trailing_loop pct p (expiry_cutoff s p) future (init_probe s))"

text \<open>
  The dispatch: no candle left, trailing, or the shared replay. A signal the replay leaves open
  is reported as expired without a closing time.
\<close>

definition replay_result :: "trade_signal \<Rightarrow> backtest_result" where
  "replay_result s =
     (case s_outcome s of
        None \<Rightarrow> mk_result s O_EXPIRED 0 None None
      | Some oc \<Rightarrow> mk_result s oc (case s_realized_rr s of None \<Rightarrow> 0 | Some r \<Rightarrow> r) (s_closed_at s)
                    (s_close_price s))"

definition simulate ::
  "settings \<Rightarrow> real \<Rightarrow> trade_signal \<Rightarrow> candle list \<Rightarrow> backtest_result result" where
  "simulate cfg pct s future =
     (if future = [] then Inr (mk_result s O_EXPIRED 0 None None)
      else
        bindR (registry_get cfg (s_symbol s) (Some (s_htf_interval s)) (Some (s_ltf_interval s))) (\<lambda>p.
        if 0 < pct then Inr (simulate_with_giveback_trailing pct s future p)
        else bindR (replay_signal_lifecycle s (map raw_of future) p) (\<lambda>r. Inr (replay_result r))))"

section \<open>The trailing stop\<close>

text \<open>On the protected side of the entry: at or beyond it, towards the target.\<close>

definition protects :: "trade_signal \<Rightarrow> price \<Rightarrow> bool" where
  "protects s sl \<longleftrightarrow> (if s_direction s = LONG then s_entry_price s \<le> sl else sl \<le> s_entry_price s)"

definition no_looser :: "trade_signal \<Rightarrow> price \<Rightarrow> price \<Rightarrow> bool" where
  "no_looser s sl sl' \<longleftrightarrow> (if s_direction s = LONG then sl \<le> sl' else sl' \<le> sl)"

lemma advance_no_looser: "no_looser s (tr_sl t) (tr_sl (advance_giveback_sl pct s c t))"
  by (simp add: advance_giveback_sl_def no_looser_def Let_def)

lemma protects_no_looser: "protects s sl \<Longrightarrow> no_looser s sl sl' \<Longrightarrow> protects s sl'"
  by (auto simp: protects_def no_looser_def split: if_splits)

lemma hits_stop_tighter:
  "no_looser s sl sl' \<Longrightarrow> hits_stop s c sl \<Longrightarrow> hits_stop s c sl'"
  by (cases "s_direction s") (auto simp: no_looser_def hits_stop_def)

lemma protects_rr:
  "protects s sl \<Longrightarrow> 0 \<le> s_risk_pips s \<Longrightarrow> 0 \<le> rr_at_price s sl"
  by (auto simp: protects_def rr_at_price_def split: if_splits)

section \<open>Trailing against the replay\<close>

definition in_step :: "asset_profile \<Rightarrow> probe \<Rightarrow> trade_signal \<Rightarrow> bool" where
  "in_step p pr s \<longleftrightarrow>
     setup_of (pr_signal pr) = setup_of s \<and> s_outcome s = None \<and>
     s_status s = (if pr_tp1_seen pr then TP1_HIT else TRIGGERED) \<and>
     (pr_tp1_seen pr \<and> p_move_sl_to_be_on_tp1 p \<longrightarrow> protects s (tr_sl (pr_trail pr)))"

text \<open>How the result \<open>t\<close> of trailing may differ from the result \<open>q\<close> of the replay.\<close>

definition agrees :: "asset_profile \<Rightarrow> trade_signal \<Rightarrow> backtest_result \<Rightarrow> backtest_result \<Rightarrow> bool" where
  "agrees p s t q \<longleftrightarrow>
     (if br_outcome t = O_WIN_FULL
      then br_outcome q = O_WIN_FULL \<and> br_close_ts q = br_close_ts t \<and> br_close_price q = br_close_price t \<and>
        br_realized_rr t = s_rr s \<and>
        br_realized_rr q = tp2_weighted_rr (s_rr s) (p_tp1_trigger_pct p) (p_tp1_close_pct p)
      else if br_outcome t = O_BREAKEVEN
      then p_move_sl_to_be_on_tp1 p \<and> protected_be_rr s p \<le> br_realized_rr t \<and>
        br_outcome q \<in> {O_WIN_FULL, O_BREAKEVEN, O_EXPIRED} \<and>
        (br_outcome q = O_EXPIRED \<longrightarrow> br_close_ts q = None) \<and>
        (\<forall>ts. br_close_ts q = Some ts \<longrightarrow> (\<exists>ts' \<le> ts. br_close_ts t = Some ts'))
      else br_outcome q = br_outcome t \<and> br_close_ts q = br_close_ts t \<and>
        br_close_price q = br_close_price t \<and> br_realized_rr q = br_realized_rr t)"

lemma setup_of_more: "setup_of s' = setup_of s \<Longrightarrow> s_risk_pips s' = s_risk_pips s"
  by (cases s; cases s') (simp add: setup_of_def)

lemma agrees_setup: "setup_of s' = setup_of s \<Longrightarrow> agrees p s' t q = agrees p s t q"
  by (auto simp: agrees_def protected_be_rr_def dest!: setup_of_fields)

text \<open>What the replay may still do once the stop is at the entry.\<close>

lemma protected_step:
  assumes "s_status s = TP1_HIT" "p_move_sl_to_be_on_tp1 p" "s_outcome s = None"
    and "step_normalized s c p now = (so, s')"
  shows "(so_terminal so \<longrightarrow> s_outcome s' \<in> {Some O_WIN_FULL, Some O_BREAKEVEN} \<and> s_closed_at s' = Some now) \<and>
    (\<not> so_terminal so \<longrightarrow> s_status s' = TP1_HIT \<and> s_outcome s' = None)"
  using assms by (auto simp: step_defs split: if_splits)

lemma replay_step_raw:
  "replay_step p (raw_of c) s = Inr (t, s') \<longleftrightarrow>
   accepts_candle c \<and> (\<exists>so. step_normalized s c p (c_timestamp c) = (so, s') \<and> t = so_terminal so)"
proof -
  have ts: "rw_timestamp (raw_of c) = Some (c_timestamp c)" by (simp add: raw_of_def)
  show ?thesis
    unfolding replay_step_def ts by (auto simp: bindR_Inr_iff step_signal_state_Inr normalize_raw_of)
qed

lemma protected_replay:
  assumes "s_status s = TP1_HIT" "p_move_sl_to_be_on_tp1 p" "s_outcome s = None"
    and "run_steps (replay_step p) (map raw_of cs) s = Inr (t, s')"
  shows "br_outcome (replay_result s') \<in> {O_WIN_FULL, O_BREAKEVEN, O_EXPIRED} \<and>
    (br_outcome (replay_result s') = O_EXPIRED \<longrightarrow> br_close_ts (replay_result s') = None) \<and>
    (\<forall>ts. br_close_ts (replay_result s') = Some ts \<longrightarrow> (\<exists>c \<in> set cs. ts = c_timestamp c))"
  using assms(1,3,4)
proof (induction cs arbitrary: s)
  case Nil
  then show ?case by (simp add: replay_result_def mk_result_def)
next
  case (Cons c cs)
  from Cons.prems(3) obtain so s1 where st: "step_normalized s c p (c_timestamp c) = (so, s1)"
    and rest: "(if so_terminal so then Inr (True, s1) else run_steps (replay_step p) (map raw_of cs) s1) = Inr (t, s')"
    by (auto simp: replay_step_raw bindR_Inr_iff)
  note q = protected_step [OF Cons.prems(1) assms(2) Cons.prems(2) st]
  show ?case
  proof (cases "so_terminal so")
    case True
    then show ?thesis using q rest by (auto simp: replay_result_def mk_result_def)
  next
    case False
    then show ?thesis using Cons.IH [of s1] q rest by auto
  qed
qed

lemma expiry_cutoff_iff:
  assumes "0 \<le> s_created_at s" "0 \<le> p_signal_expiry_hours p"
  shows "expiry_cutoff s p < t \<longleftrightarrow> expiry_ms p < t - s_created_at s"
proof -
  have "trunc (of_int (s_created_at s) + p_signal_expiry_hours p * 3600000) =
      s_created_at s + trunc (p_signal_expiry_hours p * 3600000)"
    using assms by (simp add: trunc_def)
  then show ?thesis unfolding expiry_cutoff_def expiry_ms_def by linarith
qed

lemma hits_setup:
  assumes "setup_of s' = setup_of s"
  shows "hits_stop s' = hits_stop s" "hits_target s' = hits_target s"
    "protected_be_price s' p = protected_be_price s p" "protected_be_rr s' p = protected_be_rr s p"
  using setup_of_fields [OF assms]
  by (simp_all add: hits_stop_def hits_target_def fun_eq_iff protected_be_price_def protected_be_rr_def)

lemmas trailing_defs = trailing_step_def trailing_expired_def trailing_stop_out_def trailing_result_def
  Let_def

text \<open>One candle, by the branch the trailing simulation takes.\<close>

lemma sim_expired:
  assumes "in_step p pr s" "step_normalized s c p now = (so, s')" "now = c_timestamp c"
    and "expiry_ms p < now - s_created_at s"
  shows "so_terminal so \<and> agrees p s (trailing_expired pct p pr c) (replay_result s')"
proof -
  have "setup_of (pr_signal pr) = setup_of s" using assms(1) by (simp add: in_step_def)
  note f = hits_setup [OF this]
  show ?thesis
    using assms
    by (auto simp: in_step_def step_normalized_def expire_signal_def trailing_expired_def
        trailing_result_def agrees_def replay_result_def mk_result_def f Let_def)
qed

lemma sim_win:
  assumes "in_step p pr s" "step_normalized s c p now = (so, s')" "now = c_timestamp c"
    and "\<not> expiry_ms p < now - s_created_at s"
    and "pr_tp1_seen pr \<or> hits_target s c (s_tp1 s)" "hits_target s c (s_tp2 s)"
    and "pr_trail pr1 = pr_trail pr" "pr_signal pr1 = pr_signal pr"
  shows "so_terminal so \<and>
    agrees p s (trailing_result pct pr1 O_WIN_FULL (s_rr s) (c_timestamp c) (s_tp2 s) True) (replay_result s')"
  using assms
  by (auto simp: in_step_def step_normalized_def win_signal_def trailing_result_def agrees_def
      replay_result_def mk_result_def Let_def split: if_splits)

lemma sim_loss:
  assumes "in_step p pr s" "step_normalized s c p now = (so, s')" "now = c_timestamp c"
    and "\<not> expiry_ms p < now - s_created_at s"
    and "\<not> ((pr_tp1_seen pr \<or> hits_target s c (s_tp1 s)) \<and> hits_target s c (s_tp2 s))"
    and "\<not> (pr_tp1_seen pr \<and> p_move_sl_to_be_on_tp1 p)" "hits_stop s c (s_stop_loss s)"
    and "pr_tp1_seen pr1 = pr_tp1_seen pr" "pr_signal pr1 = pr_signal pr"
  shows "so_terminal so \<and> agrees p s (trailing_stop_out pct p pr1 c (s_stop_loss s)) (replay_result s')"
proof -
  have sl: "s_stop_loss (pr_signal pr) = s_stop_loss s"
    using assms(1) by (auto simp: in_step_def dest: setup_of_fields)
  show ?thesis
    using assms sl
    by (auto simp: in_step_def step_normalized_def lose_signal_def effective_stop_def trailing_stop_out_def
        trailing_result_def agrees_def replay_result_def mk_result_def Let_def split: if_splits)
qed

text \<open>The trailed stop is hit: the replay is stopped at the entry by the same candle, or goes on.\<close>

lemma sim_protected:
  assumes "in_step p pr s" "step_normalized s c p now = (so, s')" "now = c_timestamp c"
    and "\<not> expiry_ms p < now - s_created_at s" "\<not> hits_target s c (s_tp2 s)"
    and "pr_tp1_seen pr" "p_move_sl_to_be_on_tp1 p"
    and "pr_tp1_seen pr1 = pr_tp1_seen pr" "pr_signal pr1 = pr_signal pr"
  shows "br_outcome (trailing_stop_out pct p pr1 c sl) = O_BREAKEVEN \<and>
    br_close_ts (trailing_stop_out pct p pr1 c sl) = Some now \<and>
    protected_be_rr s p \<le> br_realized_rr (trailing_stop_out pct p pr1 c sl) \<and>
    (so_terminal so \<longrightarrow> s_outcome s' = Some O_BREAKEVEN \<and> s_closed_at s' = Some now) \<and>
    (\<not> so_terminal so \<longrightarrow> s_status s' = TP1_HIT \<and> s_outcome s' = None \<and> setup_of s' = setup_of s)"
proof -
  have rr: "protected_be_rr (pr_signal pr) p = protected_be_rr s p"
    using assms(1) by (intro hits_setup) (simp add: in_step_def)
  have "setup_of s' = setup_of s" by (rule step_setup [OF assms(2)])
  moreover have "(so_terminal so \<longrightarrow> s_outcome s' = Some O_BREAKEVEN \<and> s_closed_at s' = Some now) \<and>
    (\<not> so_terminal so \<longrightarrow> s_status s' = TP1_HIT \<and> s_outcome s' = None)"
    using assms(1,2,4-7) by (auto simp: in_step_def step_defs split: if_splits)
  ultimately show ?thesis
    using assms(3,6-9) rr by (simp add: trailing_stop_out_def trailing_result_def Let_def)
qed

text \<open>No exit: the replay goes on too, and the two stay in step.\<close>

lemma sim_continue:
  assumes "in_step p pr s" "step_normalized s c p now = (so, s')" "now = c_timestamp c"
    and step: "trailing_step pct p cutoff pr c = Inr pr'"
    and cut: "cutoff < now \<longleftrightarrow> expiry_ms p < now - s_created_at s"
  shows "\<not> so_terminal so \<and> in_step p pr' s'"
proof -
  from assms(1) have su: "setup_of (pr_signal pr) = setup_of s" and out: "s_outcome s = None"
    and st: "s_status s = (if pr_tp1_seen pr then TP1_HIT else TRIGGERED)"
    and pt: "pr_tp1_seen pr \<and> p_move_sl_to_be_on_tp1 p \<longrightarrow> protects s (tr_sl (pr_trail pr))"
    by (auto simp: in_step_def)
  note f = setup_of_fields [OF su] and h = hits_setup [OF su]
  define tp1 where "tp1 = hits_target s c (s_tp1 s)"
  define esl where "esl = (if pr_tp1_seen pr \<and> p_move_sl_to_be_on_tp1 p then tr_sl (pr_trail pr) else s_stop_loss s)"
  define seen where "seen = (pr_tp1_seen pr \<or> tp1)"
  from step have live: "\<not> expiry_ms p < now - s_created_at s"
    and no_win: "\<not> (seen \<and> hits_target s c (s_tp2 s))" and no_sl: "\<not> hits_stop s c esl"
    using f h cut assms(3) by (auto simp: trailing_step_def Let_def tp1_def esl_def seen_def split: if_splits)
  have mk: "setup_of (u\<lparr>s_tp1_hit_at := x\<rparr>) = setup_of u" for u x by (simp add: setup_of_def)
  have seen': "pr_tp1_seen pr' = seen" "setup_of (pr_signal pr') = setup_of s"
    using step f h su by (auto simp: trailing_step_def Let_def tp1_def seen_def mk split: if_splits)
  have "seen \<and> p_move_sl_to_be_on_tp1 p \<longrightarrow>
    pr_trail pr' = advance_giveback_sl pct (pr_signal pr') c
      (if pr_tp1_seen pr then pr_trail pr else (pr_trail pr)\<lparr>tr_sl := protected_be_price s p\<rparr>)"
    using step f h by (auto simp: trailing_step_def Let_def tp1_def seen_def split: if_splits)
  then have "seen \<and> p_move_sl_to_be_on_tp1 p \<longrightarrow>
       no_looser (pr_signal pr') (if pr_tp1_seen pr then tr_sl (pr_trail pr) else protected_be_price s p)
         (tr_sl (pr_trail pr'))"
    using advance_no_looser [of "pr_signal pr'"
        "if pr_tp1_seen pr then pr_trail pr else (pr_trail pr)\<lparr>tr_sl := protected_be_price s p\<rparr>" pct c]
    by (simp split: if_splits)
  note new = seen' this
  note f' = setup_of_fields [OF new(2)]
  have same: "no_looser (pr_signal pr') = no_looser s" using f' by (simp add: no_looser_def fun_eq_iff)
  have be: "protects s (protected_be_price s p)"
    by (simp add: protects_def protected_be_price_def breakeven_price_def)
  have prot: "protects s (tr_sl (pr_trail pr'))" if "seen" "p_move_sl_to_be_on_tp1 p"
    using new(3) that pt be same protects_no_looser by (auto split: if_splits)
  have loose: "no_looser s (protected_be_price s p) (tr_sl (pr_trail pr))"
    if "pr_tp1_seen pr" "p_move_sl_to_be_on_tp1 p"
    using pt that by (simp add: protects_def no_looser_def protected_be_price_def breakeven_price_def)
  have no_stop: "\<not> hits_stop s c (effective_stop s p)"
    using no_sl loose hits_stop_tighter by (auto simp: esl_def effective_stop_def st)
  have "\<not> so_terminal so \<and> s_outcome s' = None \<and> s_status s' = (if seen then TP1_HIT else TRIGGERED)"
    using assms(2) live no_win no_stop st out
    by (auto simp: step_normalized_def Let_def seen_def tp1_def split: if_splits)
  then show ?thesis
    using new(1,2) step_setup [OF assms(2)] prot setup_of_fields [OF step_setup [OF assms(2)]]
    by (auto simp: in_step_def protects_def)
qed

lemma trailing_step_Inl:
  assumes "trailing_step pct p cutoff pr c = Inl r"
  obtains (expired) "cutoff < c_timestamp c" "r = trailing_expired pct p pr c"
  | (win) pr1 where "\<not> cutoff < c_timestamp c"
      "pr_tp1_seen pr \<or> hits_target (pr_signal pr) c (s_tp1 (pr_signal pr))"
      "hits_target (pr_signal pr) c (s_tp2 (pr_signal pr))"
      "pr_trail pr1 = pr_trail pr" "pr_signal pr1 = pr_signal pr"
      "r = trailing_result pct pr1 O_WIN_FULL (s_rr (pr_signal pr)) (c_timestamp c) (s_tp2 (pr_signal pr)) True"
  | (stop) pr1 sl where "\<not> cutoff < c_timestamp c"
      "\<not> ((pr_tp1_seen pr \<or> hits_target (pr_signal pr) c (s_tp1 (pr_signal pr))) \<and>
         hits_target (pr_signal pr) c (s_tp2 (pr_signal pr)))"
      "sl = (if pr_tp1_seen pr \<and> p_move_sl_to_be_on_tp1 p then tr_sl (pr_trail pr)
             else s_stop_loss (pr_signal pr))"
      "hits_stop (pr_signal pr) c sl" "pr_tp1_seen pr1 = pr_tp1_seen pr" "pr_signal pr1 = pr_signal pr"
      "r = trailing_stop_out pct p pr1 c sl"
proof -
  define pr1 where "pr1 = (if pr_tp1_seen pr \<and> hits_stop (pr_signal pr) c (s_entry_price (pr_signal pr))
    then pr\<lparr>pr_hit_entry := True\<rparr> else pr)"
  have same: "pr_trail pr1 = pr_trail pr" "pr_signal pr1 = pr_signal pr" "pr_tp1_seen pr1 = pr_tp1_seen pr"
    by (simp_all add: pr1_def)
  from assms show thesis
    using expired win [OF _ _ _ same(1,2)] stop [OF _ _ refl _ same(3,2)]
    unfolding trailing_step_def Let_def pr1_def [symmetric]
    by (simp split: if_splits)
qed

lemma trailing_sim:
  assumes "in_step p pr s" "sorted_wrt (\<lambda>a b. c_timestamp a \<le> c_timestamp b) cs"
    and cut: "\<And>t. cutoff < t \<longleftrightarrow> expiry_ms p < t - s_created_at s"
    and "run_steps (replay_step p) (map raw_of cs) s = Inr (t, s')"
  shows "agrees p s (trailing_loop pct p cutoff cs pr) (replay_result s')"
  using assms
proof (induction cs arbitrary: pr s)
  case Nil
  then show ?case by (simp add: agrees_def in_step_def replay_result_def mk_result_def)
next
  case (Cons c cs)
  note sim = Cons.prems(1) and cutoff = Cons.prems(3)
  from Cons.prems(4) obtain so s1 where st: "step_normalized s c p (c_timestamp c) = (so, s1)"
    and rest: "(if so_terminal so then Inr (True, s1) else run_steps (replay_step p) (map raw_of cs) s1) = Inr (t, s')"
    by (auto simp: replay_step_raw bindR_Inr_iff)
  have su: "setup_of (pr_signal pr) = setup_of s" using sim by (simp add: in_step_def)
  note f = setup_of_fields [OF su] and h = hits_setup [OF su]
  show ?case
  proof (cases "trailing_step pct p cutoff pr c")
    case (Inr pr')
    note go = sim_continue [OF sim st refl Inr cutoff]
    have s1: "setup_of s1 = setup_of s" by (rule step_setup [OF st])
    then have "s_created_at s1 = s_created_at s" using setup_of_fields by blast
    then have "agrees p s1 (trailing_loop pct p cutoff cs pr') (replay_result s')"
      using Cons.IH [OF conjunct2 [OF go]] Cons.prems(2) cutoff go rest by simp
    then show ?thesis using Inr agrees_setup [OF s1] by simp
  next
    case (Inl r)
    have loop: "trailing_loop pct p cutoff (c # cs) pr = r" using Inl by simp
    have terminal: "so_terminal so \<Longrightarrow> s1 = s'" using rest by simp
    from Inl have "agrees p s r (replay_result s')"
    proof (cases rule: trailing_step_Inl)
      case expired
      then show ?thesis using sim_expired [OF sim st refl] cutoff terminal by simp
    next
      case (win pr1)
      then show ?thesis using sim_win [OF sim st refl _ _ _ win(4,5)] cutoff terminal f h by simp
    next
      case (stop pr1 sl)
      have live: "\<not> expiry_ms p < c_timestamp c - s_created_at s" using stop(1) cutoff by simp
      have no_win: "\<not> ((pr_tp1_seen pr \<or> hits_target s c (s_tp1 s)) \<and> hits_target s c (s_tp2 s))"
        using stop(2) f h by simp
      show ?thesis
      proof (cases "pr_tp1_seen pr \<and> p_move_sl_to_be_on_tp1 p")
        case False
        then have "sl = s_stop_loss s" "hits_stop s c (s_stop_loss s)" using stop(3,4) f h by auto
        then show ?thesis using sim_loss [OF sim st refl live no_win False _ stop(5,6)] stop(7) terminal by simp
      next
        case True
        have no_tp2: "\<not> hits_target s c (s_tp2 s)" using no_win True by blast
        note q = sim_protected [OF sim st refl live no_tp2 conjunct1 [OF True] conjunct2 [OF True] stop(5,6),
            of pct sl, folded stop(7)]
        show ?thesis
        proof (cases "so_terminal so")
          case True
          then show ?thesis
            using q terminal \<open>pr_tp1_seen pr \<and> _\<close>
            by (auto simp: agrees_def replay_result_def mk_result_def)
        next
          case False
          then have run: "run_steps (replay_step p) (map raw_of cs) s1 = Inr (t, s')" using rest by simp
          have later: "\<forall>c' \<in> set cs. c_timestamp c \<le> c_timestamp c'" using Cons.prems(2) by simp
          note pr = protected_replay [OF _ conjunct2 [OF True] _ run]
          show ?thesis
            using q False pr later True by (auto simp: agrees_def)
        qed
      qed
    qed
    then show ?thesis unfolding loop .
  qed
qed



end
