(* ===== verification/Backtest.thy ===== *)
theory Backtest
  imports Trailing Structure Bisect Dedup
begin

text \<open>
  app/backtesting/backtest.py, the walk over the history (\<open>MultiPairBacktester\<close>), and the trace
  records of app/engine/parity_trace.py. The progress bar and the printed lines are left out,
  and so is the trace file: the records written are values. The digest of the configuration is
  a parameter.
\<close>

section \<open>Trace records\<close>

record trace_record =
  tc_mode :: string
  tc_symbol :: string
  tc_timeframe :: string
  tc_timestamp :: string
  tc_strategy :: string
  tc_signal :: string
  tc_entry :: price
  tc_stop_loss :: price
  tc_take_profit :: price
  tc_rr :: real
  tc_risk_amount :: "real option"
  tc_position_size :: "real option"
  tc_decision_reason :: string
  tc_blocked_reason :: "string option"
  tc_account_balance :: "real option"
  tc_daily_budget :: "real option"
  tc_risk_per_trade :: "real option"
  tc_config_hash :: string
  tc_trade_outcome :: "string option"
  tc_pnl :: "real option"

text \<open>\<open>isoformat\<close> shows the microseconds only when there are any.\<close>

definition iso_ms :: "ms \<Rightarrow> string result" where
  "iso_ms t =
     bindR (from_timestamp t) (\<lambda>_.
       let s = utc_second_of_day t; frac = t mod 1000 in
       Inr (show_date t @ ''T'' @ pad2 (s div 3600) @ '':'' @ pad2 (s div 60 mod 60) @ '':'' @
            pad2 (s mod 60) @ (if frac = 0 then [] else ''.'' @ pad_left 6 (show_int (frac * 1000))) @ ''Z''))"

definition trace_from_signal ::
  "(settings \<Rightarrow> string) \<Rightarrow> string \<Rightarrow> trade_signal \<Rightarrow> settings \<Rightarrow> string \<Rightarrow> string option \<Rightarrow> real option \<Rightarrow>
   real option \<Rightarrow> signal_outcome option \<Rightarrow> real option \<Rightarrow> trace_record result" where
  "trace_from_signal digest mode s cfg decision_reason blocked_reason balance risk_percent oc pnl =
     (let risk_amount = (case (balance, risk_percent) of
                           (Some b, Some r) \<Rightarrow> Some (b * (r / 100)) | _ \<Rightarrow> None)
      in bindR (iso_ms (int_or (s_triggered_at s) (s_created_at s))) (\<lambda>ts.
      Inr \<lparr>tc_mode = mode, tc_symbol = s_symbol s, tc_timeframe = s_ltf_interval s, tc_timestamp = ts,
           tc_strategy = ''shared_decision_engine'', tc_signal = direction_value (s_direction s),
           tc_entry = s_entry_price s, tc_stop_loss = s_stop_loss s, tc_take_profit = s_tp2 s,
           tc_rr = s_rr s, tc_risk_amount = risk_amount, tc_position_size = None,
           tc_decision_reason = decision_reason, tc_blocked_reason = blocked_reason,
           tc_account_balance = balance, tc_daily_budget = risk_amount,
           tc_risk_per_trade = risk_amount, tc_config_hash = digest cfg,
           tc_trade_outcome = map_option outcome_value (either oc (s_outcome s)), tc_pnl = pnl\<rparr>))"

section \<open>Construction\<close>

type_synonym pair = "string \<times> string"

record backtester =
  bt_cfg :: settings
  bt_symbol :: string
  bt_pairs :: "pair list"
  bt_htf :: "candle list dict"
  bt_ltf :: "candle list dict"
  bt_lookback :: "int option"
  bt_start_balance :: real
  bt_risk_percent :: real
  bt_giveback :: real
  bt_risk_type :: string
  bt_max_trailing_dd :: "real option"
  bt_max_total_loss :: "real option"
  bt_profiles :: "(pair \<times> asset_profile) list"
  bt_profile :: asset_profile
  bt_stale_ms :: "(pair \<times> int) list"
  bt_htf_ms :: "int dict"
  bt_digest :: "settings \<Rightarrow> string"

text \<open>\<open>math.isfinite\<close> and then a bound.\<close>

definition number_in :: "(real \<Rightarrow> bool) \<Rightarrow> raw_num \<Rightarrow> real result" where
  "number_in ok v =
     (case v of NumNone \<Rightarrow> Inl TypeError | NumFin x \<Rightarrow> if ok x then Inr x else Inl ValueError
      | _ \<Rightarrow> Inl ValueError)"

definition keyed :: "('k \<Rightarrow> 'v result) \<Rightarrow> 'k list \<Rightarrow> ('k \<times> 'v) list result" where
  "keyed f ks = mapR (\<lambda>k. bindR (f k) (\<lambda>v. Inr (k, v))) ks"

definition new_backtester ::
  "settings \<Rightarrow> string \<Rightarrow> pair list \<Rightarrow> candle list dict \<Rightarrow> candle list dict \<Rightarrow> int option \<Rightarrow> raw_num \<Rightarrow>
   raw_num \<Rightarrow> raw_num \<Rightarrow> string \<Rightarrow> real option \<Rightarrow> real option \<Rightarrow> (settings \<Rightarrow> string) \<Rightarrow>
   backtester result" where
  "new_backtester cfg symbol pairs htf ltf lookback balance0 risk0 giveback0 rtype mtr mtl digest =
     bindR (number_in (\<lambda>x. 0 < x) balance0) (\<lambda>balance.
     bindR (number_in (\<lambda>x. 0 < x \<and> x \<le> 100) risk0) (\<lambda>risk.
     bindR (number_in (\<lambda>x. 0 \<le> x \<and> x < 100) giveback0) (\<lambda>giveback.
     bindR (keyed (\<lambda>(h, l). registry_get cfg symbol (Some h) (Some l)) pairs) (\<lambda>profiles.
     bindR (case profiles of [] \<Rightarrow> Inl IndexError | (k, p) # _ \<Rightarrow> Inr p) (\<lambda>profile.
     bindR (keyed (\<lambda>(h, l). bindR (rejection_stale_hours l) (\<lambda>x. Inr (trunc (x * 3600000)))) pairs) (\<lambda>stale.
     bindR (keyed (\<lambda>h. bindR (interval_to_minutes h) (\<lambda>m. Inr (m * 60000))) (map fst pairs)) (\<lambda>htf_ms.
     Inr \<lparr>bt_cfg = cfg, bt_symbol = symbol, bt_pairs = pairs, bt_htf = htf, bt_ltf = ltf,
          bt_lookback = lookback, bt_start_balance = balance, bt_risk_percent = risk,
          bt_giveback = giveback, bt_risk_type = rtype, bt_max_trailing_dd = mtr,
          bt_max_total_loss = mtl, bt_profiles = profiles, bt_profile = profile,
          bt_stale_ms = stale, bt_htf_ms = htf_ms, bt_digest = digest\<rparr>)))))))"

definition resolve_lookback :: "backtester \<Rightarrow> string \<Rightarrow> string \<Rightarrow> int result" where
  "resolve_lookback bt htf ltf =
     (case bt_lookback bt of Some n \<Rightarrow> Inr n | None \<Rightarrow> resolve_htf_lookback (bt_cfg bt) htf ltf)"

text \<open>\<open>d[k]\<close> raises \<open>KeyError\<close>.\<close>

definition lookup :: "('k \<times> 'v) list \<Rightarrow> 'k \<Rightarrow> 'v result" where
  "lookup d k = (case map_of d k of None \<Rightarrow> Inl KeyError | Some v \<Rightarrow> Inr v)"

section \<open>State of the walk\<close>

type_synonym cache_key = "string \<times> string \<times> ms \<times> string"

record walk =
  wk_dead :: "zone_key set"
  wk_counts :: "zone_key \<Rightarrow> int option"
  wk_seen :: "rej_key set"
  wk_open :: "(dir_key \<times> ms) list"
  wk_ms_cache :: "string \<Rightarrow> (ms \<times> structure_result) option"
  wk_rng_cache :: "pair \<Rightarrow> (ms \<times> htf_zone list) option"
  wk_zone_cache :: "cache_key \<Rightarrow> (nat \<times> (rejection \<times> rejection_score) option) option"
  wk_zone_lo :: "cache_key \<Rightarrow> nat option"
  wk_results :: "backtest_result list"
  wk_trace :: "trace_record list"

definition init_walk :: walk where
  "init_walk =
     \<lparr>wk_dead = {}, wk_counts = (\<lambda>_. None), wk_seen = {}, wk_open = [], wk_ms_cache = (\<lambda>_. None),
      wk_rng_cache = (\<lambda>_. None), wk_zone_cache = (\<lambda>_. None), wk_zone_lo = (\<lambda>_. None),
      wk_results = [], wk_trace = []\<rparr>"

definition wk_count :: "walk \<Rightarrow> zone_key \<Rightarrow> int" where
  "wk_count w k = (case wk_counts w k of None \<Rightarrow> 0 | Some n \<Rightarrow> n)"

definition expire_locks :: "ms \<Rightarrow> walk \<Rightarrow> walk" where
  "expire_locks now w = w\<lparr>wk_open := filter (\<lambda>(k, t). now < t) (wk_open w)\<rparr>"

text \<open>The keys: a zone, its cache entry, a rejection candle and a direction.\<close>

definition bt_zone_key :: "backtester \<Rightarrow> pair \<Rightarrow> htf_zone \<Rightarrow> zone_key" where
  "bt_zone_key bt pr z =
     (bt_symbol bt, fst pr, snd pr, z_timestamp z, bos_value (z_bos_direction z))"

definition bt_cache_key :: "pair \<Rightarrow> htf_zone \<Rightarrow> cache_key" where
  "bt_cache_key pr z = (fst pr, snd pr, z_timestamp z, bos_value (z_bos_direction z))"

definition bt_rej_key :: "backtester \<Rightarrow> pair \<Rightarrow> rejection \<Rightarrow> rej_key" where
  "bt_rej_key bt pr r = (bt_symbol bt, fst pr, snd pr, r_timestamp r)"

definition bt_dir_key :: "backtester \<Rightarrow> pair \<Rightarrow> string \<Rightarrow> dir_key" where
  "bt_dir_key bt pr d =
     (if p_multi_tf_independent_positions (bt_profile bt) then (bt_symbol bt, fst pr, snd pr, d)
      else (bt_symbol bt, d, [], []))"

section \<open>One pair at one point in time\<close>

text \<open>What is known of a pair at \<open>analysis_close\<close>: the candles that have closed by then.\<close>

record view =
  vw_pair :: pair
  vw_htf_visible :: "candle list"
  vw_htf_window :: "candle list"
  vw_last_htf_ts :: ms
  vw_htf_ms :: int
  vw_ltf_all :: "candle list"
  vw_ltf_ms :: int
  vw_now :: ms
  vw_hi :: nat
  vw_stale_ms :: int

definition htf_upto :: "candle list \<Rightarrow> ms \<Rightarrow> nat" where
  "htf_upto cs t = bisect_right (map c_timestamp cs) t"

definition closed_open :: "ms \<Rightarrow> int \<Rightarrow> ms" where
  "closed_open analysis_close ltf_ms = (analysis_close div ltf_ms) * ltf_ms - ltf_ms"

text \<open>The structure of the window, recomputed when its last candle changed.\<close>

definition structure_at :: "view \<Rightarrow> walk \<Rightarrow> structure_result \<times> walk" where
  "structure_at v w =
     (let htf = fst (vw_pair v) in
      case wk_ms_cache w htf of
        Some (t, st) \<Rightarrow>
          if t = vw_last_htf_ts v then (st, w)
          else (let st' = detect (vw_htf_window v) PIVOT_BARS in
                (st', w\<lparr>wk_ms_cache := (wk_ms_cache w)(htf \<mapsto> (vw_last_htf_ts v, st'))\<rparr>))
      | None \<Rightarrow>
          (let st' = detect (vw_htf_window v) PIVOT_BARS in
           (st', w\<lparr>wk_ms_cache := (wk_ms_cache w)(htf \<mapsto> (vw_last_htf_ts v, st'))\<rparr>)))"

definition fresh_ranges :: "backtester \<Rightarrow> view \<Rightarrow> htf_zone list result" where
  "fresh_ranges bt v =
     (let cfg = bt_cfg bt;
          zs = find_htf_ranges (vw_htf_window v) PIVOT_BARS (vw_htf_ms v) (nat (g_max_htf_zones_per_dir cfg))
      in if g_use_displacement_filter cfg
         then bindR (displacement_mult_for cfg (fst (vw_pair v)) (snd (vw_pair v))) (\<lambda>mult.
           Inr (filter (\<lambda>z. detect_displacement (vw_htf_visible v) (z_broken_at z)
                  (nat (g_displacement_atr_period cfg)) mult) zs))
         else Inr zs)"

definition ranges_at :: "backtester \<Rightarrow> view \<Rightarrow> walk \<Rightarrow> (htf_zone list \<times> walk) result" where
  "ranges_at bt v w =
     (let recompute = bindR (fresh_ranges bt v) (\<lambda>zs.
            Inr (zs, w\<lparr>wk_rng_cache := (wk_rng_cache w)(vw_pair v \<mapsto> (vw_last_htf_ts v, zs))\<rparr>))
      in case wk_rng_cache w (vw_pair v) of
           Some (t, zs) \<Rightarrow> if t = vw_last_htf_ts v then Inr (zs, w) else recompute
         | None \<Rightarrow> recompute)"

text \<open>The entry of a zone, through the two caches of the zone.\<close>

definition zone_lo_at :: "view \<Rightarrow> htf_zone \<Rightarrow> walk \<Rightarrow> nat \<times> walk" where
  "zone_lo_at v z w =
     (let ck = bt_cache_key (vw_pair v) z in
      case wk_zone_lo w ck of
        Some lo \<Rightarrow> (lo, w)
      | None \<Rightarrow>
          let lo = bisect_left (map c_timestamp (vw_ltf_all v)) (num_or (z_broken_at z) (z_timestamp z))
          in (lo, w\<lparr>wk_zone_lo := (wk_zone_lo w)(ck \<mapsto> lo)\<rparr>))"

definition fresh_entry :: "view \<Rightarrow> nat \<Rightarrow> htf_zone \<Rightarrow> (rejection \<times> rejection_score) option" where
  "fresh_entry v lo z = find_entry (slice (take (vw_hi v) (vw_ltf_all v)) lo (vw_hi v)) (signal_dir z) z"

definition entry_at ::
  "view \<Rightarrow> nat \<Rightarrow> htf_zone \<Rightarrow> walk \<Rightarrow> (rejection \<times> rejection_score) option \<times> walk" where
  "entry_at v lo z w =
     (let ck = bt_cache_key (vw_pair v) z;
          recompute = (let e = fresh_entry v lo z in
                       (e, w\<lparr>wk_zone_cache := (wk_zone_cache w)(ck \<mapsto> (vw_hi v, e))\<rparr>))
      in case wk_zone_cache w ck of
           Some (hi, e) \<Rightarrow> if hi = vw_hi v then (e, w) else recompute
         | None \<Rightarrow> recompute)"

definition zone_spent :: "backtester \<Rightarrow> pair \<Rightarrow> htf_zone \<Rightarrow> walk \<Rightarrow> bool" where
  "zone_spent bt pr z w \<longleftrightarrow>
     bt_zone_key bt pr z \<in> wk_dead w \<or>
     g_max_signal_count_per_zone (bt_cfg bt) \<le> wk_count w (bt_zone_key bt pr z)"

text \<open>The rules a rejection passes before the decision engine sees it.\<close>

definition rejection_passes :: "backtester \<Rightarrow> view \<Rightarrow> htf_zone \<Rightarrow> rejection \<Rightarrow> walk \<Rightarrow> bool" where
  "rejection_passes bt v z rej w \<longleftrightarrow>
     bt_rej_key bt (vw_pair v) rej \<notin> wk_seen w \<and>
     bt_dir_key bt (vw_pair v) (direction_value (signal_dir z)) \<notin> fst ` set (wk_open w) \<and>
     vw_now v - r_timestamp rej \<le> vw_stale_ms v"

definition bt_signal_id :: "backtester \<Rightarrow> pair \<Rightarrow> rejection \<Rightarrow> signal_direction \<Rightarrow> string" where
  "bt_signal_id bt pr rej d =
     bt_symbol bt @ ''_'' @ fst pr @ ''_'' @ snd pr @ ''_'' @ show_int (r_timestamp rej) @ ''_'' @
     direction_value d"

text \<open>What an accepted signal leaves behind.\<close>

definition book_signal ::
  "backtester \<Rightarrow> view \<Rightarrow> htf_zone \<Rightarrow> rejection \<Rightarrow> trade_signal \<Rightarrow> backtest_result \<Rightarrow> walk \<Rightarrow> walk" where
  "book_signal bt v z rej s res w =
     (let zk = bt_zone_key bt (vw_pair v) z; ck = bt_cache_key (vw_pair v) z;
          cap = g_max_signal_count_per_zone (bt_cfg bt);
          w1 = w\<lparr>wk_seen := insert (bt_rej_key bt (vw_pair v) rej) (wk_seen w),
                 wk_counts := (wk_counts w)(zk \<mapsto> s_zone_attempt s)\<rparr>;
          w2 = (if cap \<le> s_zone_attempt s
                then w1\<lparr>wk_dead := insert zk (wk_dead w1), wk_zone_cache := (wk_zone_cache w1)(ck := None),
                        wk_zone_lo := (wk_zone_lo w1)(ck := None)\<rparr>
                else w1)
      in w2\<lparr>wk_open := AList.update (bt_dir_key bt (vw_pair v) (direction_value (signal_dir z)))
              (int_or (br_close_ts res) (s_created_at s + expiry_ms (bt_profile bt))) (wk_open w2),
            wk_results := wk_results w2 @ [res]\<rparr>)"

text \<open>A rejection that passed: \<open>True\<close> when a signal was booked, which ends the scan of the zones.\<close>

definition take_setup :: "backtester \<Rightarrow> view \<Rightarrow> htf_zone \<Rightarrow> rejection \<Rightarrow> walk \<Rightarrow> (bool \<times> walk) result" where
  "take_setup bt v z rej w =
     (let pr = vw_pair v; cfg = bt_cfg bt in
      bindR (lookup (bt_profiles bt) pr) (\<lambda>profile.
      bindR (evaluate_setup (bt_symbol bt) (fst pr) (snd pr) z rej (bt_signal_id bt pr rej (signal_dir z))
               profile [] None None None) (\<lambda>dcn.
      case dec_signal dcn of
        None \<Rightarrow> Inr (False, w)
      | Some s0 \<Rightarrow>
          let s = s0\<lparr>s_setup_open_at := Some (r_timestamp rej),
                     s_setup_close_at := Some (r_timestamp rej + vw_ltf_ms v),
                     s_zone_attempt := wk_count w (bt_zone_key bt pr z) + 1\<rparr>
          in bindR (simulate cfg (bt_giveback bt) s (drop (vw_hi v) (vw_ltf_all v))) (\<lambda>res.
             bindR (trace_from_signal (bt_digest bt) ''backtest'' (br_signal res) cfg (dec_reason dcn)
                      (dec_blocked_reason dcn) (Some (bt_start_balance bt)) (Some (bt_risk_percent bt))
                      (Some (br_outcome res)) None) (\<lambda>tr.
             let w' = book_signal bt v z rej s res w in
             Inr (True, w'\<lparr>wk_trace := wk_trace w' @ [tr]\<rparr>))))))"

definition scan_zone ::
  "backtester \<Rightarrow> view \<Rightarrow> structure_result option \<Rightarrow> htf_zone \<Rightarrow> walk \<Rightarrow> (bool \<times> walk) result" where
  "scan_zone bt v structure z w =
     (if zone_spent bt (vw_pair v) z w then Inr (False, w)
      else
        case zone_lo_at v z w of (lo, w1) \<Rightarrow>
        if (case structure of None \<Rightarrow> False
            | Some st \<Rightarrow> \<not> allows st (direction_value (signal_dir z)))
        then Inr (False, w1)
        else
          case entry_at v lo z w1 of
            (None, w2) \<Rightarrow> Inr (False, w2)
          | (Some (rej, score), w2) \<Rightarrow>
              if rejection_passes bt v z rej w2 then take_setup bt v z rej w2 else Inr (False, w2))"

fun scan_zones_bt ::
  "backtester \<Rightarrow> view \<Rightarrow> structure_result option \<Rightarrow> htf_zone list \<Rightarrow> walk \<Rightarrow> walk result" where
  "scan_zones_bt bt v structure [] w = Inr w"
| "scan_zones_bt bt v structure (z # zs) w =
     bindR (scan_zone bt v structure z w) (\<lambda>(stop, w').
       if stop then Inr w' else scan_zones_bt bt v structure zs w')"

text \<open>
  The first half of the pair's turn: \<open>None\<close> when too few candles are known. An empty window is
  an \<open>IndexError\<close> when the lookback is below three.
\<close>

definition htf_window :: "candle list \<Rightarrow> ms \<Rightarrow> int \<Rightarrow> candle list" where
  "htf_window cs t lookback =
     (let hi = htf_upto cs t in slice cs (nat (int hi - lookback)) hi)"

definition look_at_pair ::
  "backtester \<Rightarrow> ms \<Rightarrow> int \<Rightarrow> pair \<Rightarrow> walk \<Rightarrow> ((candle list \<times> candle list \<times> ms \<times> int) option) result" where
  "look_at_pair bt analysis_close lookback pr w =
     bindR (lookup (bt_htf bt) (fst pr)) (\<lambda>htf_all.
     bindR (lookup (bt_htf_ms bt) (fst pr)) (\<lambda>htf_ms.
     let until = analysis_close - htf_ms; window = htf_window htf_all until lookback in
     if int (length window) < lookback div 3 then Inr None
     else if window = [] then Inl IndexError
     else Inr (Some (take (htf_upto htf_all until) htf_all, window, c_timestamp (last window), htf_ms))))"

definition trend_at :: "backtester \<Rightarrow> view \<Rightarrow> walk \<Rightarrow> structure_result option \<times> walk" where
  "trend_at bt v w =
     (if p_use_trend_filter (bt_profile bt)
      then (case structure_at v w of (st, w') \<Rightarrow> (Some st, w')) else (None, w))"

text \<open>The second half: the LTF candles closed by now, and the scan of the zones over them.\<close>

definition scan_pair ::
  "backtester \<Rightarrow> ms \<Rightarrow> view \<Rightarrow> structure_result option \<Rightarrow> htf_zone list \<Rightarrow> walk \<Rightarrow> walk result" where
  "scan_pair bt analysis_close v structure zs w =
     (let pr = vw_pair v in
      bindR (lookup (bt_ltf bt) (snd pr)) (\<lambda>ltf_all.
      bindR (lookup (bt_stale_ms bt) pr) (\<lambda>stale_ms.
      bindR (interval_to_minutes (snd pr)) (\<lambda>m.
      let ltf_ms = m * 60000 in
      if ltf_ms = 0 then Inl ZeroDivisionError
      else
        let now = closed_open analysis_close ltf_ms;
            hi = bisect_right (map c_timestamp ltf_all) now
        in if hi = 0 then Inr w
           else scan_zones_bt bt
                  (v\<lparr>vw_ltf_all := ltf_all, vw_ltf_ms := ltf_ms, vw_now := now, vw_hi := hi,
                     vw_stale_ms := stale_ms\<rparr>)
                  structure zs w))))"

definition walk_view :: "backtester \<Rightarrow> ms \<Rightarrow> view \<Rightarrow> walk \<Rightarrow> walk result" where
  "walk_view bt analysis_close v w =
     (case trend_at bt v w of (structure, w1) \<Rightarrow>
      if (case structure of None \<Rightarrow> False | Some st \<Rightarrow> st_bias st = BIAS_NEUTRAL) then Inr w1
      else bindR (ranges_at bt v w1) (\<lambda>(zs, w2). scan_pair bt analysis_close v structure zs w2))"

definition walk_pair :: "backtester \<Rightarrow> ms \<Rightarrow> pair \<times> int \<Rightarrow> walk \<Rightarrow> walk result" where
  "walk_pair bt analysis_close prl w =
     (case prl of (pr, lookback) \<Rightarrow>
      bindR (look_at_pair bt analysis_close lookback pr w) (\<lambda>seen.
      case seen of
        None \<Rightarrow> Inr w
      | Some (visible, window, last_ts, htf_ms) \<Rightarrow>
          walk_view bt analysis_close
            \<lparr>vw_pair = pr, vw_htf_visible = visible, vw_htf_window = window,
             vw_last_htf_ts = last_ts, vw_htf_ms = htf_ms, vw_ltf_all = [], vw_ltf_ms = 0,
             vw_now = 0, vw_hi = 0, vw_stale_ms = 0\<rparr> w))"

section \<open>The walk\<close>

fun walk_pairs :: "backtester \<Rightarrow> ms \<Rightarrow> (pair \<times> int) list \<Rightarrow> walk \<Rightarrow> walk result" where
  "walk_pairs bt analysis_close [] w = Inr w"
| "walk_pairs bt analysis_close (pr # prs) w =
     bindR (walk_pair bt analysis_close pr w) (walk_pairs bt analysis_close prs)"

definition walk_step :: "backtester \<Rightarrow> (pair \<times> int) list \<Rightarrow> int \<Rightarrow> candle \<Rightarrow> walk \<Rightarrow> walk result" where
  "walk_step bt prs master_ms c w =
     walk_pairs bt (c_timestamp c + master_ms) prs (expire_locks (c_timestamp c) w)"

fun walk_steps :: "backtester \<Rightarrow> (pair \<times> int) list \<Rightarrow> int \<Rightarrow> candle list \<Rightarrow> walk \<Rightarrow> walk result" where
  "walk_steps bt prs master_ms [] w = Inr w"
| "walk_steps bt prs master_ms (c # cs) w =
     bindR (walk_step bt prs master_ms c w) (walk_steps bt prs master_ms cs)"

definition min_of :: "int list \<Rightarrow> int" where
  "min_of xs = (case xs of [] \<Rightarrow> 0 | x # ys \<Rightarrow> min_by (\<lambda>n. n) x ys)"

definition max_of :: "int list \<Rightarrow> int" where
  "max_of xs = (case xs of [] \<Rightarrow> 0 | x # ys \<Rightarrow> max_by (\<lambda>n. n) x ys)"

text \<open>The finest LTF interval drives the walk; the first of several equal ones.\<close>

definition master_of :: "(string \<times> int) list \<Rightarrow> (string \<times> int) result" where
  "master_of ls = (case ls of [] \<Rightarrow> Inl ValueError | x # xs \<Rightarrow> Inr (min_by snd x xs))"

text \<open>The walk and the report of its results; the printed figures are those of \<open>Accounting\<close>.\<close>

definition run_walk :: "backtester \<Rightarrow> walk result" where
  "run_walk bt =
     bindR (keyed (\<lambda>(h, l). resolve_lookback bt h l) (bt_pairs bt)) (\<lambda>prs.
     bindR (bindR (keyed interval_to_minutes (map snd (bt_pairs bt))) master_of) (\<lambda>(master, min_ltf).
     bindR (lookup (bt_ltf bt) master) (\<lambda>candles.
     bindR (mapR interval_to_minutes (map fst (bt_pairs bt))) (\<lambda>hs.
     if min_ltf = 0 then Inl ZeroDivisionError
     else
       let ltf_lb = max 100 (max_of (map snd prs) * (max_of hs div min_ltf))
       in walk_steps bt prs (min_ltf * 60000) (drop (nat ltf_lb) candles) init_walk))))"

definition run :: "backtester \<Rightarrow> (report \<times> walk) result" where
  "run bt =
     bindR (run_walk bt) (\<lambda>w.
     bindR (new_report (bt_symbol bt) (wk_results w) (bt_cfg bt) (bt_start_balance bt)
              (bt_risk_percent bt) (bt_giveback bt) (bt_risk_type bt) (bt_max_trailing_dd bt)
              (bt_max_total_loss bt)) (\<lambda>rp. Inr (rp, w)))"

end
