(* ===== verification/Backtest_Laws.thy ===== *)
theory Backtest_Laws
  imports Backtest
begin

text \<open>
  What the walk over the history guarantees: its rules are those of the live deduplication, every
  rejection candle is taken once, no zone is used more often than its cap, positions of one
  direction do not overlap, and a decision reads only closed candles, none of which the
  simulation of the trade sees again.
\<close>

section \<open>The result carries its setup\<close>

lemma trailing_result_setup: "setup_of (br_signal (trailing_result pct pr oc rr ts px b)) = setup_of (pr_signal pr)"
  by (simp add: trailing_result_def setup_of_def Let_def)

lemma trailing_step_setup:
  assumes "trailing_step pct p cutoff pr c = x"
  shows "case x of Inl r \<Rightarrow> setup_of (br_signal r) = setup_of (pr_signal pr)
    | Inr pr' \<Rightarrow> setup_of (pr_signal pr') = setup_of (pr_signal pr)"
proof -
  have mk: "setup_of (u\<lparr>s_tp1_hit_at := x\<rparr>) = setup_of u" for u x by (simp add: setup_of_def)
  show ?thesis
    using assms
    by (auto simp: trailing_step_def Let_def trailing_expired_def trailing_stop_out_def
        trailing_result_setup mk split: if_splits)
qed

lemma trailing_loop_setup: "setup_of (br_signal (trailing_loop pct p cutoff cs pr)) = setup_of (pr_signal pr)"
proof (induction cs arbitrary: pr)
  case (Cons c cs)
  show ?case
    using trailing_step_setup [of pct p cutoff pr c, OF refl] Cons.IH
    by (cases "trailing_step pct p cutoff pr c") auto
qed (simp add: mk_result_def)

lemma simulate_setup:
  assumes "is_open s" "simulate cfg pct s cs = Inr res"
  shows "setup_of (br_signal res) = setup_of s"
proof -
  have rep: "setup_of (br_signal (replay_result r)) = setup_of r" for r
    by (simp add: replay_result_def mk_result_def split: option.split)
  have trail: "setup_of (br_signal (simulate_with_giveback_trailing pct s cs p)) = setup_of s" for p
    by (simp add: simulate_with_giveback_trailing_def mk_result_def trailing_loop_setup init_probe_def)
  show ?thesis
    using assms(2)
    by (auto simp: simulate_def bindR_Inr_iff replay_signal_lifecycle_def rep trail mk_result_def
        dest: life.run_laws [OF assms(1)] split: if_splits)
qed

lemma evaluate_setup_fields:
  assumes "evaluate_setup symbol htf ltf z rej i p b None lb la = Inr dcn" "dec_signal dcn = Some s"
  shows "is_open s \<and> s_symbol s = symbol \<and> s_htf_interval s = htf \<and> s_ltf_interval s = ltf \<and>
    s_htf_range s = z \<and> s_rejection s = rej \<and> s_direction s = signal_dir z \<and>
    s_created_at s = r_timestamp rej \<and> s_closed_at s = None"
proof -
  from assms have b: "build_signal symbol htf ltf z rej i p b lb la = Inr (Some s)"
    by (cases "build_signal symbol htf ltf z rej i p b lb la")
      (auto simp: evaluate_setup_def truthy_str_def split: option.splits)
  have iv: "s_htf_interval (mk_signal i symbol htf ltf br z rej e sl t1 t2 rr risk iv b a) = htf"
    "s_ltf_interval (mk_signal i symbol htf ltf br z rej e sl t1 t2 rr risk iv b a) = ltf"
    "s_closed_at (mk_signal i symbol htf ltf br z rej e sl t1 t2 rr risk iv b a) = None"
    for i symbol htf ltf br z rej e sl t1 t2 rr risk iv b a
    by (simp_all add: mk_signal_def Let_def)
  show ?thesis
    using b unfolding build_signal_eq by (auto simp: bindR_Inr_iff iv split: if_splits)
qed

section \<open>One decision\<close>

text \<open>The caches aside, what the walk remembers.\<close>

definition core_eq :: "walk \<Rightarrow> walk \<Rightarrow> bool" where
  "core_eq w w' \<longleftrightarrow> wk_dead w' = wk_dead w \<and> wk_counts w' = wk_counts w \<and> wk_seen w' = wk_seen w \<and>
     wk_open w' = wk_open w \<and> wk_results w' = wk_results w"

lemma core_eq_refl [simp]: "core_eq w w" by (simp add: core_eq_def)

lemma core_eq_trans: "core_eq a b \<Longrightarrow> core_eq b c \<Longrightarrow> core_eq a c" by (simp add: core_eq_def)

lemma core_zone_spent: "core_eq w w' \<Longrightarrow> zone_spent bt pr z w' = zone_spent bt pr z w"
  by (simp add: core_eq_def zone_spent_def wk_count_def)

lemma core_rejection_passes: "core_eq w w' \<Longrightarrow> rejection_passes bt v z rej w' = rejection_passes bt v z rej w"
  by (simp add: core_eq_def rejection_passes_def)

lemma core_count: "core_eq w w' \<Longrightarrow> wk_count w' = wk_count w"
  by (simp add: core_eq_def wk_count_def fun_eq_iff)

lemma core_book: "core_eq w w' \<Longrightarrow> core_eq (book_signal bt v z rej s r w) (book_signal bt v z rej s r w')"
  by (simp add: core_eq_def book_signal_def Let_def)

text \<open>A view of the data at \<open>t\<close>, and a cache whose entries were read from the candles they name.\<close>

definition view_ok :: "backtester \<Rightarrow> ms \<Rightarrow> view \<Rightarrow> bool" where
  "view_ok bt t v \<longleftrightarrow> map_of (bt_ltf bt) (snd (vw_pair v)) = Some (vw_ltf_all v) \<and>
     (\<exists>m. interval_to_minutes (snd (vw_pair v)) = Inr m \<and> m \<noteq> 0 \<and> vw_ltf_ms v = m * 60000) \<and>
     vw_now v = closed_open t (vw_ltf_ms v) \<and>
     vw_hi v = bisect_right (map c_timestamp (vw_ltf_all v)) (vw_now v)"

text \<open>
  The HTF data of a view taken at a time of \<open>T\<close>: the candles that had closed by that time and the
  window at their end. A zone and a trend are known when they were computed from such a view.
\<close>

definition closed_view :: "backtester \<Rightarrow> ms set \<Rightarrow> view \<Rightarrow> bool" where
  "closed_view bt T u \<longleftrightarrow>
     (\<exists>hs t lookback. lookup (bt_htf bt) (fst (vw_pair u)) = Inr hs \<and>
        lookup (bt_htf_ms bt) (fst (vw_pair u)) = Inr (vw_htf_ms u) \<and> t \<in> T \<and>
        vw_htf_visible u = take (htf_upto hs (t - vw_htf_ms u)) hs \<and>
        vw_htf_window u = htf_window hs (t - vw_htf_ms u) lookback)"

definition known_zone :: "backtester \<Rightarrow> ms set \<Rightarrow> pair \<Rightarrow> htf_zone \<Rightarrow> bool" where
  "known_zone bt T pr z \<longleftrightarrow>
     (\<exists>u zs. closed_view bt T u \<and> vw_pair u = pr \<and> fresh_ranges bt u = Inr zs \<and> z \<in> set zs)"

definition known_trend :: "backtester \<Rightarrow> ms set \<Rightarrow> string \<Rightarrow> structure_result \<Rightarrow> bool" where
  "known_trend bt T htf st \<longleftrightarrow>
     (\<exists>u. closed_view bt T u \<and> fst (vw_pair u) = htf \<and> st = detect (vw_htf_window u) PIVOT_BARS)"

definition trend_fits :: "backtester \<Rightarrow> ms set \<Rightarrow> string \<Rightarrow> structure_result option \<Rightarrow> bool" where
  "trend_fits bt T htf structure \<longleftrightarrow>
     (case structure of None \<Rightarrow> \<not> p_use_trend_filter (bt_profile bt) | Some st \<Rightarrow> known_trend bt T htf st)"

text \<open>
  The entry found in a zone on the first \<open>hi\<close> LTF candles. Through its cache a zone takes over the
  entry found for an earlier zone of the same break.
\<close>

definition seen_in :: "backtester \<Rightarrow> ms set \<Rightarrow> cache_key \<Rightarrow> candle list \<Rightarrow> nat \<Rightarrow> rejection \<Rightarrow> bool" where
  "seen_in bt T ck cs hi rej \<longleftrightarrow>
     (\<exists>pr z lo sc. known_zone bt T pr z \<and> bt_cache_key pr z = ck \<and>
        find_entry (slice (take hi cs) lo hi) (signal_dir z) z = Some (rej, sc))"

definition cache_ok :: "backtester \<Rightarrow> ms set \<Rightarrow> walk \<Rightarrow> bool" where
  "cache_ok bt T w \<longleftrightarrow>
     (\<forall>ck hi rej sc. wk_zone_cache w ck = Some (hi, Some (rej, sc)) \<longrightarrow>
       (\<exists>cs. map_of (bt_ltf bt) (fst (snd ck)) = Some cs \<and> seen_in bt T ck cs hi rej)) \<and>
     (\<forall>pr t zs. wk_rng_cache w pr = Some (t, zs) \<longrightarrow> (\<forall>z \<in> set zs. known_zone bt T pr z)) \<and>
     (\<forall>htf t st. wk_ms_cache w htf = Some (t, st) \<longrightarrow> known_trend bt T htf st)"

lemma closed_view_mono: "closed_view bt T u \<Longrightarrow> T \<subseteq> T' \<Longrightarrow> closed_view bt T' u"
  unfolding closed_view_def by blast

lemma known_mono:
  "known_zone bt T pr z \<Longrightarrow> T \<subseteq> T' \<Longrightarrow> known_zone bt T' pr z"
  "known_trend bt T htf st \<Longrightarrow> T \<subseteq> T' \<Longrightarrow> known_trend bt T' htf st"
  unfolding known_zone_def known_trend_def using closed_view_mono by blast+

lemma seen_in_mono: "seen_in bt T ck cs hi rej \<Longrightarrow> T \<subseteq> T' \<Longrightarrow> seen_in bt T' ck cs hi rej"
  unfolding seen_in_def using known_mono(1) by blast

lemma cache_ok_mono: "cache_ok bt T w \<Longrightarrow> T \<subseteq> T' \<Longrightarrow> cache_ok bt T' w"
  unfolding cache_ok_def using known_mono seen_in_mono by meson

lemma cache_okD:
  assumes "cache_ok bt T w"
  shows "wk_zone_cache w ck = Some (hi, Some (rej, sc)) \<Longrightarrow>
      \<exists>cs. map_of (bt_ltf bt) (fst (snd ck)) = Some cs \<and> seen_in bt T ck cs hi rej"
    and "wk_rng_cache w pr = Some (t, zs) \<Longrightarrow> z \<in> set zs \<Longrightarrow> known_zone bt T pr z"
    and "wk_ms_cache w htf = Some (t, st) \<Longrightarrow> known_trend bt T htf st"
  using assms unfolding cache_ok_def by blast+

text \<open>The caches of the HTF side untouched.\<close>

definition same_htf :: "walk \<Rightarrow> walk \<Rightarrow> bool" where
  "same_htf w w' \<longleftrightarrow> wk_rng_cache w' = wk_rng_cache w \<and> wk_ms_cache w' = wk_ms_cache w"

lemma cache_ok_less:
  "cache_ok bt T w \<Longrightarrow> \<forall>ck. wk_zone_cache w' ck \<in> {None, wk_zone_cache w ck} \<Longrightarrow> same_htf w w' \<Longrightarrow>
   cache_ok bt T w'"
  unfolding cache_ok_def same_htf_def by (metis insertE option.distinct(1) singletonD)

text \<open>The simulated trade of a signal decided on a view.\<close>

definition trade_of :: "backtester \<Rightarrow> ms set \<Rightarrow> view \<Rightarrow> trade_signal \<Rightarrow> backtest_result \<Rightarrow> bool" where
  "trade_of bt T v s res \<longleftrightarrow>
     s_symbol s = bt_symbol bt \<and> s_htf_interval s = fst (vw_pair v) \<and> s_ltf_interval s = snd (vw_pair v) \<and>
     s_direction s = signal_dir (s_htf_range s) \<and> s_created_at s = r_timestamp (s_rejection s) \<and>
     s_closed_at s = None \<and>
     known_zone bt T (vw_pair v) (s_htf_range s) \<and>
     (p_use_trend_filter (bt_profile bt) \<longrightarrow>
        (\<exists>st. known_trend bt T (fst (vw_pair v)) st \<and> allows st (direction_value (s_direction s)))) \<and>
     seen_in bt T (bt_cache_key (vw_pair v) (s_htf_range s)) (vw_ltf_all v) (vw_hi v) (s_rejection s) \<and>
     simulate (bt_cfg bt) (bt_giveback bt) s (drop (vw_hi v) (vw_ltf_all v)) = Inr res \<and>
     setup_of (br_signal res) = setup_of s"

definition admits :: "backtester \<Rightarrow> ms set \<Rightarrow> view \<Rightarrow> walk \<Rightarrow> walk \<Rightarrow> bool" where
  "admits bt T v w w' \<longleftrightarrow>
     (\<exists>s res. trade_of bt T v s res \<and> \<not> zone_spent bt (vw_pair v) (s_htf_range s) w \<and>
        rejection_passes bt v (s_htf_range s) (s_rejection s) w \<and>
        s_zone_attempt s = wk_count w (bt_zone_key bt (vw_pair v) (s_htf_range s)) + 1 \<and>
        core_eq (book_signal bt v (s_htf_range s) (s_rejection s) s res w) w')"

lemma core_admits: "core_eq w w1 \<Longrightarrow> admits bt T v w1 w' \<Longrightarrow> admits bt T v w w'"
  unfolding admits_def
  by (auto simp: core_zone_spent core_rejection_passes core_count) (meson core_book core_eq_trans)

lemma take_setup_step:
  assumes "take_setup bt v z rej w = Inr (b, w')"
    and "seen_in bt T (bt_cache_key (vw_pair v) z) (vw_ltf_all v) (vw_hi v) rej" "known_zone bt T (vw_pair v) z"
    and "p_use_trend_filter (bt_profile bt) \<Longrightarrow>
      \<exists>st. known_trend bt T (fst (vw_pair v)) st \<and> allows st (direction_value (signal_dir z))"
    and "\<not> zone_spent bt (vw_pair v) z w" "rejection_passes bt v z rej w"
  shows "if b then admits bt T v w w' \<and> (\<forall>ck. wk_zone_cache w' ck \<in> {None, wk_zone_cache w ck}) \<and> same_htf w w'
    else w' = w"
proof -
  from assms(1) obtain p dcn where e: "evaluate_setup (bt_symbol bt) (fst (vw_pair v)) (snd (vw_pair v)) z rej
      (bt_signal_id bt (vw_pair v) rej (signal_dir z)) p [] None None None = Inr dcn"
    and rest: "(case dec_signal dcn of
        None \<Rightarrow> Inr (False, w)
      | Some s0 \<Rightarrow>
          let s = s0\<lparr>s_setup_open_at := Some (r_timestamp rej),
                     s_setup_close_at := Some (r_timestamp rej + vw_ltf_ms v),
                     s_zone_attempt := wk_count w (bt_zone_key bt (vw_pair v) z) + 1\<rparr>
          in bindR (simulate (bt_cfg bt) (bt_giveback bt) s (drop (vw_hi v) (vw_ltf_all v))) (\<lambda>res.
             bindR (trace_from_signal (bt_digest bt) ''backtest'' (br_signal res) (bt_cfg bt) (dec_reason dcn)
                      (dec_blocked_reason dcn) (Some (bt_start_balance bt)) (Some (bt_risk_percent bt))
                      (Some (br_outcome res)) None) (\<lambda>tr.
             let w' = book_signal bt v z rej s res w in
             Inr (True, w'\<lparr>wk_trace := wk_trace w' @ [tr]\<rparr>)))) = Inr (b, w')"
    by (auto simp: take_setup_def Let_def bindR_Inr_iff)
  show ?thesis
  proof (cases "dec_signal dcn")
    case None
    then show ?thesis using rest by simp
  next
    case (Some s0)
    define s where "s = s0\<lparr>s_setup_open_at := Some (r_timestamp rej),
      s_setup_close_at := Some (r_timestamp rej + vw_ltf_ms v),
      s_zone_attempt := wk_count w (bt_zone_key bt (vw_pair v) z) + 1\<rparr>"
    from rest Some obtain res tr where sim: "simulate (bt_cfg bt) (bt_giveback bt) s (drop (vw_hi v) (vw_ltf_all v)) = Inr res"
      and b: "b" and w': "w' = (book_signal bt v z rej s res w)
        \<lparr>wk_trace := wk_trace (book_signal bt v z rej s res w) @ [tr]\<rparr>"
      by (auto simp: Let_def bindR_Inr_iff s_def)
    note f = evaluate_setup_fields [OF e Some]
    have s: "is_open s" "s_htf_range s = z" "s_rejection s = rej"
      "s_zone_attempt s = wk_count w (bt_zone_key bt (vw_pair v) z) + 1"
      using f by (simp_all add: s_def)
    have "trade_of bt T v s res"
      using f assms(2-4) sim simulate_setup [OF s(1) sim] by (simp add: trade_of_def s_def)
    moreover have "core_eq (book_signal bt v z rej s res w) w'" by (simp add: core_eq_def w')
    ultimately have "admits bt T v w w'"
      unfolding admits_def using assms(5,6) s by (intro exI [of _ s] exI [of _ res]) simp
    moreover have "wk_zone_cache w' ck \<in> {None, wk_zone_cache w ck}" "same_htf w w'" for ck
      by (simp_all add: w' book_signal_def Let_def same_htf_def)
    ultimately show ?thesis using b by simp
  qed
qed

lemma zone_lo_core:
  assumes "zone_lo_at v z w = (lo, w1)"
  shows "core_eq w w1 \<and> wk_zone_cache w1 = wk_zone_cache w \<and> same_htf w w1"
  using assms by (auto simp: zone_lo_at_def Let_def core_eq_def same_htf_def split: option.splits)

lemma entry_at_core:
  assumes "entry_at v lo z w = (e, w2)" "view_ok bt t v" "cache_ok bt T w" "known_zone bt T (vw_pair v) z"
  shows "core_eq w w2 \<and> cache_ok bt T w2 \<and>
    (\<forall>rej sc. e = Some (rej, sc) \<longrightarrow>
       seen_in bt T (bt_cache_key (vw_pair v) z) (vw_ltf_all v) (vw_hi v) rej)"
proof -
  define ck where "ck = bt_cache_key (vw_pair v) z"
  have ltf: "map_of (bt_ltf bt) (fst (snd ck)) = Some (vw_ltf_all v)"
    using assms(2) by (simp add: view_ok_def ck_def bt_cache_key_def)
  have fresh: "seen_in bt T ck (vw_ltf_all v) (vw_hi v) rej" if "fresh_entry v lo z = Some (rej, sc)" for rej sc
    using that assms(4) unfolding seen_in_def fresh_entry_def ck_def by blast
  consider (hit) "wk_zone_cache w ck = Some (vw_hi v, e)" "w2 = w"
    | (miss) "e = fresh_entry v lo z" "w2 = w\<lparr>wk_zone_cache := (wk_zone_cache w)(ck \<mapsto> (vw_hi v, e))\<rparr>"
    using assms(1) by (auto simp: entry_at_def Let_def ck_def split: option.splits if_splits)
  then show ?thesis
  proof cases
    case hit
    have "seen_in bt T ck (vw_ltf_all v) (vw_hi v) rej" if "e = Some (rej, sc)" for rej sc
      using cache_okD(1) [OF assms(3) hit(1) [unfolded that]] ltf by auto
    then show ?thesis using hit assms(3) by (simp add: ck_def)
  next
    case miss
    have "\<exists>cs. map_of (bt_ltf bt) (fst (snd ck')) = Some cs \<and> seen_in bt T ck' cs hi rej"
      if "wk_zone_cache w2 ck' = Some (hi, Some (rej, sc))" for ck' hi rej sc
      using that miss fresh ltf cache_okD(1) [OF assms(3)] by (cases "ck' = ck") auto
    then have "cache_ok bt T w2" using assms(3) miss(2) unfolding cache_ok_def by simp
    then show ?thesis using miss fresh by (auto simp: core_eq_def ck_def)
  qed
qed

text \<open>A decision: nothing but the caches changes, or one signal is admitted.\<close>

definition decides :: "backtester \<Rightarrow> ms set \<Rightarrow> ms \<Rightarrow> walk \<Rightarrow> walk \<Rightarrow> bool" where
  "decides bt T t w w' \<longleftrightarrow> core_eq w w' \<or> (\<exists>v. view_ok bt t v \<and> admits bt T v w w')"

lemma decides_core: "core_eq w w1 \<Longrightarrow> decides bt T t w1 w' \<Longrightarrow> decides bt T t w w'"
  unfolding decides_def using core_admits core_eq_trans by blast

lemma scan_zone_step:
  assumes "scan_zone bt v structure z w = Inr (b, w')" "view_ok bt t v" "cache_ok bt T w"
    and "known_zone bt T (vw_pair v) z" "trend_fits bt T (fst (vw_pair v)) structure"
  shows "cache_ok bt T w' \<and> (if b then decides bt T t w w' else core_eq w w')"
proof (cases "zone_spent bt (vw_pair v) z w")
  case True
  then show ?thesis using assms by (simp add: scan_zone_def)
next
  case False
  obtain lo w1 where lo: "zone_lo_at v z w = (lo, w1)" by (cases "zone_lo_at v z w")
  note l = zone_lo_core [OF lo]
  have c1: "cache_ok bt T w1" using l assms(3) by (auto intro: cache_ok_less)
  obtain e w2 where en: "entry_at v lo z w1 = (e, w2)" by (cases "entry_at v lo z w1")
  note n = entry_at_core [OF en assms(2) c1 assms(4)]
  have c2: "core_eq w w2" using l n core_eq_trans by blast
  have trend: "(case structure of None \<Rightarrow> False
      | Some st \<Rightarrow> \<not> allows st (direction_value (signal_dir z))) \<Longrightarrow> \<not> b \<and> w' = w1"
    using assms(1) False by (simp add: scan_zone_def lo)
  show ?thesis
  proof (cases "case structure of None \<Rightarrow> False
      | Some st \<Rightarrow> \<not> allows st (direction_value (signal_dir z))")
    case True
    then show ?thesis using trend l c1 by simp
  next
    case go: False
    show ?thesis
    proof (cases "\<exists>rej sc. e = Some (rej, sc) \<and> rejection_passes bt v z rej w2")
      case True
      then obtain rej sc where r: "e = Some (rej, sc)" "rejection_passes bt v z rej w2" by blast
      have t: "take_setup bt v z rej w2 = Inr (b, w')"
        using assms(1) False go r by (simp add: scan_zone_def lo en split del: if_split)
      have sp: "\<not> zone_spent bt (vw_pair v) z w2" using False core_zone_spent [OF c2] by simp
      have seen: "seen_in bt T (bt_cache_key (vw_pair v) z) (vw_ltf_all v) (vw_hi v) rej" using n r(1) by blast
      have "\<exists>st. known_trend bt T (fst (vw_pair v)) st \<and> allows st (direction_value (signal_dir z))"
        if "p_use_trend_filter (bt_profile bt)"
        using that assms(5) go by (auto simp: trend_fits_def split: option.splits)
      from take_setup_step [OF t seen assms(4) this sp r(2)]
      show ?thesis
        using core_admits [OF c2] assms(2) cache_ok_less conjunct2 [OF n] c2
        by (cases b) (auto simp: decides_def)
    next
      case False
      then have "\<not> b \<and> w' = w2"
        using assms(1) \<open>\<not> zone_spent bt (vw_pair v) z w\<close> go
        by (auto simp: scan_zone_def lo en split: option.splits prod.splits if_splits)
      then show ?thesis using n c2 by simp
    qed
  qed
qed

lemma scan_zones_step:
  assumes "scan_zones_bt bt v structure zs w = Inr w'" "view_ok bt t v" "cache_ok bt T w"
    and "\<forall>z \<in> set zs. known_zone bt T (vw_pair v) z" "trend_fits bt T (fst (vw_pair v)) structure"
  shows "cache_ok bt T w' \<and> decides bt T t w w'"
  using assms(1,3,4)
proof (induction zs arbitrary: w)
  case (Cons z zs)
  from Cons.prems(1) obtain b w1 where s: "scan_zone bt v structure z w = Inr (b, w1)"
    and rest: "(if b then Inr w1 else scan_zones_bt bt v structure zs w1) = Inr w'"
    by (auto simp: bindR_Inr_iff)
  have z: "known_zone bt T (vw_pair v) z" and zs: "\<forall>z \<in> set zs. known_zone bt T (vw_pair v) z"
    using Cons.prems(3) by simp_all
  note one = scan_zone_step [OF s assms(2) Cons.prems(2) z assms(5)]
  show ?case
    using one rest Cons.IH [OF _ _ zs, of w1] decides_core by (cases b) auto
qed (simp add: decides_def)

lemma structure_at_core:
  assumes "structure_at v w = (st, w1)" "cache_ok bt T w" "closed_view bt T v"
  shows "core_eq w w1 \<and> cache_ok bt T w1 \<and> known_trend bt T (fst (vw_pair v)) st"
proof -
  have new: "known_trend bt T (fst (vw_pair v)) (detect (vw_htf_window v) PIVOT_BARS)"
    using assms(3) unfolding known_trend_def by blast
  consider (hit) t where "wk_ms_cache w (fst (vw_pair v)) = Some (t, st)" "w1 = w"
    | (miss) t where "st = detect (vw_htf_window v) PIVOT_BARS"
        "w1 = w\<lparr>wk_ms_cache := (wk_ms_cache w)(fst (vw_pair v) \<mapsto> (t, st))\<rparr>"
    using assms(1) by (auto simp: structure_at_def Let_def split: option.splits if_splits)
  then show ?thesis
  proof cases
    case hit
    then show ?thesis using assms(2) cache_okD(3) by simp
  next
    case miss
    then have "cache_ok bt T w1" using assms(2) new by (auto simp: cache_ok_def split: if_splits)
    then show ?thesis using miss new by (simp add: core_eq_def)
  qed
qed

lemma ranges_at_core:
  assumes "ranges_at bt v w = Inr (zs, w1)" "cache_ok bt T w" "closed_view bt T v"
  shows "core_eq w w1 \<and> cache_ok bt T w1 \<and> (\<forall>z \<in> set zs. known_zone bt T (vw_pair v) z)"
proof -
  have new: "\<forall>z \<in> set zs. known_zone bt T (vw_pair v) z" if "fresh_ranges bt v = Inr zs" for zs
    using assms(3) that unfolding known_zone_def by blast
  consider (hit) t where "wk_rng_cache w (vw_pair v) = Some (t, zs)" "w1 = w"
    | (miss) t where "fresh_ranges bt v = Inr zs"
        "w1 = w\<lparr>wk_rng_cache := (wk_rng_cache w)(vw_pair v \<mapsto> (t, zs))\<rparr>"
    using assms(1) by (auto simp: ranges_at_def Let_def bindR_Inr_iff split: option.splits if_splits)
  then show ?thesis
  proof cases
    case hit
    then show ?thesis using assms(2) cache_okD(2) by auto
  next
    case miss
    then have "cache_ok bt T w1" using assms(2) new by (auto simp: cache_ok_def split: if_splits)
    then show ?thesis using miss new by (simp add: core_eq_def)
  qed
qed

lemma trend_at_core:
  assumes "trend_at bt v w = (st, w1)" "cache_ok bt T w" "closed_view bt T v"
  shows "core_eq w w1 \<and> cache_ok bt T w1 \<and> trend_fits bt T (fst (vw_pair v)) st"
  using assms structure_at_core [of v w _ _ bt T]
  by (auto simp: trend_at_def trend_fits_def split: if_splits prod.splits)

lemma scan_pair_step:
  assumes "scan_pair bt t v st zs w = Inr w'" "cache_ok bt T w"
    and "\<forall>z \<in> set zs. known_zone bt T (vw_pair v) z" "trend_fits bt T (fst (vw_pair v)) st"
  shows "cache_ok bt T w' \<and> decides bt T t w w'"
proof -
  from assms(1) obtain ltf_all stale_ms m where l: "lookup (bt_ltf bt) (snd (vw_pair v)) = Inr ltf_all"
    and m: "interval_to_minutes (snd (vw_pair v)) = Inr m"
    and rest: "(if m * 60000 = 0 then Inl ZeroDivisionError
      else if bisect_right (map c_timestamp ltf_all) (closed_open t (m * 60000)) = 0 then Inr w
      else scan_zones_bt bt
        (v\<lparr>vw_ltf_all := ltf_all, vw_ltf_ms := m * 60000, vw_now := closed_open t (m * 60000),
           vw_hi := bisect_right (map c_timestamp ltf_all) (closed_open t (m * 60000)),
           vw_stale_ms := stale_ms\<rparr>) st zs w) = Inr w'"
    unfolding scan_pair_def Let_def bindR_Inr_iff by (elim exE conjE) (rule that)
  define v' where "v' = v\<lparr>vw_ltf_all := ltf_all, vw_ltf_ms := m * 60000, vw_now := closed_open t (m * 60000),
     vw_hi := bisect_right (map c_timestamp ltf_all) (closed_open t (m * 60000)), vw_stale_ms := stale_ms\<rparr>"
  note go = rest [folded v'_def]
  have m0: "m \<noteq> 0" using rest by auto
  have "map_of (bt_ltf bt) (snd (vw_pair v)) = Some ltf_all"
    using l by (auto simp: lookup_def split: option.splits)
  then have v: "view_ok bt t v'"
    using m m0 by (simp add: view_ok_def v'_def)
  show ?thesis
  proof (cases "bisect_right (map c_timestamp ltf_all) (closed_open t (m * 60000)) = 0")
    case True
    then have "w' = w" using go m0 by simp
    then show ?thesis using assms(2) by (simp add: decides_def)
  next
    case False
    with go m0 have "scan_zones_bt bt v' st zs w = Inr w'" by (simp only: mult_eq_0_iff if_False) simp
    moreover have "\<forall>z \<in> set zs. known_zone bt T (vw_pair v') z" "trend_fits bt T (fst (vw_pair v')) st"
      using assms(3,4) by (simp_all add: v'_def)
    ultimately show ?thesis by (rule scan_zones_step [OF _ v assms(2)])
  qed
qed

lemma walk_view_step:
  assumes "walk_view bt t v w = Inr w'" "cache_ok bt T w" "closed_view bt T v"
  shows "cache_ok bt T w' \<and> decides bt T t w w'"
proof -
  obtain st w1 where s: "trend_at bt v w = (st, w1)" by (cases "trend_at bt v w")
  note c1 = trend_at_core [OF s assms(2,3)]
  show ?thesis
  proof (cases "case st of None \<Rightarrow> False | Some st \<Rightarrow> st_bias st = BIAS_NEUTRAL")
    case True
    then have "w' = w1" using assms(1) by (simp add: walk_view_def s)
    then show ?thesis using c1 by (simp add: decides_def)
  next
    case False
    then obtain zs w2 where r: "ranges_at bt v w1 = Inr (zs, w2)" and p: "scan_pair bt t v st zs w2 = Inr w'"
      using assms(1) by (auto simp: walk_view_def s bindR_Inr_iff)
    note c2 = ranges_at_core [OF r conjunct1 [OF conjunct2 [OF c1]] assms(3)]
    have "cache_ok bt T w' \<and> decides bt T t w2 w'"
      using c1 c2 by (intro scan_pair_step [OF p]) simp_all
    then show ?thesis using c1 c2 decides_core core_eq_trans by blast
  qed
qed

lemma walk_pair_step:
  assumes "walk_pair bt t prl w = Inr w'" "cache_ok bt T w" "t \<in> T"
  shows "cache_ok bt T w' \<and> decides bt T t w w'"
proof -
  obtain pr lb where prl: "prl = (pr, lb)" by (cases prl)
  from assms(1) obtain x where look: "look_at_pair bt t lb pr w = Inr x"
    and rest: "(case x of None \<Rightarrow> Inr w
      | Some (visible, window, last_ts, htf_ms) \<Rightarrow>
          walk_view bt t
            \<lparr>vw_pair = pr, vw_htf_visible = visible, vw_htf_window = window,
             vw_last_htf_ts = last_ts, vw_htf_ms = htf_ms, vw_ltf_all = [], vw_ltf_ms = 0,
             vw_now = 0, vw_hi = 0, vw_stale_ms = 0\<rparr> w) = Inr w'"
    by (auto simp: walk_pair_def prl bindR_Inr_iff)
  show ?thesis
  proof (cases x)
    case None
    then show ?thesis using rest assms(2) by (simp add: decides_def)
  next
    case (Some y)
    obtain visible window last_ts hms where y: "y = (visible, window, last_ts, hms)" by (cases y) auto
    obtain hs where hs: "lookup (bt_htf bt) (fst pr) = Inr hs" "lookup (bt_htf_ms bt) (fst pr) = Inr hms"
      "visible = take (htf_upto hs (t - hms)) hs" "window = htf_window hs (t - hms) lb"
      using look unfolding Some y by (auto simp: look_at_pair_def bindR_Inr_iff Let_def split: if_splits)
    have "closed_view bt T
      \<lparr>vw_pair = pr, vw_htf_visible = visible, vw_htf_window = window, vw_last_htf_ts = last_ts,
       vw_htf_ms = hms, vw_ltf_all = [], vw_ltf_ms = 0, vw_now = 0, vw_hi = 0, vw_stale_ms = 0\<rparr>"
      using hs assms(3) unfolding closed_view_def by (intro exI [of _ hs] exI [of _ t] exI [of _ lb]) simp
    from walk_view_step [OF _ assms(2) this] show ?thesis using rest unfolding Some y by simp
  qed
qed

text \<open>Every turn of a step is a decision at the same time.\<close>

lemma walk_pairs_step:
  assumes "walk_pairs bt t prs w = Inr w'" "cache_ok bt T w" "t \<in> T"
  shows "cache_ok bt T w' \<and> (decides bt T t)\<^sup>*\<^sup>* w w'"
  using assms
proof (induction prs arbitrary: w)
  case (Cons pr prs)
  from Cons.prems(1) obtain w1 where p: "walk_pair bt t pr w = Inr w1"
    and rest: "walk_pairs bt t prs w1 = Inr w'"
    by (auto simp: bindR_Inr_iff)
  note one = walk_pair_step [OF p Cons.prems(2,3)]
  show ?case
    using one Cons.IH [OF rest _ Cons.prems(3)] by (meson converse_rtranclp_into_rtranclp)
qed simp

section \<open>What the walk keeps\<close>

definition res_rej :: "backtest_result \<Rightarrow> rej_key" where
  "res_rej r = (let s = br_signal r in
     (s_symbol s, s_htf_interval s, s_ltf_interval s, r_timestamp (s_rejection s)))"

definition res_zone :: "backtest_result \<Rightarrow> zone_key" where
  "res_zone r = (let s = br_signal r; z = s_htf_range s in
     (s_symbol s, s_htf_interval s, s_ltf_interval s, z_timestamp z, bos_value (z_bos_direction z)))"

definition res_dir :: "backtester \<Rightarrow> backtest_result \<Rightarrow> dir_key" where
  "res_dir bt r = (let s = br_signal r in
     bt_dir_key bt (s_htf_interval s, s_ltf_interval s) (direction_value (s_direction s)))"

definition lock_until :: "backtester \<Rightarrow> backtest_result \<Rightarrow> ms" where
  "lock_until bt r = int_or (br_close_ts r) (s_created_at (br_signal r) + expiry_ms (bt_profile bt))"

text \<open>
  The rules kept: the memory is exactly what was booked; no rejection twice; the signals of a
  zone are numbered from one and stay within the cap.
\<close>

definition walk_ok :: "backtester \<Rightarrow> walk \<Rightarrow> bool" where
  "walk_ok bt w \<longleftrightarrow>
     wk_seen w = res_rej ` set (wk_results w) \<and> distinct (map res_rej (wk_results w)) \<and>
     (\<forall>zk. map (\<lambda>r. s_zone_attempt (br_signal r)) (filter (\<lambda>r. res_zone r = zk) (wk_results w)) =
        [1 .. wk_count w zk]) \<and>
     (\<forall>zk. 0 \<le> wk_count w zk \<and> wk_count w zk \<le> max 0 (g_max_signal_count_per_zone (bt_cfg bt)))"

text \<open>The time \<open>t\<close> of each decision, beside the results.\<close>

definition decided_at :: "backtester \<Rightarrow> int \<Rightarrow> ms \<Rightarrow> backtest_result \<Rightarrow> bool" where
  "decided_at bt master_ms t r \<longleftrightarrow> (\<exists>v s. view_ok bt (t + master_ms) v \<and> trade_of bt {..t + master_ms} v s r)"

definition log_ok :: "backtester \<Rightarrow> int \<Rightarrow> ms list \<Rightarrow> walk \<Rightarrow> bool" where
  "log_ok bt master_ms ts w \<longleftrightarrow>
     length ts = length (wk_results w) \<and> sorted ts \<and>
     (\<forall>j < length ts. decided_at bt master_ms (ts ! j) (wk_results w ! j) \<and>
        (\<forall>i < j. res_dir bt (wk_results w ! i) = res_dir bt (wk_results w ! j) \<longrightarrow>
           lock_until bt (wk_results w ! i) \<le> ts ! j))"

definition locks_ok :: "backtester \<Rightarrow> ms \<Rightarrow> walk \<Rightarrow> bool" where
  "locks_ok bt now w \<longleftrightarrow>
     (\<forall>r \<in> set (wk_results w). now < lock_until bt r \<longrightarrow> (res_dir bt r, lock_until bt r) \<in> set (wk_open w))"

text \<open>One admitted signal, in terms of the result it adds.\<close>

lemma admitsE:
  assumes "admits bt T v w w'"
  obtains s res where "trade_of bt T v s res" "wk_results w' = wk_results w @ [res]"
    "res_rej res \<notin> wk_seen w" "wk_seen w' = insert (res_rej res) (wk_seen w)"
    "res_dir bt res \<notin> fst ` set (wk_open w)"
    "wk_open w' = AList.update (res_dir bt res) (lock_until bt res) (wk_open w)"
    "wk_count w (res_zone res) < g_max_signal_count_per_zone (bt_cfg bt)"
    "wk_count w' = (wk_count w)(res_zone res := wk_count w (res_zone res) + 1)"
    "s_zone_attempt (br_signal res) = wk_count w (res_zone res) + 1"
proof -
  from assms obtain s res where t: "trade_of bt T v s res"
    and zs: "\<not> zone_spent bt (vw_pair v) (s_htf_range s) w"
    and rp: "rejection_passes bt v (s_htf_range s) (s_rejection s) w"
    and za: "s_zone_attempt s = wk_count w (bt_zone_key bt (vw_pair v) (s_htf_range s)) + 1"
    and core: "core_eq (book_signal bt v (s_htf_range s) (s_rejection s) s res w) w'"
    unfolding admits_def by blast
  have su: "setup_of (br_signal res) = setup_of s" using t by (simp add: trade_of_def)
  note f = setup_of_fields [OF su]
  have attempt: "s_zone_attempt (br_signal res) = s_zone_attempt s"
    using su by (cases s; cases "br_signal res") (simp add: setup_of_def)
  have keys: "res_rej res = bt_rej_key bt (vw_pair v) (s_rejection s)"
    "res_zone res = bt_zone_key bt (vw_pair v) (s_htf_range s)"
    "res_dir bt res = bt_dir_key bt (vw_pair v) (direction_value (signal_dir (s_htf_range s)))"
    "lock_until bt res = int_or (br_close_ts res) (s_created_at s + expiry_ms (bt_profile bt))"
    using f t by (auto simp: res_rej_def res_zone_def res_dir_def lock_until_def bt_rej_key_def
        bt_zone_key_def trade_of_def Let_def)
  show thesis
  proof (rule that [OF t])
    show "wk_results w' = wk_results w @ [res]" "wk_seen w' = insert (res_rej res) (wk_seen w)"
      using core by (simp_all add: core_eq_def book_signal_def Let_def keys)
    show "wk_open w' = AList.update (res_dir bt res) (lock_until bt res) (wk_open w)"
      using core unfolding keys by (simp add: core_eq_def book_signal_def Let_def)
    show "res_rej res \<notin> wk_seen w" "res_dir bt res \<notin> fst ` set (wk_open w)"
      using rp unfolding keys by (simp_all add: rejection_passes_def)
    show "wk_count w (res_zone res) < g_max_signal_count_per_zone (bt_cfg bt)"
      using zs unfolding keys by (simp add: zone_spent_def)
    show "s_zone_attempt (br_signal res) = wk_count w (res_zone res) + 1"
      using za attempt unfolding keys by simp
    show "wk_count w' = (wk_count w)(res_zone res := wk_count w (res_zone res) + 1)"
      using core za unfolding keys
      by (auto simp: core_eq_def book_signal_def Let_def wk_count_def fun_eq_iff)
  qed
qed

lemma walk_okD:
  assumes "walk_ok bt w"
  shows "wk_seen w = res_rej ` set (wk_results w)" "distinct (map res_rej (wk_results w))"
    "map (\<lambda>r. s_zone_attempt (br_signal r)) (filter (\<lambda>r. res_zone r = zk) (wk_results w)) = [1 .. wk_count w zk]"
    "0 \<le> wk_count w zk" "wk_count w zk \<le> max 0 (g_max_signal_count_per_zone (bt_cfg bt))"
  using assms unfolding walk_ok_def by blast+

lemma walk_ok_core: "walk_ok bt w \<Longrightarrow> core_eq w w' \<Longrightarrow> walk_ok bt w'"
  unfolding walk_ok_def by (auto simp: core_eq_def wk_count_def)

lemma walk_ok_admits:
  assumes "walk_ok bt w" "admits bt T v w w'"
  shows "walk_ok bt w'"
  using assms(2)
proof (cases rule: admitsE)
  case (1 s res)
  define n where "n = wk_count w (res_zone res)"
  have n: "0 \<le> n" using walk_okD(4) [OF assms(1)] by (simp only: n_def)
  have "map (\<lambda>r. s_zone_attempt (br_signal r)) (filter (\<lambda>r. res_zone r = zk) (wk_results w')) =
      [1 .. wk_count w' zk]" for zk
  proof -
    have old: "map (\<lambda>r. s_zone_attempt (br_signal r)) (filter (\<lambda>r. res_zone r = zk) (wk_results w)) =
        [1 .. wk_count w zk]"
      by (rule walk_okD(3) [OF assms(1)])
    show ?thesis
    proof (cases "zk = res_zone res")
      case True
      have "[1 .. n + 1] = [1 .. n] @ [n + 1]" using n by (simp add: upto_rec2)
      then show ?thesis using True old 1 by (simp add: n_def)
    next
      case False
      then show ?thesis using old 1 by simp
    qed
  qed
  moreover have "0 \<le> wk_count w' zk \<and> wk_count w' zk \<le> max 0 (g_max_signal_count_per_zone (bt_cfg bt))" for zk
    using walk_okD(4,5) [OF assms(1), of zk] walk_okD(4) [OF assms(1), of "res_zone res"] 1(7,8) by auto
  moreover have "wk_seen w' = res_rej ` set (wk_results w') \<and> distinct (map res_rej (wk_results w'))"
    using walk_okD(1,2) [OF assms(1)] 1(2-4) by auto
  ultimately show ?thesis unfolding walk_ok_def by blast
qed

lemma locks_ok_core: "locks_ok bt t w \<Longrightarrow> core_eq w w' \<Longrightarrow> locks_ok bt t w'"
  by (simp add: locks_ok_def core_eq_def)

lemma log_ok_core: "log_ok bt m ts w \<Longrightarrow> core_eq w w' \<Longrightarrow> log_ok bt m ts w'"
  by (simp add: log_ok_def core_eq_def)

lemma update_new: "k \<notin> fst ` set xs \<Longrightarrow> set (AList.update k v xs) = insert (k, v) (set xs)"
  by (induction xs) auto

lemma admits_logged:
  assumes "admits bt {..t + m} v w w'" "view_ok bt (t + m) v" "locks_ok bt t w" "log_ok bt m ts w"
    and "\<forall>u \<in> set ts. u \<le> t"
  shows "locks_ok bt t w' \<and> log_ok bt m (ts @ [t]) w'"
  using assms(1)
proof (cases rule: admitsE)
  case (1 s res)
  have locks: "locks_ok bt t w'"
    using assms(3) 1(2,5,6) by (auto simp: locks_ok_def update_new)
  have free: "lock_until bt r \<le> t" if "r \<in> set (wk_results w)" "res_dir bt r = res_dir bt res" for r
    using assms(3) that 1(5) unfolding locks_ok_def by (metis fst_conv image_eqI not_le)
  have len: "length ts = length (wk_results w)" using assms(4) by (simp add: log_ok_def)
  have "decided_at bt m t res" using 1(1) assms(2) by (auto simp: decided_at_def)
  then have "decided_at bt m ((ts @ [t]) ! j) (wk_results w' ! j) \<and>
      (\<forall>i < j. res_dir bt (wk_results w' ! i) = res_dir bt (wk_results w' ! j) \<longrightarrow>
         lock_until bt (wk_results w' ! i) \<le> (ts @ [t]) ! j)"
    if "j < length (ts @ [t])" for j
    using assms(4) that len free
    by (cases "j = length ts") (auto simp: 1(2) nth_append log_ok_def)
  moreover have "sorted (ts @ [t])"
    using assms(4,5) by (simp add: log_ok_def sorted_append)
  moreover have "length (ts @ [t]) = length (wk_results w')" using len 1(2) by simp
  ultimately show ?thesis using locks by (simp add: log_ok_def)
qed

lemma decides_logged:
  assumes "(decides bt {..t + m} (t + m))\<^sup>*\<^sup>* w w'" "walk_ok bt w" "locks_ok bt t w" "log_ok bt m ts w"
    and "\<forall>u \<in> set ts. u \<le> t"
  shows "\<exists>us. (\<forall>u \<in> set us. u = t) \<and> walk_ok bt w' \<and> locks_ok bt t w' \<and> log_ok bt m (ts @ us) w'"
  using assms
proof (induction rule: rtranclp_induct)
  case base
  then show ?case by (intro exI [of _ "[]"]) simp
next
  case (step y z)
  then obtain us where us: "\<forall>u \<in> set us. u = t" "walk_ok bt y" "locks_ok bt t y" "log_ok bt m (ts @ us) y"
    by blast
  have before: "\<forall>u \<in> set (ts @ us). u \<le> t" using us(1) step.prems(4) by auto
  from step.hyps(2) consider "core_eq y z" | v where "view_ok bt (t + m) v" "admits bt {..t + m} v y z"
    unfolding decides_def by blast
  then show ?case
  proof cases
    case 1
    then show ?thesis using us walk_ok_core locks_ok_core log_ok_core by blast
  next
    case (2 v)
    from admits_logged [OF 2(2,1) us(3,4) before] walk_ok_admits [OF us(2) 2(2)]
    show ?thesis using us(1) by (intro exI [of _ "us @ [t]"]) auto
  qed
qed

section \<open>The whole run\<close>

lemma expire_keeps:
  "wk_results (expire_locks t w) = wk_results w" "wk_seen (expire_locks t w) = wk_seen w"
  "wk_count (expire_locks t w) = wk_count w"
  by (simp_all add: expire_locks_def wk_count_def fun_eq_iff)

lemma cache_ok_expire: "cache_ok bt T w \<Longrightarrow> cache_ok bt T (expire_locks t w)"
  by (simp add: cache_ok_def expire_locks_def)

lemma walk_ok_expire: "walk_ok bt w \<Longrightarrow> walk_ok bt (expire_locks t w)"
  by (unfold walk_ok_def expire_keeps)

lemma log_ok_expire: "log_ok bt m ts w \<Longrightarrow> log_ok bt m ts (expire_locks t w)"
  by (unfold log_ok_def expire_keeps)

lemma walk_step_logged:
  assumes "walk_step bt prs m c w = Inr w'" "cache_ok bt {..u + m} w" "walk_ok bt w" "locks_ok bt u w"
    and "log_ok bt m ts w" "u \<le> c_timestamp c" "\<forall>x \<in> set ts. x \<le> c_timestamp c"
  shows "cache_ok bt {..c_timestamp c + m} w' \<and> walk_ok bt w' \<and> locks_ok bt (c_timestamp c) w' \<and>
    (\<exists>us. (\<forall>x \<in> set us. x = c_timestamp c) \<and> log_ok bt m (ts @ us) w')"
proof -
  define w0 where "w0 = expire_locks (c_timestamp c) w"
  have ok: "cache_ok bt {..c_timestamp c + m} w0"
    unfolding w0_def by (rule cache_ok_expire) (rule cache_ok_mono [OF assms(2)], use assms(6) in simp)
  have "walk_ok bt w0" "log_ok bt m ts w0"
    using assms(3,5) by (simp_all add: w0_def walk_ok_expire log_ok_expire)
  moreover have "locks_ok bt (c_timestamp c) w0"
    using assms(4,6) by (auto simp: locks_ok_def w0_def expire_locks_def)
  ultimately show ?thesis
    using walk_pairs_step [OF assms(1) [unfolded walk_step_def, folded w0_def] ok]
      decides_logged [of bt "c_timestamp c" m w0 w' ts] assms(7) by simp blast
qed

lemma walk_steps_logged:
  assumes "walk_steps bt prs m cs w = Inr w'" "sorted (map c_timestamp cs)"
    and "cache_ok bt {..u + m} w" "walk_ok bt w" "locks_ok bt u w" "log_ok bt m ts w"
    and "\<forall>c \<in> set cs. u \<le> c_timestamp c \<and> (\<forall>x \<in> set ts. x \<le> c_timestamp c)"
  shows "walk_ok bt w' \<and> (\<exists>us. set us \<subseteq> c_timestamp ` set cs \<and> log_ok bt m (ts @ us) w')"
  using assms
proof (induction cs arbitrary: w u ts)
  case Nil
  then show ?case by (intro conjI exI [of _ "[]"]) simp_all
next
  case (Cons c cs)
  from Cons.prems(1) obtain w1 where s: "walk_step bt prs m c w = Inr w1" and rest: "walk_steps bt prs m cs w1 = Inr w'"
    by (auto simp: bindR_Inr_iff)
  have le: "u \<le> c_timestamp c" "\<forall>x \<in> set ts. x \<le> c_timestamp c" using Cons.prems(7) by auto
  from walk_step_logged [OF s Cons.prems(3-6) le] obtain us where
    one: "cache_ok bt {..c_timestamp c + m} w1" "walk_ok bt w1" "locks_ok bt (c_timestamp c) w1"
      "\<forall>x \<in> set us. x = c_timestamp c" "log_ok bt m (ts @ us) w1"
    by blast
  have srt: "sorted (map c_timestamp cs)" and later: "\<forall>c' \<in> set cs. c_timestamp c \<le> c_timestamp c'"
    using Cons.prems(2) by auto
  then have "\<forall>c' \<in> set cs. c_timestamp c \<le> c_timestamp c' \<and> (\<forall>x \<in> set (ts @ us). x \<le> c_timestamp c')"
    using le(2) one(4) by (auto intro: order_trans)
  from Cons.IH [OF rest srt one(1-3,5) this] obtain us' where
    "walk_ok bt w'" "set us' \<subseteq> c_timestamp ` set cs" "log_ok bt m ((ts @ us) @ us') w'"
    by blast
  then show ?case using one(4) by (intro conjI exI [of _ "us @ us'"]) auto
qed

lemma init_ok: "cache_ok bt T init_walk" "walk_ok bt init_walk" "locks_ok bt u init_walk" "log_ok bt m [] init_walk"
  by (simp_all add: init_walk_def cache_ok_def walk_ok_def locks_ok_def log_ok_def wk_count_def)

text \<open>Without an order of the candles the log is lost, the rest holds.\<close>

lemma walk_steps_ok:
  assumes "walk_steps bt prs m cs w = Inr w'" "cache_ok bt UNIV w" "walk_ok bt w"
  shows "walk_ok bt w'"
  using assms
proof (induction cs arbitrary: w)
  case (Cons c cs)
  from Cons.prems(1) obtain w1 where s: "walk_step bt prs m c w = Inr w1" and rest: "walk_steps bt prs m cs w1 = Inr w'"
    by (auto simp: bindR_Inr_iff)
  define w0 where "w0 = expire_locks (c_timestamp c) w"
  have ok: "cache_ok bt UNIV w0" "walk_ok bt w0"
    using Cons.prems(2,3) by (simp_all add: w0_def cache_ok_expire walk_ok_expire)
  note p = walk_pairs_step [OF s [unfolded walk_step_def, folded w0_def] ok(1) UNIV_I]
  have "walk_ok bt y" if "(decides bt UNIV t)\<^sup>*\<^sup>* x y" "walk_ok bt x" for t x y
    using that
    by (induction rule: rtranclp_induct)
      (auto simp: decides_def intro: walk_ok_core walk_ok_admits)
  then show ?case using Cons.IH [OF rest] p ok(2) by blast
qed simp

text \<open>The master candles of a run: those of the finest interval, after the warm-up.\<close>

lemma run_walkE:
  assumes "run_walk bt = Inr w"
  obtains prs m master cs n where "map_of (bt_ltf bt) master = Some cs"
    "walk_steps bt prs m (drop n cs) init_walk = Inr w"
proof -
  from assms obtain prs iv b cs hs where l: "lookup (bt_ltf bt) iv = Inr cs"
    and r: "(if b = 0 then Inl ZeroDivisionError
      else walk_steps bt prs (b * 60000)
        (drop (nat (max 100 (max_of (map snd prs) * (max_of hs div b)))) cs) init_walk) = Inr w"
    unfolding run_walk_def Let_def by (auto simp: bindR_Inr_iff split: prod.splits)
  have "map_of (bt_ltf bt) iv = Some cs" using l by (auto simp: lookup_def split: option.splits)
  moreover have "b \<noteq> 0" using r by auto
  ultimately show thesis using that r by simp
qed

text \<open>
  a backtest takes every rejection candle of a pair at most once, and the signals of a zone
  are numbered 1, 2, 3 .. without a gap and never beyond the cap of the settings, whatever the
  data and however often the zone was scanned or its caches were used.
\<close>

theorem backtest_takes_setups_once:
  assumes "run_walk bt = Inr w"
  shows "distinct (map res_rej (wk_results w)) \<and>
    (\<forall>zk. \<exists>n. map (\<lambda>r. s_zone_attempt (br_signal r)) (filter (\<lambda>r. res_zone r = zk) (wk_results w)) =
        [1 .. n] \<and> n \<le> max 0 (g_max_signal_count_per_zone (bt_cfg bt)))"
proof -
  obtain prs m cs where "walk_steps bt prs m cs init_walk = Inr w" using run_walkE [OF assms] by blast
  from walk_steps_ok [OF this init_ok(1,2)] have ok: "walk_ok bt w" .
  show ?thesis using walk_okD(2,3,5) [OF ok] by blast
qed

lemma run_logged:
  assumes "run_walk bt = Inr w" "\<forall>(iv, cs) \<in> set (bt_ltf bt). sorted (map c_timestamp cs)"
  shows "\<exists>m ts. log_ok bt m ts w \<and>
    (\<exists>master cs. map_of (bt_ltf bt) master = Some cs \<and> set ts \<subseteq> c_timestamp ` set cs)"
proof -
  obtain prs m master cs n where cs: "map_of (bt_ltf bt) master = Some cs"
    and run: "walk_steps bt prs m (drop n cs) init_walk = Inr w"
    by (rule run_walkE [OF assms(1)])
  have "sorted (map c_timestamp cs)" using bspec [OF assms(2) map_of_SomeD [OF cs]] by simp
  then have srt: "sorted (map c_timestamp (drop n cs))"
    unfolding drop_map [symmetric] by (rule sorted_wrt_drop)
  define u where "u = Min (insert 0 (c_timestamp ` set cs))"
  have "\<forall>c \<in> set (drop n cs). u \<le> c_timestamp c \<and> (\<forall>x \<in> set []. x \<le> c_timestamp c)"
    by (auto simp: u_def dest: in_set_dropD)
  from walk_steps_logged [OF run srt init_ok(1,2,3,4) this] obtain ts where
    "set ts \<subseteq> c_timestamp ` set (drop n cs)" "log_ok bt m ts w"
    by auto
  then show ?thesis using cs set_drop_subset [of n cs] by blast
qed

text \<open>
  positions of one direction do not overlap in a backtest. To the results there is a list of
  decision times, opening times of master candles in ascending order, such that each result was
  decided on the view at its time, and any earlier result of the same direction (of the same pair,
  when pairs trade independently) had been closed by then, or, left open by the data, had passed
  its expiry.
\<close>

theorem backtest_positions_do_not_overlap:
  assumes "run_walk bt = Inr w" "\<forall>(iv, cs) \<in> set (bt_ltf bt). sorted (map c_timestamp cs)"
  shows "\<exists>m ts master cs. map_of (bt_ltf bt) master = Some cs \<and> set ts \<subseteq> c_timestamp ` set cs \<and> sorted ts \<and>
    length ts = length (wk_results w) \<and>
    (\<forall>j < length ts. decided_at bt m (ts ! j) (wk_results w ! j) \<and>
       (\<forall>i < j. res_dir bt (wk_results w ! i) = res_dir bt (wk_results w ! j) \<longrightarrow>
          lock_until bt (wk_results w ! i) \<le> ts ! j))"
  using run_logged [OF assms] unfolding log_ok_def by blast

section \<open>No lookahead\<close>

text \<open>A trade closes on a candle it was simulated on.\<close>

lemma step_closed_at:
  "step_normalized s c p now = (so, s') \<Longrightarrow> s_closed_at s' \<in> {s_closed_at s, Some now}"
  by (auto simp: step_defs split: if_splits)

lemma replay_closes_on:
  assumes "run_steps (replay_step p) (map raw_of cs) s = Inr (t, s')" "s_closed_at s' = Some x"
  shows "s_closed_at s = Some x \<or> (\<exists>c \<in> set cs. x = c_timestamp c)"
  using assms(1)
proof (induction cs arbitrary: s)
  case (Cons c cs)
  from Cons.prems obtain so s1 where st: "step_normalized s c p (c_timestamp c) = (so, s1)"
    and rest: "(if so_terminal so then Inr (True, s1) else run_steps (replay_step p) (map raw_of cs) s1) = Inr (t, s')"
    by (auto simp: replay_step_raw bindR_Inr_iff)
  have "s_closed_at s1 = Some x \<or> (\<exists>c \<in> set cs. x = c_timestamp c)"
    using rest assms(2) Cons.IH by (cases "so_terminal so") auto
  then show ?case using step_closed_at [OF st] by auto
qed (use assms(2) in simp)

lemma trailing_closes_on:
  "br_close_ts (trailing_loop pct p cutoff cs pr) = Some x \<Longrightarrow> \<exists>c \<in> set cs. x = c_timestamp c"
proof (induction cs arbitrary: pr)
  case (Cons c cs)
  show ?case
  proof (cases "trailing_step pct p cutoff pr c")
    case (Inl r)
    then have "br_close_ts r = Some (c_timestamp c)"
      by (rule trailing_step_Inl) (auto simp: trailing_expired_def trailing_stop_out_def trailing_result_def Let_def)
    then show ?thesis using Cons.prems Inl by simp
  next
    case (Inr pr')
    then show ?thesis using Cons by auto
  qed
qed (simp add: mk_result_def)

lemma simulate_closes_on:
  assumes "simulate cfg pct s cs = Inr res" "br_close_ts res = Some x" "s_closed_at s = None"
  shows "\<exists>c \<in> set cs. x = c_timestamp c"
proof (cases "cs = []")
  case True
  then show ?thesis using assms by (auto simp: simulate_def mk_result_def)
next
  case False
  then consider p where "res = simulate_with_giveback_trailing pct s cs p"
    | p r t where "run_steps (replay_step p) (map raw_of cs) s = Inr (t, r)" "res = replay_result r"
    using assms(1)
    by (auto simp: simulate_def bindR_Inr_iff replay_signal_lifecycle_def split: if_splits)
  then show ?thesis
  proof cases
    case 1
    then show ?thesis
      using assms(2) False trailing_closes_on by (auto simp: simulate_with_giveback_trailing_def)
  next
    case 2
    then have "s_closed_at r = Some x"
      using assms(2) by (auto simp: replay_result_def mk_result_def split: option.splits)
    from replay_closes_on [OF 2(1) this] show ?thesis using assms(3) by simp
  qed
qed

lemma keyed_sound: "keyed f ks = Inr kvs \<Longrightarrow> (k, v) \<in> set kvs \<Longrightarrow> f k = Inr v"
  unfolding keyed_def by (induction ks arbitrary: kvs) (auto simp: bindR_Inr_iff)

lemma new_backtester_fields:
  assumes "new_backtester cfg symbol pairs htf ltf lookback balance risk giveback rtype mtr mtl digest = Inr bt"
  shows "bt_cfg bt = cfg" "bt_pairs bt = pairs" "bt_htf bt = htf" "bt_ltf bt = ltf"
    and "lookup (bt_htf_ms bt) h = Inr n \<Longrightarrow> \<exists>k. interval_to_minutes h = Inr k \<and> n = k * 60000"
proof -
  from assms obtain hms where k: "keyed (\<lambda>h. bindR (interval_to_minutes h) (\<lambda>m. Inr (m * 60000))) (map fst pairs) = Inr hms"
    and bt: "bt_htf_ms bt = hms" "bt_cfg bt = cfg" "bt_pairs bt = pairs" "bt_htf bt = htf" "bt_ltf bt = ltf"
    by (auto simp: new_backtester_def bindR_Inr_iff)
  show "bt_cfg bt = cfg" "bt_pairs bt = pairs" "bt_htf bt = htf" "bt_ltf bt = ltf" by (fact bt)+
  assume "lookup (bt_htf_ms bt) h = Inr n"
  then have "(h, n) \<in> set hms" by (auto simp: bt lookup_def dest: map_of_SomeD split: option.splits)
  from keyed_sound [OF k this] show "\<exists>k. interval_to_minutes h = Inr k \<and> n = k * 60000"
    by (auto simp: bindR_Inr_iff)
qed

text \<open>The candles of a list that have closed by \<open>t\<close>, each lasting \<open>len\<close>.\<close>

definition closed_by :: "int \<Rightarrow> ms \<Rightarrow> candle list \<Rightarrow> candle set" where
  "closed_by len t cs = {c \<in> set cs. c_timestamp c + len \<le> t}"

text \<open>A zone, a trend and an entry, each with the candles it was computed from.\<close>

definition zone_from :: "backtester \<Rightarrow> pair \<Rightarrow> int \<Rightarrow> candle set \<Rightarrow> htf_zone \<Rightarrow> bool" where
  "zone_from bt pr len H z \<longleftrightarrow>
     (\<exists>u zs. vw_pair u = pr \<and> vw_htf_ms u = len \<and> set (vw_htf_visible u) \<union> set (vw_htf_window u) \<subseteq> H \<and>
        fresh_ranges bt u = Inr zs \<and> z \<in> set zs)"

definition trend_from :: "candle set \<Rightarrow> structure_result \<Rightarrow> bool" where
  "trend_from H st \<longleftrightarrow> (\<exists>hs. set hs \<subseteq> H \<and> st = detect hs PIVOT_BARS)"

definition entry_from :: "candle set \<Rightarrow> htf_zone \<Rightarrow> rejection \<Rightarrow> bool" where
  "entry_from L z rej \<longleftrightarrow> (\<exists>ds sc. set ds \<subseteq> L \<and> find_entry ds (signal_dir z) z = Some (rej, sc))"

text \<open>
  The turn of the walk at the master candle \<open>c\<close>: the walk up to it, the step at it and the rest of
  the run. \<open>m\<close> is the length of a master candle.
\<close>

definition turn_of :: "backtester \<Rightarrow> candle \<Rightarrow> int \<Rightarrow> walk \<Rightarrow> walk \<Rightarrow> walk \<Rightarrow> bool" where
  "turn_of bt c m w1 w2 w \<longleftrightarrow>
     (\<exists>prs ls master k candles n es fs.
        keyed (\<lambda>(h, l). resolve_lookback bt h l) (bt_pairs bt) = Inr prs \<and>
        keyed interval_to_minutes (map snd (bt_pairs bt)) = Inr ls \<and> master_of ls = Inr (master, k) \<and>
        m = k * 60000 \<and> lookup (bt_ltf bt) master = Inr candles \<and> drop n candles = es @ c # fs \<and>
        walk_steps bt prs m es init_walk = Inr w1 \<and> walk_step bt prs m c w1 = Inr w2 \<and>
        walk_steps bt prs m fs w2 = Inr w)"

lemma run_walk_parts:
  assumes "run_walk bt = Inr w"
  obtains prs ls master k candles n where
    "keyed (\<lambda>(h, l). resolve_lookback bt h l) (bt_pairs bt) = Inr prs"
    "keyed interval_to_minutes (map snd (bt_pairs bt)) = Inr ls" "master_of ls = Inr (master, k)"
    "lookup (bt_ltf bt) master = Inr candles"
    "walk_steps bt prs (k * 60000) (drop n candles) init_walk = Inr w"
  using assms unfolding run_walk_def Let_def
  by (auto simp: bindR_Inr_iff split: prod.splits if_splits)

text \<open>The step at which a result appears.\<close>

lemma walk_steps_split:
  assumes "walk_steps bt prs m cs w = Inr w'" "r \<notin> set (wk_results w)" "r \<in> set (wk_results w')"
  shows "\<exists>es c fs w1 w2. cs = es @ c # fs \<and> walk_steps bt prs m es w = Inr w1 \<and>
    walk_step bt prs m c w1 = Inr w2 \<and> walk_steps bt prs m fs w2 = Inr w' \<and>
    r \<notin> set (wk_results w1) \<and> r \<in> set (wk_results w2)"
  using assms
proof (induction cs arbitrary: w)
  case (Cons c cs)
  from Cons.prems(1) obtain w1 where s: "walk_step bt prs m c w = Inr w1" and rest: "walk_steps bt prs m cs w1 = Inr w'"
    by (auto simp: bindR_Inr_iff)
  show ?case
  proof (cases "r \<in> set (wk_results w1)")
    case True
    then show ?thesis using s rest Cons.prems(2)
      by (intro exI [of _ "[]"] exI [of _ c] exI [of _ cs] exI [of _ w] exI [of _ w1]) simp
  next
    case False
    from Cons.IH [OF rest this Cons.prems(3)] obtain es c' fs w2 w3 where
      "cs = es @ c' # fs" "walk_steps bt prs m es w1 = Inr w2" "walk_step bt prs m c' w2 = Inr w3"
      "walk_steps bt prs m fs w3 = Inr w'" "r \<notin> set (wk_results w2)" "r \<in> set (wk_results w3)"
      by blast
    then show ?thesis using s
      by (intro exI [of _ "c # es"] exI [of _ c'] exI [of _ fs] exI [of _ w2] exI [of _ w3]) simp
  qed
qed simp

lemma decides_new:
  assumes "(decides bt T t)\<^sup>*\<^sup>* w w'" "r \<notin> set (wk_results w)" "r \<in> set (wk_results w')"
  shows "\<exists>v s. view_ok bt t v \<and> trade_of bt T v s r"
  using assms(1,3)
proof (induction rule: rtranclp_induct)
  case base
  then show ?case using assms(2) by simp
next
  case (step y z)
  from step.hyps(2) consider "core_eq y z" | v where "view_ok bt t v" "admits bt T v y z"
    unfolding decides_def by blast
  then show ?case
  proof cases
    case 1
    then show ?thesis using step.IH step.prems by (simp add: core_eq_def)
  next
    case (2 v)
    then show ?thesis using step.IH step.prems by (elim admitsE) auto
  qed
qed

lemma walk_steps_cached:
  assumes "walk_steps bt prs m cs w = Inr w'" "cache_ok bt T w" "\<forall>c \<in> set cs. c_timestamp c + m \<in> T"
  shows "cache_ok bt T w'"
  using assms
proof (induction cs arbitrary: w)
  case (Cons c cs)
  from Cons.prems(1) obtain w1 where s: "walk_step bt prs m c w = Inr w1" and rest: "walk_steps bt prs m cs w1 = Inr w'"
    by (auto simp: bindR_Inr_iff)
  have "cache_ok bt T w1"
    using walk_pairs_step [OF s [unfolded walk_step_def] cache_ok_expire [OF Cons.prems(2)]] Cons.prems(3) by simp
  then show ?case using Cons.IH [OF rest] Cons.prems(3) by simp
qed simp

lemma run_decided:
  assumes "run_walk bt = Inr w" "r \<in> set (wk_results w)"
    and "\<forall>(iv, cs) \<in> set (bt_ltf bt). sorted (map c_timestamp cs)"
  shows "\<exists>c m w1 w2. turn_of bt c m w1 w2 w \<and> r \<notin> set (wk_results w1) \<and> r \<in> set (wk_results w2) \<and>
    decided_at bt m (c_timestamp c) r"
proof -
  obtain prs ls master k candles n where
    parts: "keyed (\<lambda>(h, l). resolve_lookback bt h l) (bt_pairs bt) = Inr prs"
      "keyed interval_to_minutes (map snd (bt_pairs bt)) = Inr ls" "master_of ls = Inr (master, k)"
      "lookup (bt_ltf bt) master = Inr candles"
    and run: "walk_steps bt prs (k * 60000) (drop n candles) init_walk = Inr w"
    by (rule run_walk_parts [OF assms(1)])
  have "r \<notin> set (wk_results init_walk)" by (simp add: init_walk_def)
  from walk_steps_split [OF run this assms(2)] obtain es c fs w1 w2 where
    split: "drop n candles = es @ c # fs" "walk_steps bt prs (k * 60000) es init_walk = Inr w1"
      "walk_step bt prs (k * 60000) c w1 = Inr w2" "walk_steps bt prs (k * 60000) fs w2 = Inr w"
    and r: "r \<notin> set (wk_results w1)" "r \<in> set (wk_results w2)"
    by blast
  let ?t = "c_timestamp c + k * 60000"
  have "map_of (bt_ltf bt) master = Some candles" using parts(4) by (auto simp: lookup_def split: option.splits)
  then have "sorted (map c_timestamp candles)" using assms(3) by (fastforce dest: map_of_SomeD)
  then have "sorted (map c_timestamp (drop n candles))"
    unfolding drop_map [symmetric] by (rule sorted_wrt_drop)
  then have "\<forall>e \<in> set es. c_timestamp e + k * 60000 \<in> {..?t}" unfolding split(1) by (auto simp: sorted_append)
  then have "cache_ok bt {..?t} w1" by (rule walk_steps_cached [OF split(2) init_ok(1)])
  from walk_pairs_step [OF split(3) [unfolded walk_step_def] cache_ok_expire [OF this]]
  have "(decides bt {..?t} ?t)\<^sup>*\<^sup>* (expire_locks (c_timestamp c) w1) w2" by simp
  from decides_new [OF this _ r(2)] r(1) have "decided_at bt (k * 60000) (c_timestamp c) r"
    by (simp add: decided_at_def expire_keeps)
  moreover have "turn_of bt c (k * 60000) w1 w2 w" unfolding turn_of_def using parts split by blast
  ultimately show ?thesis using r by blast
qed

text \<open>What a view of closed candles holds.\<close>

lemma closed_view_candles:
  assumes "closed_view bt {..t} u" "lookup (bt_htf bt) (fst (vw_pair u)) = Inr hs" "sorted (map c_timestamp hs)"
  shows "set (vw_htf_visible u) \<union> set (vw_htf_window u) \<subseteq> closed_by (vw_htf_ms u) t hs"
proof -
  from assms(1,2) obtain t' lb where t: "t' \<le> t"
    and v: "vw_htf_visible u = take (htf_upto hs (t' - vw_htf_ms u)) hs"
      "vw_htf_window u = htf_window hs (t' - vw_htf_ms u) lb"
    unfolding closed_view_def by auto
  have "set (take (htf_upto hs (t' - vw_htf_ms u)) hs) \<subseteq> closed_by (vw_htf_ms u) t hs"
    using t unfolding htf_upto_def take_bisect_right [OF assms(3)] by (auto simp: closed_by_def)
  moreover have "slice hs lo hi = drop lo (take hi hs)" for lo hi by (simp add: slice_def drop_take)
  then have "set (vw_htf_window u) \<subseteq> set (take (htf_upto hs (t' - vw_htf_ms u)) hs)"
    unfolding v htf_window_def Let_def using set_drop_subset by metis
  ultimately show ?thesis unfolding v by blast
qed

lemma known_from_closed:
  assumes "known_zone bt {..t} pr z" "lookup (bt_htf bt) (fst pr) = Inr hs"
    and "lookup (bt_htf_ms bt) (fst pr) = Inr len" "sorted (map c_timestamp hs)"
  shows "zone_from bt pr len (closed_by len t hs) z"
proof -
  from assms(1) obtain u zs where u: "closed_view bt {..t} u" "vw_pair u = pr" "fresh_ranges bt u = Inr zs" "z \<in> set zs"
    unfolding known_zone_def by blast
  then have "vw_htf_ms u = len" using assms(3) by (auto simp: closed_view_def)
  then show ?thesis using u closed_view_candles [OF u(1) _ assms(4)] assms(2) unfolding zone_from_def by blast
qed

lemma trend_from_closed:
  assumes "known_trend bt {..t} h st" "lookup (bt_htf bt) h = Inr hs" "lookup (bt_htf_ms bt) h = Inr len"
    and "sorted (map c_timestamp hs)"
  shows "trend_from (closed_by len t hs) st"
proof -
  from assms(1) obtain u where u: "closed_view bt {..t} u" "fst (vw_pair u) = h" "st = detect (vw_htf_window u) PIVOT_BARS"
    unfolding known_trend_def by blast
  then have "vw_htf_ms u = len" using assms(3) by (auto simp: closed_view_def)
  then show ?thesis using u closed_view_candles [OF u(1) _ assms(4)] assms(2) unfolding trend_from_def by auto
qed

lemma closed_open_closes:
  assumes "0 < len" "x \<le> closed_open t len"
  shows "x + len \<le> t"
proof -
  have "t div len * len \<le> t" using pos_mod_sign [OF assms(1), of t] by (simp add: minus_mod_eq_div_mult [symmetric])
  then show ?thesis using assms(2) by (simp add: closed_open_def)
qed

lemma entry_from_closed:
  assumes "seen_in bt {..t} (bt_cache_key pr z) cs (bisect_right (map c_timestamp cs) (closed_open t len)) rej"
    and "sorted (map c_timestamp cs)" "0 < len"
  shows "\<exists>z'. known_zone bt {..t} pr z' \<and> z_timestamp z' = z_timestamp z \<and>
    signal_dir z' = signal_dir z \<and> entry_from (closed_by len t cs) z' rej"
proof -
  from assms(1) obtain pr' z' lo sc where z: "known_zone bt {..t} pr' z'" "bt_cache_key pr' z' = bt_cache_key pr z"
    and e: "find_entry (slice (filter (\<lambda>c. c_timestamp c \<le> closed_open t len) cs) lo
      (bisect_right (map c_timestamp cs) (closed_open t len))) (signal_dir z') z' = Some (rej, sc)"
    unfolding seen_in_def take_bisect_right [OF assms(2)] by blast
  have "set (filter (\<lambda>c. c_timestamp c \<le> closed_open t len) cs) \<subseteq> closed_by len t cs"
    using closed_open_closes [OF assms(3)] by (auto simp: closed_by_def)
  then have "entry_from (closed_by len t cs) z' rej"
    unfolding entry_from_def using e set_slice subset_trans by metis
  moreover have "pr' = pr" "z_timestamp z' = z_timestamp z" "bos_value (z_bos_direction z') = bos_value (z_bos_direction z)"
    using z(2) by (auto simp: bt_cache_key_def prod_eq_iff)
  moreover from this have "signal_dir z' = signal_dir z"
    by (cases "z_bos_direction z'"; cases "z_bos_direction z") (simp_all add: signal_dir_def)
  ultimately show ?thesis using z(1) by blast
qed
text \<open>Everything a result was decided and resolved on, in terms of the candles closed by \<open>t\<close>.\<close>

lemma decided_on_closed:
  assumes new: "new_backtester cfg symbol pairs htf ltf lookback balance risk giveback rtype mtr mtl digest = Inr bt"
    and ltf: "\<forall>(iv, cs) \<in> set ltf. sorted (map c_timestamp cs) \<and> (\<exists>k > 0. interval_to_minutes iv = Inr k)"
    and htf: "\<forall>(iv, hs) \<in> set htf. sorted (map c_timestamp hs)"
    and dec: "decided_at bt m u r" and t: "t = u + m" and x: "x = br_signal r"
  shows "\<exists>hs hk cs k s z. let H = closed_by (hk * 60000) t hs; L = closed_by (k * 60000) t cs;
      F = filter (\<lambda>d. closed_open t (k * 60000) < c_timestamp d) cs; pr = (s_htf_interval x, s_ltf_interval x) in
    lookup htf (fst pr) = Inr hs \<and> interval_to_minutes (fst pr) = Inr hk \<and>
    lookup ltf (snd pr) = Inr cs \<and> interval_to_minutes (snd pr) = Inr k \<and>
    zone_from bt pr (hk * 60000) H (s_htf_range x) \<and>
    (p_use_trend_filter (bt_profile bt) \<longrightarrow>
       (\<exists>st. trend_from H st \<and> allows st (direction_value (s_direction x)))) \<and>
    zone_from bt pr (hk * 60000) H z \<and> z_timestamp z = z_timestamp (s_htf_range x) \<and>
    signal_dir z = signal_dir (s_htf_range x) \<and> entry_from L z (s_rejection x) \<and>
    setup_of x = setup_of s \<and>
    simulate cfg (bt_giveback bt) s F = Inr r \<and>
    (\<forall>e. br_close_ts r = Some e \<longrightarrow> (\<exists>d \<in> set F. e = c_timestamp d))"
proof -
  note f = new_backtester_fields [OF new]
  from dec obtain v s where v: "view_ok bt t v" and tr: "trade_of bt {..t} v s r"
    by (auto simp: decided_at_def t)
  have su: "setup_of x = setup_of s" using tr by (simp add: trade_of_def x)
  note same = setup_of_fields [OF su]
  define pr where "pr = vw_pair v"
  have pr: "pr = (s_htf_interval x, s_ltf_interval x)" using tr same by (simp add: trade_of_def pr_def)
  define cs where "cs = vw_ltf_all v"
  from v obtain k where cs: "lookup ltf (snd pr) = Inr cs" "interval_to_minutes (snd pr) = Inr k"
    and hi: "vw_hi v = bisect_right (map c_timestamp cs) (closed_open t (k * 60000))"
    by (auto simp: view_ok_def cs_def pr_def lookup_def f)
  have "(snd pr, cs) \<in> set ltf" using cs(1) by (auto simp: lookup_def dest: map_of_SomeD split: option.splits)
  then have scs: "sorted (map c_timestamp cs)" and k: "0 < k * 60000" using ltf cs(2) by fastforce+
  from tr have kz: "known_zone bt {..t} pr (s_htf_range x)" by (simp add: trade_of_def pr_def same)
  then obtain hs len where hs: "lookup htf (fst pr) = Inr hs" "lookup (bt_htf_ms bt) (fst pr) = Inr len"
    unfolding known_zone_def closed_view_def f by auto
  obtain hk where hk: "interval_to_minutes (fst pr) = Inr hk" "len = hk * 60000" using f(5) [OF hs(2)] by blast
  have "(fst pr, hs) \<in> set htf" using hs(1) by (auto simp: lookup_def dest: map_of_SomeD split: option.splits)
  then have shs: "sorted (map c_timestamp hs)" using htf by fastforce
  note zone = known_from_closed [OF _ hs(1) [folded f(3)] hs(2) shs]
  note trend = trend_from_closed [OF _ hs(1) [folded f(3)] hs(2) shs]
  have "seen_in bt {..t} (bt_cache_key pr (s_htf_range x)) cs
      (bisect_right (map c_timestamp cs) (closed_open t (k * 60000))) (s_rejection x)"
    using tr by (simp add: trade_of_def pr_def same cs_def hi [unfolded cs_def, symmetric])
  from entry_from_closed [OF this scs k] obtain z where z: "known_zone bt {..t} pr z"
    "z_timestamp z = z_timestamp (s_htf_range x)" "signal_dir z = signal_dir (s_htf_range x)"
    "entry_from (closed_by (k * 60000) t cs) z (s_rejection x)"
    by blast
  have "simulate cfg (bt_giveback bt) s (drop (bisect_right (map c_timestamp cs) (closed_open t (k * 60000))) cs) = Inr r"
    and open_s: "s_closed_at s = None"
    using tr unfolding trade_of_def hi f(1) cs_def by simp_all
  then have sim: "simulate cfg (bt_giveback bt) s (filter (\<lambda>c. closed_open t (k * 60000) < c_timestamp c) cs) = Inr r"
    unfolding drop_bisect_right [OF scs] by simp
  have late: "\<exists>d \<in> set (filter (\<lambda>c. closed_open t (k * 60000) < c_timestamp c) cs). e = c_timestamp d"
    if "br_close_ts r = Some e" for e
    using simulate_closes_on [OF sim that open_s] .
  have tf: "\<exists>st. trend_from (closed_by len t hs) st \<and> allows st (direction_value (s_direction x))"
    if on: "p_use_trend_filter (bt_profile bt)"
  proof -
    obtain st where st: "known_trend bt {..t} (fst pr) st" "allows st (direction_value (s_direction s))"
      using tr on unfolding trade_of_def pr_def by blast
    from trend [OF st(1)] st(2) same show ?thesis by auto
  qed
  show ?thesis
    unfolding Let_def pr [symmetric]
  proof (rule exI [of _ hs], rule exI [of _ hk], rule exI [of _ cs], rule exI [of _ k], rule exI [of _ s],
      rule exI [of _ z], intro conjI impI allI)
    show "zone_from bt pr (hk * 60000) (closed_by (hk * 60000) t hs) (s_htf_range x)"
      "zone_from bt pr (hk * 60000) (closed_by (hk * 60000) t hs) z"
      using zone [OF kz] zone [OF z(1)] unfolding hk(2) .
    show "\<exists>st. trend_from (closed_by (hk * 60000) t hs) st \<and> allows st (direction_value (s_direction x))"
      if "p_use_trend_filter (bt_profile bt)"
      using tf [OF that] unfolding hk(2) .
    show "\<exists>d \<in> set (filter (\<lambda>d. closed_open t (k * 60000) < c_timestamp d) cs). e = c_timestamp d"
      if "br_close_ts r = Some e" for e
      using late [OF that] .
  qed (fact hs(1) hk(1) cs z(2-4) su sim)+
qed


section \<open>The rules of the backtest are the live rules\<close>

definition live_zone_key :: "backtester \<Rightarrow> pair \<Rightarrow> htf_zone \<Rightarrow> zone_key" where
  "live_zone_key bt pr z = (bt_symbol bt, fst pr, snd pr, z_timestamp z, direction_value (signal_dir z))"

definition live_dir_key :: "backtester \<Rightarrow> pair \<Rightarrow> signal_direction \<Rightarrow> dir_key" where
  "live_dir_key bt pr d =
     dir_key_of (p_multi_tf_independent_positions (bt_profile bt)) (bt_symbol bt) (direction_value d)
       (fst pr) (snd pr)"

text \<open>The memory of the live service holds what the walk of the backtest holds.\<close>

definition mirrors :: "backtester \<Rightarrow> walk \<Rightarrow> dedup_state \<Rightarrow> bool" where
  "mirrors bt w st \<longleftrightarrow>
     (\<forall>pr z. (live_zone_key bt pr z \<in> ds_dead_zones st \<longleftrightarrow> bt_zone_key bt pr z \<in> wk_dead w) \<and>
        zone_count st (live_zone_key bt pr z) = wk_count w (bt_zone_key bt pr z)) \<and>
     (\<forall>pr r. bt_rej_key bt pr r \<in> ds_seen_rej st \<longleftrightarrow> bt_rej_key bt pr r \<in> wk_seen w) \<and>
     (\<forall>pr d. live_dir_key bt pr d \<in> fst ` set (ds_open_dir st) \<longleftrightarrow>
        bt_dir_key bt pr (direction_value d) \<in> fst ` set (wk_open w))"

lemma mirrorsD:
  assumes "mirrors bt w st"
  shows "live_zone_key bt pr z \<in> ds_dead_zones st \<longleftrightarrow> bt_zone_key bt pr z \<in> wk_dead w"
    "zone_count st (live_zone_key bt pr z) = wk_count w (bt_zone_key bt pr z)"
    "bt_rej_key bt pr r \<in> ds_seen_rej st \<longleftrightarrow> bt_rej_key bt pr r \<in> wk_seen w"
    "live_dir_key bt pr d \<in> fst ` set (ds_open_dir st) \<longleftrightarrow>
       bt_dir_key bt pr (direction_value d) \<in> fst ` set (wk_open w)"
  using assms unfolding mirrors_def by blast+

lemma keys_live:
  "dedup_keys (bt_symbol bt) (fst pr) (snd pr) (z_timestamp z) (r_timestamp r) (direction_value (signal_dir z)) =
   (live_zone_key bt pr z, bt_rej_key bt pr r)"
  by (simp add: dedup_keys_def live_zone_key_def bt_rej_key_def)

lemma zone_keys_inj:
  "live_zone_key bt pr z = live_zone_key bt pr' z' \<longleftrightarrow> bt_zone_key bt pr z = bt_zone_key bt pr' z'"
  by (cases "z_bos_direction z"; cases "z_bos_direction z'")
    (simp_all add: live_zone_key_def bt_zone_key_def signal_dir_def)

lemma dir_keys_inj:
  "live_dir_key bt pr d = live_dir_key bt pr' d' \<longleftrightarrow>
   bt_dir_key bt pr (direction_value d) = bt_dir_key bt pr' (direction_value d')"
  by (auto simp: live_dir_key_def bt_dir_key_def dir_key_of_def prod_eq_iff)

lemma stale_iff:
  assumes "0 \<le> hours"
  shows "trunc (hours * 3600000) < age \<longleftrightarrow> hours * 3600000 < of_int age"
  using assms by (simp add: trunc_def floor_less_iff)

lemma mirrors_init: "mirrors bt init_walk empty_dedup"
  by (simp add: mirrors_def init_walk_def empty_dedup_def wk_count_def zone_count_def)

lemma update_keys: "fst ` set (AList.update k v xs) = insert k (fst ` set xs)"
  by (simp add: dom_update)

text \<open>
  C33: the emission rules of the backtest are those of the live service. When the live
  deduplication state mirrors the memory of the walk, a rejection passes the backtester's checks
  exactly when the live gate admits it and its direction is free; booking it in the backtest and
  registering it live give the signal the same attempt number and states that mirror each
  other again. The mirror holds at the start.
\<close>

theorem backtest_rules_are_live_rules:
  assumes "mirrors bt w st" "vw_stale_ms v = trunc (hours * 3600000)" "0 \<le> hours"
    and "cap = g_max_signal_count_per_zone (bt_cfg bt)"
    and "multi = p_multi_tf_independent_positions (bt_profile bt)" "pr = vw_pair v"
    and "s_zone_attempt s = wk_count w (bt_zone_key bt pr z) + 1"
  shows "(\<not> zone_spent bt pr z w \<and> rejection_passes bt v z rej w \<longleftrightarrow>
       dr_allowed (dedup_should_emit st z rej (signal_dir z) (bt_symbol bt) (vw_now v) hours (fst pr) (snd pr) cap) \<and>
       \<not> is_direction_open (bt_symbol bt) (signal_dir z) (fst pr) (snd pr) multi st) \<and>
    fst (dedup_register (bt_symbol bt) (signal_dir z) z rej (fst pr) (snd pr) multi cap st) = s_zone_attempt s \<and>
    mirrors bt (book_signal bt v z rej s res w)
      (snd (dedup_register (bt_symbol bt) (signal_dir z) z rej (fst pr) (snd pr) multi cap st)) \<and>
    mirrors bt init_walk empty_dedup"
proof -
  note m = mirrorsD [OF assms(1)]
  define n where "n = wk_count w (bt_zone_key bt pr z) + 1"
  have stale: "vw_now v - r_timestamp rej \<le> vw_stale_ms v \<longleftrightarrow>
      \<not> hours * 3600000 < of_int (vw_now v - r_timestamp rej)"
    using stale_iff [OF assms(3), of "vw_now v - r_timestamp rej"] unfolding assms(2) by linarith
  have dir: "is_direction_open (bt_symbol bt) (signal_dir z) (fst pr) (snd pr) multi st \<longleftrightarrow>
      bt_dir_key bt pr (direction_value (signal_dir z)) \<in> fst ` set (wk_open w)"
    using m(4) [of pr "signal_dir z"] by (simp add: is_direction_open_def live_dir_key_def assms(5))
  have gate: "dr_allowed (dedup_should_emit st z rej (signal_dir z) (bt_symbol bt) (vw_now v) hours (fst pr) (snd pr) cap)
      \<longleftrightarrow> \<not> zone_spent bt pr z w \<and> vw_now v - r_timestamp rej \<le> vw_stale_ms v \<and>
        bt_rej_key bt pr rej \<notin> wk_seen w"
    unfolding dedup_should_emit_def keys_live prod.case stale zone_spent_def assms(4) [symmetric] m(1,2)
    by (simp add: m(3))
  have reg: "dedup_register (bt_symbol bt) (signal_dir z) z rej (fst pr) (snd pr) multi cap st =
     (n, \<lparr>ds_dead_zones = (if cap \<le> n then insert (live_zone_key bt pr z) (ds_dead_zones st) else ds_dead_zones st),
          ds_zone_counts = (ds_zone_counts st)(live_zone_key bt pr z \<mapsto> n),
          ds_open_dir = AList.update (live_dir_key bt pr (signal_dir z)) None (ds_open_dir st),
          ds_seen_rej = insert (bt_rej_key bt pr rej) (ds_seen_rej st)\<rparr>)"
    by (simp add: dedup_register_def keys_live count_zone_def Let_def m(2) n_def live_dir_key_def assms(5))
  have book: "wk_dead (book_signal bt v z rej s res w) =
        (if cap \<le> n then insert (bt_zone_key bt pr z) (wk_dead w) else wk_dead w)"
      "wk_count (book_signal bt v z rej s res w) = (wk_count w)(bt_zone_key bt pr z := n)"
      "wk_seen (book_signal bt v z rej s res w) = insert (bt_rej_key bt pr rej) (wk_seen w)"
      "fst ` set (wk_open (book_signal bt v z rej s res w)) =
        insert (bt_dir_key bt pr (direction_value (signal_dir z))) (fst ` set (wk_open w))"
    using assms(4,6,7) by (auto simp: book_signal_def Let_def n_def wk_count_def fun_eq_iff update_keys)
  have mirror: "mirrors bt (book_signal bt v z rej s res w)
      (snd (dedup_register (bt_symbol bt) (signal_dir z) z rej (fst pr) (snd pr) multi cap st))"
    unfolding mirrors_def reg snd_conv dedup_state.simps book update_keys
    using m by (auto simp: zone_keys_inj dir_keys_inj zone_count_def)
  have passes: "rejection_passes bt v z rej w \<longleftrightarrow> bt_rej_key bt pr rej \<notin> wk_seen w \<and>
      bt_dir_key bt pr (direction_value (signal_dir z)) \<notin> fst ` set (wk_open w) \<and>
      vw_now v - r_timestamp rej \<le> vw_stale_ms v"
    by (simp add: rejection_passes_def assms(6))
  have attempt: "fst (dedup_register (bt_symbol bt) (signal_dir z) z rej (fst pr) (snd pr) multi cap st) =
      s_zone_attempt s"
    unfolding reg by (simp add: n_def assms(7))
  show ?thesis
    using gate dir passes attempt mirror mirrors_init by blast
qed

section \<open>The cache of the trend\<close>

text \<open>
  the cached trend of an HTF interval is shared by all its pairs: after one pair computed the
  structure of its window, another pair whose window ends with the same candle is given that
  structure, however much longer or shorter its own window is.
\<close>

theorem trend_cache_ignores_lookback:
  assumes "structure_at v1 w = (st1, w1)" "wk_ms_cache w (fst (vw_pair v1)) = None"
    and "fst (vw_pair v2) = fst (vw_pair v1)" "vw_last_htf_ts v2 = vw_last_htf_ts v1"
  shows "structure_at v2 w1 = (detect (vw_htf_window v1) PIVOT_BARS, w1)"
  using assms by (auto simp: structure_at_def Let_def)

end
