(* ===== verification/Backtest_Example.thy ===== *)
theory Backtest_Example
  imports Service_Example Backtest_Laws
begin

text \<open>
  A backtest worked through by the kernel, on the market of the live example: after a warm-up of a
  hundred candles the walk reaches the rejection candle and takes the setup the live service
  announced. It is the concrete input of the properties of the walk.
\<close>

definition past_ltf :: "candle list" where
  "past_ltf = replicate 90 (mk_candle 0 12 13 11 12) @ live_ltf"

definition past_bt :: backtester where
  "past_bt =
     \<lparr>bt_cfg = live_cfg, bt_symbol = ''XAUUSD'', bt_pairs = [(''1h'', ''5min'')],
      bt_htf = [(''1h'', live_htf)], bt_ltf = [(''5min'', past_ltf)], bt_lookback = Some 8,
      bt_start_balance = 1000, bt_risk_percent = 1, bt_giveback = 0, bt_risk_type = ''compound'',
      bt_max_trailing_dd = None, bt_max_total_loss = None,
      bt_profiles = [((''1h'', ''5min''), ex_profile\<lparr>p_use_trend_filter := False\<rparr>)],
      bt_profile = ex_profile\<lparr>p_use_trend_filter := False\<rparr>,
      bt_stale_ms = [((''1h'', ''5min''), 600120)], bt_htf_ms = [(''1h'', 3600000)],
      bt_digest = (\<lambda>_. [])\<rparr>"

lemma past_minutes: "interval_to_minutes ''1h'' = Inr 60" "interval_to_minutes ''5min'' = Inr 5"
  by code_simp+

lemma past_stale: "rejection_stale_hours ''5min'' = Inr (1667 / 10000)"
  by code_simp

text \<open>It is what the constructor returns.\<close>

lemma past_new:
  "new_backtester live_cfg ''XAUUSD'' [(''1h'', ''5min'')] [(''1h'', live_htf)] [(''5min'', past_ltf)]
     (Some 8) (NumFin 1000) (NumFin 1) (NumFin 0) ''compound'' None None (\<lambda>_. []) = Inr past_bt"
  by (simp add: new_backtester_def number_in_def keyed_def live_profile past_minutes past_stale past_bt_def)

lemma past_fields:
  "bt_cfg past_bt = live_cfg" "bt_symbol past_bt = ''XAUUSD''" "bt_pairs past_bt = [(''1h'', ''5min'')]"
  "bt_lookback past_bt = Some 8" "bt_giveback past_bt = 0"
  "lookup (bt_htf past_bt) ''1h'' = Inr live_htf" "lookup (bt_ltf past_bt) ''5min'' = Inr past_ltf"
  "lookup (bt_htf_ms past_bt) ''1h'' = Inr 3600000"
  "lookup (bt_stale_ms past_bt) (''1h'', ''5min'') = Inr 600120"
  "lookup (bt_profiles past_bt) (''1h'', ''5min'') = Inr (ex_profile\<lparr>p_use_trend_filter := False\<rparr>)"
  "bt_profile past_bt = ex_profile\<lparr>p_use_trend_filter := False\<rparr>"
  by (simp_all add: past_bt_def lookup_def)

lemma past_window:
  "htf_upto live_htf 39900000 = 12" "htf_window live_htf 39900000 8 = drop 4 live_htf"
  "c_timestamp (last live_htf) = 39600000" "length live_htf = 12"
  "take 12 live_htf = live_htf"
  by code_simp+

lemma past_zones: "find_htf_ranges (drop 4 live_htf) PIVOT_BARS 3600000 (Suc 0) = [live_zone]"
  by code_simp

lemma past_bounds:
  "bisect_right (map c_timestamp past_ltf) 43200000 = 101"
  "bisect_left (map c_timestamp past_ltf) 36000000 = 90"
  by code_simp+

lemma past_split: "slice (take 101 past_ltf) 90 101 = live_ltf" "drop 101 past_ltf = []"
  "drop 100 past_ltf = [mk_candle 43200000 9 10 7 9]"
  by code_simp+

lemma past_setup:
  "\<exists>s. evaluate_setup ''XAUUSD'' ''1h'' ''5min'' live_zone live_rejection i
     (ex_profile\<lparr>p_use_trend_filter := False\<rparr>) b None None None =
     Inr \<lparr>dec_signal = Some s, dec_reason = ''valid_signal'', dec_blocked_reason = None\<rparr> \<and>
     s_triggered_at s = Some 43500000"
proof -
  obtain s where b: "build_signal ''XAUUSD'' ''1h'' ''5min'' live_zone live_rejection i
     (ex_profile\<lparr>p_use_trend_filter := False\<rparr>) b None None = Inr (Some s)"
    using live_build by blast
  then have "s_triggered_at s = Some 43500000"
    unfolding build_signal_eq live_dir live_intervals
    by (auto simp: live_gates live_rejection_ts split: if_splits)
  then show ?thesis using b by (simp add: evaluate_setup_def truthy_str_def)
qed

definition past_view :: view where
  "past_view =
     \<lparr>vw_pair = (''1h'', ''5min''), vw_htf_visible = live_htf, vw_htf_window = drop 4 live_htf,
      vw_last_htf_ts = 39600000, vw_htf_ms = 3600000, vw_ltf_all = past_ltf, vw_ltf_ms = 300000,
      vw_now = 43200000, vw_hi = 101, vw_stale_ms = 600120\<rparr>"

lemma past_take:
  "\<exists>w'. take_setup past_bt past_view live_zone live_rejection w = Inr (True, w') \<and>
     length (wk_results w') = Suc (length (wk_results w))"
proof -
  let ?i = "bt_signal_id past_bt (''1h'', ''5min'') live_rejection LONG"
  obtain s where e: "evaluate_setup ''XAUUSD'' ''1h'' ''5min'' live_zone live_rejection ?i
      (ex_profile\<lparr>p_use_trend_filter := False\<rparr>) [] None None None =
      Inr \<lparr>dec_signal = Some s, dec_reason = ''valid_signal'', dec_blocked_reason = None\<rparr>"
    and t: "s_triggered_at s = Some 43500000"
    using past_setup by blast
  have iso: "\<exists>x. iso_ms 43500000 = Inr x"
    by (simp add: iso_ms_def from_timestamp_def Let_def)
  show ?thesis
    unfolding take_setup_def Let_def
    using iso
    by (auto simp: past_view_def past_fields live_dir e past_split simulate_def trace_from_signal_def
        mk_result_def t int_or_def book_signal_def Let_def)
qed

lemma past_scan:
  assumes "core_eq init_walk w" "wk_zone_cache w = (\<lambda>_. None)" "wk_zone_lo w = (\<lambda>_. None)"
  shows "\<exists>w'. scan_zone past_bt past_view None live_zone w = Inr (True, w') \<and> length (wk_results w') = 1"
proof -
  have start: "num_or (z_broken_at live_zone) (z_timestamp live_zone) = 36000000"
    by (simp add: num_or_def live_zone_def)
  obtain w1 where lo: "zone_lo_at past_view live_zone w = (90, w1)" "core_eq w w1"
      "wk_zone_cache w1 = (\<lambda>_. None)"
    using assms(2,3) by (simp add: zone_lo_at_def Let_def start past_view_def past_bounds core_eq_def)
  obtain sc where f: "fresh_entry past_view 90 live_zone = Some (live_rejection, sc)"
    using live_entry by (auto simp: fresh_entry_def past_view_def past_split live_dir)
  obtain w2 where en: "entry_at past_view 90 live_zone w1 = (Some (live_rejection, sc), w2)" "core_eq w1 w2"
    using lo(3) by (simp add: entry_at_def Let_def f core_eq_def)
  have core: "core_eq init_walk w2"
    using core_eq_trans [OF assms(1) core_eq_trans [OF lo(2) en(2)]] .
  have fresh: "\<not> zone_spent past_bt (vw_pair past_view) live_zone init_walk"
    "rejection_passes past_bt past_view live_zone live_rejection init_walk"
    by (simp_all add: zone_spent_def rejection_passes_def init_walk_def wk_count_def past_fields
        live_cfg_simps past_view_def live_rejection_ts)
  have passes: "rejection_passes past_bt past_view live_zone live_rejection w2"
    "\<not> zone_spent past_bt (vw_pair past_view) live_zone w"
    using fresh core_rejection_passes [OF core] core_zone_spent [OF assms(1)] by simp_all
  obtain w' where "take_setup past_bt past_view live_zone live_rejection w2 = Inr (True, w')"
    "length (wk_results w') = Suc (length (wk_results w2))"
    using past_take by blast
  moreover have "wk_results w2 = []" using core by (simp add: core_eq_def init_walk_def)
  ultimately show ?thesis using passes lo(1) en(1) by (simp add: scan_zone_def)
qed

lemma past_run: "\<exists>w. run_walk past_bt = Inr w \<and> length (wk_results w) = 1"
proof -
  let ?pr = "(''1h'', ''5min'')"
  let ?v = "past_view\<lparr>vw_ltf_all := [], vw_ltf_ms := 0, vw_now := 0, vw_hi := 0, vw_stale_ms := 0\<rparr>"
  have look: "look_at_pair past_bt 43500000 8 ?pr init_walk = Inr (Some (live_htf, drop 4 live_htf, 39600000, 3600000))"
    by (simp add: look_at_pair_def past_fields past_window Let_def)
  have view: "\<lparr>vw_pair = ?pr, vw_htf_visible = live_htf, vw_htf_window = drop 4 live_htf,
      vw_last_htf_ts = 39600000, vw_htf_ms = 3600000, vw_ltf_all = [], vw_ltf_ms = 0,
      vw_now = 0, vw_hi = 0, vw_stale_ms = 0\<rparr> = ?v"
    by (simp add: past_view_def)
  have full: "?v\<lparr>vw_ltf_all := past_ltf, vw_ltf_ms := 300000, vw_now := 43200000, vw_hi := 101,
      vw_stale_ms := 600120\<rparr> = past_view"
    by (simp add: past_view_def)
  have trend: "trend_at past_bt ?v init_walk = (None, init_walk)"
    by (simp add: trend_at_def past_fields)
  obtain w2 where rng: "ranges_at past_bt ?v init_walk = Inr ([live_zone], w2)" "core_eq init_walk w2"
    "wk_zone_cache w2 = (\<lambda>_. None)" "wk_zone_lo w2 = (\<lambda>_. None)"
    by (simp add: ranges_at_def Let_def fresh_ranges_def past_fields live_cfg_simps past_zones
        past_view_def init_walk_def core_eq_def)
  obtain w3 where scan: "scan_zone past_bt past_view None live_zone w2 = Inr (True, w3)" "length (wk_results w3) = 1"
    using past_scan [OF rng(2-4)] by blast
  have now: "closed_open 43500000 300000 = 43200000" by (simp add: closed_open_def)
  have pair: "scan_pair past_bt 43500000 ?v None [live_zone] w2 = Inr w3"
    using scan(1) full
    by (simp add: scan_pair_def past_fields past_minutes now past_bounds Let_def past_view_def)
  have "walk_pair past_bt 43500000 (?pr, 8) init_walk = Inr w3"
    unfolding walk_pair_def prod.case look bindR.simps option.case view walk_view_def trend rng(1)
    using pair by simp
  moreover have "expire_locks t init_walk = init_walk" for t
    by (simp add: expire_locks_def init_walk_def)
  ultimately have "walk_steps past_bt [(?pr, 8)] 300000 [mk_candle 43200000 9 10 7 9] init_walk = Inr w3"
    by (simp add: walk_step_def mk_candle_def)
  then have "run_walk past_bt = Inr w3"
    by (simp add: run_walk_def keyed_def resolve_lookback_def past_fields past_minutes master_of_def
        max_of_def Let_def past_split)
  then show ?thesis using scan(2) by blast
qed

section \<open>The properties on this run\<close>

lemma past_sorted: "\<forall>(iv, cs) \<in> set (bt_ltf past_bt). sorted (map c_timestamp cs)"
proof -
  have "sorted (map c_timestamp past_ltf)" by code_simp
  then show ?thesis by (simp add: past_bt_def)
qed

theorem backtest_takes_setups_once_witness:
  "\<exists>w. run_walk past_bt = Inr w \<and> length (wk_results w) = 1 \<and> distinct (map res_rej (wk_results w))"
proof -
  obtain w where w: "run_walk past_bt = Inr w" "length (wk_results w) = 1" using past_run by blast
  from backtest_takes_setups_once [OF w(1)] w show ?thesis by blast
qed

theorem backtest_positions_do_not_overlap_witness:
  "\<exists>w m ts. run_walk past_bt = Inr w \<and> length ts = 1 \<and> decided_at past_bt m (ts ! 0) (wk_results w ! 0)"
proof -
  obtain w where w: "run_walk past_bt = Inr w" "length (wk_results w) = 1" using past_run by blast
  from backtest_positions_do_not_overlap [OF w(1) past_sorted] obtain m ts where
    "length ts = length (wk_results w)" "\<forall>j < length ts. decided_at past_bt m (ts ! j) (wk_results w ! j)"
    by blast
  then have "length ts = 1" "decided_at past_bt m (ts ! 0) (wk_results w ! 0)" using w(2) by simp_all
  then show ?thesis using w(1) by blast
qed


theorem backtest_rules_are_live_rules_witness:
  "dr_allowed (dedup_should_emit empty_dedup live_zone live_rejection LONG ''XAUUSD'' 43200000 (1667 / 10000)
     ''1h'' ''5min'' 1) \<and> rejection_passes past_bt past_view live_zone live_rejection init_walk"
proof -
  have fields: "vw_stale_ms past_view = trunc (1667 / 10000 * 3600000)" "(0::real) \<le> 1667 / 10000"
    "1 = g_max_signal_count_per_zone (bt_cfg past_bt)" "(''1h'', ''5min'') = vw_pair past_view"
    "vw_now past_view = 43200000" "bt_symbol past_bt = ''XAUUSD''"
    by (simp_all add: past_view_def past_fields live_cfg_simps)
  have attempt: "s_zone_attempt (ex_signal\<lparr>s_zone_attempt := wk_count init_walk (bt_zone_key past_bt (''1h'', ''5min'') live_zone) + 1\<rparr>) =
      wk_count init_walk (bt_zone_key past_bt (''1h'', ''5min'') live_zone) + 1"
    by simp
  have "\<not> zone_spent past_bt (''1h'', ''5min'') live_zone init_walk"
    "rejection_passes past_bt past_view live_zone live_rejection init_walk"
    by (simp_all add: zone_spent_def rejection_passes_def init_walk_def wk_count_def past_fields
        live_cfg_simps past_view_def live_rejection_ts)
  with backtest_rules_are_live_rules [OF mirrors_init fields(1-3) HOL.refl fields(4) attempt] fields(5,6)
  show ?thesis by (simp add: live_dir)
qed

text \<open>A pair that looks at the last two candles only, after one that looked at all twelve.\<close>

definition short_view :: view where
  "short_view = past_view\<lparr>vw_htf_window := drop 10 live_htf\<rparr>"

definition long_view :: view where
  "long_view = past_view\<lparr>vw_htf_window := live_htf\<rparr>"

lemma live_bias: "st_bias (detect live_htf PIVOT_BARS) = BIAS_LONG"
proof -
  have "case detect_bos_events live_htf PIVOT_BARS of [] \<Rightarrow> False
      | e # es \<Rightarrow> fst (snd (max_by fst e es)) = BULLISH"
    by code_simp
  then show ?thesis
    using past_window(4) by (auto simp: detect_def structure_run_def split: list.splits prod.splits)
qed

theorem trend_cache_ignores_lookback_witness:
  "st_bias (fst (structure_at short_view (snd (structure_at long_view init_walk)))) = BIAS_LONG \<and>
   st_bias (detect (vw_htf_window short_view) PIVOT_BARS) = BIAS_NEUTRAL"
proof -
  obtain st1 w1 where one: "structure_at long_view init_walk = (st1, w1)"
    by (cases "structure_at long_view init_walk")
  have "wk_ms_cache init_walk (fst (vw_pair long_view)) = None"
    "fst (vw_pair short_view) = fst (vw_pair long_view)" "vw_last_htf_ts short_view = vw_last_htf_ts long_view"
    by (simp_all add: init_walk_def short_view_def long_view_def)
  from trend_cache_ignores_lookback [OF one this]
  have "structure_at short_view w1 = (detect live_htf PIVOT_BARS, w1)" by (simp add: long_view_def)
  moreover have "st_bias (detect (drop 10 live_htf) PIVOT_BARS) = BIAS_NEUTRAL"
    using past_window(4) by (simp add: detect_def structure_run_def neutral_result_def)
  ultimately show ?thesis using live_bias by (simp add: one short_view_def)
qed

end
