(* ===== verification/Scheduler.thy ===== *)
theory Scheduler
  imports Lifecycle "HOL-Library.AList"
begin

text \<open>
  interfaces/scheduler.py: one schedule per symbol, woken by timers at candle boundaries and put
  to sleep over the weekend. The threads are steps: a timer that fires, a timer thread that gets
  the lock in \<open>_run\<close>, a callback that ends on the event loop and runs \<open>_on_done\<close>. The state
  holds, beside the fields of \<open>SignalScheduler\<close>, the timers started so far, the timer threads
  that wait for the lock and the callbacks handed to the loop. The loop is open throughout.
  The frozen settings are in the state since the market data client overwrites one field.
\<close>

section \<open>State\<close>

record schedule =
  sd_running :: bool
  sd_timer :: "nat option"
  sd_subscribers :: "string set"

datatype timer_state = Waiting | Cancelled | Fired

record timer =
  tm_symbol :: string
  tm_due :: ms
  tm_state :: timer_state

record scheduler =
  sc_cfg :: settings
  sc_schedules :: "(string \<times> schedule) list"
  sc_timers :: "timer list"
  sc_calls :: "string list"
  sc_flights :: "string list"

definition new_scheduler :: "settings \<Rightarrow> scheduler" where
  "new_scheduler cfg =
     \<lparr>sc_cfg = cfg, sc_schedules = [], sc_timers = [], sc_calls = [], sc_flights = []\<rparr>"

definition new_schedule :: schedule where
  "new_schedule = \<lparr>sd_running = False, sd_timer = None, sd_subscribers = {}\<rparr>"

abbreviation scheduled :: "scheduler \<Rightarrow> string \<Rightarrow> schedule option" where
  "scheduled s \<equiv> map_of (sc_schedules s)"

definition set_schedule :: "string \<Rightarrow> schedule \<Rightarrow> scheduler \<Rightarrow> scheduler" where
  "set_schedule smb sd s = s\<lparr>sc_schedules := AList.update smb sd (sc_schedules s)\<rparr>"

text \<open>\<open>threading.Timer(..).start()\<close>: the timer and its number.\<close>

definition start_timer :: "ms \<Rightarrow> string \<Rightarrow> scheduler \<Rightarrow> nat \<times> scheduler" where
  "start_timer due smb s =
     (length (sc_timers s),
      s\<lparr>sc_timers := sc_timers s @ [\<lparr>tm_symbol = smb, tm_due = due, tm_state = Waiting\<rparr>]\<rparr>)"

text \<open>\<open>Timer.cancel\<close>: a timer that has fired is past being stopped.\<close>

definition cancel_timer :: "nat \<Rightarrow> scheduler \<Rightarrow> scheduler" where
  "cancel_timer i s =
     s\<lparr>sc_timers := (sc_timers s)[i :=
          (let t = sc_timers s ! i in if tm_state t = Waiting then t\<lparr>tm_state := Cancelled\<rparr> else t)]\<rparr>"

definition cancel :: "string \<Rightarrow> scheduler \<Rightarrow> scheduler" where
  "cancel smb s =
     (case scheduled s smb of
        None \<Rightarrow> s
      | Some sd \<Rightarrow>
          let s' = s\<lparr>sc_schedules := AList.delete smb (sc_schedules s)\<rparr>
          in case sd_timer sd of None \<Rightarrow> s' | Some i \<Rightarrow> cancel_timer i s')"

section \<open>Subscriptions\<close>

definition subscribe_symbol :: "ms \<Rightarrow> string \<Rightarrow> string \<Rightarrow> scheduler \<Rightarrow> scheduler" where
  "subscribe_symbol now sid smb s =
     (let s1 = (case scheduled s smb of
                  Some _ \<Rightarrow> s
                | None \<Rightarrow>
                    case start_timer now smb s of (i, s') \<Rightarrow>
                      set_schedule smb (new_schedule\<lparr>sd_timer := Some i\<rparr>) s');
          sd = the (scheduled s1 smb)
      in set_schedule smb (sd\<lparr>sd_subscribers := insert sid (sd_subscribers sd)\<rparr>) s1)"

definition subscribe :: "ms \<Rightarrow> string \<Rightarrow> string list \<Rightarrow> scheduler \<Rightarrow> scheduler" where
  "subscribe now sid syms s = fold (\<lambda>smb. subscribe_symbol now sid (upper smb)) syms s"

definition add_symbols :: "ms \<Rightarrow> string \<Rightarrow> string list \<Rightarrow> scheduler \<Rightarrow> scheduler" where
  "add_symbols = subscribe"

definition drop_subscriber :: "string \<Rightarrow> string \<Rightarrow> scheduler \<Rightarrow> scheduler" where
  "drop_subscriber sid smb s =
     (case scheduled s smb of
        None \<Rightarrow> s
      | Some sd \<Rightarrow>
          let rest = sd_subscribers sd - {sid};
              s' = set_schedule smb (sd\<lparr>sd_subscribers := rest\<rparr>) s
          in if rest = {} then cancel smb s' else s')"

definition unsubscribe :: "string \<Rightarrow> scheduler \<Rightarrow> scheduler" where
  "unsubscribe sid s = fold (drop_subscriber sid) (map fst (sc_schedules s)) s"

definition remove_symbols :: "string \<Rightarrow> string list \<Rightarrow> scheduler \<Rightarrow> scheduler" where
  "remove_symbols sid syms s = fold (\<lambda>smb. drop_subscriber sid (upper smb)) syms s"

definition shutdown :: "scheduler \<Rightarrow> scheduler" where
  "shutdown s = fold cancel (map fst (sc_schedules s)) s"

definition get_status :: "scheduler \<Rightarrow> (string \<times> nat \<times> bool) list" where
  "get_status s =
     map (\<lambda>(smb, sd). (smb, card (sd_subscribers sd), sd_running sd)) (sc_schedules s)"

section \<open>When to wake\<close>

definition ms_until_next_boundary :: "int \<Rightarrow> ms \<Rightarrow> ms result" where
  "ms_until_next_boundary interval now =
     (let now_s = now div 1000; iv_s = interval * 60 in
      if iv_s = 0 then Inl ZeroDivisionError
      else let next_s = (now_s div iv_s + 1) * iv_s
           in Inr ((next_s * 1000 - now) + CANDLE_BUFFER_MS))"

definition broker_seconds_of_week :: "settings \<Rightarrow> ms \<Rightarrow> int result" where
  "broker_seconds_of_week cfg now =
     (let broker_ms = now + g_broker_time_offset_ms cfg in
      bindR (from_timestamp broker_ms) (\<lambda>_.
        Inr (utc_weekday broker_ms * 86400 + utc_second_of_day broker_ms)))"

definition configured_seconds_of_week :: "int \<Rightarrow> dtime \<Rightarrow> int" where
  "configured_seconds_of_week day time = day * 86400 + fst time * 3600 + snd time * 60"

definition close_second :: "settings \<Rightarrow> int" where
  "close_second cfg = configured_seconds_of_week (g_weekend_close_weekday cfg) (g_weekend_close_time cfg)"

definition reopen_second :: "settings \<Rightarrow> int" where
  "reopen_second cfg = configured_seconds_of_week (g_weekend_reopen_weekday cfg) (g_weekend_reopen_time cfg)"

definition WEEK_S :: int where "WEEK_S = 7 * 86400"

definition weekend_sleep_delay_ms :: "settings \<Rightarrow> ms \<Rightarrow> ms option result" where
  "weekend_sleep_delay_ms cfg now =
     (if \<not> g_weekend_sleep_enabled cfg then Inr None
      else bindR (broker_seconds_of_week cfg now) (\<lambda>now_s.
        let close_s = close_second cfg; reopen_s = reopen_second cfg in
        if close_s = reopen_s then Inr None
        else
          let (is_closed, until) =
            (if close_s < reopen_s then (close_s \<le> now_s \<and> now_s < reopen_s, reopen_s - now_s)
             else (close_s \<le> now_s \<or> now_s < reopen_s,
                   if now_s < reopen_s then reopen_s - now_s else WEEK_S - now_s + reopen_s))
          in if \<not> is_closed then Inr None else Inr (Some (until * 1000 + CANDLE_BUFFER_MS))))"

text \<open>\<open>min(interval_to_minutes(ltf) for _, ltf in tf_pairs)\<close>.\<close>

definition base_interval :: "settings \<Rightarrow> int result" where
  "base_interval cfg =
     bindR (mapR (interval_to_minutes \<circ> snd) (g_tf_pairs cfg)) (\<lambda>ms.
       case ms of [] \<Rightarrow> Inl ValueError | m # r \<Rightarrow> Inr (foldl min m r))"

text \<open>The delay of the next timer; the clock is read once per branch of the test.\<close>

definition next_delay :: "settings \<Rightarrow> ms \<Rightarrow> ms \<Rightarrow> ms result" where
  "next_delay cfg t1 t2 =
     bindR (weekend_sleep_delay_ms cfg t1) (\<lambda>w.
       case w of
         Some d \<Rightarrow> Inr d
       | None \<Rightarrow> bindR (base_interval cfg) (\<lambda>iv. ms_until_next_boundary iv t2))"

definition schedule_next :: "ms \<Rightarrow> ms \<Rightarrow> string \<Rightarrow> scheduler \<Rightarrow> unit result \<times> scheduler" where
  "schedule_next t1 t2 smb s =
     (case next_delay (sc_cfg s) t1 t2 of
        Inl e \<Rightarrow> (Inl e, s)
      | Inr d \<Rightarrow>
          case start_timer (t2 + d) smb s of (i, s') \<Rightarrow>
            case scheduled s' smb of
              None \<Rightarrow> (Inl KeyError, s')
            | Some sd \<Rightarrow> (Inr (), set_schedule smb (sd\<lparr>sd_timer := Some i\<rparr>) s'))"

section \<open>The threads\<close>

definition run_symbol :: "ms \<Rightarrow> ms \<Rightarrow> ms \<Rightarrow> string \<Rightarrow> scheduler \<Rightarrow> unit result \<times> scheduler" where
  "run_symbol t0 t1 t2 smb s =
     (case scheduled s smb of
        None \<Rightarrow> (Inr (), s)
      | Some sd \<Rightarrow>
          if sd_running sd then (Inr (), s)
          else case weekend_sleep_delay_ms (sc_cfg s) t0 of
                 Inl e \<Rightarrow> (Inl e, s)
               | Inr (Some _) \<Rightarrow> schedule_next t1 t2 smb s
               | Inr None \<Rightarrow>
                   (Inr (), (set_schedule smb (sd\<lparr>sd_running := True\<rparr>) s)
                              \<lparr>sc_flights := sc_flights s @ [smb]\<rparr>))"

definition on_done :: "ms \<Rightarrow> ms \<Rightarrow> string \<Rightarrow> scheduler \<Rightarrow> unit result \<times> scheduler" where
  "on_done t1 t2 smb s =
     (case scheduled s smb of
        None \<Rightarrow> (Inr (), s)
      | Some sd \<Rightarrow> schedule_next t1 t2 smb (set_schedule smb (sd\<lparr>sd_running := False\<rparr>) s))"

text \<open>
  One step of the process: a call of the API, a timer that is due and fires (its thread then
  waits for the lock), the thread of a timer that gets the lock, a callback that ends, and the
  market data client that stores a measured broker offset in the settings. The numbers are the
  clock readings of the step.
\<close>

datatype sched_event =
    Subscribe ms string "string list"
  | Unsubscribe string
  | Remove_Symbols string "string list"
  | Shutdown
  | Fire ms nat
  | Tick ms ms ms string
  | Done ms ms string
  | Calibrate int

fun sched_step :: "sched_event \<Rightarrow> scheduler \<Rightarrow> scheduler option" where
  "sched_step (Subscribe t sid syms) s = Some (subscribe t sid syms s)"
| "sched_step (Unsubscribe sid) s = Some (unsubscribe sid s)"
| "sched_step (Remove_Symbols sid syms) s = Some (remove_symbols sid syms s)"
| "sched_step Shutdown s = Some (shutdown s)"
| "sched_step (Fire t i) s =
     (if i < length (sc_timers s) \<and> tm_state (sc_timers s ! i) = Waiting \<and> tm_due (sc_timers s ! i) \<le> t
      then Some (s\<lparr>sc_timers := (sc_timers s)[i := (sc_timers s ! i)\<lparr>tm_state := Fired\<rparr>],
                   sc_calls := sc_calls s @ [tm_symbol (sc_timers s ! i)]\<rparr>)
      else None)"
| "sched_step (Tick t0 t1 t2 smb) s =
     (if smb \<in> set (sc_calls s)
      then Some (snd (run_symbol t0 t1 t2 smb (s\<lparr>sc_calls := remove1 smb (sc_calls s)\<rparr>)))
      else None)"
| "sched_step (Done t1 t2 smb) s =
     (if smb \<in> set (sc_flights s)
      then Some (snd (on_done t1 t2 smb (s\<lparr>sc_flights := remove1 smb (sc_flights s)\<rparr>)))
      else None)"
| "sched_step (Calibrate off) s = Some (s\<lparr>sc_cfg := (sc_cfg s)\<lparr>g_broker_time_offset_ms := off\<rparr>\<rparr>)"

fun sched_run :: "sched_event list \<Rightarrow> scheduler \<Rightarrow> scheduler option" where
  "sched_run [] s = Some s"
| "sched_run (e # es) s = (case sched_step e s of None \<Rightarrow> None | Some s' \<Rightarrow> sched_run es s')"

lemma sched_run_append:
  "sched_run (xs @ ys) s = (case sched_run xs s of None \<Rightarrow> None | Some s' \<Rightarrow> sched_run ys s')"
  by (induction xs arbitrary: s) (auto split: option.splits)

end
