(* ===== verification/Market.thy ===== *)
theory Market
  imports Scheduler Effects
    "HOL-Library.List_Lexorder" "HOL-Library.Char_ord" "HOL-Library.Product_Lexorder"
begin

text \<open>
  infrastructure/data_providers/market_data.py: the client of the MetaTrader 5 terminal. The
  terminal is a parameter: what each of its functions answers may depend on how many calls were
  made before, and so may the system clock and the performance counter; the client's state
  counts these calls. The frozen settings the client overwrites are part of its state. The
  metrics callback is the list of its calls. The text of an error is left out.
\<close>

section \<open>The terminal\<close>

datatype timeframe =
    TIMEFRAME_M1 | TIMEFRAME_M2 | TIMEFRAME_M3 | TIMEFRAME_M4 | TIMEFRAME_M5 | TIMEFRAME_M6
  | TIMEFRAME_M10 | TIMEFRAME_M12 | TIMEFRAME_M15 | TIMEFRAME_M20 | TIMEFRAME_M30
  | TIMEFRAME_H1 | TIMEFRAME_H2 | TIMEFRAME_H3 | TIMEFRAME_H4 | TIMEFRAME_H6 | TIMEFRAME_H8
  | TIMEFRAME_H12 | TIMEFRAME_D1 | TIMEFRAME_W1 | TIMEFRAME_MN1

definition INTERVAL_MAP :: "(string \<times> timeframe) list" where
  "INTERVAL_MAP =
     [(''1min'', TIMEFRAME_M1), (''2min'', TIMEFRAME_M2), (''3min'', TIMEFRAME_M3),
      (''4min'', TIMEFRAME_M4), (''5min'', TIMEFRAME_M5), (''6min'', TIMEFRAME_M6),
      (''10min'', TIMEFRAME_M10), (''12min'', TIMEFRAME_M12), (''15min'', TIMEFRAME_M15),
      (''20min'', TIMEFRAME_M20), (''30min'', TIMEFRAME_M30), (''1h'', TIMEFRAME_H1),
      (''2h'', TIMEFRAME_H2), (''3h'', TIMEFRAME_H3), (''4h'', TIMEFRAME_H4),
      (''6h'', TIMEFRAME_H6), (''8h'', TIMEFRAME_H8), (''12h'', TIMEFRAME_H12),
      (''1day'', TIMEFRAME_D1), (''1week'', TIMEFRAME_W1), (''1month'', TIMEFRAME_MN1)]"

definition to_mt5_interval :: "string \<Rightarrow> timeframe result" where
  "to_mt5_interval interval =
     (case map_of INTERVAL_MAP interval of None \<Rightarrow> Inl MarketDataError | Some tf \<Rightarrow> Inr tf)"

record sym_info =
  si_name :: string
  si_visible :: bool

text \<open>A tick: \<open>None\<close> is an attribute the object does not have.\<close>

record tick =
  tk_time_msc :: "int option"
  tk_time :: "int option"
  tk_bid :: price
  tk_ask :: price

text \<open>A row of rates; the time is in seconds of the broker's clock.\<close>

record rate =
  rt_time :: int
  rt_open :: price
  rt_high :: price
  rt_low :: price
  rt_close :: price
  rt_tick_volume :: "real option"
  rt_real_volume :: "real option"

record terminal =
  mt_clock :: "nat \<Rightarrow> ms"
  mt_perf :: "nat \<Rightarrow> real"
  mt_symbol_info :: "nat \<Rightarrow> string \<Rightarrow> sym_info option"
  mt_symbols_get :: "nat \<Rightarrow> string list option"
  mt_symbol_select :: "nat \<Rightarrow> string \<Rightarrow> bool"
  mt_symbol_info_tick :: "nat \<Rightarrow> string \<Rightarrow> tick option"
  mt_rates_from_pos :: "nat \<Rightarrow> string \<Rightarrow> timeframe \<Rightarrow> int \<Rightarrow> rate list option result"
  mt_rates_range :: "nat \<Rightarrow> string \<Rightarrow> timeframe \<Rightarrow> ms \<Rightarrow> ms \<Rightarrow> rate list option result"

section \<open>The client\<close>

record api_call =
  ac_symbol :: string
  ac_interval :: string
  ac_source :: string
  ac_called_at :: ms
  ac_duration_ms :: real
  ac_success :: bool
  ac_error :: "py_error option"

record client =
  md_settings :: "settings option"
  md_has_metrics :: bool
  md_aliases :: "string dict"
  md_offsets :: "int dict"
  md_resolved :: "string dict"
  md_shutdown_on_close :: bool
  md_shutdowns :: nat
  md_metrics :: "api_call list"
  md_calls :: nat

record init_args =
  ia_timeout :: int
  ia_portable :: bool
  ia_path :: "string option"
  ia_login :: "int option"
  ia_password :: "string option"
  ia_server :: "string option"

definition given :: "string \<Rightarrow> string option" where
  "given s = (if s = [] then None else Some s)"

definition init_kwargs :: "string \<Rightarrow> int option \<Rightarrow> string \<Rightarrow> string \<Rightarrow> int \<Rightarrow> bool \<Rightarrow> init_args" where
  "init_kwargs path login password server timeout portable =
     \<lparr>ia_timeout = timeout, ia_portable = portable, ia_path = given path, ia_login = login,
      ia_password = given password, ia_server = given server\<rparr>"

definition upper_keys :: "string dict \<Rightarrow> string dict" where
  "upper_keys d = fold (\<lambda>(k, v). AList.update (upper k) v) d []"

text \<open>\<open>mt5.initialize\<close> is a parameter, \<open>None\<close> when the package is missing.\<close>

definition new_market_client ::
  "(init_args \<Rightarrow> bool) option \<Rightarrow> init_args \<Rightarrow> bool \<Rightarrow> settings option \<Rightarrow> string dict option \<Rightarrow> client result" where
  "new_market_client mt5_initialize args has_metrics stg aliases =
     (case mt5_initialize of
        None \<Rightarrow> Inl MarketDataError
      | Some initialize \<Rightarrow>
          if \<not> initialize args then Inl MarketDataError
          else Inr \<lparr>md_settings = stg, md_has_metrics = has_metrics,
                    md_aliases = upper_keys (case aliases of None \<Rightarrow> [] | Some d \<Rightarrow> d),
                    md_offsets = [], md_resolved = [], md_shutdown_on_close = True,
                    md_shutdowns = 0, md_metrics = [], md_calls = 0\<rparr>)"

definition client_from_settings :: "(init_args \<Rightarrow> bool) option \<Rightarrow> settings \<Rightarrow> bool \<Rightarrow> client result" where
  "client_from_settings mt5_initialize cfg has_metrics =
     new_market_client mt5_initialize
       (init_kwargs (g_mt5_terminal_path cfg)
          (if g_mt5_login cfg = 0 then None else Some (g_mt5_login cfg))
          (g_mt5_password cfg) (g_mt5_server cfg) (g_mt5_timeout_ms cfg) (g_mt5_portable cfg))
       has_metrics (Some cfg) (Some (g_mt5_symbol_aliases cfg))"

definition call_mt5 :: "(nat \<Rightarrow> 'a) \<Rightarrow> (client, 'a) sm" where
  "call_mt5 f md = (Inr (f (md_calls md)), md\<lparr>md_calls := Suc (md_calls md)\<rparr>)"

section \<open>Symbols\<close>

definition is_alnum :: "char \<Rightarrow> bool" where
  "is_alnum c \<longleftrightarrow>
     (let n = (of_char c :: nat) in 48 \<le> n \<and> n \<le> 57 \<or> 65 \<le> n \<and> n \<le> 90 \<or> 97 \<le> n \<and> n \<le> 122)"

definition clean_name :: "string \<Rightarrow> string" where
  "clean_name symbol = filter is_alnum (upper symbol)"

definition starts_with :: "string \<Rightarrow> string \<Rightarrow> bool" where
  "starts_with s t \<longleftrightarrow> take (length t) s = t"

definition clean_symbol :: "client \<Rightarrow> string \<Rightarrow> string" where
  "clean_symbol md symbol =
     (let clean = clean_name symbol in
      case map_of (md_aliases md) clean of None \<Rightarrow> clean | Some b \<Rightarrow> b)"

definition symbol_matches :: "string \<Rightarrow> string \<Rightarrow> bool" where
  "symbol_matches clean name \<longleftrightarrow>
     starts_with (clean_name name) clean \<or> ends_with (clean_name name) clean"

definition symbol_key :: "string \<Rightarrow> nat \<times> string" where
  "symbol_key name = (length name, upper name)"

text \<open>The broker's name for a symbol and what is known of it.\<close>

definition find_symbol :: "terminal \<Rightarrow> string \<Rightarrow> (client, string \<times> sym_info option) sm" where
  "find_symbol T clean =
     bindS (call_mt5 (\<lambda>n. mt_symbol_info T n clean)) (\<lambda>info.
     case info of
       Some i \<Rightarrow> returnS (si_name i, Some i)
     | None \<Rightarrow>
         bindS (call_mt5 (mt_symbols_get T)) (\<lambda>symbols.
         case filter (symbol_matches clean) (case symbols of None \<Rightarrow> [] | Some ns \<Rightarrow> ns) of
           [] \<Rightarrow> raiseS MarketDataError
         | m # ms \<Rightarrow>
             let name = min_by symbol_key m ms in
             bindS (call_mt5 (\<lambda>n. mt_symbol_info T n name)) (\<lambda>i. returnS (name, i))))"

definition remember_symbol :: "string \<Rightarrow> string \<Rightarrow> (client, string) sm" where
  "remember_symbol clean name =
     thenS (modS (\<lambda>md. md\<lparr>md_resolved := AList.update clean name (md_resolved md)\<rparr>)) (returnS name)"

definition select_symbol :: "terminal \<Rightarrow> string \<Rightarrow> string \<times> sym_info option \<Rightarrow> (client, string) sm" where
  "select_symbol T clean found =
     (case found of
        (name, None) \<Rightarrow> raiseS MarketDataError
      | (name, Some i) \<Rightarrow>
          if si_visible i then remember_symbol clean name
          else bindS (call_mt5 (\<lambda>n. mt_symbol_select T n name)) (\<lambda>ok.
                 if ok then remember_symbol clean name else raiseS MarketDataError))"

definition ensure_symbol :: "terminal \<Rightarrow> string \<Rightarrow> (client, string) sm" where
  "ensure_symbol T symbol =
     bindS (readS (\<lambda>md. clean_symbol md symbol)) (\<lambda>clean.
     bindS (readS (\<lambda>md. map_of (md_resolved md) clean)) (\<lambda>cached.
     case cached of
       Some (c # cs) \<Rightarrow> returnS (c # cs)
     | _ \<Rightarrow> bindS (find_symbol T clean) (select_symbol T clean)))"

section \<open>The broker's clock\<close>

definition HOUR_MS :: int where "HOUR_MS = 3600000"

text \<open>The time of a tick in milliseconds: \<open>time_msc\<close>, else \<open>time\<close>, else none.\<close>

definition tick_ms :: "tick \<Rightarrow> int option" where
  "tick_ms tk =
     (if int_or (tk_time_msc tk) 0 \<noteq> 0 then tk_time_msc tk
      else if int_or (tk_time tk) 0 \<noteq> 0 then Some (the (tk_time tk) * 1000) else None)"

definition hour_offset :: "int \<Rightarrow> int" where
  "hour_offset raw = round_half_even (of_int raw / of_int HOUR_MS) * HOUR_MS"

definition store_offset :: "string \<Rightarrow> int \<Rightarrow> client \<Rightarrow> client" where
  "store_offset name offset md =
     md\<lparr>md_offsets := AList.update name offset (md_offsets md),
        md_settings := map_option (\<lambda>s. s\<lparr>g_broker_time_offset_ms := offset\<rparr>) (md_settings md)\<rparr>"

definition broker_time_offset_ms :: "terminal \<Rightarrow> string \<Rightarrow> (client, int) sm" where
  "broker_time_offset_ms T symbol =
     bindS (ensure_symbol T symbol) (\<lambda>name.
     bindS (call_mt5 (\<lambda>n. mt_symbol_info_tick T n name)) (\<lambda>tk.
     case Option.bind tk tick_ms of
       Some t \<Rightarrow>
         bindS (call_mt5 (mt_clock T)) (\<lambda>now.
         let offset = hour_offset (t - now) in
         thenS (modS (store_offset name offset)) (returnS offset))
     | None \<Rightarrow> readS (\<lambda>md. case map_of (md_offsets md) name of None \<Rightarrow> 0 | Some off \<Rightarrow> off)))"

definition client_now_ms :: "terminal \<Rightarrow> string \<Rightarrow> (client, ms) sm" where
  "client_now_ms T symbol =
     bindS (ensure_symbol T symbol) (\<lambda>name.
     bindS (call_mt5 (\<lambda>n. mt_symbol_info_tick T n name)) (\<lambda>tk.
     case Option.bind tk tick_ms of
       Some t \<Rightarrow> bindS (broker_time_offset_ms T symbol) (\<lambda>off. returnS (t - off))
     | None \<Rightarrow> call_mt5 (mt_clock T)))"

definition get_tick :: "terminal \<Rightarrow> string \<Rightarrow> (client, price \<times> price \<times> ms) sm" where
  "get_tick T symbol =
     bindS (ensure_symbol T symbol) (\<lambda>name.
     bindS (call_mt5 (\<lambda>n. mt_symbol_info_tick T n name)) (\<lambda>found.
     case found of
       None \<Rightarrow> raiseS MarketDataError
     | Some tk \<Rightarrow>
         bindS (case tick_ms tk of Some t \<Rightarrow> returnS t | None \<Rightarrow> call_mt5 (mt_clock T)) (\<lambda>t.
         bindS (broker_time_offset_ms T symbol) (\<lambda>off.
         returnS (tk_bid tk, tk_ask tk, t - off)))))"

section \<open>Candles\<close>

definition candle_of_rate :: "int \<Rightarrow> rate \<Rightarrow> candle" where
  "candle_of_rate offset r =
     \<lparr>c_timestamp = rt_time r * 1000 - offset, c_open = rt_open r, c_high = rt_high r,
      c_low = rt_low r, c_close = rt_close r,
      c_volume = (case rt_tick_volume r of
                    Some x \<Rightarrow> x
                  | None \<Rightarrow> (case rt_real_volume r of Some x \<Rightarrow> x | None \<Rightarrow> 0))\<rparr>"

definition parse_rates :: "rate list option \<Rightarrow> int \<Rightarrow> candle list result" where
  "parse_rates rates offset =
     (case rates of
        None \<Rightarrow> Inl MarketDataError
      | Some rs \<Rightarrow> Inr (sort_key c_timestamp (map (candle_of_rate offset) rs)))"

definition record_metrics ::
  "terminal \<Rightarrow> string \<Rightarrow> string \<Rightarrow> ms \<Rightarrow> real \<Rightarrow> py_error option \<Rightarrow> (client, unit) sm" where
  "record_metrics T symbol interval called_at started err =
     bindS (readS md_has_metrics) (\<lambda>has.
     whenS has
       (bindS (call_mt5 (mt_perf T)) (\<lambda>t.
        modS (\<lambda>md. md\<lparr>md_metrics := md_metrics md @
          [\<lparr>ac_symbol = symbol, ac_interval = interval, ac_source = ''mt5'',
            ac_called_at = called_at, ac_duration_ms = (t - started) * 1000,
            ac_success = (err = None), ac_error = err\<rparr>]\<rparr>))))"

text \<open>The guarded part of a fetch, from \<open>called_at\<close> to the end.\<close>

definition timed_fetch ::
  "terminal \<Rightarrow> string \<Rightarrow> string \<Rightarrow> int \<Rightarrow> (nat \<Rightarrow> rate list option result) \<Rightarrow> (client, candle list) sm" where
  "timed_fetch T symbol interval offset query =
     bindS (call_mt5 (mt_clock T)) (\<lambda>called_at.
     bindS (call_mt5 (mt_perf T)) (\<lambda>started.
     bindS (call_mt5 query) (\<lambda>answer.
     case bindR answer (\<lambda>rates. parse_rates rates offset) of
       Inr candles \<Rightarrow>
         thenS (record_metrics T symbol interval called_at started None) (returnS candles)
     | Inl e \<Rightarrow>
         thenS (record_metrics T symbol interval called_at started (Some e)) (raiseS e))))"

definition fetch_candles :: "terminal \<Rightarrow> string \<Rightarrow> string \<Rightarrow> int \<Rightarrow> (client, candle list) sm" where
  "fetch_candles T symbol interval outputsize =
     bindS (liftR (to_mt5_interval interval)) (\<lambda>tf.
     bindS (ensure_symbol T symbol) (\<lambda>name.
     bindS (broker_time_offset_ms T symbol) (\<lambda>offset.
     timed_fetch T symbol interval offset (\<lambda>n. mt_rates_from_pos T n name tf outputsize))))"

definition fetch_candles_range ::
  "terminal \<Rightarrow> string \<Rightarrow> string \<Rightarrow> ms \<Rightarrow> ms option \<Rightarrow> (client, candle list) sm" where
  "fetch_candles_range T symbol interval start_ts end_ts =
     bindS (liftR (to_mt5_interval interval)) (\<lambda>tf.
     bindS (ensure_symbol T symbol) (\<lambda>name.
     bindS (broker_time_offset_ms T symbol) (\<lambda>offset.
     bindS (if int_or end_ts 0 = 0 then call_mt5 (mt_clock T) else returnS (int_or end_ts 0)) (\<lambda>until.
     timed_fetch T symbol interval offset (\<lambda>n.
       bindR (from_timestamp (start_ts + offset)) (\<lambda>_.
       bindR (from_timestamp (until + offset)) (\<lambda>_.
       mt_rates_range T n name tf (start_ts + offset) (until + offset))))))))"

definition close_client :: "client \<Rightarrow> client" where
  "close_client md =
     (if md_shutdown_on_close md
      then md\<lparr>md_shutdowns := Suc (md_shutdowns md), md_shutdown_on_close := False\<rparr> else md)"

end
