(* ===== verification/Metrics.thy ===== *)
theory Metrics
  imports Service Market
begin

text \<open>
  infrastructure/observability/metrics.py: the metrics collector. Its dictionaries are
  association lists, the tables of its database are lists of rows in insertion order; that a
  statement on the database fails is left out. A clock reading is an argument of the operation
  that makes it. The lock makes every operation one step.
\<close>

section \<open>State\<close>

record tick_row =
  tr_day :: string
  tr_symbol :: string
  tr_mode :: string
  tr_fired_at :: ms
  tr_duration :: real

record latency_row =
  lw_day :: string
  lw_signal_id :: string
  lw_symbol :: string
  lw_tf_pair :: string
  lw_fired_at :: ms
  lw_start :: "ms option"
  lw_rejection :: "ms option"
  lw_emit :: "ms option"
  lw_broadcast :: ms
  lw_lag :: "int option"
  lw_duration :: "int option"
  lw_total :: int

record error_row =
  er_day :: string
  er_module :: string
  er_level :: string
  er_message :: string
  er_at :: ms

record ws_row =
  wr_day :: string
  wr_client :: string
  wr_event :: string
  wr_symbols :: "string list option"
  wr_at :: ms

record metrics_db =
  db_ticks :: "tick_row list"
  db_latency :: "latency_row list"
  db_api :: "(string \<times> api_call) list"
  db_errors :: "error_row list"
  db_ws :: "ws_row list"
  db_counters :: "int dict"
  db_gauges :: "real dict"

record sched_row =
  sr_mode :: string
  sr_last :: "ms option"
  sr_next :: "ms option"
  sr_ticks :: int

record ws_info =
  wi_symbols :: "string list"
  wi_connected_at :: ms

text \<open>A record of \<open>_pending_latency\<close>: the keys that are present.\<close>

record latency_rec =
  lr_symbol :: "string option"
  lr_fired_at :: "ms option"
  lr_start :: "ms option"
  lr_lag :: "int option"
  lr_rejection :: "ms option"
  lr_signal_id :: "string option"
  lr_tf_pair :: "string option"
  lr_emit :: "ms option"
  lr_duration :: "int option"

definition no_latency :: latency_rec where
  "no_latency =
     \<lparr>lr_symbol = None, lr_fired_at = None, lr_start = None, lr_lag = None, lr_rejection = None,
      lr_signal_id = None, lr_tf_pair = None, lr_emit = None, lr_duration = None\<rparr>"

type_synonym jobj = "(string \<times> json) list"
type_synonym zone_id = "json \<times> json \<times> json \<times> json \<times> json"

record collector =
  mc_start :: ms
  mc_scheduler :: "sched_row dict"
  mc_ws_clients :: "ws_info dict"
  mc_active_signals :: "json list"
  mc_active_zones :: "(zone_id \<times> jobj) list"
  mc_latency :: "latency_rec dict"
  mc_by_signal_id :: "string dict"
  mc_tick_durations :: "real list dict"
  mc_last_prune :: ms
  mc_counters :: "int dict"
  mc_gauges :: "real dict"
  mc_db :: metrics_db

definition OBS_CACHE_TTL_MS :: int where "OBS_CACHE_TTL_MS = 24 * 3600000"

text \<open>\<open>_restore_counter_gauge_metrics\<close>, on a collector that was just created.\<close>

definition restore_metrics :: "collector \<Rightarrow> collector" where
  "restore_metrics c =
     c\<lparr>mc_counters := fold (\<lambda>(k, x). AList.update k x) (db_counters (mc_db c)) (mc_counters c),
       mc_gauges := fold (\<lambda>(k, x). AList.update k x) (db_gauges (mc_db c)) (mc_gauges c)\<rparr>"

definition new_collector :: "ms \<Rightarrow> metrics_db \<Rightarrow> collector" where
  "new_collector now db =
     restore_metrics
       \<lparr>mc_start = now, mc_scheduler = [], mc_ws_clients = [], mc_active_signals = [],
        mc_active_zones = [], mc_latency = [], mc_by_signal_id = [], mc_tick_durations = [],
        mc_last_prune = 0, mc_counters = [], mc_gauges = [], mc_db = db\<rparr>"

section \<open>Counters and gauges\<close>

definition bump :: "string \<Rightarrow> int \<Rightarrow> collector \<Rightarrow> collector" where
  "bump name by c =
     c\<lparr>mc_counters := AList.update name (dict_get (mc_counters c) name 0 + by) (mc_counters c)\<rparr>"

definition put_gauge :: "string \<Rightarrow> real \<Rightarrow> collector \<Rightarrow> collector" where
  "put_gauge name x c = c\<lparr>mc_gauges := AList.update name x (mc_gauges c)\<rparr>"

definition increment :: "string \<Rightarrow> int \<Rightarrow> collector \<Rightarrow> collector" where
  "increment name by c = bump name by c"

definition set_gauge :: "string \<Rightarrow> real option \<Rightarrow> collector \<Rightarrow> collector" where
  "set_gauge name x c = (case x of None \<Rightarrow> c | Some v \<Rightarrow> put_gauge name v c)"

text \<open>Reading a counter of a \<open>defaultdict\<close> creates it.\<close>

definition read_counter :: "string \<Rightarrow> collector \<Rightarrow> int \<times> collector" where
  "read_counter name c = (dict_get (mc_counters c) name 0, bump name 0 c)"

definition read_gauge :: "string \<Rightarrow> collector \<Rightarrow> real" where
  "read_gauge name c = dict_get (mc_gauges c) name 0"

definition metrics_snapshot :: "collector \<Rightarrow> int dict \<times> real dict" where
  "metrics_snapshot c = (mc_counters c, mc_gauges c)"

text \<open>\<open>INSERT ... ON CONFLICT(name) DO UPDATE\<close> per entry.\<close>

definition flush_metrics :: "collector \<Rightarrow> collector" where
  "flush_metrics c =
     (case metrics_snapshot c of (counters, gauges) \<Rightarrow>
        c\<lparr>mc_db := (mc_db c)
            \<lparr>db_counters := fold (\<lambda>(k, x). AList.update k x) counters (db_counters (mc_db c)),
             db_gauges := fold (\<lambda>(k, x). AList.update k x) gauges (db_gauges (mc_db c))\<rparr>\<rparr>)"

section \<open>The observation caches\<close>

definition session_day :: "ms \<Rightarrow> string result" where
  "session_day t = bindR (from_timestamp t) (\<lambda>_. Inr (iso_date (utc_day t)))"

definition latency_age :: "latency_rec \<Rightarrow> ms" where
  "latency_age r = int_or (lr_fired_at r) (int_or (lr_start r) 0)"

definition zone_age :: "jobj \<Rightarrow> ms result" where
  "zone_age z = int_of_json (jor (jor (get_or z ''pendingAt'' JNull) (get_or z ''ltfTimestamp'' JNull)) (JInt 0))"

definition forget_latency :: "string \<times> latency_rec \<Rightarrow> collector \<Rightarrow> collector" where
  "forget_latency kr c =
     c\<lparr>mc_latency := AList.delete (fst kr) (mc_latency c),
       mc_by_signal_id := (case lr_signal_id (snd kr) of
          None \<Rightarrow> mc_by_signal_id c
        | Some i \<Rightarrow> if i = [] then mc_by_signal_id c else AList.delete i (mc_by_signal_id c))\<rparr>"

definition prune_latency :: "ms \<Rightarrow> collector \<Rightarrow> collector" where
  "prune_latency cutoff c = fold forget_latency (filter (\<lambda>kr. latency_age (snd kr) < cutoff) (mc_latency c)) c"

definition prune_zones :: "ms \<Rightarrow> (collector, unit) sm" where
  "prune_zones cutoff =
     bindS (readS mc_active_zones) (\<lambda>zones.
     bindS (liftR (mapR (zone_age \<circ> snd) zones)) (\<lambda>ages.
     modS (\<lambda>c. c\<lparr>mc_active_zones := map fst (filter (\<lambda>(z, a). \<not> a < cutoff) (zip zones ages))\<rparr>)))"

definition count_zones :: "collector \<Rightarrow> collector" where
  "count_zones c = put_gauge ''signals.active_zones'' (of_nat (length (mc_active_zones c))) c"

definition prune_caches :: "ms \<Rightarrow> (collector, unit) sm" where
  "prune_caches now =
     bindS (readS (\<lambda>c. now - mc_last_prune c < 60000)) (\<lambda>recent.
     whenS (\<not> recent)
       (thenS (modS (\<lambda>c. prune_latency (now - OBS_CACHE_TTL_MS) (c\<lparr>mc_last_prune := now\<rparr>)))
       (thenS (prune_zones (now - OBS_CACHE_TTL_MS))
       (modS (\<lambda>c.
          put_gauge ''observability.active_zones'' (of_nat (length (mc_active_zones c)))
          (put_gauge ''observability.pending_latency'' (of_nat (length (mc_latency c)))
          (count_zones c)))))))"

section \<open>The scheduler\<close>

definition last_n :: "nat \<Rightarrow> 'a list \<Rightarrow> 'a list" where
  "last_n n xs = drop (length xs - n) xs"

definition record_tick :: "string \<Rightarrow> string \<Rightarrow> ms \<Rightarrow> real \<Rightarrow> ms \<Rightarrow> (collector, unit) sm" where
  "record_tick symbol mode fired_at duration_ms now =
     bindS (liftR (session_day (num_or fired_at now))) (\<lambda>day.
     modS (\<lambda>c.
       let db = mc_db c;
           row = \<lparr>tr_day = day, tr_symbol = symbol, tr_mode = mode, tr_fired_at = fired_at, tr_duration = duration_ms\<rparr>
       in
       put_gauge (''scanner.'' @ symbol @ ''.last_fired_at'') (of_int fired_at)
       (put_gauge (''scanner.'' @ symbol @ ''.last_tick_duration_ms'') duration_ms
       (put_gauge ''scanner.last_tick_duration_ms'' duration_ms
       (bump ''scanner.ticks'' 1
       (c\<lparr>mc_db := db\<lparr>db_ticks := db_ticks db @ [row]\<rparr>,
          mc_tick_durations := AList.update symbol
            (last_n 100 (dict_get (mc_tick_durations c) symbol [] @ [duration_ms])) (mc_tick_durations c)\<rparr>))))))"

definition int_or_opt :: "int option \<Rightarrow> int option \<Rightarrow> int option" where
  "int_or_opt a b = (if int_or a 0 = 0 then b else a)"

definition update_scheduler_state ::
  "string \<Rightarrow> string \<Rightarrow> ms option \<Rightarrow> ms option \<Rightarrow> collector \<Rightarrow> collector" where
  "update_scheduler_state symbol mode last_fired next_fired c =
     (let ex = map_of (mc_scheduler c) symbol in
      c\<lparr>mc_scheduler := AList.update symbol
          \<lparr>sr_mode = mode, sr_last = int_or_opt last_fired (Option.bind ex sr_last),
           sr_next = int_or_opt next_fired (Option.bind ex sr_next),
           sr_ticks = (case ex of None \<Rightarrow> 0 | Some r \<Rightarrow> sr_ticks r) +
                      (if int_or last_fired 0 \<noteq> 0 then 1 else 0)\<rparr> (mc_scheduler c)\<rparr>)"

section \<open>Signal latency\<close>

definition latency_key :: "string \<Rightarrow> ms \<Rightarrow> string" where
  "latency_key symbol fired_at = symbol @ ''_'' @ show_int fired_at"

definition signal_analyze_start :: "string \<Rightarrow> ms \<Rightarrow> ms \<Rightarrow> (collector, ms) sm" where
  "signal_analyze_start symbol fired_at now =
     thenS (prune_caches now)
     (thenS (modS (\<lambda>c.
        put_gauge (''scanner.'' @ symbol @ ''.scheduler_lag_ms'') (of_int (now - fired_at))
        (put_gauge ''scanner.scheduler_lag_ms'' (of_int (now - fired_at))
        (bump ''scanner.analysis_started'' 1
        (c\<lparr>mc_latency := AList.update (latency_key symbol fired_at)
            (no_latency\<lparr>lr_symbol := Some symbol, lr_fired_at := Some fired_at, lr_start := Some now,
              lr_lag := Some (now - fired_at)\<rparr>) (mc_latency c)\<rparr>)))))
      (returnS now))"

definition signal_rejection_found :: "string \<Rightarrow> ms \<Rightarrow> ms \<Rightarrow> collector \<Rightarrow> collector" where
  "signal_rejection_found symbol fired_at now c =
     bump ''signals.rejections_found'' 1
       (case map_of (mc_latency c) (latency_key symbol fired_at) of
          None \<Rightarrow> c
        | Some r \<Rightarrow> c\<lparr>mc_latency := AList.update (latency_key symbol fired_at)
                        (r\<lparr>lr_rejection := Some now\<rparr>) (mc_latency c)\<rparr>)"

definition signal_emitted :: "string \<Rightarrow> string \<Rightarrow> ms \<Rightarrow> string \<Rightarrow> ms \<Rightarrow> collector \<Rightarrow> collector" where
  "signal_emitted signal_id symbol fired_at tf_pair now c =
     (let key = latency_key symbol fired_at;
          r = (case map_of (mc_latency c) key of None \<Rightarrow> no_latency | Some r \<Rightarrow> r);
          start = (case lr_start r of None \<Rightarrow> now | Some t \<Rightarrow> t)
      in
      put_gauge ''signals.last_emitted_at'' (of_int now)
      (put_gauge ''latency.analysis_to_emit_ms'' (of_int (now - start))
      (bump ''signals.emitted'' 1
      (c\<lparr>mc_latency := AList.update key
           (r\<lparr>lr_signal_id := Some signal_id, lr_tf_pair := Some tf_pair, lr_emit := Some now,
             lr_duration := Some (now - start)\<rparr>) (mc_latency c),
         mc_by_signal_id := AList.update signal_id key (mc_by_signal_id c)\<rparr>))))"

text \<open>\<open>now2\<close> is read only when the record has the time 0.\<close>

definition signal_broadcast_done :: "string \<Rightarrow> string \<Rightarrow> ms \<Rightarrow> ms \<Rightarrow> ms \<Rightarrow> (collector, unit) sm" where
  "signal_broadcast_done signal_id symbol fired_at now now2 =
     bindS (readS (\<lambda>c. str_or (dict_get (mc_by_signal_id c) signal_id []) (latency_key symbol fired_at))) (\<lambda>key.
     bindS (readS (\<lambda>c. map_of (mc_latency c) key)) (\<lambda>found.
     thenS (modS (\<lambda>c. c\<lparr>mc_by_signal_id := AList.delete signal_id (mc_by_signal_id c),
                         mc_latency := AList.delete key (mc_latency c)\<rparr>))
     (case found of
        None \<Rightarrow> returnS ()
      | Some r \<Rightarrow>
          let total = now - (case lr_fired_at r of None \<Rightarrow> now | Some t \<Rightarrow> t);
              day_ts = (case lr_fired_at r of None \<Rightarrow> fired_at | Some t \<Rightarrow> t)
          in
          bindS (liftR (session_day (num_or day_ts now2))) (\<lambda>day.
          bindS (liftR (case (lr_symbol r, lr_fired_at r) of
                   (Some s, Some t) \<Rightarrow> Inr (s, t) | _ \<Rightarrow> Inl KeyError)) (\<lambda>(s, t).
          modS (\<lambda>c.
            let db = mc_db c;
                row = \<lparr>lw_day = day, lw_signal_id = (case lr_signal_id r of None \<Rightarrow> [] | Some i \<Rightarrow> i),
                       lw_symbol = s, lw_tf_pair = (case lr_tf_pair r of None \<Rightarrow> [] | Some p \<Rightarrow> p),
                       lw_fired_at = t, lw_start = lr_start r, lw_rejection = lr_rejection r,
                       lw_emit = lr_emit r, lw_broadcast = now, lw_lag = lr_lag r,
                       lw_duration = lr_duration r, lw_total = total\<rparr>
            in put_gauge ''latency.signal_broadcast_total_ms'' (of_int total)
                 (c\<lparr>mc_db := db\<lparr>db_latency := db_latency db @ [row]\<rparr>\<rparr>)))))))"

section \<open>Calls, errors, clients\<close>

definition on_api_call :: "api_call \<Rightarrow> ms \<Rightarrow> (collector, unit) sm" where
  "on_api_call call now =
     bindS (liftR (session_day (num_or (ac_called_at call) now))) (\<lambda>day.
     modS (\<lambda>c.
       let db = mc_db c in
       put_gauge (''mt5.'' @ ac_symbol call @ ''.'' @ ac_interval call @ ''.last_call_ms'') (ac_duration_ms call)
       (put_gauge ''mt5.last_call_ms'' (ac_duration_ms call)
       ((if ac_success call then id else bump ''mt5.errors'' 1)
       (bump (''mt5.calls.'' @ ac_interval call) 1
       (bump ''mt5.calls'' 1 (c\<lparr>mc_db := db\<lparr>db_api := db_api db @ [(day, call)]\<rparr>\<rparr>)))))))"

definition record_error :: "string \<Rightarrow> string \<Rightarrow> string \<Rightarrow> ms \<Rightarrow> (collector, unit) sm" where
  "record_error md level message now =
     bindS (liftR (session_day now)) (\<lambda>day.
     modS (\<lambda>c.
       let db = mc_db c in
       bump ''errors.total'' 1
         (c\<lparr>mc_db := db\<lparr>db_errors := db_errors db @
            [\<lparr>er_day = day, er_module = md, er_level = level, er_message = message, er_at = now\<rparr>]\<rparr>\<rparr>)))"

definition record_ws_event :: "string \<Rightarrow> string \<Rightarrow> string list option \<Rightarrow> ms \<Rightarrow> (collector, unit) sm" where
  "record_ws_event client event symbols now =
     bindS (liftR (session_day now)) (\<lambda>day.
     modS (\<lambda>c.
       let db = mc_db c in
       bump (''websocket.'' @ event) 1
         (c\<lparr>mc_db := db\<lparr>db_ws := db_ws db @
            [\<lparr>wr_day = day, wr_client = client, wr_event = event,
              wr_symbols = (case symbols of Some (x # xs) \<Rightarrow> Some (x # xs) | _ \<Rightarrow> None), wr_at = now\<rparr>]\<rparr>\<rparr>)))"

definition count_clients :: "collector \<Rightarrow> collector" where
  "count_clients c = put_gauge ''websocket.client_count'' (of_nat (length (mc_ws_clients c))) c"

definition update_ws_client :: "string \<Rightarrow> string list \<Rightarrow> ms \<Rightarrow> collector \<Rightarrow> collector" where
  "update_ws_client client symbols now c =
     count_clients (c\<lparr>mc_ws_clients := AList.update client
       \<lparr>wi_symbols = symbols,
        wi_connected_at = (case map_of (mc_ws_clients c) client of None \<Rightarrow> now | Some i \<Rightarrow> wi_connected_at i)\<rparr>
       (mc_ws_clients c)\<rparr>)"

definition remove_ws_client :: "string \<Rightarrow> collector \<Rightarrow> collector" where
  "remove_ws_client client c = count_clients (c\<lparr>mc_ws_clients := AList.delete client (mc_ws_clients c)\<rparr>)"

definition set_active_signals :: "json list \<Rightarrow> collector \<Rightarrow> collector" where
  "set_active_signals sigs c =
     put_gauge ''signals.active_count'' (of_nat (length sigs)) (c\<lparr>mc_active_signals := sigs\<rparr>)"

section \<open>Zones and events\<close>

fun hashable :: "json \<Rightarrow> bool" where
  "hashable (JArr xs) = False" | "hashable (JObj d) = False" | "hashable _ = True"

definition hash_key :: "zone_id \<Rightarrow> unit result" where
  "hash_key k = (case k of (a, b, c, d, e) \<Rightarrow>
     if hashable a \<and> hashable b \<and> hashable c \<and> hashable d \<and> hashable e then Inr () else Inl TypeError)"

definition upsert_active_zone :: "jobj \<Rightarrow> ms \<Rightarrow> (collector, unit) sm" where
  "upsert_active_zone zone now =
     bindS (liftR (need zone ''symbol'')) (\<lambda>symbol.
     bindS (liftR (need zone ''direction'')) (\<lambda>dir.
     bindS (liftR (need zone ''ltfTimestamp'')) (\<lambda>ts.
     let key = (symbol, dir, get_or zone ''htfInterval'' (JStr []), get_or zone ''ltfInterval'' (JStr []), ts) in
     thenS (prune_caches now)
     (thenS (liftR (hash_key key))
     (modS (\<lambda>c. count_zones (c\<lparr>mc_active_zones := AList.update key zone (mc_active_zones c)\<rparr>)))))))"

definition remove_active_zone ::
  "json \<Rightarrow> json \<Rightarrow> json \<Rightarrow> json \<Rightarrow> json \<Rightarrow> (collector, unit) sm" where
  "remove_active_zone symbol dir ts htf ltf =
     (let key = (symbol, dir, htf, ltf, ts) in
      if truthy htf \<or> truthy ltf
      then thenS (liftR (hash_key key))
             (modS (\<lambda>c. count_zones (c\<lparr>mc_active_zones := AList.delete key (mc_active_zones c)\<rparr>)))
      else modS (\<lambda>c. count_zones
             (c\<lparr>mc_active_zones := filter (\<lambda>((s, d, _, _, t), _). \<not> (s = symbol \<and> d = dir \<and> t = ts))
                (mc_active_zones c)\<rparr>)))"

text \<open>The zone that \<open>on_signal_event\<close> makes of a pending payload.\<close>

definition zone_fields :: "string list" where
  "zone_fields =
     [''symbol'', ''direction'', ''ltfTimestamp'', ''pendingAt'', ''htfRange'', ''ltfRange'',
      ''htfInterval'', ''ltfInterval'']"

definition pending_zone :: "jobj \<Rightarrow> jobj result" where
  "pending_zone p = mapR (\<lambda>k. bindR (need p k) (\<lambda>x. Inr (k, x))) zone_fields"

definition event_counter :: "signal_event \<Rightarrow> string option" where
  "event_counter ev =
     (case ev of SIGNAL_TRIGGERED \<Rightarrow> Some ''signals.triggered''
      | SIGNAL_INVALIDATED \<Rightarrow> Some ''signals.invalidated'' | SIGNAL_EXPIRED \<Rightarrow> Some ''signals.expired''
      | SIGNAL_SL_HIT \<Rightarrow> Some ''signals.sl_hit'' | SIGNAL_TP2_HIT \<Rightarrow> Some ''signals.tp2_hit''
      | _ \<Rightarrow> None)"

definition end_zone :: "jobj \<Rightarrow> (collector, unit) sm" where
  "end_zone p =
     bindS (liftR (as_obj (jor (get_or p ''signal'' JNull) (JObj p)))) (\<lambda>sig.
     bindS (if truthy (get_or sig ''ltfTimestamp'' JNull) then returnS (get_or sig ''ltfTimestamp'' JNull)
            else bindS (liftR (as_obj (jor (get_or sig ''ltfRange'' JNull) (JObj [])))) (\<lambda>r.
                 returnS (get_or r ''timestamp'' (JInt 0)))) (\<lambda>ts.
     remove_active_zone (get_or sig ''symbol'' (JStr [])) (get_or sig ''direction'' (JStr [])) ts
       (get_or sig ''htfInterval'' (JStr [])) (get_or sig ''ltfInterval'' (JStr []))))"

definition on_event :: "signal_event \<Rightarrow> json \<Rightarrow> ms \<Rightarrow> (collector, unit) sm" where
  "on_event ev payload now =
     thenS (modS (increment (''events.'' @ event_value ev) 1))
     (if ev = SIGNAL_PENDING
      then thenS (modS (increment ''signals.pending'' 1))
             (bindS (liftR (as_obj payload)) (\<lambda>p.
              bindS (liftR (pending_zone p)) (\<lambda>zone. upsert_active_zone zone now)))
      else case event_counter ev of
             None \<Rightarrow> returnS ()
           | Some name \<Rightarrow>
               thenS (modS (increment name 1)) (bindS (liftR (as_obj payload)) end_zone))"

text \<open>Every exception is swallowed.\<close>

definition on_signal_event :: "signal_event \<Rightarrow> json \<Rightarrow> ms \<Rightarrow> collector \<Rightarrow> collector" where
  "on_signal_event ev payload now c = snd (on_event ev payload now c)"

section \<open>The snapshot\<close>

definition p95 :: "real list \<Rightarrow> real" where
  "p95 xs =
     (if xs = [] then 0
      else py_round 2 (sort xs ! nat (max 0 (trunc (of_nat (length xs) * 0.95) - 1))))"

text \<open>\<open>round(AVG(x) or 0, 2)\<close> and \<open>round(MAX(x) or 0, 2)\<close> over the rows that have a value.\<close>

definition sql_avg :: "real list \<Rightarrow> real" where
  "sql_avg xs = (if xs = [] then 0 else py_round 2 (sum_list xs / of_nat (length xs)))"

definition sql_max :: "real list \<Rightarrow> real" where
  "sql_max xs = (case xs of [] \<Rightarrow> 0 | y # ys \<Rightarrow> py_round 2 (max_by id y ys))"

record tick_stat =
  ts_count :: nat
  ts_avg :: real
  ts_max :: real
  ts_p95 :: real

definition tick_stats :: "string \<Rightarrow> collector \<Rightarrow> string \<Rightarrow> string \<Rightarrow> tick_stat option" where
  "tick_stats today c symbol mode =
     (let ds = map tr_duration (filter (\<lambda>r. tr_day r = today \<and> tr_symbol r = symbol \<and> tr_mode r = mode)
                 (db_ticks (mc_db c)))
      in if ds = [] then None
         else Some \<lparr>ts_count = length ds, ts_avg = sql_avg ds, ts_max = sql_max ds,
                    ts_p95 = p95 (dict_get (mc_tick_durations c) symbol [])\<rparr>)"

record latency_stats =
  ls_avg_lag :: real
  ls_max_lag :: real
  ls_avg_analyze :: real
  ls_max_analyze :: real
  ls_avg_total :: real
  ls_max_total :: real
  ls_count :: nat

definition latency_summary :: "string \<Rightarrow> collector \<Rightarrow> latency_stats" where
  "latency_summary today c =
     (let rows = filter (\<lambda>r. lw_day r = today) (db_latency (mc_db c));
          lags = map of_int (List.map_filter lw_lag rows);
          spans = map of_int (List.map_filter lw_duration rows);
          totals = map (of_int \<circ> lw_total) rows
      in \<lparr>ls_avg_lag = sql_avg lags, ls_max_lag = sql_max lags, ls_avg_analyze = sql_avg spans,
          ls_max_analyze = sql_max spans, ls_avg_total = sql_avg totals, ls_max_total = sql_max totals,
          ls_count = length rows\<rparr>)"

record api_stat =
  as_total :: nat
  as_errors :: nat
  as_avg :: real

definition api_stats :: "string \<Rightarrow> collector \<Rightarrow> string \<Rightarrow> api_stat option" where
  "api_stats today c source =
     (let calls = map snd (filter (\<lambda>(day, x). day = today \<and> ac_source x = source) (db_api (mc_db c)))
      in if calls = [] then None
         else Some \<lparr>as_total = length calls, as_errors = length (filter (\<lambda>x. \<not> ac_success x) calls),
                    as_avg = sql_avg (map ac_duration_ms calls)\<rparr>)"

definition calls_last_min :: "ms \<Rightarrow> collector \<Rightarrow> nat" where
  "calls_last_min now c = length (filter (\<lambda>(_, x). now - 60000 \<le> ac_called_at x) (db_api (mc_db c)))"

definition todays_errors :: "string \<Rightarrow> collector \<Rightarrow> error_row list" where
  "todays_errors today c = filter (\<lambda>r. er_day r = today) (db_errors (mc_db c))"

definition error_count :: "string \<Rightarrow> collector \<Rightarrow> string \<Rightarrow> string \<Rightarrow> nat option" where
  "error_count today c md level =
     (case filter (\<lambda>r. er_module r = md \<and> er_level r = level) (todays_errors today c) of
        [] \<Rightarrow> None | r # rs \<Rightarrow> Some (Suc (length rs)))"

record snapshot =
  sn_ts :: ms
  sn_uptime_ms :: int
  sn_uptime_s :: int
  sn_session_day :: string
  sn_scheduler :: "(string \<times> sched_row \<times> (string \<Rightarrow> tick_stat option)) list"
  sn_latency :: latency_stats
  sn_api :: "string \<Rightarrow> api_stat option"
  sn_calls_last_min :: nat
  sn_errors_total :: nat
  sn_errors_by_module :: "string \<Rightarrow> string \<Rightarrow> nat option"
  sn_errors_recent :: "error_row list"
  sn_clients :: "(string \<times> ws_info \<times> int) list"
  sn_active_signals :: "json list"
  sn_active_zones :: "jobj list"
  sn_counters :: "int dict"
  sn_gauges :: "real dict"
  sn_summary :: "(string \<times> real) list"

text \<open>The named counters and gauges at the end of the snapshot.\<close>

definition SUMMARY_COUNTERS :: "(string \<times> string) list" where
  "SUMMARY_COUNTERS =
     [(''scanner_ticks'', ''scanner.ticks''), (''scanner_tick_errors'', ''scanner.tick_errors''),
      (''analysis_started'', ''scanner.analysis_started''), (''signals_pending'', ''signals.pending''),
      (''signals_emitted'', ''signals.emitted''), (''signals_triggered'', ''signals.triggered''),
      (''signals_stale_skipped'', ''signals.stale_skipped''),
      (''signals_dedup_blocked'', ''signals.dedup_blocked''),
      (''signals_decision_blocked'', ''signals.decision_blocked''),
      (''signals_no_rejection'', ''signals.no_rejection''), (''mt5_calls'', ''mt5.calls''),
      (''mt5_errors'', ''mt5.errors'')]"

definition metrics_summary :: "collector \<Rightarrow> (string \<times> real) list" where
  "metrics_summary c =
     map (\<lambda>(label, name). (label, of_int (dict_get (mc_counters c) name 0))) SUMMARY_COUNTERS @
     [(''last_emit_lag_ms'', dict_get (mc_gauges c) ''latency.last_signal_emit_lag_ms'' 0),
      (''last_scan_lag_ms'', dict_get (mc_gauges c) ''scanner.scan_lag_ms'' 0),
      (''last_analysis_ms'', dict_get (mc_gauges c) ''scanner.analysis_ms'' 0),
      (''active_signals'', dict_get (mc_gauges c) ''signals.active_count'' (of_nat (length (mc_active_signals c)))),
      (''active_zones'', dict_get (mc_gauges c) ''signals.active_zones'' (of_nat (length (mc_active_zones c)))),
      (''websocket_clients'', of_nat (length (mc_ws_clients c)))]"

definition snapshot_of :: "string \<Rightarrow> ms \<Rightarrow> collector \<Rightarrow> snapshot" where
  "snapshot_of today now c =
     \<lparr>sn_ts = now, sn_uptime_ms = now - mc_start c,
      sn_uptime_s = round_half_even (of_int (now - mc_start c) / 1000), sn_session_day = today,
      sn_scheduler = map (\<lambda>(s, r). (s, r, tick_stats today c s)) (mc_scheduler c),
      sn_latency = latency_summary today c, sn_api = api_stats today c,
      sn_calls_last_min = calls_last_min now c, sn_errors_total = length (todays_errors today c),
      sn_errors_by_module = error_count today c,
      sn_errors_recent = take 10 (sort_desc er_at (todays_errors today c)),
      sn_clients = map (\<lambda>(k, i). (k, i, round_half_even (of_int (now - wi_connected_at i) / 1000)))
        (mc_ws_clients c),
      sn_active_signals = mc_active_signals c, sn_active_zones = map snd (mc_active_zones c),
      sn_counters = mc_counters c, sn_gauges = mc_gauges c, sn_summary = metrics_summary c\<rparr>"

text \<open>The clock is read for the day first and for the snapshot then.\<close>

definition build_snapshot :: "ms \<Rightarrow> ms \<Rightarrow> (collector, snapshot) sm" where
  "build_snapshot now0 now =
     bindS (liftR (session_day now0)) (\<lambda>today.
     thenS (prune_caches now) (readS (snapshot_of today now)))"

definition close_collector :: "collector \<Rightarrow> collector" where
  "close_collector c = flush_metrics c"

section \<open>The calls of the signal service\<close>

fun apply_metric :: "ms \<Rightarrow> metric_call \<Rightarrow> (collector, unit) sm" where
  "apply_metric now (M_Increment name by) = modS (increment name by)"
| "apply_metric now (M_Gauge name x) = modS (set_gauge name (Some x))"
| "apply_metric now (M_Event ev p) = modS (on_signal_event ev p now)"
| "apply_metric now (M_AnalyzeStart s t) = thenS (signal_analyze_start s t now) (returnS ())"
| "apply_metric now (M_RejectionFound s t) = modS (signal_rejection_found s t now)"
| "apply_metric now (M_SignalEmitted i s t p) = modS (signal_emitted i s t p now)"
| "apply_metric now (M_SetActive js) = modS (set_active_signals js)"

text \<open>
  Every call made to a collector in the program: those of the signal service, of the engine, of
  the market data client and of the flush timer. No code calls \<open>signal_broadcast_done\<close>, the
  client operations or \<open>counter\<close> and \<open>gauge\<close>.
\<close>

datatype collector_call =
    From_Service metric_call
  | From_Client api_call
  | Tick_Done string ms real
  | Tick_State string "ms option"
  | Tick_Failed string
  | Flush

definition MAIN :: string where "MAIN = ''signal_engine.main''"

fun apply_call :: "ms \<Rightarrow> collector_call \<Rightarrow> (collector, unit) sm" where
  "apply_call now (From_Service m) = apply_metric now m"
| "apply_call now (From_Client call) = on_api_call call now"
| "apply_call now (Tick_Done s t d) = record_tick s ''ltf'' t d now"
| "apply_call now (Tick_State s t) = modS (update_scheduler_state s ''ltf'' t None)"
| "apply_call now (Tick_Failed msg) =
     thenS (modS (increment ''scanner.tick_errors'' 1)) (record_error MAIN ''ERROR'' msg now)"
| "apply_call now Flush = modS flush_metrics"

text \<open>A sequence of calls, each with the clock reading it makes.\<close>

fun apply_calls :: "(ms \<times> collector_call) list \<Rightarrow> collector \<Rightarrow> collector" where
  "apply_calls [] c = c"
| "apply_calls ((now, m) # ms) c = apply_calls ms (snd (apply_call now m c))"

definition service_calls :: "(ms \<times> collector_call) list \<Rightarrow> metric_call list" where
  "service_calls calls = concat (map (\<lambda>(_, m). case m of From_Service x \<Rightarrow> [x] | _ \<Rightarrow> []) calls)"

end
