(* ===== verification/Metrics_Laws.thy ===== *)
theory Metrics_Laws
  imports Metrics Service_Laws
begin

text \<open>
  Laws of the metrics collector together with the calls the rest of the program makes to it:
  what a restart keeps, what the caches forget, and what the collector never gets to see.
\<close>

section \<open>What the service tells the collector\<close>

fun quiet_call :: "metric_call \<Rightarrow> bool" where
  "quiet_call (M_Event SIGNAL_PENDING p) \<longleftrightarrow> (\<exists>x z. p = pending_payload x z)"
| "quiet_call _ \<longleftrightarrow> True"

definition tells :: "service \<Rightarrow> service \<Rightarrow> bool" where
  "tells sv sv' \<longleftrightarrow> (\<exists>ms. sv_metrics sv' = sv_metrics sv @ ms \<and> list_all quiet_call ms)"

lemma tells_refl: "reflp tells"
  by (auto simp: reflp_def tells_def)

lemma tells_trans: "transp tells"
  by (fastforce simp: transp_def tells_def)

abbreviation telling :: "(service, 'a) sm \<Rightarrow> bool" where
  "telling m \<equiv> keeps tells m"

named_theorems tell_intro \<open>statements that make quiet calls only\<close>

lemma tell_pure [tell_intro]:
  "telling (returnS x)" "telling (raiseS e)" "telling (readS g)" "telling (liftR q)"
  by (rule keeps_pure [OF tells_refl])+

lemma tell_bind [tell_intro]: "telling m \<Longrightarrow> (\<And>x. telling (f x)) \<Longrightarrow> telling (bindS m f)"
  by (rule keeps_bind [OF tells_trans])

lemma tell_when [tell_intro]: "telling m \<Longrightarrow> telling (whenS b m)"
  by (rule keeps_when [OF tells_refl])

lemma tell_for [tell_intro]: "(\<And>x. telling (f x)) \<Longrightarrow> telling (forS xs f)"
  by (rule keeps_for [OF tells_refl tells_trans])

lemma tell_if [tell_intro]: "telling m \<Longrightarrow> telling n \<Longrightarrow> telling (if b then m else n)"
  by simp

lemma tell_prod [tell_intro]: "(\<And>a b. telling (f a b)) \<Longrightarrow> telling (case y of (a, b) \<Rightarrow> f a b)"
  by (cases y) simp

lemma tell_option [tell_intro]:
  "telling m \<Longrightarrow> (\<And>x. telling (f x)) \<Longrightarrow> telling (case y of None \<Rightarrow> m | Some x \<Rightarrow> f x)"
  by (cases y) simp_all

lemma tell_sum [tell_intro]:
  "(\<And>e. telling (g e)) \<Longrightarrow> (\<And>x. telling (f x)) \<Longrightarrow> telling (case y of Inl e \<Rightarrow> g e | Inr x \<Rightarrow> f x)"
  by (cases y) simp_all

lemma tell_mod: "(\<And>sv. sv_metrics (f sv) = sv_metrics sv) \<Longrightarrow> telling (modS f)"
  by (simp add: keeps_def modS_def tells_def)

lemma tell_try [tell_intro]: "telling m \<Longrightarrow> telling (tryS m)"
  by (rule keeps_try)

lemma tell_co [tell_intro]: "telling (call_co f)"
  by (simp add: keeps_def call_co_def tells_def split: prod.split)

lemma tell_clock [tell_intro]:
  "telling (now_ms v)" "telling (svc_stats v)" "telling (status_line v)" "telling ticks"
  unfolding status_line_def ticks_def
  by (auto simp: keeps_def now_ms_def svc_stats_def tells_def bindS_def returnS_def readS_def split: prod.split)

lemma tell_metric: "quiet_call m \<Longrightarrow> telling (metric v m)"
  by (auto simp: keeps_def metric_def whenS_def modS_def returnS_def tells_def)

lemma tell_numbers [tell_intro]:
  "telling (metric v (M_Increment n k))" "telling (metric v (M_Gauge n x))"
  "telling (metric v (M_AnalyzeStart s t))" "telling (metric v (M_RejectionFound s t))"
  "telling (metric v (M_SignalEmitted i s t p))" "telling (metric v (M_SetActive js))"
  by (simp_all add: tell_metric)

lemma tell_emit [tell_intro]: "ev \<noteq> SIGNAL_PENDING \<Longrightarrow> telling (emit v ev p)"
  unfolding emit_def by (intro tell_bind tell_metric tell_mod) (cases ev, auto)

lemma tell_pending [tell_intro]: "telling (emit v SIGNAL_PENDING (pending_payload x z))"
  unfolding emit_def by (intro tell_bind tell_metric tell_mod) auto

lemma tell_small [tell_intro]:
  "telling (store_upsert s now)" "telling (watch_put s)" "telling (watch_pop i)"
  "telling (publish_active v sel)" "telling (update_payload v s ev prev px)" "telling (live_prices v x)"
  unfolding store_upsert_def watch_put_def watch_pop_def publish_active_def update_payload_def
    live_prices_def
  by (intro tell_intro tell_mod; simp split: sum.split)+

lemma tell_close [tell_intro]:
  assumes "ev \<noteq> SIGNAL_PENDING"
  shows "telling (close_signal v s ev prev)"
  using assms unfolding close_signal_def by (auto split: option.split intro!: tell_intro tell_mod)

lemma close_event_not_pending: "close_event st = Inr ev \<Longrightarrow> ev \<noteq> SIGNAL_PENDING"
  by (cases st) (auto simp: close_event_def)

lemma tell_closing: "telling (bindS (liftR (close_event st)) (\<lambda>ev. thenS (close_signal v s ev p) (returnS s)))"
  by (rule keeps_bind_lift [OF tells_refl]) (intro tell_intro close_event_not_pending)

lemma tell_outcome [tell_intro]: "telling (apply_outcome v s c now step s')"
  unfolding apply_outcome_def Let_def
  by (rule tell_bind tell_small tell_when tell_if tell_closing tell_emit | simp add: tell_pure)+

lemma tell_evaluate [tell_intro]: "telling (evaluate_signal v s c now)"
  unfolding evaluate_signal_def by (intro tell_intro)

lemma tell_candles [tell_intro]: "telling (evaluate_candles v s cs)"
  by (induction cs arbitrary: s) (auto intro!: tell_intro)

lemma tell_fetch [tell_intro]: "telling (fetch_and_evaluate v symbol now ltf sigs)"
  unfolding fetch_and_evaluate_def Let_def by (intro tell_intro)

lemma tell_update [tell_intro]: "telling (update_watchlist v symbol)"
  unfolding update_watchlist_def by (intro tell_intro)

lemma tell_announce [tell_intro]: "telling (announce_pending v x z)"
  unfolding announce_pending_def by (intro tell_intro tell_mod) simp

lemma tell_emit_signal [tell_intro]: "telling (emit_signal v x z rej sig0)"
  unfolding emit_signal_def Let_def by (intro tell_intro tell_mod) simp_all

lemma tell_build [tell_intro]: "telling (build_and_emit v x z rej)"
  unfolding build_and_emit_def Let_def by (intro tell_intro)

lemma tell_rejection [tell_intro]: "telling (try_rejection v x z rej)"
  unfolding try_rejection_def Let_def by (intro tell_intro)

lemma tell_zone [tell_intro]: "telling (process_zone v x z)"
  unfolding process_zone_def Let_def by (intro tell_intro)

lemma tell_walk [tell_intro]: "telling (zone_walk v x zs)"
  by (induction zs) (auto intro!: tell_intro)

lemma tell_scan [tell_intro]: "telling (scan_zones v x htf_ms htf vis)"
  unfolding scan_zones_def Let_def by (intro tell_intro tell_mod) simp_all

lemma tell_pair [tell_intro]: "telling (analyze_pair v symbol fired_at pr)"
  unfolding analyze_pair_def Let_def by (intro tell_intro tell_mod) simp_all

lemma tell_pairs [tell_intro]: "telling (analyze_pairs v symbol fired_at prs)"
  by (induction prs) (auto intro!: tell_intro)

lemma tell_analyze [tell_intro]: "telling (analyze v symbol fired_at)"
  unfolding analyze_def analyze_at_def report_analysis_def Let_def
  by (intro tell_intro tell_mod) simp_all

lemma tell_restore [tell_intro]: "telling (restore_row v now raw)"
  unfolding restore_row_def by (intro tell_intro)

lemma tell_rows [tell_intro]: "telling (restore_rows v now rows)"
  by (induction rows) (auto intro!: tell_intro)

lemma tell_initialize [tell_intro]: "telling (initialize v)"
  unfolding initialize_def by (intro tell_intro)

lemma tell_query [tell_intro]: "telling (query_signal_status v d request_id)"
  unfolding query_signal_status_def Let_def by (intro tell_intro)

lemma tell_armed: "telling (get_armed_zones v)"
  unfolding get_armed_zones_def by (intro tell_intro)

lemma svc_step_tells: "svc_step v sv sv' \<Longrightarrow> tells sv sv'"
  by (erule svc_stepE)
    (use tell_initialize tell_analyze tell_update tell_query tell_armed in \<open>auto simp: keeps_def\<close>)

lemma svc_run_tells: "(svc_step v)\<^sup>*\<^sup>* sv sv' \<Longrightarrow> tells sv sv'"
  by (induction rule: rtranclp_induct)
    (auto intro: tells_refl [THEN reflpD] dest: svc_step_tells elim: tells_trans [THEN transpE])

lemma service_tells_quiet:
  "(svc_step v)\<^sup>*\<^sup>* (new_service co) sv \<Longrightarrow> list_all quiet_call (sv_metrics sv)"
  by (drule svc_run_tells) (auto simp: tells_def new_service_def)

section \<open>What the collector never sees\<close>

lemma pending_payload_has_no_zone:
  "as_obj (pending_payload x z) = Inr p \<Longrightarrow> \<exists>e. pending_zone p = Inl e"
  by (auto simp: pending_payload_def pending_zone_def zone_fields_def need_def)

text \<open>Zones of none stay none; latency rows are written by \<open>signal_broadcast_done\<close> alone.\<close>

definition blind :: "collector \<Rightarrow> collector \<Rightarrow> bool" where
  "blind c c' \<longleftrightarrow>
     (mc_active_zones c = [] \<longrightarrow> mc_active_zones c' = []) \<and> db_latency (mc_db c') = db_latency (mc_db c)"

lemma blind_pre: "reflp blind" "transp blind"
  by (auto simp: reflp_def transp_def blind_def)

named_theorems blind_intro \<open>operations that see no zone and write no latency\<close>

lemma blind_simps [simp]:
  "mc_active_zones (put_gauge n x c) = mc_active_zones c" "mc_db (put_gauge n x c) = mc_db c"
  "mc_active_zones (bump n k c) = mc_active_zones c" "mc_db (bump n k c) = mc_db c"
  "mc_active_zones (increment n k c) = mc_active_zones c" "mc_db (increment n k c) = mc_db c"
  "mc_active_zones (count_zones c) = mc_active_zones c" "mc_db (count_zones c) = mc_db c"
  by (simp_all add: put_gauge_def bump_def increment_def count_zones_def)

lemma forget_frame:
  "mc_active_zones (fold forget_latency xs c) = mc_active_zones c \<and> mc_db (fold forget_latency xs c) = mc_db c"
  by (induction xs arbitrary: c) (auto simp: forget_latency_def)

lemma blind_mod: "(\<And>c. blind c (f c)) \<Longrightarrow> keeps blind (modS f)"
  by (rule keeps_mod)

lemmas blind_rules = keeps_pure [OF blind_pre(1)] keeps_bind [OF blind_pre(2)]
  keeps_when [OF blind_pre(1)] blind_mod

lemma blind_prune_zones: "keeps blind (prune_zones cutoff)"
  unfolding prune_zones_def
  by (rule keeps_bind_read) (auto simp: bindS_def liftR_def modS_def blind_def split: sum.split)

lemma blind_prune [blind_intro]: "keeps blind (prune_caches now)"
  unfolding prune_caches_def
  by (intro blind_rules blind_prune_zones) (simp_all add: blind_def prune_latency_def forget_frame)

lemma blind_remove: "keeps blind (remove_active_zone a b c d e)"
  unfolding remove_active_zone_def Let_def
  by (auto intro!: blind_rules simp: blind_def)

lemma blind_end_zone: "keeps blind (end_zone p)"
  unfolding end_zone_def by (intro blind_rules blind_remove) (auto intro!: blind_rules)

lemma blind_pending:
  assumes "\<exists>x z. p = pending_payload x z"
  shows "keeps blind (bindS (liftR (as_obj p)) (\<lambda>d. bindS (liftR (pending_zone d)) (\<lambda>z. upsert_active_zone z now)))"
  using assms pending_payload_has_no_zone
  by (intro keeps_bind_lift [OF blind_pre(1)]) fastforce+

lemma blind_event:
  assumes "quiet_call (M_Event ev p)"
  shows "keeps blind (on_event ev p now)"
proof (cases "ev = SIGNAL_PENDING")
  case True
  with assms have "\<exists>x z. p = pending_payload x z" by simp
  note rest = blind_pending [OF this]
  show ?thesis
    unfolding on_event_def True simp_thms if_True
    by (intro keeps_bind [OF blind_pre(2)] blind_mod rest) (simp_all add: blind_def)
next
  case False
  then show ?thesis
    unfolding on_event_def
    by (auto split: option.split intro!: blind_rules blind_end_zone) (simp_all add: blind_def)
qed

lemma blind_metric: "quiet_call m \<Longrightarrow> keeps blind (apply_metric now m)"
proof (cases m)
  case (M_Event ev p)
  assume "quiet_call m"
  then have "keeps blind (on_event ev p now)" using M_Event blind_event by blast
  then show ?thesis
    unfolding M_Event apply_metric.simps
    by (intro blind_mod) (simp add: keeps_def on_signal_event_def)
next
  case (M_AnalyzeStart s t)
  then show ?thesis
    by (auto simp: signal_analyze_start_def intro!: blind_rules blind_prune) (simp add: blind_def)
qed (auto intro!: blind_mod simp: blind_def set_gauge_def signal_rejection_found_def signal_emitted_def
  set_active_signals_def Let_def split: option.split)

lemma blind_call:
  assumes "\<And>m. call = From_Service m \<Longrightarrow> quiet_call m"
  shows "keeps blind (apply_call now call)"
proof (cases call)
  case (From_Service m)
  then show ?thesis using assms blind_metric by simp
qed (auto intro!: blind_rules simp: on_api_call_def record_tick_def record_error_def Let_def,
     auto simp: blind_def update_scheduler_state_def flush_metrics_def metrics_snapshot_def Let_def)

lemma blind_calls:
  "list_all quiet_call (service_calls calls) \<Longrightarrow> blind c (apply_calls calls c)"
proof (induction calls c rule: apply_calls.induct)
  case (1 c)
  then show ?case using blind_pre(1) by (simp add: reflp_def)
next
  case (2 now m ms c)
  have "keeps blind (apply_call now m)"
    by (rule blind_call) (use 2(2) in \<open>auto simp: service_calls_def\<close>)
  then have "blind c (snd (apply_call now m c))" by (simp add: keeps_def)
  moreover have "blind (snd (apply_call now m c)) (apply_calls ms (snd (apply_call now m c)))"
    by (rule 2(1)) (use 2(2) in \<open>auto simp: service_calls_def\<close>)
  ultimately show ?case using blind_pre(2) by (auto elim: transpE)
qed

definition no_latencies :: latency_stats where
  "no_latencies =
     \<lparr>ls_avg_lag = 0, ls_max_lag = 0, ls_avg_analyze = 0, ls_max_analyze = 0, ls_avg_total = 0,
      ls_max_total = 0, ls_count = 0\<rparr>"

lemma latency_summary_none: "db_latency (mc_db c) = [] \<Longrightarrow> latency_summary day c = no_latencies"
  by (simp add: latency_summary_def no_latencies_def sql_max_def sql_avg_def List.map_filter_def)

lemma snapshot_parts:
  "sn_active_zones (snapshot_of day now c) = map snd (mc_active_zones c)"
  "sn_latency (snapshot_of day now c) = latency_summary day c"
  by (simp_all add: snapshot_of_def)

lemma blind_snapshot: "keeps blind (build_snapshot now0 now)"
  unfolding build_snapshot_def by (intro blind_rules blind_prune)

text \<open>
  The snapshots of a collector at work: in turns it takes some calls and is asked for a snapshot,
  with the two clock readings of the snapshot.
\<close>

fun snapshots :: "((ms \<times> collector_call) list \<times> ms \<times> ms) list \<Rightarrow> collector \<Rightarrow> snapshot list" where
  "snapshots [] c = []"
| "snapshots ((calls, now0, now) # turns) c =
     (case build_snapshot now0 now (apply_calls calls c) of
        (Inl e, c') \<Rightarrow> snapshots turns c'
      | (Inr sn, c') \<Rightarrow> sn # snapshots turns c')"

lemma snapshot_of_blind:
  assumes "build_snapshot now0 now c = (Inr sn, c')" "mc_active_zones c = []" "db_latency (mc_db c) = []"
  shows "sn_active_zones sn = [] \<and> sn_latency sn = no_latencies"
proof -
  have "blind c c'" using keepsD [OF blind_snapshot assms(1)] .
  then have "mc_active_zones c' = []" "db_latency (mc_db c') = []"
    using assms(2,3) by (simp_all add: blind_def)
  moreover have "sn = snapshot_of (sn_session_day sn) now c'"
    using assms(1)
    by (auto simp: build_snapshot_def bindS_def liftR_def readS_def snapshot_of_def
        split: prod.splits sum.splits)
  ultimately show ?thesis using latency_summary_none snapshot_parts by (metis list.map(1))
qed

lemma snapshots_blind:
  assumes "list_all quiet_call (service_calls (concat (map fst turns)))" "sn \<in> set (snapshots turns c)"
    and "mc_active_zones c = []" "db_latency (mc_db c) = []"
  shows "sn_active_zones sn = [] \<and> sn_latency sn = no_latencies"
  using assms
proof (induction turns arbitrary: c)
  case (Cons b turns)
  obtain calls now0 now where b: "b = (calls, now0, now)" by (cases b) auto
  have quiet: "list_all quiet_call (service_calls calls)" "list_all quiet_call (service_calls (concat (map fst turns)))"
    using Cons.prems(1) by (simp_all add: b service_calls_def)
  define c1 where "c1 = apply_calls calls c"
  obtain r c2 where r: "build_snapshot now0 now c1 = (r, c2)" by (cases "build_snapshot now0 now c1")
  have "blind c c1" unfolding c1_def by (rule blind_calls [OF quiet(1)])
  then have c1: "mc_active_zones c1 = []" "db_latency (mc_db c1) = []"
    using Cons.prems(3,4) by (simp_all add: blind_def)
  have "blind c1 c2" using keepsD [OF blind_snapshot r] .
  then have c2: "mc_active_zones c2 = []" "db_latency (mc_db c2) = []"
    using c1 by (simp_all add: blind_def)
  show ?case
    using Cons.prems(2) Cons.IH [OF quiet(2) _ c2] snapshot_of_blind [OF _ c1, of now0 now] r
    by (cases r) (auto simp: b c1_def [symmetric])
qed simp

lemma snapshot_returns:
  assumes "mc_active_zones c = []" "session_day now0 = Inr day"
  shows "\<exists>sn c'. build_snapshot now0 now c = (Inr sn, c')"
  using assms forget_frame
  by (simp add: build_snapshot_def prune_caches_def prune_zones_def prune_latency_def bindS_def liftR_def modS_def
      readS_def whenS_def returnS_def)

text \<open>
  C18: what the dashboard never shows. However the engine runs, from a new collector whose latency
  table is empty on, over the calls that the signal service makes in any run of it, mixed
  with those of the engine, the market data client and the flush timer, and however often it is
  asked: every snapshot shows an empty list of active zones, because the pending payload has no
  ltfTimestamp, and the latency section of an empty table, all counts, averages and maxima 0,
  because nothing ever reports a broadcast as done. (The gauges still show the lag of the last
  emission.)
\<close>

theorem dashboard_sees_no_zone_and_no_latency:
  assumes "(svc_step v)\<^sup>*\<^sup>* (new_service co) sv"
    and "sv_metrics sv = service_calls (concat (map fst turns)) @ later" "db_latency db = []"
    and "sn \<in> set (snapshots turns (new_collector t db))"
  shows "sn_active_zones sn = [] \<and> sn_latency sn = no_latencies"
proof (rule snapshots_blind [OF _ assms(4)])
  show "list_all quiet_call (service_calls (concat (map fst turns)))"
    using service_tells_quiet [OF assms(1)] assms(2) by simp
  show "mc_active_zones (new_collector t db) = []" "db_latency (mc_db (new_collector t db)) = []"
    using assms(3) by (simp_all add: new_collector_def restore_metrics_def)
qed

section \<open>Counters and gauges over a restart\<close>

lemma fold_update_map_of:
  "map_of (fold (\<lambda>(k, x). AList.update k x) xs ys) = map_of ys ++ map_of (rev xs)"
  by (induction xs arbitrary: ys) (auto simp: update_conv' map_add_def fun_eq_iff split: option.splits)

lemma keys_update: "fst ` set (AList.update k x xs) = insert k (fst ` set xs)"
  by (induction xs) auto

lemma fold_update_keys:
  "fst ` set (fold (\<lambda>(k, x). AList.update k x) xs ys) = fst ` set xs \<union> fst ` set ys"
  by (induction xs arbitrary: ys) (simp_all add: keys_update case_prod_beta)

lemma fold_update_distinct:
  "distinct (map fst ys) \<Longrightarrow> distinct (map fst (fold (\<lambda>(k, x). AList.update k x) xs ys))"
  by (induction xs arbitrary: ys) (auto simp: distinct_update)

text \<open>A table after a flush gives back the dictionary it was flushed from.\<close>

lemma restored_table:
  assumes "distinct (map fst xs)" "distinct (map fst tb)" "fst ` set tb \<subseteq> fst ` set xs"
  defines "tb' \<equiv> fold (\<lambda>(k, x). AList.update k x) xs tb"
  shows "map_of (fold (\<lambda>(k, x). AList.update k x) tb' []) = map_of xs"
proof -
  have rev: "map_of (rev zs) = map_of zs" if "distinct (map fst zs)" for zs :: "('a \<times> 'b) list"
    using that by (subst map_of_inject_set) (simp_all flip: rev_map)
  have "dom (map_of tb) \<subseteq> dom (map_of xs)" using assms(3) by (simp add: dom_map_of_conv_image_fst)
  then have "map_of tb ++ map_of xs = map_of xs"
    by (auto simp: map_add_def fun_eq_iff split: option.splits)
  then have "map_of tb' = map_of xs" using rev [OF assms(1)] by (simp add: tb'_def fold_update_map_of)
  moreover have "distinct (map fst tb')" unfolding tb'_def by (rule fold_update_distinct [OF assms(2)])
  ultimately show ?thesis using rev by (simp add: fold_update_map_of)
qed

text \<open>The dictionaries have no key twice and cover what was flushed before.\<close>

definition tidy :: "collector \<Rightarrow> bool" where
  "tidy c \<longleftrightarrow>
     distinct (map fst (mc_counters c)) \<and> distinct (map fst (db_counters (mc_db c))) \<and>
     fst ` set (db_counters (mc_db c)) \<subseteq> fst ` set (mc_counters c) \<and>
     distinct (map fst (mc_gauges c)) \<and> distinct (map fst (db_gauges (mc_db c))) \<and>
     fst ` set (db_gauges (mc_db c)) \<subseteq> fst ` set (mc_gauges c)"

definition tidies :: "collector \<Rightarrow> collector \<Rightarrow> bool" where
  "tidies c c' \<longleftrightarrow> (tidy c \<longrightarrow> tidy c')"

lemma tidies_pre: "reflp tidies" "transp tidies"
  by (auto simp: reflp_def transp_def tidies_def)

lemmas tidies_rules = keeps_pure [OF tidies_pre(1)] keeps_bind [OF tidies_pre(2)]
  keeps_when [OF tidies_pre(1)] keeps_mod

lemma tidy_ops [simp]:
  "tidy c \<Longrightarrow> tidy (put_gauge n x c)" "tidy c \<Longrightarrow> tidy (bump n k c)" "tidy c \<Longrightarrow> tidy (increment n k c)"
  by (auto simp: tidy_def put_gauge_def bump_def increment_def distinct_update keys_update)

lemma tidy_fields [simp]:
  "tidy (mc_scheduler_update f1 c) = tidy c" "tidy (mc_ws_clients_update f2 c) = tidy c"
  "tidy (mc_active_signals_update f3 c) = tidy c" "tidy (mc_active_zones_update f4 c) = tidy c"
  "tidy (mc_latency_update f5 c) = tidy c" "tidy (mc_by_signal_id_update f6 c) = tidy c"
  "tidy (mc_tick_durations_update f7 c) = tidy c" "tidy (mc_last_prune_update f8 c) = tidy c"
  "tidy (c\<lparr>mc_db := (mc_db c)\<lparr>db_ticks := x1\<rparr>\<rparr>) = tidy c"
  "tidy (c\<lparr>mc_db := (mc_db c)\<lparr>db_api := x2\<rparr>\<rparr>) = tidy c"
  "tidy (c\<lparr>mc_db := (mc_db c)\<lparr>db_errors := x3\<rparr>\<rparr>) = tidy c"
  by (simp_all add: tidy_def)

lemma tidy_forget: "tidy c \<Longrightarrow> tidy (fold forget_latency xs c)"
  by (induction xs arbitrary: c) (auto simp: forget_latency_def)

lemma tidy_count [simp]: "tidy c \<Longrightarrow> tidy (count_zones c)"
  by (simp add: count_zones_def)

lemma tidy_flush: "tidy c \<Longrightarrow> tidy (flush_metrics c)"
  by (auto simp: tidy_def flush_metrics_def metrics_snapshot_def fold_update_keys fold_update_distinct)

lemma tidies_prune_zones: "keeps tidies (prune_zones cutoff)"
  unfolding prune_zones_def
  by (rule keeps_bind_read)
    (auto simp: bindS_def liftR_def modS_def tidies_def split: sum.split)

lemma tidies_prune: "keeps tidies (prune_caches now)"
  unfolding prune_caches_def
  by (intro tidies_rules tidies_prune_zones)
    (auto simp: tidies_def prune_latency_def intro!: tidy_forget)

lemma tidies_remove: "keeps tidies (remove_active_zone a b c d e)"
  unfolding remove_active_zone_def Let_def
  by (auto intro!: tidies_rules simp: tidies_def)

lemma tidies_event: "keeps tidies (on_event ev p now)"
  unfolding on_event_def end_zone_def upsert_active_zone_def Let_def
  by (auto intro!: tidies_rules tidies_prune tidies_remove split: option.split)
    (auto simp: tidies_def)

lemma tidies_call: "keeps tidies (apply_call now call)"
proof (cases call)
  case (From_Service m)
  have "keeps tidies (apply_metric now m)"
  proof (cases m)
    case (M_Event ev p)
    then show ?thesis
      using tidies_event [of ev p now] by (auto simp: keeps_def on_signal_event_def modS_def)
  next
    case (M_AnalyzeStart s t)
    then show ?thesis
      by (auto simp: signal_analyze_start_def intro!: tidies_rules tidies_prune)
        (auto simp: tidies_def)
  qed (auto intro!: keeps_mod simp: tidies_def set_gauge_def signal_rejection_found_def signal_emitted_def
        set_active_signals_def Let_def split: option.split)
  then show ?thesis using From_Service by simp
qed (auto intro!: tidies_rules simp: on_api_call_def record_tick_def record_error_def Let_def,
     auto simp: tidies_def update_scheduler_state_def Let_def tidy_flush)

lemma tidy_calls: "tidy c \<Longrightarrow> tidy (apply_calls calls c)"
proof (induction calls c rule: apply_calls.induct)
  case (2 now m ms c)
  then show ?case using tidies_call [of now m] by (auto simp: keeps_def tidies_def)
qed simp

lemma tidy_new:
  assumes "distinct (map fst (db_counters db))" "distinct (map fst (db_gauges db))"
  shows "tidy (new_collector now db)"
  using assms
  by (simp add: tidy_def new_collector_def restore_metrics_def fold_update_keys fold_update_distinct)

text \<open>
  C19: counters and gauges outlive a restart. Whatever was called on a collector since it was
  created from a database whose names are unique, a collector created later from the database it
  flushed reads every counter and every gauge as it was, and has every row that was written.
\<close>

theorem restart_keeps_metrics:
  fixes calls :: "(ms \<times> collector_call) list" and db :: metrics_db and now later :: ms
  assumes "distinct (map fst (db_counters db))" "distinct (map fst (db_gauges db))"
  defines "c \<equiv> flush_metrics (apply_calls calls (new_collector now db))"
  shows "fst (read_counter name (new_collector later (mc_db c))) = fst (read_counter name c) \<and>
    read_gauge name (new_collector later (mc_db c)) = read_gauge name c \<and>
    mc_db (new_collector later (mc_db c)) = mc_db c"
proof -
  let ?c = "apply_calls calls (new_collector now db)"
  have t: "tidy ?c" using assms(1,2) by (intro tidy_calls tidy_new)
  have "map_of (mc_counters (new_collector later (mc_db c))) = map_of (mc_counters c)"
    using t unfolding tidy_def
    by (simp add: c_def flush_metrics_def metrics_snapshot_def new_collector_def restore_metrics_def
        restored_table)
  moreover have "map_of (mc_gauges (new_collector later (mc_db c))) = map_of (mc_gauges c)"
    using t unfolding tidy_def
    by (simp add: c_def flush_metrics_def metrics_snapshot_def new_collector_def restore_metrics_def
        restored_table)
  ultimately show ?thesis
    by (simp add: read_counter_def read_gauge_def dict_get_def new_collector_def restore_metrics_def)
qed

definition fresh_db :: metrics_db where
  "fresh_db = \<lparr>db_ticks = [], db_latency = [], db_api = [], db_errors = [], db_ws = [],
     db_counters = [(''scanner.ticks'', 41)], db_gauges = []\<rparr>"

theorem restart_keeps_metrics_witness:
  "fst (read_counter ''scanner.ticks'' (new_collector 9
     (mc_db (flush_metrics (apply_calls [(0, Tick_Done ''EURUSD'' 300000 12)] (new_collector 0 fresh_db)))))) = 42"
proof -
  have "fst (read_counter ''scanner.ticks''
      (flush_metrics (apply_calls [(0, Tick_Done ''EURUSD'' 300000 12)] (new_collector 0 fresh_db)))) = 42"
    by (simp add: read_counter_def dict_get_def flush_metrics_def metrics_snapshot_def record_tick_def
        bindS_def liftR_def modS_def session_day_def from_timestamp_def num_or_def put_gauge_def bump_def
        new_collector_def restore_metrics_def fresh_db_def Let_def update_conv')
  then show ?thesis
    using restart_keeps_metrics [of fresh_db "''scanner.ticks''" 9 "[(0, Tick_Done ''EURUSD'' 300000 12)]" 0]
    by (simp add: fresh_db_def)
qed

section \<open>Signals of one tick\<close>

definition leaked :: "string \<Rightarrow> string \<Rightarrow> collector \<Rightarrow> bool" where
  "leaked i key c \<longleftrightarrow>
     map_of (mc_by_signal_id c) i = Some key \<and> (\<forall>r \<in> snd ` set (mc_latency c). lr_signal_id r \<noteq> Some i)"

definition leaks :: "string \<Rightarrow> string \<Rightarrow> collector \<Rightarrow> collector \<Rightarrow> bool" where
  "leaks i key c c' \<longleftrightarrow> (leaked i key c \<longrightarrow> leaked i key c')"

lemma leaks_pre: "reflp (leaks i key)" "transp (leaks i key)"
  by (auto simp: reflp_def transp_def leaks_def)

lemmas leaks_rules = keeps_pure [OF leaks_pre(1)] keeps_bind [OF leaks_pre(2)]
  keeps_when [OF leaks_pre(1)] keeps_mod

lemma leaked_fields [simp]:
  "leaked i key (mc_scheduler_update f1 c) = leaked i key c"
  "leaked i key (mc_active_signals_update f3 c) = leaked i key c"
  "leaked i key (mc_active_zones_update f4 c) = leaked i key c"
  "leaked i key (mc_tick_durations_update f7 c) = leaked i key c"
  "leaked i key (mc_last_prune_update f8 c) = leaked i key c"
  "leaked i key (mc_db_update f9 c) = leaked i key c"
  "leaked i key (put_gauge n x c) = leaked i key c" "leaked i key (bump n k c) = leaked i key c"
  "leaked i key (increment n k c) = leaked i key c" "leaked i key (count_zones c) = leaked i key c"
  by (simp_all add: leaked_def put_gauge_def bump_def increment_def count_zones_def)

lemma set_delete_subset: "set (AList.delete k xs) \<subseteq> set xs"
  by (induction xs) auto

lemma leaked_update:
  "leaked i key c \<Longrightarrow> lr_signal_id r \<noteq> Some i \<Longrightarrow>
   leaked i key (c\<lparr>mc_latency := AList.update k r (mc_latency c)\<rparr>)"
  using set_update_subset [of k r "mc_latency c"] by (fastforce simp: leaked_def)

lemma leaked_forget:
  "leaked i key c \<Longrightarrow> \<forall>kr \<in> set xs. lr_signal_id (snd kr) \<noteq> Some i \<Longrightarrow>
   leaked i key (fold forget_latency xs c)"
proof (induction xs arbitrary: c)
  case (Cons kr xs)
  have "leaked i key (forget_latency kr c)"
    using Cons.prems
    by (auto simp: leaked_def forget_latency_def delete_conv' split: option.split
        dest!: subsetD [OF set_delete_subset])
  then show ?case using Cons by simp
qed simp

lemma leaked_prune_latency: "leaked i key c \<Longrightarrow> leaked i key (prune_latency cutoff c)"
  unfolding prune_latency_def by (rule leaked_forget) (auto simp: leaked_def)

lemma leaks_prune: "keeps (leaks i key) (prune_caches now)"
proof -
  have "keeps (leaks i key) (prune_zones cutoff)" for cutoff
    unfolding prune_zones_def
    by (rule keeps_bind_read) (auto simp: bindS_def liftR_def modS_def leaks_def split: sum.split)
  then show ?thesis
    unfolding prune_caches_def
    by (intro leaks_rules) (auto simp: leaks_def leaked_prune_latency)
qed

lemma leaks_event: "keeps (leaks i key) (on_event ev p now)"
proof -
  have "keeps (leaks i key) (remove_active_zone a b c d e)" for a b c d e
    unfolding remove_active_zone_def Let_def by (auto intro!: leaks_rules simp: leaks_def)
  then show ?thesis
    unfolding on_event_def end_zone_def upsert_active_zone_def Let_def
    by (auto intro!: leaks_rules leaks_prune split: option.split) (auto simp: leaks_def)
qed

lemma leaks_call:
  assumes "\<And>s t p. call \<noteq> From_Service (M_SignalEmitted i s t p)"
  shows "keeps (leaks i key) (apply_call now call)"
proof (cases call)
  case (From_Service m)
  have "keeps (leaks i key) (apply_metric now m)"
  proof (cases m)
    case (M_Event ev p)
    then show ?thesis
      using leaks_event [of i key ev p now] by (auto simp: keeps_def on_signal_event_def modS_def)
  next
    case (M_AnalyzeStart s t)
    then show ?thesis
      by (auto simp: signal_analyze_start_def intro!: leaks_rules leaks_prune)
        (auto simp: leaks_def no_latency_def intro!: leaked_update)
  next
    case (M_RejectionFound s t)
    then show ?thesis
      by (auto intro!: keeps_mod leaked_update simp: leaks_def signal_rejection_found_def split: option.split)
        (force simp: leaked_def dest!: map_of_SomeD)
  next
    case (M_SignalEmitted j s t p)
    then have "j \<noteq> i" using assms From_Service by blast
    moreover have "leaked i key (c\<lparr>mc_latency := l, mc_by_signal_id := AList.update j k (mc_by_signal_id c)\<rparr>) =
        leaked i key (c\<lparr>mc_latency := l\<rparr>)" for c l k
      using \<open>j \<noteq> i\<close> by (simp add: leaked_def update_conv')
    ultimately show ?thesis
      using M_SignalEmitted
      by (auto intro!: keeps_mod leaked_update simp: leaks_def signal_emitted_def Let_def)
  qed (auto intro!: keeps_mod simp: leaks_def set_gauge_def set_active_signals_def)
  then show ?thesis using From_Service by simp
qed (auto intro!: leaks_rules simp: on_api_call_def record_tick_def record_error_def Let_def,
     auto simp: leaks_def update_scheduler_state_def Let_def flush_metrics_def metrics_snapshot_def)

lemma leaked_calls:
  "leaked i key c \<Longrightarrow> \<forall>s t p. M_SignalEmitted i s t p \<notin> set (service_calls calls) \<Longrightarrow>
   leaked i key (apply_calls calls c)"
proof (induction calls c rule: apply_calls.induct)
  case (2 now m ms c)
  have "keeps (leaks i key) (apply_call now m)"
    by (rule leaks_call) (use 2(3) in \<open>auto simp: service_calls_def\<close>)
  then have "leaked i key (snd (apply_call now m c))" using 2(2) by (simp add: keeps_def leaks_def)
  then show ?case using 2(1) 2(3) by (auto simp: service_calls_def)
qed simp

text \<open>
  a cache that only grows. When one tick of a symbol emits two signals, the record of the
  tick keeps the id of the second, and the id of the first stays in the collector's memory for
  good: no later call, however long the engine runs and however often the caches are pruned,
  takes it out.
\<close>

theorem second_signal_of_a_tick_leaks:
  assumes "i1 \<noteq> i2"
    and "distinct (map fst (mc_latency c))"
    and "\<forall>r \<in> snd ` set (mc_latency c). lr_signal_id r \<noteq> Some i1"
    and "\<forall>s t p. M_SignalEmitted i1 s t p \<notin> set (service_calls calls)"
  shows "map_of (mc_by_signal_id (apply_calls calls
      (signal_emitted i2 symbol fired_at p2 n2 (signal_emitted i1 symbol fired_at p1 n1 c)))) i1 =
    Some (latency_key symbol fired_at)"
proof -
  define key where "key = latency_key symbol fired_at"
  have replaced: "snd ` set (AList.update key r2 (AList.update key r1 xs)) \<subseteq> insert r2 (snd ` set xs)"
    if "distinct (map fst xs)" for r1 r2 and xs :: "latency_rec dict"
    using that by (induction xs) (auto simp: update_nonempty)
  have "leaked i1 key (signal_emitted i2 symbol fired_at p2 n2 (signal_emitted i1 symbol fired_at p1 n1 c))"
    using assms(1,3) replaced [OF assms(2)]
    by (fastforce simp: leaked_def signal_emitted_def Let_def put_gauge_def bump_def update_conv'
        key_def [symmetric])
  from leaked_calls [OF this assms(4)] show ?thesis by (simp add: leaked_def key_def)
qed

theorem second_signal_of_a_tick_leaks_witness:
  "map_of (mc_by_signal_id (apply_calls [(7, Tick_Done ''EURUSD'' 300000 12), (100000000, Flush)]
      (signal_emitted ''b'' ''EURUSD'' 300000 ''4h/5min'' 2
        (signal_emitted ''a'' ''EURUSD'' 300000 ''1h/5min'' 1 (new_collector 0 fresh_db))))) ''a'' =
    Some (latency_key ''EURUSD'' 300000)"
proof -
  have none: "mc_latency (new_collector 0 fresh_db) = []"
    by (simp add: new_collector_def restore_metrics_def)
  show ?thesis
    by (rule second_signal_of_a_tick_leaks) (simp_all add: none service_calls_def)
qed

end
