(* ===== verification/Metrics_Example.thy ===== *)
theory Metrics_Example
  imports Service_Example Metrics_Laws
begin

text \<open>
  The collector on the worked analysis: it hears of the zone and of the signal, and the snapshot
  taken then shows neither the zone nor a row of the latency table.
\<close>

definition empty_db :: metrics_db where
  "empty_db = \<lparr>db_ticks = [], db_latency = [], db_api = [], db_errors = [], db_ws = [], db_counters = [],
     db_gauges = []\<rparr>"

text \<open>All calls of the service at one time, and a snapshot.\<close>

definition told_at :: "ms \<Rightarrow> metric_call list \<Rightarrow> ((ms \<times> collector_call) list \<times> ms \<times> ms) list" where
  "told_at t ms = [(map (\<lambda>m. (t, From_Service m)) ms, t, t)]"

lemma told_at_calls: "service_calls (concat (map fst (told_at t ms))) = ms"
  by (simp add: told_at_def service_calls_def) (induction ms, auto)

theorem dashboard_sees_no_zone_and_no_latency_witness:
  "\<exists>sv sn p. (svc_step live_env)\<^sup>*\<^sup>* (new_service ex_co) sv \<and> M_Event SIGNAL_PENDING p \<in> set (sv_metrics sv) \<and>
     snapshots (told_at 43500000 (sv_metrics sv)) (new_collector 0 empty_db) = [sn] \<and>
     sn_active_zones sn = [] \<and> sn_latency sn = no_latencies"
proof -
  let ?sv = "snd (analyze live_env ''XAUUSD'' 43500000 live_start)"
  let ?turns = "told_at 43500000 (sv_metrics ?sv)" and ?c = "new_collector 0 empty_db"
  have run: "(svc_step live_env)\<^sup>*\<^sup>* (new_service ex_co) ?sv" using live_run by (simp add: live_start_def)
  obtain p where p: "M_Event SIGNAL_PENDING p \<in> set (sv_metrics ?sv)"
    using live_analysis by (auto simp: told_def)
  let ?c1 = "apply_calls (map (\<lambda>m. (43500000, From_Service m)) (sv_metrics ?sv)) ?c"
  have "blind ?c ?c1"
    by (rule blind_calls) (use service_tells_quiet [OF run] told_at_calls [of _ "sv_metrics ?sv"] in \<open>simp add: told_at_def\<close>)
  then have "mc_active_zones ?c1 = []" by (simp add: blind_def new_collector_def restore_metrics_def)
  moreover have "\<exists>day. session_day 43500000 = Inr day" by (simp add: session_day_def from_timestamp_def)
  ultimately obtain sn c' where "build_snapshot 43500000 43500000 ?c1 = (Inr sn, c')"
    using snapshot_returns by blast
  then have sn: "snapshots ?turns ?c = [sn]" by (simp add: told_at_def)
  have "sv_metrics ?sv = service_calls (concat (map fst ?turns)) @ []" by (simp add: told_at_calls)
  moreover have "db_latency empty_db = []" by (simp add: empty_db_def)
  ultimately have "sn_active_zones sn = [] \<and> sn_latency sn = no_latencies"
    by (rule dashboard_sees_no_zone_and_no_latency [OF run, where t = 0]) (simp add: sn)
  then show ?thesis using run p sn by blast
qed

end
