(* ===== verification/Accounting_Laws.thy ===== *)
theory Accounting_Laws
  imports Accounting
begin

text \<open>
  The account simulation against closed formulas: balance, running peak and breach as functions
  of the ratios booked so far. The loop stops at the first breach and at no other trade, its
  drawdown is the largest gap to the peak, and raising the risk never turns a blown account
  into a surviving one.
\<close>

section \<open>The account as a function of the ratios\<close>

definition stake :: "account \<Rightarrow> real \<Rightarrow> real" where
  "stake a b = (case fixed_basis a of None \<Rightarrow> b | Some s \<Rightarrow> s) * (ac_risk_percent a / 100)"

definition account_value :: "account \<Rightarrow> real list \<Rightarrow> real" where
  "account_value a ratios = foldl (\<lambda>b r. b + r * stake a b) (ac_start a) ratios"

definition account_peak :: "account \<Rightarrow> real list \<Rightarrow> real" where
  "account_peak a ratios = Max ((\<lambda>k. account_value a (take k ratios)) ` {..length ratios})"

definition account_gap :: "account \<Rightarrow> real list \<Rightarrow> real" where
  "account_gap a ratios = account_peak a ratios - account_value a ratios"

definition breached :: "account \<Rightarrow> real list \<Rightarrow> bool" where
  "breached a ratios \<longleftrightarrow>
     (\<exists>mtr. ac_max_trailing_dd_pct a = Some mtr \<and>
        account_value a ratios < account_peak a ratios * (1 - mtr / 100)) \<or>
     (\<exists>mtl. ac_max_total_loss_pct a = Some mtl \<and> account_value a ratios < ac_start a * (1 - mtl / 100))"

lemma account_value_Nil [simp]: "account_value a [] = ac_start a"
  by (simp add: account_value_def)

lemma account_value_snoc:
  "account_value a (rs @ [r]) = account_value a rs + r * stake a (account_value a rs)"
  by (simp add: account_value_def)

lemma account_peak_Nil [simp]: "account_peak a [] = ac_start a"
  by (simp add: account_peak_def)

lemma Max_snoc:
  fixes f :: "real list \<Rightarrow> real"
  shows "Max ((\<lambda>k. f (take k (rs @ [r]))) ` {..length (rs @ [r])}) =
    max (Max ((\<lambda>k. f (take k rs)) ` {..length rs})) (f (rs @ [r]))"
proof -
  have "(\<lambda>k. f (take k (rs @ [r]))) ` {..length (rs @ [r])} =
      insert (f (rs @ [r])) ((\<lambda>k. f (take k rs)) ` {..length rs})"
    by (simp add: atMost_Suc)
  then show ?thesis by (simp add: max.commute)
qed

lemma account_peak_snoc:
  "account_peak a (rs @ [r]) = max (account_peak a rs) (account_value a (rs @ [r]))"
  unfolding account_peak_def by (rule Max_snoc)

lemma account_peak_ge: "k \<le> length rs \<Longrightarrow> account_value a (take k rs) \<le> account_peak a rs"
  unfolding account_peak_def by (rule Max_ge) auto

lemma account_gap_nonneg: "0 \<le> account_gap a rs"
  using account_peak_ge [of "length rs" rs a] by (simp add: account_gap_def)

definition max_gap :: "account \<Rightarrow> real list \<Rightarrow> real" where
  "max_gap a ratios = Max ((\<lambda>k. account_gap a (take k ratios)) ` {..length ratios})"

lemma max_gap_snoc: "max_gap a (rs @ [r]) = max (max_gap a rs) (account_gap a (rs @ [r]))"
  unfolding max_gap_def by (rule Max_snoc)

lemma max_gap_Nil [simp]: "max_gap a [] = 0"
  by (simp add: max_gap_def account_gap_def)

section \<open>The loop\<close>

abbreviation ratios :: "backtest_result list \<Rightarrow> real list" where
  "ratios rs \<equiv> map br_realized_rr rs"

text \<open>The state of the loop after the ratios \<open>ps\<close>.\<close>

definition tracks :: "account \<Rightarrow> real list \<Rightarrow> account_state \<Rightarrow> bool" where
  "tracks a ps st \<longleftrightarrow>
     as_balance st = account_value a ps \<and> as_peak st = account_peak a ps \<and>
     as_max_dd st = max_gap a ps"

lemma kill_check_iff:
  "kill_check a i d acct \<noteq> None \<longleftrightarrow>
     (\<exists>mtr. ac_max_trailing_dd_pct a = Some mtr \<and>
        ta_balance_after acct < ta_peak_after acct * (1 - mtr / 100)) \<or>
     (\<exists>mtl. ac_max_total_loss_pct a = Some mtl \<and> ta_balance_after acct < ac_start a * (1 - mtl / 100))"
  by (auto simp: kill_check_def Let_def total_floor_def split: option.splits if_splits)

lemma kill_check_fields:
  "kill_check a i d acct = Some b \<Longrightarrow>
   bl_trade_index b = i \<and> bl_balance b = ta_balance_after acct \<and> bl_balance b < bl_floor b"
  by (auto simp: kill_check_def Let_def split: option.splits if_splits)

lemma book_trade_tracks:
  assumes t: "tracks a ps st" and b: "book_trade a i st r = Inr (row, st')"
  shows "tracks a (ps @ [br_realized_rr r]) st' \<and>
    ta_balance_after row = account_value a (ps @ [br_realized_rr r]) \<and>
    pt_balance_before row = account_value a ps \<and>
    (as_blown st' \<noteq> None \<longleftrightarrow> pt_blown row) \<and>
    (pt_blown row \<longleftrightarrow> breached a (ps @ [br_realized_rr r])) \<and>
    (\<forall>bl. as_blown st' = Some bl \<longrightarrow> bl_trade_index bl = i \<and> bl_balance bl = as_balance st' \<and>
       bl_balance bl < bl_floor bl)"
proof -
  define acct where "acct = calculate_trade_accounting (as_balance st) (br_realized_rr r)
    (ac_risk_percent a) (as_peak st) (fixed_basis a)"
  from b obtain d where row: "row = trade_accounting.extend acct
        \<lparr>pt_balance_before = as_balance st, pt_theoretical_rr = br_realized_rr r,
         pt_executed_rr = br_realized_rr r, pt_raw_entry = s_entry_price (br_signal r),
         pt_executed_entry = s_entry_price (br_signal r), pt_raw_exit = exit_price r,
         pt_executed_exit = exit_price r, pt_blown = (kill_check a i d acct \<noteq> None)\<rparr>"
    and st': "st' = \<lparr>as_balance = ta_balance_after acct, as_peak = ta_peak_after acct,
         as_max_dd = max (as_max_dd st) (ta_drawdown_after acct),
         as_max_dd_pct = max (as_max_dd_pct st) (ta_drawdown_pct_after acct),
         as_blown = kill_check a i d acct\<rparr>"
    by (auto simp: book_trade_def Let_def bindR_Inr_iff acct_def)
  have bal: "ta_balance_after acct = account_value a (ps @ [br_realized_rr r])"
    using t by (auto simp: acct_def calculate_trade_accounting_def Let_def account_value_snoc
        stake_def tracks_def)
  have pk: "ta_peak_after acct = account_peak a (ps @ [br_realized_rr r])"
    using t bal by (simp add: acct_def calculate_trade_accounting_def Let_def account_peak_snoc tracks_def)
  have dd: "ta_drawdown_after acct = account_gap a (ps @ [br_realized_rr r])"
    using bal pk by (simp add: acct_def calculate_trade_accounting_def Let_def account_gap_def)
  have tr: "tracks a (ps @ [br_realized_rr r]) st'"
    using t bal pk dd
    by (simp only: tracks_def st' account_state.simps max_gap_snoc)
  have fields: "ta_balance_after row = ta_balance_after acct" "pt_balance_before row = as_balance st"
    "pt_blown row = (as_blown st' \<noteq> None)" "as_balance st' = ta_balance_after acct"
    "as_blown st' = kill_check a i d acct" "pt_blown row \<longleftrightarrow> breached a (ps @ [br_realized_rr r])"
    by (simp_all add: row st' trade_accounting.defs kill_check_iff breached_def bal pk del: not_None_eq)
  have before: "as_balance st = account_value a ps" using t by (simp add: tracks_def)
  show ?thesis
    using tr bal before fields kill_check_fields [of a i d acct] by metis
qed

text \<open>What the loop returns from a state that tracks the trades before it.\<close>

lemma run_account_spec:
  assumes "tracks a ps st" "as_blown st = None" "run_account a i st rs = Inr (rows, st')"
  shows "length rows \<le> length rs \<and> tracks a (ps @ ratios (take (length rows) rs)) st' \<and>
    (\<forall>j < length rows.
       ta_balance_after (rows ! j) = account_value a (ps @ ratios (take (Suc j) rs)) \<and>
       pt_balance_before (rows ! j) = account_value a (ps @ ratios (take j rs)) \<and>
       (pt_blown (rows ! j) \<longleftrightarrow> breached a (ps @ ratios (take (Suc j) rs))) \<and>
       (pt_blown (rows ! j) \<longrightarrow> Suc j = length rows)) \<and>
    (as_blown st' = None \<longrightarrow> length rows = length rs \<and> (\<forall>row \<in> set rows. \<not> pt_blown row)) \<and>
    (\<forall>bl. as_blown st' = Some bl \<longrightarrow> rows \<noteq> [] \<and> pt_blown (last rows) \<and>
       bl_trade_index bl = i + length rows - 1 \<and> bl_balance bl = as_balance st' \<and>
       bl_balance bl < bl_floor bl)"
  using assms
proof (induction rs arbitrary: i ps st rows)
  case (Cons r rs)
  from Cons.prems(3) obtain row st1 where b: "book_trade a i st r = Inr (row, st1)"
    and rest: "(if as_blown st1 \<noteq> None then Inr ([row], st1)
        else bindR (run_account a (Suc i) st1 rs) (\<lambda>(rows, st''). Inr (row # rows, st''))) = Inr (rows, st')"
    by (auto simp: bindR_Inr_iff)
  note bt = book_trade_tracks [OF Cons.prems(1) b]
  show ?case
  proof (cases "as_blown st1 = None")
    case False
    then have "rows = [row]" "st' = st1" using rest by auto
    then show ?thesis using bt False by (auto simp: tracks_def)
  next
    case True
    then obtain rows1 where r1: "run_account a (Suc i) st1 rs = Inr (rows1, st')" and rows: "rows = row # rows1"
      using rest by (auto simp: bindR_Inr_iff)
    have t1: "tracks a (ps @ [br_realized_rr r]) st1" using bt by blast
    have npt: "\<not> pt_blown row" and nb: "\<not> breached a (ps @ [br_realized_rr r])"
      using bt True by auto
    note ih = Cons.IH [OF t1 True r1]
    have step: "ta_balance_after (rows ! j) = account_value a (ps @ ratios (take (Suc j) (r # rs))) \<and>
       pt_balance_before (rows ! j) = account_value a (ps @ ratios (take j (r # rs))) \<and>
       (pt_blown (rows ! j) \<longleftrightarrow> breached a (ps @ ratios (take (Suc j) (r # rs)))) \<and>
       (pt_blown (rows ! j) \<longrightarrow> Suc j = length rows)" if "j < length rows" for j
    proof (cases j)
      case 0
      then show ?thesis using bt nb npt by (simp add: rows)
    next
      case (Suc k)
      then have "k < length rows1" using that by (simp add: rows)
      with conjunct1 [OF conjunct2 [OF conjunct2 [OF ih]]]
      have "ta_balance_after (rows1 ! k) = account_value a ((ps @ [br_realized_rr r]) @ ratios (take (Suc k) rs)) \<and>
        pt_balance_before (rows1 ! k) = account_value a ((ps @ [br_realized_rr r]) @ ratios (take k rs)) \<and>
        (pt_blown (rows1 ! k) \<longleftrightarrow> breached a ((ps @ [br_realized_rr r]) @ ratios (take (Suc k) rs))) \<and>
        (pt_blown (rows1 ! k) \<longrightarrow> Suc k = length rows1)"
        by (elim allE impE) assumption+
      then show ?thesis
        unfolding Suc rows nth_Cons_Suc take_Suc_Cons list.map length_Cons nat.inject append_assoc
          append_Cons append_Nil .
    qed
    have pre: "ps @ ratios (take (length rows) (r # rs)) =
        (ps @ [br_realized_rr r]) @ ratios (take (length rows1) rs)"
      by (simp add: rows)
    show ?thesis
    proof (intro conjI allI impI ballI)
      show "length rows \<le> length (r # rs)" using conjunct1 [OF ih] by (simp add: rows)
      show "tracks a (ps @ ratios (take (length rows) (r # rs))) st'"
        unfolding pre using ih by (elim conjE)
      have q: "length rows1 = length rs \<and> (\<forall>row \<in> set rows1. \<not> pt_blown row)" if "as_blown st' = None"
        using conjunct1 [OF conjunct2 [OF conjunct2 [OF conjunct2 [OF ih]]]] that by (rule mp)
      show "length rows = length (r # rs)" if "as_blown st' = None"
        using q [OF that] by (simp add: rows)
      show "\<not> pt_blown x" if "as_blown st' = None" "x \<in> set rows" for x
        using q [OF that(1)] that(2) npt by (auto simp: rows)
    next
      fix bl assume bl: "as_blown st' = Some bl"
      note c = mp [OF spec [OF conjunct2 [OF conjunct2 [OF conjunct2 [OF conjunct2 [OF ih]]]]] bl]
      note k = conjunct1 [OF c] conjunct1 [OF conjunct2 [OF c]]
        conjunct1 [OF conjunct2 [OF conjunct2 [OF c]]]
        conjunct1 [OF conjunct2 [OF conjunct2 [OF conjunct2 [OF c]]]]
        conjunct2 [OF conjunct2 [OF conjunct2 [OF conjunct2 [OF c]]]]
      show "rows \<noteq> []" unfolding rows by simp
      show "pt_blown (last rows)" unfolding rows using k(1,2) by simp
      show "bl_trade_index bl = i + length rows - 1" unfolding rows using k(3) by simp
      show "bl_balance bl = as_balance st'" by (rule k(4))
      show "bl_balance bl < bl_floor bl" by (rule k(5))
    next
      fix j assume j: "j < length rows"
      note q = step [OF j]
      show "ta_balance_after (rows ! j) = account_value a (ps @ ratios (take (Suc j) (r # rs)))"
        by (rule conjunct1 [OF q])
      show "pt_balance_before (rows ! j) = account_value a (ps @ ratios (take j (r # rs)))"
        by (rule conjunct1 [OF conjunct2 [OF q]])
      show "pt_blown (rows ! j) \<longleftrightarrow> breached a (ps @ ratios (take (Suc j) (r # rs)))"
        by (rule conjunct1 [OF conjunct2 [OF conjunct2 [OF q]]])
      show "Suc j = length rows" if "pt_blown (rows ! j)"
        using conjunct2 [OF conjunct2 [OF conjunct2 [OF q]]] that by (rule mp)
    qed
  qed
qed (simp add: tracks_def)

section \<open>The account stops at the first breach\<close>

lemma run_account_init:
  assumes r: "run_account a 0 (init_account a) rs = Inr (rows, st)"
  shows "length rows \<le> length rs" "tracks a (ratios (take (length rows) rs)) st"
    and "j < length rows \<Longrightarrow> ta_balance_after (rows ! j) = account_value a (ratios (take (Suc j) rs))"
    and "0 < k \<Longrightarrow> k < length rows \<Longrightarrow> \<not> breached a (ratios (take k rs))"
    and "as_blown st \<noteq> None \<longleftrightarrow> rows \<noteq> [] \<and> breached a (ratios (take (length rows) rs))"
    and "as_blown st = Some bl \<Longrightarrow> Suc (bl_trade_index bl) = length rows \<and>
       bl_balance bl = as_balance st \<and> bl_balance bl < bl_floor bl"
    and "as_blown st = None \<Longrightarrow> length rows = length rs"
proof -
  have t0: "tracks a [] (init_account a)" "as_blown (init_account a) = None"
    by (simp_all add: tracks_def init_account_def)
  note spec = run_account_spec [OF t0 r, unfolded append_Nil]
  note c3 = spec [THEN conjunct2, THEN conjunct2, THEN conjunct1, rule_format]
    and c4 = spec [THEN conjunct2, THEN conjunct2, THEN conjunct2, THEN conjunct1]
    and c5 = spec [THEN conjunct2, THEN conjunct2, THEN conjunct2, THEN conjunct2, rule_format]
  show "length rows \<le> length rs" by (rule conjunct1 [OF spec])
  show "tracks a (ratios (take (length rows) rs)) st" by (rule conjunct1 [OF conjunct2 [OF spec]])
  show "as_blown st = None \<Longrightarrow> length rows = length rs" using c4 by blast
  have last: "last rows = rows ! (length rows - 1)" if "rows \<noteq> []"
    using that by (simp add: last_conv_nth)
  show "ta_balance_after (rows ! j) = account_value a (ratios (take (Suc j) rs))" if "j < length rows" for j
    using c3 [OF that] by (elim conjE)
  show "\<not> breached a (ratios (take k rs))" if k: "0 < k" "k < length rows" for k
  proof -
    from k obtain j where j: "k = Suc j" by (cases k) auto
    with k have "j < length rows" "Suc j \<noteq> length rows" by simp_all
    with c3 [OF this(1)] show ?thesis unfolding j by blast
  qed
  show "Suc (bl_trade_index bl) = length rows \<and> bl_balance bl = as_balance st \<and> bl_balance bl < bl_floor bl"
    if "as_blown st = Some bl"
  proof -
    note q = c5 [OF that]
    have "length rows \<noteq> 0" using conjunct1 [OF q] by simp
    then have "Suc (bl_trade_index bl) = length rows" using q by linarith
    then show ?thesis using q by blast
  qed
  show "as_blown st \<noteq> None \<longleftrightarrow> rows \<noteq> [] \<and> breached a (ratios (take (length rows) rs))"
  proof
    assume "as_blown st \<noteq> None"
    then obtain bl where bl: "as_blown st = Some bl" by blast
    note q = c5 [OF bl]
    then have "length rows - 1 < length rows" "Suc (length rows - 1) = length rows" by simp_all
    with c3 [OF this(1)] q last show "rows \<noteq> [] \<and> breached a (ratios (take (length rows) rs))" by metis
  next
    assume b: "rows \<noteq> [] \<and> breached a (ratios (take (length rows) rs))"
    then have l: "length rows - 1 < length rows" "Suc (length rows - 1) = length rows" by simp_all
    with c3 [OF l(1)] b have "pt_blown (rows ! (length rows - 1))" by metis
    with l(1) c4 show "as_blown st \<noteq> None" by (meson nth_mem)
  qed
qed

text \<open>
  C35: the account simulation is the closed account stopped at its first breach. Row by row the
  balance is the value of the ratios booked so far; no proper prefix breaks a kill rule; the
  account is reported blown exactly when the last booked trade breaks one, and only then trades
  are left out; the final balance and the maximal drawdown are those of the booked prefix.
\<close>

theorem account_stops_at_first_breach:
  assumes "compute_accounting a rs = Inr (rows, sm)"
  shows "length rows \<le> length rs \<and>
    (\<forall>j < length rows. ta_balance_after (rows ! j) = account_value a (ratios (take (Suc j) rs))) \<and>
    (\<forall>k. 0 < k \<longrightarrow> k < length rows \<longrightarrow> \<not> breached a (ratios (take k rs))) \<and>
    (sm_blown sm \<noteq> None \<longleftrightarrow> rows \<noteq> [] \<and> breached a (ratios (take (length rows) rs))) \<and>
    (\<forall>bl. sm_blown sm = Some bl \<longrightarrow> Suc (bl_trade_index bl) = length rows \<and>
       bl_balance bl = sm_final_balance sm \<and> bl_balance bl < bl_floor bl) \<and>
    (sm_blown sm = None \<longrightarrow> length rows = length rs) \<and>
    sm_final_balance sm = account_value a (ratios (take (length rows) rs)) \<and>
    sm_max_drawdown sm = max_gap a (ratios (take (length rows) rs))"
proof -
  from assms obtain st where r: "run_account a 0 (init_account a) rs = Inr (rows, st)"
    and sm: "sm = summarize a rows st"
    by (auto simp: compute_accounting_def bindR_Inr_iff)
  have f: "sm_blown sm = as_blown st" "sm_final_balance sm = as_balance st" "sm_max_drawdown sm = as_max_dd st"
    by (simp_all add: sm summarize_def Let_def)
  note run = run_account_init [OF r]
  show ?thesis
    unfolding f using run(1,3-7) run(2) [unfolded tracks_def] by blast
qed

section \<open>More risk never rescues an account\<close>

text \<open>The logarithm of the growth is concave in the risk, and zero at risk zero.\<close>

lemma ln_concave_at_1:
  fixes t x :: real
  assumes "0 < t" "t \<le> 1" "0 < 1 + x"
  shows "0 < 1 + t * x \<and> t * ln (1 + x) \<le> ln (1 + t * x)"
proof -
  define a where "a = 1 + t * x"
  have "a = t * (1 + x) + (1 - t)" by (simp add: a_def algebra_simps)
  then have a: "0 < a" using assms by (simp add: add_pos_nonneg)
  have tangent: "ln y \<le> ln a + (y - a) / a" if "0 < y" for y
  proof -
    have "ln (y / a) \<le> y / a - 1" using that a by (intro ln_le_minus_one) simp
    then show ?thesis using that a by (simp add: ln_div diff_divide_distrib)
  qed
  have "t * ln (1 + x) \<le> t * (ln a + (1 + x - a) / a)"
    using tangent [of "1 + x"] assms by (intro mult_left_mono) simp_all
  moreover have "(1 - t) * ln 1 \<le> (1 - t) * (ln a + (1 - a) / a)"
    using tangent [of 1] assms by (intro mult_left_mono) simp_all
  moreover have "t * (ln a + (1 + x - a) / a) + (1 - t) * (ln a + (1 - a) / a) = ln a"
  proof -
    have "t * (1 + x - a) + (1 - t) * (1 - a) = 0" by (simp add: a_def algebra_simps)
    then have "t * ((1 + x - a) / a) + (1 - t) * ((1 - a) / a) = 0"
      using a by (simp flip: add_divide_distrib)
    then show ?thesis by (simp add: algebra_simps)
  qed
  ultimately show ?thesis using a by (simp add: a_def)
qed

definition growth :: "real \<Rightarrow> real list \<Rightarrow> real" where
  "growth q xs = prod_list (map (\<lambda>r. 1 + r * q) xs)"

lemma growth_pos: "(\<And>r. r \<in> set xs \<Longrightarrow> 0 < 1 + r * q) \<Longrightarrow> 0 < growth q xs"
  by (induction xs) (auto simp: growth_def)

lemma growth_ln:
  assumes "0 < t" "t \<le> 1" "\<And>r. r \<in> set xs \<Longrightarrow> 0 < 1 + r * q"
  shows "0 < growth (t * q) xs \<and> t * ln (growth q xs) \<le> ln (growth (t * q) xs)"
  using assms(3)
proof (induction xs)
  case (Cons r xs)
  have one: "0 < 1 + t * (r * q) \<and> t * ln (1 + r * q) \<le> ln (1 + t * (r * q))"
    using ln_concave_at_1 [OF assms(1,2), of "r * q"] Cons.prems by simp
  have ih: "0 < growth (t * q) xs \<and> t * ln (growth q xs) \<le> ln (growth (t * q) xs)"
    using Cons by simp
  have pos: "0 < 1 + r * q" "0 < growth q xs" using Cons.prems growth_pos [of xs q] by auto
  have "growth q (r # xs) = (1 + r * q) * growth q xs"
    "growth (t * q) (r # xs) = (1 + t * (r * q)) * growth (t * q) xs"
    by (simp_all add: growth_def mult.left_commute)
  then show ?case
    using one ih pos by (simp add: ln_mult_pos distrib_left)
qed (simp add: growth_def)

lemma growth_below:
  assumes "0 < q1" "q1 \<le> q2" "\<And>r. r \<in> set xs \<Longrightarrow> 0 < 1 + r * q2" "growth q1 xs < c" "c \<le> 1"
  shows "growth q2 xs < c"
proof -
  define t where "t = q1 / q2"
  have t: "0 < t" "t \<le> 1" "t * q2 = q1" using assms by (auto simp: t_def)
  note l = growth_ln [OF t(1,2), of xs q2, OF assms(3), unfolded t(3)]
  have pos: "0 < growth q2 xs" using assms(3) by (rule growth_pos)
  have c: "0 < c" using l assms(4) by linarith
  have "t * ln (growth q2 xs) < ln c" using l assms(4) c by (smt (verit) ln_less_cancel_iff)
  moreover have "ln c \<le> t * ln c"
    using t(1,2) c assms(5) mult_right_mono_neg [of t 1 "ln c"] by simp
  ultimately have "ln (growth q2 xs) < ln c" using t(1) by (smt (verit) mult_less_cancel_left_pos)
  then show ?thesis using pos c by simp
qed

text \<open>Both ways of sizing the risk, in closed form.\<close>

lemma account_value_compound:
  assumes "ac_risk_type a \<noteq> ''fixed''"
  shows "account_value a rs = ac_start a * growth (ac_risk_percent a / 100) rs"
proof (induction rs rule: rev_induct)
  case (snoc r rs)
  then show ?case
    using assms by (simp add: account_value_snoc stake_def fixed_basis_def growth_def algebra_simps)
qed (simp add: growth_def)

lemma account_value_fixed:
  assumes "ac_risk_type a = ''fixed''"
  shows "account_value a rs = ac_start a * (1 + ac_risk_percent a / 100 * sum_list rs)"
proof (induction rs rule: rev_induct)
  case (snoc r rs)
  then show ?case
    using assms by (simp add: account_value_snoc stake_def fixed_basis_def algebra_simps)
qed simp

lemma growth_append: "growth q (xs @ ys) = growth q xs * growth q ys"
  by (simp add: growth_def)

text \<open>
  One gap: a level below a value reached before stays below it at a higher risk. \<open>k\<close> is the
  place of the earlier value.
\<close>

lemma fall_monotone:
  assumes "0 < ac_start a" "0 < ac_risk_percent a" "ac_risk_percent a \<le> level" "0 \<le> m" "m \<le> 100"
    and ok: "ac_risk_type a = ''fixed'' \<or> (\<forall>r \<in> set rs. 0 < 1 + r * (level / 100))"
    and fall: "account_value a rs < account_value a (take k rs) * (1 - m / 100)"
  shows "account_value (a\<lparr>ac_risk_percent := level\<rparr>) rs
    < account_value (a\<lparr>ac_risk_percent := level\<rparr>) (take k rs) * (1 - m / 100)"
proof -
  define q1 q2 c where "q1 = ac_risk_percent a / 100" and "q2 = level / 100" and "c = 1 - m / 100"
  have q: "0 < q1" "q1 \<le> q2" "0 \<le> c" "c \<le> 1" using assms(2-5) by (simp_all add: q1_def q2_def c_def)
  show ?thesis
  proof (cases "ac_risk_type a = ''fixed''")
    case True
    define x y where "x = sum_list rs" and "y = sum_list (take k rs)"
    have "ac_start a * (1 + q1 * x) < ac_start a * ((1 + q1 * y) * c)"
      using fall True by (simp add: account_value_fixed q1_def x_def y_def c_def mult.assoc)
    then have "1 + q1 * x < (1 + q1 * y) * c" using assms(1) by simp
    then have lt: "q1 * (x - y * c) < c - 1" by (simp add: algebra_simps)
    then have "x - y * c < 0" using q by (smt (verit) mult_nonneg_nonneg)
    then have "q2 * (x - y * c) \<le> q1 * (x - y * c)" using q(2) by (simp add: mult_right_mono_neg)
    then have "1 + q2 * x < (1 + q2 * y) * c" using lt by (simp add: algebra_simps)
    then have "ac_start a * (1 + q2 * x) < ac_start a * ((1 + q2 * y) * c)" using assms(1) by simp
    then show ?thesis using True by (simp add: account_value_fixed q2_def x_def y_def c_def mult.assoc)
  next
    case False
    then have pos: "0 < 1 + r * q2" if "r \<in> set rs" for r using ok that by (simp add: q2_def)
    have in_set: "set (take k rs) \<subseteq> set rs" "set (drop k rs) \<subseteq> set rs"
      by (simp_all add: set_take_subset set_drop_subset)
    have split: "growth q rs = growth q (take k rs) * growth q (drop k rs)" for q
      using growth_append [of q "take k rs" "drop k rs"] by simp
    have tq: "(q1 / q2) * q2 = q1" "0 < q1 / q2" "q1 / q2 \<le> 1" using q by auto
    have g1: "0 < growth q1 (take k rs)"
      using growth_ln [OF tq(2,3), of "take k rs" q2] pos in_set tq(1) by auto
    have g2: "0 < growth q2 (take k rs)" using pos in_set by (intro growth_pos) auto
    have "growth q1 (take k rs) * growth q1 (drop k rs) < growth q1 (take k rs) * c"
      using fall False assms(1) by (simp add: account_value_compound q1_def c_def mult.assoc flip: split)
    then have "growth q1 (drop k rs) < c" using g1 by simp
    then have "growth q2 (drop k rs) < c"
      using growth_below [OF q(1,2), of "drop k rs" c] pos in_set q(4) by auto
    then have "growth q2 rs < growth q2 (take k rs) * c" unfolding split [of q2] using g2 by simp
    then show ?thesis using False assms(1) by (simp add: account_value_compound q2_def c_def mult.assoc)
  qed
qed

lemma account_peak_attained: "\<exists>k \<le> length rs. account_peak a rs = account_value a (take k rs)"
proof -
  have "account_peak a rs \<in> (\<lambda>k. account_value a (take k rs)) ` {..length rs}"
    unfolding account_peak_def by (rule Max_in) auto
  then show ?thesis by auto
qed

definition rules_in_range :: "account \<Rightarrow> bool" where
  "rules_in_range a \<longleftrightarrow>
     (case ac_max_trailing_dd_pct a of None \<Rightarrow> True | Some m \<Rightarrow> 0 \<le> m \<and> m \<le> 100) \<and>
     (case ac_max_total_loss_pct a of None \<Rightarrow> True | Some m \<Rightarrow> 0 \<le> m \<and> m \<le> 100)"

lemma breach_monotone:
  assumes "0 < ac_start a" "0 < ac_risk_percent a" "ac_risk_percent a \<le> level" "rules_in_range a"
    and "ac_risk_type a = ''fixed'' \<or> (\<forall>r \<in> set rs. 0 < 1 + r * (level / 100))"
    and "breached a rs"
  shows "breached (a\<lparr>ac_risk_percent := level\<rparr>) rs"
proof -
  define a' where "a' = a\<lparr>ac_risk_percent := level\<rparr>"
  have same: "ac_start a' = ac_start a" "ac_max_trailing_dd_pct a' = ac_max_trailing_dd_pct a"
    "ac_max_total_loss_pct a' = ac_max_total_loss_pct a"
    by (simp_all add: a'_def)
  note fall = fall_monotone [OF assms(1-3) _ _ assms(5), folded a'_def]
  from assms(6) consider
      m where "ac_max_trailing_dd_pct a = Some m" "account_value a rs < account_peak a rs * (1 - m / 100)"
    | m where "ac_max_total_loss_pct a = Some m" "account_value a rs < ac_start a * (1 - m / 100)"
    unfolding breached_def by blast
  then show ?thesis
    unfolding a'_def [symmetric]
  proof cases
    case 1
    obtain k where k: "k \<le> length rs" "account_peak a rs = account_value a (take k rs)"
      using account_peak_attained by blast
    have m: "0 \<le> m" "m \<le> 100" using 1 assms(4) by (simp_all add: rules_in_range_def)
    have "account_value a' rs < account_value a' (take k rs) * (1 - m / 100)"
      using fall [OF m] 1(2) k(2) by simp
    also have "\<dots> \<le> account_peak a' rs * (1 - m / 100)"
      using account_peak_ge [OF k(1)] m by (intro mult_right_mono) simp_all
    finally show "breached a' rs" unfolding breached_def same using 1(1) by blast
  next
    case 2
    have m: "0 \<le> m" "m \<le> 100" using 2 assms(4) by (simp_all add: rules_in_range_def)
    show "breached a' rs"
      unfolding breached_def same using fall [OF m, of 0] 2 by (simp add: same)
  qed
qed

lemma sweep_level_booked:
  assumes "sweep_level rp mtr mtl level = Inr w"
  defines "a \<equiv> account_of rp (Some level) None mtr mtl" and "rs \<equiv> rp_results rp"
  obtains n where "n \<le> length rs" "sw_risk w = level"
    "sm_blown (sw_summary w) \<noteq> None \<Longrightarrow> sw_trades_run w = n"
    "sm_blown (sw_summary w) = None \<Longrightarrow> n = length rs"
    "sm_blown (sw_summary w) \<noteq> None \<longleftrightarrow> 0 < n \<and> breached a (ratios (take n rs))"
    "\<And>k. 0 < k \<Longrightarrow> k < n \<Longrightarrow> \<not> breached a (ratios (take k rs))"
proof -
  from assms obtain rows st where r: "run_account a 0 (init_account a) rs = Inr (rows, st)"
    and w: "w = \<lparr>sw_risk = level, sw_summary = summarize a rows st,
            sw_trades_run = (case sm_blown (summarize a rows st) of None \<Rightarrow> length rs
                             | Some b \<Rightarrow> bl_trade_index b + 1),
            sw_current = (\<bar>level - rp_risk_percent rp\<bar> < 0.001)\<rparr>"
    by (auto simp: sweep_level_def compute_accounting_def bindR_Inr_iff)
  have f: "sm_blown (sw_summary w) = as_blown st" by (simp add: w summarize_def Let_def)
  note run = run_account_init [OF r]
  show thesis
  proof (rule that [of "length rows"], unfold f)
    show "sw_trades_run w = length rows" if "as_blown st \<noteq> None"
      using that run(6) by (auto simp: w summarize_def Let_def)
    show "as_blown st \<noteq> None \<longleftrightarrow> 0 < length rows \<and> breached a (ratios (take (length rows) rs))"
      using run(5) by simp
  qed (use run(1,4,7) in \<open>simp_all add: w\<close>)
qed

lemma mapR_in: "mapR f xs = Inr ys \<Longrightarrow> y \<in> set ys \<Longrightarrow> \<exists>x \<in> set xs. f x = Inr y"
  by (induction xs arbitrary: ys) (auto simp: bindR_Inr_iff)

text \<open>
  the risk sweep is monotone. Whatever the order of wins and losses, with compound or fixed
  sizing and with either kill rule, a level at which the account is blown is followed by blown
  levels only, and each of them blows no later: so the level printed as the first blow of an
  ascending table is the boundary between surviving and blown accounts. For compound sizing no
  single trade may lose the whole account.
\<close>

theorem risk_sweep_monotone:
  assumes "risk_sweep rp levels mtr mtl = Inr (Some (ws, first))"
    and "w1 \<in> set ws" "w2 \<in> set ws" "0 < sw_risk w1" "sw_risk w1 \<le> sw_risk w2"
    and "0 < rp_start_balance rp" "rules_in_range (account_of rp None None mtr mtl)"
    and "rp_risk_type rp = ''fixed'' \<or>
      (\<forall>r \<in> set (rp_results rp). 0 < 1 + br_realized_rr r * (sw_risk w2 / 100))"
    and "sm_blown (sw_summary w1) \<noteq> None"
  shows "sm_blown (sw_summary w2) \<noteq> None \<and> sw_trades_run w2 \<le> sw_trades_run w1"
proof -
  define m1 m2 rs where "m1 = either mtr (rp_max_trailing_dd_pct rp)"
    and "m2 = either mtl (rp_max_total_loss_pct rp)" and "rs = rp_results rp"
  define acc where "acc = (\<lambda>l. account_of rp (Some l) None m1 m2)"
  from assms(1) have ws: "mapR (sweep_level rp m1 m2) (if levels = [] then SWEEP_RISK_LEVELS else levels) = Inr ws"
    by (auto simp: risk_sweep_def Let_def bindR_Inr_iff m1_def m2_def split: if_splits)
  obtain l1 l2 where "sweep_level rp m1 m2 l1 = Inr w1" "sweep_level rp m1 m2 l2 = Inr w2"
    using mapR_in [OF ws assms(2)] mapR_in [OF ws assms(3)] by blast
  note b = this
  obtain n1 where n1: "n1 \<le> length rs" "sw_trades_run w1 = n1" "0 < n1"
      "breached (acc l1) (ratios (take n1 rs))" and l1: "sw_risk w1 = l1"
    using sweep_level_booked [OF b(1)] assms(9) unfolding rs_def acc_def by metis
  obtain n2 where n2: "n2 \<le> length rs"
      "sm_blown (sw_summary w2) \<noteq> None \<Longrightarrow> sw_trades_run w2 = n2"
      "sm_blown (sw_summary w2) = None \<Longrightarrow> n2 = length rs"
      "sm_blown (sw_summary w2) \<noteq> None \<longleftrightarrow> 0 < n2 \<and> breached (acc l2) (ratios (take n2 rs))"
      "\<And>k. 0 < k \<Longrightarrow> k < n2 \<Longrightarrow> \<not> breached (acc l2) (ratios (take k rs))" and l2: "sw_risk w2 = l2"
    using sweep_level_booked [OF b(2)] unfolding rs_def acc_def by metis
  note l = l1 l2
  have a2: "(acc l1)\<lparr>ac_risk_percent := l2\<rparr> = acc l2"
    by (simp add: acc_def account_of_def either_def)
  have "breached ((acc l1)\<lparr>ac_risk_percent := l2\<rparr>) (ratios (take n1 rs))"
  proof (rule breach_monotone [OF _ _ _ _ _ n1(4)])
    show "0 < ac_start (acc l1)" "0 < ac_risk_percent (acc l1)" "ac_risk_percent (acc l1) \<le> l2"
      using assms(4-6) l by (simp_all add: acc_def account_of_def either_def)
    show "rules_in_range (acc l1)"
      using assms(7) by (simp add: acc_def account_of_def rules_in_range_def m1_def m2_def either_def split: option.splits)
    show "ac_risk_type (acc l1) = ''fixed'' \<or> (\<forall>r\<in>set (ratios (take n1 rs)). 0 < 1 + r * (l2 / 100))"
      using assms(8) l by (auto simp: acc_def account_of_def either_def rs_def dest: in_set_takeD)
  qed
  then have br: "breached (acc l2) (ratios (take n1 rs))" unfolding a2 .
  have le: "n2 \<le> n1" using n2(5) n1(3) br by (meson not_le)
  have "sm_blown (sw_summary w2) \<noteq> None"
    using n2(3,4) n1(1,3) le br by (metis le_antisym)
  then show ?thesis using n2(2) le n1(2) by simp
qed

section \<open>A worked account\<close>

text \<open>Three trades of the worked signal: a loss, a win of two units of risk, a loss.\<close>

definition ex_results :: "backtest_result list" where
  "ex_results =
     [mk_result ex_signal O_LOSS (- 1) None None, mk_result ex_signal O_WIN_FULL 2 None None,
      mk_result ex_signal O_LOSS (- 1) None None]"

definition ex_report :: report where
  "ex_report =
     \<lparr>rp_symbol = ''XAUUSD'', rp_results = ex_results, rp_cfg = default_settings [],
      rp_start_balance = 1000, rp_risk_percent = 5, rp_trailing_giveback_pct = 0,
      rp_risk_type = ''compound'', rp_max_trailing_dd_pct = Some 10, rp_max_total_loss_pct = Some 50,
      rp_profile = ex_profile\<rparr>"

lemma ex_account_run:
  "case compute_accounting (account_of ex_report (Some 20) None None None) ex_results of
     Inl _ \<Rightarrow> False | Inr (rows, sm) \<Rightarrow> length rows = 1 \<and> sm_blown sm \<noteq> None"
  by code_simp

lemma ex_sweep_run:
  "case risk_sweep ex_report [5, 11, 20] None None of
     Inl _ \<Rightarrow> False | Inr None \<Rightarrow> False
   | Inr (Some (ws, first)) \<Rightarrow> first = Some 11 \<and> length ws = 3 \<and>
       sw_risk (ws ! 1) = 11 \<and> sw_risk (ws ! 2) = 20 \<and> sm_blown (sw_summary (ws ! 1)) \<noteq> None"
  by code_simp

theorem account_stops_at_first_breach_witness:
  "\<exists>rows sm. compute_accounting (account_of ex_report (Some 20) None None None) ex_results = Inr (rows, sm) \<and>
     breached (account_of ex_report (Some 20) None None None) (ratios (take (length rows) ex_results)) \<and>
     length rows < length ex_results"
proof -
  obtain rows sm where c: "compute_accounting (account_of ex_report (Some 20) None None None) ex_results =
      Inr (rows, sm)" and l: "length rows = 1" "sm_blown sm \<noteq> None"
    using ex_account_run by (auto split: sum.splits)
  have "length rows < length ex_results" using l by (simp add: ex_results_def)
  then show ?thesis using account_stops_at_first_breach [OF c] c l(2) by blast
qed

theorem risk_sweep_monotone_witness:
  "\<exists>ws. risk_sweep ex_report [5, 11, 20] None None = Inr (Some (ws, Some 11)) \<and>
     sm_blown (sw_summary (ws ! 2)) \<noteq> None"
proof -
  obtain ws where c: "risk_sweep ex_report [5, 11, 20] None None = Inr (Some (ws, Some 11))"
    and l: "length ws = 3" "sw_risk (ws ! 1) = 11" "sw_risk (ws ! 2) = 20"
      "sm_blown (sw_summary (ws ! 1)) \<noteq> None"
    using ex_sweep_run by (auto split: sum.splits option.splits)
  have i: "ws ! 1 \<in> set ws" "ws ! 2 \<in> set ws" using l(1) by simp_all
  have "0 < rp_start_balance ex_report" "rules_in_range (account_of ex_report None None None None)"
    "\<forall>r\<in>set (rp_results ex_report). 0 < 1 + br_realized_rr r * (sw_risk (ws ! 2) / 100)"
    by (simp_all add: ex_report_def rules_in_range_def account_of_def either_def ex_results_def
        mk_result_def l(3))
  then show ?thesis
    using risk_sweep_monotone [OF c i] l c by auto
qed

end
