(* ===== verification/Scheduler_Threads.thy ===== *)
theory Scheduler_Threads
  imports Scheduler_Laws
begin

text \<open>
  Invariants of the runs of the scheduler: the table of schedules is the set of subscriptions,
  a subscribed symbol always has a wake-up ahead, and no symbol is analysed twice at a time as
  long as nothing is unsubscribed in the middle of its analysis.
\<close>

section \<open>What the operations do to the tables\<close>

lemma scheduled_set_schedule [simp]:
  "scheduled (set_schedule smb sd s) = (scheduled s)(smb \<mapsto> sd)"
  by (simp add: set_schedule_def update_conv')

lemma set_schedule_frame [simp]:
  "sc_timers (set_schedule smb sd s) = sc_timers s" "sc_calls (set_schedule smb sd s) = sc_calls s"
  "sc_flights (set_schedule smb sd s) = sc_flights s" "sc_cfg (set_schedule smb sd s) = sc_cfg s"
  by (simp_all add: set_schedule_def)

lemma cancel_timer_frame [simp]:
  "sc_schedules (cancel_timer i s) = sc_schedules s" "sc_calls (cancel_timer i s) = sc_calls s"
  "sc_flights (cancel_timer i s) = sc_flights s" "sc_cfg (cancel_timer i s) = sc_cfg s"
  by (simp_all add: cancel_timer_def)

lemma cancel_frame [simp]:
  "sc_calls (cancel smb s) = sc_calls s" "sc_flights (cancel smb s) = sc_flights s"
  "sc_cfg (cancel smb s) = sc_cfg s"
  by (simp_all add: cancel_def Let_def split: option.splits)

lemma scheduled_cancel [simp]: "scheduled (cancel smb s) = (scheduled s)(smb := None)"
  by (auto simp: cancel_def Let_def delete_conv' split: option.splits)

lemma drop_subscriber_frame [simp]:
  "sc_calls (drop_subscriber sid smb s) = sc_calls s"
  "sc_flights (drop_subscriber sid smb s) = sc_flights s"
  "sc_cfg (drop_subscriber sid smb s) = sc_cfg s"
  by (simp_all add: drop_subscriber_def Let_def split: option.splits)

lemma scheduled_drop_subscriber:
  "scheduled (drop_subscriber sid smb s) =
     (case scheduled s smb of
        None \<Rightarrow> scheduled s
      | Some sd \<Rightarrow> (scheduled s)(smb :=
          (if sd_subscribers sd - {sid} = {} then None
           else Some (sd\<lparr>sd_subscribers := sd_subscribers sd - {sid}\<rparr>))))"
  by (auto simp: drop_subscriber_def Let_def split: option.splits)

lemma subscribe_symbol_frame [simp]:
  "sc_calls (subscribe_symbol t sid smb s) = sc_calls s"
  "sc_flights (subscribe_symbol t sid smb s) = sc_flights s"
  "sc_cfg (subscribe_symbol t sid smb s) = sc_cfg s"
  by (simp_all add: subscribe_symbol_def Let_def start_timer_def split: option.splits)

lemma subscribe_symbol_new:
  "scheduled s smb = None \<Longrightarrow>
   scheduled (subscribe_symbol t sid smb s) = (scheduled s)(smb \<mapsto>
     \<lparr>sd_running = False, sd_timer = Some (length (sc_timers s)), sd_subscribers = {sid}\<rparr>) \<and>
   sc_timers (subscribe_symbol t sid smb s) =
     sc_timers s @ [\<lparr>tm_symbol = smb, tm_due = t, tm_state = Waiting\<rparr>]"
  by (simp add: subscribe_symbol_def Let_def start_timer_def new_schedule_def)

lemma subscribe_symbol_old:
  "scheduled s smb = Some sd \<Longrightarrow>
   scheduled (subscribe_symbol t sid smb s) =
     (scheduled s)(smb \<mapsto> sd\<lparr>sd_subscribers := insert sid (sd_subscribers sd)\<rparr>) \<and>
   sc_timers (subscribe_symbol t sid smb s) = sc_timers s"
  by (simp add: subscribe_symbol_def Let_def)

text \<open>A timer thread or a finished callback that sets the next timer.\<close>

lemma schedule_next_ok:
  assumes "next_delay (sc_cfg s) t1 t2 = Inr d" "scheduled s smb = Some sd"
  shows "scheduled (snd (schedule_next t1 t2 smb s)) =
      (scheduled s)(smb \<mapsto> sd\<lparr>sd_timer := Some (length (sc_timers s))\<rparr>)"
    "sc_timers (snd (schedule_next t1 t2 smb s)) =
      sc_timers s @ [\<lparr>tm_symbol = smb, tm_due = t2 + d, tm_state = Waiting\<rparr>]"
    "sc_calls (snd (schedule_next t1 t2 smb s)) = sc_calls s"
    "sc_flights (snd (schedule_next t1 t2 smb s)) = sc_flights s"
    "sc_cfg (snd (schedule_next t1 t2 smb s)) = sc_cfg s"
  using assms by (simp_all add: schedule_next_def start_timer_def)

lemma schedule_next_err:
  "next_delay (sc_cfg s) t1 t2 = Inl e \<Longrightarrow> snd (schedule_next t1 t2 smb s) = s"
  by (simp add: schedule_next_def)

section \<open>Subscriptions\<close>

definition subscriptions :: "scheduler \<Rightarrow> (string \<times> string) set" where
  "subscriptions s = {(sid, smb). \<exists>sd. scheduled s smb = Some sd \<and> sid \<in> sd_subscribers sd}"

definition served :: "scheduler \<Rightarrow> bool" where
  "served s \<longleftrightarrow> (\<forall>smb sd. scheduled s smb = Some sd \<longrightarrow> sd_subscribers sd \<noteq> {})"

fun subscription_step :: "sched_event \<Rightarrow> (string \<times> string) set \<Rightarrow> (string \<times> string) set" where
  "subscription_step (Subscribe t sid syms) R = R \<union> {sid} \<times> upper ` set syms"
| "subscription_step (Unsubscribe sid) R = R - {sid} \<times> UNIV"
| "subscription_step (Remove_Symbols sid syms) R = R - {sid} \<times> upper ` set syms"
| "subscription_step Shutdown R = {}"
| "subscription_step _ R = R"

lemma subscribe_symbol_subs:
  "served s \<Longrightarrow> subscriptions (subscribe_symbol t sid smb s) = insert (sid, smb) (subscriptions s) \<and>
   served (subscribe_symbol t sid smb s)"
proof (cases "scheduled s smb")
  case None
  then show "served s \<Longrightarrow> ?thesis"
    using subscribe_symbol_new [OF None, of t sid]
    by (auto simp: subscriptions_def served_def split: if_splits)
next
  case (Some sd)
  then show "served s \<Longrightarrow> ?thesis"
    using subscribe_symbol_old [OF Some, of t sid]
    by (auto simp: subscriptions_def served_def split: if_splits)
qed

lemma drop_subscriber_subs:
  "served s \<Longrightarrow> subscriptions (drop_subscriber sid smb s) = subscriptions s - {(sid, smb)} \<and>
   served (drop_subscriber sid smb s)"
  unfolding subscriptions_def served_def scheduled_drop_subscriber
  by (cases "scheduled s smb") (auto split: if_splits)

lemma fold_subscribe_subs:
  "served s \<Longrightarrow> subscriptions (fold (\<lambda>x. subscribe_symbol t sid (f x)) xs s) =
     subscriptions s \<union> {sid} \<times> f ` set xs \<and> served (fold (\<lambda>x. subscribe_symbol t sid (f x)) xs s)"
  by (induction xs arbitrary: s) (auto simp: subscribe_symbol_subs)

lemma fold_drop_subs:
  "served s \<Longrightarrow> subscriptions (fold (\<lambda>x. drop_subscriber sid (f x)) xs s) =
     subscriptions s - {sid} \<times> f ` set xs \<and> served (fold (\<lambda>x. drop_subscriber sid (f x)) xs s)"
  by (induction xs arbitrary: s) (auto simp: drop_subscriber_subs)

lemma fold_cancel_scheduled:
  "scheduled (fold cancel xs s) = (\<lambda>smb. if smb \<in> set xs then None else scheduled s smb)"
  by (induction xs arbitrary: s) auto

lemma scheduled_keys: "smb \<notin> fst ` set (sc_schedules s) \<Longrightarrow> scheduled s smb = None"
  by (simp add: map_of_eq_None_iff)

lemma unsubscribe_subs:
  assumes "served s"
  shows "subscriptions (unsubscribe sid s) = subscriptions s - {sid} \<times> UNIV \<and> served (unsubscribe sid s)"
proof -
  have "subscriptions s - {sid} \<times> id ` set (map fst (sc_schedules s)) = subscriptions s - {sid} \<times> UNIV"
    using scheduled_keys [of _ s] by (force simp: subscriptions_def)
  then show ?thesis
    using fold_drop_subs [OF assms, of sid id "map fst (sc_schedules s)"]
    by (simp add: unsubscribe_def)
qed

text \<open>The threads of the timers and callbacks leave the subscribers alone.\<close>

definition same_subscribers :: "scheduler \<Rightarrow> scheduler \<Rightarrow> bool" where
  "same_subscribers s s' \<longleftrightarrow>
     (\<forall>smb. map_option sd_subscribers (scheduled s' smb) = map_option sd_subscribers (scheduled s smb))"

lemma same_subscribers_subs:
  assumes "same_subscribers s s'"
  shows "subscriptions s' = subscriptions s \<and> (served s' \<longleftrightarrow> served s)"
proof -
  have "(\<exists>sd. scheduled s' smb = Some sd \<and> P (sd_subscribers sd)) \<longleftrightarrow>
        (\<exists>sd. scheduled s smb = Some sd \<and> P (sd_subscribers sd))" for smb P
    using assms [unfolded same_subscribers_def, rule_format, of smb]
    by (cases "scheduled s' smb"; cases "scheduled s smb") auto
  note eq = this
  have "served s' \<longleftrightarrow> served s"
    unfolding served_def using eq [of _ "\<lambda>X. X = {}"] by blast
  moreover have "subscriptions s' = subscriptions s"
    unfolding subscriptions_def using eq [of _ "\<lambda>X. _ \<in> X"] by blast
  ultimately show ?thesis by simp
qed

lemma schedule_next_same: "same_subscribers s (snd (schedule_next t1 t2 smb s))"
  by (auto simp: same_subscribers_def schedule_next_def start_timer_def split: sum.splits option.splits)

lemma same_subscribers_trans:
  "same_subscribers s s' \<Longrightarrow> same_subscribers s' s'' \<Longrightarrow> same_subscribers s s''"
  by (simp add: same_subscribers_def)

lemma run_symbol_same: "same_subscribers s (snd (run_symbol t0 t1 t2 smb s))"
  using schedule_next_same [of s t1 t2 smb]
  by (auto simp: run_symbol_def same_subscribers_def split: option.splits sum.splits)

lemma on_done_same: "same_subscribers s (snd (on_done t1 t2 smb s))"
proof (cases "scheduled s smb")
  case (Some sd)
  then have "same_subscribers s (set_schedule smb (sd\<lparr>sd_running := False\<rparr>) s)"
    by (simp add: same_subscribers_def)
  then show ?thesis
    using Some schedule_next_same by (auto simp: on_done_def intro: same_subscribers_trans)
qed (simp add: on_done_def same_subscribers_def)

lemma same_tables: "sc_schedules s' = sc_schedules s \<Longrightarrow> same_subscribers s s'"
  by (simp add: same_subscribers_def)

lemma sched_step_subs:
  assumes "served s" "sched_step e s = Some s'"
  shows "subscriptions s' = subscription_step e (subscriptions s) \<and> served s'"
proof (cases e)
  case (Subscribe t sid syms)
  then show ?thesis using assms fold_subscribe_subs [OF assms(1)] by (auto simp: subscribe_def)
next
  case (Unsubscribe sid)
  then show ?thesis using assms unsubscribe_subs by auto
next
  case (Remove_Symbols sid syms)
  then show ?thesis using assms fold_drop_subs [OF assms(1)] by (auto simp: remove_symbols_def)
next
  case Shutdown
  then have "scheduled s' smb = None" for smb
    using assms(2) scheduled_keys [of smb s] by (auto simp: shutdown_def fold_cancel_scheduled)
  then show ?thesis using Shutdown by (simp add: subscriptions_def served_def)
next
  case (Fire t i)
  then show ?thesis
    using assms same_subscribers_subs [OF same_tables, of s' s] by (auto split: if_splits)
next
  case (Tick t0 t1 t2 smb)
  then have "same_subscribers s s'"
    using assms(2) run_symbol_same [of "s\<lparr>sc_calls := remove1 smb (sc_calls s)\<rparr>"]
    by (auto simp: same_subscribers_def split: if_splits)
  then show ?thesis using Tick assms(1) same_subscribers_subs by simp
next
  case (Done t1 t2 smb)
  then have "same_subscribers s s'"
    using assms(2) on_done_same [of "s\<lparr>sc_flights := remove1 smb (sc_flights s)\<rparr>"]
    by (auto simp: same_subscribers_def split: if_splits)
  then show ?thesis using Done assms(1) same_subscribers_subs by simp
next
  case (Calibrate off)
  then show ?thesis
    using assms same_subscribers_subs [OF same_tables, of s' s] by auto
qed

lemma sched_run_subs:
  assumes "sched_run es (new_scheduler cfg) = Some s"
  shows "subscriptions s = fold subscription_step es {}" "served s"
proof -
  have run: "sched_run es s0 = Some s \<Longrightarrow> served s0 \<Longrightarrow>
      subscriptions s = fold subscription_step es (subscriptions s0) \<and> served s" for s0
    by (induction es arbitrary: s0) (auto split: option.splits dest: sched_step_subs)
  have "served (new_scheduler cfg)" "subscriptions (new_scheduler cfg) = {}"
    by (simp_all add: served_def subscriptions_def new_scheduler_def)
  then show "subscriptions s = fold subscription_step es {}" "served s" using run [OF assms] by simp_all
qed

lemma served_scheduled: "served s \<Longrightarrow> scheduled s smb \<noteq> None \<longleftrightarrow> (\<exists>sid. (sid, smb) \<in> subscriptions s)"
  by (cases "scheduled s smb") (auto simp: served_def subscriptions_def)

text \<open>
  C9: the scheduler implements a relation between subscribers and symbols. After any run the
  subscribers of the schedules are what the calls subscribed and did not take back, and a symbol
  has a schedule exactly when somebody is subscribed to it.
\<close>

theorem schedules_are_subscriptions:
  assumes "sched_run es (new_scheduler cfg) = Some s"
  shows "subscriptions s = fold subscription_step es {} \<and>
    (\<forall>smb. scheduled s smb \<noteq> None \<longleftrightarrow> (\<exists>sid. (sid, smb) \<in> subscriptions s))"
  using sched_run_subs [OF assms] served_scheduled by blast

section \<open>The wake-up ahead\<close>

text \<open>
  A symbol is awake before \<open>h\<close>: it is being analysed, the thread of one of its timers waits for the
  lock, or one of its timers is running and due by \<open>h\<close>.
\<close>

definition awake :: "ms \<Rightarrow> scheduler \<Rightarrow> string \<Rightarrow> bool" where
  "awake h s smb \<longleftrightarrow> smb \<in> set (sc_flights s) \<or> smb \<in> set (sc_calls s) \<or>
     (\<exists>tm \<in> set (sc_timers s). tm_symbol tm = smb \<and> tm_state tm = Waiting \<and> tm_due tm \<le> h)"

definition own_timer :: "scheduler \<Rightarrow> string \<Rightarrow> schedule \<Rightarrow> bool" where
  "own_timer s smb sd \<longleftrightarrow>
     (\<exists>i < length (sc_timers s). sd_timer sd = Some i \<and> tm_symbol (sc_timers s ! i) = smb)"

definition attended :: "ms \<Rightarrow> scheduler \<Rightarrow> string \<Rightarrow> bool" where
  "attended h s smb \<longleftrightarrow>
     (\<forall>sd. scheduled s smb = Some sd \<longrightarrow>
        own_timer s smb sd \<and> awake h s smb \<and> (sd_running sd \<longrightarrow> smb \<in> set (sc_flights s)))"

text \<open>Threads and timers of other symbols do not matter.\<close>

definition timers_kept :: "scheduler \<Rightarrow> scheduler \<Rightarrow> string \<Rightarrow> bool" where
  "timers_kept s s' smb \<longleftrightarrow>
     length (sc_timers s) \<le> length (sc_timers s') \<and>
     (\<forall>i < length (sc_timers s). tm_symbol (sc_timers s' ! i) = tm_symbol (sc_timers s ! i) \<and>
        (tm_symbol (sc_timers s ! i) = smb \<longrightarrow> sc_timers s' ! i = sc_timers s ! i))"

lemma timers_kept_refl: "timers_kept s s smb"
  by (simp add: timers_kept_def)

lemma timers_kept_awake:
  assumes "timers_kept s s' smb" "awake h s smb"
    "smb \<in> set (sc_flights s) \<Longrightarrow> smb \<in> set (sc_flights s')" "smb \<in> set (sc_calls s) \<Longrightarrow> smb \<in> set (sc_calls s')"
  shows "awake h s' smb"
proof (cases "smb \<in> set (sc_flights s) \<or> smb \<in> set (sc_calls s)")
  case True
  then show ?thesis using assms(3,4) by (auto simp: awake_def)
next
  case False
  then obtain i where i: "i < length (sc_timers s)" and tm: "tm_symbol (sc_timers s ! i) = smb"
    "tm_state (sc_timers s ! i) = Waiting" "tm_due (sc_timers s ! i) \<le> h"
    using assms(2) by (auto simp: awake_def in_set_conv_nth)
  have "i < length (sc_timers s')" "sc_timers s' ! i = sc_timers s ! i"
    using assms(1) i tm(1) by (simp_all add: timers_kept_def)
  then show ?thesis using tm unfolding awake_def by (metis nth_mem)
qed

lemma timers_kept_own:
  "timers_kept s s' smb \<Longrightarrow> own_timer s smb' sd \<Longrightarrow> own_timer s' smb' sd"
  by (auto simp: timers_kept_def own_timer_def)

lemma attended_kept:
  assumes "attended h s smb" "timers_kept s s' smb"
    and "scheduled s' smb = scheduled s smb"
    and "smb \<in> set (sc_flights s) \<Longrightarrow> smb \<in> set (sc_flights s')"
    and "smb \<in> set (sc_calls s) \<Longrightarrow> smb \<in> set (sc_calls s')"
  shows "attended h s' smb"
  using assms timers_kept_awake [OF assms(2)] timers_kept_own [OF assms(2)]
  unfolding attended_def by metis

lemma kept_cancel:
  assumes "\<forall>sd. scheduled s smb = Some sd \<longrightarrow> own_timer s smb sd" "smb' \<noteq> smb"
  shows "timers_kept s (cancel smb s) smb'"
  using assms
  by (auto simp: cancel_def Let_def timers_kept_def cancel_timer_def own_timer_def nth_list_update
      split: option.splits)

lemma kept_append: "sc_timers s' = sc_timers s @ ts \<Longrightarrow> timers_kept s s' smb"
  by (simp add: timers_kept_def nth_append)

lemma attended_cancel:
  assumes "\<And>smb. attended h s smb"
  shows "attended h (cancel x s) smb"
proof (cases "smb = x")
  case True
  then show ?thesis by (simp add: attended_def)
next
  case False
  have "timers_kept s (cancel x s) smb"
    using assms [of x] False by (intro kept_cancel) (auto simp: attended_def)
  then show ?thesis using False by (intro attended_kept [OF assms]) simp_all
qed

lemma attended_drop:
  assumes "\<And>smb. attended h s smb"
  shows "attended h (drop_subscriber sid x s) smb"
proof (cases "scheduled s x")
  case None
  then show ?thesis using assms by (simp add: drop_subscriber_def)
next
  case (Some sd)
  define s' where "s' = set_schedule x (sd\<lparr>sd_subscribers := sd_subscribers sd - {sid}\<rparr>) s"
  have "attended h s' y" for y
    using assms [of y] Some by (auto simp: attended_def s'_def awake_def own_timer_def)
  moreover have "drop_subscriber sid x s = (if sd_subscribers sd - {sid} = {} then cancel x s' else s')"
    using Some by (simp add: drop_subscriber_def s'_def Let_def)
  ultimately show ?thesis by (simp add: attended_cancel)
qed

lemma attended_subscribe:
  assumes "\<And>smb. attended h s smb" "t \<le> h"
  shows "attended h (subscribe_symbol t sid x s) smb"
proof (cases "scheduled s x")
  case None
  note new = subscribe_symbol_new [OF None, of t sid]
  show ?thesis
  proof (cases "smb = x")
    case True
    with new assms(2) show ?thesis by (simp add: attended_def own_timer_def awake_def nth_append)
  next
    case False
    with new show ?thesis by (intro attended_kept [OF assms(1)] kept_append) auto
  qed
next
  case (Some sd)
  note old = subscribe_symbol_old [OF Some, of t sid]
  then show ?thesis
    using assms(1) [of smb] Some
    by (auto simp: attended_def own_timer_def awake_def)
qed

lemma fold_keeps: "(\<And>x s. P s \<Longrightarrow> P (f x s)) \<Longrightarrow> P s \<Longrightarrow> P (fold f xs s)"
  by (induction xs arbitrary: s) auto

text \<open>The settings and clock readings under which no reading raises.\<close>

definition offset_ok :: "int \<Rightarrow> bool" where
  "offset_ok off \<longleftrightarrow> \<bar>off\<bar> \<le> 86400000"

definition cfg_ok :: "int \<Rightarrow> settings \<Rightarrow> bool" where
  "cfg_ok iv cfg \<longleftrightarrow>
     base_interval cfg = Inr iv \<and> 0 < iv \<and> weekend_fields_ok cfg \<and> offset_ok (g_broker_time_offset_ms cfg)"

definition reading_ok :: "ms \<Rightarrow> ms \<Rightarrow> bool" where
  "reading_ok h t \<longleftrightarrow> 0 \<le> t \<and> t \<le> h \<and> h \<le> 253370764800000"

fun event_ok :: "ms \<Rightarrow> sched_event \<Rightarrow> bool" where
  "event_ok h (Subscribe t _ _) = reading_ok h t"
| "event_ok h (Tick t0 t1 t2 _) = (reading_ok h t0 \<and> reading_ok h t1 \<and> reading_ok h t2)"
| "event_ok h (Done t1 t2 _) = (reading_ok h t1 \<and> reading_ok h t2)"
| "event_ok h (Calibrate off) = offset_ok off"
| "event_ok h _ = True"

definition longest_wait :: "int \<Rightarrow> ms" where
  "longest_wait iv = max (WEEK_S * 1000) (iv * 60000 + CANDLE_BUFFER_MS)"

lemma reading_timestamp:
  "reading_ok h t \<Longrightarrow> offset_ok off \<Longrightarrow> from_timestamp (t + off) = Inr ()"
  by (auto simp: reading_ok_def offset_ok_def from_timestamp_def abs_less_iff abs_le_iff not_le)

lemma weekend_sleep_total:
  assumes "cfg_ok iv cfg" "reading_ok h t"
  shows "\<exists>w. weekend_sleep_delay_ms cfg t = Inr w \<and> (\<forall>d. w = Some d \<longrightarrow> d \<le> WEEK_S * 1000)"
proof (cases "g_weekend_sleep_enabled cfg")
  case True
  have ok: "weekend_fields_ok cfg" using assms(1) by (simp add: cfg_ok_def)
  have "from_timestamp (t + g_broker_time_offset_ms cfg) = Inr ()"
    using assms by (intro reading_timestamp) (auto simp: cfg_ok_def)
  note circle = weekend_sleep_circle [OF True ok this]
  show ?thesis
    unfolding circle
    using closed_span_short [OF ok] past_close_range(1) [of cfg "week_second cfg t"]
    by (auto simp: CANDLE_BUFFER_MS_def)
qed (simp add: weekend_sleep_delay_ms_def)

lemma next_delay_total:
  assumes "cfg_ok iv cfg" "reading_ok h t1"
  shows "\<exists>d. next_delay cfg t1 t2 = Inr d \<and> d \<le> longest_wait iv"
proof -
  obtain w where w: "weekend_sleep_delay_ms cfg t1 = Inr w" "\<And>d. w = Some d \<Longrightarrow> d \<le> WEEK_S * 1000"
    using weekend_sleep_total [OF assms] by blast
  have iv: "base_interval cfg = Inr iv" "0 < iv" using assms(1) by (auto simp: cfg_ok_def)
  obtain b where "ms_until_next_boundary iv t2 = Inr (b - t2 + CANDLE_BUFFER_MS)" "b \<le> t2 + iv * 60000"
    using next_boundary_is_least [OF iv(2), of t2] by blast
  with w iv show ?thesis
    by (cases w) (auto simp: next_delay_def longest_wait_def)
qed

lemma schedule_next_total:
  assumes "cfg_ok iv (sc_cfg s)" "reading_ok h t1" "reading_ok h t2" "scheduled s smb = Some sd"
  obtains d where "t2 + d \<le> h + longest_wait iv"
    "scheduled (snd (schedule_next t1 t2 smb s)) =
      (scheduled s)(smb \<mapsto> sd\<lparr>sd_timer := Some (length (sc_timers s))\<rparr>)"
    "sc_timers (snd (schedule_next t1 t2 smb s)) =
      sc_timers s @ [\<lparr>tm_symbol = smb, tm_due = t2 + d, tm_state = Waiting\<rparr>]"
    "sc_calls (snd (schedule_next t1 t2 smb s)) = sc_calls s"
    "sc_flights (snd (schedule_next t1 t2 smb s)) = sc_flights s"
    "sc_cfg (snd (schedule_next t1 t2 smb s)) = sc_cfg s"
proof -
  obtain d where d: "next_delay (sc_cfg s) t1 t2 = Inr d" "d \<le> longest_wait iv"
    using next_delay_total [OF assms(1,2)] by blast
  moreover have "t2 \<le> h" using assms(3) by (simp add: reading_ok_def)
  ultimately show ?thesis
    by (intro that [of d] schedule_next_ok [OF d(1) assms(4)]) simp
qed

section \<open>Every step attends to every symbol\<close>

lemma attended_schedule_next:
  assumes ok: "cfg_ok iv (sc_cfg s)" "reading_ok h t1" "reading_ok h t2" and sd: "scheduled s x = Some sd"
    and hz: "h + longest_wait iv \<le> h'"
    and run: "sd_running sd \<Longrightarrow> x \<in> set (sc_flights s)"
    and others: "\<And>y. y \<noteq> x \<Longrightarrow> attended h' s y"
  shows "attended h' (snd (schedule_next t1 t2 x s)) smb"
proof (rule schedule_next_total [OF ok sd])
  fix d
  let ?s = "snd (schedule_next t1 t2 x s)"
  assume due: "t2 + d \<le> h + longest_wait iv"
    and tab: "scheduled ?s = (scheduled s)(x \<mapsto> sd\<lparr>sd_timer := Some (length (sc_timers s))\<rparr>)"
    and tms: "sc_timers ?s = sc_timers s @ [\<lparr>tm_symbol = x, tm_due = t2 + d, tm_state = Waiting\<rparr>]"
    and same: "sc_calls ?s = sc_calls s" "sc_flights ?s = sc_flights s"
  show ?thesis
  proof (cases "smb = x")
    case True
    then show ?thesis
      using tab tms same due hz run by (simp add: attended_def own_timer_def awake_def nth_append)
  next
    case False
    then show ?thesis
      using tab same by (intro attended_kept [OF others kept_append [OF tms]]) simp_all
  qed
qed

lemma attended_fire:
  assumes att: "\<And>y. attended h s y" and step: "sched_step (Fire t i) s = Some s'"
  shows "attended h s' smb"
proof -
  let ?x = "tm_symbol (sc_timers s ! i)"
  have i: "i < length (sc_timers s)"
    and s': "s' = s\<lparr>sc_timers := (sc_timers s)[i := (sc_timers s ! i)\<lparr>tm_state := Fired\<rparr>],
                    sc_calls := sc_calls s @ [?x]\<rparr>"
    using step by (auto split: if_splits)
  show ?thesis
  proof (cases "smb = ?x")
    case True
    then show ?thesis
      using att [of smb] i unfolding s' attended_def own_timer_def awake_def
      by (auto simp: nth_list_update)
  next
    case False
    then have "timers_kept s s' smb"
      using i unfolding s' timers_kept_def by (auto simp: nth_list_update)
    then show ?thesis unfolding s' by (intro attended_kept [OF att]) auto
  qed
qed

lemma attended_tick:
  assumes att: "\<And>y. attended h' s y" and cfg: "cfg_ok iv (sc_cfg s)"
    and ev: "event_ok h (Tick t0 t1 t2 x)" and hz: "h + longest_wait iv \<le> h'"
    and step: "sched_step (Tick t0 t1 t2 x) s = Some s'"
  shows "attended h' s' smb"
proof -
  define s1 where "s1 = s\<lparr>sc_calls := remove1 x (sc_calls s)\<rparr>"
  have s': "s' = snd (run_symbol t0 t1 t2 x s1)" using step by (auto simp: s1_def split: if_splits)
  have s1: "scheduled s1 = scheduled s" "sc_flights s1 = sc_flights s" "sc_cfg s1 = sc_cfg s"
    by (simp_all add: s1_def)
  have others: "attended h' s1 y" if "y \<noteq> x" for y
    using that timers_kept_refl [of s y]
    by (intro attended_kept [OF att, of s1 y]) (auto simp: s1_def timers_kept_def)
  have tick: "reading_ok h t0" "reading_ok h t1" "reading_ok h t2" using ev by auto
  show ?thesis
  proof (cases "scheduled s x")
    case None
    then show ?thesis
      using others [of smb] by (cases "smb = x") (simp_all add: s' run_symbol_def s1 attended_def)
  next
    case (Some sd)
    then have run: "sd_running sd \<Longrightarrow> x \<in> set (sc_flights s1)" and own: "own_timer s1 x sd"
      using att [of x] by (auto simp: attended_def s1_def own_timer_def)
    obtain w where w: "weekend_sleep_delay_ms (sc_cfg s1) t0 = Inr w"
      using weekend_sleep_total [OF cfg tick(1)] by (auto simp: s1)
    consider (busy) "sd_running sd" | (sleeps) d where "\<not> sd_running sd" "w = Some d"
      | (runs) "\<not> sd_running sd" "w = None" by (cases w) auto
    then show ?thesis
    proof cases
      case busy
      then have "s' = s1" using Some by (simp add: s' run_symbol_def s1)
      then show ?thesis
        using others [of smb] Some run own busy
        by (cases "smb = x") (simp_all add: attended_def awake_def s1)
    next
      case sleeps
      then have "s' = snd (schedule_next t1 t2 x s1)" using Some w by (simp add: s' run_symbol_def s1)
      then show ?thesis
        using attended_schedule_next [OF _ tick(2,3) _ hz run others] Some cfg by (simp add: s1)
    next
      case runs
      then have s'': "s' = (set_schedule x (sd\<lparr>sd_running := True\<rparr>) s1)\<lparr>sc_flights := sc_flights s1 @ [x]\<rparr>"
        using Some w by (simp add: s' run_symbol_def s1)
      show ?thesis
      proof (cases "smb = x")
        case True
        then show ?thesis using own by (simp add: s'' attended_def awake_def own_timer_def)
      next
        case False
        then show ?thesis
          by (intro attended_kept [OF others]) (auto simp: s'' timers_kept_def)
      qed
    qed
  qed
qed

lemma attended_done:
  assumes att: "\<And>y. attended h' s y" and cfg: "cfg_ok iv (sc_cfg s)"
    and ev: "event_ok h (Done t1 t2 x)" and hz: "h + longest_wait iv \<le> h'"
    and step: "sched_step (Done t1 t2 x) s = Some s'"
  shows "attended h' s' smb"
proof -
  define s1 where "s1 = s\<lparr>sc_flights := remove1 x (sc_flights s)\<rparr>"
  have s': "s' = snd (on_done t1 t2 x s1)" using step by (auto simp: s1_def split: if_splits)
  have others: "attended h' s1 y" if "y \<noteq> x" for y
    using that by (intro attended_kept [OF att, of s1 y]) (auto simp: s1_def timers_kept_def)
  show ?thesis
  proof (cases "scheduled s x")
    case None
    then show ?thesis
      using others [of smb] by (cases "smb = x") (simp_all add: s' on_done_def s1_def attended_def)
  next
    case (Some sd)
    define s2 where "s2 = set_schedule x (sd\<lparr>sd_running := False\<rparr>) s1"
    have s2: "s' = snd (schedule_next t1 t2 x s2)" "cfg_ok iv (sc_cfg s2)"
      "scheduled s2 x = Some (sd\<lparr>sd_running := False\<rparr>)"
      using Some cfg by (simp_all add: s' on_done_def s1_def s2_def)
    have "attended h' s2 y" if "y \<noteq> x" for y
      using that by (intro attended_kept [OF others]) (auto simp: s2_def timers_kept_def)
    then show ?thesis
      unfolding s2(1) using ev by (intro attended_schedule_next [OF s2(2) _ _ s2(3) hz]) auto
  qed
qed

lemma schedule_next_cfg: "sc_cfg (snd (schedule_next t1 t2 smb s)) = sc_cfg s"
  by (simp add: schedule_next_def start_timer_def split: sum.splits option.splits)

lemma run_symbol_cfg: "sc_cfg (snd (run_symbol t0 t1 t2 smb s)) = sc_cfg s"
  by (simp add: run_symbol_def schedule_next_cfg split: sum.splits option.splits)

lemma on_done_cfg: "sc_cfg (snd (on_done t1 t2 smb s)) = sc_cfg s"
  by (simp add: on_done_def schedule_next_cfg split: option.splits)

lemma fold_cfg: "(\<And>x s. sc_cfg (f x s) = sc_cfg s) \<Longrightarrow> sc_cfg (fold f xs s) = sc_cfg s"
  by (induction xs arbitrary: s) auto

lemma cfg_ok_offset:
  "cfg_ok iv cfg \<Longrightarrow> offset_ok off \<Longrightarrow> cfg_ok iv (cfg\<lparr>g_broker_time_offset_ms := off\<rparr>)"
  by (simp add: cfg_ok_def base_interval_def weekend_fields_ok_def)

lemma cfg_ok_step:
  assumes "cfg_ok iv (sc_cfg s)" "event_ok h e" "sched_step e s = Some s'"
  shows "cfg_ok iv (sc_cfg s')"
  using assms
  by (cases e) (auto simp: subscribe_def unsubscribe_def remove_symbols_def shutdown_def fold_cfg
      run_symbol_cfg on_done_cfg cfg_ok_offset split: if_splits)

lemma attended_step:
  assumes att: "\<And>y. attended h' s y" and cfg: "cfg_ok iv (sc_cfg s)"
    and ev: "event_ok h e" and hz: "h + longest_wait iv \<le> h'"
    and step: "sched_step e s = Some s'"
  shows "attended h' s' smb"
proof -
  have wait: "0 \<le> longest_wait iv" by (simp add: longest_wait_def WEEK_S_def)
  have drops: "\<forall>y. attended h' (fold (\<lambda>x. drop_subscriber sid (f x)) xs s) y" for sid f and xs :: "string list"
    by (rule fold_keeps [where P = "\<lambda>s. \<forall>y. attended h' s y"]) (auto simp: att attended_drop)
  show ?thesis
  proof (cases e)
    case (Subscribe t sid syms)
    then have "t \<le> h'" using ev hz wait by (auto simp: reading_ok_def)
    then have "\<forall>y. attended h' (fold (\<lambda>x. subscribe_symbol t sid (upper x)) syms s) y"
      by (intro fold_keeps [where P = "\<lambda>s. \<forall>y. attended h' s y"]) (auto simp: att attended_subscribe)
    then show ?thesis using step Subscribe by (auto simp: subscribe_def)
  next
    case (Unsubscribe sid)
    then show ?thesis using step drops [of sid id] by (auto simp: unsubscribe_def)
  next
    case (Remove_Symbols sid syms)
    then show ?thesis using step drops [of sid upper] by (auto simp: remove_symbols_def)
  next
    case Shutdown
    have "\<forall>y. attended h' (fold cancel (map fst (sc_schedules s)) s) y"
      by (rule fold_keeps [where P = "\<lambda>s. \<forall>y. attended h' s y"]) (auto simp: att attended_cancel)
    then show ?thesis using step Shutdown by (auto simp: shutdown_def)
  next
    case (Fire t i)
    then show ?thesis using attended_fire [OF att] step by simp
  next
    case (Tick t0 t1 t2 x)
    then show ?thesis using attended_tick [OF att cfg _ hz] step ev by simp
  next
    case (Done t1 t2 x)
    then show ?thesis using attended_done [OF att cfg _ hz] step ev by simp
  next
    case (Calibrate off)
    then show ?thesis using att [of smb] step by (auto simp: attended_def awake_def own_timer_def)
  qed
qed

lemma attended_run:
  "sched_run es s = Some s' \<Longrightarrow> (\<And>y. attended h' s y) \<Longrightarrow> cfg_ok iv (sc_cfg s) \<Longrightarrow>
   \<forall>e \<in> set es. event_ok h e \<Longrightarrow> h + longest_wait iv \<le> h' \<Longrightarrow> attended h' s' smb"
proof (induction es arbitrary: s)
  case (Cons e es)
  then obtain s1 where s1: "sched_step e s = Some s1" "sched_run es s1 = Some s'"
    by (auto split: option.splits)
  show ?case
    using Cons.prems s1 by (intro Cons.IH [OF s1(2)] attended_step [OF _ _ _ _ s1(1)] cfg_ok_step [OF _ _ s1(1)]) auto
qed simp

lemma attended_new: "attended h (new_scheduler cfg) smb"
  by (simp add: attended_def new_scheduler_def)

lemma idle_symbol_starts:
  assumes "scheduled s smb = Some sd" "\<not> sd_running sd" "smb \<in> set (sc_calls s)"
    "weekend_sleep_delay_ms (sc_cfg s) t = Inr None"
  shows "\<exists>s'. sched_run [Tick t t t smb] s = Some s' \<and> smb \<in> set (sc_flights s')"
  using assms by (simp add: run_symbol_def)

text \<open>
  C6: a subscribed symbol never stalls. In every state reached, whatever was subscribed, dropped,
  fired or finished in between, either an analysis of the symbol is running, or one starts within
  two steps (a timer of the symbol fires, its thread gets the lock) at any open instant later than
  the last clock reading by the longest wait, a week or the shortest candle.
\<close>

theorem subscribed_symbol_never_stalls:
  assumes run: "sched_run es (new_scheduler cfg) = Some s" and cfg: "cfg_ok iv cfg"
    and ev: "\<forall>e \<in> set es. event_ok h e" and sub: "(sid, smb) \<in> subscriptions s"
    and late: "h + longest_wait iv \<le> t" and open_market: "weekend_sleep_delay_ms (sc_cfg s) t = Inr None"
  shows "smb \<in> set (sc_flights s) \<or>
    (\<exists>es' \<in> insert [Tick t t t smb] (range (\<lambda>i. [Fire t i, Tick t t t smb])).
       \<exists>s'. sched_run es' s = Some s' \<and> smb \<in> set (sc_flights s'))"
proof (cases "smb \<in> set (sc_flights s)")
  case False
  obtain sd where sd: "scheduled s smb = Some sd" using sub by (auto simp: subscriptions_def)
  have "attended t s smb"
    using attended_run [OF run attended_new _ ev late] cfg by (simp add: new_scheduler_def)
  with sd False have idle: "\<not> sd_running sd" and aw: "awake t s smb" by (auto simp: attended_def)
  show ?thesis
  proof (cases "smb \<in> set (sc_calls s)")
    case True
    with idle_symbol_starts [OF sd idle True open_market] show ?thesis by blast
  next
    case no_call: False
    with aw False obtain i where i: "i < length (sc_timers s)" "tm_symbol (sc_timers s ! i) = smb"
      "tm_state (sc_timers s ! i) = Waiting" "tm_due (sc_timers s ! i) \<le> t"
      by (auto simp: awake_def in_set_conv_nth)
    obtain s1 where s1: "sched_step (Fire t i) s = Some s1" "scheduled s1 = scheduled s"
      "smb \<in> set (sc_calls s1)" "sc_cfg s1 = sc_cfg s"
      using i by simp
    have "\<exists>s'. sched_run [Tick t t t smb] s1 = Some s' \<and> smb \<in> set (sc_flights s')"
      using s1 sd idle open_market by (intro idle_symbol_starts) simp_all
    then have "\<exists>s'. sched_run [Fire t i, Tick t t t smb] s = Some s' \<and> smb \<in> set (sc_flights s')"
      by (simp only: sched_run.simps s1(1) option.case)
    then show ?thesis by blast
  qed
qed simp

end
