(* ===== verification/Scheduler_Flights.thy ===== *)
theory Scheduler_Flights
  imports Scheduler_Threads
begin

text \<open>
  At most one thread per symbol: a timer that runs, a timer thread that waits for the lock, or an
  analysis. It holds as long as no symbol loses its last subscriber while a thread of it is
  under way, and fails whenever one does during its analysis and is subscribed again. Worked runs
  stand at the end.
\<close>

section \<open>The threads of a symbol\<close>

definition live_timers :: "scheduler \<Rightarrow> string \<Rightarrow> nat" where
  "live_timers s smb =
     length (filter (\<lambda>tm. tm_symbol tm = smb \<and> tm_state tm = Waiting) (sc_timers s))"

definition threads :: "scheduler \<Rightarrow> string \<Rightarrow> nat" where
  "threads s smb = live_timers s smb + count_list (sc_calls s) smb + count_list (sc_flights s) smb"

definition idle :: "scheduler \<Rightarrow> string \<Rightarrow> bool" where
  "idle s smb \<longleftrightarrow> smb \<notin> set (sc_calls s) \<and> smb \<notin> set (sc_flights s)"

text \<open>A run in which a symbol is dropped only while it is idle.\<close>

definition quiet_change :: "scheduler \<Rightarrow> scheduler \<Rightarrow> bool" where
  "quiet_change s s' \<longleftrightarrow>
     (\<forall>smb \<in> fst ` set (sc_schedules s). scheduled s' smb = None \<longrightarrow> idle s smb)"

fun quiet_run :: "sched_event list \<Rightarrow> scheduler \<Rightarrow> bool" where
  "quiet_run [] s = True"
| "quiet_run (e # es) s =
     (case sched_step e s of None \<Rightarrow> True | Some s' \<Rightarrow> quiet_change s s' \<and> quiet_run es s')"

section \<open>The invariant\<close>

definition waits :: "scheduler \<Rightarrow> string \<Rightarrow> nat set" where
  "waits s smb = {i. i < length (sc_timers s) \<and> tm_symbol (sc_timers s ! i) = smb \<and>
                     tm_state (sc_timers s ! i) = Waiting}"

lemma live_timers_waits: "live_timers s smb = card (waits s smb)"
  by (simp add: live_timers_def waits_def length_filter_conv_card)

definition lonely :: "scheduler \<Rightarrow> string \<Rightarrow> bool" where
  "lonely s smb \<longleftrightarrow>
     (case scheduled s smb of
        None \<Rightarrow> waits s smb = {} \<and> idle s smb
      | Some sd \<Rightarrow>
          if sd_running sd
          then waits s smb = {} \<and> smb \<notin> set (sc_calls s) \<and> count_list (sc_flights s) smb \<le> 1
          else smb \<notin> set (sc_flights s) \<and>
               (waits s smb = {} \<and> count_list (sc_calls s) smb \<le> 1 \<or>
                smb \<notin> set (sc_calls s) \<and> waits s smb \<subseteq> set_option (sd_timer sd)))"

lemma lonely_threads: "lonely s smb \<Longrightarrow> threads s smb \<le> 1"
proof -
  assume l: "lonely s smb"
  have "card (set_option x) \<le> 1" for x :: "nat option" by (cases x) simp_all
  moreover have "waits s smb \<subseteq> set_option x \<Longrightarrow> card (waits s smb) \<le> card (set_option x)" for x
    by (intro card_mono) simp_all
  ultimately have "waits s smb \<subseteq> set_option x \<Longrightarrow> card (waits s smb) \<le> 1" for x
    using order_trans by blast
  with l show ?thesis
    by (auto simp: lonely_def threads_def live_timers_waits idle_def count_list_0_iff
        split: option.splits if_splits)
qed

lemma in_set_count: "x \<in> set xs \<longleftrightarrow> count_list xs x \<noteq> 0"
  by (simp add: count_list_0_iff)

lemma once_removed: "count_list xs x \<le> 1 \<Longrightarrow> x \<in> set xs \<Longrightarrow> x \<notin> set (remove1 x xs)"
  by (simp add: in_set_count [of x "remove1 x xs"])

lemma lonely_mono:
  assumes "lonely s smb" "scheduled s' smb = scheduled s smb" "waits s' smb \<subseteq> waits s smb"
    "count_list (sc_calls s') smb = count_list (sc_calls s) smb"
    "count_list (sc_flights s') smb = count_list (sc_flights s) smb"
  shows "lonely s' smb"
proof -
  have "smb \<in> set (sc_calls s') \<longleftrightarrow> smb \<in> set (sc_calls s)"
    "smb \<in> set (sc_flights s') \<longleftrightarrow> smb \<in> set (sc_flights s)"
    using assms(4,5) by (simp_all add: in_set_count)
  with assms show ?thesis
    by (auto simp: lonely_def idle_def split: option.splits if_splits)
qed

lemma waits_append:
  "sc_timers s' = sc_timers s @ [tm] \<Longrightarrow>
   waits s' smb = waits s smb \<union> (if tm_symbol tm = smb \<and> tm_state tm = Waiting then {length (sc_timers s)} else {})"
  by (auto simp: waits_def nth_append less_Suc_eq split: if_splits)

lemma waits_same: "sc_timers s' = sc_timers s \<Longrightarrow> waits s' smb = waits s smb"
  by (simp add: waits_def)

lemma waits_cancel_timer: "waits (cancel_timer i s) smb = waits s smb - {i}"
proof (cases "i < length (sc_timers s)")
  case True
  then show ?thesis
    by (auto simp: waits_def cancel_timer_def Let_def nth_list_update split: if_splits)
next
  case False
  then show ?thesis by (auto simp: waits_def cancel_timer_def)
qed

lemma waits_schedules: "waits (s\<lparr>sc_schedules := t\<rparr>) smb = waits s smb"
  by (simp add: waits_def)

lemma waits_cancel_eq:
  "waits (cancel x s) smb =
     (case scheduled s x of None \<Rightarrow> waits s smb | Some sd \<Rightarrow> waits s smb - set_option (sd_timer sd))"
  by (simp add: cancel_def Let_def waits_cancel_timer waits_schedules split: option.splits)

lemma waits_cancel: "waits (cancel x s) smb \<subseteq> waits s smb"
  by (auto simp: waits_cancel_eq split: option.splits)

lemma waits_cancel_own:
  "scheduled s x = Some sd \<Longrightarrow> waits s x \<subseteq> set_option (sd_timer sd) \<Longrightarrow> waits (cancel x s) x = {}"
  by (simp add: waits_cancel_eq)

lemma lonely_cancel:
  assumes "\<And>y. lonely s y" "scheduled s x \<noteq> None \<Longrightarrow> idle s x"
  shows "lonely (cancel x s) smb"
proof (cases "smb = x")
  case False
  then show ?thesis using assms(1) [of smb] by (intro lonely_mono [OF _ _ waits_cancel]) simp_all
next
  case True
  show ?thesis
  proof (cases "scheduled s x")
    case None
    then show ?thesis using assms(1) True by (simp add: cancel_def)
  next
    case (Some sd)
    then have "idle s x" using assms(2) by simp
    then have "waits s x \<subseteq> set_option (sd_timer sd)"
      using assms(1) [of x] Some by (auto simp: lonely_def idle_def split: if_splits)
    then show ?thesis
      using Some True \<open>idle s x\<close> by (simp add: lonely_def waits_cancel_own idle_def)
  qed
qed

lemma lonely_subscribers:
  "lonely s smb \<Longrightarrow> scheduled s x = Some sd \<Longrightarrow>
   lonely (set_schedule x (sd\<lparr>sd_subscribers := R\<rparr>) s) smb"
  by (auto simp: lonely_def waits_same [of "set_schedule x (sd\<lparr>sd_subscribers := R\<rparr>) s" s] idle_def
      split: option.splits if_splits)

lemma lonely_drop:
  assumes "\<And>y. lonely s y" "scheduled s x \<noteq> None \<Longrightarrow> scheduled (drop_subscriber sid x s) x = None \<Longrightarrow> idle s x"
  shows "lonely (drop_subscriber sid x s) smb"
proof (cases "scheduled s x")
  case None
  then show ?thesis using assms(1) by (simp add: drop_subscriber_def)
next
  case (Some sd)
  define s' where "s' = set_schedule x (sd\<lparr>sd_subscribers := sd_subscribers sd - {sid}\<rparr>) s"
  have l: "lonely s' y" for y unfolding s'_def by (rule lonely_subscribers [OF assms(1) Some])
  show ?thesis
  proof (cases "sd_subscribers sd - {sid} = {}")
    case True
    then have "idle s x" using assms(2) Some by (simp add: scheduled_drop_subscriber)
    then have "lonely (cancel x s') smb" by (intro lonely_cancel l) (simp add: s'_def idle_def)
    moreover have "drop_subscriber sid x s = cancel x s'"
      unfolding drop_subscriber_def Let_def Some option.case if_P [OF True] s'_def ..
    ultimately show ?thesis by simp
  next
    case False
    then show ?thesis using l [of smb] Some by (simp add: drop_subscriber_def s'_def Let_def)
  qed
qed

lemma lonely_subscribe:
  assumes "\<And>y. lonely s y"
  shows "lonely (subscribe_symbol t sid x s) smb"
proof (cases "scheduled s x")
  case None
  let ?s = "subscribe_symbol t sid x s"
  note new = subscribe_symbol_new [OF None, of t sid]
  have tab: "scheduled ?s = (scheduled s)(x \<mapsto>
      \<lparr>sd_running = False, sd_timer = Some (length (sc_timers s)), sd_subscribers = {sid}\<rparr>)"
    using new by (rule conjunct1)
  have wt: "waits ?s y = waits s y \<union> (if x = y then {length (sc_timers s)} else {})" for y
    using waits_append [OF conjunct2 [OF new], of y] by simp
  show ?thesis
  proof (cases "smb = x")
    case True
    have "waits s x = {}" "idle s x" using assms [of x] None by (simp_all add: lonely_def)
    then show ?thesis unfolding lonely_def True tab wt by (simp add: idle_def)
  next
    case False
    then show ?thesis by (intro lonely_mono [OF assms]) (simp_all add: tab wt)
  qed
next
  case (Some sd)
  then show ?thesis
    using lonely_subscribers [OF assms Some, of "insert sid (sd_subscribers sd)" smb]
    by (simp add: subscribe_symbol_def Let_def)
qed

lemma lonely_schedule_next:
  assumes "scheduled s x = Some sd" "\<not> sd_running sd" "waits s x = {}" "idle s x"
    and others: "\<And>y. y \<noteq> x \<Longrightarrow> lonely s y"
  shows "lonely (snd (schedule_next t1 t2 x s)) smb"
proof (cases "next_delay (sc_cfg s) t1 t2")
  case (Inl e)
  then show ?thesis
    using assms by (cases "smb = x") (simp_all add: schedule_next_err lonely_def idle_def)
next
  case (Inr d)
  let ?s = "snd (schedule_next t1 t2 x s)"
  note new = schedule_next_ok [OF Inr assms(1)]
  have wt: "waits ?s y = waits s y \<union> (if x = y then {length (sc_timers s)} else {})" for y
    using waits_append [OF new(2), of y] by simp
  show ?thesis
  proof (cases "smb = x")
    case True
    show ?thesis
      using assms(2-4) unfolding lonely_def True new(1) wt by (simp add: idle_def new(3,4))
  next
    case False
    then show ?thesis by (intro lonely_mono [OF others]) (simp_all add: new(1,3,4) wt)
  qed
qed

section \<open>Every quiet step keeps it\<close>

lemma quiet_changeD:
  assumes "quiet_change s s'" "scheduled s y \<noteq> None" "scheduled s' y = None"
  shows "idle s y"
proof -
  have "y \<in> fst ` set (sc_schedules s)" using assms(2) scheduled_keys by (rule contrapos_np)
  with assms(1) have "scheduled s' y = None \<longrightarrow> idle s y" unfolding quiet_change_def by (rule bspec)
  then show ?thesis using assms(3) by (rule mp)
qed

lemma fold_quiet:
  assumes "\<forall>y. lonely s y"
    and "\<And>x s y. \<forall>y. lonely s y \<Longrightarrow> (\<And>y. scheduled s y \<noteq> None \<Longrightarrow> scheduled (f x s) y = None \<Longrightarrow> idle s y) \<Longrightarrow>
      lonely (f x s) y"
    and mono: "\<And>x s y. scheduled s y = None \<Longrightarrow> scheduled (f x s) y = None"
    and frame: "\<And>x s. idle (f x s) = idle s"
    and "\<And>y. scheduled s y \<noteq> None \<Longrightarrow> scheduled (fold f xs s) y = None \<Longrightarrow> idle s y"
  shows "\<forall>y. lonely (fold f xs s) y"
  using assms(1,5)
proof (induction xs arbitrary: s)
  case (Cons x xs)
  have gone: "scheduled (fold f ys s) y = None" if "scheduled s y = None" for ys s y
    using that by (induction ys arbitrary: s) (auto simp: mono)
  have "\<forall>y. lonely (f x s) y"
  proof
    fix y
    show "lonely (f x s) y"
      by (rule assms(2) [OF Cons.prems(1)]) (use Cons.prems(2) gone in simp)
  qed
  then show ?case
  proof (simp only: fold_simps, rule Cons.IH)
    fix y
    assume "scheduled (f x s) y \<noteq> None" "scheduled (fold f xs (f x s)) y = None"
    then show "idle (f x s) y" using Cons.prems(2) [of y] mono [of s y x] frame [of x s]
      by (metis fold_simps(2))
  qed
qed simp

lemma idle_frame: "idle (cancel x s) = idle s" "idle (drop_subscriber sid x s) = idle s"
  by (simp_all add: idle_def fun_eq_iff)

lemma drop_gone: "scheduled s y = None \<Longrightarrow> scheduled (drop_subscriber sid x s) y = None"
  by (auto simp: scheduled_drop_subscriber split: option.splits)

lemma quiet_drop:
  assumes "\<forall>y. lonely s y" "quiet_change s (fold (\<lambda>x. drop_subscriber sid (f x)) xs s)"
  shows "lonely (fold (\<lambda>x. drop_subscriber sid (f x)) xs s) smb"
proof -
  have "\<forall>y. lonely (fold (\<lambda>x. drop_subscriber sid (f x)) xs s) y"
  proof (rule fold_quiet [OF assms(1)])
    fix y
    assume "scheduled s y \<noteq> None" "scheduled (fold (\<lambda>x. drop_subscriber sid (f x)) xs s) y = None"
    then show "idle s y"
      using quiet_changeD [OF assms(2)] by simp
  qed (auto simp: idle_frame drop_gone intro: lonely_drop)
  then show ?thesis ..
qed

lemma quiet_shutdown:
  assumes "\<forall>y. lonely s y" "quiet_change s (shutdown s)"
  shows "lonely (shutdown s) smb"
proof -
  have "\<forall>y. lonely (fold cancel (map fst (sc_schedules s)) s) y"
  proof (rule fold_quiet [OF assms(1)])
    fix y
    assume "scheduled s y \<noteq> None" "scheduled (fold cancel (map fst (sc_schedules s)) s) y = None"
    then show "idle s y"
      using quiet_changeD [OF assms(2)] by (simp add: shutdown_def)
  qed (auto simp: idle_frame intro: lonely_cancel)
  then show ?thesis by (simp add: shutdown_def)
qed

lemma lonely_fire:
  assumes "\<forall>y. lonely s y" "sched_step (Fire t i) s = Some s'"
  shows "lonely s' smb"
proof -
  let ?tm = "sc_timers s ! i"
  have i: "i < length (sc_timers s)" "tm_state ?tm = Waiting"
    and s': "s' = s\<lparr>sc_timers := (sc_timers s)[i := ?tm\<lparr>tm_state := Fired\<rparr>],
                    sc_calls := sc_calls s @ [tm_symbol ?tm]\<rparr>"
    using assms(2) by (auto split: if_splits)
  have wt: "waits s' y = waits s y - {i}" for y
    using i unfolding s' waits_def by (auto simp: nth_list_update split: if_splits)
  show ?thesis
  proof (cases "smb = tm_symbol ?tm")
    case False
    have "lonely s smb" using assms(1) ..
    then show ?thesis by (rule lonely_mono) (use False in \<open>simp_all add: wt, simp_all add: s'\<close>)
  next
    case True
    then have mem: "i \<in> waits s smb" using i by (simp add: waits_def)
    have l: "lonely s smb" using assms(1) by simp
    obtain sd where sd: "scheduled s smb = Some sd"
      using mem l by (cases "scheduled s smb") (auto simp: lonely_def)
    then have st: "\<not> sd_running sd" "smb \<notin> set (sc_flights s)" "smb \<notin> set (sc_calls s)"
      "waits s smb \<subseteq> set_option (sd_timer sd)"
      using l mem by (auto simp: lonely_def split: if_splits)
    then have "waits s' smb = {}" using mem wt by (cases "sd_timer sd") auto
    moreover have "count_list (sc_calls s') smb \<le> 1"
      using st(3) True by (simp add: s' count_list_0_iff)
    ultimately show ?thesis
      using sd st by (simp add: lonely_def s')
  qed
qed

lemma lonely_tick:
  assumes "\<forall>y. lonely s y" "sched_step (Tick t0 t1 t2 x) s = Some s'"
  shows "lonely s' smb"
proof -
  define s1 where "s1 = s\<lparr>sc_calls := remove1 x (sc_calls s)\<rparr>"
  have x: "x \<in> set (sc_calls s)" and s': "s' = snd (run_symbol t0 t1 t2 x s1)"
    using assms(2) by (auto simp: s1_def split: if_splits)
  have "lonely s x" using assms(1) by simp
  then obtain sd where sd: "scheduled s x = Some sd" "\<not> sd_running sd" "waits s x = {}"
    "x \<notin> set (sc_flights s)" "count_list (sc_calls s) x \<le> 1"
    using x by (auto simp: lonely_def idle_def split: option.splits if_splits)
  have others: "lonely s1 y" if "y \<noteq> x" for y
    using spec [OF assms(1), of y] by (rule lonely_mono) (use that in \<open>auto simp: s1_def waits_def\<close>)
  have "x \<notin> set (remove1 x (sc_calls s))" using sd(5) x by (rule once_removed)
  then have s1: "scheduled s1 x = Some sd" "idle s1 x" "waits s1 x = {}" "sc_flights s1 = sc_flights s"
    using sd by (simp_all add: s1_def idle_def waits_def count_list_0_iff)
  then have l1: "lonely s1 y" for y
    using others [of y] sd(2) by (cases "y = x") (simp_all add: lonely_def idle_def)
  consider (err) e where "weekend_sleep_delay_ms (sc_cfg s1) t0 = Inl e"
    | (sleeps) d where "weekend_sleep_delay_ms (sc_cfg s1) t0 = Inr (Some d)"
    | (runs) "weekend_sleep_delay_ms (sc_cfg s1) t0 = Inr None"
    by (cases "weekend_sleep_delay_ms (sc_cfg s1) t0") (auto simp: not_None_eq [symmetric] simp del: not_None_eq)
  then show ?thesis
  proof cases
    case err
    then show ?thesis using l1 s1 sd(2) by (simp add: s' run_symbol_def)
  next
    case sleeps
    then have "s' = snd (schedule_next t1 t2 x s1)" using s1 sd(2) by (simp add: s' run_symbol_def)
    then show ?thesis using lonely_schedule_next [OF s1(1) sd(2) s1(3,2) others] by simp
  next
    case runs
    then have s'': "s' = (set_schedule x (sd\<lparr>sd_running := True\<rparr>) s1)\<lparr>sc_flights := sc_flights s1 @ [x]\<rparr>"
      using s1 sd(2) by (simp add: s' run_symbol_def)
    have wt: "waits s' y = waits s1 y" for y by (rule waits_same) (simp add: s'')
    show ?thesis
    proof (cases "smb = x")
      case True
      then show ?thesis
        using s1 unfolding lonely_def wt by (simp add: s'' idle_def count_list_0_iff)
    next
      case False
      then show ?thesis by (intro lonely_mono [OF others]) (simp_all add: wt, simp_all add: s'')
    qed
  qed
qed

lemma lonely_done:
  assumes "\<forall>y. lonely s y" "sched_step (Done t1 t2 x) s = Some s'"
  shows "lonely s' smb"
proof -
  define s1 where "s1 = s\<lparr>sc_flights := remove1 x (sc_flights s)\<rparr>"
  have x: "x \<in> set (sc_flights s)" and s': "s' = snd (on_done t1 t2 x s1)"
    using assms(2) by (auto simp: s1_def split: if_splits)
  have "lonely s x" using assms(1) by simp
  then obtain sd where sd: "scheduled s x = Some sd" "sd_running sd" "waits s x = {}"
    "x \<notin> set (sc_calls s)" "count_list (sc_flights s) x \<le> 1"
    using x by (auto simp: lonely_def idle_def split: option.splits if_splits)
  have others: "lonely s1 y" if "y \<noteq> x" for y
    using spec [OF assms(1), of y] by (rule lonely_mono) (use that in \<open>auto simp: s1_def waits_def\<close>)
  define s2 where "s2 = set_schedule x (sd\<lparr>sd_running := False\<rparr>) s1"
  have "x \<notin> set (remove1 x (sc_flights s))" using sd(5) x by (rule once_removed)
  then have s2: "s' = snd (schedule_next t1 t2 x s2)" "scheduled s2 x = Some (sd\<lparr>sd_running := False\<rparr>)"
    "waits s2 x = {}" "idle s2 x"
    using sd by (simp_all add: s' on_done_def s1_def s2_def idle_def waits_def count_list_0_iff)
  show ?thesis
    unfolding s2(1)
  proof (rule lonely_schedule_next [OF s2(2) _ s2(3,4)])
    fix y assume "y \<noteq> x"
    then show "lonely s2 y"
      by (intro lonely_mono [OF others]) (simp_all add: s2_def waits_same [of "set_schedule x (sd\<lparr>sd_running := False\<rparr>) s1" s1])
  qed simp
qed

lemma lonely_step:
  assumes l: "\<forall>y. lonely s y" and step: "sched_step e s = Some s'" and quiet: "quiet_change s s'"
  shows "lonely s' smb"
proof (cases e)
  case (Subscribe t sid syms)
  have "\<forall>y. lonely (fold (\<lambda>x. subscribe_symbol t sid (upper x)) syms s) y"
    by (rule fold_keeps [where P = "\<lambda>s. \<forall>y. lonely s y"]) (auto simp: l lonely_subscribe)
  then show ?thesis using step Subscribe by (auto simp: subscribe_def)
next
  case (Unsubscribe sid)
  then have "s' = fold (\<lambda>x. drop_subscriber sid (id x)) (map fst (sc_schedules s)) s"
    using step by (simp add: unsubscribe_def)
  then show ?thesis using quiet_drop [OF l] quiet by metis
next
  case (Remove_Symbols sid syms)
  then have "s' = fold (\<lambda>x. drop_subscriber sid (upper x)) syms s"
    using step by (simp add: remove_symbols_def)
  then show ?thesis using quiet_drop [OF l] quiet by metis
next
  case Shutdown
  then show ?thesis using quiet_shutdown [OF l] quiet step by simp
next
  case (Fire t i)
  then show ?thesis using lonely_fire [OF l] step by blast
next
  case (Tick t0 t1 t2 x)
  then show ?thesis using lonely_tick [OF l] step by blast
next
  case (Done t1 t2 x)
  then show ?thesis using lonely_done [OF l] step by blast
next
  case (Calibrate off)
  then show ?thesis
    using step spec [OF l, of smb] by (auto simp: lonely_def waits_def idle_def split: option.splits)
qed

lemma lonely_run:
  "sched_run es s = Some s' \<Longrightarrow> quiet_run es s \<Longrightarrow> \<forall>y. lonely s y \<Longrightarrow> lonely s' smb"
proof (induction es arbitrary: s)
  case (Cons e es)
  then obtain s1 where s1: "sched_step e s = Some s1" "sched_run es s1 = Some s'"
    "quiet_change s s1" "quiet_run es s1"
    by (auto split: option.splits)
  then show ?case using Cons.IH lonely_step Cons.prems(3) by blast
qed simp

text \<open>
  C7: at most one thread per symbol. In a run in which a symbol loses its last subscriber only
  while it is idle, never more than one of its timers, waiting timer threads and analyses exists,
  so that no symbol is analysed twice at a time.
\<close>

theorem one_thread_per_symbol:
  assumes "sched_run es (new_scheduler cfg) = Some s" "quiet_run es (new_scheduler cfg)"
  shows "threads s smb \<le> 1 \<and> count_list (sc_flights s) smb \<le> 1"
proof -
  have "\<forall>y. lonely (new_scheduler cfg) y"
    by (simp add: lonely_def new_scheduler_def waits_def idle_def)
  then have "threads s smb \<le> 1" using assms lonely_run lonely_threads by blast
  then show ?thesis by (simp add: threads_def)
qed

section \<open>Leaving and coming back during an analysis\<close>

lemma drop_timers:
  "length (sc_timers (drop_subscriber sid x s)) = length (sc_timers s)"
  "waits (drop_subscriber sid x s) smb \<subseteq> waits s smb"
proof -
  have len: "length (sc_timers (cancel x s)) = length (sc_timers s)" for s
    by (simp add: cancel_def cancel_timer_def Let_def split: option.splits)
  show "length (sc_timers (drop_subscriber sid x s)) = length (sc_timers s)"
    by (simp add: drop_subscriber_def Let_def len split: option.splits)
  show "waits (drop_subscriber sid x s) smb \<subseteq> waits s smb"
    using waits_cancel [of x "set_schedule x sd s" smb for sd]
    by (auto simp: drop_subscriber_def Let_def waits_same [of "set_schedule x sd s" s for sd]
        dest: subsetD split: option.splits)
qed

text \<open>The subscriber leaves: its symbol is gone from the table, what runs goes on.\<close>

lemma leave_effect:
  assumes run: "sched_run es (new_scheduler cfg) = Some s"
    and leave: "leave \<in> {Unsubscribe sid, Remove_Symbols sid [y]}" "upper y = x"
    and only: "\<forall>sid'. (sid', x) \<in> subscriptions s \<longleftrightarrow> sid' = sid"
  obtains s' where "sched_step leave s = Some s'" "scheduled s' x = None"
    "length (sc_timers s') = length (sc_timers s)" "waits s' x \<subseteq> waits s x"
    "sc_calls s' = sc_calls s" "sc_flights s' = sc_flights s" "sc_cfg s' = sc_cfg s"
proof -
  have "sched_step leave s = Some (fold (\<lambda>a. drop_subscriber sid (id a)) (map fst (sc_schedules s)) s) \<or>
      sched_step leave s = Some (fold (\<lambda>a. drop_subscriber sid (upper a)) [y] s)"
    using leave(1) by (auto simp: unsubscribe_def remove_symbols_def)
  then obtain f :: "string \<Rightarrow> string" and xs where
    s': "sched_step leave s = Some (fold (\<lambda>a. drop_subscriber sid (f a)) xs s)" (is "_ = Some ?s'")
    by blast
  have keep: "length (sc_timers ?s') = length (sc_timers s) \<and> waits ?s' x \<subseteq> waits s x \<and>
      sc_calls ?s' = sc_calls s \<and> sc_flights ?s' = sc_flights s \<and> sc_cfg ?s' = sc_cfg s"
    by (rule fold_keeps) (auto simp: drop_timers(1) dest: subsetD [OF drop_timers(2)] subsetD)
  note now = sched_step_subs [OF sched_run_subs(2) [OF run] s']
  have "\<forall>sid'. (sid', x) \<notin> subscriptions ?s'"
    using only leave now by auto
  then have "scheduled ?s' x = None" using now served_scheduled by blast
  then show thesis using that s' keep by blast
qed

text \<open>A symbol nobody subscribes, of which analyses still run, is subscribed and woken.\<close>

lemma subscribe_and_wake:
  assumes "scheduled s x = None" "waits s x = {}" "x \<notin> set (sc_calls s)" "upper y = x"
    and "weekend_sleep_delay_ms (sc_cfg s) t0 = Inr None"
  obtains s' where
    "sched_run [Subscribe t sid [y], Fire t (length (sc_timers s)), Tick t0 t1 t2 x] s = Some s'"
    "scheduled s' x = Some \<lparr>sd_running = True, sd_timer = Some (length (sc_timers s)), sd_subscribers = {sid}\<rparr>"
    "length (sc_timers s') = Suc (length (sc_timers s))" "waits s' x = {}" "x \<notin> set (sc_calls s')"
    "sc_flights s' = sc_flights s @ [x]" "sc_cfg s' = sc_cfg s"
proof -
  let ?n = "length (sc_timers s)"
  define s1 where "s1 = subscribe_symbol t sid x s"
  have new: "scheduled s1 x = Some \<lparr>sd_running = False, sd_timer = Some ?n, sd_subscribers = {sid}\<rparr>"
    "sc_timers s1 = sc_timers s @ [\<lparr>tm_symbol = x, tm_due = t, tm_state = Waiting\<rparr>]"
    using subscribe_symbol_new [OF assms(1), of t sid] by (simp_all add: s1_def)
  define s2 where "s2 = s1\<lparr>sc_timers := sc_timers s @ [\<lparr>tm_symbol = x, tm_due = t, tm_state = Fired\<rparr>]\<rparr>"
  have f1: "sc_calls s1 = sc_calls s" "sc_flights s1 = sc_flights s" "sc_cfg s1 = sc_cfg s" by (simp_all add: s1_def)
  have "sched_run [Subscribe t sid [y], Fire t ?n] s = Some (s2\<lparr>sc_calls := sc_calls s @ [x]\<rparr>)"
    using new(2) assms(4) f1 by (simp add: subscribe_def s1_def [symmetric] s2_def)
  moreover define s3 where "s3 = (set_schedule x \<lparr>sd_running = True, sd_timer = Some ?n, sd_subscribers = {sid}\<rparr>
    (s2\<lparr>sc_calls := remove1 x (sc_calls s @ [x])\<rparr>))\<lparr>sc_flights := sc_flights s @ [x]\<rparr>"
  have "sched_step (Tick t0 t1 t2 x) (s2\<lparr>sc_calls := sc_calls s @ [x]\<rparr>) = Some s3"
    using new(1) f1 assms(5) by (simp add: run_symbol_def s2_def s3_def)
  ultimately have "sched_run [Subscribe t sid [y], Fire t ?n, Tick t0 t1 t2 x] s = Some s3"
    using sched_run_append [of "[Subscribe t sid [y], Fire t ?n]" "[Tick t0 t1 t2 x]" s] by simp
  moreover have "waits s3 x = waits s x"
    by (auto simp: s3_def s2_def waits_def set_schedule_def nth_append less_Suc_eq)
  ultimately show thesis
    using assms(2,3) f1 by (intro that [of s3]) (simp_all add: s3_def s2_def remove1_append)
qed

text \<open>The end of an analysis of a scheduled symbol starts a timer, whether or not one is running.\<close>

lemma done_starts_timer:
  assumes "x \<in> set (sc_flights s)" "scheduled s x = Some sd" "next_delay (sc_cfg s) t1 t2 = Inr d"
  obtains s' where "sched_step (Done t1 t2 x) s = Some s'"
    "scheduled s' x = Some (sd\<lparr>sd_running := False, sd_timer := Some (length (sc_timers s))\<rparr>)"
    "length (sc_timers s') = Suc (length (sc_timers s))" "waits s' x = insert (length (sc_timers s)) (waits s x)"
    "sc_flights s' = remove1 x (sc_flights s)" "sc_cfg s' = sc_cfg s"
proof -
  define s1 where "s1 = set_schedule x (sd\<lparr>sd_running := False\<rparr>) (s\<lparr>sc_flights := remove1 x (sc_flights s)\<rparr>)"
  have s1: "scheduled s1 x = Some (sd\<lparr>sd_running := False\<rparr>)" "sc_timers s1 = sc_timers s" "sc_cfg s1 = sc_cfg s"
    "sc_flights s1 = remove1 x (sc_flights s)"
    by (simp_all add: s1_def)
  have "next_delay (sc_cfg s1) t1 t2 = Inr d" using assms(3) s1(3) by simp
  note n = schedule_next_ok [OF this s1(1)]
  have "waits (snd (schedule_next t1 t2 x s1)) x = insert (length (sc_timers s)) (waits s x)"
    using waits_append [OF n(2), of x] waits_same [OF s1(2), of x] s1(2) by auto
  moreover have "sched_step (Done t1 t2 x) s = Some (snd (schedule_next t1 t2 x s1))"
    using assms(1,2) by (simp add: on_done_def s1_def)
  ultimately show thesis
    using n s1 by (intro that [of "snd (schedule_next t1 t2 x s1)"]) simp_all
qed

text \<open>
  C8: a subscription that is withdrawn and renewed while an analysis of its symbol is running
  doubles the schedule. Let the only subscriber of a symbol leave while the analysis runs, by
  unsubscribing or by removing the symbol, in a run that was quiet so far, and let anybody
  subscribe the symbol again. The new timer fires at once and, outside the weekend, starts a second
  analysis beside the first; when both have ended, two timers of the symbol are running, of which
  the schedule knows the last.
\<close>

theorem resubscription_doubles_the_schedule:
  assumes "sched_run es (new_scheduler cfg) = Some s" "quiet_run es (new_scheduler cfg)"
    and "x \<in> set (sc_flights s)" "\<forall>sid'. (sid', x) \<in> subscriptions s \<longleftrightarrow> sid' = sid"
    and "leave \<in> {Unsubscribe sid, Remove_Symbols sid [y]}" "upper y = x"
    and "weekend_sleep_delay_ms (sc_cfg s) t0 = Inr None"
    and "next_delay (sc_cfg s) t1 t2 = Inr d" "next_delay (sc_cfg s) t3 t4 = Inr d'"
  shows "\<exists>s1 s2. let n = length (sc_timers s) in
    sched_run [leave, Subscribe t sid' [y], Fire t n, Tick t0 t0' t0'' x] s = Some s1 \<and>
    count_list (sc_flights s) x = 1 \<and> count_list (sc_flights s1) x = 2 \<and>
    sched_run [Done t1 t2 x, Done t3 t4 x] s1 = Some s2 \<and>
    count_list (sc_flights s2) x = 0 \<and> live_timers s2 x = 2 \<and> waits s2 x = {n + 1, n + 2} \<and>
    scheduled s2 x = Some \<lparr>sd_running = False, sd_timer = Some (n + 2), sd_subscribers = {sid'}\<rparr>"
proof -
  have "lonely s x"
    by (rule lonely_run [OF assms(1,2)]) (simp add: lonely_def new_scheduler_def waits_def idle_def)
  moreover have "scheduled s x \<noteq> None"
    using assms(4) by (auto simp: subscriptions_def)
  ultimately have one: "waits s x = {}" "x \<notin> set (sc_calls s)" "count_list (sc_flights s) x \<le> 1"
    using assms(3) by (auto simp: lonely_def idle_def split: if_splits)
  then have c: "count_list (sc_flights s) x = 1" using assms(3) by (simp add: in_set_count)
  obtain s0 where s0: "sched_step leave s = Some s0" "scheduled s0 x = None"
    "length (sc_timers s0) = length (sc_timers s)" "waits s0 x \<subseteq> waits s x"
    "sc_calls s0 = sc_calls s" "sc_flights s0 = sc_flights s" "sc_cfg s0 = sc_cfg s"
    by (rule leave_effect [OF assms(1,5,6,4)])
  have pre: "waits s0 x = {}" "x \<notin> set (sc_calls s0)" "weekend_sleep_delay_ms (sc_cfg s0) t0 = Inr None"
    using s0 one assms(7) by simp_all
  obtain s1 where s1: "sched_run [Subscribe t sid' [y], Fire t (length (sc_timers s0)), Tick t0 t0' t0'' x] s0 = Some s1"
    "scheduled s1 x = Some \<lparr>sd_running = True, sd_timer = Some (length (sc_timers s0)), sd_subscribers = {sid'}\<rparr>"
    "length (sc_timers s1) = Suc (length (sc_timers s0))" "waits s1 x = {}" "x \<notin> set (sc_calls s1)"
    "sc_flights s1 = sc_flights s0 @ [x]" "sc_cfg s1 = sc_cfg s0"
    by (rule subscribe_and_wake [OF s0(2) pre(1,2) assms(6) pre(3)])
  have f1: "x \<in> set (sc_flights s1)" "next_delay (sc_cfg s1) t1 t2 = Inr d" using s1 s0 assms(8) by simp_all
  obtain s2 where s2: "sched_step (Done t1 t2 x) s1 = Some s2"
    "scheduled s2 x = Some (\<lparr>sd_running = True, sd_timer = Some (length (sc_timers s0)), sd_subscribers = {sid'}\<rparr>
      \<lparr>sd_running := False, sd_timer := Some (length (sc_timers s1))\<rparr>)"
    "length (sc_timers s2) = Suc (length (sc_timers s1))" "waits s2 x = insert (length (sc_timers s1)) (waits s1 x)"
    "sc_flights s2 = remove1 x (sc_flights s1)" "sc_cfg s2 = sc_cfg s1"
    by (rule done_starts_timer [OF f1(1) s1(2) f1(2)])
  have "count_list (sc_flights s2) x = 1" using s2(5) s1(6) s0(6) c by simp
  then have f2: "x \<in> set (sc_flights s2)" "next_delay (sc_cfg s2) t3 t4 = Inr d'"
    using s2 s1 s0 assms(9) by (simp_all add: in_set_count)
  obtain s3 where s3: "sched_step (Done t3 t4 x) s2 = Some s3"
    "scheduled s3 x = Some (\<lparr>sd_running = True, sd_timer = Some (length (sc_timers s0)), sd_subscribers = {sid'}\<rparr>
      \<lparr>sd_running := False, sd_timer := Some (length (sc_timers s1))\<rparr>
      \<lparr>sd_running := False, sd_timer := Some (length (sc_timers s2))\<rparr>)"
    "length (sc_timers s3) = Suc (length (sc_timers s2))" "waits s3 x = insert (length (sc_timers s2)) (waits s2 x)"
    "sc_flights s3 = remove1 x (sc_flights s2)" "sc_cfg s3 = sc_cfg s2"
    by (rule done_starts_timer [OF f2(1) s2(2) f2(2)])
  have n: "length (sc_timers s1) = length (sc_timers s) + 1" "length (sc_timers s2) = length (sc_timers s) + 2"
    using s0(3) s1(3) s2(3) by simp_all
  have w: "waits s3 x = {length (sc_timers s) + 1, length (sc_timers s) + 2}"
    using s3(4) s2(4) s1(4) n by auto
  show ?thesis
    unfolding Let_def
  proof (intro exI conjI)
    show "sched_run [leave, Subscribe t sid' [y], Fire t (length (sc_timers s)), Tick t0 t0' t0'' x] s = Some s1"
      using s1(1) s0(1,3) by simp
    show "sched_run [Done t1 t2 x, Done t3 t4 x] s1 = Some s3" using s2(1) s3(1) by simp
    show "live_timers s3 x = 2" by (simp add: live_timers_waits w)
    show "scheduled s3 x = Some \<lparr>sd_running = False, sd_timer = Some (length (sc_timers s) + 2), sd_subscribers = {sid'}\<rparr>"
      using s3(2) n by simp
    show "count_list (sc_flights s1) x = 2" "count_list (sc_flights s3) x = 0"
      using s1(6) s2(5) s3(5) s0(6) c by simp_all
  qed (fact c w)+
qed

section \<open>Worked runs\<close>

text \<open>Wednesday 3 January 2024, 12:00:00 UTC, and the default settings.\<close>

definition noon :: ms where "noon = 1704283200000"

definition work_cfg :: settings where "work_cfg = default_settings ''/srv''"

definition day_run :: "sched_event list" where
  "day_run =
     [Subscribe noon ''live'' [''xauusd'', ''XAGUSD''], Fire noon 0, Tick noon noon noon ''XAUUSD'',
      Done (noon + 2000) (noon + 2000) ''XAUUSD'', Fire noon 1,
      Remove_Symbols ''live'' [''xauusd'']]"

text \<open>A run in the middle of the analysis of noon.\<close>

definition at_noon :: "sched_event list" where
  "at_noon = [Subscribe noon ''live'' [''XAUUSD''], Fire noon 0, Tick noon noon noon ''XAUUSD'']"

section \<open>Witnesses\<close>

lemma day_run_state:
  "map_option (\<lambda>s. (map_option (\<lambda>sd. ''live'' \<in> sd_subscribers sd) (scheduled s ''XAGUSD''),
       weekend_sleep_delay_ms (sc_cfg s) (noon + 605000000)))
     (sched_run day_run (new_scheduler work_cfg)) = Some (Some True, Inr None)"
  by code_simp

lemma work_cfg_ok: "cfg_ok 5 work_cfg"
  unfolding cfg_ok_def by code_simp

lemma day_run_obtain:
  obtains s where "sched_run day_run (new_scheduler work_cfg) = Some s" "(''live'', ''XAGUSD'') \<in> subscriptions s"
    "weekend_sleep_delay_ms (sc_cfg s) (noon + 605000000) = Inr None"
  using day_run_state unfolding subscriptions_def
  by (auto simp only: map_option_eq_Some prod.inject mem_Collect_eq case_prod_conv)

theorem schedules_are_subscriptions_witness:
  "\<exists>s. sched_run day_run (new_scheduler work_cfg) = Some s \<and>
     subscriptions s = fold subscription_step day_run {} \<and>
     (\<forall>smb. scheduled s smb \<noteq> None \<longleftrightarrow> (\<exists>sid. (sid, smb) \<in> subscriptions s))"
proof (rule day_run_obtain)
  fix s
  assume "sched_run day_run (new_scheduler work_cfg) = Some s"
  with schedules_are_subscriptions [OF this] show ?thesis by blast
qed

theorem one_thread_per_symbol_witness:
  "\<exists>s. sched_run day_run (new_scheduler work_cfg) = Some s \<and>
     threads s ''XAUUSD'' \<le> 1 \<and> count_list (sc_flights s) ''XAUUSD'' \<le> 1"
proof (rule day_run_obtain)
  fix s
  assume s: "sched_run day_run (new_scheduler work_cfg) = Some s"
  have "quiet_run day_run (new_scheduler work_cfg)" by code_simp
  with one_thread_per_symbol [OF s this, of "''XAUUSD''"] s show ?thesis by blast
qed

theorem subscribed_symbol_never_stalls_witness:
  "\<exists>s. sched_run day_run (new_scheduler work_cfg) = Some s \<and>
     (''XAGUSD'' \<in> set (sc_flights s) \<or>
      (\<exists>es' \<in> insert [Tick (noon + 605000000) (noon + 605000000) (noon + 605000000) ''XAGUSD'']
           (range (\<lambda>i. [Fire (noon + 605000000) i,
                        Tick (noon + 605000000) (noon + 605000000) (noon + 605000000) ''XAGUSD''])).
         \<exists>s'. sched_run es' s = Some s' \<and> ''XAGUSD'' \<in> set (sc_flights s')))"
proof (rule day_run_obtain)
  fix s
  assume s: "sched_run day_run (new_scheduler work_cfg) = Some s" "(''live'', ''XAGUSD'') \<in> subscriptions s"
    "weekend_sleep_delay_ms (sc_cfg s) (noon + 605000000) = Inr None"
  have "\<forall>e \<in> set day_run. event_ok (noon + 2000) e" by code_simp
  moreover have "noon + 2000 + longest_wait 5 \<le> noon + 605000000" by code_simp
  ultimately show ?thesis
    using subscribed_symbol_never_stalls [OF s(1) work_cfg_ok _ s(2) _ s(3)] s(1) by blast
qed

lemma at_noon_state:
  "map_option (\<lambda>s. ((sc_flights s, length (sc_timers s),
        map_option (\<lambda>sd. sd_subscribers sd = {''live''}) (scheduled s ''XAUUSD'')),
       weekend_sleep_delay_ms (sc_cfg s) (noon + 1), next_delay (sc_cfg s) (noon + 5) (noon + 5),
       next_delay (sc_cfg s) (noon + 9) (noon + 9)))
     (sched_run at_noon (new_scheduler work_cfg)) =
   Some (([''XAUUSD''], 1, Some True), Inr None, Inr 300395, Inr 300391)"
  by code_simp

theorem resubscription_doubles_the_schedule_witness:
  "\<exists>s s1 s2. sched_run at_noon (new_scheduler work_cfg) = Some s \<and>
     sched_run [Unsubscribe ''live'', Subscribe (noon + 1) ''live'' [''xauusd''], Fire (noon + 1) 1,
       Tick (noon + 1) (noon + 1) (noon + 1) ''XAUUSD''] s = Some s1 \<and>
     count_list (sc_flights s1) ''XAUUSD'' = 2 \<and>
     sched_run [Done (noon + 5) (noon + 5) ''XAUUSD'', Done (noon + 9) (noon + 9) ''XAUUSD''] s1 = Some s2 \<and>
     live_timers s2 ''XAUUSD'' = 2"
proof -
  obtain s where s: "sched_run at_noon (new_scheduler work_cfg) = Some s" "sc_flights s = [''XAUUSD'']"
    "length (sc_timers s) = 1" "map_option (\<lambda>sd. sd_subscribers sd = {''live''}) (scheduled s ''XAUUSD'') = Some True"
    and delays: "weekend_sleep_delay_ms (sc_cfg s) (noon + 1) = Inr None"
      "next_delay (sc_cfg s) (noon + 5) (noon + 5) = Inr 300395" "next_delay (sc_cfg s) (noon + 9) (noon + 9) = Inr 300391"
    using at_noon_state by (auto simp only: map_option_eq_Some prod.inject)
  have quiet: "quiet_run at_noon (new_scheduler work_cfg)" by code_simp
  have only: "\<forall>sid'. (sid', ''XAUUSD'') \<in> subscriptions s \<longleftrightarrow> sid' = ''live''"
  proof -
    obtain sd where "scheduled s ''XAUUSD'' = Some sd" "sd_subscribers sd = {''live''}"
      using s(4) by (auto simp only: map_option_eq_Some simp_thms)
    then show ?thesis by (simp add: subscriptions_def)
  qed
  have up: "upper ''xauusd'' = ''XAUUSD''" by code_simp
  have flies: "''XAUUSD'' \<in> set (sc_flights s)" by (simp add: s(2))
  show ?thesis
    using resubscription_doubles_the_schedule [OF s(1) quiet flies only insertI1 up delays,
        of "noon + 1" "''live''" "noon + 1" "noon + 1", unfolded Let_def s(3)] s(1)
    by blast
qed

text \<open>A Saturday: the sleep of a day and a half, to Monday.\<close>

theorem weekend_sleep_ends_at_reopening_witness:
  "weekend_sleep_delay_ms work_cfg (noon + 259200000) = Inr (Some 129600400) \<and>
   week_second work_cfg (noon + 259200000 + (129600400 - CANDLE_BUFFER_MS)) = reopen_second work_cfg \<and>
   weekend_sleep_delay_ms work_cfg (noon + 259200000 + 129600400) = Inr None"
proof -
  have "weekend_fields_ok work_cfg" by code_simp
  moreover have "weekend_sleep_delay_ms work_cfg (noon + 259200000) = Inr (Some 129600400)" by code_simp
  moreover have "from_timestamp (noon + 259200000 + 129600400 + g_broker_time_offset_ms work_cfg) = Inr ()"
    by code_simp
  ultimately show ?thesis
    using weekend_sleep_ends_at_reopening [of work_cfg "noon + 259200000" 129600400] by blast
qed

theorem next_boundary_is_least_witness:
  "\<exists>b. ms_until_next_boundary 5 noon = Inr (b - noon + CANDLE_BUFFER_MS) \<and> noon < b"
  using next_boundary_is_least [of 5 noon] by auto

end
