(* ===== verification/Consensus.thy ===== *)
theory Consensus
  imports Wire "HOL-Library.AList"
begin

text \<open>
  manager/src/core/consensus.py and router.py: the signals of several brokers on their way to the
  gateway. A signal waits for a second broker to confirm its setup until its window closes; the
  router sends triggered signals through this engine and every other event straight on. The
  clock readings of \<open>time.monotonic()\<close>, in seconds, are arguments. The broadcasts handed to the
  gateway are a list, in order.
\<close>

section \<open>Confirming brokers: \<open>ConsensusEngine\<close>\<close>

type_synonym payload = "(string \<times> json) list"

record pending_signal =
  pn_signal :: payload
  pn_brokers :: "string list"
  pn_expires_at :: real

record consensus =
  cs_window :: real
  cs_pending :: "(string \<times> pending_signal) list"

definition new_consensus :: "int \<Rightarrow> consensus" where
  "new_consensus window_ms = \<lparr>cs_window = of_int window_ms / 1000, cs_pending = []\<rparr>"

text \<open>A value in an f-string; \<open>rp\<close> stands for Python's rendering of floats, lists and dicts.\<close>

fun fstring :: "(json \<Rightarrow> string) \<Rightarrow> json \<Rightarrow> string" where
  "fstring rp (JStr s) = s"
| "fstring rp (JInt n) = show_int n"
| "fstring rp JNull = ''None''"
| "fstring rp (JBool b) = (if b then ''True'' else ''False'')"
| "fstring rp j = rp j"

definition setup_key :: "(json \<Rightarrow> string) \<Rightarrow> payload \<Rightarrow> string" where
  "setup_key rp sig =
     (let ts = jor (jor (get_or sig ''setupCandleOpenAt'' JNull) (get_or sig ''createdAt'' JNull)) (JInt 0)
      in fstring rp (get_or sig ''symbol'' (JStr [])) @ ''|'' @
         fstring rp (get_or sig ''direction'' (JStr [])) @ ''|'' @ fstring rp ts)"

definition with_consensus :: "payload \<Rightarrow> string list \<Rightarrow> payload" where
  "with_consensus sig brokers = AList.update ''consensus'' (JArr (map JStr brokers)) sig"

definition push_signal ::
  "(json \<Rightarrow> string) \<Rightarrow> real \<Rightarrow> payload \<Rightarrow> string \<Rightarrow> consensus \<Rightarrow> payload option \<times> consensus" where
  "push_signal rp now sig broker c =
     (let key = setup_key rp sig in
      case map_of (cs_pending c) key of
        Some p \<Rightarrow>
          if broker \<in> set (pn_brokers p) then (None, c)
          else (Some (with_consensus (pn_signal p) (pn_brokers p @ [broker])),
                c\<lparr>cs_pending := AList.delete key (cs_pending c)\<rparr>)
      | None \<Rightarrow>
          (None, c\<lparr>cs_pending := AList.update key
             \<lparr>pn_signal = sig, pn_brokers = [broker], pn_expires_at = now + cs_window c\<rparr> (cs_pending c)\<rparr>))"

definition drain_expired :: "real \<Rightarrow> consensus \<Rightarrow> payload list \<times> consensus" where
  "drain_expired now c =
     (let ready = filter (\<lambda>(k, p). pn_expires_at p \<le> now) (cs_pending c)
      in (map (\<lambda>(k, p). with_consensus (pn_signal p) (pn_brokers p)) ready,
          c\<lparr>cs_pending := fold AList.delete (map fst ready) (cs_pending c)\<rparr>))"

section \<open>Routing: \<open>SignalRouter\<close>\<close>

text \<open>A broadcast to the clients of a symbol, or to every client.\<close>

datatype broadcast = To_Symbol string payload | To_All string payload

record router =
  ro_consensus :: consensus
  ro_sent :: "broadcast list"

definition new_router :: "int \<Rightarrow> router" where
  "new_router window_ms = \<lparr>ro_consensus = new_consensus window_ms, ro_sent = []\<rparr>"

definition emit_to_gateway :: "string \<Rightarrow> payload \<Rightarrow> router \<Rightarrow> router" where
  "emit_to_gateway event sig r = r\<lparr>ro_sent := ro_sent r @ [To_Symbol event sig]\<rparr>"

definition route :: "(json \<Rightarrow> string) \<Rightarrow> real \<Rightarrow> string \<Rightarrow> payload \<Rightarrow> string \<Rightarrow> router \<Rightarrow> router" where
  "route rp now event payload broker r =
     (let payload' = AList.update ''broker'' (JStr broker) payload in
      if event = ''signal.triggered''
      then case push_signal rp now payload' broker (ro_consensus r) of
             (ready, c) \<Rightarrow>
               let r' = r\<lparr>ro_consensus := c\<rparr>
               in case ready of None \<Rightarrow> r' | Some sig \<Rightarrow> emit_to_gateway ''signal.triggered'' sig r'
      else r\<lparr>ro_sent := ro_sent r @ [To_All event payload']\<rparr>)"

definition drain :: "real \<Rightarrow> router \<Rightarrow> router" where
  "drain now r =
     (case drain_expired now (ro_consensus r) of
        (sigs, c) \<Rightarrow> fold (emit_to_gateway ''signal.triggered'') sigs (r\<lparr>ro_consensus := c\<rparr>))"

text \<open>The events of the engines and the ticks of \<open>_drain_loop\<close>, with their clock readings.\<close>

datatype route_event = Engine_Event real string payload string | Drain_Tick real

fun route_step :: "(json \<Rightarrow> string) \<Rightarrow> route_event \<Rightarrow> router \<Rightarrow> router" where
  "route_step rp (Engine_Event now event payload broker) r = route rp now event payload broker r"
| "route_step rp (Drain_Tick now) r = drain now r"

definition route_run :: "(json \<Rightarrow> string) \<Rightarrow> route_event list \<Rightarrow> router \<Rightarrow> router" where
  "route_run rp es r = fold (route_step rp) es r"

section \<open>What the confirmation engine promises\<close>

text \<open>The brokers whose signal of a setup waits, or is in the signals sent.\<close>

definition waiting_brokers :: "consensus \<Rightarrow> string \<Rightarrow> string list" where
  "waiting_brokers c k = (case map_of (cs_pending c) k of None \<Rightarrow> [] | Some p \<Rightarrow> pn_brokers p)"

fun sent_brokers :: "(json \<Rightarrow> string) \<Rightarrow> string \<Rightarrow> broadcast list \<Rightarrow> string list" where
  "sent_brokers rp k [] = []"
| "sent_brokers rp k (To_Symbol ev sig # bs) =
     (case get_or sig ''consensus'' JNull of
        JArr xs \<Rightarrow> if setup_key rp sig = k then map (fstring rp) xs else []
      | _ \<Rightarrow> []) @ sent_brokers rp k bs"
| "sent_brokers rp k (To_All ev sig # bs) = sent_brokers rp k bs"

text \<open>
  The brokers of the triggered signals of a setup in a run, one entry per signal received; and
  those of the signals dropped because the same broker's signal of the setup was waiting.
\<close>

fun received_from :: "(json \<Rightarrow> string) \<Rightarrow> string \<Rightarrow> route_event list \<Rightarrow> string list" where
  "received_from rp k [] = []"
| "received_from rp k (Engine_Event now event payload broker # es) =
     (if event = ''signal.triggered'' \<and> setup_key rp (AList.update ''broker'' (JStr broker) payload) = k
      then [broker] else []) @ received_from rp k es"
| "received_from rp k (Drain_Tick now # es) = received_from rp k es"

fun repeated_by :: "(json \<Rightarrow> string) \<Rightarrow> string \<Rightarrow> route_event list \<Rightarrow> router \<Rightarrow> string list" where
  "repeated_by rp k [] r = []"
| "repeated_by rp k (e # es) r =
     (case e of
        Engine_Event now event payload broker \<Rightarrow>
          if event = ''signal.triggered'' \<and>
             setup_key rp (AList.update ''broker'' (JStr broker) payload) = k \<and>
             broker \<in> set (waiting_brokers (ro_consensus r) k)
          then [broker] else []
      | Drain_Tick now \<Rightarrow> []) @ repeated_by rp k es (route_step rp e r)"

end
