(* ===== verification/Gateway.thy ===== *)
theory Gateway
  imports Consensus "HOL-Library.List_Lexorder" "HOL-Library.Char_ord"
begin

text \<open>
  manager/src/server/gateway_server.py and manager/src/core/pipeline.py: the clients of the
  gateway, what they subscribe to and what is sent to them, the figures aggregated over the
  brokers, and the supervision of one engine per broker with its growing pauses. The frames
  decoded by \<open>json.loads\<close> are JSON values (\<open>None\<close> where it raises); whether a send to a client
  succeeds is an argument of the step. The sends of one broadcast are one step.
\<close>

section \<open>Clients: \<open>GatewayServer\<close>\<close>

record gw_client =
  gc_symbols :: "string set"
  gc_metrics :: bool

definition new_client :: gw_client where
  "new_client = \<lparr>gc_symbols = {}, gc_metrics = False\<rparr>"

text \<open>The messages sent; the order in which Python lists a set is left open.\<close>

datatype gw_message =
    Connected string "string list"
  | Subscribed "string set" "string list"
  | Unsubscribed "string set"
  | Metrics_Snapshot
  | Metrics_Subscribed int
  | Event string payload

record gateway =
  gw_supported :: "string list"
  gw_secret :: string
  gw_clients :: "(string \<times> gw_client) list"
  gw_counter :: nat
  gw_delivered :: nat
  gw_outbox :: "(string \<times> gw_message) list"
  gw_rejected :: nat

definition new_gateway :: "string list \<Rightarrow> string \<Rightarrow> gateway" where
  "new_gateway supported secret =
     \<lparr>gw_supported = supported, gw_secret = secret, gw_clients = [], gw_counter = 0,
      gw_delivered = 0, gw_outbox = [], gw_rejected = 0\<rparr>"

definition send_to :: "string \<Rightarrow> gw_message \<Rightarrow> gateway \<Rightarrow> gateway" where
  "send_to cid m g = g\<lparr>gw_outbox := gw_outbox g @ [(cid, m)]\<rparr>"

definition drop_client :: "string \<Rightarrow> gateway \<Rightarrow> gateway" where
  "drop_client cid g = g\<lparr>gw_clients := AList.delete cid (gw_clients g)\<rparr>"

text \<open>A send that raises ends the handler of the connection, which removes its client.\<close>

definition send_or_drop :: "bool \<Rightarrow> string \<Rightarrow> gw_message \<Rightarrow> gateway \<Rightarrow> gateway" where
  "send_or_drop up cid m g = (if up then send_to cid m g else drop_client cid g)"

definition connect :: "bool \<Rightarrow> string \<Rightarrow> gateway \<Rightarrow> gateway" where
  "connect up token g =
     (if gw_secret g \<noteq> [] \<and> token \<noteq> gw_secret g then g\<lparr>gw_rejected := gw_rejected g + 1\<rparr>
      else
        let n = gw_counter g + 1; cid = ''gw-'' @ show_nat n;
            g' = g\<lparr>gw_counter := n, gw_clients := AList.update cid new_client (gw_clients g)\<rparr>
        in send_or_drop up cid (Connected cid (sort (remdups (gw_supported g)))) g')"

text \<open>The loop over \<open>msg.get("symbols", [])\<close>: what iterating a value yields, strings only.\<close>

definition message_symbols :: "json \<Rightarrow> string list result" where
  "message_symbols j =
     (case j of
        JArr xs \<Rightarrow> Inr (concat (map (\<lambda>x. case x of JStr s \<Rightarrow> [upper s] | _ \<Rightarrow> []) xs))
      | JStr s \<Rightarrow> Inr (map (\<lambda>c. upper [c]) s)
      | JObj d \<Rightarrow> Inr (map (upper \<circ> fst) d)
      | _ \<Rightarrow> Inl TypeError)"

definition set_client :: "string \<Rightarrow> gw_client \<Rightarrow> gateway \<Rightarrow> gateway" where
  "set_client cid cl g = g\<lparr>gw_clients := AList.update cid cl (gw_clients g)\<rparr>"

definition on_message :: "bool \<Rightarrow> string \<Rightarrow> json option \<Rightarrow> gateway \<Rightarrow> gateway" where
  "on_message up cid frame g =
     (case (frame, map_of (gw_clients g) cid) of
        (Some (JObj msg), Some cl) \<Rightarrow>
          (case message_symbols (get_or msg ''symbols'' (JArr [])) of
             Inl _ \<Rightarrow> drop_client cid g
           | Inr symbols \<Rightarrow>
               let action = get_or msg ''action'' (JStr []) in
               if action = JStr ''subscribe'' then
                 let valid = filter (\<lambda>s. s \<in> set (gw_supported g)) symbols;
                     cl' = cl\<lparr>gc_symbols := gc_symbols cl \<union> set valid\<rparr>
                 in send_or_drop up cid (Subscribed (gc_symbols cl') valid) (set_client cid cl' g)
               else if action = JStr ''unsubscribe'' then
                 let cl' = cl\<lparr>gc_symbols := gc_symbols cl - set symbols\<rparr>
                 in send_or_drop up cid (Unsubscribed (gc_symbols cl')) (set_client cid cl' g)
               else if action = JStr ''subscribe_metrics'' then
                 let g' = set_client cid (cl\<lparr>gc_metrics := True\<rparr>) g
                 in if up then send_to cid (Metrics_Subscribed 5000) (send_to cid Metrics_Snapshot g')
                    else drop_client cid g'
               else if action = JStr ''unsubscribe_metrics''
               then set_client cid (cl\<lparr>gc_metrics := False\<rparr>) g
               else g)
      | (Some _, Some _) \<Rightarrow> drop_client cid g
      | _ \<Rightarrow> g)"

text \<open>\<open>(payload.get("symbol") or "").upper()\<close>; a truthy value that is no string raises.\<close>

definition payload_symbol :: "payload \<Rightarrow> string result" where
  "payload_symbol p =
     (let v = get_or p ''symbol'' JNull in
      if \<not> truthy v then Inr [] else bindR (as_str v) (\<lambda>s. Inr (upper s)))"

definition send_event :: "(string \<Rightarrow> bool) \<Rightarrow> string \<Rightarrow> payload \<Rightarrow> string list \<Rightarrow> gateway \<Rightarrow> gateway" where
  "send_event up event p cids g =
     (let dead = filter (Not \<circ> up) cids
      in fold drop_client dead (fold (\<lambda>cid. send_to cid (Event event p)) (filter up cids) g))"

definition wants :: "string \<Rightarrow> gw_client \<Rightarrow> bool" where
  "wants symbol cl \<longleftrightarrow> symbol = [] \<or> symbol \<in> gc_symbols cl"

definition deliver :: "(string \<Rightarrow> bool) \<Rightarrow> broadcast \<Rightarrow> gateway \<Rightarrow> gateway" where
  "deliver up b g =
     (case b of
        To_All event p \<Rightarrow> send_event up event p (map fst (gw_clients g)) g
      | To_Symbol event p \<Rightarrow>
          (case payload_symbol p of
             Inl _ \<Rightarrow> g
           | Inr symbol \<Rightarrow>
               let cids = map fst (filter (\<lambda>(cid, cl). wants symbol cl) (gw_clients g))
               in (send_event up event p cids g)
                    \<lparr>gw_delivered := gw_delivered g + length (filter up cids)\<rparr>))"

text \<open>A tick of \<open>_metrics_loop\<close>: a failed send is passed over.\<close>

definition metrics_tick :: "(string \<Rightarrow> bool) \<Rightarrow> gateway \<Rightarrow> gateway" where
  "metrics_tick up g =
     fold (\<lambda>cid. send_to cid Metrics_Snapshot)
       (filter up (map fst (filter (\<lambda>(cid, cl). gc_metrics cl) (gw_clients g)))) g"

section \<open>Supervision: \<open>PipelineManager\<close>\<close>

record engine_entry =
  en_health :: string
  en_restart_count :: nat
  en_last_error :: "string option"
  en_connected_at :: "real option"
  en_signals_received :: nat
  en_raw_counters :: "(string \<times> int) list"
  en_raw_gauges :: "(string \<times> real) list"
  en_scheduler :: "payload list"

definition new_entry :: engine_entry where
  "new_entry = \<lparr>en_health = ''starting'', en_restart_count = 0, en_last_error = None,
     en_connected_at = None, en_signals_received = 0, en_raw_counters = [], en_raw_gauges = [],
     en_scheduler = []\<rparr>"

text \<open>The task of \<open>_supervise\<close>: where it waits, and the pause it would make next.\<close>

datatype task = Booting | Parked | Pausing | Ended

record supervised =
  su_entry :: engine_entry
  su_task :: task
  su_backoff :: real

definition INIT_BACKOFF :: real where "INIT_BACKOFF = 5"
definition MAX_BACKOFF :: real where "MAX_BACKOFF = 300"

definition boot :: "supervised \<Rightarrow> supervised" where
  "boot su = su\<lparr>su_task := Booting,
     su_entry := (su_entry su)\<lparr>en_health := ''starting'', en_last_error := None\<rparr>\<rparr>"

definition start_supervised :: supervised where
  "start_supervised = boot \<lparr>su_entry = new_entry, su_task = Booting, su_backoff = INIT_BACKOFF\<rparr>"

datatype engine_event =
    Started real | Crashed string | Pause_Over | Task_Cancelled | Manual_Restart
  | Signal_Event string payload | Metrics_Read "(string \<times> int) list" "(string \<times> real) list" "payload list"

text \<open>The state after an event, and the pause that a crash begins.\<close>

fun supervise :: "engine_event \<Rightarrow> supervised \<Rightarrow> real option \<times> supervised" where
  "supervise (Started t) su =
     (None, if su_task su = Booting
            then su\<lparr>su_task := Parked,
                    su_entry := (su_entry su)\<lparr>en_health := ''running'', en_connected_at := Some t\<rparr>\<rparr>
            else su)"
| "supervise (Crashed msg) su =
     (if su_task su = Booting \<or> su_task su = Parked
      then (Some (su_backoff su),
            su\<lparr>su_task := Pausing,
               su_entry := (su_entry su)\<lparr>en_health := ''error'', en_last_error := Some msg,
                 en_connected_at := None, en_restart_count := en_restart_count (su_entry su) + 1\<rparr>\<rparr>)
      else (None, su))"
| "supervise Pause_Over su =
     (None, if su_task su = Pausing
            then boot (su\<lparr>su_backoff := min (su_backoff su * 2) MAX_BACKOFF\<rparr>) else su)"
| "supervise Task_Cancelled su =
     (None, if su_task su = Ended then su
            else su\<lparr>su_task := Ended, su_entry := (su_entry su)\<lparr>en_health := ''stopped''\<rparr>\<rparr>)"
| "supervise Manual_Restart su =
     (None, boot (su\<lparr>su_backoff := INIT_BACKOFF,
        su_entry := (su_entry su)\<lparr>en_restart_count := 0\<rparr>\<rparr>))"
| "supervise (Signal_Event event p) su =
     (None, if event = ''signal.triggered''
            then su\<lparr>su_entry := (su_entry su)
              \<lparr>en_signals_received := en_signals_received (su_entry su) + 1\<rparr>\<rparr> else su)"
| "supervise (Metrics_Read counters gauges rows) su =
     (None, if su_task su = Parked
            then su\<lparr>su_entry := (su_entry su)\<lparr>en_raw_counters := counters, en_raw_gauges := gauges,
                    en_scheduler := rows\<rparr>\<rparr> else su)"

fun supervise_run :: "engine_event list \<Rightarrow> supervised \<Rightarrow> real list \<times> supervised" where
  "supervise_run [] su = ([], su)"
| "supervise_run (e # es) su =
     (case supervise e su of (d, su') \<Rightarrow>
        case supervise_run es su' of (ds, su'') \<Rightarrow> (case d of None \<Rightarrow> ds | Some x \<Rightarrow> x # ds, su''))"

text \<open>The manager of all engines: one supervised task per broker.\<close>

type_synonym pipeline = "(string \<times> supervised) list"

definition pipeline_start :: "string list \<Rightarrow> pipeline \<Rightarrow> pipeline" where
  "pipeline_start sources ps = fold (\<lambda>broker. AList.update broker start_supervised) sources ps"

definition pipeline_stop :: "pipeline \<Rightarrow> pipeline" where
  "pipeline_stop ps = []"

definition pipeline_event :: "string \<Rightarrow> engine_event \<Rightarrow> pipeline \<Rightarrow> pipeline" where
  "pipeline_event broker e ps =
     (case map_of ps broker of
        None \<Rightarrow> ps
      | Some su \<Rightarrow> AList.update broker (snd (supervise e su)) ps)"

definition pipeline_restart :: "string \<Rightarrow> pipeline \<Rightarrow> pipeline result" where
  "pipeline_restart broker ps =
     (if map_of ps broker = None then Inl ValueError else Inr (pipeline_event broker Manual_Restart ps))"

definition pipeline_stats :: "pipeline \<Rightarrow> (string \<times> engine_entry) list" where
  "pipeline_stats ps = map (\<lambda>(broker, su). (broker, su_entry su)) ps"

section \<open>Figures over all brokers: \<open>_build_metrics\<close>\<close>

definition stats_connected :: "engine_entry \<Rightarrow> bool" where
  "stats_connected e \<longleftrightarrow> en_health e = ''running''"

definition add_count :: "string \<times> int \<Rightarrow> (string \<times> int) list \<Rightarrow> (string \<times> int) list" where
  "add_count kv acc =
     AList.update (fst kv) ((case map_of acc (fst kv) of None \<Rightarrow> 0 | Some c \<Rightarrow> c) + snd kv) acc"

definition raise_gauge :: "string \<times> real \<Rightarrow> (string \<times> real) list \<Rightarrow> (string \<times> real) list" where
  "raise_gauge kv acc =
     AList.update (fst kv) (max (case map_of acc (fst kv) of None \<Rightarrow> 0 | Some c \<Rightarrow> c) (snd kv)) acc"

record gateway_metrics =
  gm_delivered :: nat
  gm_received :: nat
  gm_clients :: nat
  gm_engine_count :: nat
  gm_engine_online :: nat
  gm_raw_counters :: "(string \<times> int) list"
  gm_raw_gauges :: "(string \<times> real) list"
  gm_scheduler :: "payload list"

definition build_metrics :: "(string \<times> engine_entry) list \<Rightarrow> gateway \<Rightarrow> gateway_metrics" where
  "build_metrics by_source g =
     \<lparr>gm_delivered = gw_delivered g,
      gm_received = sum_list (map (en_signals_received \<circ> snd) by_source),
      gm_clients = length (gw_clients g),
      gm_engine_count = length by_source,
      gm_engine_online = length (filter (stats_connected \<circ> snd) by_source),
      gm_raw_counters = fold add_count (concat (map (en_raw_counters \<circ> snd) by_source)) [],
      gm_raw_gauges = fold raise_gauge (concat (map (en_raw_gauges \<circ> snd) by_source)) [],
      gm_scheduler = concat (map (\<lambda>(broker, e). map (AList.update ''broker'' (JStr broker)) (en_scheduler e))
        by_source)\<rparr>"

definition metric_count :: "gateway_metrics \<Rightarrow> string \<Rightarrow> int" where
  "metric_count m k = (case map_of (gm_raw_counters m) k of None \<Rightarrow> 0 | Some c \<Rightarrow> c)"

definition metric_gauge :: "gateway_metrics \<Rightarrow> string \<Rightarrow> real" where
  "metric_gauge m k = (case map_of (gm_raw_gauges m) k of None \<Rightarrow> 0 | Some c \<Rightarrow> c)"

end
