(* ===== verification/Consensus_Laws.thy ===== *)
theory Consensus_Laws
  imports Consensus "HOL-Library.Multiset"
begin

text \<open>
  The confirmation engine accounts for every signal: at any time it waits, or it is named in one
  consensus list that was sent, or it was dropped while a signal of its broker waited. No signal waits past its window. A third broker and a second
  pair of timeframes on one candle are where this differs from what the module says.
\<close>

section \<open>The invariant\<close>

lemma get_or_update: "get_or (AList.update k v d) k' dflt = (if k = k' then v else get_or d k' dflt)"
  by (simp add: get_or_def update_conv')

lemma setup_key_consensus [simp]: "setup_key rp (with_consensus sig bs) = setup_key rp sig"
  by (simp add: setup_key_def with_consensus_def get_or_update)

lemma setup_key_broker [simp]: "setup_key rp (AList.update ''broker'' v sig) = setup_key rp sig"
  by (simp add: setup_key_def get_or_update)

lemma consensus_of [simp]: "get_or (with_consensus sig bs) ''consensus'' JNull = JArr (map JStr bs)"
  by (simp add: with_consensus_def get_or_update)

definition one_broker_each :: "(json \<Rightarrow> string) \<Rightarrow> consensus \<Rightarrow> bool" where
  "one_broker_each rp c \<longleftrightarrow> distinct (map fst (cs_pending c)) \<and>
     (\<forall>(k, p) \<in> set (cs_pending c). setup_key rp (pn_signal p) = k \<and> (\<exists>b. pn_brokers p = [b]))"

lemma one_broker_new: "one_broker_each rp (new_consensus w)"
  by (simp add: one_broker_each_def new_consensus_def)

lemma one_broker_lookup:
  assumes "one_broker_each rp c" "map_of (cs_pending c) k = Some p"
  obtains b where "setup_key rp (pn_signal p) = k" "pn_brokers p = [b]"
  using assms map_of_SomeD [OF assms(2)] unfolding one_broker_each_def by fastforce

lemma one_broker_member:
  "one_broker_each rp c \<Longrightarrow> (k, p) \<in> set (cs_pending c) \<Longrightarrow> \<exists>b. pn_brokers p = [b]"
  unfolding one_broker_each_def by blast

lemma set_alist_update:
  "distinct (map fst al) \<Longrightarrow> set (AList.update k v al) = insert (k, v) {x \<in> set al. fst x \<noteq> k}"
proof (induction al)
  case (Cons x al)
  then show ?case by (cases x) (auto simp: image_iff rev_image_eqI)
qed simp

lemma keys_filter: "k \<in> set (map fst (filter (\<lambda>(k, p). P p) al)) \<longleftrightarrow> (\<exists>p. (k, p) \<in> set al \<and> P p)"
  by force

lemma set_alist_delete: "set (AList.delete k al) \<subseteq> set al"
  by (auto simp: AList.delete_eq)

lemma one_broker_push:
  assumes "one_broker_each rp c" "push_signal rp now sig broker c = (ready, c')"
  shows "one_broker_each rp c'"
proof (cases "map_of (cs_pending c) (setup_key rp sig)")
  case None
  then have "c' = c\<lparr>cs_pending := AList.update (setup_key rp sig)
      \<lparr>pn_signal = sig, pn_brokers = [broker], pn_expires_at = now + cs_window c\<rparr> (cs_pending c)\<rparr>"
    using assms(2) by (simp add: push_signal_def Let_def)
  then show ?thesis
    using assms(1) by (auto simp: one_broker_each_def set_alist_update distinct_update)
next
  case (Some p)
  then have "cs_pending c' = cs_pending c \<or> cs_pending c' = AList.delete (setup_key rp sig) (cs_pending c)"
    using assms(2) by (auto simp: push_signal_def Let_def split: if_splits)
  then show ?thesis
    using assms(1) set_alist_delete [of "setup_key rp sig" "cs_pending c"]
    by (auto simp: one_broker_each_def distinct_delete)
qed

lemma fold_delete: "fold AList.delete ks al = filter (\<lambda>(k, v). k \<notin> set ks) al"
proof (induction ks arbitrary: al)
  case (Cons k ks)
  then show ?case by (auto simp: AList.delete_eq intro!: filter_cong)
qed (simp add: split_def)

lemma one_broker_drain:
  "one_broker_each rp c \<Longrightarrow> drain_expired now c = (sigs, c') \<Longrightarrow> one_broker_each rp c'"
  by (auto simp: one_broker_each_def drain_expired_def Let_def fold_delete distinct_map_filter)

lemma route_consensus:
  "ro_consensus (route rp now event payload broker r) =
     (if event = ''signal.triggered''
      then snd (push_signal rp now (AList.update ''broker'' (JStr broker) payload) broker (ro_consensus r))
      else ro_consensus r)"
  by (auto simp: route_def Let_def emit_to_gateway_def split: prod.splits option.splits)

lemma fold_emit:
  "fold (emit_to_gateway ev) sigs r = r\<lparr>ro_sent := ro_sent r @ map (To_Symbol ev) sigs\<rparr>"
  by (induction sigs arbitrary: r) (simp_all add: emit_to_gateway_def)

lemma drain_simp:
  "drain now r = r\<lparr>ro_consensus := snd (drain_expired now (ro_consensus r)),
     ro_sent := ro_sent r @ map (To_Symbol ''signal.triggered'') (fst (drain_expired now (ro_consensus r)))\<rparr>"
  by (simp add: drain_def fold_emit split: prod.splits)

lemma one_broker_step: "one_broker_each rp (ro_consensus r) \<Longrightarrow> one_broker_each rp (ro_consensus (route_step rp e r))"
proof (cases e)
  case (Engine_Event now event payload broker)
  then show "one_broker_each rp (ro_consensus r) \<Longrightarrow> ?thesis"
    by (auto simp: route_consensus intro: one_broker_push [OF _ surjective_pairing])
next
  case (Drain_Tick now)
  then show "one_broker_each rp (ro_consensus r) \<Longrightarrow> ?thesis"
    by (auto simp: drain_simp intro: one_broker_drain [OF _ surjective_pairing])
qed

section \<open>Conservation\<close>

lemma sent_append: "sent_brokers rp k (xs @ ys) = sent_brokers rp k xs @ sent_brokers rp k ys"
  by (induction rp k xs rule: sent_brokers.induct) auto

lemma fstring_brokers [simp]: "map (fstring rp \<circ> JStr) bs = bs"
  by (simp add: comp_def)

lemma waiting_after_push:
  assumes "one_broker_each rp c" "push_signal rp now sig broker c = (ready, c')"
  shows "mset (case ready of None \<Rightarrow> [] | Some s \<Rightarrow> sent_brokers rp k [To_Symbol ev s]) + mset (waiting_brokers c' k) =
     mset (waiting_brokers c k) +
     mset (if setup_key rp sig = k \<and> broker \<notin> set (waiting_brokers c k) then [broker] else [])"
proof (cases "map_of (cs_pending c) (setup_key rp sig)")
  case None
  then show ?thesis
    using assms(2) by (auto simp: push_signal_def Let_def waiting_brokers_def update_conv')
next
  case (Some p)
  obtain b where p: "setup_key rp (pn_signal p) = setup_key rp sig" "pn_brokers p = [b]"
    using one_broker_lookup [OF assms(1) Some] .
  show ?thesis
    using assms(2) Some p
    by (auto simp: push_signal_def Let_def waiting_brokers_def delete_conv' split: if_splits)
qed

lemma drained_brokers:
  assumes "distinct (map fst al)" "\<forall>(k, p) \<in> set al. setup_key rp (pn_signal p) = k"
  shows "mset (sent_brokers rp k (map (To_Symbol ev) (map (\<lambda>(k, p). with_consensus (pn_signal p) (pn_brokers p)) al)))
    = mset (case map_of al k of None \<Rightarrow> [] | Some p \<Rightarrow> pn_brokers p)"
  using assms
proof (induction al)
  case (Cons x al)
  obtain k' p where x: "x = (k', p)" by (cases x)
  have ih: "mset (sent_brokers rp k (map (To_Symbol ev) (map (\<lambda>(k, p). with_consensus (pn_signal p) (pn_brokers p)) al)))
    = mset (case map_of al k of None \<Rightarrow> [] | Some p \<Rightarrow> pn_brokers p)"
    using Cons by simp
  have "k' = k \<Longrightarrow> map_of al k = None" using Cons.prems(1) x by (auto simp: map_of_eq_None_iff)
  with ih show ?case using Cons.prems(2) x by (auto simp: comp_def)
qed simp

lemma map_of_filter_split:
  "distinct (map fst al) \<Longrightarrow>
   map_of (filter P al) k = (case map_of al k of None \<Rightarrow> None | Some v \<Rightarrow> if P (k, v) then Some v else None)"
  by (induction al) (auto split: option.splits simp: map_of_eq_None_iff rev_image_eqI)

lemma waiting_after_drain:
  assumes "one_broker_each rp c" "drain_expired now c = (sigs, c')"
  shows "mset (sent_brokers rp k (map (To_Symbol ev) sigs)) + mset (waiting_brokers c' k) = mset (waiting_brokers c k)"
proof -
  let ?al = "cs_pending c"
  let ?ready = "filter (\<lambda>(k, p). pn_expires_at p \<le> now) ?al"
  have d: "distinct (map fst ?al)" and key: "\<forall>(k, p) \<in> set ?al. setup_key rp (pn_signal p) = k"
    using assms(1) by (auto simp: one_broker_each_def)
  have rest: "fold AList.delete (map fst ?ready) ?al = filter (\<lambda>(k, p). \<not> pn_expires_at p \<le> now) ?al"
    unfolding fold_delete
  proof (rule filter_cong [OF HOL.refl])
    fix x assume x: "x \<in> set ?al"
    obtain k p where kp: "x = (k, p)" by (cases x)
    have "p' = p" if "(k, p') \<in> set ?al" for p'
      using eq_key_imp_eq_value [OF d that] x kp by simp
    then have "(k \<in> set (map fst ?ready)) = (pn_expires_at p \<le> now)"
      using x kp unfolding keys_filter by blast
    then show "(case x of (k, v) \<Rightarrow> k \<notin> set (map fst ?ready)) = (case x of (k, p) \<Rightarrow> \<not> pn_expires_at p \<le> now)"
      using kp by simp
  qed
  have "sigs = map (\<lambda>(k, p). with_consensus (pn_signal p) (pn_brokers p)) ?ready"
    "cs_pending c' = filter (\<lambda>(k, p). \<not> pn_expires_at p \<le> now) ?al"
    using assms(2) rest by (auto simp: drain_expired_def Let_def)
  moreover have "mset (sent_brokers rp k (map (To_Symbol ev) (map (\<lambda>(k, p). with_consensus (pn_signal p) (pn_brokers p)) ?ready)))
      = mset (case map_of ?ready k of None \<Rightarrow> [] | Some p \<Rightarrow> pn_brokers p)"
    using d key by (intro drained_brokers) (auto simp: distinct_map_filter)
  ultimately show ?thesis
    using d by (auto simp: waiting_brokers_def map_of_filter_split split: option.splits)
qed

lemma route_conserves:
  assumes "one_broker_each rp (ro_consensus r)"
  shows "mset (sent_brokers rp k (ro_sent (route_step rp e r))) + mset (waiting_brokers (ro_consensus (route_step rp e r)) k) +
      mset (repeated_by rp k [e] r)
    = mset (sent_brokers rp k (ro_sent r)) + mset (waiting_brokers (ro_consensus r) k) + mset (received_from rp k [e])"
proof (cases e)
  case (Engine_Event now event payload broker)
  let ?p = "AList.update ''broker'' (JStr broker) payload"
  obtain ready c' where push: "push_signal rp now ?p broker (ro_consensus r) = (ready, c')" by force
  show ?thesis
    using waiting_after_push [OF assms push, of k "''signal.triggered''"] push Engine_Event
    by (cases ready) (auto simp: route_def Let_def emit_to_gateway_def sent_append ac_simps)
next
  case (Drain_Tick now)
  obtain sigs c' where d: "drain_expired now (ro_consensus r) = (sigs, c')" by force
  show ?thesis
    using waiting_after_drain [OF assms d, of k "''signal.triggered''"] d Drain_Tick
    by (auto simp: drain_simp sent_append ac_simps)
qed

lemma received_Cons: "received_from rp k (e # es) = received_from rp k [e] @ received_from rp k es"
  by (cases e) simp_all

lemma balance_step:
  fixes a b c d e f g h i j :: "string multiset"
  assumes "a + b + c = d + e + f" "d + e + g = h + i + j"
  shows "a + b + (g + c) = h + i + (j + f)"
proof -
  have "a + b + (g + c) = (a + b + c) + g" by (simp add: ac_simps)
  also have "\<dots> = (d + e + g) + f" unfolding assms(1) by (simp add: ac_simps)
  also have "\<dots> = h + i + (j + f)" unfolding assms(2) by (simp add: ac_simps)
  finally show ?thesis .
qed

lemma route_run_conserves:
  "one_broker_each rp (ro_consensus r) \<Longrightarrow>
   mset (sent_brokers rp k (ro_sent (route_run rp es r))) + mset (waiting_brokers (ro_consensus (route_run rp es r)) k) +
     mset (repeated_by rp k es r)
   = mset (sent_brokers rp k (ro_sent r)) + mset (waiting_brokers (ro_consensus r) k) + mset (received_from rp k es)"
proof (induction es arbitrary: r)
  case (Cons e es)
  have rep: "mset (repeated_by rp k (e # es) r) = mset (repeated_by rp k [e] r) + mset (repeated_by rp k es (route_step rp e r))"
    by simp
  have rec: "mset (received_from rp k (e # es)) = mset (received_from rp k [e]) + mset (received_from rp k es)"
    by (subst received_Cons) simp
  have run: "route_run rp (e # es) r = route_run rp es (route_step rp e r)" by (simp add: route_run_def)
  show ?case
    unfolding rep rec run
    by (rule balance_step [OF Cons.IH [OF one_broker_step [OF Cons.prems]] route_conserves [OF Cons.prems]])
qed (simp add: route_run_def)

text \<open>What a broadcast of the router looks like.\<close>

definition well_sent :: "broadcast \<Rightarrow> bool" where
  "well_sent b \<longleftrightarrow>
     (case b of
        To_All ev sig \<Rightarrow> ev \<noteq> ''signal.triggered''
      | To_Symbol ev sig \<Rightarrow> ev = ''signal.triggered'' \<and>
          (\<exists>bs. get_or sig ''consensus'' JNull = JArr (map JStr bs) \<and> distinct bs \<and> length bs \<in> {1, 2}))"

lemma push_well_sent:
  assumes "one_broker_each rp c" "push_signal rp now sig broker c = (Some s, c')"
  shows "well_sent (To_Symbol ''signal.triggered'' s)"
proof (cases "map_of (cs_pending c) (setup_key rp sig)")
  case (Some p)
  obtain b where "pn_brokers p = [b]" using one_broker_lookup [OF assms(1) Some] .
  then have "s = with_consensus (pn_signal p) [b, broker]" "broker \<noteq> b"
    using assms(2) Some by (auto simp: push_signal_def Let_def split: if_splits)
  then show ?thesis
    unfolding well_sent_def by (auto intro: exI [of _ "[b, broker]"])
qed (use assms(2) in \<open>simp add: push_signal_def Let_def\<close>)

lemma drain_well_sent:
  assumes "one_broker_each rp c" "drain_expired now c = (sigs, c')" "s \<in> set sigs"
  shows "well_sent (To_Symbol ''signal.triggered'' s)"
proof -
  obtain k p where "(k, p) \<in> set (cs_pending c)" "s = with_consensus (pn_signal p) (pn_brokers p)"
    using assms(2,3) by (auto simp: drain_expired_def Let_def)
  moreover from this obtain b where "pn_brokers p = [b]"
    using one_broker_member [OF assms(1)] by blast
  ultimately show ?thesis
    unfolding well_sent_def by (auto intro: exI [of _ "[b]"])
qed

lemma step_well_sent:
  assumes "one_broker_each rp (ro_consensus r)" "\<forall>b \<in> set (ro_sent r). well_sent b"
  shows "\<forall>b \<in> set (ro_sent (route_step rp e r)). well_sent b"
proof (cases e)
  case (Engine_Event now event payload broker)
  let ?p = "AList.update ''broker'' (JStr broker) payload"
  obtain ready c' where push: "push_signal rp now ?p broker (ro_consensus r) = (ready, c')" by force
  have "well_sent (To_All event ?p)" if "event \<noteq> ''signal.triggered''"
    using that by (simp add: well_sent_def)
  then show ?thesis
    using assms(2) push Engine_Event push_well_sent [OF assms(1), of now ?p broker]
    by (cases ready) (auto simp: route_def Let_def emit_to_gateway_def)
next
  case (Drain_Tick now)
  obtain sigs c' where d: "drain_expired now (ro_consensus r) = (sigs, c')" by force
  show ?thesis
    using assms(2) Drain_Tick d drain_well_sent [OF assms(1) d] by (auto simp: drain_simp)
qed

lemma run_well_sent:
  "one_broker_each rp (ro_consensus r) \<Longrightarrow> \<forall>b \<in> set (ro_sent r). well_sent b \<Longrightarrow>
   one_broker_each rp (ro_consensus (route_run rp es r)) \<and> (\<forall>b \<in> set (ro_sent (route_run rp es r)). well_sent b)"
  unfolding route_run_def
proof (induction es arbitrary: r)
  case (Cons e es)
  then show ?case
    using Cons.IH [OF one_broker_step [OF Cons.prems(1)] step_well_sent [OF Cons.prems]] by simp
qed simp

lemma one_broker_waits:
  assumes "one_broker_each rp c" shows "length (waiting_brokers c k) \<le> 1"
proof (cases "map_of (cs_pending c) k")
  case (Some p)
  obtain b where "pn_brokers p = [b]" using one_broker_lookup [OF assms Some] .
  with Some show ?thesis by (simp add: waiting_brokers_def)
qed (simp add: waiting_brokers_def)

lemma one_broker_new_router: "one_broker_each rp (ro_consensus (new_router w))"
  by (simp add: new_router_def one_broker_new)

text \<open>
  C20: what becomes of a triggered signal on its way to the gateway. After any run every triggered
  signal of a setup that was received is accounted for once: its broker is named in one
  consensus list that was sent, or it waits, or it was dropped as a repetition, which happens only
  while an earlier signal of the same broker and setup waits. At most one broker of a setup
  waits, and every signal sent names one or two different brokers. So nothing is lost when no
  broker says a setup twice while its first waits. A setup may be sent more than once, with
  other brokers each time (\<open>third_broker_reemits\<close>), and a repetition may be another signal
  (\<open>second_pair_on_a_candle_is_lost\<close>).
\<close>

theorem consensus_conserves_signals:
  "mset (sent_brokers rp k (ro_sent (route_run rp es (new_router w)))) +
     mset (waiting_brokers (ro_consensus (route_run rp es (new_router w))) k) +
     mset (repeated_by rp k es (new_router w)) = mset (received_from rp k es) \<and>
   length (waiting_brokers (ro_consensus (route_run rp es (new_router w))) k) \<le> 1 \<and>
   list_all well_sent (ro_sent (route_run rp es (new_router w)))"
proof -
  let ?r = "route_run rp es (new_router w)"
  note ok = one_broker_new_router [of rp w]
  have new: "ro_sent (new_router w) = []" "waiting_brokers (ro_consensus (new_router w)) k = []"
    by (simp_all add: new_router_def new_consensus_def waiting_brokers_def)
  have well: "one_broker_each rp (ro_consensus ?r) \<and> (\<forall>b \<in> set (ro_sent ?r). well_sent b)"
    using run_well_sent [OF ok, of es] new(1) by simp
  then have "length (waiting_brokers (ro_consensus ?r) k) \<le> 1" by (blast intro: one_broker_waits)
  with well route_run_conserves [OF ok, of k es] new show ?thesis
    by (simp add: list_all_iff)
qed

section \<open>The window\<close>

definition received :: "(json \<Rightarrow> string) \<Rightarrow> string \<Rightarrow> real \<Rightarrow> route_event list \<Rightarrow> bool" where
  "received rp k t es \<longleftrightarrow>
     (\<exists>payload broker. Engine_Event t ''signal.triggered'' payload broker \<in> set es \<and> setup_key rp payload = k)"

definition dated :: "(json \<Rightarrow> string) \<Rightarrow> real \<Rightarrow> route_event list \<Rightarrow> consensus \<Rightarrow> bool" where
  "dated rp w es c \<longleftrightarrow> cs_window c = w \<and>
     (\<forall>(k, p) \<in> set (cs_pending c). \<exists>t. received rp k t es \<and> pn_expires_at p = t + w)"

lemma dated_push:
  assumes "one_broker_each rp c" "dated rp w es c"
  shows "dated rp w (es @ [Engine_Event now ''signal.triggered'' payload broker])
    (snd (push_signal rp now (AList.update ''broker'' (JStr broker) payload) broker c))"
proof -
  let ?es = "es @ [Engine_Event now ''signal.triggered'' payload broker]"
  let ?k = "setup_key rp payload"
  have old: "received rp k t es \<Longrightarrow> received rp k t ?es" for k t by (auto simp: received_def)
  have new: "received rp ?k now ?es" by (auto simp: received_def)
  have al: "distinct (map fst (cs_pending c))" using assms(1) by (simp add: one_broker_each_def)
  have in_time: "\<exists>t. received rp k t ?es \<and> pn_expires_at p = t + w"
    if "(k, p) \<in> set (cs_pending c)" for k p
    using assms(2) that old unfolding dated_def by blast
  show ?thesis
  proof (cases "map_of (cs_pending c) ?k")
    case None
    have "cs_window c = w" using assms(2) by (simp add: dated_def)
    with None show ?thesis
      using in_time new by (auto simp: dated_def push_signal_def Let_def set_alist_update [OF al])
  next
    case (Some p)
    have "cs_window c = w" using assms(2) by (simp add: dated_def)
    with Some show ?thesis
      using in_time subsetD [OF set_alist_delete, of _ ?k "cs_pending c"]
      by (auto simp: dated_def push_signal_def Let_def)
  qed
qed

lemma dated_mono: "dated rp w es c \<Longrightarrow> set es \<subseteq> set es' \<Longrightarrow> dated rp w es' c"
  unfolding dated_def received_def by fastforce

lemma dated_drain: "dated rp w es c \<Longrightarrow> dated rp w es (snd (drain_expired now c))"
  by (auto simp: dated_def drain_expired_def Let_def fold_delete)

lemma dated_step:
  assumes "one_broker_each rp (ro_consensus r)" "dated rp w es (ro_consensus r)"
  shows "dated rp w (es @ [e]) (ro_consensus (route_step rp e r))"
proof (cases e)
  case (Engine_Event now event payload broker)
  then show ?thesis
    using dated_push [OF assms] dated_mono [OF assms(2), of "es @ [e]"] by (auto simp: route_consensus)
next
  case (Drain_Tick now)
  then show ?thesis
    using dated_mono [OF dated_drain [OF assms(2)], of "es @ [e]"] by (auto simp: drain_simp)
qed

lemma dated_run:
  "one_broker_each rp (ro_consensus r) \<Longrightarrow> dated rp w es0 (ro_consensus r) \<Longrightarrow>
   dated rp w (es0 @ es) (ro_consensus (route_run rp es r))"
proof (induction es arbitrary: r es0)
  case (Cons e es)
  then show ?case
    using Cons.IH [OF one_broker_step [OF Cons.prems(1)] dated_step [OF Cons.prems]]
    by (simp add: route_run_def)
qed (simp add: route_run_def)

lemma drained_rest:
  assumes "one_broker_each rp c" "(k, p) \<in> set (cs_pending (snd (drain_expired now c)))"
  shows "now < pn_expires_at p \<and> (k, p) \<in> set (cs_pending c)"
proof -
  have "(k, p) \<in> set (cs_pending c)"
    "k \<notin> set (map fst (filter (\<lambda>(k, p). pn_expires_at p \<le> now) (cs_pending c)))"
    using assms(2) by (auto simp: drain_expired_def Let_def fold_delete)
  then show ?thesis unfolding keys_filter by auto
qed

text \<open>
  C21: no signal waits past its window. After any run that ends with a tick of the drain loop at
  time \<open>t\<close>, a setup still waits only if a triggered signal of it was received less than the window
  before \<open>t\<close>; with the default window of zero nothing waits at all.
\<close>

theorem no_signal_waits_past_window:
  assumes "waiting_brokers (ro_consensus (route_run rp (es @ [Drain_Tick t]) (new_router w))) k \<noteq> []"
  shows "\<exists>t'. received rp k t' es \<and> t < t' + of_int w / 1000"
proof -
  let ?c = "ro_consensus (route_run rp es (new_router w))"
  have c: "ro_consensus (route_run rp (es @ [Drain_Tick t]) (new_router w)) = snd (drain_expired t ?c)"
    by (simp add: route_run_def drain_simp)
  have one: "one_broker_each rp ?c"
    using run_well_sent [of rp "new_router w" es] one_broker_new_router by (simp add: new_router_def)
  obtain p where "(k, p) \<in> set (cs_pending (snd (drain_expired t ?c)))"
    using assms unfolding c waiting_brokers_def by (auto split: option.splits dest: map_of_SomeD)
  then have p: "t < pn_expires_at p" "(k, p) \<in> set (cs_pending ?c)"
    using drained_rest [OF one] by blast+
  have "dated rp (of_int w / 1000) [] (ro_consensus (new_router w))"
    by (simp add: dated_def new_router_def new_consensus_def)
  then have "dated rp (of_int w / 1000) es ?c"
    using dated_run [of rp "new_router w" "of_int w / 1000" "[]" es] one_broker_new_router by simp
  then obtain t' where "received rp k t' es" "pn_expires_at p = t' + of_int w / 1000"
    using p(2) by (fastforce simp: dated_def)
  with p(1) show ?thesis by auto
qed

section \<open>Where it differs from what it says\<close>

text \<open>
  with three brokers a setup is announced twice. When three brokers send the same triggered
  signal within one window, the first two make a consensus and the third starts a new wait, which
  ends in a second signal of its own.
\<close>

theorem third_broker_reemits:
  assumes "distinct [b1, b2, b3]" "t + of_int w / 1000 \<le> t'"
  shows "\<exists>s s'. ro_sent (route_run rp
      [Engine_Event t ''signal.triggered'' sig b1, Engine_Event t ''signal.triggered'' sig b2,
       Engine_Event t ''signal.triggered'' sig b3, Drain_Tick t'] (new_router w)) =
      [To_Symbol ''signal.triggered'' s, To_Symbol ''signal.triggered'' s'] \<and>
    get_or s ''consensus'' JNull = JArr [JStr b1, JStr b2] \<and>
    get_or s' ''consensus'' JNull = JArr [JStr b3] \<and> setup_key rp s = setup_key rp s'"
  using assms
  by (auto simp: route_run_def route_def new_router_def new_consensus_def push_signal_def Let_def
      emit_to_gateway_def drain_def drain_expired_def)

text \<open>
  a second pair on the same candle is lost. Two triggered signals of one broker with the same
  symbol, direction and setup candle, whatever their pairs of timeframes, stops and ids, have one
  key: the second is dropped as a repetition while the first waits, and only the first is sent.
\<close>

theorem second_pair_on_a_candle_is_lost:
  assumes "to_dict s1 = Inr (JObj d1)" "to_dict s2 = Inr (JObj d2)"
    and "s_symbol s1 = s_symbol s2" "s_direction s1 = s_direction s2" "open_at_of s1 = open_at_of s2"
    and "open_at_of s1 \<noteq> 0" "t + of_int w / 1000 \<le> t'"
  shows "\<exists>s. ro_sent (route_run rp
      [Engine_Event t ''signal.triggered'' d1 b, Engine_Event t ''signal.triggered'' d2 b, Drain_Tick t']
      (new_router w)) = [To_Symbol ''signal.triggered'' s] \<and>
    get_or s ''id'' JNull = JStr (s_id s1) \<and> get_or s ''ltfInterval'' JNull = JStr (s_ltf_interval s1)"
proof -
  have key: "setup_key rp d = s_symbol s @ ''|'' @ direction_value (s_direction s) @ ''|'' @ show_int (open_at_of s)"
    and fields: "get_or d ''id'' JNull = JStr (s_id s)" "get_or d ''ltfInterval'' JNull = JStr (s_ltf_interval s)"
    if "to_dict s = Inr (JObj d)" "open_at_of s \<noteq> 0" for s d
    using that by (auto simp: to_dict_def bindR_Inr_iff signal_entries_def setup_key_def get_or_def jor_def)
  have "setup_key rp d1 = setup_key rp d2"
    using key [OF assms(1,6)] key [OF assms(2)] assms(3-6) by simp
  then show ?thesis
    using fields [OF assms(1,6)] assms(7)
    by (simp add: route_run_def route_def new_router_def new_consensus_def push_signal_def Let_def
        emit_to_gateway_def drain_def drain_expired_def with_consensus_def get_or_update)
qed

section \<open>Witnesses\<close>

definition xau_long :: payload where
  "xau_long = [(''id'', JStr ''s1''), (''symbol'', JStr ''XAUUSD''), (''direction'', JStr ''LONG''),
     (''setupCandleOpenAt'', JInt 1704283200000)]"

definition no_repr :: "json \<Rightarrow> string" where "no_repr j = ''?''"

text \<open>A window of a minute, one broker, and a tick after half of it.\<close>

theorem no_signal_waits_past_window_witness:
  "waiting_brokers (ro_consensus (route_run no_repr
      ([Engine_Event 0 ''signal.triggered'' xau_long ''alpha''] @ [Drain_Tick 30]) (new_router 60000)))
      (setup_key no_repr xau_long) = [''alpha''] \<and>
   (\<exists>t'. received no_repr (setup_key no_repr xau_long) t' [Engine_Event 0 ''signal.triggered'' xau_long ''alpha''] \<and>
      30 < t' + of_int 60000 / 1000)"
proof -
  have w: "waiting_brokers (ro_consensus (route_run no_repr
      ([Engine_Event 0 ''signal.triggered'' xau_long ''alpha''] @ [Drain_Tick 30]) (new_router 60000)))
      (setup_key no_repr xau_long) = [''alpha'']"
    by (simp add: route_run_def route_def new_router_def new_consensus_def push_signal_def Let_def
        drain_simp drain_expired_def waiting_brokers_def)
  then show ?thesis
    using no_signal_waits_past_window [of no_repr "[Engine_Event 0 ''signal.triggered'' xau_long ''alpha'']" 30 60000] w
    by simp
qed

theorem third_broker_reemits_witness:
  "\<exists>s s'. ro_sent (route_run no_repr
      [Engine_Event 5 ''signal.triggered'' xau_long ''alpha'', Engine_Event 5 ''signal.triggered'' xau_long ''beta'',
       Engine_Event 5 ''signal.triggered'' xau_long ''gamma'', Drain_Tick 6] (new_router 0)) =
      [To_Symbol ''signal.triggered'' s, To_Symbol ''signal.triggered'' s'] \<and>
    get_or s ''consensus'' JNull = JArr [JStr ''alpha'', JStr ''beta''] \<and>
    get_or s' ''consensus'' JNull = JArr [JStr ''gamma''] \<and> setup_key no_repr s = setup_key no_repr s'"
  by (rule third_broker_reemits) simp_all

text \<open>The worked signal on 1h/5min, and the same setup seen on 30min/5min.\<close>

theorem second_pair_on_a_candle_is_lost_witness:
  "\<exists>d1 d2 s. to_dict ex_signal = Inr (JObj d1) \<and>
     to_dict (ex_signal\<lparr>s_id := ''id2'', s_htf_interval := ''30min''\<rparr>) = Inr (JObj d2) \<and>
     ro_sent (route_run no_repr
       [Engine_Event 5 ''signal.triggered'' d1 ''alpha'', Engine_Event 5 ''signal.triggered'' d2 ''alpha'', Drain_Tick 6]
       (new_router 0)) = [To_Symbol ''signal.triggered'' s] \<and>
     get_or s ''id'' JNull = JStr ''id1''"
proof -
  let ?s2 = "ex_signal\<lparr>s_id := ''id2'', s_htf_interval := ''30min''\<rparr>"
  have close: "close_at_of ex_signal = Inr (the (s_setup_close_at ex_signal))" by code_simp
  then have "close_at_of ?s2 = Inr (the (s_setup_close_at ex_signal))" by (simp add: close_at_of_def)
  with close obtain d1 d2 where d: "to_dict ex_signal = Inr (JObj d1)" "to_dict ?s2 = Inr (JObj d2)"
    by (simp add: to_dict_def)
  have "open_at_of ex_signal \<noteq> 0" "s_id ex_signal = ''id1''" by code_simp+
  then have same: "s_symbol ex_signal = s_symbol ?s2" "s_direction ex_signal = s_direction ?s2"
    "open_at_of ex_signal = open_at_of ?s2" "open_at_of ex_signal \<noteq> 0" "s_id ex_signal = ''id1''"
    by (simp_all add: open_at_of_def)
  show ?thesis
    using second_pair_on_a_candle_is_lost [OF d same(1-4), of 5 0 6 no_repr "''alpha''"] d same(5) by auto
qed

end
