(* ===== verification/Gateway_Laws.thy ===== *)
theory Gateway_Laws
  imports Gateway Consensus_Laws
begin

text \<open>
  Every client gets the events it asked for, in order, whatever happens to the other clients;
  nobody without the secret becomes a client; the pauses between the restarts of an engine double
  up to five minutes; counters add up over the brokers, and negative gauges are lost.
\<close>

section \<open>Delivery\<close>

definition inbox :: "string \<Rightarrow> gateway \<Rightarrow> gw_message list" where
  "inbox cid g = map snd (filter (\<lambda>(c, m). c = cid) (gw_outbox g))"

text \<open>What a client is sent of a broadcast.\<close>

definition addressed :: "gw_client \<Rightarrow> broadcast \<Rightarrow> gw_message list" where
  "addressed cl b =
     (case b of
        To_All event p \<Rightarrow> [Event event p]
      | To_Symbol event p \<Rightarrow>
          (case payload_symbol p of Inl _ \<Rightarrow> [] | Inr s \<Rightarrow> if wants s cl then [Event event p] else []))"

lemma drop_client_frame [simp]:
  "gw_outbox (drop_client c g) = gw_outbox g" "map_of (gw_clients (drop_client c g)) = (map_of (gw_clients g))(c := None)"
  "distinct (map fst (gw_clients g)) \<Longrightarrow> distinct (map fst (gw_clients (drop_client c g)))"
  by (simp_all add: drop_client_def delete_conv' distinct_delete)

lemma fold_drop:
  "gw_outbox (fold drop_client cs g) = gw_outbox g"
  "map_of (gw_clients (fold drop_client cs g)) c = (if c \<in> set cs then None else map_of (gw_clients g) c)"
  "distinct (map fst (gw_clients g)) \<Longrightarrow> distinct (map fst (gw_clients (fold drop_client cs g)))"
  by (induction cs arbitrary: g) auto

lemma fold_send:
  "fold (\<lambda>cid. send_to cid m) cs g = g\<lparr>gw_outbox := gw_outbox g @ map (\<lambda>c. (c, m)) cs\<rparr>"
  by (induction cs arbitrary: g) (simp_all add: send_to_def)

lemma filter_single: "distinct cs \<Longrightarrow> filter (\<lambda>c. c = x) cs = (if x \<in> set cs then [x] else [])"
  by (induction cs) auto

lemma inbox_send_event:
  assumes "distinct cids" "up cid"
  shows "inbox cid (send_event up event p cids g) = inbox cid g @ (if cid \<in> set cids then [Event event p] else [])"
proof -
  have "filter (\<lambda>(c, m). c = cid) (map (\<lambda>c. (c, Event event p)) (filter up cids)) =
      map (\<lambda>c. (c, Event event p)) (filter (\<lambda>c. c = cid) (filter up cids))"
    by (simp add: filter_map comp_def)
  also have "filter (\<lambda>c. c = cid) (filter up cids) = (if cid \<in> set cids then [cid] else [])"
    using filter_single [of "filter up cids" cid] assms by simp
  finally show ?thesis
    by (simp add: send_event_def Let_def inbox_def fold_drop fold_send)
qed

lemma clients_send_event:
  assumes "up cid"
  shows "map_of (gw_clients (send_event up event p cids g)) cid = map_of (gw_clients g) cid"
    "distinct (map fst (gw_clients g)) \<Longrightarrow> distinct (map fst (gw_clients (send_event up event p cids g)))"
  using assms by (simp_all add: send_event_def Let_def fold_drop fold_send)

lemma deliver_one:
  assumes d: "distinct (map fst (gw_clients g))" and cl: "map_of (gw_clients g) cid = Some cl" and up: "up cid"
  shows "inbox cid (deliver up b g) = inbox cid g @ addressed cl b \<and>
    map_of (gw_clients (deliver up b g)) cid = Some cl \<and> distinct (map fst (gw_clients (deliver up b g)))"
proof (cases b)
  case (To_All event p)
  have "cid \<in> set (map fst (gw_clients g))" using cl by (force dest: map_of_SomeD)
  then show ?thesis
    using inbox_send_event [where up = up and cid = cid, OF d up] clients_send_event [where up = up and cid = cid, OF up] cl d To_All
    by (simp add: deliver_def addressed_def)
next
  case (To_Symbol event p)
  show ?thesis
  proof (cases "payload_symbol p")
    case (Inl e)
    then show ?thesis using cl d To_Symbol by (simp add: deliver_def addressed_def)
  next
    case (Inr s)
    let ?cids = "map fst (filter (\<lambda>(cid, cl). wants s cl) (gw_clients g))"
    have dc: "distinct ?cids" using d by (simp add: distinct_map_filter)
    have mem: "(cid \<in> set ?cids) = wants s cl"
    proof -
      have "cl' = cl" if "(cid, cl') \<in> set (gw_clients g)" for cl'
        using eq_key_imp_eq_value [OF d that map_of_SomeD [OF cl]] .
      then show ?thesis using map_of_SomeD [OF cl] unfolding keys_filter by blast
    qed
    have "inbox cid (deliver up b g) = inbox cid (send_event up event p ?cids g)"
      "gw_clients (deliver up b g) = gw_clients (send_event up event p ?cids g)"
      using To_Symbol Inr by (simp_all add: deliver_def Let_def inbox_def)
    then show ?thesis
      using inbox_send_event [where up = up and cid = cid, OF dc up] clients_send_event [where up = up and cid = cid, OF up] cl d To_Symbol Inr mem
      by (simp add: addressed_def)
  qed
qed

text \<open>
  while its sends succeed a client gets exactly the events it asked for, in their order: all
  unfiltered events and the signals of the symbols it is subscribed to, however many other
  clients fail and are removed meanwhile.
\<close>

theorem gateway_delivers_what_was_asked:
  assumes "distinct (map fst (gw_clients g))" "map_of (gw_clients g) cid = Some cl" "up cid"
  shows "inbox cid (fold (deliver up) bs g) = inbox cid g @ concat (map (addressed cl) bs) \<and>
    map_of (gw_clients (fold (deliver up) bs g)) cid = Some cl"
  using assms
proof (induction bs arbitrary: g)
  case (Cons b bs)
  note one = deliver_one [where up = up and cid = cid and b = b, OF Cons.prems]
  show ?case using Cons.IH [of "deliver up b g"] one Cons.prems(3) by simp
qed simp

section \<open>Who is a client\<close>

text \<open>The steps of the server, as the connections cause them.\<close>

datatype gw_step =
    Connect bool string | Frame bool string "json option" | Disconnect string
  | Deliver "string \<Rightarrow> bool" broadcast | Metrics_Tick "string \<Rightarrow> bool"

fun gw_do :: "gw_step \<Rightarrow> gateway \<Rightarrow> gateway" where
  "gw_do (Connect up token) g = connect up token g"
| "gw_do (Frame up cid frame) g = on_message up cid frame g"
| "gw_do (Disconnect cid) g = drop_client cid g"
| "gw_do (Deliver up b) g = deliver up b g"
| "gw_do (Metrics_Tick up) g = metrics_tick up g"

definition admitted :: "gateway \<Rightarrow> bool" where
  "admitted g \<longleftrightarrow> distinct (map fst (gw_clients g)) \<and>
     (\<forall>(cid, cl) \<in> set (gw_clients g). gc_symbols cl \<subseteq> set (gw_supported g))"

lemma admitted_drop: "admitted g \<Longrightarrow> admitted (drop_client c g)"
  using subsetD [OF set_alist_delete, of _ c "gw_clients g"]
  by (auto simp: admitted_def drop_client_def distinct_delete)

lemma admitted_fold_drop: "admitted g \<Longrightarrow> admitted (fold drop_client cs g)"
  by (induction cs arbitrary: g) (auto intro: admitted_drop)

lemma admitted_outbox: "gw_clients g' = gw_clients g \<Longrightarrow> gw_supported g' = gw_supported g \<Longrightarrow> admitted g \<Longrightarrow> admitted g'"
  by (simp add: admitted_def)

lemma admitted_set:
  "admitted g \<Longrightarrow> gc_symbols cl \<subseteq> set (gw_supported g) \<Longrightarrow> admitted (set_client c cl g)"
  by (auto simp: admitted_def set_client_def set_alist_update distinct_update)

lemma admitted_send: "admitted g \<Longrightarrow> admitted (send_or_drop up c m g)" "admitted g \<Longrightarrow> admitted (send_to c m g)"
  by (auto simp: send_or_drop_def intro: admitted_drop admitted_outbox [of "send_to c m g" g])
     (simp_all add: send_to_def admitted_outbox [of _ g])

lemma admitted_send_event: "admitted g \<Longrightarrow> admitted (send_event up ev p cs g)"
  unfolding send_event_def Let_def fold_send
  by (rule admitted_fold_drop) (auto intro: admitted_outbox [of _ g])

lemma admitted_message:
  assumes "admitted g" shows "admitted (on_message up cid frame g)"
proof (cases "map_of (gw_clients g) cid")
  case None
  then show ?thesis using assms by (simp add: on_message_def split: option.splits json.splits)
next
  case (Some cl)
  then have sub: "gc_symbols cl \<subseteq> set (gw_supported g)"
    using assms by (auto simp: admitted_def dest!: map_of_SomeD)
  show ?thesis
    using assms Some sub unfolding on_message_def
    by (auto simp: Let_def split: option.splits json.splits sum.splits
        intro!: admitted_send admitted_set admitted_drop)
qed

lemma admitted_step: "admitted g \<Longrightarrow> admitted (gw_do st g)"
proof (cases st)
  case (Connect up token)
  assume a: "admitted g"
  have "admitted (g\<lparr>gw_counter := n, gw_clients := AList.update c new_client (gw_clients g)\<rparr>)" for n c
    using a by (auto simp: admitted_def set_alist_update distinct_update new_client_def)
  then show ?thesis
    using Connect a by (auto simp: connect_def Let_def intro: admitted_send admitted_outbox [of _ g])
next
  case (Deliver up b)
  assume a: "admitted g"
  then show ?thesis
    using Deliver admitted_send_event [OF a]
    by (auto simp: deliver_def Let_def split: broadcast.splits sum.splits intro: admitted_outbox)
next
  case (Metrics_Tick up)
  assume a: "admitted g"
  then show ?thesis using Metrics_Tick by (auto simp: metrics_tick_def fold_send intro: admitted_outbox [of _ g])
qed (auto intro: admitted_message admitted_drop)

text \<open>Without the secret no step adds a client.\<close>

definition outsider :: "string \<Rightarrow> gw_step \<Rightarrow> bool" where
  "outsider secret st \<longleftrightarrow> (case st of Connect up token \<Rightarrow> token \<noteq> secret | _ \<Rightarrow> True)"

lemma gw_secret_step: "gw_secret (gw_do st g) = gw_secret g"
proof -
  have drop: "gw_secret (drop_client c g) = gw_secret g" "gw_secret (send_to c m g) = gw_secret g"
    "gw_secret (set_client c cl g) = gw_secret g" for c m cl g
    by (simp_all add: drop_client_def send_to_def set_client_def)
  have folds: "gw_secret (fold drop_client cs g) = gw_secret g" for cs g
    by (induction cs arbitrary: g) (simp_all add: drop)
  show ?thesis
    by (cases st) (auto simp: connect_def on_message_def deliver_def metrics_tick_def send_event_def
        send_or_drop_def fold_send folds drop Let_def
        split: option.splits json.splits sum.splits broadcast.splits)
qed

lemma nobody_enters:
  assumes "gw_clients g = []" "gw_secret g \<noteq> []" "outsider (gw_secret g) st"
  shows "gw_clients (gw_do st g) = []"
  using assms
  by (cases st) (auto simp: connect_def on_message_def deliver_def metrics_tick_def send_event_def
      drop_client_def outsider_def fold_send Let_def
      split: option.splits json.splits sum.splits broadcast.splits)

lemma admitted_run: "admitted g \<Longrightarrow> admitted (fold gw_do steps g)"
  by (induction steps arbitrary: g) (auto intro: admitted_step)

lemma outsiders_run:
  "gw_clients g = [] \<Longrightarrow> gw_secret g \<noteq> [] \<Longrightarrow> \<forall>st \<in> set steps. outsider (gw_secret g) st \<Longrightarrow>
   gw_clients (fold gw_do steps g) = []"
proof (induction steps arbitrary: g)
  case (Cons st steps)
  have "gw_clients (gw_do st g) = []" using Cons.prems by (intro nobody_enters) simp_all
  then show ?case using Cons.IH [of "gw_do st g"] Cons.prems by (simp add: gw_secret_step)
qed simp

text \<open>
  a client is subscribed to supported symbols only, whatever it sends; and when a secret is
  configured, connections that do not present it never become clients, so that nothing is sent.
\<close>

theorem gateway_admits_with_secret_only:
  "admitted (fold gw_do steps (new_gateway supported secret)) \<and>
   (secret \<noteq> [] \<and> list_all (outsider secret) steps \<longrightarrow>
      gw_clients (fold gw_do steps (new_gateway supported secret)) = [])"
proof -
  have "admitted (new_gateway supported secret)" by (simp add: admitted_def new_gateway_def)
  moreover have "gw_clients (new_gateway supported secret) = []" "gw_secret (new_gateway supported secret) = secret"
    by (simp_all add: new_gateway_def)
  ultimately show ?thesis
    using admitted_run outsiders_run [of "new_gateway supported secret" steps] by (simp add: list_all_iff)
qed

section \<open>The pauses between restarts\<close>

definition nth_pause :: "nat \<Rightarrow> real" where
  "nth_pause n = min (INIT_BACKOFF * 2 ^ n) MAX_BACKOFF"

lemma nth_pause_0: "nth_pause 0 = INIT_BACKOFF"
  by (simp add: nth_pause_def INIT_BACKOFF_def MAX_BACKOFF_def)

lemma nth_pause_Suc: "min (nth_pause n * 2) MAX_BACKOFF = nth_pause (Suc n)"
  by (simp add: nth_pause_def min_def MAX_BACKOFF_def algebra_simps)

text \<open>After \<open>n\<close> pauses begun: the next pause, while the engine is not in one.\<close>

definition paced :: "nat \<Rightarrow> supervised \<Rightarrow> bool" where
  "paced n su \<longleftrightarrow> en_restart_count (su_entry su) = n \<and>
     (case su_task su of
        Pausing \<Rightarrow> 0 < n \<and> su_backoff su = nth_pause (n - 1)
      | Ended \<Rightarrow> True
      | _ \<Rightarrow> su_backoff su = nth_pause n)"

lemma paced_step:
  assumes "paced n su" "e \<noteq> Manual_Restart" "supervise e su = (d, su')"
  shows "(d = None \<and> paced n su') \<or> (d = Some (nth_pause n) \<and> paced (Suc n) su')"
proof (cases e)
  case Pause_Over
  show ?thesis
  proof (cases "su_task su = Pausing")
    case True
    then have "min (su_backoff su * 2) MAX_BACKOFF = nth_pause n"
      using assms(1) nth_pause_Suc [of "n - 1"] by (simp add: paced_def)
    then show ?thesis
      using assms True Pause_Over by (auto simp: paced_def boot_def)
  qed (use assms Pause_Over in simp)
qed (use assms in \<open>auto simp: paced_def split: task.splits if_splits\<close>)

lemma paced_run:
  "paced n su \<Longrightarrow> Manual_Restart \<notin> set es \<Longrightarrow> supervise_run es su = (ds, su') \<Longrightarrow>
   ds = map nth_pause [n..<n + length ds] \<and> paced (n + length ds) su'"
proof (induction es arbitrary: n su ds)
  case (Cons e es)
  obtain d su1 where s1: "supervise e su = (d, su1)" by force
  obtain ds1 where s2: "supervise_run es su1 = (ds1, su')"
    "ds = (case d of None \<Rightarrow> ds1 | Some x \<Rightarrow> x # ds1)"
    using Cons.prems(3) s1 by (auto split: prod.splits)
  have "e \<noteq> Manual_Restart" "Manual_Restart \<notin> set es" using Cons.prems(2) by auto
  from paced_step [OF Cons.prems(1) this(1) s1] show ?case
  proof
    assume "d = None \<and> paced n su1"
    then show ?thesis using Cons.IH [OF _ \<open>Manual_Restart \<notin> set es\<close> s2(1)] s2(2) by auto
  next
    assume d: "d = Some (nth_pause n) \<and> paced (Suc n) su1"
    then have "ds1 = map nth_pause [Suc n..<Suc n + length ds1] \<and> paced (Suc n + length ds1) su'"
      using Cons.IH [OF _ \<open>Manual_Restart \<notin> set es\<close> s2(1)] by blast
    moreover have "ds = nth_pause n # ds1" using d s2(2) by simp
    moreover have "[n..<n + Suc (length ds1)] = n # [Suc n..<Suc n + length ds1]"
      by (simp add: upt_conv_Cons del: upt_Suc)
    ultimately show ?thesis by (simp del: upt_Suc)
  qed
qed simp

text \<open>
  C24: an engine that keeps crashing is restarted after pauses of 5, 10, 20, ... seconds, never
  more than 300, one pause for each crash, as long as it is not restarted by hand.
\<close>

theorem restarts_are_paced:
  assumes "supervise_run es start_supervised = (pauses, su)" "Manual_Restart \<notin> set es"
  shows "pauses = map (\<lambda>n. min (5 * 2 ^ n) 300) [0..<length pauses] \<and>
    en_restart_count (su_entry su) = length pauses"
proof -
  have "paced 0 start_supervised"
    by (simp add: paced_def start_supervised_def boot_def new_entry_def nth_pause_0)
  then have run: "pauses = map nth_pause [0..<length pauses] \<and> paced (length pauses) su"
    using paced_run [OF _ assms(2,1), of 0] by simp
  have "nth_pause = (\<lambda>n. min (5 * 2 ^ n) 300)"
    by (simp add: fun_eq_iff nth_pause_def INIT_BACKOFF_def MAX_BACKOFF_def)
  with run show ?thesis unfolding paced_def by metis
qed

section \<open>Figures over all brokers\<close>

definition reports :: "(string \<times> 'a) list \<Rightarrow> string \<Rightarrow> 'a list" where
  "reports kvs k = map snd (filter (\<lambda>kv. fst kv = k) kvs)"

lemma add_counts:
  "(case map_of (fold add_count kvs acc) k of None \<Rightarrow> 0 | Some c \<Rightarrow> c) =
   (case map_of acc k of None \<Rightarrow> 0 | Some c \<Rightarrow> c) + sum_list (reports kvs k)"
  by (induction kvs arbitrary: acc) (auto simp: add_count_def reports_def update_conv')

lemma raise_gauges:
  "(case map_of acc k of None \<Rightarrow> 0 | Some c \<Rightarrow> c) \<ge> 0 \<Longrightarrow>
   (case map_of (fold raise_gauge kvs acc) k of None \<Rightarrow> 0 | Some c \<Rightarrow> c) =
   fold max (reports kvs k) (case map_of acc k of None \<Rightarrow> 0 | Some c \<Rightarrow> c)"
proof (induction kvs arbitrary: acc)
  case (Cons kv kvs)
  have "(case map_of (raise_gauge kv acc) k of None \<Rightarrow> 0 | Some c \<Rightarrow> c) =
      (if fst kv = k then max (snd kv) (case map_of acc k of None \<Rightarrow> 0 | Some c \<Rightarrow> c)
       else (case map_of acc k of None \<Rightarrow> 0 | Some c \<Rightarrow> c))"
    by (auto simp: raise_gauge_def update_conv' max.commute)
  moreover from this have "(case map_of (raise_gauge kv acc) k of None \<Rightarrow> 0 | Some c \<Rightarrow> c) \<ge> 0"
    using Cons.prems by auto
  ultimately show ?case using Cons.IH [of "raise_gauge kv acc"] by (simp add: reports_def)
qed (simp add: reports_def)

lemma fold_max_nonpos: "\<forall>x \<in> set xs. x \<le> (0::real) \<Longrightarrow> fold max xs 0 = 0"
  by (induction xs) (simp_all add: max_def)

text \<open>
  the counters of the gateway are the sums over the brokers; the gauges are the greatest value
  reported or zero, so that a gauge every broker reports as negative, such as a losing session,
  is shown as zero.
\<close>

theorem negative_gauges_are_lost:
  assumes "\<forall>x \<in> set (reports (concat (map (en_raw_gauges \<circ> snd) by_source)) k). x < 0"
  shows "metric_gauge (build_metrics by_source g) k = 0 \<and>
    metric_count (build_metrics by_source g) k' = sum_list (reports (concat (map (en_raw_counters \<circ> snd) by_source)) k')"
proof
  have "metric_gauge (build_metrics by_source g) k =
      fold max (reports (concat (map (en_raw_gauges \<circ> snd) by_source)) k) 0"
    using raise_gauges [of "[]" k] by (simp add: metric_gauge_def build_metrics_def)
  then show "metric_gauge (build_metrics by_source g) k = 0"
    using assms fold_max_nonpos by (simp add: order_less_imp_le)
  show "metric_count (build_metrics by_source g) k' =
      sum_list (reports (concat (map (en_raw_counters \<circ> snd) by_source)) k')"
    using add_counts [of _ "[]" k'] by (simp add: metric_count_def build_metrics_def)
qed

section \<open>Witnesses\<close>

definition two_clients :: gateway where
  "two_clients = (new_gateway [''XAUUSD'', ''XAGUSD''] [])
     \<lparr>gw_clients := [(''gw-1'', \<lparr>gc_symbols = {''XAUUSD''}, gc_metrics = False\<rparr>),
                     (''gw-2'', \<lparr>gc_symbols = {''XAGUSD''}, gc_metrics = True\<rparr>)]\<rparr>"

theorem gateway_delivers_what_was_asked_witness:
  "inbox ''gw-1'' (fold (deliver (\<lambda>c. c = ''gw-1'')) [To_Symbol ''signal.triggered'' xau_long, To_All ''log.record'' []]
     two_clients) = [Event ''signal.triggered'' xau_long, Event ''log.record'' []]"
proof -
  have g: "distinct (map fst (gw_clients two_clients))"
    "map_of (gw_clients two_clients) ''gw-1'' = Some \<lparr>gc_symbols = {''XAUUSD''}, gc_metrics = False\<rparr>"
    "inbox ''gw-1'' two_clients = []"
    by (simp_all add: two_clients_def inbox_def new_gateway_def)
  have "payload_symbol xau_long = Inr ''XAUUSD''" by code_simp
  then have "addressed \<lparr>gc_symbols = {''XAUUSD''}, gc_metrics = False\<rparr> (To_Symbol ''signal.triggered'' xau_long) =
      [Event ''signal.triggered'' xau_long]"
    "addressed \<lparr>gc_symbols = {''XAUUSD''}, gc_metrics = False\<rparr> (To_All ''log.record'' []) = [Event ''log.record'' []]"
    by (simp_all add: addressed_def wants_def)
  then show ?thesis
    using gateway_delivers_what_was_asked [where up = "\<lambda>c. c = ''gw-1''" and cid = "''gw-1''", OF g(1,2),
        of "[To_Symbol ''signal.triggered'' xau_long, To_All ''log.record'' []]"] g(3)
    by simp
qed

theorem gateway_admits_with_secret_only_witness:
  "gw_clients (fold gw_do [Connect True ''guess'', Frame True ''gw-1'' (Some (JObj [(''action'', JStr ''subscribe'')]))]
     (new_gateway [''XAUUSD''] ''s3cret'')) = []"
  using gateway_admits_with_secret_only [of "[Connect True ''guess'', Frame True ''gw-1'' (Some (JObj [(''action'', JStr ''subscribe'')]))]"
      "[''XAUUSD'']" "''s3cret''"]
  by (simp add: outsider_def)

theorem restarts_are_paced_witness:
  "\<exists>su. supervise_run [Started 0, Crashed ''mt5'', Pause_Over, Crashed ''mt5'', Pause_Over, Crashed ''mt5''] start_supervised
     = ([5, 10, 20], su) \<and> en_restart_count (su_entry su) = 3"
proof -
  let ?es = "[Started 0, Crashed ''mt5'', Pause_Over, Crashed ''mt5'', Pause_Over, Crashed ''mt5'']"
  obtain ps su where run: "supervise_run ?es start_supervised = (ps, su)" by (rule prod.exhaust)
  have "length (fst (supervise_run ?es start_supervised)) = 3"
    by (simp add: start_supervised_def boot_def)
  then have "length ps = 3" unfolding run fst_conv .
  note len = this
  have "Manual_Restart \<notin> set ?es" by simp
  from restarts_are_paced [OF run this]
  have paced: "ps = map (\<lambda>n. min (5 * 2 ^ n) 300) [0..<3] \<and> en_restart_count (su_entry su) = 3"
    unfolding len .
  have "[0..<3] = [0, 1, 2::nat]" by (simp add: upt_rec)
  with paced have "ps = [5, 10, 20] \<and> en_restart_count (su_entry su) = 3" by (simp only:) simp
  with run show ?thesis by blast
qed

theorem negative_gauges_are_lost_witness:
  "metric_gauge (build_metrics [(''alpha'', new_entry\<lparr>en_raw_gauges := [(''state.session_r'', - 2)]\<rparr>),
     (''beta'', new_entry\<lparr>en_raw_gauges := [(''state.session_r'', - 1)]\<rparr>)] two_clients) ''state.session_r'' = 0"
proof -
  let ?src = "[(''alpha'', new_entry\<lparr>en_raw_gauges := [(''state.session_r'', - 2)]\<rparr>),
     (''beta'', new_entry\<lparr>en_raw_gauges := [(''state.session_r'', - 1)]\<rparr>)]"
  have "\<forall>x \<in> set (reports (concat (map (en_raw_gauges \<circ> snd) ?src)) ''state.session_r''). x < 0"
    by (simp add: reports_def)
  from negative_gauges_are_lost [OF this] show ?thesis by blast
qed

end
