(* ===== verification/Market_Laws.thy ===== *)
theory Market_Laws
  imports Market
begin

text \<open>
  What the market data client guarantees: a symbol is resolved once and to the shortest matching
  name, candles are in UTC as long as the last tick is fresh, and every query that reaches the
  terminal is metered. And what it does on a stale tick: the broker offset absorbs the age of
  the tick.
\<close>

lemmas run_defs = bindS_def returnS_def raiseS_def readS_def modS_def liftR_def whenS_def
  call_mt5_def

section \<open>Symbols\<close>

definition cached_symbol :: "client \<Rightarrow> string \<Rightarrow> string" where
  "cached_symbol md symbol =
     (case map_of (md_resolved md) (clean_symbol md symbol) of None \<Rightarrow> [] | Some b \<Rightarrow> b)"

lemma ensure_symbol_hit:
  "cached_symbol md symbol \<noteq> [] \<Longrightarrow> ensure_symbol T symbol md = (Inr (cached_symbol md symbol), md)"
  by (auto simp: cached_symbol_def ensure_symbol_def run_defs Let_def split: option.splits list.splits)

lemma ensure_symbol_miss:
  assumes "cached_symbol md symbol = []"
  shows "ensure_symbol T symbol md =
    bindS (find_symbol T (clean_symbol md symbol)) (select_symbol T (clean_symbol md symbol)) md"
  using assms
  by (auto simp: cached_symbol_def ensure_symbol_def run_defs Let_def split: option.splits list.splits)

text \<open>What the terminal's answers make of a symbol that is not known yet.\<close>

definition best_match :: "terminal \<Rightarrow> nat \<Rightarrow> string \<Rightarrow> string \<Rightarrow> bool" where
  "best_match T n clean name \<longleftrightarrow>
     (case mt_symbol_info T n clean of
        Some i \<Rightarrow> name = si_name i
      | None \<Rightarrow>
          \<exists>names. mt_symbols_get T (Suc n) = Some names \<and> name \<in> set names \<and> symbol_matches clean name \<and>
            (\<forall>m\<in>set names. symbol_matches clean m \<longrightarrow> symbol_key name \<le> symbol_key m))"

lemma find_symbol_best:
  assumes "find_symbol T clean md = (r, md')"
  shows "\<exists>k\<ge>md_calls md. md' = md\<lparr>md_calls := k\<rparr> \<and>
    (case r of Inl e \<Rightarrow> e = MarketDataError | Inr (name, i) \<Rightarrow> best_match T (md_calls md) clean name)"
proof (cases "mt_symbol_info T (md_calls md) clean")
  case (Some i)
  then show ?thesis
    using assms by (auto simp: find_symbol_def run_defs best_match_def intro!: exI [of _ "Suc (md_calls md)"])
next
  case None
  define names where "names = (case mt_symbols_get T (Suc (md_calls md)) of None \<Rightarrow> [] | Some ns \<Rightarrow> ns)"
  show ?thesis
  proof (cases "filter (symbol_matches clean) names")
    case Nil
    then show ?thesis
      using assms None
      by (auto simp: find_symbol_def run_defs names_def intro!: exI [of _ "Suc (Suc (md_calls md))"])
  next
    case (Cons m ms)
    define name where "name = min_by symbol_key m ms"
    have set: "set (m # ms) = {x \<in> set names. symbol_matches clean x}"
      by (metis Cons set_filter)
    have "name \<in> set (m # ms)" using min_by_in [of symbol_key m ms] by (simp add: name_def)
    moreover have "symbol_key name \<le> symbol_key y" if "y \<in> set (m # ms)" for y
      using that min_by_le [of y m ms symbol_key] by (simp add: name_def)
    moreover have "\<exists>ns. mt_symbols_get T (Suc (md_calls md)) = Some ns \<and> ns = names"
      using Cons by (cases "mt_symbols_get T (Suc (md_calls md))") (simp_all add: names_def)
    ultimately have "best_match T (md_calls md) clean name"
      using None set by (auto simp: best_match_def)
    then show ?thesis
      using assms None Cons unfolding names_def [symmetric]
      by (auto simp: find_symbol_def run_defs Let_def name_def [symmetric] names_def [symmetric]
          intro!: exI [of _ "Suc (Suc (Suc (md_calls md)))"])
  qed
qed

lemma select_symbol_run:
  assumes "select_symbol T clean (name, i) md = (r, md')"
  shows "\<exists>k\<ge>md_calls md.
    (r = Inl MarketDataError \<and> md' = md\<lparr>md_calls := k\<rparr>) \<or>
    (r = Inr name \<and> md' = md\<lparr>md_calls := k, md_resolved := AList.update clean name (md_resolved md)\<rparr>)"
  using assms
  by (auto simp: select_symbol_def remember_symbol_def run_defs split: option.splits if_splits
      intro: exI [of _ "md_calls md"] exI [of _ "Suc (md_calls md)"])

text \<open>The three ways \<open>_ensure_symbol\<close> ends.\<close>

lemma ensure_symbol_ends:
  assumes "ensure_symbol T symbol md = (r, md')"
  obtains (known) "cached_symbol md symbol \<noteq> []" "r = Inr (cached_symbol md symbol)" "md' = md"
  | (failed) k where "cached_symbol md symbol = []" "r = Inl MarketDataError"
      "md_calls md \<le> k" "md' = md\<lparr>md_calls := k\<rparr>"
  | (found) name k where "cached_symbol md symbol = []" "r = Inr name"
      "best_match T (md_calls md) (clean_symbol md symbol) name" "md_calls md \<le> k"
      "md' = md\<lparr>md_calls := k, md_resolved := AList.update (clean_symbol md symbol) name (md_resolved md)\<rparr>"
proof (cases "cached_symbol md symbol = []")
  case False
  then have "ensure_symbol T symbol md = (Inr (cached_symbol md symbol), md)"
    by (rule ensure_symbol_hit)
  with False assms show ?thesis by (intro known) auto
next
  case True
  note run = assms [unfolded ensure_symbol_miss [OF True]]
  from run show ?thesis
  proof (cases rule: bindS_cases)
    case (1 e)
    then obtain k where "md_calls md \<le> k" "md' = md\<lparr>md_calls := k\<rparr>" "e = MarketDataError"
      using find_symbol_best [OF 1(1)] by auto
    with True 1(2) show ?thesis by (intro failed) simp_all
  next
    case (2 x md1)
    obtain name i where x: "x = (name, i)" by (rule prod.exhaust)
    have best: "best_match T (md_calls md) (clean_symbol md symbol) name"
      and "\<exists>k\<ge>md_calls md. md1 = md\<lparr>md_calls := k\<rparr>"
      using find_symbol_best [OF 2(1)] x by auto
    then obtain k where k: "md_calls md \<le> k" "md1 = md\<lparr>md_calls := k\<rparr>" by blast
    obtain k' where k': "md_calls md1 \<le> k'"
      and ends: "(r = Inl MarketDataError \<and> md' = md1\<lparr>md_calls := k'\<rparr>) \<or>
        (r = Inr name \<and> md' = md1\<lparr>md_calls := k',
          md_resolved := AList.update (clean_symbol md symbol) name (md_resolved md1)\<rparr>)"
      using select_symbol_run [OF 2(2) [unfolded x]] by blast
    have le: "md_calls md \<le> k'" using k k' by simp
    from ends show ?thesis
    proof (elim disjE conjE)
      assume "r = Inl MarketDataError" "md' = md1\<lparr>md_calls := k'\<rparr>"
      with True le k(2) show ?thesis by (intro failed) simp_all
    next
      assume "r = Inr name"
        "md' = md1\<lparr>md_calls := k', md_resolved := AList.update (clean_symbol md symbol) name (md_resolved md1)\<rparr>"
      with True le k(2) best show ?thesis by (intro found) simp_all
    qed
  qed
qed

text \<open>What a later state keeps of an earlier one.\<close>

definition client_later :: "client \<Rightarrow> client \<Rightarrow> bool" where
  "client_later md md' \<longleftrightarrow>
     md_aliases md' = md_aliases md \<and> md_has_metrics md' = md_has_metrics md \<and>
     md_calls md \<le> md_calls md' \<and>
     (\<forall>k b. b \<noteq> [] \<longrightarrow> map_of (md_resolved md) k = Some b \<longrightarrow> map_of (md_resolved md') k = Some b)"

lemma client_later_pre: "reflp client_later" "transp client_later"
  by (auto simp: reflp_def transp_def client_later_def)

lemma ensure_symbol_later [keeps_intro]: "keeps client_later (ensure_symbol T symbol)"
  unfolding keeps_def
proof
  fix md
  obtain r md' where run: "ensure_symbol T symbol md = (r, md')" by (rule prod.exhaust)
  then show "client_later md (snd (ensure_symbol T symbol md))"
    by (cases rule: ensure_symbol_ends)
       (auto simp: run client_later_def update_conv' cached_symbol_def split: option.splits)
qed

lemma call_mt5_later [keeps_intro]: "keeps client_later (call_mt5 f)"
  by (simp add: keeps_def call_mt5_def client_later_def)

lemma store_offset_later: "client_later md (store_offset name off md)"
  by (simp add: client_later_def store_offset_def)

lemma offset_later [keeps_intro]: "keeps client_later (broker_time_offset_ms T symbol)"
  unfolding broker_time_offset_ms_def Let_def
  by (intro keeps_intro keeps_mod client_later_pre store_offset_later) (auto split: option.split intro!: keeps_intro keeps_mod client_later_pre store_offset_later)

lemma now_later [keeps_intro]: "keeps client_later (client_now_ms T symbol)"
  unfolding client_now_ms_def by (auto split: option.split intro!: keeps_intro keeps_mod client_later_pre)

lemma get_tick_later [keeps_intro]: "keeps client_later (get_tick T symbol)"
  unfolding get_tick_def by (auto split: option.split intro!: keeps_intro keeps_mod client_later_pre)

lemma record_metrics_later [keeps_intro]: "keeps client_later (record_metrics T s iv t p e)"
  unfolding record_metrics_def by (auto intro!: keeps_intro keeps_mod client_later_pre simp: client_later_def)

lemma timed_fetch_later [keeps_intro]: "keeps client_later (timed_fetch T s iv off q)"
  unfolding timed_fetch_def by (auto split: sum.split intro!: keeps_intro keeps_mod client_later_pre)

lemma fetch_later [keeps_intro]:
  "keeps client_later (fetch_candles T s iv n)" "keeps client_later (fetch_candles_range T s iv a b)"
  unfolding fetch_candles_def fetch_candles_range_def by (auto intro!: keeps_intro keeps_mod client_later_pre)

text \<open>Any use of the client.\<close>

datatype client_op =
    Op_Now string
  | Op_Tick string
  | Op_Fetch string string int
  | Op_Range string string ms "ms option"
  | Op_Close

fun client_step :: "terminal \<Rightarrow> client_op \<Rightarrow> client \<Rightarrow> client" where
  "client_step T (Op_Now s) md = snd (client_now_ms T s md)"
| "client_step T (Op_Tick s) md = snd (get_tick T s md)"
| "client_step T (Op_Fetch s iv n) md = snd (fetch_candles T s iv n md)"
| "client_step T (Op_Range s iv a b) md = snd (fetch_candles_range T s iv a b md)"
| "client_step T Op_Close md = close_client md"

lemma client_step_later: "client_later md (client_step T op md)"
proof (cases op)
  case Op_Close
  then show ?thesis by (simp add: close_client_def client_later_def)
qed (use now_later get_tick_later fetch_later in \<open>auto simp: keeps_def\<close>)

lemma client_run_later: "client_later md (fold (client_step T) ops md)"
proof (induction ops arbitrary: md)
  case Nil
  then show ?case using client_later_pre(1) by (simp add: reflp_def)
next
  case (Cons op ops)
  then show ?case
    using client_step_later [of md T op] client_later_pre(2) by (auto elim: transpE)
qed

lemma cached_after_ensure:
  assumes "ensure_symbol T symbol md = (Inr name, md')" "name \<noteq> []"
  shows "cached_symbol md' symbol = name"
  using assms(1)
  by (cases rule: ensure_symbol_ends) (use assms(2) in \<open>auto simp: cached_symbol_def clean_symbol_def update_conv'\<close>)

lemma cached_later:
  "client_later md md' \<Longrightarrow> cached_symbol md symbol \<noteq> [] \<Longrightarrow> cached_symbol md' symbol = cached_symbol md symbol"
  by (auto simp: client_later_def cached_symbol_def clean_symbol_def split: option.splits)

text \<open>
  C10: symbols are resolved once. A name that was not known is the terminal's own symbol of that
  name, else the shortest of its symbols that begin or end with it, the first in the alphabet
  among those; and whatever the client is used for afterwards, the symbol stands for that name
  and the terminal is not asked again.
\<close>

theorem symbols_resolve_once:
  assumes "ensure_symbol T symbol md = (Inr name, md')" "name \<noteq> []"
  shows "(cached_symbol md symbol = [] \<longrightarrow> best_match T (md_calls md) (clean_symbol md symbol) name) \<and>
    ensure_symbol T symbol (fold (client_step T) ops md') = (Inr name, fold (client_step T) ops md')"
proof -
  have "cached_symbol md symbol = [] \<longrightarrow> best_match T (md_calls md) (clean_symbol md symbol) name"
    using assms(1) by (cases rule: ensure_symbol_ends) auto
  moreover have "cached_symbol (fold (client_step T) ops md') symbol = name"
    using cached_later [OF client_run_later] cached_after_ensure [OF assms] assms(2) by simp
  ultimately show ?thesis
    using ensure_symbol_hit [of "fold (client_step T) ops md'" symbol T] assms(2) by simp
qed

section \<open>The broker's clock\<close>

lemma hour_offset_error: "\<bar>hour_offset raw - raw\<bar> \<le> HOUR_MS div 2"
proof -
  define q where "q = round_half_even (of_int raw / 3600000)"
  have "\<bar>of_int q - of_int raw / 3600000\<bar> \<le> (1/2::real)"
    unfolding q_def by (rule round_half_even_error)
  then have "of_int q * 3600000 - of_int raw \<le> (1800000::real)" "of_int raw - of_int q * 3600000 \<le> (1800000::real)"
    unfolding abs_le_iff by linarith+
  then have "\<bar>q * 3600000 - raw\<bar> \<le> 1800000" by linarith
  then show ?thesis by (simp add: hour_offset_def HOUR_MS_def q_def)
qed

lemma hour_offset_near:
  assumes "\<bar>raw - k * HOUR_MS\<bar> < HOUR_MS div 2"
  shows "hour_offset raw = k * HOUR_MS"
proof -
  define q where "q = round_half_even (of_int raw / of_int HOUR_MS)"
  have "\<bar>q * 3600000 - raw\<bar> \<le> 1800000"
    using hour_offset_error [of raw] by (simp add: hour_offset_def q_def HOUR_MS_def)
  moreover have "\<bar>raw - k * 3600000\<bar> < 1800000" using assms by (simp add: HOUR_MS_def)
  ultimately have "\<bar>(q - k) * 3600000\<bar> < 3600000" by (simp add: left_diff_distrib)
  then have "q = k" by (simp add: abs_mult)
  then show ?thesis by (simp add: hour_offset_def q_def)
qed

lemma tick_ms_nonzero: "tick_ms tk = Some t \<Longrightarrow> t \<noteq> 0"
  by (auto simp: tick_ms_def int_or_def split: if_splits option.splits)

text \<open>A calibration on a tick.\<close>

lemma calibrate:
  assumes "cached_symbol md symbol = name" "name \<noteq> []"
    and "mt_symbol_info_tick T (md_calls md) name = Some tk" "tick_ms tk = Some t"
  shows "broker_time_offset_ms T symbol md =
    (Inr (hour_offset (t - mt_clock T (Suc (md_calls md)))),
     store_offset name (hour_offset (t - mt_clock T (Suc (md_calls md))))
       (md\<lparr>md_calls := Suc (Suc (md_calls md))\<rparr>))"
  using assms
  by (simp add: broker_time_offset_ms_def ensure_symbol_hit run_defs Let_def)

text \<open>
  The last tick of a symbol is \<open>k\<close> whole hours old, give or take half an hour, on a broker whose
  clock is \<open>B\<close> hours ahead of UTC.
\<close>

definition ticks_aged :: "terminal \<Rightarrow> string \<Rightarrow> int \<Rightarrow> int \<Rightarrow> bool" where
  "ticks_aged T name B k \<longleftrightarrow>
     (\<forall>n. \<exists>tk t. mt_symbol_info_tick T n name = Some tk \<and> tick_ms tk = Some t \<and>
        \<bar>t - (mt_clock T (Suc n) + B * HOUR_MS - k * HOUR_MS)\<bar> < HOUR_MS div 2)"

lemma calibrate_aged:
  assumes "cached_symbol md symbol = name" "name \<noteq> []" "ticks_aged T name B k"
  shows "broker_time_offset_ms T symbol md =
    (Inr ((B - k) * HOUR_MS),
     store_offset name ((B - k) * HOUR_MS) (md\<lparr>md_calls := Suc (Suc (md_calls md))\<rparr>))"
proof -
  obtain tk t where tk: "mt_symbol_info_tick T (md_calls md) name = Some tk" "tick_ms tk = Some t"
    and near: "\<bar>t - (mt_clock T (Suc (md_calls md)) + B * HOUR_MS - k * HOUR_MS)\<bar> < HOUR_MS div 2"
    using assms(3) unfolding ticks_aged_def by blast
  have "hour_offset (t - mt_clock T (Suc (md_calls md))) = (B - k) * HOUR_MS"
    by (rule hour_offset_near) (use near in \<open>simp add: algebra_simps\<close>)
  then show ?thesis using calibrate [OF assms(1,2) tk] by simp
qed

text \<open>What a guarded query returns, and what it leaves in the metrics.\<close>

lemma timed_fetch_result:
  assumes "timed_fetch T symbol interval off query md = (r, md')"
  shows "r = bindR (query (Suc (Suc (md_calls md)))) (\<lambda>rates. parse_rates rates off)"
    and "md_metrics md' = md_metrics md @
      (if md_has_metrics md
       then [\<lparr>ac_symbol = symbol, ac_interval = interval, ac_source = ''mt5'',
              ac_called_at = mt_clock T (md_calls md),
              ac_duration_ms = (mt_perf T (md_calls md + 3) - mt_perf T (Suc (md_calls md))) * 1000,
              ac_success = (case r of Inl _ \<Rightarrow> False | Inr _ \<Rightarrow> True),
              ac_error = (case r of Inl e \<Rightarrow> Some e | Inr _ \<Rightarrow> None)\<rparr>]
       else [])"
    and "md_settings md' = md_settings md"
  using assms
  by (auto simp: timed_fetch_def record_metrics_def run_defs numeral_3_eq_3 split: sum.splits if_splits)

lemma fetch_candles_run:
  assumes "cached_symbol md symbol = name" "name \<noteq> []" "ticks_aged T name B k"
    and "to_mt5_interval interval = Inr tf"
  shows "fetch_candles T symbol interval count md =
    timed_fetch T symbol interval ((B - k) * HOUR_MS) (\<lambda>n. mt_rates_from_pos T n name tf count)
      (store_offset name ((B - k) * HOUR_MS) (md\<lparr>md_calls := Suc (Suc (md_calls md))\<rparr>))"
proof -
  have "ensure_symbol T symbol md = (Inr name, md)" using assms(1,2) ensure_symbol_hit by blast
  then show ?thesis
    using calibrate_aged [OF assms(1-3)] assms(4)
    by (simp add: fetch_candles_def bindS_def liftR_def)
qed

lemma to_mt5_interval_error: "to_mt5_interval interval = Inl e \<Longrightarrow> e = MarketDataError"
  by (auto simp: to_mt5_interval_def split: option.splits)

lemma map_insort_key: "map f (insort_key f x xs) = insort (f x) (map f xs)"
  by (induction xs) auto

lemma map_sort_key: "map f (sort_key f xs) = sort (map f xs)"
  by (induction xs) (auto simp: map_insort_key)

lemma parsed_times:
  "parse_rates (Some rs) off = Inr cs \<Longrightarrow>
   map c_timestamp cs = sort (map (\<lambda>r. rt_time r * 1000 - off) rs)"
  by (auto simp: parse_rates_def candle_of_rate_def map_sort_key comp_def)

text \<open>
  candles are in UTC as long as the last tick is fresh, and shifted by its age otherwise. On
  a broker whose clock is \<open>B\<close> hours ahead, when the last tick of a resolved symbol is \<open>k\<close> whole
  hours old (give or take half an hour), every candle fetched carries its UTC time plus \<open>k\<close>
  hours: exact for a ticking symbol, and for a symbol that is closed since yesterday each old
  candle looks as if it had just closed.
\<close>

theorem candles_shift_with_tick_age:
  assumes "cached_symbol md symbol = name" "name \<noteq> []" "ticks_aged T name B k"
    and "fetch_candles T symbol interval count md = (Inr cs, md')"
  shows "\<exists>n tf rs. to_mt5_interval interval = Inr tf \<and>
    mt_rates_from_pos T n name tf count = Inr (Some rs) \<and>
    map c_timestamp cs = sort (map (\<lambda>r. (rt_time r * 1000 - B * HOUR_MS) + k * HOUR_MS) rs) \<and>
    map_option g_broker_time_offset_ms (md_settings md') =
      map_option (\<lambda>_. (B - k) * HOUR_MS) (md_settings md)"
proof -
  obtain tf where tf: "to_mt5_interval interval = Inr tf"
    using assms(4) by (cases "to_mt5_interval interval") (auto simp: fetch_candles_def bindS_def liftR_def)
  note run = fetch_candles_run [OF assms(1-3) tf, of count, unfolded assms(4), symmetric]
  note fin = timed_fetch_result [OF run]
  obtain n where "Inr cs = bindR (mt_rates_from_pos T n name tf count) (\<lambda>rs. parse_rates rs ((B - k) * HOUR_MS))"
    using fin(1) by blast
  then obtain rates where rates: "mt_rates_from_pos T n name tf count = Inr rates"
      "parse_rates rates ((B - k) * HOUR_MS) = Inr cs"
    by (cases "mt_rates_from_pos T n name tf count") auto
  then obtain rs where rs: "rates = Some rs" by (cases rates) (auto simp: parse_rates_def)
  have split: "(\<lambda>r. rt_time r * 1000 - (B - k) * HOUR_MS) =
      (\<lambda>r. (rt_time r * 1000 - B * HOUR_MS) + k * HOUR_MS)"
    by (simp add: fun_eq_iff algebra_simps)
  have "map c_timestamp cs = sort (map (\<lambda>r. (rt_time r * 1000 - B * HOUR_MS) + k * HOUR_MS) rs)"
    using parsed_times [OF rates(2) [unfolded rs]] unfolding split .
  moreover have "map_option g_broker_time_offset_ms (md_settings md') =
      map_option (\<lambda>_. (B - k) * HOUR_MS) (md_settings md)"
    using fin(3) by (simp add: store_offset_def option.map_comp comp_def)
  ultimately show ?thesis using tf rates(1) rs by blast
qed

text \<open>A client of a broker two hours ahead, whose only symbol ticked last at a given time.\<close>

definition quiet_terminal :: "ms \<Rightarrow> int \<Rightarrow> rate list \<Rightarrow> terminal" where
  "quiet_terminal now t rs =
     \<lparr>mt_clock = (\<lambda>_. now), mt_perf = (\<lambda>_. 0),
      mt_symbol_info = (\<lambda>_ s. if s = ''EURUSD'' then Some \<lparr>si_name = s, si_visible = True\<rparr> else None),
      mt_symbols_get = (\<lambda>_. Some [''EURUSD'']), mt_symbol_select = (\<lambda>_ _. True),
      mt_symbol_info_tick = (\<lambda>_ s. if s = ''EURUSD''
        then Some \<lparr>tk_time_msc = Some t, tk_time = None, tk_bid = 1, tk_ask = 1\<rparr> else None),
      mt_rates_from_pos = (\<lambda>_ _ _ _. Inr (Some rs)), mt_rates_range = (\<lambda>_ _ _ _ _. Inr (Some rs))\<rparr>"

definition resolved_client :: "settings option \<Rightarrow> client" where
  "resolved_client stg =
     \<lparr>md_settings = stg, md_has_metrics = True, md_aliases = [], md_offsets = [],
      md_resolved = [(''EURUSD'', ''EURUSD'')], md_shutdown_on_close = True, md_shutdowns = 0,
      md_metrics = [], md_calls = 0\<rparr>"

lemma resolved_client_symbol: "cached_symbol (resolved_client stg) ''EURUSD'' = ''EURUSD''"
proof -
  have "clean_name ''EURUSD'' = ''EURUSD''" by code_simp
  then show ?thesis
    by (simp add: cached_symbol_def clean_symbol_def resolved_client_def Let_def)
qed

lemma quiet_ticks_aged:
  "t \<noteq> 0 \<Longrightarrow> \<bar>t - (now + B * HOUR_MS - k * HOUR_MS)\<bar> < HOUR_MS div 2 \<Longrightarrow>
   ticks_aged (quiet_terminal now t rs) ''EURUSD'' B k"
  by (simp add: ticks_aged_def quiet_terminal_def tick_ms_def int_or_def)

text \<open>
  Sunday 22:00 UTC, 50 hours after the last tick: the candle that opened on Friday at 19:55 UTC
  is reported as if it had opened on Sunday at 21:55 UTC.
\<close>

definition friday_rate :: rate where
  "friday_rate =
     \<lparr>rt_time = 1704491700, rt_open = 1, rt_high = 1, rt_low = 1, rt_close = 1,
      rt_tick_volume = Some 1, rt_real_volume = None\<rparr>"

theorem candles_shift_with_tick_age_witness:
  "\<exists>cs md'. fetch_candles (quiet_terminal 1704664800000 1704492000000 [friday_rate]) ''EURUSD'' ''5min'' 1
       (resolved_client (Some (default_settings []))) = (Inr cs, md') \<and>
     map c_timestamp cs = [1704491700000 - 2 * HOUR_MS + 50 * HOUR_MS]"
proof -
  define T where "T = quiet_terminal 1704664800000 1704492000000 [friday_rate]"
  define md where "md = resolved_client (Some (default_settings []))"
  have known: "cached_symbol md ''EURUSD'' = ''EURUSD''"
    by (simp add: md_def resolved_client_symbol)
  have aged: "ticks_aged T ''EURUSD'' 2 50"
    unfolding T_def by (rule quiet_ticks_aged) (simp_all add: HOUR_MS_def)
  have tf: "to_mt5_interval ''5min'' = Inr TIMEFRAME_M5"
    by (simp add: to_mt5_interval_def INTERVAL_MAP_def)
  obtain r md' where run: "fetch_candles T ''EURUSD'' ''5min'' 1 md = (r, md')" by (rule prod.exhaust)
  have "\<exists>cs. r = Inr cs"
    using timed_fetch_result(1) [OF run [unfolded fetch_candles_run [OF known _ aged tf, simplified]]]
    by (simp add: T_def quiet_terminal_def parse_rates_def)
  then obtain cs where cs: "r = Inr cs" by blast
  obtain n tf' rs where rs: "mt_rates_from_pos T n ''EURUSD'' tf' 1 = Inr (Some rs)"
    "map c_timestamp cs = sort (map (\<lambda>r. (rt_time r * 1000 - 2 * HOUR_MS) + 50 * HOUR_MS) rs)"
    using candles_shift_with_tick_age [OF known _ aged run [unfolded cs]] by auto
  have "rs = [friday_rate]" using rs(1) by (simp add: T_def quiet_terminal_def)
  then have "map c_timestamp cs = [1704491700000 - 2 * HOUR_MS + 50 * HOUR_MS]"
    using rs(2) by (simp add: friday_rate_def)
  with run [unfolded cs T_def md_def] show ?thesis by (intro exI conjI)
qed

theorem symbols_resolve_once_witness:
  "\<exists>md'. ensure_symbol (quiet_terminal 0 0 []) ''eur/usd'' (resolved_client None) = (Inr ''EURUSD'', md') \<and>
     ensure_symbol (quiet_terminal 0 0 []) ''eur/usd''
       (fold (client_step (quiet_terminal 0 0 [])) [Op_Now ''EURUSD'', Op_Close] md') =
       (Inr ''EURUSD'', fold (client_step (quiet_terminal 0 0 [])) [Op_Now ''EURUSD'', Op_Close] md')"
proof -
  have "clean_name ''eur/usd'' = ''EURUSD''" by code_simp
  then have "cached_symbol (resolved_client None) ''eur/usd'' = ''EURUSD''"
    by (simp add: cached_symbol_def clean_symbol_def resolved_client_def Let_def)
  then have run: "ensure_symbol (quiet_terminal 0 0 []) ''eur/usd'' (resolved_client None) =
      (Inr ''EURUSD'', resolved_client None)"
    using ensure_symbol_hit [of "resolved_client None" "''eur/usd''" "quiet_terminal 0 0 []"] by simp
  show ?thesis
    using symbols_resolve_once [OF run, of "[Op_Now ''EURUSD'', Op_Close]"] run by blast
qed

section \<open>Metering\<close>

lemma ensure_symbol_frame:
  "ensure_symbol T symbol md = (r, md') \<Longrightarrow>
   md_metrics md' = md_metrics md \<and> md_has_metrics md' = md_has_metrics md"
  by (cases rule: ensure_symbol_ends) auto

definition metered :: "client \<Rightarrow> client \<Rightarrow> bool" where
  "metered md md' \<longleftrightarrow> md_metrics md' = md_metrics md \<and> md_has_metrics md' = md_has_metrics md"

lemma metered_pre: "reflp metered" "transp metered"
  by (auto simp: reflp_def transp_def metered_def)

lemma metered_steps:
  "keeps metered (ensure_symbol T symbol)" "keeps metered (call_mt5 f)"
  "metered md (store_offset name off md)"
  using ensure_symbol_frame [of T symbol]
  by (auto simp: keeps_def metered_def call_mt5_def store_offset_def) (metis prod.collapse)+

lemma offset_frame: "keeps metered (broker_time_offset_ms T symbol)"
  unfolding broker_time_offset_ms_def Let_def
  by (auto split: option.split intro!: keeps_intro keeps_mod metered_pre metered_steps)

text \<open>
  what the metrics see of a fetch. A fetch that reaches the terminal leaves exactly one
  record, of success when candles come back and of the error that is raised otherwise; a fetch
  whose interval is unknown or whose symbol cannot be resolved raises without a trace, so the
  error counters never show it.
\<close>

theorem only_queries_are_metered:
  assumes "md_has_metrics md"
    and "fetch_candles T symbol interval count md = (r, md')"
  shows "(\<exists>c. md_metrics md' = md_metrics md @ [c] \<and> ac_symbol c = symbol \<and> ac_interval c = interval \<and>
            ac_success c = (case r of Inl _ \<Rightarrow> False | Inr _ \<Rightarrow> True)) \<or>
         (r = Inl MarketDataError \<and> md_metrics md' = md_metrics md \<and>
            (\<exists>e md1. to_mt5_interval interval = Inl e \<or> ensure_symbol T symbol md = (Inl e, md1) \<or>
               (\<exists>name. ensure_symbol T symbol md = (Inr name, md1) \<and>
                  (\<exists>md2. broker_time_offset_ms T symbol md1 = (Inl e, md2)))))"
proof (cases "to_mt5_interval interval")
  case (Inl e)
  then show ?thesis
    using assms(2) to_mt5_interval_error [OF Inl] by (auto simp: fetch_candles_def bindS_def liftR_def)
next
  case (Inr tf)
  from assms(2) Inr have run: "bindS (ensure_symbol T symbol) (\<lambda>name.
      bindS (broker_time_offset_ms T symbol) (\<lambda>offset.
      timed_fetch T symbol interval offset (\<lambda>n. mt_rates_from_pos T n name tf count))) md = (r, md')"
    by (simp add: fetch_candles_def bindS_def [of "liftR _"] liftR_def)
  from run show ?thesis
  proof (cases rule: bindS_cases)
    case (1 e)
    then show ?thesis using ensure_symbol_frame [OF 1(1)] by (auto elim: ensure_symbol_ends)
  next
    case (2 name md1)
    note sym = 2(1)
    from 2(2) show ?thesis
    proof (cases rule: bindS_cases)
      case (1 e)
      have "e = MarketDataError"
        using 1(1) sym
        by (auto simp: broker_time_offset_ms_def run_defs Let_def split: prod.splits sum.splits option.splits
            elim: ensure_symbol_ends)
      then show ?thesis
        using 1 sym ensure_symbol_frame [OF sym] keepsD [OF offset_frame 1(1)] by (auto simp: metered_def)
    next
      case (2 off md2)
      have "md_metrics md2 = md_metrics md" "md_has_metrics md2"
        using ensure_symbol_frame [OF sym] keepsD [OF offset_frame 2(1)] assms(1) by (auto simp: metered_def)
      then show ?thesis using timed_fetch_result(2) [OF 2(2)] by auto
    qed
  qed
qed

section \<open>The client's clock\<close>

text \<open>
  the time the engine takes for now. On a resolved symbol whose ticks never disagree by more
  than a given bound, the client's clock is within half an hour and that bound of the system
  clock, however old the last tick is: the hours are rounded away. So a silent symbol shows a
  clock that stands still and jumps by an hour.
\<close>

theorem client_clock_within_half_hour:
  assumes "cached_symbol md symbol = name" "name \<noteq> []"
    and "\<And>n. \<exists>tk t. mt_symbol_info_tick T n name = Some tk \<and> tick_ms tk = Some t \<and> \<bar>t - t0\<bar> \<le> d"
    and "client_now_ms T symbol md = (Inr now, md')"
  shows "\<exists>n. \<bar>now - mt_clock T n\<bar> \<le> HOUR_MS div 2 + 2 * d"
proof -
  let ?n = "md_calls md"
  obtain tk1 t1 where t1: "mt_symbol_info_tick T ?n name = Some tk1" "tick_ms tk1 = Some t1" "\<bar>t1 - t0\<bar> \<le> d"
    using assms(3) by blast
  obtain tk2 t2 where t2: "mt_symbol_info_tick T (Suc ?n) name = Some tk2" "tick_ms tk2 = Some t2" "\<bar>t2 - t0\<bar> \<le> d"
    using assms(3) by blast
  let ?md = "md\<lparr>md_calls := Suc ?n\<rparr>"
  have known: "cached_symbol ?md symbol = name"
    using assms(1) by (simp add: cached_symbol_def clean_symbol_def Let_def)
  have "ensure_symbol T symbol md = (Inr name, md)" using assms(1,2) ensure_symbol_hit by blast
  then have "client_now_ms T symbol md =
      bindS (broker_time_offset_ms T symbol) (\<lambda>off. returnS (t1 - off)) ?md"
    using t1 by (simp add: client_now_ms_def bindS_def call_mt5_def)
  then have "now = t1 - hour_offset (t2 - mt_clock T (Suc (Suc ?n)))"
    using assms(4) calibrate [OF known assms(2), of T tk2 t2] t2
    by (simp add: bindS_def returnS_def)
  moreover have "\<bar>hour_offset (t2 - mt_clock T (Suc (Suc ?n))) - (t2 - mt_clock T (Suc (Suc ?n)))\<bar> \<le> HOUR_MS div 2"
    by (rule hour_offset_error)
  ultimately have "\<bar>now - mt_clock T (Suc (Suc ?n))\<bar> \<le> HOUR_MS div 2 + 2 * d"
    using t1(3) t2(3) by linarith
  then show ?thesis by blast
qed

text \<open>A client that knows no symbol, and the two ways a fetch ends.\<close>

theorem only_queries_are_metered_witness:
  "\<exists>r md'. fetch_candles (quiet_terminal 0 0 [friday_rate]) ''EURUSD'' ''7min'' 1 (resolved_client None) = (r, md') \<and>
     r = Inl MarketDataError \<and> md_metrics md' = []"
proof -
  obtain r md' where run:
    "fetch_candles (quiet_terminal 0 0 [friday_rate]) ''EURUSD'' ''7min'' 1 (resolved_client None) = (r, md')"
    by (rule prod.exhaust)
  have bad: "to_mt5_interval ''7min'' = Inl MarketDataError"
    by (simp add: to_mt5_interval_def INTERVAL_MAP_def)
  then have r: "r = Inl MarketDataError"
    using run by (simp add: fetch_candles_def bindS_def liftR_def)
  have has: "md_has_metrics (resolved_client None)" "md_metrics (resolved_client None) = []"
    by (simp_all add: resolved_client_def)
  have "md' = resolved_client None" using run bad by (simp add: fetch_candles_def bindS_def liftR_def)
  then have "md_metrics md' = []"
    using only_queries_are_metered [OF has(1) run] has(2) by auto
  then show ?thesis using run r by blast
qed

theorem client_clock_within_half_hour_witness:
  "\<exists>now md'. client_now_ms (quiet_terminal 1704664800000 1704492900000 []) ''EURUSD'' (resolved_client None) =
       (Inr now, md') \<and> now = 1704664800000 + 900000 \<and> \<bar>now - 1704664800000\<bar> \<le> HOUR_MS div 2"
proof -
  define T where "T = quiet_terminal 1704664800000 1704492900000 []"
  have known: "cached_symbol (resolved_client None) ''EURUSD'' = ''EURUSD''"
    by (rule resolved_client_symbol)
  have tk: "\<exists>tk t. mt_symbol_info_tick T n ''EURUSD'' = Some tk \<and> tick_ms tk = Some t \<and>
      \<bar>t - 1704492900000\<bar> \<le> 0" for n
    by (simp add: T_def quiet_terminal_def tick_ms_def int_or_def)
  have off: "hour_offset (1704492900000 - 1704664800000) = (-48) * HOUR_MS"
    by (rule hour_offset_near) (simp add: HOUR_MS_def)
  have known': "cached_symbol (resolved_client None\<lparr>md_calls := Suc 0\<rparr>) ''EURUSD'' = ''EURUSD''"
    using known by (simp add: cached_symbol_def clean_symbol_def Let_def)
  obtain md' where run: "client_now_ms T ''EURUSD'' (resolved_client None) = (Inr 1704665700000, md')"
    using ensure_symbol_hit [of "resolved_client None" "''EURUSD''" T] known off
      calibrate [OF known', of T "\<lparr>tk_time_msc = Some 1704492900000, tk_time = None, tk_bid = 1, tk_ask = 1\<rparr>" 1704492900000]
    by (simp add: client_now_ms_def bindS_def call_mt5_def returnS_def T_def quiet_terminal_def tick_ms_def
        int_or_def resolved_client_def HOUR_MS_def)
  show ?thesis
    using client_clock_within_half_hour [OF known _ tk run] run
    unfolding T_def by (auto simp: quiet_terminal_def)
qed

section \<open>The weekend\<close>

text \<open>
  the weekend of a silent broker. The scheduler judges whether the market is closed by the
  broker offset in the settings it shares with the client. Once the client has measured the
  offset on an old tick, the question is answered for the time of that tick, give or take half
  an hour, and not for now: a calibration during the weekend can find the market open.
\<close>

theorem weekend_judged_at_last_tick:
  assumes "cached_symbol md symbol = name" "name \<noteq> []"
    and "mt_symbol_info_tick T (md_calls md) name = Some tk" "tick_ms tk = Some t"
    and "md_settings md = Some cfg"
  shows "\<exists>off md' cfg' e. broker_time_offset_ms T symbol md = (Inr off, md') \<and> md_settings md' = Some cfg' \<and>
    \<bar>e\<bar> \<le> HOUR_MS div 2 \<and>
    weekend_sleep_delay_ms cfg' (mt_clock T (Suc (md_calls md))) =
      weekend_sleep_delay_ms (cfg\<lparr>g_broker_time_offset_ms := 0\<rparr>) (t + e)"
proof -
  define now where "now = mt_clock T (Suc (md_calls md))"
  define off where "off = hour_offset (t - now)"
  define md' where "md' = store_offset name off (md\<lparr>md_calls := Suc (Suc (md_calls md))\<rparr>)"
  define cfg' where "cfg' = cfg\<lparr>g_broker_time_offset_ms := off\<rparr>"
  have run: "broker_time_offset_ms T symbol md = (Inr off, md')"
    using calibrate [OF assms(1-4)] by (simp add: now_def off_def md'_def)
  have stg: "md_settings md' = Some cfg'"
    by (simp add: md'_def store_offset_def assms(5) cfg'_def)
  have near: "\<bar>now + off - t\<bar> \<le> HOUR_MS div 2"
    using hour_offset_error [of "t - now"] by (simp add: off_def algebra_simps)
  have "broker_seconds_of_week cfg' now =
      broker_seconds_of_week (cfg\<lparr>g_broker_time_offset_ms := 0\<rparr>) (t + (now + off - t))"
    by (simp add: broker_seconds_of_week_def cfg'_def Let_def)
  then have "weekend_sleep_delay_ms cfg' now =
      weekend_sleep_delay_ms (cfg\<lparr>g_broker_time_offset_ms := 0\<rparr>) (t + (now + off - t))"
    by (simp add: weekend_sleep_delay_ms_def close_second_def reopen_second_def cfg'_def cong: if_cong)
  then show ?thesis using run stg near unfolding now_def by blast
qed

text \<open>
  Saturday 12:30 on a broker in UTC that closed at midnight, last tick at 23:40: with the right
  offset the scheduler sleeps until Monday, after a calibration it would analyse.
\<close>

theorem weekend_judged_at_last_tick_witness:
  "\<exists>off md' cfg'. broker_time_offset_ms (quiet_terminal 1704544200000 1704498000000 []) ''EURUSD''
       (resolved_client (Some (default_settings []))) = (Inr off, md') \<and> md_settings md' = Some cfg' \<and>
     weekend_sleep_delay_ms (default_settings []) 1704544200000 = Inr (Some 127800400) \<and>
     weekend_sleep_delay_ms cfg' 1704544200000 = Inr None"
proof -
  define T where "T = quiet_terminal 1704544200000 1704498000000 []"
  define md where "md = resolved_client (Some (default_settings []))"
  have known: "cached_symbol md ''EURUSD'' = ''EURUSD''"
    by (simp add: md_def resolved_client_symbol)
  let ?tk = "\<lparr>tk_time_msc = Some 1704498000000, tk_time = None, tk_bid = 1, tk_ask = 1\<rparr>"
  have tk: "mt_symbol_info_tick T (md_calls md) ''EURUSD'' = Some ?tk" "tick_ms ?tk = Some 1704498000000"
    by (simp_all add: T_def quiet_terminal_def tick_ms_def int_or_def)
  have stg: "md_settings md = Some (default_settings [])" by (simp add: md_def resolved_client_def)
  obtain off md' cfg' e where w: "broker_time_offset_ms T ''EURUSD'' md = (Inr off, md')"
    "md_settings md' = Some cfg'" "\<bar>e\<bar> \<le> HOUR_MS div 2"
    "weekend_sleep_delay_ms cfg' (mt_clock T (Suc (md_calls md))) =
       weekend_sleep_delay_ms ((default_settings [])\<lparr>g_broker_time_offset_ms := 0\<rparr>) (1704498000000 + e)"
    using weekend_judged_at_last_tick [OF known _ tk stg] by blast
  have "off = hour_offset (1704498000000 - 1704544200000)"
    using calibrate [OF known _ tk] w(1) by (simp add: T_def quiet_terminal_def)
  then have off: "off = (-13) * HOUR_MS"
    using hour_offset_near [of "1704498000000 - 1704544200000" "-13"] by (simp add: HOUR_MS_def)
  have "cfg' = (default_settings [])\<lparr>g_broker_time_offset_ms := off\<rparr>"
    using calibrate [OF known _ tk] w(1,2) stg by (auto simp: store_offset_def)
  moreover have "weekend_sleep_delay_ms ((default_settings [])\<lparr>g_broker_time_offset_ms := (-13) * 3600000\<rparr>)
      1704544200000 = Inr None"
    by code_simp
  ultimately have "weekend_sleep_delay_ms cfg' 1704544200000 = Inr None"
    by (simp add: off HOUR_MS_def)
  moreover have "weekend_sleep_delay_ms (default_settings []) 1704544200000 = Inr (Some 127800400)"
    by code_simp
  ultimately show ?thesis using w(1,2) unfolding T_def md_def by blast
qed

end
