(* ===== verification/Engine.thy ===== *)
theory Engine
  imports Metrics Backtest
begin

text \<open>
  interfaces/cli/main.py, interfaces/events/gateway.py and tools/parity_check.py: the engine that
  ties scheduler, client, service and collector together, the dispatcher of its events, and the
  comparison of a live trace with a backtest trace. The listener only writes the trace and hands
  the event on, so it runs over the events of a call once the call is done. The trace file is the
  list of its rows.
\<close>

section \<open>The event gateway\<close>

type_synonym 's handler = "signal_event \<Rightarrow> json \<Rightarrow> ('s, unit) sm"

definition subscribe_handler :: "'s handler \<Rightarrow> 's handler list \<Rightarrow> 's handler list" where
  "subscribe_handler h hs = hs @ [h]"

text \<open>A handler that raises is logged and the next one runs.\<close>

definition broadcast_event :: "'s handler list \<Rightarrow> signal_event \<Rightarrow> json \<Rightarrow> ('s, unit) sm" where
  "broadcast_event hs ev payload = forS hs (\<lambda>h. thenS (tryS (h ev payload)) (returnS ()))"

section \<open>Trace rows\<close>

text \<open>\<open>asdict\<close> of a trace record, as the JSON line holds it.\<close>

definition trace_row :: "trace_record \<Rightarrow> jobj" where
  "trace_row r =
     [(''mode'', JStr (tc_mode r)), (''symbol'', JStr (tc_symbol r)),
      (''timeframe'', JStr (tc_timeframe r)), (''timestamp'', JStr (tc_timestamp r)),
      (''strategy'', JStr (tc_strategy r)), (''signal'', JStr (tc_signal r)),
      (''entry'', JFloat (tc_entry r)), (''stop_loss'', JFloat (tc_stop_loss r)),
      (''take_profit'', JFloat (tc_take_profit r)), (''rr'', JFloat (tc_rr r)),
      (''risk_amount'', jopt JFloat (tc_risk_amount r)),
      (''position_size'', jopt JFloat (tc_position_size r)),
      (''decision_reason'', JStr (tc_decision_reason r)),
      (''blocked_reason'', jopt JStr (tc_blocked_reason r)),
      (''account_balance'', jopt JFloat (tc_account_balance r)),
      (''daily_budget'', jopt JFloat (tc_daily_budget r)),
      (''risk_per_trade'', jopt JFloat (tc_risk_per_trade r)),
      (''config_hash'', JStr (tc_config_hash r)),
      (''trade_outcome'', jopt JStr (tc_trade_outcome r)), (''pnl'', jopt JFloat (tc_pnl r))]"

section \<open>The engine\<close>

record engine =
  en_service :: service
  en_client :: client
  en_collector :: collector
  en_scheduler :: "scheduler option"
  en_trace :: "trace_record list option"
  en_gateway :: bool
  en_forwarded :: "(signal_event \<times> json) list"

definition new_engine :: "service \<Rightarrow> client \<Rightarrow> collector \<Rightarrow> bool \<Rightarrow> engine" where
  "new_engine sv md mc traced =
     \<lparr>en_service = sv, en_client = md, en_collector = mc, en_scheduler = None,
      en_trace = (if traced then Some [] else None), en_gateway = False, en_forwarded = []\<rparr>"

text \<open>The trace record of an event, if it has one; whatever raises is logged.\<close>

definition live_record :: "(settings \<Rightarrow> string) \<Rightarrow> settings \<Rightarrow> json \<Rightarrow> trace_record option" where
  "live_record digest cfg payload =
     (case payload of
        JObj d \<Rightarrow>
          if truthy (get_or d ''signal'' JNull)
          then (case bindR (from_dict (get_or d ''signal'' JNull)) (\<lambda>s.
                  trace_from_signal digest ''live'' s cfg ''valid_signal'' None None None (s_outcome s) None) of
                  Inl e \<Rightarrow> None | Inr r \<Rightarrow> Some r)
          else None
      | _ \<Rightarrow> None)"

definition on_engine_event ::
  "(settings \<Rightarrow> string) \<Rightarrow> settings \<Rightarrow> signal_event \<times> json \<Rightarrow> engine \<Rightarrow> engine" where
  "on_engine_event digest cfg ev en =
     (let en1 = (case (en_trace en, live_record digest cfg (snd ev)) of
                   (Some rows, Some r) \<Rightarrow> en\<lparr>en_trace := Some (rows @ [r])\<rparr> | _ \<Rightarrow> en)
      in if en_gateway en1 then en1\<lparr>en_forwarded := en_forwarded en1 @ [ev]\<rparr> else en1)"

text \<open>A call of the service, with the events it delivers to the listener.\<close>

definition serve ::
  "(settings \<Rightarrow> string) \<Rightarrow> settings \<Rightarrow> (service, 'a) sm \<Rightarrow> engine \<Rightarrow> 'a result \<times> engine" where
  "serve digest cfg m en =
     (case m (en_service en) of (r, sv) \<Rightarrow>
        (r, fold (on_engine_event digest cfg) (drop (length (sv_events (en_service en))) (sv_events sv))
              (en\<lparr>en_service := sv\<rparr>)))"

text \<open>The tick: the close of the shortest LTF candle, or the exception on the way to it.\<close>

definition tick_close :: "settings \<Rightarrow> ms result \<Rightarrow> ms result" where
  "tick_close cfg client_now =
     bindR (base_interval cfg) (\<lambda>m.
     bindR client_now (\<lambda>now.
       let ltf_ms = m * 60 * 1000 in
       if ltf_ms = 0 then Inl ZeroDivisionError else Inr ((now div ltf_ms) * ltf_ms)))"

definition run_tick :: "svc_env \<Rightarrow> string \<Rightarrow> ms \<Rightarrow> (service, unit) sm" where
  "run_tick v symbol close_ts =
     thenS (update_watchlist v symbol) (thenS (analyze v symbol close_ts) (returnS ()))"

text \<open>The calls the engine itself makes to the collector at the end of a tick.\<close>

definition tick_calls :: "string \<Rightarrow> real \<Rightarrow> ms \<Rightarrow> 'a result \<Rightarrow> string \<Rightarrow> collector_call list" where
  "tick_calls symbol duration close_ts r msg =
     (case r of Inl e \<Rightarrow> [Tick_Failed msg] | Inr _ \<Rightarrow> []) @
     (if close_ts = 0 then []
      else [Tick_Done symbol close_ts duration, Tick_State symbol (Some close_ts)])"

definition on_candle_close ::
  "(settings \<Rightarrow> string) \<Rightarrow> svc_env \<Rightarrow> ms result \<Rightarrow> string \<Rightarrow> real \<Rightarrow> string \<Rightarrow> engine \<Rightarrow>
   collector_call list \<times> engine" where
  "on_candle_close digest v client_now symbol duration msg en =
     (case tick_close (v_cfg v) client_now of
        Inl e \<Rightarrow> (tick_calls symbol duration 0 (Inl e :: unit result) msg, en)
      | Inr t \<Rightarrow>
          case serve digest (v_cfg v) (run_tick v symbol t) en of (r, en') \<Rightarrow>
            (map From_Service (drop (length (sv_metrics (en_service en))) (sv_metrics (en_service en'))) @
               tick_calls symbol duration t r msg, en'))"

definition engine_start ::
  "(settings \<Rightarrow> string) \<Rightarrow> svc_env \<Rightarrow> ms \<Rightarrow> engine \<Rightarrow> unit result \<times> engine" where
  "engine_start digest v now en =
     (case serve digest (v_cfg v) (initialize v) (en\<lparr>en_gateway := True\<rparr>) of
        (Inl e, en1) \<Rightarrow> (Inl e, en1)
      | (Inr _, en1) \<Rightarrow>
          let symbols = g_manager_symbols (v_cfg v);
              sc = new_scheduler (v_cfg v);
              sc' = (if symbols = [] then sc else subscribe now ''pipeline'' symbols sc);
              mc' = fold (\<lambda>s. update_scheduler_state (upper s) ''ltf'' None None) symbols (en_collector en1)
          in (Inr (), en1\<lparr>en_scheduler := Some sc', en_collector := mc'\<rparr>))"

definition engine_stop :: "engine \<Rightarrow> engine" where
  "engine_stop en =
     en\<lparr>en_scheduler := map_option shutdown (en_scheduler en),
        en_client := close_client (en_client en),
        en_collector := close_collector (en_collector en)\<rparr>"

definition engine_metrics :: "ms \<Rightarrow> ms \<Rightarrow> engine \<Rightarrow> snapshot result \<times> engine" where
  "engine_metrics now0 now en =
     (case build_snapshot now0 now (en_collector en) of (r, mc) \<Rightarrow> (r, en\<lparr>en_collector := mc\<rparr>))"

section \<open>The parity check\<close>

definition PRICE_TOLERANCE :: real where "PRICE_TOLERANCE = 1 / 10 ^ 6"
definition MONEY_TOLERANCE :: real where "MONEY_TOLERANCE = 1 / 10 ^ 2"

definition FIELDS :: "string list" where
  "FIELDS =
     [''symbol'', ''timeframe'', ''timestamp'', ''signal'', ''strategy'', ''entry'', ''stop_loss'',
      ''take_profit'', ''rr'', ''risk_amount'', ''position_size'', ''blocked_reason'',
      ''trade_outcome'', ''pnl'']"

text \<open>The rows of a trace file; \<open>json.loads\<close> is a parameter, the number is the bad line's.\<close>

fun load_trace :: "(string \<Rightarrow> json result) \<Rightarrow> nat \<Rightarrow> string list \<Rightarrow> nat + json list" where
  "load_trace loads n [] = Inr []"
| "load_trace loads n (row # rows) =
     (if strip row = [] then load_trace loads (Suc n) rows
      else case loads (strip row) of
             Inl e \<Rightarrow> Inl n
           | Inr j \<Rightarrow> (case load_trace loads (Suc n) rows of Inl k \<Rightarrow> Inl k | Inr js \<Rightarrow> Inr (j # js)))"

fun is_number :: "json \<Rightarrow> bool" where
  "is_number (JInt n) = True" | "is_number (JFloat x) = True" | "is_number (JBool b) = True"
| "is_number _ = False"

text \<open>\<open>float(v)\<close>; how it reads a string is a parameter.\<close>

fun float_of :: "(string \<Rightarrow> real result) \<Rightarrow> json \<Rightarrow> real result" where
  "float_of rd (JInt n) = Inr (of_int n)"
| "float_of rd (JFloat x) = Inr x"
| "float_of rd (JBool b) = Inr (if b then 1 else 0)"
| "float_of rd (JStr s) = rd s"
| "float_of rd _ = Inl TypeError"

definition same_value :: "(string \<Rightarrow> real result) \<Rightarrow> json \<Rightarrow> json \<Rightarrow> string \<Rightarrow> bool result" where
  "same_value rd a b field =
     (if a = JNull \<or> b = JNull then Inr (a = JNull \<and> b = JNull)
      else if is_number a \<or> is_number b
      then bindR (float_of rd a) (\<lambda>x. bindR (float_of rd b) (\<lambda>y.
             Inr (\<bar>x - y\<bar> \<le> (if field \<in> {''risk_amount'', ''pnl''} then MONEY_TOLERANCE else PRICE_TOLERANCE))))
      else Inr (a = b))"

datatype mismatch =
    Trace_Lengths nat nat
  | Config_Hashes json json
  | Differing_Field jobj jobj string

text \<open>The first field of a row that differs.\<close>

fun first_difference ::
  "(string \<Rightarrow> real result) \<Rightarrow> jobj \<Rightarrow> jobj \<Rightarrow> string list \<Rightarrow> string option result" where
  "first_difference rd a b [] = Inr None"
| "first_difference rd a b (f # fs) =
     bindR (same_value rd (get_or a f JNull) (get_or b f JNull) f) (\<lambda>ok.
       if ok then first_difference rd a b fs else Inr (Some f))"

fun compare_rows :: "(string \<Rightarrow> real result) \<Rightarrow> (jobj \<times> jobj) list \<Rightarrow> mismatch option result" where
  "compare_rows rd [] = Inr None"
| "compare_rows rd ((a, b) # rows) =
     bindR (first_difference rd a b FIELDS) (\<lambda>d.
       case d of None \<Rightarrow> compare_rows rd rows | Some f \<Rightarrow> Inr (Some (Differing_Field a b f)))"

definition compare_traces ::
  "(string \<Rightarrow> real result) \<Rightarrow> jobj list \<Rightarrow> jobj list \<Rightarrow> mismatch option result" where
  "compare_traces rd live backtest =
     (case (live, backtest) of
        ([], []) \<Rightarrow> Inr None
      | (l # _, b # _) \<Rightarrow>
          let lh = get_or l ''config_hash'' JNull; bh = get_or b ''config_hash'' JNull in
          if lh \<noteq> bh then Inr (Some (Config_Hashes lh bh))
          else if length live \<noteq> length backtest
          then Inr (Some (Trace_Lengths (length live) (length backtest)))
          else compare_rows rd (zip live backtest)
      | _ \<Rightarrow> Inr (Some (Trace_Lengths (length live) (length backtest))))"

end
