(* ===== verification/Engine_Laws.thy ===== *)
theory Engine_Laws
  imports Engine Backtest_Example Metrics_Laws Service_Restart
begin

text \<open>
  Laws of the engine around the service, and of the parity check over what the live engine and
  the backtest write.
\<close>

section \<open>Events\<close>

text \<open>A handler that raises does not keep the others from the event.\<close>

lemma broadcast_reaches_all:
  "broadcast_event hs ev p s = (Inr (), fold (\<lambda>h s. snd (h ev p s)) hs s)"
  unfolding broadcast_event_def
  by (induction hs arbitrary: s) (auto simp: bindS_def tryS_def returnS_def split: prod.split)

lemma on_engine_event_frame:
  "en_service (on_engine_event d cfg ev en) = en_service en"
  "en_client (on_engine_event d cfg ev en) = en_client en"
  by (auto simp: on_engine_event_def Let_def split: option.split)

lemma engine_events_service: "en_service (fold (on_engine_event d cfg) evs en) = en_service en"
  by (induction evs arbitrary: en) (simp_all add: on_engine_event_frame)

section \<open>The ticks of the engine\<close>

text \<open>Computations that never raise.\<close>

definition quiet :: "('s, 'a) sm \<Rightarrow> bool" where
  "quiet m \<longleftrightarrow> (\<forall>s. \<exists>x s'. m s = (Inr x, s'))"

named_theorems quiet_intro \<open>statements that never raise\<close>

lemma quiet_base [quiet_intro]:
  "quiet (returnS x)" "quiet (readS g)" "quiet (modS f)" "quiet (tryS m)"
  by (auto simp: quiet_def returnS_def readS_def modS_def tryS_def split: prod.split)

lemma quiet_bind [quiet_intro]: "quiet m \<Longrightarrow> (\<And>x. quiet (f x)) \<Longrightarrow> quiet (bindS m f)"
  unfolding quiet_def
proof
  fix s
  assume m: "\<forall>s. \<exists>x s'. m s = (Inr x, s')" and f: "\<And>x. \<forall>s. \<exists>y s'. f x s = (Inr y, s')"
  obtain x s1 where "m s = (Inr x, s1)" using m by blast
  moreover obtain y s2 where "f x s1 = (Inr y, s2)" using f by blast
  ultimately show "\<exists>y s'. bindS m f s = (Inr y, s')" by (simp add: bindS_def)
qed

lemma quiet_when [quiet_intro]: "quiet m \<Longrightarrow> quiet (whenS b m)"
  by (auto simp: whenS_def quiet_base)

lemma quiet_for [quiet_intro]: "(\<And>x. quiet (f x)) \<Longrightarrow> quiet (forS xs f)"
  by (induction xs) (auto intro!: quiet_intro)

lemma quiet_clock [quiet_intro]: "quiet (now_ms v)" "quiet (svc_stats v)"
  by (auto simp: quiet_def now_ms_def svc_stats_def split: prod.split)

lemma quiet_parts [quiet_intro]: "quiet (status_line v)" "quiet (metric v m)"
  unfolding status_line_def metric_def by (intro quiet_intro)+

lemma quiet_if [quiet_intro]: "quiet m \<Longrightarrow> quiet n \<Longrightarrow> quiet (if b then m else n)"
  by simp

lemma quiet_prod [quiet_intro]: "(\<And>a b. quiet (f a b)) \<Longrightarrow> quiet (case y of (a, b) \<Rightarrow> f a b)"
  by (cases y) simp

lemma quiet_update: "quiet (update_watchlist v symbol)"
  unfolding update_watchlist_def by (intro quiet_intro)

lemma quiet_pairs [quiet_intro]: "quiet (analyze_pairs v symbol t prs)"
  by (induction prs) (auto intro!: quiet_intro)

lemma quiet_analyze: "quiet (analyze v symbol t)"
  unfolding analyze_def analyze_at_def report_analysis_def Let_def by (intro quiet_intro)

lemma quiet_tick: "quiet (run_tick v symbol t)"
  unfolding run_tick_def by (intro quiet_intro quiet_update quiet_analyze)

lemma serve_result: "fst (serve d cfg m en) = fst (m (en_service en))"
  by (simp add: serve_def split: prod.split)

text \<open>
  which failures are counted. A tick is reported as failed exactly when the engine cannot
  tell the candle that closed, because of its timeframes or because the client has no clock.
  Whatever goes wrong after that, in the watchlist or in the analysis of a pair (no candles, an
  unknown symbol, a lost connection), the tick is reported as done.
\<close>

theorem only_clock_failures_are_counted:
  assumes "on_candle_close digest v client_now symbol duration msg en = (calls, en')"
  shows "(Tick_Failed msg \<in> set calls \<longleftrightarrow> (\<exists>e. tick_close (v_cfg v) client_now = Inl e)) \<and>
    (\<forall>t. tick_close (v_cfg v) client_now = Inr t \<and> t \<noteq> 0 \<longrightarrow> Tick_Done symbol t duration \<in> set calls)"
proof (cases "tick_close (v_cfg v) client_now")
  case (Inl e)
  then show ?thesis using assms by (auto simp: on_candle_close_def tick_calls_def)
next
  case (Inr t)
  obtain r en1 where s: "serve digest (v_cfg v) (run_tick v symbol t) en = (r, en1)" by (rule prod.exhaust)
  obtain x sv where "run_tick v symbol t (en_service en) = (Inr x, sv)"
    using quiet_tick [of v symbol t] unfolding quiet_def by blast
  then have "r = Inr x" using serve_result [of digest "v_cfg v" "run_tick v symbol t" en] s by simp
  then show ?thesis using assms Inr s by (auto simp: on_candle_close_def tick_calls_def split: if_splits)
qed

text \<open>The close of a tick is the last boundary of the shortest timeframe.\<close>

lemma tick_close_boundary:
  assumes "tick_close cfg (Inr now) = Inr t" "base_interval cfg = Inr m" "0 < m"
  shows "t mod (m * 60000) = 0 \<and> t \<le> now \<and> now < t + m * 60000"
proof -
  have t: "t = now div (m * 60000) * (m * 60000)"
    using assms by (auto simp: tick_close_def Let_def mult.assoc split: if_splits)
  have "now = now div (m * 60000) * (m * 60000) + now mod (m * 60000)"
    by (rule div_mult_mod_eq [symmetric])
  moreover have "0 \<le> now mod (m * 60000)" "now mod (m * 60000) < m * 60000"
    using assms(3) by simp_all
  ultimately show ?thesis unfolding t by auto
qed

section \<open>The two traces\<close>

lemma live_record_unrisked: "live_record digest cfg p = Some r \<Longrightarrow> tc_risk_amount r = None"
  by (auto simp: live_record_def trace_from_signal_def bindR_Inr_iff split: json.splits if_splits sum.splits)

lemma live_trace_unrisked:
  "en_trace en = Some rows \<Longrightarrow> \<forall>r \<in> set rows. tc_risk_amount r = None \<Longrightarrow>
   en_trace (fold (on_engine_event digest cfg) evs en) = Some rows' \<Longrightarrow>
   \<forall>r \<in> set rows'. tc_risk_amount r = None"
proof (induction evs arbitrary: en rows)
  case (Cons ev evs)
  obtain rows1 where one: "en_trace (on_engine_event digest cfg ev en) = Some rows1"
    "\<forall>r \<in> set rows1. tc_risk_amount r = None"
    using Cons.prems(1,2)
    by (cases "live_record digest cfg (snd ev)")
      (auto simp: on_engine_event_def Let_def dest: live_record_unrisked)
  show ?case using Cons.IH [OF one] Cons.prems(3) by simp
qed simp

text \<open>The message of a trigger carries no nested signal, so it leaves no row.\<close>

lemma triggered_leaves_no_row: "to_dict s = Inr d \<Longrightarrow> live_record digest cfg d = None"
  by (auto simp: to_dict_def bindR_Inr_iff live_record_def signal_entries_def get_or_def)

text \<open>One row per trade of the backtest, each with the amount at risk.\<close>

definition traced :: "backtester \<Rightarrow> walk \<Rightarrow> bool" where
  "traced bt w \<longleftrightarrow> length (wk_trace w) = length (wk_results w) \<and>
     (\<forall>r \<in> set (wk_trace w). tc_risk_amount r = Some (bt_start_balance bt * (bt_risk_percent bt / 100)))"

definition same_trace :: "walk \<Rightarrow> walk \<Rightarrow> bool" where
  "same_trace w w' \<longleftrightarrow> wk_trace w' = wk_trace w \<and> wk_results w' = wk_results w"

lemma traced_same: "same_trace w w' \<Longrightarrow> traced bt w' = traced bt w"
  by (simp add: same_trace_def traced_def)

lemma same_trace_steps:
  "same_trace w (snd (zone_lo_at v z w))" "same_trace w (snd (entry_at v lo z w))"
  "same_trace w (snd (trend_at bt v w))" "same_trace w (expire_locks t w)"
  "ranges_at bt v w = Inr (zs, w') \<Longrightarrow> same_trace w w'"
  by (auto simp: same_trace_def zone_lo_at_def entry_at_def trend_at_def structure_at_def expire_locks_def
      ranges_at_def Let_def bindR_Inr_iff split: option.splits if_splits prod.splits)

lemma trace_risk:
  "trace_from_signal dg md s cfg dr br (Some b) (Some r) oc pnl = Inr tr \<Longrightarrow>
   tc_risk_amount tr = Some (b * (r / 100))"
  by (auto simp: trace_from_signal_def bindR_Inr_iff Let_def)

lemma book_lists:
  "wk_trace (book_signal bt v z rej s res w) = wk_trace w"
  "wk_results (book_signal bt v z rej s res w) = wk_results w @ [res]"
  by (simp_all add: book_signal_def Let_def)

lemma take_setup_traced:
  assumes "take_setup bt v z rej w = Inr (b, w')" "traced bt w"
  shows "traced bt w'"
proof -
  have "same_trace w w' \<or> (\<exists>s res tr dg md s1 cfg dr br oc pnl.
      w' = (book_signal bt v z rej s res w)\<lparr>wk_trace := wk_trace w @ [tr]\<rparr> \<and>
      trace_from_signal dg md s1 cfg dr br (Some (bt_start_balance bt)) (Some (bt_risk_percent bt)) oc pnl = Inr tr)"
    using assms(1)
    by (auto simp: take_setup_def bindR_Inr_iff Let_def same_trace_def book_lists split: option.splits)
  then show ?thesis
    using assms(2) by (auto simp only: traced_same) (auto simp: traced_def book_lists dest: trace_risk)
qed

lemma scan_zone_traced:
  assumes "scan_zone bt v st z w = Inr (b, w')" "traced bt w"
  shows "traced bt w'"
proof -
  obtain lo w1 where lo: "zone_lo_at v z w = (lo, w1)" by (rule prod.exhaust)
  obtain e w2 where e: "entry_at v lo z w1 = (e, w2)" by (rule prod.exhaust)
  have "traced bt w1" "traced bt w2"
    using assms(2) traced_same [OF same_trace_steps(1), of bt v z w] lo
      traced_same [OF same_trace_steps(2), of bt v lo z w1] e by simp_all
  then show ?thesis
    using assms lo e take_setup_traced
    by (auto simp: scan_zone_def split: if_splits option.splits prod.splits)
qed

lemma scan_zones_traced: "scan_zones_bt bt v st zs w = Inr w' \<Longrightarrow> traced bt w \<Longrightarrow> traced bt w'"
proof (induction zs arbitrary: w)
  case (Cons z zs)
  then show ?case
    by (auto simp: bindR_Inr_iff split: if_splits dest: scan_zone_traced)
qed simp

lemma walk_pair_traced:
  assumes "walk_pair bt t pr w = Inr w'" "traced bt w"
  shows "traced bt w'"
proof -
  have scan: "traced bt w2" if "scan_pair bt t v st zs w1 = Inr w2" "traced bt w1" for v st zs w1 w2
    using that by (auto simp: scan_pair_def Let_def bindR_Inr_iff split: if_splits dest: scan_zones_traced)
  have view: "traced bt w2" if run: "walk_view bt t v w = Inr w2" for v w2
  proof -
    obtain st w1 where tr: "trend_at bt v w = (st, w1)" by (rule prod.exhaust)
    have w1: "traced bt w1" using traced_same [OF same_trace_steps(3), of bt bt v w] tr assms(2) by simp
    show ?thesis
    proof (cases "case st of None \<Rightarrow> False | Some s \<Rightarrow> st_bias s = BIAS_NEUTRAL")
      case True
      then show ?thesis using run tr w1 by (simp add: walk_view_def)
    next
      case False
      then obtain zs w3 where "ranges_at bt v w1 = Inr (zs, w3)" "scan_pair bt t v st zs w3 = Inr w2"
        using run tr by (auto simp: walk_view_def bindR_Inr_iff)
      then show ?thesis using scan w1 traced_same [OF same_trace_steps(5)] by blast
    qed
  qed
  show ?thesis
    using assms view by (auto simp: walk_pair_def bindR_Inr_iff split: prod.splits option.splits)
qed

lemma walk_pairs_traced: "walk_pairs bt t prs w = Inr w' \<Longrightarrow> traced bt w \<Longrightarrow> traced bt w'"
  by (induction prs arbitrary: w) (auto simp: bindR_Inr_iff dest: walk_pair_traced)

lemma walk_steps_traced: "walk_steps bt prs m cs w = Inr w' \<Longrightarrow> traced bt w \<Longrightarrow> traced bt w'"
proof (induction cs arbitrary: w)
  case (Cons c cs)
  then obtain w1 where "walk_pairs bt (c_timestamp c + m) prs (expire_locks (c_timestamp c) w) = Inr w1"
    "walk_steps bt prs m cs w1 = Inr w'"
    by (auto simp: bindR_Inr_iff walk_step_def)
  then show ?case
    using Cons walk_pairs_traced traced_same [OF same_trace_steps(4), of bt "c_timestamp c" w] by blast
qed simp

lemma run_traced: "run_walk bt = Inr w \<Longrightarrow> traced bt w"
proof -
  assume "run_walk bt = Inr w"
  then obtain prs m cs where "walk_steps bt prs m cs init_walk = Inr w" by (rule run_walkE)
  then show ?thesis by (rule walk_steps_traced) (simp add: traced_def init_walk_def)
qed

section \<open>The comparison\<close>

lemma first_difference_none:
  "first_difference rd a b fs = Inr None \<longleftrightarrow>
   (\<forall>f \<in> set fs. same_value rd (get_or a f JNull) (get_or b f JNull) f = Inr True)"
  by (induction fs) (auto simp: bindR_Inr_iff)

lemma compare_rows_none:
  "compare_rows rd rows = Inr None \<longleftrightarrow>
   (\<forall>(a, b) \<in> set rows. \<forall>f \<in> set FIELDS. same_value rd (get_or a f JNull) (get_or b f JNull) f = Inr True)"
proof (induction rd rows rule: compare_rows.induct)
  case (2 rd a b rows)
  show ?case
  proof (cases "first_difference rd a b FIELDS = Inr None")
    case True
    then show ?thesis using 2 iffD1 [OF first_difference_none True] by simp
  next
    case False
    then have "compare_rows rd ((a, b) # rows) \<noteq> Inr None"
      by (auto simp: bindR_Inr_iff split: option.splits)
    then show ?thesis using False by (auto simp: first_difference_none)
  qed
qed simp

definition agree :: "(string \<Rightarrow> real result) \<Rightarrow> jobj \<Rightarrow> jobj \<Rightarrow> bool" where
  "agree rd a b \<longleftrightarrow>
     (\<forall>f \<in> set FIELDS. same_value rd (get_or a f JNull) (get_or b f JNull) f = Inr True)"

text \<open>
  what a passed parity check says. Two traces pass exactly when both are empty, or they have
  equally many rows, the configuration hashes of their first rows are equal, and every compared
  field of every pair of rows is null on both sides, equal, or a number within the tolerance.
\<close>

theorem parity_passes_iff:
  "compare_traces rd live backtest = Inr None \<longleftrightarrow>
   (live = [] \<and> backtest = []) \<or>
   (live \<noteq> [] \<and> length live = length backtest \<and>
    get_or (hd live) ''config_hash'' JNull = get_or (hd backtest) ''config_hash'' JNull \<and>
    list_all2 (agree rd) live backtest)"
proof -
  have rows: "compare_rows rd (zip xs ys) = Inr None \<longleftrightarrow> list_all2 (agree rd) xs ys"
    if "length xs = length ys" for xs ys
    using that by (simp add: compare_rows_none list_all2_iff agree_def)
  show ?thesis
  proof (cases live)
    case Nil
    then show ?thesis by (cases backtest) (simp_all add: compare_traces_def)
  next
    case (Cons l ls)
    then show ?thesis
      using rows [of live backtest]
      by (cases backtest) (auto simp: compare_traces_def Let_def)
  qed
qed

theorem parity_passes_iff_witness:
  "compare_traces (\<lambda>_. Inl ValueError) [[(''rr'', JFloat 2)]] [[(''rr'', JFloat (2 + 1 / 10 ^ 7))]] = Inr None"
proof -
  have "same_value (\<lambda>_. Inl ValueError) (get_or [(''rr'', JFloat 2)] f JNull)
      (get_or [(''rr'', JFloat (2 + 1 / 10 ^ 7))] f JNull) f = Inr True" for f
    by (simp add: get_or_def same_value_def PRICE_TOLERANCE_def MONEY_TOLERANCE_def)
  then show ?thesis by (simp add: parity_passes_iff agree_def get_or_def)
qed

text \<open>
  C11: the parity check cannot pass. Whatever the engine sees live, and whatever the backtest
  does, as soon as one of the two has traced a trade the comparison reports a mismatch (or
  raises): a live row never has a risk amount, a row of the backtest always has one.
\<close>

theorem parity_never_passes:
  assumes "run_walk bt = Inr w"
    and "en_trace (fold (on_engine_event digest cfg) evs (new_engine sv md mc True)) = Some live"
    and "live \<noteq> [] \<or> wk_results w \<noteq> []"
  shows "compare_traces rd (map trace_row live) (map trace_row (wk_trace w)) \<noteq> Inr None"
proof
  assume passes: "compare_traces rd (map trace_row live) (map trace_row (wk_trace w)) = Inr None"
  have len: "length (wk_trace w) = length (wk_results w)"
    and risked: "\<forall>r \<in> set (wk_trace w). tc_risk_amount r \<noteq> None"
    using run_traced [OF assms(1)] by (auto simp: traced_def)
  have unrisked: "\<forall>r \<in> set live. tc_risk_amount r = None"
    by (rule live_trace_unrisked [where rows = "[]", OF _ _ assms(2)]) (simp_all add: new_engine_def)
  have both: "live \<noteq> []" "list_all2 (agree rd) (map trace_row live) (map trace_row (wk_trace w))"
    using passes assms(3) len by (auto simp: parity_passes_iff)
  then obtain l b where lb: "l \<in> set live" "b \<in> set (wk_trace w)" "agree rd (trace_row l) (trace_row b)"
    by (cases live; cases "wk_trace w") auto
  obtain x where x: "tc_risk_amount b = Some x" using risked lb(2) by blast
  have row: "get_or (trace_row r) ''risk_amount'' JNull = jopt JFloat (tc_risk_amount r)" for r
    by (simp add: trace_row_def get_or_def)
  have "''risk_amount'' \<in> set FIELDS" by (simp add: FIELDS_def)
  then have "same_value rd (jopt JFloat (tc_risk_amount l)) (jopt JFloat (tc_risk_amount b)) ''risk_amount'' = Inr True"
    using lb(3) row unfolding agree_def by metis
  then show False using unrisked lb(1) x by (simp add: same_value_def jopt_def)
qed

theorem parity_never_passes_witness:
  "\<exists>w. run_walk past_bt = Inr w \<and>
     compare_traces (\<lambda>_. Inl ValueError) [] (map trace_row (wk_trace w)) \<noteq> Inr None"
proof -
  obtain w where w: "run_walk past_bt = Inr w" "length (wk_results w) = 1" using past_run by blast
  fix sv md mc digest
  have live: "en_trace (fold (on_engine_event digest (default_settings [])) [] (new_engine sv md mc True)) = Some []"
    by (simp add: new_engine_def)
  have "wk_results w \<noteq> []" using w(2) by auto
  then show ?thesis
    using parity_never_passes [OF w(1) live, of "\<lambda>_. Inl ValueError"] w(1) by auto
qed

theorem only_clock_failures_are_counted_witness:
  "\<forall>digest en. \<exists>calls en'.
     on_candle_close digest ex_env (Inl MarketDataError) ''EURUSD'' 12 ''no clock'' en = (calls, en') \<and>
     Tick_Failed ''no clock'' \<in> set calls"
proof (intro allI)
  fix digest en
  obtain calls en' where run:
    "on_candle_close digest ex_env (Inl MarketDataError) ''EURUSD'' 12 ''no clock'' en = (calls, en')"
    by (rule prod.exhaust)
  have "\<exists>e. tick_close (v_cfg ex_env) (Inl MarketDataError) = Inl e"
    by (cases "base_interval (v_cfg ex_env)") (auto simp: tick_close_def)
  then show "\<exists>calls en'.
     on_candle_close digest ex_env (Inl MarketDataError) ''EURUSD'' 12 ''no clock'' en = (calls, en') \<and>
     Tick_Failed ''no clock'' \<in> set calls"
    using only_clock_failures_are_counted [OF run] run by blast
qed

end
