(* ===== verification/Streaks.thy ===== *)
theory Streaks
  imports Accounting "HOL-Library.While_Combinator" "HOL-Library.Product_Lexorder"
begin

text \<open>
  app/backtesting/streak_analysis.py: the figures of the losing-streak report. The shuffles of
  the random number generator are a parameter; printing, rounding for display, the tables by
  hour, weekday and bucket, the correlation table and the CSV loader are left out. The sort of the
  data frames is a parameter too: it does not say how it orders equal keys.
\<close>

section \<open>Trades\<close>

text \<open>The results \<open>"B"\<close>, \<open>"L"\<close>, \<open>"W"\<close>, in the order of the strings.\<close>

datatype trade_result = Even | Loss | Win

fun result_rank :: "trade_result \<Rightarrow> nat" where
  "result_rank Even = 0" | "result_rank Loss = 1" | "result_rank Win = 2"

lemma result_rank_inj: "result_rank a = result_rank b \<longleftrightarrow> a = b"
  by (cases a; cases b) auto

instantiation trade_result :: linorder
begin

definition less_eq_trade_result :: "trade_result \<Rightarrow> trade_result \<Rightarrow> bool" where
  "less_eq_trade_result a b \<longleftrightarrow> result_rank a \<le> result_rank b"

definition less_trade_result :: "trade_result \<Rightarrow> trade_result \<Rightarrow> bool" where
  "less_trade_result a b \<longleftrightarrow> result_rank a < result_rank b"

instance
  by standard (auto simp: less_eq_trade_result_def less_trade_result_def result_rank_inj)

end

definition EPS :: real where "EPS = 1 / 10 ^ 9"

definition classify :: "real \<Rightarrow> trade_result" where
  "classify r = (if r < - EPS then Loss else if EPS < r then Win else Even)"

record trade =
  td_symbol :: string
  td_entry :: ms
  td_close :: ms
  td_r :: real
  td_res :: trade_result

definition trade_of_result :: "backtest_result \<Rightarrow> trade" where
  "trade_of_result r =
     (let s = br_signal r; entry_ms = int_or (s_triggered_at s) 0 in
      \<lparr>td_symbol = s_symbol s, td_entry = entry_ms, td_close = int_or (br_close_ts r) entry_ms,
       td_r = br_realized_rr r, td_res = classify (br_realized_rr r)\<rparr>)"

text \<open>A frame without rows has no column \<open>R\<close>.\<close>

type_synonym frame_sort = "(trade \<Rightarrow> ms) \<Rightarrow> trade list \<Rightarrow> trade list"

definition build_df :: "frame_sort \<Rightarrow> backtest_result list \<Rightarrow> trade list result" where
  "build_df srt rs =
     (if rs = [] then Inl KeyError else Inr (srt td_close (map trade_of_result rs)))"

section \<open>Streaks and drawdown\<close>

definition emit_streak :: "nat \<Rightarrow> nat list" where
  "emit_streak n = (if n = 0 then [] else [n])"

fun loss_streaks :: "nat \<Rightarrow> trade_result list \<Rightarrow> nat list" where
  "loss_streaks n [] = emit_streak n"
| "loss_streaks n (r # rs) =
     (if r = Loss then loss_streaks (Suc n) rs else emit_streak n @ loss_streaks 0 rs)"

definition loss_streak_lengths :: "trade_result list \<Rightarrow> nat list" where
  "loss_streak_lengths rs = loss_streaks 0 rs"

text \<open>
  \<open>_max_run\<close>: the array padded with False, its differences, the positions where it rises and
  falls, and the greatest distance between them.
\<close>

definition positions :: "(bool \<times> bool \<Rightarrow> bool) \<Rightarrow> bool list \<Rightarrow> nat list" where
  "positions P a = filter (\<lambda>i. P (a ! i, a ! Suc i)) [0..<length a - 1]"

definition max_run :: "bool list \<Rightarrow> nat" where
  "max_run bs =
     (let a = [False] @ bs @ [False];
          starts = positions (\<lambda>(x, y). \<not> x \<and> y) a;
          ends = positions (\<lambda>(x, y). x \<and> \<not> y) a
      in if starts = [] then 0 else Max (set (map2 (-) ends starts)))"

fun cumsum :: "real \<Rightarrow> real list \<Rightarrow> real list" where
  "cumsum s [] = []"
| "cumsum s (r # rs) = (s + r) # cumsum (s + r) rs"

fun running_max :: "real \<Rightarrow> real list \<Rightarrow> real list" where
  "running_max m [] = []"
| "running_max m (x # xs) = max m x # running_max (max m x) xs"

text \<open>\<open>np.maximum.accumulate\<close> starts with the first element; the minimum of nothing raises.\<close>

definition max_dd :: "real list \<Rightarrow> real result" where
  "max_dd rs =
     (case cumsum 0 rs of
        [] \<Rightarrow> Inl ValueError
      | e # es \<Rightarrow> Inr (Min (set (map2 (-) (e # es) (e # running_max e es)))))"

definition loss_flags :: "trade_result list \<Rightarrow> bool list" where
  "loss_flags rs = map (\<lambda>r. r = Loss) rs"

text \<open>The null distribution: \<open>orders i\<close> is the order of the trades after the \<open>i\<close>-th shuffle.\<close>

definition mc_null ::
  "(nat \<Rightarrow> nat list) \<Rightarrow> nat \<Rightarrow> trade_result list \<Rightarrow> real list \<Rightarrow> (nat list \<times> real list) result" where
  "mc_null orders n_iter res rs =
     bindR (mapR (\<lambda>i. max_dd (map (\<lambda>j. rs ! j) (orders i))) [0..<n_iter]) (\<lambda>dds.
     Inr (map (\<lambda>i. max_run (map (\<lambda>j. loss_flags res ! j) (orders i))) [0..<n_iter], dds))"

definition share :: "bool list \<Rightarrow> real" where
  "share bs = of_nat (length (filter id bs)) / of_nat (length bs)"

record streak_report =
  sp_trades :: nat
  sp_win_rate :: real
  sp_loss_rate :: real
  sp_even_rate :: real
  sp_streaks :: "nat list"
  sp_max_losses :: nat
  sp_max_dd :: real
  sp_p_streak :: real
  sp_p_dd :: real

definition max_or_zero :: "nat list \<Rightarrow> nat" where
  "max_or_zero xs = (case xs of [] \<Rightarrow> 0 | y # ys \<Rightarrow> max_by id y ys)"

definition streak_report ::
  "(nat \<Rightarrow> nat list) \<Rightarrow> nat \<Rightarrow> trade list \<Rightarrow> streak_report result" where
  "streak_report orders n_iter ts =
     (let res = map td_res ts; rs = map td_r ts; streaks = loss_streak_lengths res;
          obs_max = max_or_zero streaks
      in
      bindR (max_dd rs) (\<lambda>obs_dd.
      bindR (mc_null orders n_iter res rs) (\<lambda>(streak_null, dd_null).
      Inr \<lparr>sp_trades = length ts, sp_win_rate = share (map (\<lambda>r. r = Win) res),
           sp_loss_rate = share (map (\<lambda>r. r = Loss) res), sp_even_rate = share (map (\<lambda>r. r = Even) res),
           sp_streaks = streaks, sp_max_losses = obs_max, sp_max_dd = obs_dd,
           sp_p_streak = share (map (\<lambda>n. obs_max \<le> n) streak_null),
           sp_p_dd = share (map (\<lambda>d. d \<le> obs_dd) dd_null)\<rparr>)))"

text \<open>The losing run each trade is entered in: only a win ends it.\<close>

fun runs_before :: "nat \<Rightarrow> trade_result list \<Rightarrow> nat list" where
  "runs_before n [] = []"
| "runs_before n (r # rs) =
     n # runs_before (case r of Loss \<Rightarrow> Suc n | Win \<Rightarrow> 0 | Even \<Rightarrow> n) rs"

text \<open>Trades entered after at least \<open>k\<close> losses, for \<open>k\<close> from 1 while there are 30 of them.\<close>

definition after_losses :: "nat \<Rightarrow> trade list \<Rightarrow> trade list" where
  "after_losses k ts = map snd (filter (\<lambda>(n, t). k \<le> n) (zip (runs_before 0 (map td_res ts)) ts))"

definition dependence :: "trade list \<Rightarrow> (nat \<times> nat \<times> real \<times> real) list" where
  "dependence ts =
     map (\<lambda>k. let a = after_losses k ts in
            (k, length a, share (map (\<lambda>t. td_res t = Loss) a), sum_list (map td_r a) / of_nat (length a)))
       (takeWhile (\<lambda>k. 30 \<le> length (after_losses k ts)) [1..<8])"

section \<open>Mitigation rules\<close>

text \<open>
  An entry of the heap: close, R, result, day of the entry and multiplier, compared in this
  order. The heap is the ordered list of its entries.
\<close>

type_synonym open_trade = "ms \<times> real \<times> trade_result \<times> int \<times> real"

definition heap_push :: "'a::linorder \<Rightarrow> 'a list \<Rightarrow> 'a list" where
  "heap_push x q = insort x q"

definition heap_min :: "'a list \<Rightarrow> 'a" where
  "heap_min q = hd q"

definition heap_pop :: "'a list \<Rightarrow> 'a list" where
  "heap_pop q = tl q"

record day_book =
  bk_day_r :: "int \<Rightarrow> real option"
  bk_day_cl :: "int \<Rightarrow> nat option"
  bk_g_cl :: nat

definition empty_book :: day_book where
  "empty_book = \<lparr>bk_day_r = (\<lambda>_. None), bk_day_cl = (\<lambda>_. None), bk_g_cl = 0\<rparr>"

definition day_r :: "day_book \<Rightarrow> int \<Rightarrow> real" where
  "day_r b d = (case bk_day_r b d of None \<Rightarrow> 0 | Some x \<Rightarrow> x)"

definition day_cl :: "day_book \<Rightarrow> int \<Rightarrow> nat" where
  "day_cl b d = (case bk_day_cl b d of None \<Rightarrow> 0 | Some n \<Rightarrow> n)"

definition book_pending :: "open_trade \<Rightarrow> day_book \<Rightarrow> day_book" where
  "book_pending p b =
     (case p of (_, r, res, d, mult) \<Rightarrow>
        if mult \<le> 0 then b
        else
          let b1 = b\<lparr>bk_day_r := (bk_day_r b)(d \<mapsto> day_r b d + r * mult)\<rparr> in
          case res of
            Loss \<Rightarrow> b1\<lparr>bk_day_cl := (bk_day_cl b1)(d \<mapsto> Suc (day_cl b1 d)), bk_g_cl := Suc (bk_g_cl b1)\<rparr>
          | Win \<Rightarrow> b1\<lparr>bk_day_cl := (bk_day_cl b1)(d \<mapsto> 0), bk_g_cl := 0\<rparr>
          | Even \<Rightarrow> b1)"

text \<open>\<open>while pending and pending[0][0] <= now: heappop\<close>; an entry begins with its closing time.\<close>

definition settle ::
  "(ms \<times> 'x::linorder \<Rightarrow> 'b \<Rightarrow> 'b) \<Rightarrow> ms \<Rightarrow> (ms \<times> 'x) list \<times> 'b \<Rightarrow> ((ms \<times> 'x) list \<times> 'b) option" where
  "settle book now =
     while_option (\<lambda>(q, b). q \<noteq> [] \<and> fst (heap_min q) \<le> now) (\<lambda>(q, b). (heap_pop q, book (heap_min q) b))"

type_synonym rule = "real \<Rightarrow> nat \<Rightarrow> nat \<Rightarrow> real"

text \<open>One trade: settle what has closed, ask the rule, put the trade on the heap.\<close>

definition sim_step ::
  "(ms \<times> 'x::linorder \<Rightarrow> 'b \<Rightarrow> 'b) \<Rightarrow> (trade \<Rightarrow> real \<Rightarrow> 'x) \<Rightarrow> ('b \<Rightarrow> int \<Rightarrow> real) \<Rightarrow> trade \<Rightarrow>
   (ms \<times> 'x) list \<times> 'b \<times> real list \<Rightarrow> ((ms \<times> 'x) list \<times> 'b \<times> real list) option" where
  "sim_step book details decide t st =
     (case st of (q, b, ms) \<Rightarrow>
        Option.bind (settle book (td_entry t) (q, b)) (\<lambda>(q1, b1).
          let mult = decide b1 (utc_day (td_entry t))
          in Some (heap_push (td_close t, details t mult) q1, b1, ms @ [mult])))"

fun sim_run ::
  "(ms \<times> 'x::linorder \<Rightarrow> 'b \<Rightarrow> 'b) \<Rightarrow> (trade \<Rightarrow> real \<Rightarrow> 'x) \<Rightarrow> ('b \<Rightarrow> int \<Rightarrow> real) \<Rightarrow> trade list \<Rightarrow>
   (ms \<times> 'x) list \<times> 'b \<times> real list \<Rightarrow> ((ms \<times> 'x) list \<times> 'b \<times> real list) option" where
  "sim_run book details decide [] st = Some st"
| "sim_run book details decide (t # ts) st =
     Option.bind (sim_step book details decide t st) (sim_run book details decide ts)"

text \<open>The multipliers of a rule, and of the equity filter, for the trades in order of entry.\<close>

definition rule_mults :: "rule \<Rightarrow> trade list \<Rightarrow> real list option" where
  "rule_mults rule ent =
     map_option (\<lambda>(q, b, ms). ms)
       (sim_run book_pending (\<lambda>t mult. (td_r t, td_res t, utc_day (td_entry t), mult))
          (\<lambda>b d. rule (day_r b d) (day_cl b d) (bk_g_cl b)) ent
          ([], empty_book, []))"

definition book_equity :: "ms \<times> real \<times> real \<Rightarrow> real \<times> real \<Rightarrow> real \<times> real" where
  "book_equity p b =
     (case (p, b) of ((_, r, mult), eq, peak) \<Rightarrow>
        let eq' = eq + r * mult in (eq', max peak eq'))"

definition equity_mults :: "real \<Rightarrow> real \<Rightarrow> trade list \<Rightarrow> real list option" where
  "equity_mults thresh half ent =
     map_option (\<lambda>(q, b, ms). ms)
       (sim_run book_equity (\<lambda>t mult. (td_r t, mult)) (\<lambda>(eq, peak) d. if thresh < peak - eq then half else 1) ent
          ([], (0, 0), []))"

section \<open>Outcome of a rule\<close>

definition month_of :: "ms \<Rightarrow> int" where
  "month_of t = (case civil_of_day (utc_day t) of (y, m, d) \<Rightarrow> y * 12 + (m - 1))"

definition sum_where :: "('a \<Rightarrow> bool) \<Rightarrow> ('a \<times> real) list \<Rightarrow> real" where
  "sum_where P xs = sum_list (map snd (filter (P \<circ> fst) xs))"

record rule_outcome =
  ro_total :: real
  ro_max_dd :: real
  ro_skipped :: nat
  ro_worst_day :: real
  ro_worst_month :: real

text \<open>The months without trades between the first and the last count as zero.\<close>

definition rule_outcome :: "trade list \<Rightarrow> real list \<Rightarrow> rule_outcome result" where
  "rule_outcome ent mults =
     (let taken = map2 (\<lambda>t m. td_r t * m) ent mults;
          days = map (utc_day \<circ> td_entry) ent; months = map (month_of \<circ> td_entry) ent
      in
      bindR (max_dd taken) (\<lambda>dd.
      Inr \<lparr>ro_total = sum_list taken, ro_max_dd = dd,
           ro_skipped = length (filter (\<lambda>m. m \<le> 0) mults),
           ro_worst_day = Min ((\<lambda>d. sum_where (\<lambda>x. x = d) (zip days taken)) ` set days),
           ro_worst_month = Min ((\<lambda>k. sum_where (\<lambda>x. x = k) (zip months taken)) `
             {Min (set months) .. Max (set months)})\<rparr>))"

definition RULES :: "(string \<times> rule) list" where
  "RULES =
     [(''baseline (no rule)'', \<lambda>r c g. 1),
      (''daily stop at -2R'', \<lambda>r c g. if r \<le> - 2 then 0 else 1),
      (''daily stop at -3R'', \<lambda>r c g. if r \<le> - 3 then 0 else 1),
      (''daily stop at -4R'', \<lambda>r c g. if r \<le> - 4 then 0 else 1),
      (''stop day after 3 consec losses'', \<lambda>r c g. if 3 \<le> c then 0 else 1),
      (''half risk after 2 consec losses'', \<lambda>r c g. if 2 \<le> g then 1 / 2 else 1),
      (''half risk after 3 consec losses'', \<lambda>r c g. if 3 \<le> g then 1 / 2 else 1)]"

text \<open>\<open>simulate\<close> on the data frame; \<open>None\<close> is a loop that does not end.\<close>

definition simulate_rule :: "frame_sort \<Rightarrow> rule \<Rightarrow> trade list \<Rightarrow> rule_outcome result option" where
  "simulate_rule srt rule ts =
     (let ent = srt td_entry ts in map_option (rule_outcome ent) (rule_mults rule ent))"

definition sim_eq_filter :: "frame_sort \<Rightarrow> real \<Rightarrow> real \<Rightarrow> trade list \<Rightarrow> (real \<times> real result) option" where
  "sim_eq_filter srt thresh half ts =
     (let ent = srt td_entry ts in
      map_option (\<lambda>mults. let taken = map2 (\<lambda>t m. td_r t * m) ent mults in (sum_list taken, max_dd taken))
        (equity_mults thresh half ent))"

end
