(* ===== verification/Summary.thy ===== *)
theory Summary
  imports Streaks "HOL-Library.AList" "HOL-Library.List_Lexorder" "HOL-Library.Char_ord"
begin

text \<open>
  app/backtesting/summarize_result.py: the figures of the report over the saved backtests of a
  folder. A file is its stem and its rows, a row the strings by column; \<open>float(s)\<close> is a parameter
  \<open>rd\<close>. Dates are written with all their digits, as the backtester writes them. The tables on
  the terminal and the page are left out.
\<close>

section \<open>Dates\<close>

definition digits_at :: "string \<Rightarrow> nat \<Rightarrow> nat \<Rightarrow> int option" where
  "digits_at s i n =
     (let t = slice s i (i + n) in
      if length t = n \<and> list_all is_digit t then Some (foldl (\<lambda>a c. a * 10 + digit_value c) 0 t) else None)"

definition char_is :: "string \<Rightarrow> nat \<Rightarrow> char \<Rightarrow> bool" where
  "char_is s i c \<longleftrightarrow> i < length s \<and> s ! i = c"

definition month_length :: "int \<Rightarrow> int \<Rightarrow> int" where
  "month_length y m =
     (if m = 2 then (if y mod 4 = 0 \<and> (y mod 100 \<noteq> 0 \<or> y mod 400 = 0) then 29 else 28)
      else if m \<in> {4, 6, 9, 11} then 30 else 31)"

definition day_of_civil :: "int \<Rightarrow> int \<Rightarrow> int \<Rightarrow> int" where
  "day_of_civil y0 m d =
     (let y = (if m \<le> 2 then y0 - 1 else y0);
          era = y div 400;
          yoe = y mod 400;
          doy = (153 * ((m + 9) mod 12) + 2) div 5 + d - 1;
          doe = yoe * 365 + yoe div 4 - yoe div 100 + doy
      in era * 146097 + doe - 719468)"

text \<open>\<open>strptime(s, "%Y-%m-%d")\<close> as a day number, \<open>strptime(s, "%Y-%m-%d %H:%M")\<close> in minutes.\<close>

definition date_at_start :: "string \<Rightarrow> int option" where
  "date_at_start s =
     (case (digits_at s 0 4, digits_at s 5 2, digits_at s 8 2) of
        (Some y, Some m, Some d) \<Rightarrow>
          if char_is s 4 CHR ''-'' \<and> char_is s 7 CHR ''-'' \<and> 1 \<le> y \<and> 1 \<le> m \<and> m \<le> 12 \<and>
            1 \<le> d \<and> d \<le> month_length y m
          then Some (day_of_civil y m d) else None
      | _ \<Rightarrow> None)"

definition parse_day :: "string \<Rightarrow> int option" where
  "parse_day s = (if length s = 10 then date_at_start s else None)"

definition parse_minute :: "string \<Rightarrow> int option" where
  "parse_minute s =
     (if length s = 16 \<and> char_is s 10 CHR '' '' \<and> char_is s 13 CHR '':'' then
        case (date_at_start s, digits_at s 11 2, digits_at s 14 2) of
          (Some day, Some h, Some m) \<Rightarrow>
            if h < 24 \<and> m < 60 then Some (day * 1440 + h * 60 + m) else None
        | _ \<Rightarrow> None
      else None)"

definition day_of_week :: "int \<Rightarrow> int" where
  "day_of_week day = (day + 3) mod 7"

definition iso_week :: "int \<Rightarrow> string" where
  "iso_week day =
     (let thursday = day - day_of_week day + 3; y = fst (civil_of_day thursday);
          week = (thursday - day_of_civil y 1 1) div 7 + 1
      in show_int y @ ''-W'' @ pad2 week)"

section \<open>Rows\<close>

type_synonym file_row = "string dict"

definition fld :: "file_row \<Rightarrow> string \<Rightarrow> string result" where
  "fld r k = (case map_of r k of None \<Rightarrow> Inl KeyError | Some v \<Rightarrow> Inr v)"

record srow =
  sr_row :: file_row
  sr_outcome :: string
  sr_rr :: real

text \<open>Every outcome is read before the first ratio.\<close>

definition read_rows :: "(string \<Rightarrow> real result) \<Rightarrow> file_row list \<Rightarrow> srow list result" where
  "read_rows rd raw =
     bindR (mapR (\<lambda>r. fld r ''outcome'') raw) (\<lambda>os.
     bindR (mapR (\<lambda>r. bindR (fld r ''realized_rr'') rd) raw) (\<lambda>rs.
     Inr (map2 (\<lambda>r (oc, x). \<lparr>sr_row = r, sr_outcome = oc, sr_rr = x\<rparr>) raw (zip os rs))))"

definition entry_dt :: "srow \<Rightarrow> string" where
  "entry_dt s = dict_get (sr_row s) ''entry_dt'' []"

definition is_win :: "srow \<Rightarrow> bool" where "is_win s \<longleftrightarrow> sr_outcome s = ''WIN_FULL''"
definition is_loss :: "srow \<Rightarrow> bool" where "is_loss s \<longleftrightarrow> sr_outcome s = ''LOSS''"
definition is_even :: "srow \<Rightarrow> bool" where "is_even s \<longleftrightarrow> sr_outcome s = ''BREAKEVEN''"

definition sum_rr :: "srow list \<Rightarrow> real" where
  "sum_rr rows = sum_list (map sr_rr rows)"

definition pct :: "nat \<Rightarrow> nat \<Rightarrow> real" where
  "pct n d = (if d = 0 then 0 else 100 * of_nat n / of_nat d)"

section \<open>Tallies\<close>

record tally =
  ta_w :: nat
  ta_l :: nat
  ta_b :: nat
  ta_r :: real
  ta_trades :: nat

definition empty_tally :: tally where
  "empty_tally = \<lparr>ta_w = 0, ta_l = 0, ta_b = 0, ta_r = 0, ta_trades = 0\<rparr>"

definition book_row :: "srow \<Rightarrow> tally \<Rightarrow> tally" where
  "book_row s t =
     (let t1 = (if is_win s then t\<lparr>ta_w := Suc (ta_w t)\<rparr>
                else if is_loss s then t\<lparr>ta_l := Suc (ta_l t)\<rparr>
                else t\<lparr>ta_b := Suc (ta_b t)\<rparr>)
      in t1\<lparr>ta_r := ta_r t1 + sr_rr s, ta_trades := Suc (ta_trades t1)\<rparr>)"

definition tally_at :: "('k \<times> tally) list \<Rightarrow> 'k \<Rightarrow> tally" where
  "tally_at m k = (case map_of m k of None \<Rightarrow> empty_tally | Some t \<Rightarrow> t)"

definition add_tally :: "(srow \<Rightarrow> 'k option) \<Rightarrow> srow \<Rightarrow> ('k \<times> tally) list \<Rightarrow> ('k \<times> tally) list" where
  "add_tally key s m = (case key s of None \<Rightarrow> m | Some k \<Rightarrow> AList.update k (book_row s (tally_at m k)) m)"

definition tally_by :: "(srow \<Rightarrow> 'k option) \<Rightarrow> srow list \<Rightarrow> ('k \<times> tally) list" where
  "tally_by key rows = fold (add_tally key) rows []"

definition tally_count :: "tally \<Rightarrow> nat" where
  "tally_count t = ta_w t + ta_l t + ta_b t"

record tally_view =
  tv_w :: nat
  tv_l :: nat
  tv_b :: nat
  tv_r :: real
  tv_trades :: nat
  tv_wr :: real
  tv_be_rate :: real
  tv_loss_rate :: real

definition view_tally :: "tally \<Rightarrow> tally_view" where
  "view_tally t =
     \<lparr>tv_w = ta_w t, tv_l = ta_l t, tv_b = ta_b t, tv_r = py_round 3 (ta_r t), tv_trades = ta_trades t,
      tv_wr = py_round 1 (pct (ta_w t) (tally_count t)), tv_be_rate = py_round 1 (pct (ta_b t) (tally_count t)),
      tv_loss_rate = py_round 1 (pct (ta_l t) (tally_count t))\<rparr>"

definition nonempty_key :: "string \<Rightarrow> string option" where
  "nonempty_key k = (if k = [] then None else Some k)"

definition hour_key :: "srow \<Rightarrow> int option" where
  "hour_key s = (case py_int (slice (entry_dt s) 11 13) of Inl e \<Rightarrow> None | Inr h \<Rightarrow> Some h)"

definition pattern_key :: "srow \<Rightarrow> string option" where
  "pattern_key s = Some (str_or (dict_get (sr_row s) ''pattern'' ''UNKNOWN'') ''UNKNOWN'')"

definition dow_key :: "srow \<Rightarrow> int option" where
  "dow_key s = map_option day_of_week (parse_day (take 10 (entry_dt s)))"

definition month_key :: "srow \<Rightarrow> string option" where
  "month_key s = nonempty_key (take 7 (entry_dt s))"

definition date_key :: "srow \<Rightarrow> string option" where
  "date_key s = nonempty_key (take 10 (entry_dt s))"

definition week_key :: "srow \<Rightarrow> string option" where
  "week_key s = map_option iso_week (parse_day (take 10 (entry_dt s)))"

text \<open>The hours with at least two trades, best first.\<close>

definition scored_hours :: "srow list \<Rightarrow> (int \<times> tally) list" where
  "scored_hours rows =
     sort_desc (\<lambda>(h, t). ta_r t) (filter (\<lambda>(h, t). 2 \<le> tally_count t) (tally_by hour_key rows))"

definition month_score :: "tally \<Rightarrow> nat \<Rightarrow> int" where
  "month_score t n =
     (if n = 0 then 0
      else
        let cl = tally_count t;
            wr_s = (if cl = 0 then 0
              else min 40 (max 0 ((of_nat (ta_w t) / of_nat cl * 100 - 30) / 40 * 40)));
            exp_s = (if ta_trades t = 0 then 0
              else min 40 (max 0 ((ta_r t / of_nat (ta_trades t) + 0.3) / 1.3 * 40)));
            dd_s = (if 0 \<le> ta_r t then 20 else max 0 (20 + ta_r t * 4))
        in round_half_even (wr_s + exp_s + dd_s))"

section \<open>Equity, drawdown, streaks\<close>

fun dd_loop :: "real \<Rightarrow> real \<Rightarrow> real list \<Rightarrow> real" where
  "dd_loop peak dd [] = dd"
| "dd_loop peak dd (v # vs) =
     (let p = (if peak < v then v else peak); d = p - v in dd_loop p (if dd < d then d else dd) vs)"

definition rounded_equity :: "real list \<Rightarrow> real list" where
  "rounded_equity rs = map (py_round 3) (cumsum 0 rs)"

definition report_dd :: "real list \<Rightarrow> real" where
  "report_dd eq = (case eq of [] \<Rightarrow> 0 | e # es \<Rightarrow> dd_loop e (max 0 (e - e)) eq)"

fun dollar_dd :: "real \<Rightarrow> real \<Rightarrow> real \<Rightarrow> real list \<Rightarrow> real \<times> real" where
  "dollar_dd peak dd dd_pct [] = (dd, dd_pct)"
| "dollar_dd peak dd dd_pct (v # vs) =
     (let p = (if peak < v then v else peak); d = p - v;
          q = (if 0 < p then d / p * 100 else 0)
      in dollar_dd p (if dd < d then d else dd) (if dd_pct < q then q else dd_pct) vs)"

record dollar_stats =
  ds_start :: real
  ds_final :: real
  ds_net_pnl :: real
  ds_net_pnl_pct :: real
  ds_max_dd :: real
  ds_max_dd_pct :: real
  ds_equity :: "real list"
  ds_gross_profit :: real
  ds_gross_loss :: real
  ds_pf :: "real option"

text \<open>A missing column is the number of the default, not its text.\<close>

definition fget_float :: "(string \<Rightarrow> real result) \<Rightarrow> file_row \<Rightarrow> string \<Rightarrow> real \<Rightarrow> real result" where
  "fget_float rd r k d = (case map_of r k of None \<Rightarrow> Inr d | Some v \<Rightarrow> rd v)"

definition dollar_account :: "(string \<Rightarrow> real result) \<Rightarrow> file_row list \<Rightarrow> dollar_stats option result" where
  "dollar_account rd raw =
     (case raw of
        [] \<Rightarrow> Inr None
      | first # _ \<Rightarrow>
          if map_of first ''balance_after'' = None then Inr None
          else
            bindR (mapR (\<lambda>r. bindR (fld r ''balance_after'') rd) raw) (\<lambda>bal.
            bindR (fget_float rd first ''balance_before'' 5000) (\<lambda>start.
            bindR (mapR (\<lambda>r. fget_float rd r ''pnl'' 0) raw) (\<lambda>pnls.
            let final = (if bal = [] then start else last bal); net = final - start;
                net_pct = (if 0 < start then net / start * 100 else 0);
                equity = start # bal; (dd, dd_pct) = dollar_dd start 0 0 equity;
                profit = sum_list (filter (\<lambda>p. 0 < p) pnls);
                loss = \<bar>sum_list (filter (\<lambda>p. p < 0) pnls)\<bar>
            in Inr (Some \<lparr>ds_start = py_round 2 start, ds_final = py_round 2 final,
                 ds_net_pnl = py_round 2 net, ds_net_pnl_pct = py_round 4 net_pct,
                 ds_max_dd = py_round 2 dd, ds_max_dd_pct = py_round 4 dd_pct,
                 ds_equity = map (py_round 2) equity, ds_gross_profit = py_round 2 profit,
                 ds_gross_loss = py_round 2 loss,
                 ds_pf = (if 0 < loss then Some (py_round 4 (profit / loss)) else None)\<rparr>)))))"

text \<open>The longest runs of wins and of losses; anything else ends both.\<close>

fun run_lengths :: "nat \<times> nat \<Rightarrow> nat \<times> nat \<Rightarrow> srow list \<Rightarrow> nat \<times> nat" where
  "run_lengths cur best [] = best"
| "run_lengths (w, l) (mw, ml) (s # rows) =
     (let cur = (if is_win s then (Suc w, 0) else if is_loss s then (0, Suc l) else (0, 0))
      in run_lengths cur (max mw (fst cur), max ml (snd cur)) rows)"

record rolling =
  ro_wr :: real
  ro_be_rate :: real
  ro_loss_rate :: real
  ro_exp :: real
  ro_trades :: nat

definition rolling_stats :: "srow list \<Rightarrow> nat \<Rightarrow> rolling" where
  "rolling_stats rows n =
     (let t = last_slice rows (int n) in
      if t = [] then \<lparr>ro_wr = 0, ro_be_rate = 0, ro_loss_rate = 0, ro_exp = 0, ro_trades = 0\<rparr>
      else
        let w = length (filter is_win t); b = length (filter is_even t); l = length (filter is_loss t);
            cl = w + b + l
        in \<lparr>ro_wr = py_round 1 (pct w cl), ro_be_rate = py_round 1 (pct b cl),
            ro_loss_rate = py_round 1 (pct l cl), ro_exp = py_round 3 (sum_rr t / of_nat (length t)),
            ro_trades = length t\<rparr>)"

section \<open>Partial closes, holding times, buckets\<close>

definition tp1_hit :: "srow \<Rightarrow> bool" where
  "tp1_hit s \<longleftrightarrow> 0 < sr_rr s \<and> \<not> is_even s"

definition retraced :: "srow \<Rightarrow> bool" where
  "retraced s \<longleftrightarrow> dict_get (sr_row s) ''hit_entry_after_tp1'' ''False'' = ''True''"

record partial_stats =
  ps_tp1_hits :: nat
  ps_retraces :: nat
  ps_rate :: real

definition partial_close_stats :: "srow list \<Rightarrow> partial_stats" where
  "partial_close_stats rows =
     (let hits = length (filter tp1_hit rows); back = length (filter retraced rows) in
      \<lparr>ps_tp1_hits = hits, ps_retraces = back,
       ps_rate = (if hits = 0 then 0 else py_round 1 (100 * of_nat back / of_nat hits))\<rparr>)"

definition hold_minutes :: "file_row \<Rightarrow> int option" where
  "hold_minutes r =
     (case (map_of r ''entry_dt'', map_of r ''close_dt'') of
        (Some e, Some c) \<Rightarrow>
          (case (parse_minute (take 16 e), parse_minute (take 16 c)) of
             (Some a, Some b) \<Rightarrow> Some (b - a) | _ \<Rightarrow> None)
      | _ \<Rightarrow> None)"

definition hold_times :: "(srow \<Rightarrow> bool) \<Rightarrow> srow list \<Rightarrow> int list" where
  "hold_times P rows = List.map_filter (\<lambda>s. hold_minutes (sr_row s)) (filter P rows)"

definition avg_hold :: "int list \<Rightarrow> real" where
  "avg_hold xs = py_round 1 (of_int (sum_list xs) / of_nat (max (length xs) 1))"

definition other_outcome :: "srow \<Rightarrow> bool" where
  "other_outcome s \<longleftrightarrow> \<not> is_win s \<and> \<not> is_loss s"

datatype rr_bucket = Below_m1 | At_m1 | At_0 | From_1_to_2 | From_2_to_3 | Above_3

definition rr_bucket :: "real \<Rightarrow> rr_bucket" where
  "rr_bucket v =
     (if v < - 1 then Below_m1 else if v = - 1 then At_m1 else if v = 0 then At_0
      else if v \<le> 2 then From_1_to_2 else if v \<le> 3 then From_2_to_3 else Above_3)"

definition rr_buckets :: "real list \<Rightarrow> rr_bucket \<Rightarrow> nat" where
  "rr_buckets rs b = length (filter (\<lambda>v. rr_bucket v = b) rs)"

definition retrace_rate :: "srow list \<Rightarrow> string \<Rightarrow> real" where
  "retrace_rate rows pat =
     (let hits = filter tp1_hit (filter (\<lambda>s. pattern_key s = Some pat) rows) in
      py_round 1 (100 * of_nat (length (filter retraced hits)) / of_nat (max (length hits) 1)))"

text \<open>The longest losing streak to expect of independent trades.\<close>

definition expected_max_loss_streak :: "nat \<Rightarrow> nat \<Rightarrow> nat \<Rightarrow> int" where
  "expected_max_loss_streak wins n_closed n =
     (let wr = (if n_closed = 0 then 0.5 else of_nat wins / of_nat n_closed); lf = 1 - wr :: real in
      if 0 < lf \<and> lf < 1 \<and> 0 < n then round_half_even (ln (of_nat n) / (- ln lf)) else 0)"

section \<open>A pair\<close>

record pair_stats =
  pa_pair :: string
  pa_symbol :: string
  pa_htf :: string
  pa_ltf :: string
  pa_trades :: nat
  pa_wins :: nat
  pa_losses :: nat
  pa_bes :: nat
  pa_closed :: nat
  pa_wr :: real
  pa_be_rate :: real
  pa_loss_rate :: real
  pa_total_r :: real
  pa_exp :: real
  pa_pf :: "real option"
  pa_max_dd :: real
  pa_win_streak :: nat
  pa_loss_streak :: nat
  pa_expected_streak :: int
  pa_streak_alert :: bool
  pa_best_rr :: real
  pa_worst_rr :: real
  pa_equity :: "real list"
  pa_partial :: partial_stats
  pa_hours :: "(int \<times> tally) list"
  pa_best_hours :: "(int \<times> tally) list"
  pa_worst_hours :: "(int \<times> tally) list"
  pa_monthly :: "(string \<times> tally_view \<times> int) list"
  pa_daily :: "(string \<times> real \<times> nat \<times> nat \<times> nat) list"
  pa_long_trades :: nat
  pa_short_trades :: nat
  pa_long_wins :: nat
  pa_short_wins :: nat
  pa_long_r :: real
  pa_short_r :: real
  pa_long_wr :: real
  pa_short_wr :: real
  pa_patterns :: "(string \<times> tally_view \<times> real) list"
  pa_dow :: "(int \<times> tally_view) list"
  pa_buckets :: "rr_bucket \<Rightarrow> nat"
  pa_avg_hold :: real
  pa_avg_win_hold :: real
  pa_avg_loss_hold :: real
  pa_avg_be_hold :: real
  pa_rolling :: "rolling list"
  pa_raw :: "srow list"
  pa_dollar :: "dollar_stats option"

definition pair_label :: "string \<Rightarrow> string \<times> string \<Rightarrow> string" where
  "pair_label stem tf =
     stem @ (if fst tf = [] then [] else '' ['' @ fst tf @ ''/'' @ snd tf @ '']'')"

definition sort_by_key :: "('k::linorder \<times> 'v) list \<Rightarrow> ('k \<times> 'v) list" where
  "sort_by_key m = sort_key fst m"

text \<open>
  The statistics of a group of rows, which is not empty. Of the copy of the rows that goes to the
  page, the outcomes and the ratios.
\<close>

definition stats_of_pair ::
  "(string \<Rightarrow> real result) \<Rightarrow> string \<Rightarrow> string \<times> string \<Rightarrow> file_row list \<Rightarrow> pair_stats result" where
  "stats_of_pair rd stem tf raw =
     bindR (read_rows rd raw) (\<lambda>rows.
     bindR (dollar_account rd raw) (\<lambda>dollar.
     bindR (mapR (\<lambda>r. fld r ''direction'') raw) (\<lambda>dirs.
     let n = length rows; wins = filter is_win rows; losses = filter is_loss rows; bes = filter is_even rows;
         n_closed = length wins + length losses + length bes;
         rrs = map sr_rr rows; sum_r = sum_rr rows;
         pf_num = sum_rr wins + sum_rr bes; pf_den = \<bar>sum_rr losses\<bar>;
         equity = rounded_equity rrs;
         (win_streak, loss_streak) = run_lengths (0, 0) (0, 0) rows;
         expected = expected_max_loss_streak (length wins) n_closed n;
         longs = map snd (filter (\<lambda>(d, s). d = ''LONG'') (zip dirs rows));
         shorts = map snd (filter (\<lambda>(d, s). d = ''SHORT'') (zip dirs rows));
         hours = scored_hours rows;
         whole = \<lparr>ro_wr = py_round 1 (pct (length wins) n_closed), ro_be_rate = py_round 1 (pct (length bes) n_closed),
           ro_loss_rate = py_round 1 (pct (length losses) n_closed), ro_exp = py_round 3 (sum_r / of_nat n),
           ro_trades = n\<rparr>
     in Inr
      \<lparr>pa_pair = pair_label stem tf, pa_symbol = stem, pa_htf = fst tf, pa_ltf = snd tf, pa_trades = n,
       pa_wins = length wins, pa_losses = length losses, pa_bes = length bes, pa_closed = n_closed,
       pa_wr = pct (length wins) n_closed, pa_be_rate = pct (length bes) n_closed,
       pa_loss_rate = pct (length losses) n_closed, pa_total_r = sum_r, pa_exp = sum_r / of_nat n,
       pa_pf = (if pf_den = 0 then None else Some (py_round 3 (pf_num / pf_den))),
       pa_max_dd = report_dd equity, pa_win_streak = win_streak, pa_loss_streak = loss_streak,
       pa_expected_streak = expected, pa_streak_alert = (expected * 2 < int loss_streak),
       pa_best_rr = foldr max rrs (hd rrs), pa_worst_rr = foldr min rrs (hd rrs),
       pa_equity = equity, pa_partial = partial_close_stats rows, pa_hours = tally_by hour_key rows,
       pa_best_hours = take 3 hours, pa_worst_hours = rev (last_slice hours 3),
       pa_monthly = map (\<lambda>(k, t). (k, view_tally t, month_score t n)) (sort_by_key (tally_by month_key rows)),
       pa_daily = map (\<lambda>(k, t). (k, py_round 3 (ta_r t), ta_w t, ta_l t, ta_b t)) (sort_by_key (tally_by date_key rows)),
       pa_long_trades = length longs, pa_short_trades = length shorts,
       pa_long_wins = length (filter is_win longs), pa_short_wins = length (filter is_win shorts),
       pa_long_r = py_round 3 (sum_rr longs), pa_short_r = py_round 3 (sum_rr shorts),
       pa_long_wr = py_round 1 (pct (length (filter is_win longs)) (length longs)),
       pa_short_wr = py_round 1 (pct (length (filter is_win shorts)) (length shorts)),
       pa_patterns = map (\<lambda>(k, t). (k, view_tally t, retrace_rate rows k))
         (sort_desc (\<lambda>(k, t). ta_r t) (tally_by pattern_key rows)),
       pa_dow = map (\<lambda>(k, t). (k, view_tally t)) (sort_by_key (tally_by dow_key rows)),
       pa_buckets = rr_buckets rrs,
       pa_avg_hold = avg_hold (hold_times is_win rows @ hold_times is_loss rows @ hold_times other_outcome rows),
       pa_avg_win_hold = avg_hold (hold_times is_win rows),
       pa_avg_loss_hold = avg_hold (hold_times is_loss rows),
       pa_avg_be_hold = avg_hold (hold_times other_outcome rows),
       pa_rolling = [rolling_stats rows 10, rolling_stats rows 20, rolling_stats rows 50, whole],
       pa_raw = rows, pa_dollar = dollar\<rparr>)))"

section \<open>The files\<close>

text \<open>A file that cannot be read, or has no rows, is passed over.\<close>

type_synonym csv_file = "string \<times> file_row list option"

definition tf_of_row :: "file_row \<Rightarrow> string \<times> string" where
  "tf_of_row r = (dict_get r ''htf_interval'' [], dict_get r ''ltf_interval'' [])"

definition add_to_group :: "file_row \<Rightarrow> ((string \<times> string) \<times> file_row list) list \<Rightarrow> ((string \<times> string) \<times> file_row list) list" where
  "add_to_group r m =
     AList.update (tf_of_row r) ((case map_of m (tf_of_row r) of None \<Rightarrow> [] | Some rs \<Rightarrow> rs) @ [r]) m"

definition tf_groups :: "file_row list \<Rightarrow> ((string \<times> string) \<times> file_row list) list" where
  "tf_groups raw =
     (case raw of
        [] \<Rightarrow> []
      | first # _ \<Rightarrow>
          if map_of first ''htf_interval'' = None then [(([], []), raw)] else fold add_to_group raw [])"

definition file_stats :: "(string \<Rightarrow> real result) \<Rightarrow> csv_file \<Rightarrow> pair_stats list result" where
  "file_stats rd f =
     (case snd f of
        None \<Rightarrow> Inr []
      | Some raw \<Rightarrow> mapR (\<lambda>(tf, rows). stats_of_pair rd (fst f) tf rows) (tf_groups raw))"

datatype sort_by = By_Pair | By_R | By_WR | By_Trades | By_PF | By_Exp

definition sort_pairs :: "sort_by \<Rightarrow> pair_stats list \<Rightarrow> pair_stats list" where
  "sort_pairs order ps =
     (case order of
        By_Pair \<Rightarrow> sort_key pa_pair ps
      | By_R \<Rightarrow> sort_desc pa_total_r ps
      | By_WR \<Rightarrow> sort_desc pa_wr ps
      | By_Trades \<Rightarrow> sort_desc pa_trades ps
      | By_PF \<Rightarrow> sort_desc (\<lambda>p. case pa_pf p of None \<Rightarrow> 9999 | Some x \<Rightarrow> x) ps
      | By_Exp \<Rightarrow> sort_desc pa_exp ps)"

definition all_pairs :: "(string \<Rightarrow> real result) \<Rightarrow> sort_by \<Rightarrow> csv_file list \<Rightarrow> pair_stats list result" where
  "all_pairs rd order fs = bindR (mapR (file_stats rd) fs) (\<lambda>pss. Inr (sort_pairs order (concat pss)))"

section \<open>All pairs together\<close>

record day_line =
  dl_pair :: string
  dl_dir :: string
  dl_outcome :: string
  dl_rr :: real
  dl_pnl :: real
  dl_entry :: string

record combined =
  cb_monthly :: "(string \<times> tally) list"
  cb_daily :: "(string \<times> tally) list"
  cb_day_pnl :: "string \<Rightarrow> real"
  cb_day_lines :: "string \<Rightarrow> day_line list"
  cb_tf :: "(string \<times> tally) list"
  cb_flat :: "srow list"

definition empty_combined :: combined where
  "empty_combined =
     \<lparr>cb_monthly = [], cb_daily = [], cb_day_pnl = (\<lambda>_. 0), cb_day_lines = (\<lambda>_. []), cb_tf = [], cb_flat = []\<rparr>"

definition tf_pair_key :: "string \<Rightarrow> srow \<Rightarrow> string option" where
  "tf_pair_key stem s =
     (case tf_of_row (sr_row s) of (htf, ltf) \<Rightarrow> Some (if htf = [] then stem else htf @ ''/'' @ ltf))"

definition row_pnl :: "(string \<Rightarrow> real result) \<Rightarrow> file_row \<Rightarrow> real result" where
  "row_pnl rd r = (let v = dict_get r ''pnl'' [] in if v = [] then Inr 0 else rd v)"

definition row_line :: "string \<Rightarrow> srow \<Rightarrow> real \<Rightarrow> day_line" where
  "row_line stem s x =
     \<lparr>dl_pair = pair_label stem (tf_of_row (sr_row s)), dl_dir = dict_get (sr_row s) ''direction'' [],
      dl_outcome = sr_outcome s, dl_rr = py_round 3 (sr_rr s), dl_pnl = py_round 2 x,
      dl_entry = slice (entry_dt s) 11 16\<rparr>"

text \<open>
  A row of a file whose rows the statistics have read. A profit that is no number stops the file
  there, the ratio of the row being already booked on its day, without its outcome.
\<close>

definition add_combined :: "(string \<Rightarrow> real result) \<Rightarrow> string \<Rightarrow> srow \<Rightarrow> combined \<Rightarrow> bool \<times> combined" where
  "add_combined rd stem s c =
     (let c1 = c\<lparr>cb_flat := cb_flat c @ [s], cb_monthly := add_tally month_key s (cb_monthly c)\<rparr>;
          finish = (\<lambda>c2. (True, c2\<lparr>cb_tf := add_tally (tf_pair_key stem) s (cb_tf c2)\<rparr>))
      in case date_key s of
           None \<Rightarrow> finish c1
         | Some d \<Rightarrow>
             (case row_pnl rd (sr_row s) of
                Inl e \<Rightarrow>
                  (False, c1\<lparr>cb_daily :=
                     (let t = tally_at (cb_daily c1) d in AList.update d (t\<lparr>ta_r := ta_r t + sr_rr s\<rparr>) (cb_daily c1))\<rparr>)
              | Inr x \<Rightarrow>
                  finish (c1\<lparr>cb_daily := add_tally date_key s (cb_daily c1),
                    cb_day_pnl := (cb_day_pnl c1)(d := cb_day_pnl c1 d + x),
                    cb_day_lines := (cb_day_lines c1)(d := cb_day_lines c1 d @ [row_line stem s x])\<rparr>)))"

fun add_rows :: "(string \<Rightarrow> real result) \<Rightarrow> string \<Rightarrow> srow list \<Rightarrow> combined \<Rightarrow> combined" where
  "add_rows rd stem [] c = c"
| "add_rows rd stem (s # rows) c =
     (case add_combined rd stem s c of (True, c') \<Rightarrow> add_rows rd stem rows c' | (False, c') \<Rightarrow> c')"

definition combine :: "(string \<Rightarrow> real result) \<Rightarrow> (string \<times> srow list) list \<Rightarrow> combined" where
  "combine rd fs = fold (\<lambda>(stem, rows). add_rows rd stem rows) fs empty_combined"

definition all_flat :: "combined \<Rightarrow> srow list" where
  "all_flat c = sort_key entry_dt (cb_flat c)"

definition combined_equity :: "combined \<Rightarrow> real list" where
  "combined_equity c = rounded_equity (map sr_rr (all_flat c))"

definition grand_max_dd :: "combined \<Rightarrow> real" where
  "grand_max_dd c = py_round 3 (case combined_equity c of [] \<Rightarrow> 0 | e # es \<Rightarrow> dd_loop e 0 (e # es))"

text \<open>The months, or the weeks, in their order with the running total.\<close>

definition cumulative :: "(string \<times> tally) list \<Rightarrow> (string \<times> tally_view \<times> real) list" where
  "cumulative m =
     (let kts = sort_by_key m in
      map2 (\<lambda>(k, t) x. (k, view_tally t, py_round 3 x)) kts (cumsum 0 (map (ta_r \<circ> snd) kts)))"

definition monthly_cumulative :: "combined \<Rightarrow> (string \<times> tally_view \<times> real) list" where
  "monthly_cumulative c = cumulative (cb_monthly c)"

definition weekly_cumulative :: "combined \<Rightarrow> (string \<times> tally_view \<times> real) list" where
  "weekly_cumulative c = cumulative (tally_by week_key (all_flat c))"

section \<open>Days in common\<close>

type_synonym day_outcomes = "(string \<times> string list) list"

definition add_outcome :: "string \<times> string \<Rightarrow> day_outcomes \<Rightarrow> day_outcomes" where
  "add_outcome x m =
     AList.update (fst x) ((case map_of m (fst x) of None \<Rightarrow> [] | Some os \<Rightarrow> os) @ [snd x]) m"

definition add_corr :: "string \<Rightarrow> srow \<Rightarrow> (string \<times> day_outcomes) list \<Rightarrow> (string \<times> day_outcomes) list" where
  "add_corr stem s m =
     (case date_key s of
        None \<Rightarrow> m
      | Some d \<Rightarrow>
          AList.update d (add_outcome (pair_label stem (tf_of_row (sr_row s)), sr_outcome s)
            (case map_of m d of None \<Rightarrow> [] | Some os \<Rightarrow> os)) m)"

definition corr_days :: "(string \<times> srow list) list \<Rightarrow> (string \<times> day_outcomes) list" where
  "corr_days fs = fold (\<lambda>(stem, rows). fold (add_corr stem) rows) fs []"

text \<open>\<open>{p: i for i, p in enumerate(pairs)}\<close>\<close>

definition pair_index :: "string list \<Rightarrow> string \<Rightarrow> nat option" where
  "pair_index ps p = map_of (rev (zip ps [0..<length ps])) p"

type_synonym matrix = "nat \<Rightarrow> nat \<Rightarrow> nat"

definition bump_both :: "nat \<Rightarrow> nat \<Rightarrow> matrix \<Rightarrow> matrix" where
  "bump_both i j m =
     (let m1 = m(i := (m i)(j := Suc (m i j))) in m1(j := (m1 j)(i := Suc (m1 j i))))"

record corr_state =
  co_days :: matrix
  co_loss :: matrix
  co_win :: matrix

definition count_couple ::
  "string list \<Rightarrow> (string \<times> string list) \<times> (string \<times> string list) \<Rightarrow> corr_state \<Rightarrow> corr_state" where
  "count_couple ps x c =
     (case x of ((p1, o1), (p2, o2)) \<Rightarrow>
        case (pair_index ps p1, pair_index ps p2) of
          (Some i, Some j) \<Rightarrow>
            let c1 = c\<lparr>co_days := bump_both i j (co_days c)\<rparr>;
                c2 = (if ''LOSS'' \<in> set o1 \<and> ''LOSS'' \<in> set o2 then c1\<lparr>co_loss := bump_both i j (co_loss c1)\<rparr> else c1)
            in (if ''WIN_FULL'' \<in> set o1 \<and> ''WIN_FULL'' \<in> set o2 then c2\<lparr>co_win := bump_both i j (co_win c2)\<rparr> else c2)
        | _ \<Rightarrow> c)"

fun couples :: "'a list \<Rightarrow> ('a \<times> 'a) list" where
  "couples [] = []"
| "couples (x # xs) = map (Pair x) xs @ couples xs"

definition corr_counts :: "string list \<Rightarrow> (string \<times> day_outcomes) list \<Rightarrow> corr_state" where
  "corr_counts ps days =
     fold (\<lambda>(d, os). fold (count_couple ps) (couples os)) days
       \<lparr>co_days = (\<lambda>_ _. 0), co_loss = (\<lambda>_ _. 0), co_win = (\<lambda>_ _. 0)\<rparr>"

record corr_cell =
  cc_days :: nat
  cc_loss :: nat
  cc_win :: nat
  cc_loss_pct :: "real option"
  cc_win_pct :: "real option"

definition share_of :: "nat \<Rightarrow> nat \<Rightarrow> real option" where
  "share_of n d = (if d = 0 then None else Some (py_round 0 (of_nat n / of_nat d * 100)))"

definition corr_cell :: "corr_state \<Rightarrow> nat \<Rightarrow> nat \<Rightarrow> corr_cell" where
  "corr_cell c i j =
     (if i = j then \<lparr>cc_days = 0, cc_loss = 0, cc_win = 0, cc_loss_pct = None, cc_win_pct = None\<rparr>
      else \<lparr>cc_days = co_days c i j, cc_loss = co_loss c i j, cc_win = co_win c i j,
            cc_loss_pct = share_of (co_loss c i j) (co_days c i j),
            cc_win_pct = share_of (co_win c i j) (co_days c i j)\<rparr>)"

definition corr_matrix :: "string list \<Rightarrow> (string \<times> srow list) list \<Rightarrow> corr_cell list list" where
  "corr_matrix ps fs =
     (let c = corr_counts ps (corr_days fs); n = length ps in
      map (\<lambda>i. map (corr_cell c i) [0..<n]) [0..<n])"

section \<open>Totals\<close>

record grand =
  gr_trades :: nat
  gr_wins :: nat
  gr_losses :: nat
  gr_bes :: nat
  gr_r :: real
  gr_wr :: real
  gr_be_rate :: real
  gr_loss_rate :: real
  gr_exp :: real
  gr_retrace_rate :: real
  gr_avg_win :: real
  gr_avg_loss :: real
  gr_pf :: "real option"

text \<open>Losses without a loss in R make the profit factor a division by zero.\<close>

definition grand_totals :: "pair_stats list \<Rightarrow> grand result" where
  "grand_totals ps =
     (let trades = sum_list (map pa_trades ps); wins = sum_list (map pa_wins ps);
          losses = sum_list (map pa_losses ps); bes = sum_list (map pa_bes ps);
          r = sum_list (map pa_total_r ps); n_closed = wins + losses + bes;
          hits = sum_list (map (ps_tp1_hits \<circ> pa_partial) ps);
          back = sum_list (map (ps_retraces \<circ> pa_partial) ps);
          rows = concat (map pa_raw ps);
          win_rr = map sr_rr (filter is_win rows); loss_rr = map (\<lambda>s. \<bar>sr_rr s\<bar>) (filter is_loss rows)
      in
      bindR (if loss_rr = [] then Inr None
             else if sum_list loss_rr = 0 then Inl ZeroDivisionError
             else Inr (Some (py_round 3 (sum_list win_rr / sum_list loss_rr)))) (\<lambda>pf.
      Inr \<lparr>gr_trades = trades, gr_wins = wins, gr_losses = losses, gr_bes = bes, gr_r = r,
           gr_wr = pct wins n_closed, gr_be_rate = pct bes n_closed, gr_loss_rate = pct losses n_closed,
           gr_exp = (if trades = 0 then 0 else r / of_nat trades),
           gr_retrace_rate = py_round 1 (100 * of_nat back / of_nat (max hits 1)),
           gr_avg_win = (if win_rr = [] then 1.5 else py_round 3 (sum_list win_rr / of_nat (length win_rr))),
           gr_avg_loss = (if loss_rr = [] then 1 else py_round 3 (sum_list loss_rr / of_nat (length loss_rr))),
           gr_pf = pf\<rparr>))"

definition grand_dollars :: "pair_stats list \<Rightarrow> (real \<times> real \<times> real) option" where
  "grand_dollars ps =
     (case List.map_filter pa_dollar ps of
        [] \<Rightarrow> None
      | d # ds \<Rightarrow>
          Some (sum_list (map ds_net_pnl (d # ds)), foldr max (map ds_max_dd ds) (ds_max_dd d),
            foldr max (map ds_max_dd_pct ds) (ds_max_dd_pct d)))"

end
