(* ===== verification/Streaks_Laws.thy ===== *)
theory Streaks_Laws
  imports Streaks "HOL-Library.Multiset"
begin

text \<open>
  Laws of the streak analysis: the two counts of losing runs agree, the drawdown forgets the
  first trade, and the simulation of a mitigation rule returns and decides on trades that had
  closed.
\<close>

section \<open>Losing runs\<close>

lemma positions_Cons:
  "positions P (x # y # zs) = (if P (x, y) then [0] else []) @ map Suc (positions P (y # zs))"
proof -
  have u: "[0..<length (x # y # zs) - 1] = 0 # map Suc [0..<length (y # zs) - 1]"
    by (simp only: map_Suc_upt) (simp add: upt_conv_Cons del: upt_Suc)
  show ?thesis unfolding positions_def u by (simp add: filter_map comp_def)
qed

abbreviation rises :: "bool list \<Rightarrow> nat list" where
  "rises \<equiv> positions (\<lambda>(x, y). \<not> x \<and> y)"

abbreviation falls :: "bool list \<Rightarrow> nat list" where
  "falls \<equiv> positions (\<lambda>(x, y). x \<and> \<not> y)"

lemma map2_shift: "map2 (-) (map Suc xs) (map Suc ys) = map2 (-) xs ys"
  by (induction xs ys rule: list_induct2') auto

lemma loss_flags_Cons: "loss_flags (r # rs) = (r = Loss) # loss_flags rs"
  by (simp add: loss_flags_def)

text \<open>Outside a run the edges pair up; inside one, the first fall ends it.\<close>

lemma edges_are_streaks:
  "length (falls (False # loss_flags rs @ [False])) = length (rises (False # loss_flags rs @ [False])) \<and>
   map2 (-) (falls (False # loss_flags rs @ [False])) (rises (False # loss_flags rs @ [False])) =
     loss_streaks 0 rs"
  "\<exists>e es. falls (True # loss_flags rs @ [False]) = e # es \<and>
     length es = length (rises (True # loss_flags rs @ [False])) \<and>
     (\<forall>n. loss_streaks (Suc n) rs =
       (e + Suc n) # map2 (-) es (rises (True # loss_flags rs @ [False])))"
proof (induction rs)
  case Nil
  show "length (falls (False # loss_flags [] @ [False])) = length (rises (False # loss_flags [] @ [False])) \<and>
     map2 (-) (falls (False # loss_flags [] @ [False])) (rises (False # loss_flags [] @ [False])) =
     loss_streaks 0 []"
    by (simp add: loss_flags_def positions_def emit_streak_def)
  show "\<exists>e es. falls (True # loss_flags [] @ [False]) = e # es \<and>
     length es = length (rises (True # loss_flags [] @ [False])) \<and>
     (\<forall>n. loss_streaks (Suc n) [] = (e + Suc n) # map2 (-) es (rises (True # loss_flags [] @ [False])))"
    by (simp add: loss_flags_def positions_def emit_streak_def)
next
  case (Cons r rs)
  obtain e es where inside: "falls (True # loss_flags rs @ [False]) = e # es"
    "length es = length (rises (True # loss_flags rs @ [False]))"
    "\<And>n. loss_streaks (Suc n) rs = (e + Suc n) # map2 (-) es (rises (True # loss_flags rs @ [False]))"
    using Cons(2) by blast
  note step = loss_flags_Cons append_Cons positions_Cons
  show "length (falls (False # loss_flags (r # rs) @ [False])) = length (rises (False # loss_flags (r # rs) @ [False])) \<and>
     map2 (-) (falls (False # loss_flags (r # rs) @ [False])) (rises (False # loss_flags (r # rs) @ [False])) =
     loss_streaks 0 (r # rs)"
    using Cons(1) inside by (cases "r = Loss") (simp_all add: step map2_shift emit_streak_def)
  show "\<exists>e es. falls (True # loss_flags (r # rs) @ [False]) = e # es \<and>
     length es = length (rises (True # loss_flags (r # rs) @ [False])) \<and>
     (\<forall>n. loss_streaks (Suc n) (r # rs) =
       (e + Suc n) # map2 (-) es (rises (True # loss_flags (r # rs) @ [False])))"
    using Cons(1) inside by (cases "r = Loss") (simp_all add: step map2_shift emit_streak_def)
qed

lemma max_or_zero_Max: "xs \<noteq> [] \<Longrightarrow> max_or_zero xs = Max (set xs)"
proof -
  assume "xs \<noteq> []"
  then obtain y ys where xs: "xs = y # ys" by (cases xs) auto
  show ?thesis
    unfolding xs max_or_zero_def list.case
    by (rule sym, rule Max_eqI) (use max_by_ge [of _ y ys id] max_by_in [of id y ys] in auto)
qed

lemma streaks_total: "sum_list (loss_streaks n rs) = n + length (filter (\<lambda>r. r = Loss) rs)"
  by (induction n rs rule: loss_streaks.induct) (auto simp: emit_streak_def)

text \<open>
  the observed streaks and the simulated ones are measured alike. The longest losing streak
  of the report and the longest run of losses as the shuffles are measured are the same number
  for any results, and the streaks add up to the losses.
\<close>

theorem longest_streak_is_max_run:
  "max_or_zero (loss_streak_lengths rs) = max_run (loss_flags rs) \<and>
   sum_list (loss_streak_lengths rs) = length (filter (\<lambda>r. r = Loss) rs)"
proof -
  let ?a = "False # loss_flags rs @ [False]"
  note e = edges_are_streaks(1) [of rs]
  have "max_run (loss_flags rs) = max_or_zero (loss_streaks 0 rs)"
  proof (cases "rises ?a = []")
    case True
    then have "loss_streaks 0 rs = []" using e by simp
    then show ?thesis using True by (simp add: max_run_def Let_def max_or_zero_def)
  next
    case False
    then have "loss_streaks 0 rs \<noteq> []" using e by (cases "rises ?a"; cases "falls ?a") auto
    then show ?thesis
      using False e by (simp add: max_run_def Let_def max_or_zero_Max del: set_map)
  qed
  then show ?thesis using streaks_total [of 0 rs] by (simp add: loss_streak_lengths_def)
qed

text \<open>A break-even trade ends a streak of the report but not the run of the dependence table.\<close>

lemma break_even_counts_differently:
  "loss_streak_lengths [Loss, Even, Loss] = [1, 1]" "runs_before 0 [Loss, Even, Loss, Win] = [0, 1, 1, 2]"
  by (simp_all add: loss_streak_lengths_def emit_streak_def)

section \<open>Drawdown\<close>

lemma cumsum_shift: "cumsum (s + d) rs = map (\<lambda>x. x + d) (cumsum s rs)"
  by (induction s rs rule: cumsum.induct) (simp_all add: ac_simps)

lemma running_max_shift: "running_max (m + d) (map (\<lambda>x. x + d) xs) = map (\<lambda>x. x + d) (running_max m xs)"
  by (induction m xs rule: running_max.induct) (simp_all add: max_add_distrib_left)

lemma map2_diff_shift:
  "map2 (-) (map (\<lambda>x. x + d) xs) (map (\<lambda>x. x + d) ys) = map2 (-) xs (ys :: real list)"
  by (induction xs ys rule: list_induct2') auto

text \<open>The drawdown of an account that starts at zero: its peak is at least the start.\<close>

definition account_dd :: "real list \<Rightarrow> real" where
  "account_dd rs = Min (insert 0 (set (map2 (-) (cumsum 0 rs) (running_max 0 (cumsum 0 rs)))))"

lemma max_dd_tail: "max_dd (r # rs) = Inr (account_dd rs)"
proof -
  have "cumsum r rs = map (\<lambda>x. x + r) (cumsum 0 rs)" using cumsum_shift [of 0 r rs] by simp
  moreover have "running_max r (map (\<lambda>x. x + r) (cumsum 0 rs)) = map (\<lambda>x. x + r) (running_max 0 (cumsum 0 rs))"
    using running_max_shift [of 0 r] by simp
  ultimately show ?thesis
    by (simp add: max_dd_def account_dd_def map2_diff_shift del: set_map)
qed

lemma deeper_below_higher_peak:
  "m \<le> m' \<Longrightarrow> x \<in> set (map2 (-) xs (running_max m xs)) \<Longrightarrow>
   \<exists>y \<in> set (map2 (-) xs (running_max m' xs)). y \<le> (x :: real)"
proof (induction xs arbitrary: m m')
  case (Cons a xs)
  have le: "max m a \<le> max m' a" using Cons.prems(1) by simp
  show ?case
  proof (cases "x = a - max m a")
    case True
    then show ?thesis using le by (intro bexI [of _ "a - max m' a"]) simp_all
  next
    case False
    then have "x \<in> set (map2 (-) xs (running_max (max m a) xs))" using Cons.prems(2) by simp
    from Cons.IH [OF le this] show ?thesis by (auto simp del: set_map)
  qed
qed simp

lemma account_dd_first: "account_dd (r # rs) \<le> min r (account_dd rs)"
proof -
  let ?c = "cumsum 0 rs"
  let ?D = "set (map2 (-) (cumsum 0 (r # rs)) (running_max 0 (cumsum 0 (r # rs))))"
  have D: "?D = insert (r - max 0 r) (set (map2 (-) (cumsum r rs) (running_max (max 0 r) (cumsum r rs))))"
    by simp
  have "account_dd (r # rs) \<le> r"
  proof (cases "0 \<le> r")
    case True
    then show ?thesis unfolding account_dd_def by (intro order_trans [OF Min_le, of _ 0]) simp_all
  next
    case False
    then show ?thesis unfolding account_dd_def by (intro Min_le) simp_all
  qed
  moreover have "account_dd (r # rs) \<le> account_dd rs"
    unfolding account_dd_def [of rs]
  proof (intro Min.boundedI)
    fix x
    assume x: "x \<in> insert 0 (set (map2 (-) ?c (running_max 0 ?c)))"
    have "\<exists>y \<in> insert 0 ?D. y \<le> x"
    proof (cases "x = 0")
      case False
      then have "x \<in> set (map2 (-) (map (\<lambda>y. y + r) ?c) (running_max r (map (\<lambda>y. y + r) ?c)))"
        using x running_max_shift [of 0 r ?c] by (simp add: map2_diff_shift del: set_map)
      from deeper_below_higher_peak [OF _ this, of "max 0 r"] show ?thesis
        using cumsum_shift [of 0 r rs] unfolding D by (auto simp del: set_map)
    qed simp
    then obtain y where "y \<in> insert 0 ?D" "y \<le> x" by blast
    then show "account_dd (r # rs) \<le> x"
      unfolding account_dd_def by (intro order_trans [OF Min_le, of _ y]) simp_all
  qed simp_all
  ultimately show ?thesis by simp
qed

text \<open>
  the reported drawdown forgets the first trade. The peak of the equity starts at the equity
  after the first trade, so the drawdown of a list of trades is that of an account that makes
  all of them but the first: a first trade that loses never counts, where an account that starts
  at zero is down by that loss at least.
\<close>

theorem drawdown_forgets_first_trade:
  "max_dd (r # rs) = Inr (account_dd rs) \<and> max_dd (r # rs) = max_dd (r' # rs) \<and>
   account_dd (r # rs) \<le> min r (account_dd rs)"
  using account_dd_first by (simp only: max_dd_tail)

section \<open>The heap\<close>

text \<open>
  A queue that gives up its least element, with what the simulation relies on: the multiset of
  its elements.
\<close>

locale min_queue =
  fixes ok :: "'a::linorder list \<Rightarrow> bool"
    and push :: "'a \<Rightarrow> 'a list \<Rightarrow> 'a list"
    and least :: "'a list \<Rightarrow> 'a"
    and pop :: "'a list \<Rightarrow> 'a list"
  assumes ok_empty: "ok []"
    and ok_push: "ok q \<Longrightarrow> ok (push x q)"
    and ok_pop: "ok q \<Longrightarrow> q \<noteq> [] \<Longrightarrow> ok (pop q)"
    and mset_push: "ok q \<Longrightarrow> mset (push x q) = add_mset x (mset q)"
    and least_min: "ok q \<Longrightarrow> q \<noteq> [] \<Longrightarrow> least q = Min_mset (mset q)"
    and mset_pop: "ok q \<Longrightarrow> q \<noteq> [] \<Longrightarrow> mset (pop q) = mset q - {#least q#}"
begin

lemma least_in: "ok q \<Longrightarrow> q \<noteq> [] \<Longrightarrow> least q \<in># mset q"
  by (simp add: least_min)

lemma least_le: "ok q \<Longrightarrow> x \<in># mset q \<Longrightarrow> least q \<le> x"
  using least_min [of q] by (cases "q = []") auto

lemma mset_least: "ok q \<Longrightarrow> q \<noteq> [] \<Longrightarrow> mset q = add_mset (least q) (mset (pop q))"
  using mset_pop [of q] insert_DiffM [OF least_in [of q]] by simp

lemma pop_shrinks: "ok q \<Longrightarrow> q \<noteq> [] \<Longrightarrow> length (pop q) < length q"
  using arg_cong [OF mset_least, of q size] by simp

text \<open>
  Popping while the least element is due: the loop ends, what is not due stays and what is due is
  folded over in ascending order. Due elements come before the others.
\<close>

lemma drain:
  assumes "ok q" "\<And>x y. x \<le> y \<Longrightarrow> due y \<Longrightarrow> due x"
  shows "\<exists>q'. ok q' \<and> mset q' = filter_mset (\<lambda>x. \<not> due x) (mset q) \<and>
     while_option (\<lambda>(q, b). q \<noteq> [] \<and> due (least q)) (\<lambda>(q, b). (pop q, f (least q) b)) (q, b) =
       Some (q', fold f (sorted_list_of_multiset (filter_mset due (mset q))) b)"
  using assms(1)
proof (induction "length q" arbitrary: q b rule: less_induct)
  case less
  show ?case
  proof (cases "q \<noteq> [] \<and> due (least q)")
    case True
    let ?x = "least q"
    have m: "mset q = add_mset ?x (mset (pop q))"
      using less.prems True by (intro mset_least) simp_all
    obtain q' where q': "ok q'" "mset q' = filter_mset (\<lambda>x. \<not> due x) (mset (pop q))"
      "while_option (\<lambda>(q, b). q \<noteq> [] \<and> due (least q)) (\<lambda>(q, b). (pop q, f (least q) b)) (pop q, f ?x b) =
        Some (q', fold f (sorted_list_of_multiset (filter_mset due (mset (pop q)))) (f ?x b))"
      using less.hyps [of "pop q" "f ?x b"] less.prems True pop_shrinks ok_pop by blast
    have "sorted_list_of_multiset (filter_mset due (mset q)) =
        ?x # sorted_list_of_multiset (filter_mset due (mset (pop q)))"
    proof -
      have le: "\<forall>y \<in> set (sorted_list_of_multiset (filter_mset due (mset (pop q)))). ?x \<le> y"
        using least_le [OF less.prems] by (auto simp: m)
      then have "insort ?x (sorted_list_of_multiset (filter_mset due (mset (pop q)))) =
          ?x # sorted_list_of_multiset (filter_mset due (mset (pop q)))"
        by (simp add: insort_is_Cons)
      then show ?thesis using True by (simp add: m)
    qed
    then show ?thesis using q' True by (intro exI [of _ q']) (simp add: while_option_unfold m)
  next
    case False
    have none: "\<not> due y" if "y \<in># mset q" for y
      using that False assms(2) [OF least_le [OF less.prems that]] by auto
    have "filter_mset due (mset q) = {#}" by (simp only: filter_mset_eq_mempty_iff) (use none in blast)
    then have "sorted_list_of_multiset (filter_mset due (mset q)) = []" by (simp only: sorted_list_of_multiset_empty)
    moreover have "filter_mset (\<lambda>x. \<not> due x) (mset q) = filter_mset (\<lambda>_. True) (mset q)"
      using none by (intro filter_mset_cong) simp_all
    moreover have "while_option (\<lambda>(q, b). q \<noteq> [] \<and> due (least q)) (\<lambda>(q, b). (pop q, f (least q) b)) (q, b) =
        Some (q, b)"
      by (subst while_option_unfold) (use False in auto)
    ultimately show ?thesis using less.prems by (intro exI [of _ q]) simp
  qed
qed

end

interpretation heap: min_queue sorted heap_push heap_min heap_pop
proof
  fix q :: "'a list" and x
  show "sorted ([] :: 'a list)" by simp
  show "sorted q \<Longrightarrow> sorted (heap_push x q)" by (simp add: heap_push_def sorted_insort)
  show "sorted q \<Longrightarrow> q \<noteq> [] \<Longrightarrow> sorted (heap_pop q)" by (simp add: heap_pop_def sorted_tl)
  show "sorted q \<Longrightarrow> mset (heap_push x q) = add_mset x (mset q)" by (simp add: heap_push_def)
  show "heap_min q = Min_mset (mset q)" if "sorted q" "q \<noteq> []"
    using that by (cases q) (auto simp: heap_min_def intro!: Min_eqI [symmetric])
  show "sorted q \<Longrightarrow> q \<noteq> [] \<Longrightarrow> mset (heap_pop q) = mset q - {#heap_min q#}"
    by (cases q) (simp_all add: heap_pop_def heap_min_def)
qed

lemma settle_Some:
  assumes "sorted q"
  obtains q' where "sorted q'" "mset q' = filter_mset (\<lambda>x. now < fst x) (mset q)"
    "settle book now (q, b) =
       Some (q', fold book (sorted_list_of_multiset (filter_mset (\<lambda>x. fst x \<le> now) (mset q))) b)"
proof -
  have "fst x \<le> now" if "x \<le> y" "fst y \<le> now" for x y :: "ms \<times> 'a"
    using that by (auto simp: less_eq_prod_def)
  with heap.drain [where due = "\<lambda>x. fst x \<le> now", OF assms, of book b]
  show ?thesis using that unfolding settle_def not_le by blast
qed

section \<open>The simulation returns\<close>

lemma sim_run_Some:
  "sorted q \<Longrightarrow> \<exists>q' b' ms'. sim_run book details decide ts (q, b, ms) = Some (q', b', ms @ ms') \<and>
     sorted q' \<and> length ms' = length ts"
proof (induction ts arbitrary: q b ms)
  case (Cons t ts)
  from Cons.prems obtain q1 b1 where q1: "sorted q1" "settle book (td_entry t) (q, b) = Some (q1, b1)"
    by (metis settle_Some)
  let ?m = "decide b1 (utc_day (td_entry t))"
  obtain q' b' ms' where "sim_run book details decide ts
      (heap_push (td_close t, details t ?m) q1, b1, ms @ [?m]) = Some (q', b', (ms @ [?m]) @ ms')"
    "sorted q'" "length ms' = length ts"
    using Cons.IH [OF heap.ok_push [OF q1(1)]] by blast
  then show ?case using q1(2) by (intro exI [of _ q'] exI [of _ b'] exI [of _ "?m # ms'"])
      (simp add: sim_step_def Let_def)
qed simp

lemma sim_run_extends:
  assumes "sorted q" "sim_run book details decide ts (q, b, ms) = Some (q', b', ms')"
  shows "\<exists>as. ms' = ms @ as"
  using sim_run_Some [OF assms(1), of book details decide ts b ms] assms(2) by auto

lemma multipliers_exist:
  shows "\<exists>ms. rule_mults rule ent = Some ms \<and> length ms = length ent"
    and "\<exists>ms. equity_mults thresh half ent = Some ms \<and> length ms = length ent"
  using sim_run_Some [OF heap.ok_empty] unfolding rule_mults_def equity_mults_def by fastforce+

text \<open>
  C26: both simulations return, for any rule, any threshold and any data frame: popping the heap
  ends at every entry, there is one multiplier for each trade, and the outcome is an error exactly
  where there is no trade at all.
\<close>

theorem simulations_return:
  "\<exists>ms ms' d. rule_mults rule ent = Some ms \<and> length ms = length ent \<and>
     equity_mults thresh half ent = Some ms' \<and> length ms' = length ent \<and>
     simulate_rule srt rule ts = Some (rule_outcome (srt td_entry ts) (the (rule_mults rule (srt td_entry ts)))) \<and>
     sim_eq_filter srt thresh half ts = Some d \<and>
     (isl (snd d) \<longleftrightarrow> srt td_entry ts = [])"
proof -
  obtain ms ms' where "rule_mults rule ent = Some ms" "length ms = length ent"
    "equity_mults thresh half ent = Some ms'" "length ms' = length ent"
    using multipliers_exist by metis
  moreover obtain ns ns' where n: "rule_mults rule (srt td_entry ts) = Some ns"
    "equity_mults thresh half (srt td_entry ts) = Some ns'" "length ns' = length (srt td_entry ts)"
    using multipliers_exist by metis
  moreover have "isl (max_dd (map2 (\<lambda>t m. td_r t * m) (srt td_entry ts) ns')) \<longleftrightarrow> srt td_entry ts = []"
    using n(3) by (cases "srt td_entry ts"; cases ns') (simp_all add: max_dd_tail, simp add: max_dd_def)
  ultimately show ?thesis by (simp add: simulate_rule_def sim_eq_filter_def Let_def)
qed

section \<open>The simulation looks at closed trades only\<close>

text \<open>Two trades look the same until time \<open>T\<close>: they are the same, or neither has closed by then.\<close>

definition same_until :: "ms \<Rightarrow> trade \<Rightarrow> trade \<Rightarrow> bool" where
  "same_until T t t' \<longleftrightarrow>
     td_entry t = td_entry t' \<and> td_entry t \<le> T \<and> (t = t' \<or> T < td_close t \<and> T < td_close t')"

abbreviation closing_by :: "ms \<Rightarrow> (ms \<times> 'x) list \<Rightarrow> (ms \<times> 'x) multiset" where
  "closing_by T q \<equiv> filter_mset (\<lambda>x. fst x \<le> T) (mset q)"

lemma settle_closing_by:
  assumes "sorted q" "sorted q'" "closing_by T q = closing_by T q'" "now \<le> T"
  obtains q1 q1' b1 where "settle book now (q, b) = Some (q1, b1)" "settle book now (q', b) = Some (q1', b1)"
    "sorted q1" "sorted q1'" "closing_by T q1 = closing_by T q1'"
proof -
  have due: "closing_by now p = filter_mset (\<lambda>x. fst x \<le> now) (closing_by T p)" for p :: "(int \<times> 'a) list"
    using assms(4) by (simp add: filter_filter_mset) (rule filter_mset_cong, auto)
  have rest: "filter_mset (\<lambda>x. fst x \<le> T) (filter_mset (\<lambda>x. now < fst x) M) =
      filter_mset (\<lambda>x. now < fst x) (filter_mset (\<lambda>x. fst x \<le> T) M)" for M :: "(int \<times> 'a) multiset"
    by (simp add: filter_filter_mset conj_commute)
  obtain q1 where q1: "sorted q1" "mset q1 = filter_mset (\<lambda>x. now < fst x) (mset q)"
    "settle book now (q, b) = Some (q1, fold book (sorted_list_of_multiset (closing_by now q)) b)"
    by (rule settle_Some [OF assms(1)])
  obtain q1' where q1': "sorted q1'" "mset q1' = filter_mset (\<lambda>x. now < fst x) (mset q')"
    "settle book now (q', b) = Some (q1', fold book (sorted_list_of_multiset (closing_by now q')) b)"
    by (rule settle_Some [OF assms(2)])
  have e: "closing_by now q = closing_by now q'" by (simp only: due [of q] due [of q'] assms(3))
  have "closing_by T q1 = closing_by T q1'" by (simp only: q1(2) q1'(2) rest assms(3))
  then show ?thesis by (rule that [OF q1(3) q1'(3) [folded e] q1(1) q1'(1)])
qed

lemma sim_run_same:
  assumes "sorted q" "sorted q'" "closing_by T q = closing_by T q'" "list_all2 (same_until T) ts ts'"
  obtains p p' b' ms' where "sim_run book details decide ts (q, b, ms) = Some (p, b', ms')"
    "sim_run book details decide ts' (q', b, ms) = Some (p', b', ms')"
    "sorted p" "sorted p'" "closing_by T p = closing_by T p'" "length ms' = length ms + length ts"
  using assms(4,1-3)
proof (induction ts ts' arbitrary: q q' b ms thesis rule: list_all2_induct)
  case (Cons t ts t' ts')
  have entry: "td_entry t' = td_entry t" "td_entry t \<le> T" using Cons.hyps(1) by (auto simp: same_until_def)
  obtain q1 q1' b1 where s: "settle book (td_entry t) (q, b) = Some (q1, b1)"
    "settle book (td_entry t) (q', b) = Some (q1', b1)"
    "sorted q1" "sorted q1'" "closing_by T q1 = closing_by T q1'"
    by (rule settle_closing_by [OF Cons.prems(2-4) entry(2)])
  let ?m = "decide b1 (utc_day (td_entry t))"
  let ?p = "heap_push (td_close t, details t ?m) q1" and ?p' = "heap_push (td_close t', details t' ?m) q1'"
  have "closing_by T ?p = closing_by T ?p'"
    using Cons.hyps(1) s(3-5) by (auto simp: heap.mset_push same_until_def)
  then obtain p p' b' ms' where r:
    "sim_run book details decide ts (?p, b1, ms @ [?m]) = Some (p, b', ms')"
    "sim_run book details decide ts' (?p', b1, ms @ [?m]) = Some (p', b', ms')"
    "sorted p" "sorted p'" "closing_by T p = closing_by T p'" "length ms' = length (ms @ [?m]) + length ts"
    using Cons.IH [OF _ heap.ok_push [OF s(3)] heap.ok_push [OF s(4)]] by blast
  show ?case
    by (rule Cons.prems(1) [of p b' ms' p'])
      (use r s(1,2) entry in \<open>simp_all add: sim_step_def Let_def\<close>)
qed simp

lemma sim_run_append:
  "sim_run book details decide (xs @ ys) st =
     Option.bind (sim_run book details decide xs st) (sim_run book details decide ys)"
  by (induction xs arbitrary: st) (auto split: Option.bind_splits)

text \<open>What the simulation decides at a trade is the same for two histories that look the same then.\<close>

lemma sim_decision_same:
  assumes "list_all2 (same_until (td_entry t)) pre pre'" "td_entry t' = td_entry t"
    and "sim_run book details decide (pre @ t # post) ([], b, []) = Some (q, c, ms)"
    and "sim_run book details decide (pre' @ t' # post') ([], b, []) = Some (q', c', ms')"
  shows "ms ! length pre = ms' ! length pre"
proof -
  let ?T = "td_entry t"
  obtain p p' b1 ms1 where r: "sim_run book details decide pre ([], b, []) = Some (p, b1, ms1)"
    "sim_run book details decide pre' ([], b, []) = Some (p', b1, ms1)"
    "sorted p" "sorted p'" "closing_by ?T p = closing_by ?T p'" "length ms1 = length pre"
    by (rule sim_run_same [OF heap.ok_empty heap.ok_empty refl assms(1), of _ _ _ b "[]"]) simp
  obtain p1 p1' b2 where s: "settle book ?T (p, b1) = Some (p1, b2)" "settle book ?T (p', b1) = Some (p1', b2)"
    "sorted p1" "sorted p1'"
    by (rule settle_closing_by [OF r(3-5) order_refl])
  let ?m = "decide b2 (utc_day ?T)"
  have "sim_run book details decide post (heap_push (td_close t, details t ?m) p1, b2, ms1 @ [?m]) = Some (q, c, ms)"
    using assms(3) r(1) s(1) by (simp add: sim_run_append sim_step_def Let_def)
  from sim_run_extends [OF heap.ok_push [OF s(3)] this] obtain as where "ms = (ms1 @ [?m]) @ as" by blast
  moreover have "sim_run book details decide post' (heap_push (td_close t', details t' ?m) p1', b2, ms1 @ [?m]) = Some (q', c', ms')"
    using assms(2,4) r(2) s(2) by (simp add: sim_run_append sim_step_def Let_def)
  from sim_run_extends [OF heap.ok_push [OF s(4)] this] obtain as' where "ms' = (ms1 @ [?m]) @ as'" by blast
  ultimately show ?thesis using r(6) by (simp add: nth_append)
qed

text \<open>
  C25: the simulations do not look ahead. What a rule or the equity filter multiplies a trade by is
  the same for two histories whose earlier trades were entered at the same times and are the same
  where they have closed by its entry: how the open trades and the later ones end, and the trade
  itself, do not count.
\<close>

theorem simulations_do_not_look_ahead:
  assumes "list_all2 (same_until (td_entry t)) pre pre'" "td_entry t' = td_entry t"
    and "rule_mults rule (pre @ t # post) = Some ms" "rule_mults rule (pre' @ t' # post') = Some ms'"
    and "equity_mults thresh half (pre @ t # post) = Some es"
      "equity_mults thresh half (pre' @ t' # post') = Some es'"
  shows "ms ! length pre = ms' ! length pre \<and> es ! length pre = es' ! length pre"
  using assms(3-6) unfolding rule_mults_def equity_mults_def
  by (auto dest: sim_decision_same [OF assms(1,2)])

definition early_trade :: trade where
  "early_trade = \<lparr>td_symbol = ''XAUUSD'', td_entry = 1000, td_close = 2000, td_r = - 1, td_res = Loss\<rparr>"

definition open_loser :: trade where
  "open_loser = \<lparr>td_symbol = ''XAUUSD'', td_entry = 2500, td_close = 9000, td_r = - 1, td_res = Loss\<rparr>"

definition open_winner :: trade where
  "open_winner = open_loser\<lparr>td_close := 8000, td_r := 3, td_res := Win\<rparr>"

definition next_trade :: trade where
  "next_trade = \<lparr>td_symbol = ''EURUSD'', td_entry = 3000, td_close = 4000, td_r = 2, td_res = Win\<rparr>"

theorem simulations_do_not_look_ahead_witness:
  "\<exists>ms ms' es es'. rule_mults (\<lambda>r c g. if r \<le> - 2 then 0 else 1) [early_trade, open_loser, next_trade] = Some ms \<and>
     rule_mults (\<lambda>r c g. if r \<le> - 2 then 0 else 1) [early_trade, open_winner, next_trade] = Some ms' \<and>
     equity_mults 5 (1 / 2) [early_trade, open_loser, next_trade] = Some es \<and>
     equity_mults 5 (1 / 2) [early_trade, open_winner, next_trade] = Some es' \<and>
     ms ! 2 = ms' ! 2 \<and> es ! 2 = es' ! 2"
proof -
  have same: "list_all2 (same_until (td_entry next_trade)) [early_trade, open_loser] [early_trade, open_winner]"
    by (simp add: same_until_def early_trade_def open_loser_def open_winner_def next_trade_def)
  obtain ms ms' es es' where
    "rule_mults (\<lambda>r c g. if r \<le> - 2 then 0 else 1) [early_trade, open_loser, next_trade] = Some ms"
    "rule_mults (\<lambda>r c g. if r \<le> - 2 then 0 else 1) [early_trade, open_winner, next_trade] = Some ms'"
    "equity_mults 5 (1 / 2) [early_trade, open_loser, next_trade] = Some es"
    "equity_mults 5 (1 / 2) [early_trade, open_winner, next_trade] = Some es'"
    using multipliers_exist by metis
  then show ?thesis
    using simulations_do_not_look_ahead [OF same refl,
        of "\<lambda>r c g. if r \<le> - 2 then 0 else 1" "[]" ms "[]" ms' 5 "1 / 2" es es']
    by (simp add: numeral_2_eq_2)
qed

end
