(* ===== verification/Summary_Laws.thy ===== *)
theory Summary_Laws
  imports Summary Streaks_Laws
begin

text \<open>
  Laws of the report: what a line of a table counts, the two computations of the drawdown, the
  buckets of the ratios, and the matrix of days in common.
\<close>

section \<open>Tables\<close>

text \<open>The tally of a list of rows, without the loop.\<close>

definition tally_of :: "srow list \<Rightarrow> tally" where
  "tally_of rows =
     \<lparr>ta_w = length (filter is_win rows), ta_l = length (filter is_loss rows),
      ta_b = length (filter other_outcome rows), ta_r = sum_rr rows, ta_trades = length rows\<rparr>"

lemma win_loss_exclusive: "is_win s \<Longrightarrow> \<not> is_loss s"
  by (simp add: is_win_def is_loss_def)

lemma tally_of_Nil: "tally_of [] = empty_tally"
  by (simp add: tally_of_def empty_tally_def sum_rr_def)

lemma tally_of_snoc: "tally_of (rows @ [s]) = book_row s (tally_of rows)"
  using win_loss_exclusive [of s]
  by (simp add: tally_of_def book_row_def Let_def sum_rr_def other_outcome_def)

lemma tally_count_of: "tally_count (tally_of rows) = length rows"
  by (induction rows rule: rev_induct) (auto simp: tally_of_Nil tally_of_snoc empty_tally_def tally_count_def book_row_def Let_def)

lemma tally_at_add:
  "tally_at (add_tally key s m) k = (if key s = Some k then book_row s (tally_at m k) else tally_at m k)"
  by (auto simp: tally_at_def add_tally_def update_conv' split: option.split)

lemma keys_add_tally:
  "fst ` set (add_tally key s m) = (case key s of None \<Rightarrow> {} | Some k \<Rightarrow> {k}) \<union> fst ` set m"
  by (cases "key s") (simp_all add: add_tally_def dom_update)

lemma distinct_add_tally: "distinct (map fst m) \<Longrightarrow> distinct (map fst (add_tally key s m))"
  by (simp add: add_tally_def distinct_update split: option.split)

definition with_key :: "(srow \<Rightarrow> 'k option) \<Rightarrow> 'k \<Rightarrow> srow list \<Rightarrow> srow list" where
  "with_key key k rows = filter (\<lambda>s. key s = Some k) rows"

lemma tally_by_Nil [simp]: "tally_by key [] = []"
  by (simp add: tally_by_def)

lemma tally_by_snoc: "tally_by key (rows @ [s]) = add_tally key s (tally_by key rows)"
  by (simp add: tally_by_def)

lemma tally_by_distinct: "distinct (map fst (tally_by key rows))"
  by (induction rows rule: rev_induct) (simp_all add: tally_by_snoc distinct_add_tally)

lemma tally_by_at: "tally_at (tally_by key rows) k = tally_of (with_key key k rows)"
  by (induction rows rule: rev_induct)
    (auto simp: tally_by_snoc tally_at_add with_key_def tally_of_snoc tally_of_Nil tally_at_def [of "[]"])

lemma tally_by_keys: "fst ` set (tally_by key rows) = {k. \<exists>s \<in> set rows. key s = Some k}"
  by (induction rows rule: rev_induct) (auto simp: tally_by_snoc keys_add_tally split: option.splits)

lemma tally_by_entries:
  "(k, t) \<in> set (tally_by key rows) \<longleftrightarrow> with_key key k rows \<noteq> [] \<and> t = tally_of (with_key key k rows)"
proof -
  have "(k, t) \<in> set (tally_by key rows) \<longleftrightarrow> map_of (tally_by key rows) k = Some t"
    by (simp add: map_of_eq_Some_iff [OF tally_by_distinct])
  moreover have "k \<in> fst ` set (tally_by key rows) \<longleftrightarrow> with_key key k rows \<noteq> []"
    by (auto simp: tally_by_keys with_key_def filter_empty_conv)
  ultimately show ?thesis
    using tally_by_at [of key rows k]
    by (cases "map_of (tally_by key rows) k") (simp_all add: tally_at_def map_of_eq_None_iff, (force dest: map_of_SomeD)+)
qed

text \<open>Sums over the lines of a table.\<close>

lemma sum_add_tally:
  assumes "distinct (map fst m)" "\<And>s t. f (book_row s t) = f t + g s" "f empty_tally = (0 :: 'a :: comm_monoid_add)"
  shows "sum_list (map (f \<circ> snd) (add_tally key s m)) =
    sum_list (map (f \<circ> snd) m) + (if key s = None then 0 else g s)"
proof (cases "key s")
  case (Some k)
  have "sum_list (map (f \<circ> snd) (AList.update k (book_row s (tally_at m k)) m)) = sum_list (map (f \<circ> snd) m) + g s"
    using assms(1)
  proof (induction m)
    case Nil
    then show ?case by (simp add: tally_at_def assms(2,3))
  next
    case (Cons kt m)
    then show ?case
      by (cases "fst kt = k") (auto simp: tally_at_def assms(2) ac_simps split: prod.splits)
  qed
  then show ?thesis by (simp add: add_tally_def Some)
qed (simp add: add_tally_def)

lemma sum_tally_by:
  assumes "\<And>s t. f (book_row s t) = f t + g s" "f empty_tally = (0 :: 'a :: comm_monoid_add)"
  shows "sum_list (map (f \<circ> snd) (tally_by key rows)) = sum_list (map g (filter (\<lambda>s. key s \<noteq> None) rows))"
proof (induction rows rule: rev_induct)
  case (snoc s rows)
  show ?case
    unfolding tally_by_snoc sum_add_tally [OF tally_by_distinct assms] snoc.IH by simp
qed simp

text \<open>
  C27: a line of a table counts the rows of its key and no others. The table by any key has one line
  for each key that occurs, with the wins, the losses, the rest, the ratios and the number of the
  rows of that key, and over the whole table trades and ratios add up to those of the rows that
  have a key. The rates of a line are over all its rows, where those of the pair leave out the
  trades that expired or were invalidated.
\<close>

theorem tables_count_their_rows:
  "distinct (map fst (tally_by key rows)) \<and>
   set (tally_by key rows) = {(k, tally_of (with_key key k rows)) | k. with_key key k rows \<noteq> []} \<and>
   sum_list (map (ta_trades \<circ> snd) (tally_by key rows)) = length (filter (\<lambda>s. key s \<noteq> None) rows) \<and>
   sum_list (map (ta_r \<circ> snd) (tally_by key rows)) = sum_rr (filter (\<lambda>s. key s \<noteq> None) rows) \<and>
   tv_wr (view_tally (tally_of (with_key key k rows))) =
     py_round 1 (pct (length (filter is_win (with_key key k rows))) (length (with_key key k rows)))"
proof (intro conjI)
  show "set (tally_by key rows) = {(k, tally_of (with_key key k rows)) | k. with_key key k rows \<noteq> []}"
    by (auto simp: tally_by_entries)
  have b: "ta_trades (book_row s t) = ta_trades t + 1" "ta_r (book_row s t) = ta_r t + sr_rr s" for s t
    by (simp_all add: book_row_def Let_def)
  show "sum_list (map (ta_trades \<circ> snd) (tally_by key rows)) = length (filter (\<lambda>s. key s \<noteq> None) rows)"
    by (subst sum_tally_by [where g = "\<lambda>_. 1"]) (simp_all add: b empty_tally_def sum_list_triv)
  show "sum_list (map (ta_r \<circ> snd) (tally_by key rows)) = sum_rr (filter (\<lambda>s. key s \<noteq> None) rows)"
    by (subst sum_tally_by [where g = sr_rr]) (simp_all add: b empty_tally_def sum_rr_def)
  show "tv_wr (view_tally (tally_of (with_key key k rows))) =
     py_round 1 (pct (length (filter is_win (with_key key k rows))) (length (with_key key k rows)))"
    by (simp add: view_tally_def tally_count_of) (simp add: tally_of_def)
qed (rule tally_by_distinct)

section \<open>Drawdown\<close>

lemma dd_loop_min:
  "- dd_loop p d xs = Min (insert (- d) (set (map2 (-) xs (running_max p xs))))"
proof (induction p d xs rule: dd_loop.induct)
  case (2 peak dd v vs)
  let ?p = "max peak v"
  have "- dd_loop peak dd (v # vs) = Min (insert (- max dd (?p - v)) (set (map2 (-) vs (running_max ?p vs))))"
    using "2.IH" [OF refl refl] by (simp add: Let_def max_def del: set_map) (auto simp: max_def)
  also have "\<dots> = Min (insert (- dd) (insert (v - ?p) (set (map2 (-) vs (running_max ?p vs)))))"
    by (cases "set (map2 (-) vs (running_max ?p vs)) = {}") (auto simp: max_def min_def)
  finally show ?case by simp
qed simp

lemma report_dd_exact:
  assumes "max_dd rs = Inr d"
  shows "report_dd (cumsum 0 rs) = - d"
proof -
  obtain e es where c: "cumsum 0 rs = e # es" using assms by (cases "cumsum 0 rs") (simp_all add: max_dd_def)
  have "- dd_loop e 0 (e # es) = Min (set (map2 (-) (e # es) (e # running_max e es)))"
    unfolding dd_loop_min by (simp add: insert_absorb)
  then show ?thesis using assms by (simp add: max_dd_def report_dd_def c del: dd_loop.simps)
qed

lemma dd_loop_close:
  assumes "list_all2 (\<lambda>x y. \<bar>x - y\<bar> \<le> e) xs ys" "\<bar>p - q\<bar> \<le> e" "\<bar>d - d'\<bar> \<le> 2 * e"
  shows "\<bar>dd_loop p d xs - dd_loop q d' ys\<bar> \<le> 2 * e"
  using assms
proof (induction xs ys arbitrary: p q d d' rule: list_all2_induct)
  case (Cons x xs y ys)
  let ?p = "if p < x then x else p" and ?q = "if q < y then y else q"
  have pq: "\<bar>?p - ?q\<bar> \<le> e" using Cons.hyps(1) Cons.prems(1) by auto
  then have "\<bar>(?p - x) - (?q - y)\<bar> \<le> 2 * e" using Cons.hyps(1) by linarith
  then have "\<bar>(if d < ?p - x then ?p - x else d) - (if d' < ?q - y then ?q - y else d')\<bar> \<le> 2 * e"
    using Cons.prems(2) by auto
  from Cons.IH [OF pq this] show ?case by (simp add: Let_def)
qed simp

text \<open>
  C28: the report and the streak analysis measure one drawdown. The report loops over an equity
  rounded to three decimals and the streak analysis takes the minimum of vectors; for the same
  trades the two differ in sign and by no more than the rounding.
\<close>

theorem one_drawdown_in_two_reports:
  assumes "max_dd rs = Inr d"
  shows "\<bar>report_dd (rounded_equity rs) + d\<bar> \<le> 1 / 1000"
proof -
  obtain e es where c: "cumsum 0 rs = e # es" using assms by (cases "cumsum 0 rs") (simp_all add: max_dd_def)
  have r: "\<bar>py_round 3 x - x\<bar> \<le> 1 / 2000" for x using py_round_error [of 3 x] by simp
  have "list_all2 (\<lambda>x y. \<bar>x - y\<bar> \<le> 1 / 2000) (map (py_round 3) (e # es)) (e # es)"
    by (simp only: list_all2_map1) (rule list_all2_refl, rule r)
  from dd_loop_close [OF this r [of e], of 0 0]
  have "\<bar>report_dd (rounded_equity rs) - report_dd (cumsum 0 rs)\<bar> \<le> 1 / 1000"
    by (simp add: report_dd_def rounded_equity_def c del: dd_loop.simps)
  then show ?thesis using report_dd_exact [OF assms] by simp
qed

theorem one_drawdown_in_two_reports_witness:
  "max_dd [1, - 2] = Inr (- 2) \<and> \<bar>report_dd (rounded_equity [1, - 2]) + - 2\<bar> \<le> 1 / 1000"
proof -
  have "max_dd [1, - 2] = Inr (- 2)" by (simp add: max_dd_def)
  with one_drawdown_in_two_reports [OF this] show ?thesis by blast
qed

section \<open>Buckets\<close>

text \<open>
  small losses are shown as gains. The bucket from one to two holds every trade above minus one
  and up to two that is not zero, small losses and gains below one with the rest; the six buckets
  together hold every trade once.
\<close>

theorem small_losses_in_gain_bucket:
  "rr_buckets rs From_1_to_2 = length (filter (\<lambda>v. - 1 < v \<and> v \<noteq> 0 \<and> v \<le> 2) rs) \<and>
   (\<Sum>b \<in> {Below_m1, At_m1, At_0, From_1_to_2, From_2_to_3, Above_3}. rr_buckets rs b) = length rs"
  by (induction rs) (auto simp: rr_buckets_def rr_bucket_def)

section \<open>Days in common\<close>

definition corr_ok :: "corr_state \<Rightarrow> bool" where
  "corr_ok c \<longleftrightarrow> (\<forall>i j. co_days c i j = co_days c j i \<and> co_loss c i j = co_loss c j i \<and> co_win c i j = co_win c j i \<and>
     co_loss c i j \<le> co_days c i j \<and> co_win c i j \<le> co_days c i j)"

lemma bump_both_at:
  "i \<noteq> j \<Longrightarrow> bump_both i j m a b = m a b + (if a = i \<and> b = j \<or> a = j \<and> b = i then 1 else 0)"
  by (auto simp: bump_both_def Let_def)

lemma pair_index_Some: "pair_index ps p = Some i \<Longrightarrow> i < length ps \<and> ps ! i = p"
  by (auto simp: pair_index_def set_zip dest!: map_of_SomeD)

lemma count_couple_ok:
  assumes "corr_ok c" "p1 \<noteq> p2"
  shows "corr_ok (count_couple ps ((p1, o1), (p2, o2)) c)"
proof (cases "pair_index ps p1"; cases "pair_index ps p2")
  fix i j assume ij: "pair_index ps p1 = Some i" "pair_index ps p2 = Some j"
  then have "i \<noteq> j" using assms(2) pair_index_Some by metis
  then show ?thesis
    using assms(1) unfolding corr_ok_def
    by (auto simp: count_couple_def ij Let_def bump_both_at intro: le_SucI)
qed (use assms(1) in \<open>simp_all add: count_couple_def\<close>)

lemma couples_distinct: "distinct (map fst xs) \<Longrightarrow> (x, y) \<in> set (couples xs) \<Longrightarrow> fst x \<noteq> fst y"
  by (induction xs) auto

lemma fold_couples_ok:
  "corr_ok c \<Longrightarrow> (\<And>x y. (x, y) \<in> set cs \<Longrightarrow> fst x \<noteq> fst y) \<Longrightarrow> corr_ok (fold (count_couple ps) cs c)"
proof (induction cs arbitrary: c)
  case (Cons xy cs)
  obtain p1 o1 p2 o2 where xy: "xy = ((p1, o1), (p2, o2))" by (metis surj_pair)
  have "p1 \<noteq> p2" using Cons.prems(2) [of "(p1, o1)" "(p2, o2)"] xy by simp
  then show ?case using Cons count_couple_ok [OF Cons.prems(1)] by (auto simp: xy)
qed simp

definition days_wf :: "(string \<times> day_outcomes) list \<Rightarrow> bool" where
  "days_wf m \<longleftrightarrow> (\<forall>(d, os) \<in> set m. distinct (map fst os))"

lemma add_corr_wf: "days_wf m \<Longrightarrow> days_wf (add_corr stem s m)"
proof -
  assume m: "days_wf m"
  show ?thesis
  proof (cases "date_key s")
    case (Some d)
    have "distinct (map fst (case map_of m d of None \<Rightarrow> [] | Some os \<Rightarrow> os))"
      using m by (auto simp: days_wf_def split: option.split dest!: map_of_SomeD)
    then have "distinct (map fst (add_outcome x (case map_of m d of None \<Rightarrow> [] | Some os \<Rightarrow> os)))" for x
      by (simp add: add_outcome_def distinct_update)
    then show ?thesis
      using m set_update_subset by (fastforce simp: add_corr_def Some days_wf_def)
  qed (use m in \<open>simp add: add_corr_def\<close>)
qed

lemma corr_days_wf: "days_wf (corr_days fs)"
proof -
  have rows: "days_wf m \<Longrightarrow> days_wf (fold (add_corr stem) rows m)" for stem rows m
    by (induction rows arbitrary: m) (simp_all add: add_corr_wf)
  have "days_wf m \<Longrightarrow> days_wf (fold (\<lambda>(stem, rows). fold (add_corr stem) rows) fs m)" for m
    by (induction fs arbitrary: m) (auto simp: rows)
  then have "days_wf [] \<Longrightarrow> days_wf (corr_days fs)" unfolding corr_days_def .
  then show ?thesis by (simp add: days_wf_def)
qed

lemma corr_counts_ok: "days_wf days \<Longrightarrow> corr_ok (corr_counts ps days)"
proof -
  have "corr_ok c \<Longrightarrow> days_wf days \<Longrightarrow> corr_ok (fold (\<lambda>(d, os). fold (count_couple ps) (couples os)) days c)" for c
  proof (induction days arbitrary: c)
    case (Cons x days)
    obtain d os where x: "x = (d, os)" by fastforce
    have "distinct (map fst os)" using Cons.prems(2) by (simp add: x days_wf_def)
    then have "corr_ok (fold (count_couple ps) (couples os) c)"
      by (intro fold_couples_ok [OF Cons.prems(1)] couples_distinct [of os]) auto
    then show ?case using Cons by (simp add: x days_wf_def)
  qed simp
  moreover have "corr_ok \<lparr>co_days = (\<lambda>_ _. 0), co_loss = (\<lambda>_ _. 0), co_win = (\<lambda>_ _. 0)\<rparr>"
    by (simp add: corr_ok_def)
  ultimately show "days_wf days \<Longrightarrow> ?thesis" by (simp add: corr_counts_def)
qed

lemma share_of_range: "n \<le> d \<Longrightarrow> share_of n d = Some x \<Longrightarrow> 0 \<le> x \<and> x \<le> 100"
proof -
  assume "n \<le> d" "share_of n d = Some x"
  then have x: "x = of_int (round_half_even (of_nat n / of_nat d * 100))" "d \<noteq> 0"
    by (auto simp: share_of_def py_round_def split: if_splits)
  have "0 \<le> of_nat n / of_nat d * (100 :: real)" "of_nat n / of_nat d * 100 \<le> (100 :: real)"
    using \<open>n \<le> d\<close> x(2) by (simp_all add: field_simps)
  then have "round_half_even 0 \<le> round_half_even (of_nat n / of_nat d * 100 :: real)"
    "round_half_even (of_nat n / of_nat d * 100 :: real) \<le> round_half_even 100"
    by (simp_all only: round_half_even_mono)
  then show ?thesis unfolding x(1) using round_half_even_of_int [of 0] round_half_even_of_int [of 100] by simp
qed

text \<open>
  the matrix of days in common is a matrix of shares. Whatever files are read and whatever the
  pairs, it is symmetric, pairs lose (or win) together on no more days than they trade together,
  and its percentages lie between 0 and 100.
\<close>

theorem days_in_common_are_shares:
  "let c = corr_counts ps (corr_days fs) in
     corr_cell c i j = corr_cell c j i \<and>
     cc_loss (corr_cell c i j) \<le> cc_days (corr_cell c i j) \<and>
     cc_win (corr_cell c i j) \<le> cc_days (corr_cell c i j) \<and>
     set_option (cc_loss_pct (corr_cell c i j)) \<subseteq> {0..100} \<and>
     set_option (cc_win_pct (corr_cell c i j)) \<subseteq> {0..100}"
proof -
  let ?c = "corr_counts ps (corr_days fs)"
  have ok: "corr_ok ?c" by (rule corr_counts_ok [OF corr_days_wf])
  then have le: "co_loss ?c i j \<le> co_days ?c i j" "co_win ?c i j \<le> co_days ?c i j" by (simp_all add: corr_ok_def)
  have "corr_cell ?c i j = corr_cell ?c j i" using ok by (simp add: corr_cell_def corr_ok_def)
  then show ?thesis
    using le share_of_range [OF le(1)] share_of_range [OF le(2)] by (auto simp: Let_def corr_cell_def)
qed

end
