(* ===== verification/Config.thy ===== *)
theory Config
  imports Settings "HOL-Library.AList"
begin

text \<open>
  config/settings.py: where the settings come from. Environment variables, the YAML files and the
  credential profiles, their merge, the readers of the single values, and the two factories.
  A value read from a file is a \<open>pyval\<close>: dates and the infinities are left out. The file system
  gives what \<open>yaml.safe_load\<close> makes of a file; \<open>float(s)\<close>, \<open>json.loads\<close> and the \<open>str\<close> of a number
  with a point or of a container are parameters. Paths have slashes.
\<close>

section \<open>Python values\<close>

datatype pyval =
    PNone | PBool bool | PInt int | PFloat real | PStr string
  | PList "pyval list" | PDict "(pyval \<times> pyval) list"

type_synonym pydict = "(pyval \<times> pyval) list"

record pylib =
  lib_float :: "string \<Rightarrow> real result"
  lib_json :: "string \<Rightarrow> pyval result"
  lib_str :: "pyval \<Rightarrow> string"

fun val_truthy :: "pyval \<Rightarrow> bool" where
  "val_truthy PNone = False"
| "val_truthy (PBool b) = b"
| "val_truthy (PInt n) = (n \<noteq> 0)"
| "val_truthy (PFloat x) = (x \<noteq> 0)"
| "val_truthy (PStr s) = (s \<noteq> [])"
| "val_truthy (PList xs) = (xs \<noteq> [])"
| "val_truthy (PDict d) = (d \<noteq> [])"

fun str_of :: "pylib \<Rightarrow> pyval \<Rightarrow> string" where
  "str_of lib PNone = ''None''"
| "str_of lib (PBool b) = (if b then ''True'' else ''False'')"
| "str_of lib (PInt n) = show_int n"
| "str_of lib (PStr s) = s"
| "str_of lib v = lib_str lib v"

fun int_of :: "pyval \<Rightarrow> int result" where
  "int_of (PBool b) = Inr (if b then 1 else 0)"
| "int_of (PInt n) = Inr n"
| "int_of (PFloat x) = Inr (trunc x)"
| "int_of (PStr s) = py_int s"
| "int_of _ = Inl TypeError"

fun real_of_val :: "pylib \<Rightarrow> pyval \<Rightarrow> real result" where
  "real_of_val lib (PBool b) = Inr (if b then 1 else 0)"
| "real_of_val lib (PInt n) = Inr (real_of_int n)"
| "real_of_val lib (PFloat x) = Inr x"
| "real_of_val lib (PStr s) = lib_float lib s"
| "real_of_val lib _ = Inl TypeError"

text \<open>What a \<open>for\<close> loop runs over.\<close>

fun iterate :: "pyval \<Rightarrow> pyval list result" where
  "iterate (PList xs) = Inr xs"
| "iterate (PDict d) = Inr (map fst d)"
| "iterate (PStr s) = Inr (map (\<lambda>c. PStr [c]) s)"
| "iterate _ = Inl TypeError"

fun is_dict :: "pyval \<Rightarrow> bool" where
  "is_dict (PDict d) = True" | "is_dict _ = False"

fun split_on :: "char \<Rightarrow> string \<Rightarrow> string list" where
  "split_on c [] = [[]]"
| "split_on c (x # xs) =
     (if x = c then [] # split_on c xs
      else case split_on c xs of [] \<Rightarrow> [[x]] | p # ps \<Rightarrow> (x # p) # ps)"

text \<open>\<open>s.rsplit(":", 1)\<close> and \<open>s.partition(":")\<close>, for an \<open>s\<close> with a colon.\<close>

definition rsplit_once :: "char \<Rightarrow> string \<Rightarrow> string \<times> string" where
  "rsplit_once c s =
     (let r = rev s in (rev (drop 1 (dropWhile (\<lambda>x. x \<noteq> c) r)), rev (takeWhile (\<lambda>x. x \<noteq> c) r)))"

definition partition_at :: "char \<Rightarrow> string \<Rightarrow> string \<times> string" where
  "partition_at c s = (takeWhile (\<lambda>x. x \<noteq> c) s, drop 1 (dropWhile (\<lambda>x. x \<noteq> c) s))"

definition without :: "char \<Rightarrow> string \<Rightarrow> string" where
  "without c s = filter (\<lambda>x. x \<noteq> c) s"

text \<open>A comprehension over the entries of a dict, its keys made strings.\<close>

fun dict_map :: "pylib \<Rightarrow> (pyval \<Rightarrow> 'v result) \<Rightarrow> pydict \<Rightarrow> 'v dict \<Rightarrow> 'v dict result" where
  "dict_map lib f [] acc = Inr acc"
| "dict_map lib f ((k, v) # d) acc =
     bindR (f v) (\<lambda>x. dict_map lib f d (AList.update (str_of lib k) x acc))"

fun foldR :: "('a \<Rightarrow> 'b \<Rightarrow> 'b result) \<Rightarrow> 'a list \<Rightarrow> 'b \<Rightarrow> 'b result" where
  "foldR f [] b = Inr b"
| "foldR f (x # xs) b = bindR (f x b) (foldR f xs)"

section \<open>Readers of single values\<close>

definition as_bool :: "pylib \<Rightarrow> pyval \<Rightarrow> bool \<Rightarrow> bool" where
  "as_bool lib v dflt =
     (case v of
        PNone \<Rightarrow> dflt
      | PBool b \<Rightarrow> b
      | PInt n \<Rightarrow> n \<noteq> 0
      | PFloat x \<Rightarrow> x \<noteq> 0
      | _ \<Rightarrow> lower (strip (str_of lib v)) \<notin> {''false'', ''0'', ''no'', ''off''})"

definition parse_htf_lookback :: "pylib \<Rightarrow> pyval \<Rightarrow> lookback result" where
  "parse_htf_lookback lib raw =
     (case raw of
        PNone \<Rightarrow> Inr (LB_Int 120)
      | PDict d \<Rightarrow> bindR (dict_map lib int_of d []) (\<lambda>m. Inr (LB_Map m))
      | _ \<Rightarrow> Inr (LB_Int (case int_of raw of Inl e \<Rightarrow> 120 | Inr n \<Rightarrow> n)))"

text \<open>The shorthand \<open>5/1:3,60/5:10\<close>.\<close>

fun parse_shorthand :: "pylib \<Rightarrow> string list \<Rightarrow> real dict \<Rightarrow> real dict result" where
  "parse_shorthand lib [] acc = Inr acc"
| "parse_shorthand lib (p # ps) acc =
     (let part = strip p in
      if CHR '':'' \<notin> set part then parse_shorthand lib ps acc
      else case rsplit_once CHR '':'' part of (pair, cap) \<Rightarrow>
        bindR (lib_float lib (strip cap)) (\<lambda>x. parse_shorthand lib ps (AList.update (strip pair) x acc)))"

text \<open>The JSON attempt: \<open>None\<close> where one of the caught exceptions is raised.\<close>

definition parse_json_map :: "pylib \<Rightarrow> string \<Rightarrow> real dict result option" where
  "parse_json_map lib raw =
     (case lib_json lib raw of
        Inl e \<Rightarrow> None
      | Inr (PDict d) \<Rightarrow> (case dict_map lib (real_of_val lib) d [] of Inl e \<Rightarrow> None | Inr m \<Rightarrow> Some (Inr m))
      | Inr _ \<Rightarrow> Some (Inl AttributeError))"

definition parse_pair_map :: "pylib \<Rightarrow> pyval \<Rightarrow> real dict result" where
  "parse_pair_map lib raw =
     (case raw of
        PNone \<Rightarrow> Inr []
      | PDict d \<Rightarrow> dict_map lib (real_of_val lib) d []
      | PStr s \<Rightarrow>
          (let t = strip s in
           if t = [] then Inr []
           else case parse_json_map lib t of
                  Some r \<Rightarrow> r
                | None \<Rightarrow> parse_shorthand lib (split_on CHR '','' t) [])
      | _ \<Rightarrow> Inl AttributeError)"

definition symbol_of_key :: "pylib \<Rightarrow> pyval \<Rightarrow> string" where
  "symbol_of_key lib k =
     (let s = str_of lib k in if s = ''*'' then s else without CHR ''/'' (upper s))"

definition opt_real :: "pylib \<Rightarrow> pydict \<Rightarrow> string \<Rightarrow> real option result" where
  "opt_real lib d k =
     (case map_of d (PStr k) of None \<Rightarrow> Inr None | Some v \<Rightarrow> bindR (real_of_val lib v) (\<lambda>x. Inr (Some x)))"

definition parse_rr_entry :: "pylib \<Rightarrow> pydict \<Rightarrow> rr_entry result" where
  "parse_rr_entry lib d =
     bindR (opt_real lib d ''min_rr'') (\<lambda>lo. bindR (opt_real lib d ''max_rr'') (\<lambda>hi.
     Inr \<lparr>rre_min = lo, rre_max = hi\<rparr>))"

definition add_rr_entry :: "pylib \<Rightarrow> pyval \<times> pyval \<Rightarrow> rr_entry dict \<Rightarrow> rr_entry dict result" where
  "add_rr_entry lib kv acc =
     (case snd kv of
        PDict d \<Rightarrow> bindR (parse_rr_entry lib d) (\<lambda>e.
          Inr (if e = \<lparr>rre_min = None, rre_max = None\<rparr> then acc
               else AList.update (str_of lib (fst kv)) e acc))
      | _ \<Rightarrow> Inr acc)"

definition add_rr_symbol ::
  "pylib \<Rightarrow> pyval \<times> pyval \<Rightarrow> rr_entry dict dict \<Rightarrow> rr_entry dict dict result" where
  "add_rr_symbol lib kv acc =
     (case snd kv of
        PDict d \<Rightarrow> bindR (foldR (add_rr_entry lib) d []) (\<lambda>m.
          Inr (if m = [] then acc else AList.update (symbol_of_key lib (fst kv)) m acc))
      | _ \<Rightarrow> Inr acc)"

definition parse_symbol_rr_filter :: "pylib \<Rightarrow> pyval \<Rightarrow> rr_entry dict dict result" where
  "parse_symbol_rr_filter lib raw =
     (case raw of PDict d \<Rightarrow> foldR (add_rr_symbol lib) d [] | _ \<Rightarrow> Inr [])"

definition no_override :: tm_override where
  "no_override = \<lparr>ov_tp1_trigger_pct = None, ov_tp1_close_pct = None, ov_move_sl_to_be = None\<rparr>"

definition add_override :: "pylib \<Rightarrow> pyval \<times> pyval \<Rightarrow> tm_override \<Rightarrow> tm_override result" where
  "add_override lib kv ov =
     (if fst kv = PStr ''move_sl_to_be_on_tp1''
      then Inr (ov\<lparr>ov_move_sl_to_be := Some (as_bool lib (snd kv) False)\<rparr>)
      else if fst kv = PStr ''tp1_trigger_pct''
      then bindR (real_of_val lib (snd kv)) (\<lambda>x. Inr (ov\<lparr>ov_tp1_trigger_pct := Some x\<rparr>))
      else if fst kv = PStr ''tp1_close_pct''
      then bindR (real_of_val lib (snd kv)) (\<lambda>x. Inr (ov\<lparr>ov_tp1_close_pct := Some x\<rparr>))
      else Inl ValueError)"

definition add_tm_pair :: "pylib \<Rightarrow> pyval \<times> pyval \<Rightarrow> tm_override dict \<Rightarrow> tm_override dict result" where
  "add_tm_pair lib kv acc =
     (case snd kv of
        PDict d \<Rightarrow> bindR (foldR (add_override lib) d no_override) (\<lambda>ov.
          Inr (if ov = no_override then acc else AList.update (str_of lib (fst kv)) ov acc))
      | _ \<Rightarrow> Inl ValueError)"

definition add_tm_symbol ::
  "pylib \<Rightarrow> pyval \<times> pyval \<Rightarrow> tm_override dict dict \<Rightarrow> tm_override dict dict result" where
  "add_tm_symbol lib kv acc =
     (case snd kv of
        PDict d \<Rightarrow> bindR (foldR (add_tm_pair lib) d []) (\<lambda>m.
          Inr (if m = [] then acc else AList.update (symbol_of_key lib (fst kv)) m acc))
      | _ \<Rightarrow> Inl ValueError)"

definition parse_tm_overrides :: "pylib \<Rightarrow> pyval \<Rightarrow> tm_override dict dict result" where
  "parse_tm_overrides lib raw =
     (case raw of
        PNone \<Rightarrow> Inr []
      | PDict d \<Rightarrow> foldR (add_tm_symbol lib) d []
      | _ \<Rightarrow> Inl ValueError)"

definition int_set :: "pylib \<Rightarrow> pyval \<Rightarrow> int set \<Rightarrow> int set result" where
  "int_set lib v dflt =
     (case v of
        PNone \<Rightarrow> Inr dflt
      | PStr [] \<Rightarrow> Inr {}
      | PList xs \<Rightarrow> bindR (mapR int_of xs) (\<lambda>ns. Inr (set ns))
      | _ \<Rightarrow> bindR (mapR (\<lambda>x. py_int (strip x)) (filter (\<lambda>x. strip x \<noteq> []) (split_on CHR '','' (str_of lib v))))
               (\<lambda>ns. Inr (set ns)))"

definition clock_time :: "int \<Rightarrow> int \<Rightarrow> dtime result" where
  "clock_time h m = (if 0 \<le> h \<and> h \<le> 23 \<and> 0 \<le> m \<and> m \<le> 59 then Inr (h, m) else Inl ValueError)"

definition parse_time :: "pylib \<Rightarrow> pyval \<Rightarrow> dtime \<Rightarrow> dtime result" where
  "parse_time lib v dflt =
     (if v = PNone then Inr dflt
      else case partition_at CHR '':'' (strip (str_of lib v)) of (hour, minute) \<Rightarrow>
        bindR (py_int hour) (\<lambda>h. bindR (if minute = [] then Inr 0 else py_int minute) (\<lambda>m. clock_time h m)))"

definition WEEKDAYS :: "(string \<times> int) list" where
  "WEEKDAYS =
     [(''mon'', 0), (''monday'', 0), (''tue'', 1), (''tuesday'', 1), (''wed'', 2), (''wednesday'', 2),
      (''thu'', 3), (''thursday'', 3), (''fri'', 4), (''friday'', 4), (''sat'', 5), (''saturday'', 5),
      (''sun'', 6), (''sunday'', 6)]"

definition weekday_number :: "pylib \<Rightarrow> pyval \<Rightarrow> int \<Rightarrow> int result" where
  "weekday_number lib v dflt =
     (case v of
        PInt n \<Rightarrow> Inr n
      | PBool b \<Rightarrow> Inr (if b then 1 else 0)
      | _ \<Rightarrow>
          (let raw = lower (strip (str_of lib v)) in
           case map_of WEEKDAYS raw of
             Some n \<Rightarrow> Inr n
           | None \<Rightarrow> if raw \<noteq> [] \<and> list_all is_digit raw then py_int raw else Inr dflt))"

definition parse_weekday :: "pylib \<Rightarrow> pyval \<Rightarrow> int \<Rightarrow> int result" where
  "parse_weekday lib v dflt =
     (if v = PNone then Inr dflt
      else bindR (weekday_number lib v dflt) (\<lambda>n. if n < 0 \<or> 6 < n then Inl ValueError else Inr n))"

definition fresh_session :: session_window where
  "fresh_session = \<lparr>ses_start = (0, 0), ses_end = (0, 0), ses_enabled = False, ses_blocked = {}\<rparr>"

definition dget :: "pydict \<Rightarrow> string \<Rightarrow> pyval" where
  "dget d k = (case map_of d (PStr k) of None \<Rightarrow> PNone | Some v \<Rightarrow> v)"

definition session_from :: "pylib \<Rightarrow> session_window \<Rightarrow> pydict \<Rightarrow> session_window result" where
  "session_from lib b ov =
     bindR (parse_time lib (dget ov ''start'') (ses_start b)) (\<lambda>s.
     bindR (parse_time lib (dget ov ''end'') (ses_end b)) (\<lambda>e.
     let en = as_bool lib (dget ov ''enabled'') (ses_enabled b) in
     bindR (int_set lib (dget ov ''blocked_hours'') (ses_blocked b)) (\<lambda>bl.
     Inr \<lparr>ses_start = s, ses_end = e, ses_enabled = en, ses_blocked = bl\<rparr>)))"

definition add_session ::
  "pylib \<Rightarrow> pyval \<times> pyval \<Rightarrow> session_window dict \<Rightarrow> session_window dict result" where
  "add_session lib kv acc =
     (let key = upper (str_of lib (fst kv)); b = dict_get acc key fresh_session in
      if \<not> val_truthy (snd kv) then
        bindR (session_from lib b []) (\<lambda>s. Inr (AList.update key s acc))
      else case snd kv of
        PDict ov \<Rightarrow> bindR (session_from lib b ov) (\<lambda>s. Inr (AList.update key s acc))
      | _ \<Rightarrow> Inl AttributeError)"

definition sessions_from_config :: "pylib \<Rightarrow> pyval \<Rightarrow> session_window dict result" where
  "sessions_from_config lib raw =
     (case raw of PDict d \<Rightarrow> foldR (add_session lib) d default_sessions | _ \<Rightarrow> Inr default_sessions)"

text \<open>A pair may have the wrong number of parts: \<open>__post_init__\<close> unpacks it.\<close>

definition tf_pair_item :: "pylib \<Rightarrow> pyval \<Rightarrow> string list option result" where
  "tf_pair_item lib item =
     (case item of
        PStr s \<Rightarrow> Inr (if CHR '':'' \<in> set s then Some (split_on CHR '':'' (strip s)) else None)
      | PDict d \<Rightarrow>
          (case (map_of d (PStr ''htf''), map_of d (PStr ''ltf'')) of
             (Some h, Some l) \<Rightarrow> Inr (Some [str_of lib h, str_of lib l])
           | _ \<Rightarrow> Inl KeyError)
      | PList [h, l] \<Rightarrow> Inr (Some [str_of lib h, str_of lib l])
      | _ \<Rightarrow> Inr None)"

definition or_default_pairs :: "string list list \<Rightarrow> string list list" where
  "or_default_pairs ps = (if ps = [] then [[''1h'', ''5min'']] else ps)"

definition parse_tf_pairs :: "pylib \<Rightarrow> pyval \<Rightarrow> string list list result" where
  "parse_tf_pairs lib v =
     (case v of
        PNone \<Rightarrow> Inr (or_default_pairs [])
      | PStr s \<Rightarrow>
          Inr (or_default_pairs (map (\<lambda>p. split_on CHR '':'' (strip p))
            (filter (\<lambda>p. CHR '':'' \<in> set (strip p)) (split_on CHR '','' s))))
      | _ \<Rightarrow> bindR (iterate v) (\<lambda>items. bindR (mapR (tf_pair_item lib) items) (\<lambda>ps.
               Inr (or_default_pairs (List.map_filter id ps)))))"

definition add_entry_model :: "pylib \<Rightarrow> pyval \<Rightarrow> string dict \<Rightarrow> string dict result" where
  "add_entry_model lib item acc =
     (case item of
        PDict d \<Rightarrow>
          (case map_of d (PStr ''entry_model'') of
             None \<Rightarrow> Inr acc
           | Some m \<Rightarrow>
               (case (map_of d (PStr ''htf''), map_of d (PStr ''ltf'')) of
                  (Some h, Some l) \<Rightarrow>
                    bindR (tf_key (str_of lib h) (str_of lib l)) (\<lambda>key.
                    Inr (AList.update key (lower (strip (str_of lib m))) acc))
                | _ \<Rightarrow> Inl KeyError))
      | _ \<Rightarrow> Inr acc)"

definition parse_tf_entry_models :: "pylib \<Rightarrow> pyval \<Rightarrow> string dict result" where
  "parse_tf_entry_models lib v =
     (case v of PList items \<Rightarrow> foldR (add_entry_model lib) items [] | _ \<Rightarrow> Inr [])"

section \<open>Files\<close>

type_synonym files = "string \<Rightarrow> pyval result option"

record process =
  pr_environ :: "string \<Rightarrow> string option"
  pr_dotenv :: "string \<Rightarrow> string option"
  pr_cwd :: string
  pr_home :: string
  pr_files :: files

definition path_parent :: "string \<Rightarrow> string" where
  "path_parent p =
     (if CHR ''/'' \<notin> set p then ''.''
      else if fst (rsplit_once CHR ''/'' p) = [] then ''/'' else fst (rsplit_once CHR ''/'' p))"

definition path_join :: "string \<Rightarrow> string \<Rightarrow> string" where
  "path_join p s = (if take 1 s = ''/'' then s else if p = ''.'' then s else p @ ''/'' @ s)"

definition expand_user :: "process \<Rightarrow> string \<Rightarrow> string" where
  "expand_user pr p = (if p = ''~'' \<or> take 2 p = ''~/'' then pr_home pr @ drop 1 p else p)"

text \<open>\<open>load_dotenv(override=False)\<close> adds the variables that are not set.\<close>

definition getenv :: "process \<Rightarrow> string \<Rightarrow> string option" where
  "getenv pr k = (case pr_environ pr k of None \<Rightarrow> pr_dotenv pr k | Some v \<Rightarrow> Some v)"

definition getenv_or :: "process \<Rightarrow> string \<Rightarrow> string \<Rightarrow> string" where
  "getenv_or pr k dflt = (case getenv pr k of None \<Rightarrow> dflt | Some v \<Rightarrow> v)"

definition bool_env :: "process \<Rightarrow> string \<Rightarrow> bool \<Rightarrow> bool" where
  "bool_env pr key dflt =
     (case getenv pr key of None \<Rightarrow> dflt | Some v \<Rightarrow> lower (strip v) \<notin> {''false'', ''0'', ''no''})"

definition load_yaml :: "files \<Rightarrow> string \<Rightarrow> pydict result" where
  "load_yaml fs path =
     (case fs path of
        None \<Rightarrow> Inl FileNotFoundError
      | Some r \<Rightarrow> bindR r (\<lambda>data.
          if \<not> val_truthy data then Inr [] else case data of PDict d \<Rightarrow> Inr d | _ \<Rightarrow> Inl ValueError))"

definition config_path_from_env :: "process \<Rightarrow> string option" where
  "config_path_from_env pr =
     (let raw = str_or (getenv_or pr ''USE_CONFIG'' []) (getenv_or pr ''APEX_CONFIG'' []) in
      if raw \<noteq> [] then Some (expand_user pr raw)
      else if pr_files pr ''config.yaml'' \<noteq> None then Some ''config.yaml'' else None)"

fun get_path :: "pyval \<Rightarrow> string list \<Rightarrow> pyval option" where
  "get_path v [] = Some v"
| "get_path (PDict d) (k # ks) = (case map_of d (PStr k) of None \<Rightarrow> None | Some v \<Rightarrow> get_path v ks)"
| "get_path _ (k # ks) = None"

definition cfg_get :: "pydict \<Rightarrow> string \<Rightarrow> pyval \<Rightarrow> pyval" where
  "cfg_get d key dflt =
     (case get_path (PDict d) (split_on CHR ''.'' key) of None \<Rightarrow> dflt | Some v \<Rightarrow> v)"

function deep_merge :: "pydict \<Rightarrow> pydict \<Rightarrow> pydict" where
  "deep_merge base [] = base"
| "deep_merge base ((k, v) # ov) =
     deep_merge
       (AList.update k
          (case (map_of base k, v) of (Some (PDict b), PDict o') \<Rightarrow> PDict (deep_merge b o') | _ \<Rightarrow> v) base)
       ov"
  by pat_completeness auto
termination by (relation "measure (\<lambda>(b, ov). size_list (size_prod size size) ov)") auto

definition creds_file :: "process \<Rightarrow> string \<Rightarrow> string option" where
  "creds_file pr config_path =
     List.find (\<lambda>p. pr_files pr p \<noteq> None)
       [path_join (path_parent config_path) ''mt5-credentials.yaml'',
        path_join (pr_cwd pr) ''mt5-credentials.yaml'']"

definition resolve_broker_cfg :: "pylib \<Rightarrow> process \<Rightarrow> pydict \<Rightarrow> string option \<Rightarrow> pydict result" where
  "resolve_broker_cfg lib pr base_cfg config_path =
     (let profile = cfg_get base_cfg ''mt5.use'' PNone in
      case config_path of
        None \<Rightarrow> Inr base_cfg
      | Some path \<Rightarrow>
          if \<not> val_truthy profile then Inr base_cfg
          else bindR (case creds_file pr path of None \<Rightarrow> Inr [] | Some c \<Rightarrow> load_yaml (pr_files pr) c) (\<lambda>data.
            let ref = (case map_of data (PStr (str_of lib profile)) of Some (PDict e) \<Rightarrow> dget e ''config'' | _ \<Rightarrow> PNone) in
            if \<not> val_truthy ref then Inr base_cfg
            else case ref of
              PStr s \<Rightarrow>
                (let p = path_join (path_parent path) s in
                 if pr_files pr p = None then Inl FileNotFoundError
                 else bindR (load_yaml (pr_files pr) p) (\<lambda>ov. Inr (deep_merge base_cfg ov)))
            | _ \<Rightarrow> Inl TypeError))"

text \<open>\<open>dict(v)\<close>: a dict, or items of two elements each.\<close>

definition pair_item :: "pyval \<Rightarrow> (pyval \<times> pyval) result" where
  "pair_item v = bindR (iterate v) (\<lambda>xs. case xs of [a, b] \<Rightarrow> Inr (a, b) | _ \<Rightarrow> Inl ValueError)"

definition dict_of_val :: "pyval \<Rightarrow> pydict result" where
  "dict_of_val v =
     (case v of PDict d \<Rightarrow> Inr d | _ \<Rightarrow> bindR (iterate v) (\<lambda>xs. bindR (mapR pair_item xs) (\<lambda>kvs.
        Inr (fold (\<lambda>(k, x). AList.update k x) kvs []))))"

record mt5_creds =
  mc_login :: int
  mc_password :: string
  mc_server :: string
  mc_terminal :: string
  mc_offset_ms :: int
  mc_aliases :: "string dict"

text \<open>The names in the aliases are strings.\<close>

definition load_mt5_profile :: "pylib \<Rightarrow> process \<Rightarrow> string \<Rightarrow> string \<Rightarrow> mt5_creds result" where
  "load_mt5_profile lib pr config_path profile =
     (case creds_file pr config_path of
        None \<Rightarrow> Inl FileNotFoundError
      | Some c \<Rightarrow>
          bindR (load_yaml (pr_files pr) c) (\<lambda>data.
          case map_of data (PStr profile) of
            Some (PDict p) \<Rightarrow>
              (let login = dget p ''login''; password = dget p ''password'';
                   server = dget p ''server''; terminal = dget p ''terminal_path'' in
               if \<not> (val_truthy login \<and> val_truthy password \<and> val_truthy server \<and> val_truthy terminal) then Inl ValueError
               else
                 bindR (case map_of p (PStr ''broker_time_offset_hours'') of
                          None \<Rightarrow> Inr 0 | Some v \<Rightarrow> real_of_val lib v) (\<lambda>hours.
                 bindR (if val_truthy (dget p ''symbol_aliases'') then dict_of_val (dget p ''symbol_aliases'') else Inr [])
                   (\<lambda>aliases.
                 bindR (int_of login) (\<lambda>n.
                 Inr \<lparr>mc_login = n, mc_password = str_of lib password, mc_server = str_of lib server,
                      mc_terminal = str_of lib terminal, mc_offset_ms = trunc (hours * 3600000),
                      mc_aliases = map (\<lambda>(k, v). (str_of lib k, str_of lib v)) aliases\<rparr>))))
          | Some _ \<Rightarrow> Inl ValueError
          | None \<Rightarrow> Inl (if list_all (\<lambda>(k, v). case k of PStr _ \<Rightarrow> True | _ \<Rightarrow> False) data then ValueError else TypeError)))"

definition resolve_mt5_credentials ::
  "pylib \<Rightarrow> process \<Rightarrow> pydict \<Rightarrow> string option \<Rightarrow> mt5_creds result" where
  "resolve_mt5_credentials lib pr base_cfg config_path =
     (let profile = cfg_get base_cfg ''mt5.use'' PNone in
      if val_truthy profile then
        load_mt5_profile lib pr
          (case config_path of Some p \<Rightarrow> p | None \<Rightarrow> path_join (pr_cwd pr) ''config.yaml'')
          (str_of lib profile)
      else
        bindR (py_int (str_or (getenv_or pr ''MT5_LOGIN'' ''0'') ''0'')) (\<lambda>login.
        bindR (real_of_val lib (cfg_get base_cfg ''mt5.broker_time_offset_hours'' (PFloat 0))) (\<lambda>hours.
        Inr \<lparr>mc_login = login, mc_password = getenv_or pr ''MT5_PASSWORD'' [],
             mc_server = getenv_or pr ''MT5_SERVER'' [],
             mc_terminal = str_of lib (cfg_get base_cfg ''mt5.terminal_path'' (PStr [])),
             mc_offset_ms = trunc (hours * 3600000), mc_aliases = []\<rparr>)))"

section \<open>The factories\<close>

text \<open>
  \<open>cls(...)\<close>: the arguments in their order, then \<open>__post_init__\<close>. The two factories give the same
  values from the files and differ in what is passed here.
\<close>

definition unpack_pair :: "string list \<Rightarrow> (string \<times> string) result" where
  "unpack_pair p = (case p of [h, l] \<Rightarrow> Inr (h, l) | _ \<Rightarrow> Inl ValueError)"

definition build_settings ::
  "pylib \<Rightarrow> pydict \<Rightarrow> mt5_creds result \<Rightarrow> string \<Rightarrow> string \<Rightarrow> string list result \<Rightarrow> string \<Rightarrow> string \<Rightarrow> bool \<Rightarrow>
   settings result" where
  "build_settings lib cfg creds base_dir profile symbols env confirm no_trading =
     (let rd = (\<lambda>k d. real_of_val lib (cfg_get cfg k d)); it = (\<lambda>k d. int_of (cfg_get cfg k d));
          st = (\<lambda>k d. str_of lib (cfg_get cfg k (PStr d))); bo = (\<lambda>k d. as_bool lib (cfg_get cfg k d) False)
      in
      bindR creds (\<lambda>c.
      bindR (it ''mt5.timeout_ms'' (PInt 60000)) (\<lambda>timeout.
      bindR symbols (\<lambda>syms.
      bindR (parse_weekday lib (cfg_get cfg ''market.weekend_sleep.close_weekday'' (PStr ''saturday'')) 5) (\<lambda>close_wd.
      bindR (parse_time lib (cfg_get cfg ''market.weekend_sleep.close_time'' (PStr ''00:00'')) (0, 0)) (\<lambda>close_t.
      bindR (parse_weekday lib (cfg_get cfg ''market.weekend_sleep.reopen_weekday'' (PStr ''monday'')) 0) (\<lambda>open_wd.
      bindR (parse_time lib (cfg_get cfg ''market.weekend_sleep.reopen_time'' (PStr ''00:00'')) (0, 0)) (\<lambda>open_t.
      bindR (parse_tf_pairs lib (cfg_get cfg ''timeframes.pairs'' PNone)) (\<lambda>pairs.
      bindR (parse_tf_entry_models lib (cfg_get cfg ''timeframes.pairs'' PNone)) (\<lambda>models.
      bindR (parse_htf_lookback lib (cfg_get cfg ''timeframes.htf_lookback'' (PInt 120))) (\<lambda>lookback.
      bindR (it ''timeframes.htf_outputsize'' (PInt 1000)) (\<lambda>outputsize.
      bindR (rd ''signal_quality.max_sl_zone_mult'' (PFloat 2)) (\<lambda>sl_mult.
      bindR (rd ''signal_quality.max_spread_to_sl_ratio'' (PFloat 0.35)) (\<lambda>spread.
      bindR (rd ''signal_quality.min_rr'' (PFloat 1.5)) (\<lambda>min_rr.
      bindR (rd ''signal_quality.max_rr'' (PFloat 9)) (\<lambda>max_rr.
      bindR (it ''signals.max_emit_lag_ms'' (PInt 90000)) (\<lambda>lag.
      bindR (parse_pair_map lib (cfg_get cfg ''signal_quality.tf_max_rr'' PNone)) (\<lambda>tf_max_rr.
      bindR (parse_symbol_rr_filter lib (cfg_get cfg ''signal_quality.rrr'' PNone)) (\<lambda>rrr.
      bindR (rd ''signal_lifetime.expiry_hours'' (PInt 120)) (\<lambda>expiry.
      bindR (it ''zones.max_htf_zones_per_dir'' (PInt 3)) (\<lambda>zones.
      bindR (it ''zones.max_signal_count'' (PInt 1)) (\<lambda>per_zone.
      bindR (rd ''trade_management.tp1_trigger_pct'' (PFloat 50)) (\<lambda>trigger.
      bindR (rd ''trade_management.tp1_close_pct'' (PFloat 0)) (\<lambda>close_pct.
      bindR (parse_tm_overrides lib (cfg_get cfg ''trade_management.tf_overrides'' PNone)) (\<lambda>tm.
      bindR (it ''displacement_filter.atr_period'' (PInt 10)) (\<lambda>atr_period.
      bindR (rd ''displacement_filter.atr_mult'' (PFloat 1.2)) (\<lambda>atr_mult.
      bindR (parse_pair_map lib (cfg_get cfg ''displacement_filter.tf_mult'' PNone)) (\<lambda>tf_mult.
      bindR (it ''circuit_breaker.max_consecutive_losses'' (PInt 3)) (\<lambda>losses.
      bindR (rd ''circuit_breaker.pause_after_streak_h'' (PInt 12)) (\<lambda>pause.
      bindR (sessions_from_config lib (cfg_get cfg ''session_filter.sessions'' PNone)) (\<lambda>sessions.
      bindR (mapR unpack_pair pairs) (\<lambda>tf_pairs.
      let s = \<lparr>g_base_dir = base_dir, g_log_level = upper (st ''logging.level'' ''INFO''),
        g_log_dir = st ''logging.dir'' ''logs'', g_manager_symbols = syms,
        g_mt5_terminal_path = mc_terminal c, g_mt5_login = mc_login c, g_mt5_password = mc_password c,
        g_mt5_server = mc_server c, g_mt5_timeout_ms = timeout,
        g_mt5_portable = bo ''mt5.portable'' (PBool False), g_mt5_profile = profile,
        g_broker_time_offset_ms = mc_offset_ms c, g_mt5_symbol_aliases = mc_aliases c,
        g_weekend_sleep_enabled = bo ''market.weekend_sleep.enabled'' (PBool True),
        g_weekend_close_weekday = close_wd, g_weekend_close_time = close_t,
        g_weekend_reopen_weekday = open_wd, g_weekend_reopen_time = open_t, g_apex_env = env,
        g_apex_live_confirm = confirm, g_apex_disable_trading = no_trading, g_tf_pairs = tf_pairs,
        g_tf_entry_models = models, g_htf_lookback = lookback, g_htf_outputsize = outputsize,
        g_stop_placement_method = lower (strip (st ''signal_quality.stop_model'' ''wick'')),
        g_max_sl_zone_mult = sl_mult, g_max_spread_to_sl_ratio = spread, g_min_rr = min_rr,
        g_max_rr = max_rr, g_max_emit_lag_ms = lag, g_tf_max_rr = tf_max_rr, g_symbol_rr_filter = rrr,
        g_signal_expiry_hours = expiry, g_max_htf_zones_per_dir = zones,
        g_max_signal_count_per_zone = per_zone,
        g_use_trend_filter = bo ''features.use_trend_filter'' (PBool True),
        g_tp1_trigger_pct = trigger, g_tp1_close_pct = close_pct,
        g_move_sl_to_be_on_tp1 =
          bo ''trade_management.move_sl_to_be_on_tp1'' (cfg_get cfg ''features.use_breakeven'' (PBool True)),
        g_trade_management_tf_overrides = tm,
        g_use_invalidation = bo ''features.use_invalidation'' (PBool False),
        g_multi_tf_independent_positions = bo ''features.multi_tf_independent_positions'' (PBool True),
        g_entry_model = lower (st ''features.entry_model'' ''crt''),
        g_crt_mode = lower (st ''crt.mode'' ''previous_candle''),
        g_signal_price_source = lower (strip (st ''signal_quality.price_source'' ''candle_close'')),
        g_use_displacement_filter = bo ''displacement_filter.enabled'' (PBool True),
        g_displacement_atr_period = atr_period, g_displacement_atr_mult = atr_mult,
        g_tf_displacement_mult = tf_mult, g_max_consecutive_losses = losses,
        g_pause_after_streak_h = pause,
        g_use_session_filter = bo ''session_filter.enabled'' (PBool True), g_sessions = sessions\<rparr>
      in bindR (post_init s) (\<lambda>_. Inr s)))))))))))))))))))))))))))))))))"

definition clean_symbols :: "string list \<Rightarrow> string list" where
  "clean_symbols ss = map (\<lambda>s. upper (strip s)) (filter (\<lambda>s. strip s \<noteq> []) ss)"

definition string_items :: "pyval list \<Rightarrow> string list" where
  "string_items vs = List.map_filter (\<lambda>v. case v of PStr s \<Rightarrow> Some s | _ \<Rightarrow> None) vs"

text \<open>A variable that is set but empty counts as absent.\<close>

definition manager_symbols :: "process \<Rightarrow> pydict \<Rightarrow> string list result" where
  "manager_symbols pr cfg =
     (let raw = getenv_or pr ''MANAGER_SYMBOLS'' [] in
      if raw \<noteq> [] then Inr (clean_symbols (split_on CHR '','' raw))
      else let v = cfg_get cfg ''manager.symbols'' PNone in
        bindR (if val_truthy v then iterate v else Inr []) (\<lambda>items. Inr (clean_symbols (string_items items))))"

definition with_profile :: "pydict \<Rightarrow> string \<Rightarrow> pydict result" where
  "with_profile base_cfg name =
     (let v = dget base_cfg ''mt5'' in
      bindR (if val_truthy v then dict_of_val v else Inr []) (\<lambda>d.
      Inr (AList.update (PStr ''mt5'') (PDict (AList.update (PStr ''use'') (PStr name) d)) base_cfg)))"

definition from_env :: "pylib \<Rightarrow> process \<Rightarrow> settings result" where
  "from_env lib pr =
     (let config_path = config_path_from_env pr; mt5_use = strip (getenv_or pr ''MT5_USE'' []) in
      bindR (case config_path of None \<Rightarrow> Inr [] | Some p \<Rightarrow> load_yaml (pr_files pr) p) (\<lambda>base.
      bindR (if mt5_use = [] then Inr base else with_profile base mt5_use) (\<lambda>base_cfg.
      bindR (resolve_broker_cfg lib pr base_cfg config_path) (\<lambda>cfg.
      build_settings lib cfg (resolve_mt5_credentials lib pr base_cfg config_path) (pr_cwd pr)
        (str_or mt5_use (str_of lib (cfg_get base_cfg ''mt5.use'' (PStr [])))) (manager_symbols pr cfg)
        (lower (strip (getenv_or pr ''APEX_ENV'' ''paper''))) (getenv_or pr ''APEX_LIVE_CONFIRM'' [])
        (bool_env pr ''APEX_DISABLE_TRADING'' False)))))"

definition for_broker :: "pylib \<Rightarrow> process \<Rightarrow> string \<Rightarrow> string \<Rightarrow> string \<Rightarrow> string list \<Rightarrow> settings result" where
  "for_broker lib pr config_path broker base_dir symbols =
     bindR (if pr_files pr config_path = None then Inr [] else load_yaml (pr_files pr) config_path) (\<lambda>base.
     bindR (with_profile base broker) (\<lambda>base_cfg.
     bindR (resolve_broker_cfg lib pr base_cfg (Some config_path)) (\<lambda>cfg.
     build_settings lib cfg (resolve_mt5_credentials lib pr base_cfg (Some config_path)) base_dir broker
       (Inr symbols) ''paper'' [] False)))"

end
