(* ===== verification/Config_Laws.thy ===== *)
theory Config_Laws
  imports Config
begin

text \<open>
  Laws of the configuration: how the layers of the files combine, what any settings read from
  them guarantee, that the two factories agree, where credentials come from, and what is read
  otherwise than written.
\<close>

text \<open>Readers for the examples, in which no string is a number.\<close>

definition sample_lib :: pylib where
  "sample_lib = \<lparr>lib_float = (\<lambda>_. Inl ValueError), lib_json = (\<lambda>_. Inl ValueError), lib_str = (\<lambda>_. [])\<rparr>"

section \<open>Merged files\<close>

definition merged_value :: "pyval option \<Rightarrow> pyval \<Rightarrow> pyval" where
  "merged_value b v = (case (b, v) of (Some (PDict d), PDict ov) \<Rightarrow> PDict (deep_merge d ov) | _ \<Rightarrow> v)"

lemma deep_merge_Cons:
  "deep_merge b ((k, v) # ov) = deep_merge (AList.update k (merged_value (map_of b k) v) b) ov"
  by (simp add: merged_value_def)

lemma map_of_deep_merge:
  "distinct (map fst ov) \<Longrightarrow>
   map_of (deep_merge b ov) k =
     (case map_of ov k of None \<Rightarrow> map_of b k | Some v \<Rightarrow> Some (merged_value (map_of b k) v))"
proof (induction ov arbitrary: b)
  case (Cons kv ov)
  obtain k' v' where kv: "kv = (k', v')" by fastforce
  have "map_of ov k' = None" using Cons.prems by (simp add: kv map_of_eq_None_iff)
  then show ?case
    using Cons by (auto simp: kv deep_merge_Cons update_conv' simp del: deep_merge.simps split: option.split)
qed simp

text \<open>The dicts inside a dict have each key once.\<close>

fun wf_val :: "pyval \<Rightarrow> bool" where
  "wf_val (PDict d) = (distinct (map fst d) \<and> list_all (\<lambda>kv. wf_val (snd kv)) d)"
| "wf_val _ = True"

lemma wf_val_map_of: "wf_val (PDict d) \<Longrightarrow> map_of d k = Some v \<Longrightarrow> wf_val v"
  by (auto simp: list_all_iff dest!: map_of_SomeD)

lemma get_path_dict: "get_path v (k # ks) = Some u \<Longrightarrow> \<exists>d. v = PDict d"
  by (cases v) auto

lemma get_path_not_dict: "\<not> is_dict v \<Longrightarrow> get_path v (k # ks) = None"
  by (cases v) auto

lemma merged_not_dict: "\<not> is_dict v \<Longrightarrow> merged_value b v = v"
  by (cases v) (simp_all add: merged_value_def split: option.split pyval.split)

lemma get_path_override:
  "wf_val (PDict ov) \<Longrightarrow> get_path (PDict ov) ks = Some v \<Longrightarrow> \<not> is_dict v \<Longrightarrow>
   get_path (PDict (deep_merge b ov)) ks = Some v"
proof (induction ks arbitrary: b ov)
  case (Cons k ks)
  from Cons.prems obtain u where u: "map_of ov (PStr k) = Some u" "get_path u ks = Some v"
    by (auto split: option.splits)
  show ?case
  proof (cases u)
    case (PDict ou)
    have "get_path (merged_value (map_of b (PStr k)) u) ks = Some v"
    proof (cases "\<exists>d. map_of b (PStr k) = Some (PDict d)")
      case True
      then show ?thesis
        using Cons.IH [of ou] wf_val_map_of [OF Cons.prems(1) u(1)] u(2) Cons.prems(3) PDict
        by (auto simp: merged_value_def)
    next
      case False
      then have "merged_value (map_of b (PStr k)) u = u"
        by (auto simp: merged_value_def split: option.split pyval.split)
      then show ?thesis using u(2) by simp
    qed
    then show ?thesis using Cons.prems(1) u(1) by (simp add: map_of_deep_merge)
  qed (use Cons.prems(1) u in \<open>simp_all add: map_of_deep_merge merged_not_dict\<close>)
qed auto

text \<open>The override is silent about a path: it ends nowhere on it.\<close>

definition silent :: "pydict \<Rightarrow> string list \<Rightarrow> bool" where
  "silent ov ks \<longleftrightarrow> (\<forall>n. 0 < n \<and> n \<le> length ks \<longrightarrow>
     (case get_path (PDict ov) (take n ks) of None \<Rightarrow> True | Some v \<Rightarrow> is_dict v \<and> n < length ks))"

lemma silent_Cons:
  assumes "silent ov (k # ks)" "map_of ov (PStr k) = Some v"
  shows "\<exists>d. v = PDict d \<and> silent d ks \<and> ks \<noteq> []"
proof -
  have "is_dict v \<and> ks \<noteq> []"
    using assms(1) [unfolded silent_def, rule_format, of 1] assms(2) by simp
  then obtain d where d: "v = PDict d" "ks \<noteq> []" by (cases v) auto
  have "silent d ks"
    unfolding silent_def
  proof (intro allI impI)
    fix n assume "0 < n \<and> n \<le> length ks"
    then show "case get_path (PDict d) (take n ks) of None \<Rightarrow> True | Some v \<Rightarrow> is_dict v \<and> n < length ks"
      using assms(1) [unfolded silent_def, rule_format, of "Suc n"] assms(2) d
      by (simp split: option.splits)
  qed
  with d show ?thesis by blast
qed

lemma get_path_silent_None: "silent ov ks \<Longrightarrow> ks \<noteq> [] \<Longrightarrow> get_path (PDict ov) ks = None"
  unfolding silent_def by (drule spec [of _ "length ks"]) (auto split: option.splits)

lemma get_path_silent:
  "wf_val (PDict ov) \<Longrightarrow> silent ov ks \<Longrightarrow> ks \<noteq> [] \<Longrightarrow>
   get_path (PDict (deep_merge b ov)) ks = get_path (PDict b) ks"
proof (induction ks arbitrary: b ov)
  case (Cons k ks)
  show ?case
  proof (cases "map_of ov (PStr k)")
    case None
    then show ?thesis using Cons.prems(1) by (simp add: map_of_deep_merge)
  next
    case (Some v)
    then obtain d where d: "v = PDict d" "silent d ks" "ks \<noteq> []" using silent_Cons [OF Cons.prems(2)] by blast
    then obtain k' ks' where ks: "ks = k' # ks'" by (cases ks) auto
    have "get_path (merged_value (map_of b (PStr k)) v) ks =
        (case map_of b (PStr k) of None \<Rightarrow> None | Some u \<Rightarrow> get_path u ks)"
    proof (cases "\<exists>bd. map_of b (PStr k) = Some (PDict bd)")
      case True
      then show ?thesis
        using Cons.IH [of d] wf_val_map_of [OF Cons.prems(1) Some] d by (auto simp: merged_value_def)
    next
      case False
      then have "merged_value (map_of b (PStr k)) v = PDict d"
        using d(1) by (auto simp: merged_value_def split: option.split pyval.split)
      moreover have "(case map_of b (PStr k) of None \<Rightarrow> None | Some u \<Rightarrow> get_path u ks) = None"
        using False by (auto simp: ks split: option.split) (metis get_path_dict not_Some_eq)
      ultimately show ?thesis using get_path_silent_None [OF d(2,3)] by simp
    qed
    then show ?thesis using Cons.prems(1) Some by (simp add: map_of_deep_merge)
  qed
qed simp

lemma split_on_nonempty [simp]: "split_on c s \<noteq> []"
  by (induction c s rule: split_on.induct) (auto split: list.split)

text \<open>
  C13: the file of the broker is a layer over the main file. A value the broker's file gives at a
  key is the one read, whatever the main file says, and a key the broker's file says nothing
  about is read as in the main file, also inside a section that both files have.
\<close>

theorem broker_file_is_a_layer:
  assumes "wf_val (PDict ov)"
  shows "(\<forall>v. get_path (PDict ov) (split_on CHR ''.'' key) = Some v \<longrightarrow> \<not> is_dict v \<longrightarrow>
       cfg_get (deep_merge base ov) key dflt = v) \<and>
     (silent ov (split_on CHR ''.'' key) \<longrightarrow>
       cfg_get (deep_merge base ov) key dflt = cfg_get base key dflt)"
  using get_path_override [OF assms] get_path_silent [OF assms] by (simp add: cfg_get_def)

definition broker_file :: pydict where
  "broker_file = [(PStr ''zones'', PDict [(PStr ''max_signal_count'', PInt 3)])]"

definition main_file :: pydict where
  "main_file = [(PStr ''zones'', PDict [(PStr ''max_htf_zones_per_dir'', PInt 2), (PStr ''max_signal_count'', PInt 2)])]"

lemma broker_file_split: "split_on CHR ''.'' ''zones.max_signal_count'' = [''zones'', ''max_signal_count'']"
  "split_on CHR ''.'' ''zones.max_htf_zones_per_dir'' = [''zones'', ''max_htf_zones_per_dir'']"
  by simp_all

theorem broker_file_is_a_layer_witness:
  "cfg_get (deep_merge main_file broker_file) ''zones.max_signal_count'' PNone = PInt 3 \<and>
   cfg_get (deep_merge main_file broker_file) ''zones.max_htf_zones_per_dir'' PNone = PInt 2"
proof -
  have wf: "wf_val (PDict broker_file)" by (simp add: broker_file_def)
  have "silent broker_file [''zones'', ''max_htf_zones_per_dir'']"
    by (auto simp: silent_def broker_file_def le_Suc_eq)
  then show ?thesis
    using broker_file_is_a_layer [OF wf, of "''zones.max_signal_count''" main_file PNone]
      broker_file_is_a_layer [OF wf, of "''zones.max_htf_zones_per_dir''" main_file PNone]
    unfolding broker_file_split by (simp add: broker_file_def main_file_def cfg_get_def)
qed

section \<open>What settings from files guarantee\<close>

definition on_clock :: "dtime \<Rightarrow> bool" where
  "on_clock t \<longleftrightarrow> 0 \<le> fst t \<and> fst t \<le> 23 \<and> 0 \<le> snd t \<and> snd t \<le> 59"

lemma parse_time_on_clock: "parse_time lib v d = Inr t \<Longrightarrow> on_clock d \<Longrightarrow> on_clock t"
  by (auto simp: parse_time_def clock_time_def on_clock_def bindR_Inr_iff split: if_splits prod.splits)

lemma parse_weekday_range: "parse_weekday lib v d = Inr n \<Longrightarrow> 0 \<le> d \<and> d \<le> 6 \<Longrightarrow> 0 \<le> n \<and> n \<le> 6"
  by (auto simp: parse_weekday_def bindR_Inr_iff split: if_splits)

definition sessions_on_clock :: "session_window dict \<Rightarrow> bool" where
  "sessions_on_clock m \<longleftrightarrow> (\<forall>(n, w) \<in> set m. on_clock (ses_start w) \<and> on_clock (ses_end w))"

lemma foldR_inv:
  "foldR f xs b = Inr c \<Longrightarrow> I b \<Longrightarrow> (\<And>x b c. I b \<Longrightarrow> f x b = Inr c \<Longrightarrow> I c) \<Longrightarrow> I c"
  by (induction xs arbitrary: b) (auto simp: bindR_Inr_iff)

lemma session_from_on_clock:
  "session_from lib b ov = Inr w \<Longrightarrow> on_clock (ses_start b) \<and> on_clock (ses_end b) \<Longrightarrow>
   on_clock (ses_start w) \<and> on_clock (ses_end w)"
  by (auto simp: session_from_def bindR_Inr_iff Let_def intro: parse_time_on_clock)

lemma dict_get_on_clock:
  "sessions_on_clock m \<Longrightarrow> on_clock (ses_start (dict_get m k fresh_session)) \<and> on_clock (ses_end (dict_get m k fresh_session))"
  by (auto simp: dict_get_def sessions_on_clock_def fresh_session_def on_clock_def
      split: option.split dest!: map_of_SomeD)

lemma add_session_on_clock: "sessions_on_clock m \<Longrightarrow> add_session lib kv m = Inr m' \<Longrightarrow> sessions_on_clock m'"
proof -
  assume m: "sessions_on_clock m" and "add_session lib kv m = Inr m'"
  then obtain k ov w where w: "session_from lib (dict_get m k fresh_session) ov = Inr w" "m' = AList.update k w m"
    by (auto simp: add_session_def Let_def bindR_Inr_iff split: if_splits pyval.splits)
  from session_from_on_clock [OF w(1) dict_get_on_clock [OF m]] m set_update_subset [of k w m]
  show ?thesis unfolding w(2) sessions_on_clock_def by fastforce
qed

lemma sessions_from_config_on_clock: "sessions_from_config lib raw = Inr m \<Longrightarrow> sessions_on_clock m"
proof -
  have "sessions_on_clock default_sessions"
    by (simp add: sessions_on_clock_def default_sessions_def on_clock_def)
  then show "sessions_from_config lib raw = Inr m \<Longrightarrow> sessions_on_clock m"
    by (auto simp: sessions_from_config_def split: pyval.splits
        elim: foldR_inv [where I = sessions_on_clock] intro: add_session_on_clock)
qed

definition sound_settings :: "settings \<Rightarrow> bool" where
  "sound_settings s \<longleftrightarrow>
     post_init s = Inr () \<and>
     0 \<le> g_weekend_close_weekday s \<and> g_weekend_close_weekday s \<le> 6 \<and>
     0 \<le> g_weekend_reopen_weekday s \<and> g_weekend_reopen_weekday s \<le> 6 \<and>
     on_clock (g_weekend_close_time s) \<and> on_clock (g_weekend_reopen_time s) \<and>
     sessions_on_clock (g_sessions s)"

lemma on_clock_midnight [simp]: "on_clock (0, 0)"
  by (simp add: on_clock_def)

lemma build_settings_sound:
  assumes "build_settings lib cfg creds bd prof syms env confirm nt = Inr s"
  shows "sound_settings s"
  using assms unfolding build_settings_def Let_def
  by (clarsimp simp: bindR_Inr_iff sound_settings_def)
    (intro conjI; (erule parse_time_on_clock parse_weekday_range [THEN conjunct1] parse_weekday_range [THEN conjunct2]
      sessions_from_config_on_clock; simp)?)

text \<open>
  C12: settings that come from files are sound. Whatever the environment and the files hold, a
  factory that returns has run the validation on the very settings it returns, the weekdays of
  the weekend are days of the week, and its times and those of every session are times of day.
\<close>

theorem factories_return_sound_settings:
  "(from_env lib pr = Inr s \<longrightarrow> sound_settings s) \<and>
   (for_broker lib pr' path broker dir symbols = Inr s' \<longrightarrow> sound_settings s')"
  by (auto simp: from_env_def for_broker_def Let_def bindR_Inr_iff split: if_splits intro: build_settings_sound)

section \<open>Nothing configured\<close>

lemma cfg_get_empty [simp]: "cfg_get [] key d = d"
  by (cases "split_on CHR ''.'' key") (simp_all add: cfg_get_def)

definition bare_process :: "string \<Rightarrow> string \<Rightarrow> process" where
  "bare_process cwd home =
     \<lparr>pr_environ = (\<lambda>_. None), pr_dotenv = (\<lambda>_. None), pr_cwd = cwd, pr_home = home, pr_files = (\<lambda>_. None)\<rparr>"

lemma bare_getenv [simp]: "getenv_or (bare_process cwd home) k d = d" "bool_env (bare_process cwd home) k b = b"
  by (simp_all add: getenv_or_def getenv_def bool_env_def bare_process_def)

lemma bare_readers:
  "parse_weekday lib (PStr ''saturday'') 5 = Inr 5" "parse_weekday lib (PStr ''monday'') 0 = Inr 0"
  "parse_time lib (PStr ''00:00'') (0, 0) = Inr (0, 0)" "py_int ''0'' = Inr 0"
  by (simp_all add: parse_weekday_def weekday_number_def WEEKDAYS_def parse_time_def partition_at_def
      clock_time_def py_defs of_char_def)

lemma bare_strings:
  "lower (strip ''paper'') = ''paper''" "upper ''INFO'' = ''INFO''" "lower (strip ''wick'') = ''wick''"
  "lower ''crt'' = ''crt''" "lower ''previous_candle'' = ''previous_candle''"
  "lower (strip ''candle_close'') = ''candle_close''" "strip [] = []"
  by code_simp+

definition factory_settings :: "string \<Rightarrow> settings" where
  "factory_settings cwd =
     (default_settings cwd)\<lparr>g_max_htf_zones_per_dir := 3, g_max_consecutive_losses := 3, g_pause_after_streak_h := 12\<rparr>"

lemma factory_settings_valid: "post_init (factory_settings cwd) = Inr ()"
  using default_settings_valid [of cwd] by (simp add: post_init_def factory_settings_def)

lemma unconfigured_from_env:
  "from_env lib (bare_process cwd home) = Inr (factory_settings cwd)"
proof -
  have "from_env lib (bare_process cwd home) =
      build_settings lib [] (Inr \<lparr>mc_login = 0, mc_password = [], mc_server = [], mc_terminal = [],
        mc_offset_ms = 0, mc_aliases = []\<rparr>) cwd [] (Inr []) ''paper'' [] False"
    by (simp add: from_env_def config_path_from_env_def str_or_def resolve_broker_cfg_def
        resolve_mt5_credentials_def manager_symbols_def clean_symbols_def string_items_def
        bare_readers bare_strings)
      (simp add: bare_process_def List.map_filter_def)
  also have "\<dots> = bindR (post_init (factory_settings cwd)) (\<lambda>_. Inr (factory_settings cwd))"
    by (simp add: build_settings_def Let_def bare_readers bare_strings parse_tf_pairs_def or_default_pairs_def
        parse_tf_entry_models_def parse_htf_lookback_def parse_pair_map_def parse_symbol_rr_filter_def
        parse_tm_overrides_def sessions_from_config_def unpack_pair_def as_bool_def factory_settings_def
        default_settings_def)
  finally show ?thesis by (simp add: factory_settings_valid)
qed

text \<open>
  without a configuration the factory does not return the defaults of the class. With no
  variable and no file, \<open>from_env\<close> returns the defaults except for three limits: three zones per
  direction instead of one, a circuit breaker at three losses instead of ten, and a pause of
  twelve hours instead of ten.
\<close>

theorem unconfigured_is_not_default:
  "from_env lib (bare_process cwd home) = Inr (factory_settings cwd) \<and> factory_settings cwd \<noteq> default_settings cwd"
  using unconfigured_from_env by (simp add: factory_settings_def default_settings_def)

section \<open>The two factories\<close>

definition map_result :: "('a \<Rightarrow> 'b) \<Rightarrow> 'a result \<Rightarrow> 'b result" where
  "map_result f m = bindR m (\<lambda>x. Inr (f x))"

lemma map_result_bindR: "map_result f (bindR m g) = bindR m (\<lambda>x. map_result f (g x))"
  by (cases m) (simp_all add: map_result_def)

definition local_fields :: "string \<Rightarrow> string list \<Rightarrow> string \<Rightarrow> bool \<Rightarrow> settings \<Rightarrow> settings" where
  "local_fields dir symbols confirm no_trading s =
     s\<lparr>g_base_dir := dir, g_manager_symbols := symbols, g_apex_live_confirm := confirm,
       g_apex_disable_trading := no_trading\<rparr>"

lemma post_init_local: "g_apex_env s = ''paper'' \<Longrightarrow> post_init (local_fields d sy c nt s) = post_init s"
  by (simp add: post_init_def local_fields_def)

lemma bindR_ext: "(\<And>x. m = Inr x \<Longrightarrow> g x = h x) \<Longrightarrow> bindR m g = bindR m h"
  by (cases m) simp_all

lemma build_settings_local:
  "build_settings lib cfg creds d prof (Inr sy) ''paper'' c nt =
   map_result (local_fields d sy c nt) (build_settings lib cfg creds d' prof (Inr sy') ''paper'' c' nt')"
  unfolding build_settings_def Let_def map_result_bindR bindR.simps
  by (intro bindR_ext) (simp add: map_result_def local_fields_def post_init_def)

text \<open>
  an engine in the process of the manager and one of its own read the same settings. For the
  broker named by \<open>MT5_USE\<close> and the same file, \<open>from_env\<close> outside live mode returns what
  \<open>for_broker\<close> returns and fails as it fails, but for the directory, the symbols, the live
  confirmation and the switch that disables trading, which the environment gives.
\<close>

theorem factories_agree:
  assumes "strip (getenv_or pr ''MT5_USE'' []) = broker" "broker \<noteq> []"
    and "config_path_from_env pr = Some path" "pr_files pr path \<noteq> None"
    and "getenv_or pr ''MANAGER_SYMBOLS'' [] = listed" "listed \<noteq> []"
    and "lower (strip (getenv_or pr ''APEX_ENV'' ''paper'')) = ''paper''"
  shows "from_env lib pr =
    map_result (local_fields (pr_cwd pr) (clean_symbols (split_on CHR '','' listed))
        (getenv_or pr ''APEX_LIVE_CONFIRM'' []) (bool_env pr ''APEX_DISABLE_TRADING'' False))
      (for_broker lib pr path broker dir symbols)"
proof -
  have sy: "manager_symbols pr cfg = Inr (clean_symbols (split_on CHR '','' listed))" for cfg
    using assms(5,6) by (simp add: manager_symbols_def)
  obtain r where "pr_files pr path = Some r" using assms(4) by auto
  then show ?thesis
    using assms(1,2,3,7)
    by (simp add: from_env_def for_broker_def sy str_or_def map_result_bindR Let_def)
      (intro bindR_ext build_settings_local)
qed

definition worker_process :: process where
  "worker_process =
     \<lparr>pr_environ = [''MT5_USE'' \<mapsto> '' fbs'', ''USE_CONFIG'' \<mapsto> ''/srv/config.yaml'', ''MANAGER_SYMBOLS'' \<mapsto> ''xauusd,eurusd''],
      pr_dotenv = (\<lambda>_. None), pr_cwd = ''/srv/run/fbs'', pr_home = ''/root'',
      pr_files = [''/srv/config.yaml'' \<mapsto> Inr (PDict main_file)]\<rparr>"

theorem factories_agree_witness:
  "from_env sample_lib worker_process =
    map_result (local_fields ''/srv/run/fbs'' (clean_symbols (split_on CHR '','' ''xauusd,eurusd'')) [] False)
      (for_broker sample_lib worker_process ''/srv/config.yaml'' ''fbs'' ''/srv'' [])"
proof -
  have mt5: "getenv_or worker_process ''MT5_USE'' [] = '' fbs''" "strip '' fbs'' = ''fbs''"
    "lower (strip ''paper'') = ''paper''"
    by (simp add: worker_process_def getenv_or_def getenv_def) code_simp+
  have "config_path_from_env worker_process = Some ''/srv/config.yaml''"
    by (simp add: config_path_from_env_def worker_process_def getenv_or_def getenv_def str_or_def expand_user_def)
  with factories_agree [of worker_process "''fbs''" "''/srv/config.yaml''" "''xauusd,eurusd''" sample_lib "''/srv''" "[]"] mt5
  show ?thesis by (simp add: worker_process_def getenv_or_def getenv_def bool_env_def)
qed

section \<open>Credentials\<close>

lemma load_yaml_cong: "fs p = fs' p \<Longrightarrow> load_yaml fs p = load_yaml fs' p"
  by (simp add: load_yaml_def)

lemma getenv_files [simp]: "getenv_or (pr\<lparr>pr_files := fs\<rparr>) k d = getenv_or pr k d"
  by (simp add: getenv_or_def getenv_def split: option.split)

lemma creds_cong:
  assumes "fs (path_join (path_parent path) ''mt5-credentials.yaml'') = pr_files pr (path_join (path_parent path) ''mt5-credentials.yaml'')"
    and "fs (path_join (pr_cwd pr) ''mt5-credentials.yaml'') = pr_files pr (path_join (pr_cwd pr) ''mt5-credentials.yaml'')"
  shows "load_mt5_profile lib (pr\<lparr>pr_files := fs\<rparr>) path profile = load_mt5_profile lib pr path profile"
proof -
  have "creds_file (pr\<lparr>pr_files := fs\<rparr>) path = creds_file pr path"
    by (simp add: creds_file_def assms)
  moreover have "load_yaml fs c = load_yaml (pr_files pr) c" if "creds_file pr path = Some c" for c
    using that assms by (auto simp: creds_file_def intro!: load_yaml_cong split: if_splits)
  ultimately show ?thesis
    by (auto simp: load_mt5_profile_def split: option.split)
qed

lemma build_settings_creds:
  assumes "build_settings lib cfg creds bd prof syms env confirm nt = Inr s"
  shows "creds = Inr \<lparr>mc_login = g_mt5_login s, mc_password = g_mt5_password s, mc_server = g_mt5_server s,
      mc_terminal = g_mt5_terminal_path s, mc_offset_ms = g_broker_time_offset_ms s,
      mc_aliases = g_mt5_symbol_aliases s\<rparr> \<and> g_mt5_profile s = prof"
  using assms unfolding build_settings_def Let_def by (clarsimp simp: bindR_Inr_iff)

text \<open>
  C14: credentials stay out of the broker's file. Change any file but the main one and the
  credential profiles (the broker's strategy file above all): the engine that the manager builds
  for a broker logs in with the same account, password and server, to the same terminal, with the
  same clock offset and symbol names.
\<close>

theorem credentials_from_profile_only:
  assumes "for_broker lib pr path broker dir symbols = Inr s"
    and "for_broker lib (pr\<lparr>pr_files := fs\<rparr>) path broker dir symbols = Inr s'"
    and "\<forall>p \<in> {path, path_join (path_parent path) ''mt5-credentials.yaml'',
      path_join (pr_cwd pr) ''mt5-credentials.yaml''}. fs p = pr_files pr p"
  shows "g_mt5_login s' = g_mt5_login s \<and> g_mt5_password s' = g_mt5_password s \<and>
    g_mt5_server s' = g_mt5_server s \<and> g_mt5_terminal_path s' = g_mt5_terminal_path s \<and>
    g_broker_time_offset_ms s' = g_broker_time_offset_ms s \<and>
    g_mt5_symbol_aliases s' = g_mt5_symbol_aliases s \<and> g_mt5_profile s' = g_mt5_profile s"
proof -
  have same: "fs path = pr_files pr path" "load_yaml fs path = load_yaml (pr_files pr) path"
    using assms(3) by (simp_all add: load_yaml_def)
  have creds: "resolve_mt5_credentials lib (pr\<lparr>pr_files := fs\<rparr>) c (Some path) = resolve_mt5_credentials lib pr c (Some path)"
    for c
    using creds_cong [of fs path pr] assms(3)
    by (simp add: resolve_mt5_credentials_def Let_def)
  from assms(1) obtain base cfg1 where 1: "(if pr_files pr path = None then Inr [] else load_yaml (pr_files pr) path) = Inr base"
    "bindR (with_profile base broker) (\<lambda>c. bindR (resolve_broker_cfg lib pr c (Some path)) (\<lambda>cfg.
       build_settings lib cfg (resolve_mt5_credentials lib pr c (Some path)) dir broker (Inr symbols) ''paper'' [] False)) = Inr s"
    by (auto simp: for_broker_def bindR_Inr_iff)
  obtain c cfg where c: "with_profile base broker = Inr c"
    "build_settings lib cfg (resolve_mt5_credentials lib pr c (Some path)) dir broker (Inr symbols) ''paper'' [] False = Inr s"
    using 1(2) by (auto simp: bindR_Inr_iff)
  obtain cfg' where "build_settings lib cfg' (resolve_mt5_credentials lib pr c (Some path)) dir broker (Inr symbols) ''paper'' [] False = Inr s'"
    using assms(2) 1(1) c(1) by (auto simp: for_broker_def bindR_Inr_iff same creds cong: if_cong)
  from build_settings_creds [OF this] build_settings_creds [OF c(2)] show ?thesis by auto
qed

definition fbs_profile :: pydict where
  "fbs_profile =
     [(PStr ''login'', PInt 42), (PStr ''password'', PStr ''pw''), (PStr ''server'', PStr ''FBS-Demo''),
      (PStr ''terminal_path'', PStr ''C:/fbs''), (PStr ''config'', PStr ''fbs.yaml'')]"

definition fbs_process :: "pydict \<Rightarrow> process" where
  "fbs_process ov =
     (bare_process ''/srv'' ''/root'')\<lparr>pr_files := [''/srv/config.yaml'' \<mapsto> Inr (PDict []),
        ''/srv/mt5-credentials.yaml'' \<mapsto> Inr (PDict [(PStr ''fbs'', PDict fbs_profile)]),
        ''/srv/fbs.yaml'' \<mapsto> Inr (PDict ov)]\<rparr>"

lemma fbs_paths:
  "path_parent ''/srv/config.yaml'' = ''/srv''" "path_join ''/srv'' ''mt5-credentials.yaml'' = ''/srv/mt5-credentials.yaml''"
  "path_join ''/srv'' ''fbs.yaml'' = ''/srv/fbs.yaml''"
  by code_simp+

definition fbs_settings :: "pydict \<Rightarrow> settings" where
  "fbs_settings ov =
     (factory_settings ''/srv'')\<lparr>g_mt5_login := 42, g_mt5_password := ''pw'', g_mt5_server := ''FBS-Demo'',
       g_mt5_terminal_path := ''C:/fbs'', g_mt5_profile := ''fbs'',
       g_max_signal_count_per_zone := (if ov = [] then 1 else 3)\<rparr>"

lemma fbs_settings_valid: "post_init (fbs_settings ov) = Inr ()"
  using factory_settings_valid [of "''/srv''"] by (simp add: post_init_def fbs_settings_def bindR_unit)

lemma fbs_settings_built:
  assumes "ov = [] \<or> ov = broker_file"
  shows "for_broker lib (fbs_process ov) ''/srv/config.yaml'' ''fbs'' ''/srv'' [] = Inr (fbs_settings ov)"
proof -
  let ?base = "[(PStr ''mt5'', PDict [(PStr ''use'', PStr ''fbs'')])]"
  let ?creds = "\<lparr>mc_login = 42, mc_password = ''pw'', mc_server = ''FBS-Demo'', mc_terminal = ''C:/fbs'',
    mc_offset_ms = 0, mc_aliases = []\<rparr>"
  have files: "pr_files (fbs_process ov) ''/srv/config.yaml'' = Some (Inr (PDict []))"
    "pr_files (fbs_process ov) ''/srv/mt5-credentials.yaml'' = Some (Inr (PDict [(PStr ''fbs'', PDict fbs_profile)]))"
    "pr_files (fbs_process ov) ''/srv/fbs.yaml'' = Some (Inr (PDict ov))" "pr_cwd (fbs_process ov) = ''/srv''"
    by (simp_all add: fbs_process_def bare_process_def)
  have creds: "creds_file (fbs_process ov) ''/srv/config.yaml'' = Some ''/srv/mt5-credentials.yaml''"
    by (simp add: creds_file_def fbs_paths files)
  have base: "with_profile [] ''fbs'' = Inr ?base" by (simp add: with_profile_def dget_def)
  have use: "cfg_get ?base ''mt5.use'' PNone = PStr ''fbs''" by (simp add: cfg_get_def)
  have ref: "dget fbs_profile ''config'' = PStr ''fbs.yaml''" by (simp add: fbs_profile_def dget_def)
  have ov: "load_yaml (pr_files (fbs_process ov)) ''/srv/fbs.yaml'' = Inr ov"
    "load_yaml (pr_files (fbs_process ov)) ''/srv/mt5-credentials.yaml'' = Inr [(PStr ''fbs'', PDict fbs_profile)]"
    "load_yaml (pr_files (fbs_process ov)) ''/srv/config.yaml'' = Inr []"
    by (simp_all add: load_yaml_def files)
  have cfg: "resolve_broker_cfg lib (fbs_process ov) ?base (Some ''/srv/config.yaml'') = Inr (deep_merge ?base ov)"
    by (simp add: resolve_broker_cfg_def use creds ov ref fbs_paths files del: deep_merge.simps)
  have c: "resolve_mt5_credentials lib (fbs_process ov) ?base (Some ''/srv/config.yaml'') = Inr ?creds"
    by (simp add: resolve_mt5_credentials_def use load_mt5_profile_def creds ov fbs_profile_def dget_def)
  have "build_settings lib (deep_merge ?base ov) (Inr ?creds) ''/srv'' ''fbs'' (Inr []) ''paper'' [] False =
      bindR (post_init (fbs_settings ov)) (\<lambda>_. Inr (fbs_settings ov))"
    using assms
  proof
    assume o: "ov = []"
    show ?thesis unfolding o
      by (simp add: cfg_get_def build_settings_def Let_def bare_readers bare_strings parse_tf_pairs_def
        or_default_pairs_def parse_tf_entry_models_def parse_htf_lookback_def parse_pair_map_def
        parse_symbol_rr_filter_def parse_tm_overrides_def sessions_from_config_def unpack_pair_def as_bool_def
        fbs_settings_def factory_settings_def default_settings_def)
  next
    assume o: "ov = broker_file"
    show ?thesis unfolding o
      by (simp add: broker_file_def cfg_get_def build_settings_def Let_def bare_readers bare_strings parse_tf_pairs_def
        or_default_pairs_def parse_tf_entry_models_def parse_htf_lookback_def parse_pair_map_def
        parse_symbol_rr_filter_def parse_tm_overrides_def sessions_from_config_def unpack_pair_def as_bool_def
        fbs_settings_def factory_settings_def default_settings_def)
  qed
  then show ?thesis
    unfolding for_broker_def by (simp only: files ov base cfg c bindR.simps fbs_settings_valid option.distinct if_False)
qed

theorem credentials_from_profile_only_witness:
  "g_mt5_login (fbs_settings broker_file) = g_mt5_login (fbs_settings []) \<and>
   g_mt5_terminal_path (fbs_settings broker_file) = g_mt5_terminal_path (fbs_settings []) \<and>
   g_max_signal_count_per_zone (fbs_settings broker_file) \<noteq> g_max_signal_count_per_zone (fbs_settings [])"
proof -
  have p: "(fbs_process [])\<lparr>pr_files := pr_files (fbs_process broker_file)\<rparr> = fbs_process broker_file"
    by (simp add: fbs_process_def)
  have "for_broker sample_lib (fbs_process []) ''/srv/config.yaml'' ''fbs'' ''/srv'' [] = Inr (fbs_settings [])"
    "for_broker sample_lib (fbs_process broker_file) ''/srv/config.yaml'' ''fbs'' ''/srv'' [] = Inr (fbs_settings broker_file)"
    by (simp_all only: fbs_settings_built simp_thms)
  moreover have "\<forall>p \<in> {''/srv/config.yaml'', path_join (path_parent ''/srv/config.yaml'') ''mt5-credentials.yaml'',
      path_join (pr_cwd (fbs_process [])) ''mt5-credentials.yaml''}.
      pr_files (fbs_process broker_file) p = pr_files (fbs_process []) p"
    by (simp add: fbs_process_def bare_process_def fbs_paths)
  ultimately have "g_mt5_login (fbs_settings broker_file) = g_mt5_login (fbs_settings []) \<and>
      g_mt5_terminal_path (fbs_settings broker_file) = g_mt5_terminal_path (fbs_settings [])"
    using credentials_from_profile_only [of sample_lib "fbs_process []" "''/srv/config.yaml''" "''fbs''" "''/srv''" "[]"
        "fbs_settings []" "pr_files (fbs_process broker_file)" "fbs_settings broker_file"]
    unfolding p by blast
  then show ?thesis by (simp add: fbs_settings_def broker_file_def)
qed

theorem factories_return_sound_settings_witness:
  "sound_settings (fbs_settings broker_file) \<and> sound_settings (factory_settings ''/srv'')"
proof -
  have "from_env sample_lib (bare_process ''/srv'' ''/root'') = Inr (factory_settings ''/srv'')"
    using unconfigured_from_env by simp
  moreover have "for_broker sample_lib (fbs_process broker_file) ''/srv/config.yaml'' ''fbs'' ''/srv'' [] = Inr (fbs_settings broker_file)"
    by (simp only: fbs_settings_built simp_thms)
  ultimately show ?thesis
    using factories_return_sound_settings [of sample_lib "bare_process ''/srv'' ''/root''" "factory_settings ''/srv''"
        "fbs_process broker_file" "''/srv/config.yaml''" "''fbs''" "''/srv''" "[]" "fbs_settings broker_file"]
    by blast
qed

section \<open>Read otherwise than written\<close>

lemma py_int_show_int: "0 \<le> n \<Longrightarrow> py_int (show_int n) = Inr n"
  using py_int_show_nat [of "nat n"] by (simp add: show_int_def)

text \<open>
  some values are read otherwise than written. A time of day that the YAML reader takes for a
  number (\<open>16:00\<close> without quotes is 960) is refused, an unknown day of the week becomes the
  default without a word, and a single symbol in the place of the list of symbols becomes one
  symbol per letter.
\<close>

theorem misread_values:
  assumes "23 < n" "map_of WEEKDAYS (lower (strip name)) = None"
    and "\<not> list_all is_digit (lower (strip name))" "0 \<le> w \<and> w \<le> 6"
    and "getenv_or pr ''MANAGER_SYMBOLS'' [] = []" "cfg_get cfg ''manager.symbols'' PNone = PStr s"
  shows "parse_time lib (PInt n) d = Inl ValueError \<and> parse_weekday lib (PStr name) w = Inr w \<and>
    manager_symbols pr cfg = Inr (clean_symbols (map (\<lambda>c. [c]) s))"
proof -
  have digits: "set (show_int n) \<subseteq> {c. is_digit c}" "show_int n \<noteq> []"
    using assms(1) show_nat_digits [of "nat n"] by (auto simp: show_int_def)
  have id: "dropWhile P xs = xs" if "\<forall>x \<in> set xs. \<not> P x" for P and xs :: string
    using that by (cases xs) auto
  have "\<not> is_space c \<and> c \<noteq> CHR '':''" if "is_digit c" for c
    using that by (auto simp: is_digit_def is_space_def Let_def)
  then have plain: "\<forall>c \<in> set (show_int n). \<not> is_space c \<and> c \<noteq> CHR '':''" using digits(1) by auto
  then have "strip (show_int n) = show_int n" by (simp add: strip_def id)
  moreover have "partition_at CHR '':'' (show_int n) = (show_int n, [])"
    using plain by (simp add: partition_at_def takeWhile_eq_all_conv dropWhile_eq_Nil_conv [THEN iffD2])
  ultimately have "parse_time lib (PInt n) d = Inl ValueError"
    using assms(1) by (simp add: parse_time_def py_int_show_int clock_time_def)
  moreover have "parse_weekday lib (PStr name) w = Inr w"
    using assms(2-4) by (auto simp: parse_weekday_def weekday_number_def Let_def)
  moreover have "string_items (map (\<lambda>c. PStr [c]) s) = map (\<lambda>c. [c]) s"
    by (simp add: string_items_def List.map_filter_def comp_def)
  then have "manager_symbols pr cfg = Inr (clean_symbols (map (\<lambda>c. [c]) s))"
    using assms(5,6) by (auto simp: manager_symbols_def Let_def clean_symbols_def string_items_def)
  ultimately show ?thesis by blast
qed

theorem misread_values_witness:
  "parse_time sample_lib (PInt 960) (0, 0) = Inl ValueError \<and> parse_weekday sample_lib (PStr ''friady'') 5 = Inr 5 \<and>
   manager_symbols (bare_process [] []) [(PStr ''manager'', PDict [(PStr ''symbols'', PStr ''US100'')])] =
     Inr (clean_symbols [''U'', ''S'', ''1'', ''0'', ''0''])"
proof -
  have "lower (strip ''friady'') = ''friady''" "\<not> is_digit (CHR ''f'')" by code_simp+
  with misread_values [of 960 "''friady''" 5 "bare_process [] []"
      "[(PStr ''manager'', PDict [(PStr ''symbols'', PStr ''US100'')])]" "''US100''" sample_lib "(0, 0)"]
  show ?thesis by (simp add: WEEKDAYS_def cfg_get_def)
qed

end
