(* ===== verification/Manager.thy ===== *)
theory Manager
  imports Config Gateway_Laws
begin

text \<open>
  manager/src/config/settings.py, app/bootstrap.py and the part of core/pipeline.py that starts an
  engine: the settings of the manager, its wiring, and the whole manager as steps. The events of
  the engines go through the router to the gateway; a broadcast is a task of the event loop, which
  runs its tasks in the order they were created. \<open>Path.resolve\<close> is the textual normalisation: there
  are no symbolic links. Log files and the operating system's signals are left out.
\<close>

section \<open>Settings of the manager\<close>

record manager_settings =
  ms_sources :: "string list"
  ms_engine_path :: string
  ms_engine_config :: string
  ms_gateway_host :: string
  ms_gateway_port :: int
  ms_gateway_secret :: string
  ms_window_ms :: int
  ms_symbols :: "string list"
  ms_log_level :: string

text \<open>\<open>yaml.safe_load(f) or {}\<close>: here a document that is no mapping is let through.\<close>

definition mgr_load_yaml :: "files \<Rightarrow> string \<Rightarrow> pyval result" where
  "mgr_load_yaml fs path =
     (case fs path of
        None \<Rightarrow> Inl FileNotFoundError
      | Some r \<Rightarrow> bindR r (\<lambda>data. Inr (if val_truthy data then data else PDict [])))"

definition mgr_get :: "pyval \<Rightarrow> string \<Rightarrow> pyval \<Rightarrow> pyval" where
  "mgr_get d key dflt = (case get_path d (split_on CHR ''.'' key) of None \<Rightarrow> dflt | Some v \<Rightarrow> v)"

definition val_or :: "pyval \<Rightarrow> pyval \<Rightarrow> pyval" where
  "val_or a b = (if val_truthy a then a else b)"

text \<open>\<open>Path.resolve()\<close>: absolute, without empty parts, dots and double dots.\<close>

fun resolve_parts :: "string list \<Rightarrow> string list \<Rightarrow> string list" where
  "resolve_parts done [] = rev done"
| "resolve_parts done (p # ps) =
     (if p = [] \<or> p = ''.'' then resolve_parts done ps
      else if p = ''..'' then resolve_parts (drop 1 done) ps
      else resolve_parts (p # done) ps)"

definition resolve_path :: "string \<Rightarrow> string \<Rightarrow> string" where
  "resolve_path cwd p =
     (let parts = resolve_parts [] (split_on CHR ''/'' (path_join cwd p)) in
      if parts = [] then ''/'' else concat (map (\<lambda>s. CHR ''/'' # s) parts))"

definition manager_candidates :: "process \<Rightarrow> string option \<Rightarrow> string list" where
  "manager_candidates pr path =
     (case path of None \<Rightarrow> [] | Some p \<Rightarrow> [p]) @
     (case pr_environ pr ''MANAGER_CONFIG'' of None \<Rightarrow> [] | Some p \<Rightarrow> if p = [] then [] else [p]) @
     [path_join (pr_cwd pr) ''config.yaml'']"

definition manager_settings_of :: "pylib \<Rightarrow> process \<Rightarrow> pyval \<Rightarrow> string option \<Rightarrow> manager_settings result" where
  "manager_settings_of lib pr cfg cfg_file =
     (let str = (\<lambda>key dflt. str_of lib (mgr_get cfg key dflt));
          raw_sources = val_or (mgr_get cfg ''sources'' PNone) (PList []);
          raw_symbols = val_or (mgr_get cfg ''symbols'' PNone) (PList [PStr ''XAUUSD'', PStr ''XAGUSD'']);
          path_raw = str_of lib (val_or (mgr_get cfg ''signal_engine.path'' (PStr [])) (PStr []));
          base = (case cfg_file of None \<Rightarrow> pr_cwd pr | Some f \<Rightarrow> path_parent f);
          config = str_of lib (val_or (mgr_get cfg ''signal_engine.config'' (PStr ''config.yaml'')) (PStr ''config.yaml''));
          secret = str_of lib (val_or (mgr_get cfg ''gateway_server.secret'' (PStr [])) (PStr []))
      in bindR (iterate raw_sources) (\<lambda>sources.
         bindR (int_of (mgr_get cfg ''gateway_server.port'' (PInt 8765))) (\<lambda>port.
         bindR (int_of (mgr_get cfg ''consensus.window_ms'' (PInt 0))) (\<lambda>window.
         bindR (iterate raw_symbols) (\<lambda>symbols.
         Inr \<lparr>ms_sources = map (str_of lib) sources,
              ms_engine_path = (if path_raw = [] then [] else resolve_path (pr_cwd pr) (path_join base path_raw)),
              ms_engine_config = config,
              ms_gateway_host = str ''gateway_server.host'' (PStr ''0.0.0.0''),
              ms_gateway_port = port, ms_gateway_secret = secret, ms_window_ms = window,
              ms_symbols = map (\<lambda>s. upper (str_of lib s)) symbols,
              ms_log_level = upper (str ''logging.level'' (PStr ''INFO''))\<rparr>)))))"

definition from_yaml :: "pylib \<Rightarrow> process \<Rightarrow> string option \<Rightarrow> manager_settings result" where
  "from_yaml lib pr path =
     (let cfg_file = List.find (\<lambda>p. pr_files pr p \<noteq> None) (manager_candidates pr path) in
      bindR (case cfg_file of None \<Rightarrow> Inr (PDict []) | Some p \<Rightarrow> mgr_load_yaml (pr_files pr) p) (\<lambda>cfg.
      manager_settings_of lib pr cfg cfg_file))"

section \<open>The engine of a broker\<close>

definition engine_config_path :: "manager_settings \<Rightarrow> string" where
  "engine_config_path ms = path_join (ms_engine_path ms) (ms_engine_config ms)"

definition engine_base_dir :: "manager_settings \<Rightarrow> string \<Rightarrow> string" where
  "engine_base_dir ms broker = path_join (path_join (ms_engine_path ms) ''manager'') broker"

definition engine_settings :: "pylib \<Rightarrow> process \<Rightarrow> manager_settings \<Rightarrow> string \<Rightarrow> settings result" where
  "engine_settings lib pr ms broker =
     for_broker lib pr (engine_config_path ms) broker (engine_base_dir ms broker) (ms_symbols ms)"

section \<open>The manager\<close>

text \<open>\<open>mg_ran\<close> counts the broadcast tasks that have run; the others wait in the event loop.\<close>

record manager =
  mg_pipeline :: pipeline
  mg_router :: router
  mg_gateway :: gateway
  mg_ran :: nat

definition bootstrap :: "manager_settings \<Rightarrow> manager option" where
  "bootstrap ms =
     (if ms_engine_path ms = [] then None
      else Some \<lparr>mg_pipeline = pipeline_start (ms_sources ms) [],
                 mg_router = new_router (ms_window_ms ms),
                 mg_gateway = new_gateway (ms_symbols ms) (ms_gateway_secret ms), mg_ran = 0\<rparr>)"

definition bootstrap_stop :: "manager \<Rightarrow> manager" where
  "bootstrap_stop m = m\<lparr>mg_pipeline := pipeline_stop (mg_pipeline m)\<rparr>"

text \<open>
  What can happen: an engine says something (its handler counts it and calls the router), its
  task moves, the drain loop ticks, the next broadcast task runs, a connection does something.
\<close>

datatype manager_event =
    Engine_Says real string string payload
  | Engine_Moves string engine_event
  | Drain_Ticks real
  | Broadcast_Runs "string \<Rightarrow> bool"
  | Client_Acts gw_step

definition next_broadcast :: "manager \<Rightarrow> broadcast option" where
  "next_broadcast m =
     (if mg_ran m < length (ro_sent (mg_router m)) then Some (ro_sent (mg_router m) ! mg_ran m) else None)"

fun says_signal :: "engine_event \<Rightarrow> bool" where
  "says_signal (Signal_Event event p) = True"
| "says_signal e = False"

fun delivers :: "gw_step \<Rightarrow> bool" where
  "delivers (Deliver up b) = True"
| "delivers st = False"

definition engine_says :: "(json \<Rightarrow> string) \<Rightarrow> real \<Rightarrow> string \<Rightarrow> string \<Rightarrow> payload \<Rightarrow> manager \<Rightarrow> manager" where
  "engine_says rp now broker event p m =
     (if map_of (mg_pipeline m) broker = None then m
      else m\<lparr>mg_pipeline := pipeline_event broker (Signal_Event event p) (mg_pipeline m),
             mg_router := route rp now event p broker (mg_router m)\<rparr>)"

fun manager_step :: "(json \<Rightarrow> string) \<Rightarrow> manager_event \<Rightarrow> manager \<Rightarrow> manager" where
  "manager_step rp (Engine_Says now broker event p) m = engine_says rp now broker event p m"
| "manager_step rp (Engine_Moves broker e) m =
     (if says_signal e then m else m\<lparr>mg_pipeline := pipeline_event broker e (mg_pipeline m)\<rparr>)"
| "manager_step rp (Drain_Ticks now) m = m\<lparr>mg_router := drain now (mg_router m)\<rparr>"
| "manager_step rp (Broadcast_Runs up) m =
     (case next_broadcast m of
        None \<Rightarrow> m
      | Some b \<Rightarrow> m\<lparr>mg_gateway := deliver up b (mg_gateway m), mg_ran := mg_ran m + 1\<rparr>)"
| "manager_step rp (Client_Acts st) m =
     (if delivers st then m else m\<lparr>mg_gateway := gw_do st (mg_gateway m)\<rparr>)"

definition manager_run :: "(json \<Rightarrow> string) \<Rightarrow> manager_event list \<Rightarrow> manager \<Rightarrow> manager" where
  "manager_run rp es m = fold (manager_step rp) es m"

text \<open>The snapshot sent to the clients that watch the metrics.\<close>

definition manager_metrics :: "manager \<Rightarrow> gateway_metrics" where
  "manager_metrics m = build_metrics (pipeline_stats (mg_pipeline m)) (mg_gateway m)"

end
