(* ===== verification/Manager_Laws.thy ===== *)
theory Manager_Laws
  imports Manager Config_Laws
begin

text \<open>
  The manager as a whole: a client hears only what an engine of a configured source said, with the
  brokers that confirmed it, and the figures of the metrics snapshot count exactly the signals
  received from the engines and the signals sent to the clients. Two readings of its settings.
\<close>

section \<open>Where events come from\<close>

definition named :: "string \<Rightarrow> payload \<Rightarrow> payload" where
  "named broker p = AList.update ''broker'' (JStr broker) p"

text \<open>A source said this event.\<close>

definition said :: "manager_event list \<Rightarrow> string list \<Rightarrow> string \<Rightarrow> string \<Rightarrow> payload \<Rightarrow> bool" where
  "said es sources broker ev p \<longleftrightarrow> broker \<in> set sources \<and> (\<exists>now. Engine_Says now broker ev p \<in> set es)"

definition confirms :: "(json \<Rightarrow> string) \<Rightarrow> manager_event list \<Rightarrow> string list \<Rightarrow> string \<Rightarrow> string \<Rightarrow> bool" where
  "confirms rp es sources key broker \<longleftrightarrow>
     (\<exists>p. said es sources broker ''signal.triggered'' p \<and> setup_key rp p = key)"

definition genuine_signal :: "(json \<Rightarrow> string) \<Rightarrow> manager_event list \<Rightarrow> string list \<Rightarrow> payload \<Rightarrow> bool" where
  "genuine_signal rp es sources p \<longleftrightarrow>
     (\<exists>broker p0 others. said es sources broker ''signal.triggered'' p0 \<and>
        p = with_consensus (named broker p0) (broker # others) \<and> distinct (broker # others) \<and>
        list_all (confirms rp es sources (setup_key rp p0)) others)"

fun genuine :: "(json \<Rightarrow> string) \<Rightarrow> manager_event list \<Rightarrow> string list \<Rightarrow> broadcast \<Rightarrow> bool" where
  "genuine rp es sources (To_All ev p) =
     (ev \<noteq> ''signal.triggered'' \<and> (\<exists>broker p0. said es sources broker ev p0 \<and> p = named broker p0))"
| "genuine rp es sources (To_Symbol ev p) = (ev = ''signal.triggered'' \<and> genuine_signal rp es sources p)"

definition genuine_pending :: "(json \<Rightarrow> string) \<Rightarrow> manager_event list \<Rightarrow> string list \<Rightarrow> string \<times> pending_signal \<Rightarrow> bool" where
  "genuine_pending rp es sources kp \<longleftrightarrow>
     (\<exists>broker p0. said es sources broker ''signal.triggered'' p0 \<and> pn_signal (snd kp) = named broker p0 \<and>
        pn_brokers (snd kp) = [broker] \<and> setup_key rp p0 = fst kp)"

fun event_of_broadcast :: "broadcast \<Rightarrow> gw_message" where
  "event_of_broadcast (To_All ev p) = Event ev p"
| "event_of_broadcast (To_Symbol ev p) = Event ev p"

lemma setup_key_named [simp]: "setup_key rp (named b p) = setup_key rp p"
  by (simp add: named_def)

lemma said_mono: "said es s b ev p \<Longrightarrow> set es \<subseteq> set es' \<Longrightarrow> said es' s b ev p"
  by (auto simp: said_def)

lemma confirms_mono: "confirms rp es s k b \<Longrightarrow> set es \<subseteq> set es' \<Longrightarrow> confirms rp es' s k b"
  unfolding confirms_def using said_mono by blast

lemma genuine_signal_mono: "genuine_signal rp es s p \<Longrightarrow> set es \<subseteq> set es' \<Longrightarrow> genuine_signal rp es' s p"
  unfolding genuine_signal_def list_all_iff using said_mono confirms_mono by blast

lemma genuine_mono: "genuine rp es s b \<Longrightarrow> set es \<subseteq> set es' \<Longrightarrow> genuine rp es' s b"
  using said_mono [of es s _ _ _ es'] by (cases b) (simp, blast intro: genuine_signal_mono, simp, blast)

lemma genuine_pending_mono: "genuine_pending rp es s kp \<Longrightarrow> set es \<subseteq> set es' \<Longrightarrow> genuine_pending rp es' s kp"
  unfolding genuine_pending_def using said_mono by blast

text \<open>The router: what it holds and what it has sent.\<close>

definition genuine_router :: "(json \<Rightarrow> string) \<Rightarrow> manager_event list \<Rightarrow> string list \<Rightarrow> router \<Rightarrow> bool" where
  "genuine_router rp es s r \<longleftrightarrow> distinct (map fst (cs_pending (ro_consensus r))) \<and>
     (\<forall>b \<in> set (ro_sent r). genuine rp es s b) \<and>
     (\<forall>kp \<in> set (cs_pending (ro_consensus r)). genuine_pending rp es s kp)"

lemma genuine_router_mono: "genuine_router rp es s r \<Longrightarrow> set es \<subseteq> set es' \<Longrightarrow> genuine_router rp es' s r"
  unfolding genuine_router_def using genuine_mono genuine_pending_mono by blast

lemma pending_alone:
  assumes "genuine_pending rp es s (k, p)"
  shows "genuine_signal rp es s (with_consensus (pn_signal p) (pn_brokers p))"
  using assms by (fastforce simp: genuine_pending_def genuine_signal_def)

lemma pending_confirmed:
  assumes "genuine_pending rp es s (setup_key rp p1, p)" "said es s broker ''signal.triggered'' p1" "broker \<notin> set (pn_brokers p)"
  shows "genuine_signal rp es s (with_consensus (pn_signal p) (pn_brokers p @ [broker]))"
proof -
  obtain b p0 where p: "said es s b ''signal.triggered'' p0" "pn_signal p = named b p0"
      "pn_brokers p = [b]" "setup_key rp p0 = setup_key rp p1"
    using assms(1) by (auto simp: genuine_pending_def)
  moreover have "confirms rp es s (setup_key rp p0) broker"
    using assms(2) p(4) by (auto simp: confirms_def)
  ultimately show ?thesis
    using assms(3) unfolding genuine_signal_def
    by (intro exI [of _ b] exI [of _ p0] exI [of _ "[broker]"]) simp
qed

lemma genuine_triggered:
  assumes g: "genuine_router rp es s r" and said: "said es s broker ''signal.triggered'' p1"
  shows "genuine_router rp es s (route rp now ''signal.triggered'' p1 broker r)"
proof (cases "map_of (cs_pending (ro_consensus r)) (setup_key rp p1)")
  case None
  let ?pn = "\<lparr>pn_signal = named broker p1, pn_brokers = [broker], pn_expires_at = now + cs_window (ro_consensus r)\<rparr>"
  have "genuine_pending rp es s (setup_key rp p1, ?pn)"
    using said by (auto simp: genuine_pending_def)
  then show ?thesis
    using g None
    by (auto simp: route_def push_signal_def genuine_router_def set_alist_update distinct_update
        simp flip: named_def)
next
  case (Some p)
  have pn: "genuine_pending rp es s (setup_key rp p1, p)"
    using g map_of_SomeD [OF Some] by (auto simp: genuine_router_def)
  show ?thesis
    using g Some subsetD [OF set_alist_delete, of _ "setup_key rp p1" "cs_pending (ro_consensus r)"] pending_confirmed [OF pn said]
    by (auto simp: route_def push_signal_def genuine_router_def emit_to_gateway_def distinct_delete
        simp flip: named_def)
qed

lemma genuine_route:
  assumes "genuine_router rp es s r" "said es s broker ev p1"
  shows "genuine_router rp es s (route rp now ev p1 broker r)"
proof (cases "ev = ''signal.triggered''")
  case True
  then show ?thesis using assms genuine_triggered by simp
next
  case False
  then show ?thesis
    using assms by (auto simp: route_def genuine_router_def simp flip: named_def)
qed

lemma genuine_drain: "genuine_router rp es s r \<Longrightarrow> genuine_router rp es s (drain now r)"
  by (auto simp: drain_simp drain_expired_def Let_def fold_delete genuine_router_def distinct_map_filter
      intro!: pending_alone)

section \<open>What the gateway has sent\<close>

lemma outbox_frames:
  "gw_outbox (send_or_drop up c x g) = gw_outbox g @ (if up then [(c, x)] else [])"
  "gw_outbox (set_client c cl g) = gw_outbox g" "gw_delivered (set_client c cl g) = gw_delivered g"
  "gw_delivered (send_or_drop up c x g) = gw_delivered g" "gw_delivered (drop_client c g) = gw_delivered g"
  "gw_outbox (send_to c x g) = gw_outbox g @ [(c, x)]" "gw_delivered (send_to c x g) = gw_delivered g"
  by (simp_all add: send_or_drop_def send_to_def set_client_def drop_client_def)

fun is_event :: "gw_message \<Rightarrow> bool" where
  "is_event (Event ev p) = True"
| "is_event m = False"

text \<open>What a connection does by itself sends no event and counts no delivery.\<close>

lemma client_acts_sends:
  assumes "\<not> delivers st"
  obtains xs where "gw_outbox (gw_do st g) = gw_outbox g @ xs" "\<forall>(c, x) \<in> set xs. \<not> is_event x"
    "gw_delivered (gw_do st g) = gw_delivered g"
proof (cases st)
  case (Connect up token)
  then show ?thesis
    by (intro that [of "if gw_secret g \<noteq> [] \<and> token \<noteq> gw_secret g \<or> \<not> up then []
            else [(''gw-'' @ show_nat (gw_counter g + 1), Connected (''gw-'' @ show_nat (gw_counter g + 1)) (sort (remdups (gw_supported g))))]"])
      (auto simp: connect_def Let_def outbox_frames)
next
  case (Frame up cid frame)
  have "\<exists>xs. gw_outbox (on_message up cid frame g) = gw_outbox g @ xs \<and> (\<forall>(c, x) \<in> set xs. \<not> is_event x) \<and>
      gw_delivered (on_message up cid frame g) = gw_delivered g"
    by (auto simp: on_message_def Let_def outbox_frames split: option.split json.split sum.split)
  then show ?thesis using Frame that by auto
next
  case (Disconnect cid)
  then show ?thesis using that [of "[]"] by (simp add: outbox_frames)
next
  case (Deliver up b)
  then show ?thesis using assms by simp
next
  case (Metrics_Tick up)
  then show ?thesis
    by (intro that [of "map (\<lambda>c. (c, Metrics_Snapshot)) (filter up (map fst (filter (\<lambda>(cid, cl). gc_metrics cl) (gw_clients g))))"])
      (auto simp: metrics_tick_def fold_send)
qed

lemma fold_drop_delivered: "gw_delivered (fold drop_client cs g) = gw_delivered g"
  by (induction cs arbitrary: g) (simp_all add: outbox_frames)

lemma send_event_sends:
  "gw_outbox (send_event up ev p cids g) = gw_outbox g @ map (\<lambda>c. (c, Event ev p)) (filter up cids)"
  "gw_delivered (send_event up ev p cids g) = gw_delivered g"
  by (simp_all add: send_event_def Let_def fold_drop fold_send fold_drop_delivered)

lemma deliver_sends:
  obtains cs where "gw_outbox (deliver up b g) = gw_outbox g @ map (\<lambda>c. (c, event_of_broadcast b)) cs"
    "gw_delivered (deliver up b g) = gw_delivered g + (case b of To_Symbol ev p \<Rightarrow> length cs | To_All ev p \<Rightarrow> 0)"
proof (cases b)
  case (To_All ev p)
  then show ?thesis
    using that [of "filter up (map fst (gw_clients g))"] by (simp add: deliver_def send_event_sends)
next
  case (To_Symbol ev p)
  then show ?thesis
  proof (cases "payload_symbol p")
    case (Inl e)
    then show ?thesis using To_Symbol that [of "[]"] by (simp add: deliver_def)
  next
    case (Inr symbol)
    then show ?thesis
      using To_Symbol that [of "filter up (map fst (filter (\<lambda>(cid, cl). wants symbol cl) (gw_clients g)))"]
      by (simp add: deliver_def send_event_sends)
  qed
qed

section \<open>The whole manager\<close>

definition signal_frames :: "(string \<times> gw_message) list \<Rightarrow> nat" where
  "signal_frames out = length (filter (\<lambda>(c, x). \<exists>p. x = Event ''signal.triggered'' p) out)"

definition known_source :: "manager \<Rightarrow> string \<Rightarrow> bool" where
  "known_source m broker \<longleftrightarrow> map_of (mg_pipeline m) broker \<noteq> None"

definition true_to_engines :: "(json \<Rightarrow> string) \<Rightarrow> manager_event list \<Rightarrow> string list \<Rightarrow> manager \<Rightarrow> bool" where
  "true_to_engines rp es s m \<longleftrightarrow>
     (\<forall>broker. known_source m broker \<longrightarrow> broker \<in> set s) \<and> genuine_router rp es s (mg_router m) \<and>
     (\<forall>(c, x) \<in> set (gw_outbox (mg_gateway m)). is_event x \<longrightarrow> x \<in> event_of_broadcast ` set (ro_sent (mg_router m)))"

lemma known_after_event [simp]:
  "map_of (pipeline_event b e ps) x = None \<longleftrightarrow> map_of ps x = None"
  by (auto simp: pipeline_event_def update_conv' split: option.splits)

lemma sent_grows: "set (ro_sent r) \<subseteq> set (ro_sent (route rp now ev p b r))" "set (ro_sent r) \<subseteq> set (ro_sent (drain now r))"
  by (auto simp: route_def drain_simp emit_to_gateway_def Let_def split: prod.splits option.splits)

lemma next_broadcast_sent: "next_broadcast m = Some b \<Longrightarrow> b \<in> set (ro_sent (mg_router m))"
  by (auto simp: next_broadcast_def split: if_splits)

lemma outbox_of_sent:
  assumes "true_to_engines rp es s m" "set (ro_sent (mg_router m)) \<subseteq> set (ro_sent r)" "(c, x) \<in> set (gw_outbox (mg_gateway m))" "is_event x"
  shows "x \<in> event_of_broadcast ` set (ro_sent r)"
  using assms unfolding true_to_engines_def by blast

lemma true_to_engines_step:
  assumes t: "true_to_engines rp es s m" and e: "e \<in> set es"
  shows "true_to_engines rp es s (manager_step rp e m)"
proof (cases e)
  case (Engine_Says now broker ev p)
  show ?thesis
  proof (cases "known_source m broker")
    case True
    have "said es s broker ev p"
      using t True e Engine_Says by (auto simp: true_to_engines_def said_def)
    then have "genuine_router rp es s (route rp now ev p broker (mg_router m))"
      using t by (auto simp: true_to_engines_def intro: genuine_route)
    then show ?thesis
      using t True Engine_Says outbox_of_sent [OF t sent_grows(1)]
      by (auto simp: true_to_engines_def known_source_def engine_says_def simp del: not_None_eq)
  next
    case False
    then show ?thesis using t Engine_Says by (simp add: engine_says_def known_source_def)
  qed
next
  case (Engine_Moves broker ev)
  then show ?thesis using t by (auto simp: true_to_engines_def known_source_def simp del: not_None_eq)
next
  case (Drain_Ticks now)
  then show ?thesis
    using t outbox_of_sent [OF t sent_grows(2)]
    by (auto simp: true_to_engines_def known_source_def intro: genuine_drain)
next
  case (Broadcast_Runs up)
  show ?thesis
  proof (cases "next_broadcast m")
    case (Some b)
    obtain cs where "gw_outbox (deliver up b (mg_gateway m)) = gw_outbox (mg_gateway m) @ map (\<lambda>c. (c, event_of_broadcast b)) cs"
      by (rule deliver_sends)
    then show ?thesis
      using t Broadcast_Runs Some next_broadcast_sent [OF Some]
      by (auto simp: true_to_engines_def known_source_def)
  qed (use t Broadcast_Runs in simp)
next
  case (Client_Acts st)
  show ?thesis
  proof (cases "delivers st")
    case False
    obtain xs where "gw_outbox (gw_do st (mg_gateway m)) = gw_outbox (mg_gateway m) @ xs" "\<forall>(c, x) \<in> set xs. \<not> is_event x"
      by (rule client_acts_sends [OF False])
    then show ?thesis
      using t Client_Acts False by (auto simp: true_to_engines_def known_source_def)
  qed (use t Client_Acts in simp)
qed

lemma true_to_engines_fold:
  "true_to_engines rp es s m \<Longrightarrow> set es' \<subseteq> set es \<Longrightarrow> true_to_engines rp es s (fold (manager_step rp) es' m)"
  by (induction es' arbitrary: m) (auto intro: true_to_engines_step)

lemma known_at_start: "map_of (pipeline_start sources ps) b \<noteq> None \<longleftrightarrow> b \<in> set sources \<or> map_of ps b \<noteq> None"
  unfolding pipeline_start_def by (induction sources arbitrary: ps) (auto simp: update_conv')

lemma true_at_start: "bootstrap ms = Some m \<Longrightarrow> true_to_engines rp es (ms_sources ms) m"
proof -
  have src: "b \<in> set (ms_sources ms)" if "map_of (pipeline_start (ms_sources ms) []) b = Some y" for b y
    using known_at_start [of "ms_sources ms" "[]" b] that by simp
  show "bootstrap ms = Some m \<Longrightarrow> ?thesis"
    by (auto simp: bootstrap_def true_to_engines_def genuine_router_def new_router_def new_gateway_def
        new_consensus_def known_source_def dest: src split: if_splits)
qed

text \<open>
  C22: clients hear engines only. Whatever the engines, the connections and the clock do, an event
  that a client was sent is one that an engine of a configured source said, under the name of its
  broker; a triggered signal carries besides the list of the brokers that confirmed it, each
  once, the first being its own and every other one having said a signal of the same setup.
\<close>

theorem clients_hear_engines_only:
  assumes "bootstrap ms = Some m" "(cid, Event ev p) \<in> set (gw_outbox (mg_gateway (manager_run rp es m)))"
  shows "\<exists>broker p0. said es (ms_sources ms) broker ev p0 \<and>
    (if ev = ''signal.triggered''
     then \<exists>others. p = with_consensus (named broker p0) (broker # others) \<and> distinct (broker # others) \<and>
            list_all (confirms rp es (ms_sources ms) (setup_key rp p0)) others
     else p = named broker p0)"
proof -
  have t: "true_to_engines rp es (ms_sources ms) (manager_run rp es m)"
    unfolding manager_run_def using true_at_start [OF assms(1)] by (rule true_to_engines_fold) simp
  with assms(2) obtain b where b: "b \<in> set (ro_sent (mg_router (manager_run rp es m)))" "event_of_broadcast b = Event ev p"
    unfolding true_to_engines_def by fastforce
  then have "genuine rp es (ms_sources ms) b"
    using t by (simp add: true_to_engines_def genuine_router_def)
  with b(2) show ?thesis
    by (cases b) (auto simp: genuine_signal_def)
qed

section \<open>The figures\<close>

definition heard_signals :: "string list \<Rightarrow> manager_event list \<Rightarrow> nat" where
  "heard_signals sources es =
     length (filter (\<lambda>e. case e of Engine_Says now broker ev p \<Rightarrow> broker \<in> set sources \<and> ev = ''signal.triggered'' | _ \<Rightarrow> False) es)"

definition signals_in :: "pipeline \<Rightarrow> nat" where
  "signals_in ps = sum_list (map (en_signals_received \<circ> su_entry \<circ> snd) ps)"

lemma received_update:
  "map_of ps b = Some su \<Longrightarrow> en_signals_received (su_entry su') = en_signals_received (su_entry su) + n \<Longrightarrow>
   signals_in (AList.update b su' ps) = signals_in ps + n"
proof (induction ps)
  case (Cons x ps)
  then show ?case by (cases x) (auto simp: signals_in_def split: if_splits)
qed simp

lemma received_event:
  assumes "map_of ps b \<noteq> None"
  shows "signals_in (pipeline_event b e ps) =
    signals_in ps + (case e of Signal_Event ev p \<Rightarrow> if ev = ''signal.triggered'' then 1 else 0 | _ \<Rightarrow> 0)"
proof -
  obtain su where su: "map_of ps b = Some su" using assms by auto
  have "en_signals_received (su_entry (snd (supervise e su))) = en_signals_received (su_entry su) +
      (case e of Signal_Event ev p \<Rightarrow> if ev = ''signal.triggered'' then 1 else 0 | _ \<Rightarrow> 0)"
    by (cases e) (simp_all add: boot_def)
  from received_update [OF su this] show ?thesis by (simp add: pipeline_event_def su)
qed

lemma signal_frames_append [simp]: "signal_frames (xs @ ys) = signal_frames xs + signal_frames ys"
  by (simp add: signal_frames_def)

lemma signal_frames_none: "\<forall>(c, x) \<in> set xs. \<not> is_event x \<Longrightarrow> signal_frames xs = 0"
  by (fastforce simp: signal_frames_def filter_empty_conv)

lemma signal_frames_broadcast:
  "genuine rp es s b \<Longrightarrow> signal_frames (map (\<lambda>c. (c, event_of_broadcast b)) cs) = (case b of To_Symbol ev p \<Rightarrow> length cs | To_All ev p \<Rightarrow> 0)"
  by (cases b) (auto simp: signal_frames_def filter_map comp_def)

lemma heard_signals_Cons:
  "heard_signals s (e # es) = heard_signals s [e] + heard_signals s es"
  by (simp add: heard_signals_def)

lemma known_step: "known_source (manager_step rp e m) b = known_source m b"
  by (cases e) (auto simp: known_source_def engine_says_def simp del: not_None_eq split: option.split)

text \<open>One step: both figures move by what was heard and sent.\<close>

lemma figures_step:
  assumes t: "true_to_engines rp es s m" and e: "e \<in> set es" and src: "\<forall>b. known_source m b \<longleftrightarrow> b \<in> set s"
    and d: "gw_delivered (mg_gateway m) = signal_frames (gw_outbox (mg_gateway m))"
  shows "signals_in (mg_pipeline (manager_step rp e m)) = signals_in (mg_pipeline m) + heard_signals s [e] \<and>
    gw_delivered (mg_gateway (manager_step rp e m)) = signal_frames (gw_outbox (mg_gateway (manager_step rp e m)))"
proof (cases e)
  case (Engine_Says now broker ev p)
  then show ?thesis
    using d spec [OF src, of broker] received_event [of "mg_pipeline m" broker "Signal_Event ev p"]
    by (auto simp: engine_says_def heard_signals_def known_source_def simp del: not_None_eq)
next
  case (Engine_Moves broker ev)
  then show ?thesis
    using d received_event [of "mg_pipeline m" broker ev]
    by (cases ev; cases "map_of (mg_pipeline m) broker") (simp_all add: heard_signals_def pipeline_event_def)
next
  case (Drain_Ticks now)
  then show ?thesis using d by (simp add: heard_signals_def)
next
  case (Broadcast_Runs up)
  show ?thesis
  proof (cases "next_broadcast m")
    case (Some b)
    have "genuine rp es s b"
      using t next_broadcast_sent [OF Some] by (simp add: true_to_engines_def genuine_router_def)
    moreover obtain cs where "gw_outbox (deliver up b (mg_gateway m)) = gw_outbox (mg_gateway m) @ map (\<lambda>c. (c, event_of_broadcast b)) cs"
      "gw_delivered (deliver up b (mg_gateway m)) = gw_delivered (mg_gateway m) + (case b of To_Symbol ev p \<Rightarrow> length cs | To_All ev p \<Rightarrow> 0)"
      by (rule deliver_sends)
    ultimately show ?thesis
      using d Broadcast_Runs Some signal_frames_broadcast [of rp es s b cs] by (simp add: heard_signals_def)
  qed (use d Broadcast_Runs in \<open>simp add: heard_signals_def\<close>)
next
  case (Client_Acts st)
  show ?thesis
  proof (cases "delivers st")
    case False
    obtain xs where "gw_outbox (gw_do st (mg_gateway m)) = gw_outbox (mg_gateway m) @ xs" "\<forall>(c, x) \<in> set xs. \<not> is_event x"
      "gw_delivered (gw_do st (mg_gateway m)) = gw_delivered (mg_gateway m)"
      by (rule client_acts_sends [OF False])
    then show ?thesis
      using d Client_Acts False signal_frames_none [of xs] by (simp add: heard_signals_def)
  qed (use d Client_Acts in \<open>simp add: heard_signals_def\<close>)
qed

lemma figures_run:
  assumes "true_to_engines rp es s m" "set es' \<subseteq> set es" "\<forall>b. known_source m b \<longleftrightarrow> b \<in> set s"
    and "gw_delivered (mg_gateway m) = signal_frames (gw_outbox (mg_gateway m))"
  shows "signals_in (mg_pipeline (fold (manager_step rp) es' m)) = signals_in (mg_pipeline m) + heard_signals s es' \<and>
    gw_delivered (mg_gateway (fold (manager_step rp) es' m)) = signal_frames (gw_outbox (mg_gateway (fold (manager_step rp) es' m)))"
  using assms
proof (induction es' arbitrary: m)
  case Nil
  then show ?case by (simp add: heard_signals_def)
next
  case (Cons e es')
  have e: "e \<in> set es" "set es' \<subseteq> set es" using Cons.prems(2) by auto
  note step = figures_step [OF Cons.prems(1) e(1) Cons.prems(3,4)]
  have "\<forall>b. known_source (manager_step rp e m) b \<longleftrightarrow> b \<in> set s" using Cons.prems(3) by (simp add: known_step)
  from Cons.IH [OF true_to_engines_step [OF Cons.prems(1) e(1)] e(2) this] step
  show ?case by (simp add: heard_signals_Cons [of s e es'])
qed

lemma signals_in_zero: "\<forall>(b, su) \<in> set ps. en_signals_received (su_entry su) = 0 \<Longrightarrow> signals_in ps = 0"
  by (induction ps) (auto simp: signals_in_def)

lemma signals_at_start:
  "\<forall>(b, su) \<in> set ps. en_signals_received (su_entry su) = 0 \<Longrightarrow>
   \<forall>(b, su) \<in> set (pipeline_start sources ps). en_signals_received (su_entry su) = 0"
proof (induction sources arbitrary: ps)
  case (Cons b sources)
  have "\<forall>(b, su) \<in> set (AList.update b start_supervised ps). en_signals_received (su_entry su) = 0"
    using Cons.prems by (induction ps) (auto simp: start_supervised_def boot_def new_entry_def)
  then show ?case using Cons.IH by (simp add: pipeline_start_def)
qed (simp add: pipeline_start_def)

text \<open>
  the figures of the dashboard are true. However often engines crash, restart or are restarted
  by hand, and whoever connects, the snapshot counts as received exactly the triggered signals that
  the engines of the configured sources said, and as delivered exactly the triggered signals that
  clients were sent.
\<close>

theorem figures_are_true:
  assumes "bootstrap ms = Some m"
  shows "gm_received (manager_metrics (manager_run rp es m)) = heard_signals (ms_sources ms) es \<and>
    gm_delivered (manager_metrics (manager_run rp es m)) = signal_frames (gw_outbox (mg_gateway (manager_run rp es m)))"
proof -
  have m: "mg_pipeline m = pipeline_start (ms_sources ms) []" "gw_delivered (mg_gateway m) = 0" "gw_outbox (mg_gateway m) = []"
    using assms by (auto simp: bootstrap_def new_gateway_def split: if_splits)
  have known: "\<forall>b. known_source m b \<longleftrightarrow> b \<in> set (ms_sources ms)"
    using known_at_start [of "ms_sources ms" "[]"] by (simp add: known_source_def m(1) del: not_None_eq)
  have start: "signals_in (mg_pipeline m) = 0" "gw_delivered (mg_gateway m) = signal_frames (gw_outbox (mg_gateway m))"
    using signals_in_zero [OF signals_at_start [of "[]"]] by (simp_all add: m signal_frames_def)
  have "gm_received (manager_metrics m') = signals_in (mg_pipeline m')" for m'
    by (simp add: manager_metrics_def build_metrics_def pipeline_stats_def signals_in_def comp_def split_def)
  then show ?thesis
    using figures_run [OF true_at_start [OF assms] subset_refl known start(2)] start(1)
    by (simp add: manager_run_def) (simp add: manager_metrics_def build_metrics_def)
qed

section \<open>A run, and what the settings are read as\<close>

definition two_sources :: manager_settings where
  "two_sources = \<lparr>ms_sources = [''fbs'', ''exness''], ms_engine_path = ''/srv'', ms_engine_config = ''config.yaml'',
     ms_gateway_host = ''127.0.0.1'', ms_gateway_port = 8765, ms_gateway_secret = [], ms_window_ms = 0,
     ms_symbols = [''XAUUSD''], ms_log_level = ''INFO''\<rparr>"

definition one_signal :: "manager_event list" where
  "one_signal =
     [Client_Acts (Connect True []), Client_Acts (Frame True ''gw-1'' (Some (JObj [(''action'', JStr ''subscribe''), (''symbols'', JArr [JStr ''xauusd''])]))),
      Engine_Says 1 ''fbs'' ''signal.triggered'' [(''symbol'', JStr ''XAUUSD'')],
      Engine_Moves ''fbs'' (Crashed ''mt5''), Drain_Ticks 2, Broadcast_Runs (\<lambda>_. True)]"

definition one_start :: manager where
  "one_start = \<lparr>mg_pipeline = [(''fbs'', start_supervised), (''exness'', start_supervised)],
     mg_router = new_router 0, mg_gateway = new_gateway [''XAUUSD''] [], mg_ran = 0\<rparr>"

lemma one_start: "bootstrap two_sources = Some one_start"
  by (simp add: bootstrap_def two_sources_def one_start_def pipeline_start_def)

lemma one_signal_outbox:
  "gw_outbox (mg_gateway (manager_run (\<lambda>_. []) one_signal one_start)) =
     [(''gw-1'', Connected ''gw-1'' [''XAUUSD'']), (''gw-1'', Subscribed {''XAUUSD''} [''XAUUSD'']),
      (''gw-1'', Event ''signal.triggered''
        [(''symbol'', JStr ''XAUUSD''), (''broker'', JStr ''fbs''), (''consensus'', JArr [JStr ''fbs''])])]"
  by code_simp

theorem clients_hear_engines_only_witness:
  "\<exists>broker p0. said one_signal (ms_sources two_sources) broker ''signal.triggered'' p0 \<and>
     (\<exists>others. [(''symbol'', JStr ''XAUUSD''), (''broker'', JStr ''fbs''), (''consensus'', JArr [JStr ''fbs''])] =
        with_consensus (named broker p0) (broker # others) \<and> distinct (broker # others))"
proof -
  have "(''gw-1'', Event ''signal.triggered'' [(''symbol'', JStr ''XAUUSD''), (''broker'', JStr ''fbs''), (''consensus'', JArr [JStr ''fbs''])])
      \<in> set (gw_outbox (mg_gateway (manager_run (\<lambda>_. []) one_signal one_start)))"
    by (simp add: one_signal_outbox)
  from clients_hear_engines_only [OF one_start this] show ?thesis by auto
qed

theorem figures_are_true_witness:
  "gm_received (manager_metrics (manager_run (\<lambda>_. []) one_signal one_start)) = 1 \<and>
   gm_delivered (manager_metrics (manager_run (\<lambda>_. []) one_signal one_start)) = 1"
  using figures_are_true [OF one_start, of "\<lambda>_. []" one_signal]
  by (simp add: one_signal_outbox signal_frames_def heard_signals_def) (simp add: one_signal_def two_sources_def)

text \<open>
  The manager's file is read with less care than the engine's: a single name under \<open>sources\<close> becomes
  one engine per letter, an empty host becomes the host \<open>None\<close>, an empty port raises, and a file
  that holds a list counts as a file without entries, so that the manager does not start.
\<close>

definition odd_files :: files where
  "odd_files = [''/srv/manager/config.yaml'' \<mapsto> Inr (PDict
      [(PStr ''sources'', PStr ''fbs''), (PStr ''signal_engine'', PDict [(PStr ''path'', PStr ''..'')]),
       (PStr ''gateway_server'', PDict [(PStr ''host'', PNone)])]),
     ''/srv/list.yaml'' \<mapsto> Inr (PList [PStr ''sources'']),
     ''/srv/port.yaml'' \<mapsto> Inr (PDict [(PStr ''gateway_server'', PDict [(PStr ''port'', PNone)])])]"

definition odd_process :: process where
  "odd_process = \<lparr>pr_environ = (\<lambda>_. None), pr_dotenv = (\<lambda>_. None), pr_cwd = ''/'', pr_home = ''/root'', pr_files = odd_files\<rparr>"

definition odd_settings :: manager_settings where
  "odd_settings = \<lparr>ms_sources = [''f'', ''b'', ''s''], ms_engine_path = ''/srv'', ms_engine_config = ''config.yaml'',
     ms_gateway_host = ''None'', ms_gateway_port = 8765, ms_gateway_secret = [], ms_window_ms = 0,
     ms_symbols = [''XAUUSD'', ''XAGUSD''], ms_log_level = ''INFO''\<rparr>"

lemma manager_settings_misread:
  "from_yaml sample_lib odd_process (Some ''/srv/manager/config.yaml'') = Inr odd_settings"
  "map_result bootstrap (from_yaml sample_lib odd_process (Some ''/srv/list.yaml'')) = Inr None"
  "from_yaml sample_lib odd_process (Some ''/srv/port.yaml'') = Inl TypeError"
  by code_simp+

end
