(* ===== verification/Workers.thy ===== *)
theory Workers
  imports Manager
begin

text \<open>
  manager/src/server/engine_server.py and manager/src/supervisor.py: engines as processes of their
  own, which the manager starts, restarts and listens to (the manager now runs them in its own
  process, see \<open>Manager\<close>). A connection is a number, a frame is a text (\<open>None\<close> where
  \<open>json.loads\<close> raises), a handler is what it waits for; whether a send succeeds is an argument.
  The processes are started, exit and are signalled as steps; log files are left out.
\<close>

section \<open>The server for engines: \<open>EngineServer\<close>\<close>

text \<open>What a handler waits for: the first frame, or the frames of a broker.\<close>

datatype worker_handler = Handshaking | Serving string

datatype server_effect =
    Refused nat string
  | Acked nat string
  | Ponged nat
  | Signal_To_Router json payload string
  | Log_To_Listener string payload

record engine_server =
  es_token :: string
  es_listening :: bool
  es_handlers :: "(nat \<times> worker_handler) list"
  es_connected :: "(string \<times> nat) list"
  es_signals :: "(string \<times> nat) list"
  es_since :: "(string \<times> real) list"
  es_latest :: "(string \<times> payload) list"
  es_effects :: "server_effect list"

definition new_engine_server :: "string \<Rightarrow> bool \<Rightarrow> engine_server" where
  "new_engine_server token listening =
     \<lparr>es_token = token, es_listening = listening, es_handlers = [], es_connected = [], es_signals = [],
      es_since = [], es_latest = [], es_effects = []\<rparr>"

definition es_effect :: "server_effect \<Rightarrow> engine_server \<Rightarrow> engine_server" where
  "es_effect x s = s\<lparr>es_effects := es_effects s @ [x]\<rparr>"

text \<open>The \<open>finally\<close> of \<open>_handle\<close>: \<open>if broker and self._connected.get(broker) is websocket\<close>.\<close>

definition handler_ends :: "nat \<Rightarrow> engine_server \<Rightarrow> engine_server" where
  "handler_ends c s =
     (let s' = s\<lparr>es_handlers := AList.delete c (es_handlers s)\<rparr> in
      case map_of (es_handlers s) c of
        Some (Serving broker) \<Rightarrow>
          if broker \<noteq> [] \<and> map_of (es_connected s) broker = Some c
          then s'\<lparr>es_connected := AList.delete broker (es_connected s)\<rparr> else s'
      | _ \<Rightarrow> s')"

definition first_frame ::
  "(json \<Rightarrow> string) \<Rightarrow> real \<Rightarrow> bool \<Rightarrow> nat \<Rightarrow> json option \<Rightarrow> engine_server \<Rightarrow> engine_server" where
  "first_frame rp now up c frame s =
     (case frame of
        Some (JObj msg) \<Rightarrow>
          if get_or msg ''type'' JNull \<noteq> JStr ''hello'' then handler_ends c (es_effect (Refused c ''expected hello'') s)
          else if get_or msg ''token'' JNull \<noteq> JStr (es_token s) then handler_ends c (es_effect (Refused c ''invalid token'') s)
          else
            let broker = fstring rp (get_or msg ''broker'' (JStr ''unknown''));
                s' = s\<lparr>es_handlers := AList.update c (Serving broker) (es_handlers s),
                       es_connected := AList.update broker c (es_connected s),
                       es_since := AList.update broker now (es_since s)\<rparr>
            in if up then es_effect (Acked c broker) s' else handler_ends c s'
      | _ \<Rightarrow> handler_ends c s)"

definition engine_frame :: "bool \<Rightarrow> nat \<Rightarrow> string \<Rightarrow> json option \<Rightarrow> engine_server \<Rightarrow> engine_server" where
  "engine_frame up c broker frame s =
     (case frame of
        None \<Rightarrow> s
      | Some (JObj msg) \<Rightarrow>
          let msg_type = get_or msg ''type'' JNull; payload = get_or msg ''payload'' (JObj []) in
          if msg_type = JStr ''signal'' then
            let event = get_or msg ''event'' (JStr []) in
            (case payload of
               JObj p \<Rightarrow>
                 if truthy event then
                   es_effect (Signal_To_Router event p broker)
                     (s\<lparr>es_signals := AList.update broker
                          ((case map_of (es_signals s) broker of None \<Rightarrow> 0 | Some n \<Rightarrow> n) + 1) (es_signals s)\<rparr>)
                 else s
             | _ \<Rightarrow> s)
          else if msg_type = JStr ''metrics'' then
            (case payload of JObj p \<Rightarrow> s\<lparr>es_latest := AList.update broker p (es_latest s)\<rparr> | _ \<Rightarrow> s)
          else if msg_type = JStr ''log'' then
            (case (get_or msg ''event'' (JStr ''log.record''), payload) of
               (JStr event, JObj p) \<Rightarrow>
                 if es_listening s then es_effect (Log_To_Listener event (AList.update ''broker'' (JStr broker) p)) s else s
             | _ \<Rightarrow> s)
          else if msg_type = JStr ''ping'' then (if up then es_effect (Ponged c) s else s)
          else s
      | Some _ \<Rightarrow> handler_ends c s)"

datatype server_event =
    Opens nat
  | Sends real bool nat "json option"
  | Gone nat

text \<open>
  A connection opens, sends a frame, or is gone: closed, or silent for ten seconds before its
  first frame. Each connection has its own number.
\<close>

fun server_step :: "(json \<Rightarrow> string) \<Rightarrow> server_event \<Rightarrow> engine_server \<Rightarrow> engine_server" where
  "server_step rp (Opens c) s =
     (if map_of (es_handlers s) c = None \<and> c \<notin> snd ` set (es_connected s)
      then s\<lparr>es_handlers := AList.update c Handshaking (es_handlers s)\<rparr> else s)"
| "server_step rp (Sends now up c frame) s =
     (case map_of (es_handlers s) c of
        None \<Rightarrow> s
      | Some Handshaking \<Rightarrow> first_frame rp now up c frame s
      | Some (Serving broker) \<Rightarrow> engine_frame up c broker frame s)"
| "server_step rp (Gone c) s = handler_ends c s"

definition server_run :: "(json \<Rightarrow> string) \<Rightarrow> server_event list \<Rightarrow> engine_server \<Rightarrow> engine_server" where
  "server_run rp es s = fold (server_step rp) es s"

definition connected_brokers :: "engine_server \<Rightarrow> string list" where
  "connected_brokers s = map fst (es_connected s)"

record broker_stat =
  bs_connected :: bool
  bs_since :: "real option"
  bs_signals :: nat
  bs_latest :: "payload option"

definition broker_stats :: "engine_server \<Rightarrow> (string \<times> broker_stat) list" where
  "broker_stats s =
     map (\<lambda>b. (b, \<lparr>bs_connected = (map_of (es_connected s) b \<noteq> None), bs_since = map_of (es_since s) b,
                   bs_signals = (case map_of (es_signals s) b of None \<Rightarrow> 0 | Some n \<Rightarrow> n),
                   bs_latest = map_of (es_latest s) b\<rparr>))
       (sort (remdups (map fst (es_connected s) @ map fst (es_signals s))))"

section \<open>The processes: \<open>ProcessSupervisor\<close>\<close>

definition RESTART_DELAYS :: "int list" where "RESTART_DELAYS = [2, 5, 10, 30]"

record supervisor =
  sv_sources :: "string list"
  sv_engine_path :: string
  sv_engine_config :: string
  sv_url :: string
  sv_token :: string
  sv_symbols :: "string list"

definition new_supervisor ::
  "string \<Rightarrow> string list \<Rightarrow> string \<Rightarrow> string \<Rightarrow> string \<Rightarrow> string \<Rightarrow> string list \<Rightarrow> supervisor" where
  "new_supervisor cwd sources engine_path config url token symbols =
     (let root = resolve_path cwd engine_path in
      \<lparr>sv_sources = sources, sv_engine_path = root, sv_engine_config = resolve_path cwd (path_join root config),
       sv_url = url, sv_token = token, sv_symbols = symbols\<rparr>)"

definition worker_cwd :: "supervisor \<Rightarrow> string \<Rightarrow> string" where
  "worker_cwd sv broker = path_join (path_join (sv_engine_path sv) ''run'') broker"

fun comma_join :: "string list \<Rightarrow> string" where
  "comma_join [] = []"
| "comma_join [s] = s"
| "comma_join (s # ss) = s @ CHR '','' # comma_join ss"

text \<open>The environment of a worker; \<open>os.pathsep\<close> is a colon.\<close>

definition build_env :: "supervisor \<Rightarrow> (string \<times> string) list \<Rightarrow> string \<Rightarrow> (string \<times> string) list" where
  "build_env sv environ broker =
     (let src_path = path_join (sv_engine_path sv) ''src'';
          existing = (case map_of environ ''PYTHONPATH'' of None \<Rightarrow> [] | Some p \<Rightarrow> p);
          env = AList.update ''MANAGER_TOKEN'' (sv_token sv)
                 (AList.update ''MANAGER_URL'' (sv_url sv)
                 (AList.update ''MANAGER_MODE'' ''worker''
                 (AList.update ''MT5_USE'' broker
                 (AList.update ''USE_CONFIG'' (sv_engine_config sv)
                 (AList.update ''PYTHONPATH'' (if existing \<noteq> [] then src_path @ CHR '':'' # existing else src_path) environ)))))
      in if sv_symbols sv \<noteq> [] then AList.update ''MANAGER_SYMBOLS'' (comma_join (sv_symbols sv)) env else env)"

text \<open>Where \<open>_supervise\<close> waits: for the process to start, to exit, for the pause to end.\<close>

datatype wphase = Spawning | Alive int | Resting | Finished

record worker =
  wk_env :: "(string \<times> string) list"
  wk_cwd :: string
  wk_phase :: wphase
  wk_restarts :: nat
  wk_delays :: "int list"

record fleet =
  fl_workers :: "(string \<times> worker) list"
  fl_stopping :: bool
  fl_pid_files :: "(string \<times> string) list"
  fl_signalled :: "int list"

definition pid_path :: "string \<Rightarrow> string" where
  "pid_path cwd = path_join cwd ''manager-worker.pid''"

definition stop_orphan :: "string \<Rightarrow> fleet \<Rightarrow> fleet" where
  "stop_orphan cwd f =
     (case map_of (fl_pid_files f) (pid_path cwd) of
        None \<Rightarrow> f
      | Some content \<Rightarrow>
          f\<lparr>fl_signalled := fl_signalled f @ (case py_int (strip content) of Inr pid \<Rightarrow> [pid] | Inl _ \<Rightarrow> []),
            fl_pid_files := AList.delete (pid_path cwd) (fl_pid_files f)\<rparr>)"

definition start_worker :: "supervisor \<Rightarrow> (string \<times> string) list \<Rightarrow> string \<Rightarrow> fleet \<Rightarrow> fleet" where
  "start_worker sv environ broker f =
     (let cwd = worker_cwd sv broker; f' = stop_orphan cwd f in
      f'\<lparr>fl_workers := AList.update broker
           \<lparr>wk_env = build_env sv environ broker, wk_cwd = cwd, wk_phase = Spawning, wk_restarts = 0, wk_delays = []\<rparr>
           (fl_workers f')\<rparr>)"

definition fleet_start :: "supervisor \<Rightarrow> (string \<times> string) list \<Rightarrow> fleet \<Rightarrow> fleet" where
  "fleet_start sv environ f = fold (start_worker sv environ) (sv_sources sv) (f\<lparr>fl_stopping := False\<rparr>)"

datatype fleet_event = Spawned string int | Spawn_Fails string | Exits string | Rest_Over string | Stop_All

text \<open>The process is over, or never came up: remove its file, then end or pause.\<close>

definition restart_delay :: "nat \<Rightarrow> int" where
  "restart_delay n = RESTART_DELAYS ! min n (length RESTART_DELAYS - 1)"

definition worker_over :: "string \<Rightarrow> worker \<Rightarrow> fleet \<Rightarrow> fleet" where
  "worker_over broker w f =
     f\<lparr>fl_pid_files := AList.delete (pid_path (wk_cwd w)) (fl_pid_files f),
       fl_workers := AList.update broker
         (if fl_stopping f then w\<lparr>wk_phase := Finished\<rparr>
          else w\<lparr>wk_phase := Resting, wk_restarts := wk_restarts w + 1,
                 wk_delays := wk_delays w @ [restart_delay (wk_restarts w)]\<rparr>) (fl_workers f)\<rparr>"

fun alive_pid :: "wphase \<Rightarrow> int option" where
  "alive_pid (Alive pid) = Some pid"
| "alive_pid _ = None"

fun fleet_step :: "fleet_event \<Rightarrow> fleet \<Rightarrow> fleet" where
  "fleet_step (Spawned broker pid) f =
     (case map_of (fl_workers f) broker of
        Some w \<Rightarrow>
          if wk_phase w = Spawning
          then f\<lparr>fl_workers := AList.update broker (w\<lparr>wk_phase := Alive pid\<rparr>) (fl_workers f),
                 fl_pid_files := AList.update (pid_path (wk_cwd w)) (show_int pid) (fl_pid_files f)\<rparr>
          else f
      | None \<Rightarrow> f)"
| "fleet_step (Spawn_Fails broker) f =
     (case map_of (fl_workers f) broker of
        Some w \<Rightarrow> if wk_phase w = Spawning then worker_over broker w f else f
      | None \<Rightarrow> f)"
| "fleet_step (Exits broker) f =
     (case map_of (fl_workers f) broker of
        Some w \<Rightarrow> if alive_pid (wk_phase w) \<noteq> None then worker_over broker w f else f
      | None \<Rightarrow> f)"
| "fleet_step (Rest_Over broker) f =
     (case map_of (fl_workers f) broker of
        Some w \<Rightarrow>
          if wk_phase w = Resting
          then f\<lparr>fl_workers := AList.update broker
                   (w\<lparr>wk_phase := (if fl_stopping f then Finished else Spawning)\<rparr>) (fl_workers f)\<rparr>
          else f
      | None \<Rightarrow> f)"
| "fleet_step Stop_All f =
     f\<lparr>fl_stopping := True,
       fl_signalled := fl_signalled f @ List.map_filter (\<lambda>(b, w). alive_pid (wk_phase w)) (fl_workers f),
       fl_workers := map (\<lambda>(b, w). (b, if wk_phase w = Resting then w\<lparr>wk_phase := Finished\<rparr> else w)) (fl_workers f)\<rparr>"

definition fleet_run :: "fleet_event list \<Rightarrow> fleet \<Rightarrow> fleet" where
  "fleet_run es f = fold fleet_step es f"

text \<open>When \<open>stop\<close> returns: every supervising task has ended.\<close>

definition stop_returns :: "fleet \<Rightarrow> bool" where
  "stop_returns f \<longleftrightarrow> list_all (\<lambda>(b, w). wk_phase w = Finished) (fl_workers f)"

end
