(* ===== verification/Workers_Laws.thy ===== *)
theory Workers_Laws
  imports Workers Manager_Laws
begin

text \<open>
  The engines as processes: the server passes on only what a connection sent after a valid hello,
  and every named broker it lists has a live connection; the files of process numbers name exactly
  the living workers, so that the next start ends them; a process that comes up while the fleet
  is stopped is never ended; a worker reads the settings that an engine in the manager would have.
\<close>

section \<open>Who is heard\<close>

definition greeted :: "(json \<Rightarrow> string) \<Rightarrow> string \<Rightarrow> server_event list \<Rightarrow> nat \<Rightarrow> string \<Rightarrow> bool" where
  "greeted rp token es c broker \<longleftrightarrow>
     (\<exists>now up msg. Sends now up c (Some (JObj msg)) \<in> set es \<and> get_or msg ''type'' JNull = JStr ''hello'' \<and>
        get_or msg ''token'' JNull = JStr token \<and> broker = fstring rp (get_or msg ''broker'' (JStr ''unknown'')))"

definition sent_signal :: "server_event list \<Rightarrow> nat \<Rightarrow> json \<Rightarrow> payload \<Rightarrow> bool" where
  "sent_signal es c ev p \<longleftrightarrow>
     (\<exists>now up msg. Sends now up c (Some (JObj msg)) \<in> set es \<and> get_or msg ''type'' JNull = JStr ''signal'' \<and>
        get_or msg ''event'' (JStr []) = ev \<and> get_or msg ''payload'' (JObj []) = JObj p)"

definition server_ok :: "(json \<Rightarrow> string) \<Rightarrow> server_event list \<Rightarrow> engine_server \<Rightarrow> bool" where
  "server_ok rp es s \<longleftrightarrow> distinct (map fst (es_connected s)) \<and>
     (\<forall>c broker. map_of (es_handlers s) c = Some (Serving broker) \<longrightarrow> greeted rp (es_token s) es c broker) \<and>
     (\<forall>broker c. map_of (es_connected s) broker = Some c \<and> broker \<noteq> [] \<longrightarrow> map_of (es_handlers s) c = Some (Serving broker)) \<and>
     (\<forall>ev p broker. Signal_To_Router ev p broker \<in> set (es_effects s) \<longrightarrow>
        truthy ev \<and> (\<exists>c. greeted rp (es_token s) es c broker \<and> sent_signal es c ev p))"

lemma handler_ends_frame:
  "es_effects (handler_ends c s) = es_effects s" "es_token (handler_ends c s) = es_token s"
  "map_of (es_handlers (handler_ends c s)) = (map_of (es_handlers s))(c := None)"
  "distinct (map fst (es_connected s)) \<Longrightarrow> distinct (map fst (es_connected (handler_ends c s)))"
  by (auto simp: handler_ends_def Let_def delete_conv' distinct_delete split: option.split worker_handler.split)

lemma handler_ends_connected:
  assumes "server_ok rp es s" "map_of (es_connected (handler_ends c s)) broker = Some c'" "broker \<noteq> []"
  shows "map_of (es_connected s) broker = Some c' \<and> c' \<noteq> c"
proof -
  have conn: "map_of (es_connected s) broker = Some c'"
    using assms(2)
    by (auto simp: handler_ends_def Let_def delete_conv' split: option.splits worker_handler.splits if_splits)
  moreover have "c' \<noteq> c"
  proof
    assume "c' = c"
    moreover from this have "map_of (es_handlers s) c = Some (Serving broker)"
      using assms(1,3) conn by (simp add: server_ok_def)
    ultimately show False
      using assms(2,3) conn by (simp add: handler_ends_def Let_def delete_conv')
  qed
  ultimately show ?thesis by simp
qed

lemma server_ok_ends:
  assumes ok: "server_ok rp es s" shows "server_ok rp es (handler_ends c s)"
proof -
  note conn = handler_ends_connected [OF ok]
  have "map_of (es_handlers (handler_ends c s)) c' = Some (Serving b)"
    if "map_of (es_connected (handler_ends c s)) b = Some c'" "b \<noteq> []" for b c'
    using conn [OF that] ok that(2) by (simp add: server_ok_def handler_ends_frame)
  moreover have "greeted rp (es_token s) es c' b" if "map_of (es_handlers (handler_ends c s)) c' = Some (Serving b)" for b c'
    using that ok by (simp add: server_ok_def handler_ends_frame split: if_splits)
  ultimately show ?thesis
    using ok unfolding server_ok_def handler_ends_frame(1,2) by (simp add: handler_ends_frame(4))
qed

definition justified :: "(json \<Rightarrow> string) \<Rightarrow> server_event list \<Rightarrow> string \<Rightarrow> server_effect \<Rightarrow> bool" where
  "justified rp es token x \<longleftrightarrow>
     (case x of Signal_To_Router ev p b \<Rightarrow> truthy ev \<and> (\<exists>c. greeted rp token es c b \<and> sent_signal es c ev p) | _ \<Rightarrow> True)"

lemma server_ok_effect: "server_ok rp es s \<Longrightarrow> justified rp es (es_token s) x \<Longrightarrow> server_ok rp es (es_effect x s)"
  by (cases x) (simp_all add: server_ok_def es_effect_def justified_def)

lemma server_ok_counts:
  "server_ok rp es (s\<lparr>es_signals := n\<rparr>) = server_ok rp es s" "server_ok rp es (s\<lparr>es_latest := l\<rparr>) = server_ok rp es s"
  by (simp_all add: server_ok_def)

lemma server_ok_hello:
  assumes ok: "server_ok rp es s" and h: "map_of (es_handlers s) c = Some Handshaking" and g: "greeted rp (es_token s) es c broker"
  shows "server_ok rp es (s\<lparr>es_handlers := AList.update c (Serving broker) (es_handlers s),
     es_connected := AList.update broker c (es_connected s), es_since := since\<rparr>)"
proof -
  have "c' \<noteq> c" if "map_of (es_connected s) b = Some c'" "b \<noteq> []" for b c'
    using ok h that by (auto simp: server_ok_def)
  then show ?thesis
    using ok g by (auto simp: server_ok_def update_conv' distinct_update)
qed

lemma server_ok_first:
  assumes ok: "server_ok rp es s" and h: "map_of (es_handlers s) c = Some Handshaking" and e: "Sends now up c frame \<in> set es"
  shows "server_ok rp es (first_frame rp now up c frame s)"
proof -
  have "server_ok rp es (first_frame rp now up c (Some (JObj msg)) s)" if f: "frame = Some (JObj msg)" for msg
  proof (cases "get_or msg ''type'' JNull = JStr ''hello'' \<and> get_or msg ''token'' JNull = JStr (es_token s)")
    case True
    then have "greeted rp (es_token s) es c (fstring rp (get_or msg ''broker'' (JStr ''unknown'')))"
      using e f unfolding greeted_def by blast
    from server_ok_hello [OF ok h this] True show ?thesis
      by (auto simp: first_frame_def Let_def justified_def intro!: server_ok_ends server_ok_effect)
  next
    case False
    then show ?thesis
      using ok by (auto simp: first_frame_def justified_def intro!: server_ok_ends server_ok_effect)
  qed
  then have "server_ok rp es (first_frame rp now up c (Some j) s)" if "frame = Some j" for j
    using that ok by (cases j) (simp_all add: first_frame_def server_ok_ends)
  then show ?thesis using ok by (cases frame) (simp_all add: first_frame_def server_ok_ends)
qed

lemma server_ok_frame:
  assumes ok: "server_ok rp es s" and h: "map_of (es_handlers s) c = Some (Serving broker)" and e: "Sends now up c frame \<in> set es"
  shows "server_ok rp es (engine_frame up c broker frame s)"
proof -
  have g: "greeted rp (es_token s) es c broker" using ok h by (simp add: server_ok_def)
  have sig: "\<exists>c. greeted rp (es_token s) es c broker \<and> sent_signal es c (get_or msg ''event'' (JStr [])) p"
    if "frame = Some (JObj msg)" "get_or msg ''type'' JNull = JStr ''signal''" "get_or msg ''payload'' (JObj []) = JObj p" for msg p
    using g e that unfolding sent_signal_def by blast
  have "server_ok rp es (engine_frame up c broker (Some (JObj msg)) s)" if f: "frame = Some (JObj msg)" for msg
  proof (cases "get_or msg ''type'' JNull = JStr ''signal''")
    case True
    have "server_ok rp es (es_effect (Signal_To_Router (get_or msg ''event'' (JStr [])) p broker) (s\<lparr>es_signals := n\<rparr>))"
      if "get_or msg ''payload'' (JObj []) = JObj p" "truthy (get_or msg ''event'' (JStr []))" for p n
      using sig [OF f True that(1)] that(2) ok
      by (intro server_ok_effect) (simp_all add: server_ok_counts justified_def)
    with True ok show ?thesis by (auto simp: engine_frame_def Let_def split: json.split)
  next
    case False
    have "justified rp es (es_token s) (Log_To_Listener ev p)" "justified rp es (es_token s) (Ponged c)" for ev p
      by (simp_all add: justified_def)
    with False show ?thesis
      using ok by (auto simp: engine_frame_def Let_def server_ok_counts split: json.split intro: server_ok_effect)
  qed
  then have "server_ok rp es (engine_frame up c broker (Some j) s)" if "frame = Some j" for j
    using that ok by (cases j) (simp_all add: engine_frame_def server_ok_ends)
  then show ?thesis using ok by (cases frame) (simp_all add: engine_frame_def)
qed

lemma server_ok_step: "server_ok rp es s \<Longrightarrow> e \<in> set es \<Longrightarrow> server_ok rp es (server_step rp e s)"
proof (cases e)
  case (Opens c)
  assume ok: "server_ok rp es s"
  have "c' \<noteq> c" if "map_of (es_connected s) b = Some c'" "c \<notin> snd ` set (es_connected s)" for b c'
    using that by (force dest: map_of_SomeD)
  then show ?thesis
    using ok Opens by (auto simp: server_ok_def update_conv')
next
  case (Sends now up c frame)
  assume "server_ok rp es s" "e \<in> set es"
  then show ?thesis
    using Sends by (auto intro: server_ok_first server_ok_frame split: option.split worker_handler.split)
qed (auto intro: server_ok_ends)

lemma server_ok_fold: "server_ok rp es s \<Longrightarrow> set es' \<subseteq> set es \<Longrightarrow> server_ok rp es (fold (server_step rp) es' s)"
  by (induction es' arbitrary: s) (auto intro: server_ok_step)

lemma server_ok_run: "server_ok rp es (server_run rp es (new_engine_server token listening))"
  unfolding server_run_def by (rule server_ok_fold) (simp_all add: server_ok_def new_engine_server_def)

lemma token_step: "es_token (server_step rp e s) = es_token s"
  by (cases e) (auto simp: first_frame_def engine_frame_def es_effect_def handler_ends_frame Let_def
      split: option.split worker_handler.split json.split)

lemma token_run: "es_token (server_run rp es s) = es_token s"
  unfolding server_run_def by (induction es arbitrary: s) (simp_all add: token_step)

text \<open>
  the server for engines hears who knows the token. Whatever connections do, a signal is
  passed to the router, under the name of a broker, only if one connection presented the token with
  that name and sent that event and payload; and a broker with a name is listed as connected only
  while a connection that greeted with that name is being served.
\<close>

theorem engines_heard_after_hello:
  "(Signal_To_Router ev p broker \<in> set (es_effects (server_run rp es (new_engine_server token listening))) \<longrightarrow>
      (\<exists>c. greeted rp token es c broker \<and> sent_signal es c ev p)) \<and>
   (broker \<noteq> [] \<and> broker \<in> set (connected_brokers (server_run rp es (new_engine_server token listening))) \<longrightarrow>
      (\<exists>c. greeted rp token es c broker \<and>
         map_of (es_handlers (server_run rp es (new_engine_server token listening))) c = Some (Serving broker)))"
proof -
  let ?s = "server_run rp es (new_engine_server token listening)"
  have ok: "server_ok rp es ?s" by (rule server_ok_run)
  have t: "es_token ?s = token" by (simp add: token_run new_engine_server_def)
  have "\<exists>c. map_of (es_connected ?s) broker = Some c" if "broker \<in> set (connected_brokers ?s)"
    using that by (auto simp: connected_brokers_def map_of_eq_None_iff simp flip: not_None_eq)
  then show ?thesis
    using ok t unfolding server_ok_def by metis
qed

section \<open>What a worker reads\<close>

lemma for_broker_elsewhere:
  assumes "pr_files pr' = pr_files pr" "pr_files pr (path_join (path_parent path) ''mt5-credentials.yaml'') \<noteq> None"
    "broker \<noteq> []"
  shows "for_broker lib pr' path broker dir symbols = for_broker lib pr path broker dir symbols"
proof -
  have c: "creds_file pr' path = creds_file pr path" using assms(1,2) by (simp add: creds_file_def)
  have r: "resolve_broker_cfg lib pr' cfg (Some path) = resolve_broker_cfg lib pr cfg (Some path)" for cfg
    unfolding resolve_broker_cfg_def c assms(1) option.case by simp
  have l: "load_mt5_profile lib pr' path profile = load_mt5_profile lib pr path profile" for profile
    unfolding load_mt5_profile_def c assms(1) ..
  have "resolve_mt5_credentials lib pr' cfg (Some path) = resolve_mt5_credentials lib pr cfg (Some path)"
    if "with_profile base broker = Inr cfg" for base cfg
  proof -
    have "cfg_get cfg ''mt5.use'' PNone = PStr broker"
      using that by (auto simp: with_profile_def Let_def cfg_get_def bindR_Inr_iff update_conv')
    then show ?thesis
      using assms(3) by (simp add: resolve_mt5_credentials_def l)
  qed
  then show ?thesis
    unfolding for_broker_def assms(1) r by (intro bindR_ext) simp
qed

definition tidy :: "string \<Rightarrow> bool" where
  "tidy s \<longleftrightarrow> CHR '','' \<notin> set s \<and> strip s = s \<and> s \<noteq> [] \<and> upper s = s"

lemma split_on_plain: "c \<notin> set s \<Longrightarrow> split_on c s = [s]"
  by (induction s) auto

lemma split_on_append: "c \<notin> set s \<Longrightarrow> split_on c (s @ c # t) = s # split_on c t"
  by (induction s) auto

lemma symbols_survive: "ss \<noteq> [] \<Longrightarrow> list_all tidy ss \<Longrightarrow> split_on CHR '','' (comma_join ss) = ss"
  by (induction ss rule: comma_join.induct) (auto simp: tidy_def split_on_plain split_on_append)

lemma clean_tidy: "list_all tidy ss \<Longrightarrow> clean_symbols ss = ss"
  by (induction ss) (auto simp: clean_symbols_def tidy_def)

lemma resolve_absolute: "\<exists>p. resolve_path cwd path = CHR ''/'' # p"
  by (cases "resolve_parts [] (split_on CHR ''/'' (path_join cwd path))") (simp_all add: resolve_path_def)

lemma env_lookup:
  "map_of (build_env sv environ broker) ''MT5_USE'' = Some broker"
  "map_of (build_env sv environ broker) ''USE_CONFIG'' = Some (sv_engine_config sv)"
  "sv_symbols sv \<noteq> [] \<Longrightarrow> map_of (build_env sv environ broker) ''MANAGER_SYMBOLS'' = Some (comma_join (sv_symbols sv))"
  "map_of (build_env sv environ broker) ''APEX_ENV'' = map_of environ ''APEX_ENV''"
  by (simp_all add: build_env_def Let_def update_conv')

definition worker_of :: "process \<Rightarrow> supervisor \<Rightarrow> (string \<times> string) list \<Rightarrow> (string \<Rightarrow> string option) \<Rightarrow> string \<Rightarrow> process" where
  "worker_of pr sv environ dotenv broker =
     pr\<lparr>pr_environ := map_of (build_env sv environ broker), pr_dotenv := dotenv, pr_cwd := worker_cwd sv broker\<rparr>"


section \<open>The fleet\<close>

definition plain_sources :: "supervisor \<Rightarrow> bool" where
  "plain_sources sv \<longleftrightarrow> sv_engine_path sv \<noteq> ''.'' \<and> list_all (\<lambda>b. take 1 b \<noteq> ''/'') (sv_sources sv)"

definition worker_file :: "supervisor \<Rightarrow> string \<Rightarrow> string" where
  "worker_file sv b = pid_path (worker_cwd sv b)"

lemma worker_file_inj:
  assumes "plain_sources sv" "a \<in> set (sv_sources sv)" "b \<in> set (sv_sources sv)" "worker_file sv a = worker_file sv b"
  shows "a = b"
  using assms
  by (auto simp: plain_sources_def list_all_iff worker_file_def pid_path_def worker_cwd_def path_join_def split: if_splits)

lemma pid_text: "0 \<le> pid \<Longrightarrow> py_int (strip (show_int pid)) = Inr pid"
  using strip_id [OF _ show_nat_ends, of "nat pid"] py_int_show_int [of pid] show_nat_digits [of "nat pid"] by (simp add: show_int_def)

definition file_of_phase :: "wphase \<Rightarrow> string option" where
  "file_of_phase ph = map_option show_int (alive_pid ph)"

text \<open>The files name exactly the living processes.\<close>

definition fleet_ok :: "supervisor \<Rightarrow> fleet \<Rightarrow> bool" where
  "fleet_ok sv f \<longleftrightarrow> distinct (map fst (fl_workers f)) \<and>
     (\<forall>b w. map_of (fl_workers f) b = Some w \<longrightarrow> b \<in> set (sv_sources sv) \<and> wk_cwd w = worker_cwd sv b \<and>
        map_of (fl_pid_files f) (worker_file sv b) = file_of_phase (wk_phase w) \<and>
        wk_delays w = map restart_delay [0..<wk_restarts w] \<and> (\<forall>pid. alive_pid (wk_phase w) = Some pid \<longrightarrow> 0 \<le> pid))"

definition real_pid :: "fleet_event \<Rightarrow> bool" where
  "real_pid e \<longleftrightarrow> (case e of Spawned b pid \<Rightarrow> 0 \<le> pid | _ \<Rightarrow> True)"

declare map_of_eq_Some_iff [simp del]

lemma fleet_ok_over:
  assumes ok: "fleet_ok sv f" and plain: "plain_sources sv" and w: "map_of (fl_workers f) b = Some w"
  shows "fleet_ok sv (worker_over b w f)"
proof -
  have other: "worker_file sv b' \<noteq> worker_file sv b" if "map_of (fl_workers f) b' = Some w'" "b' \<noteq> b" for b' w'
    using worker_file_inj [OF plain, of b' b] ok that w by (auto simp: fleet_ok_def)
  have "pid_path (wk_cwd w) = worker_file sv b" using ok w by (simp add: fleet_ok_def worker_file_def)
  then show ?thesis
    using ok w other
    by (auto simp: fleet_ok_def worker_over_def update_conv' delete_conv' distinct_update file_of_phase_def split: if_splits)
qed

lemma fleet_ok_spawned:
  assumes ok: "fleet_ok sv f" and plain: "plain_sources sv" and w: "map_of (fl_workers f) b = Some w" and pid: "0 \<le> pid"
  shows "fleet_ok sv (f\<lparr>fl_workers := AList.update b (w\<lparr>wk_phase := Alive pid\<rparr>) (fl_workers f),
     fl_pid_files := AList.update (pid_path (wk_cwd w)) (show_int pid) (fl_pid_files f)\<rparr>)"
proof -
  have other: "worker_file sv b' \<noteq> worker_file sv b" if "map_of (fl_workers f) b' = Some w'" "b' \<noteq> b" for b' w'
    using worker_file_inj [OF plain, of b' b] ok that w by (auto simp: fleet_ok_def)
  have "pid_path (wk_cwd w) = worker_file sv b" using ok w by (simp add: fleet_ok_def worker_file_def)
  then show ?thesis
    using ok w pid other by (auto simp: fleet_ok_def update_conv' distinct_update file_of_phase_def split: if_splits)
qed

lemma keys_kept: "fst \<circ> (\<lambda>(b, w). (b, h w)) = fst"
  by auto

lemma stop_all_lookup:
  "map_of (map (\<lambda>(b, w). (b, g w)) ws) b = map_option g (map_of ws b)"
  by (induction ws) auto

lemma fleet_ok_step:
  assumes ok: "fleet_ok sv f" and plain: "plain_sources sv" and e: "real_pid e"
  shows "fleet_ok sv (fleet_step e f)"
proof (cases e)
  case (Spawned b pid)
  then show ?thesis
    using ok fleet_ok_spawned [OF ok plain, of b _ pid] e by (simp add: real_pid_def split: option.split)
next
  case (Rest_Over b)
  then show ?thesis
    using ok by (auto simp: fleet_ok_def update_conv' distinct_update file_of_phase_def split: option.split)
next
  case Stop_All
  show ?thesis
    using ok Stop_All
    by (auto simp: fleet_ok_def stop_all_lookup keys_kept file_of_phase_def)
qed (use ok fleet_ok_over [OF ok plain] in \<open>auto split: option.split\<close>)

lemma fleet_ok_run: "fleet_ok sv f \<Longrightarrow> plain_sources sv \<Longrightarrow> list_all real_pid es \<Longrightarrow> fleet_ok sv (fleet_run es f)"
  unfolding fleet_run_def by (induction es arbitrary: f) (auto intro: fleet_ok_step)

text \<open>Starting: each source gets its worker, and what its file names is signalled.\<close>

lemma start_lookup:
  "map_of (fl_workers (start_worker sv env b f)) b' = (if b' = b
     then Some \<lparr>wk_env = build_env sv env b, wk_cwd = worker_cwd sv b, wk_phase = Spawning, wk_restarts = 0, wk_delays = []\<rparr>
     else map_of (fl_workers f) b')"
  "map_of (fl_pid_files (start_worker sv env b f)) p = (if p = worker_file sv b then None else map_of (fl_pid_files f) p)"
  "distinct (map fst (fl_workers f)) \<Longrightarrow> distinct (map fst (fl_workers (start_worker sv env b f)))"
  by (auto simp: start_worker_def stop_orphan_def Let_def worker_file_def update_conv' delete_conv' distinct_update split: option.split)

definition named_pids :: "supervisor \<Rightarrow> (string \<times> string) list \<Rightarrow> string list \<Rightarrow> int set" where
  "named_pids sv files bs = {pid. \<exists>b \<in> set bs. \<exists>content. map_of files (worker_file sv b) = Some content \<and> py_int (strip content) = Inr pid}"

lemma named_pids_gone:
  "plain_sources sv \<Longrightarrow> b \<in> set (sv_sources sv) \<Longrightarrow> set bs \<subseteq> set (sv_sources sv) \<Longrightarrow>
   (\<And>p. map_of files' p = (if p = worker_file sv b then None else map_of files p)) \<Longrightarrow>
   named_pids sv files (b # bs) = {pid. \<exists>content. map_of files (worker_file sv b) = Some content \<and> py_int (strip content) = Inr pid} \<union> named_pids sv files' bs"
  using worker_file_inj [of sv _ b] by (auto simp: named_pids_def subset_iff) metis

lemma start_signals:
  "set (fl_signalled (start_worker sv env b f)) =
   set (fl_signalled f) \<union> {pid. \<exists>content. map_of (fl_pid_files f) (worker_file sv b) = Some content \<and> py_int (strip content) = Inr pid}"
  by (auto simp: start_worker_def stop_orphan_def Let_def worker_file_def split: option.split sum.splits)

lemma start_all:
  assumes "plain_sources sv" "set bs \<subseteq> set (sv_sources sv)"
  shows "set (fl_signalled (fold (start_worker sv env) bs f)) = set (fl_signalled f) \<union> named_pids sv (fl_pid_files f) bs"
  using assms(2)
proof (induction bs arbitrary: f)
  case (Cons b bs)
  have "named_pids sv (fl_pid_files f) (b # bs) =
    {pid. \<exists>content. map_of (fl_pid_files f) (worker_file sv b) = Some content \<and> py_int (strip content) = Inr pid} \<union>
    named_pids sv (fl_pid_files (start_worker sv env b f)) bs"
    using Cons.prems by (intro named_pids_gone [OF assms(1)]) (auto simp: start_lookup)
  with Cons show ?case by (auto simp: start_signals)
qed (simp add: named_pids_def)

lemma started_ok:
  assumes "plain_sources sv" "set bs \<subseteq> set (sv_sources sv)" "fleet_ok sv f"
  shows "fleet_ok sv (fold (start_worker sv env) bs f)"
  using assms(2,3)
proof (induction bs arbitrary: f)
  case (Cons b bs)
  have other: "worker_file sv b' \<noteq> worker_file sv b" if "b' \<in> set (sv_sources sv)" "b' \<noteq> b" for b'
    using worker_file_inj [OF assms(1), of b' b] Cons.prems(1) that by auto
  have "fleet_ok sv (start_worker sv env b f)"
    using Cons.prems other by (auto simp: fleet_ok_def start_lookup file_of_phase_def split: if_splits)
  with Cons show ?case by simp
qed simp

definition no_fleet :: "(string \<times> string) list \<Rightarrow> fleet" where
  "no_fleet files = \<lparr>fl_workers = [], fl_stopping = False, fl_pid_files = files, fl_signalled = []\<rparr>"

definition living :: "fleet \<Rightarrow> int set" where
  "living f = {pid. \<exists>b w. map_of (fl_workers f) b = Some w \<and> alive_pid (wk_phase w) = Some pid}"

lemma all_started: "b \<in> set bs \<or> map_of (fl_workers f) b \<noteq> None \<Longrightarrow> map_of (fl_workers (fold (start_worker sv env) bs f)) b \<noteq> None"
  by (induction bs arbitrary: f) (auto simp: start_lookup)

lemma worker_stays: "map_of (fl_workers f) b \<noteq> None \<Longrightarrow> map_of (fl_workers (fleet_step e f)) b \<noteq> None"
  by (cases e) (auto simp: worker_over_def update_conv' stop_all_lookup split: option.split)

lemma workers_stay: "map_of (fl_workers f) b \<noteq> None \<Longrightarrow> map_of (fl_workers (fleet_run es f)) b \<noteq> None"
  unfolding fleet_run_def using worker_stays by (induction es arbitrary: f) auto

text \<open>
  C23: no worker outlives two managers. Start the fleet, let its workers start, fail, exit and restart
  in any order, and let the manager die at any moment: a manager that then starts on the files it
  left signals exactly the processes that were alive.
\<close>

theorem orphans_are_ended:
  assumes "plain_sources sv" "list_all real_pid es"
    and "f = fleet_run es (fleet_start sv env (no_fleet []))"
  shows "set (fl_signalled (fleet_start sv env' (no_fleet (fl_pid_files f)))) = living f"
proof -
  have "fleet_ok sv (no_fleet [])" by (simp add: fleet_ok_def no_fleet_def)
  then have ok: "fleet_ok sv f"
    unfolding assms(3) fleet_start_def using assms(1,2)
    by (intro fleet_ok_run started_ok) (simp_all add: no_fleet_def)
  have there: "\<exists>w. map_of (fl_workers f) b = Some w" if "b \<in> set (sv_sources sv)" for b
    using workers_stay [OF all_started, of b "sv_sources sv" "no_fleet []" es sv env] that
    by (simp add: assms(3) fleet_start_def no_fleet_def)
  have "set (fl_signalled (fleet_start sv env' (no_fleet (fl_pid_files f)))) = named_pids sv (fl_pid_files f) (sv_sources sv)"
    using start_all [OF assms(1) subset_refl, of env' "no_fleet (fl_pid_files f)"]
    by (simp add: fleet_start_def no_fleet_def)
  also have "\<dots> = living f"
  proof (intro set_eqI iffI)
    fix pid assume "pid \<in> named_pids sv (fl_pid_files f) (sv_sources sv)"
    then obtain b content where b: "b \<in> set (sv_sources sv)" "map_of (fl_pid_files f) (worker_file sv b) = Some content" "py_int (strip content) = Inr pid"
      by (auto simp: named_pids_def)
    obtain w where w: "map_of (fl_workers f) b = Some w" using there b(1) by blast
    with ok b obtain p where "alive_pid (wk_phase w) = Some p" "content = show_int p" "0 \<le> p"
      by (fastforce simp: fleet_ok_def file_of_phase_def)
    with w b(3) show "pid \<in> living f" by (auto simp: living_def pid_text)
  next
    fix pid assume "pid \<in> living f"
    then obtain b w where w: "map_of (fl_workers f) b = Some w" "alive_pid (wk_phase w) = Some pid" by (auto simp: living_def)
    with ok have "b \<in> set (sv_sources sv)" "map_of (fl_pid_files f) (worker_file sv b) = Some (show_int pid)" "0 \<le> pid"
      by (auto simp: fleet_ok_def file_of_phase_def)
    then show "pid \<in> named_pids sv (fl_pid_files f) (sv_sources sv)"
      unfolding named_pids_def using pid_text by blast
  qed
  finally show ?thesis .
qed

lemma restart_delay_range: "2 \<le> restart_delay n \<and> restart_delay n \<le> 30" "3 \<le> n \<Longrightarrow> restart_delay n = 30"
proof -
  have "\<forall>k < 4. 2 \<le> RESTART_DELAYS ! k \<and> RESTART_DELAYS ! k \<le> 30"
    by (simp add: RESTART_DELAYS_def nth_Cons' )
  moreover have "min n 3 < 4" by simp
  ultimately show "2 \<le> restart_delay n \<and> restart_delay n \<le> 30"
    by (auto simp: restart_delay_def RESTART_DELAYS_def)
qed (simp add: restart_delay_def RESTART_DELAYS_def)

section \<open>Stopping\<close>

definition alive_brokers :: "fleet \<Rightarrow> string list" where
  "alive_brokers f = map fst (filter (\<lambda>(b, w). alive_pid (wk_phase w) \<noteq> None) (fl_workers f))"

definition alive_pids :: "fleet \<Rightarrow> int list" where
  "alive_pids f = List.map_filter (\<lambda>(b, w). alive_pid (wk_phase w)) (fl_workers f)"

definition phase_of :: "fleet \<Rightarrow> string \<Rightarrow> wphase option" where
  "phase_of f b = map_option wk_phase (map_of (fl_workers f) b)"

lemma exits_phase:
  "fl_stopping f \<Longrightarrow> phase_of (fleet_step (Exits b) f) b' =
     (if b' = b \<and> (\<exists>pid. phase_of f b = Some (Alive pid)) then Some Finished else phase_of f b')"
  "fl_stopping (fleet_step (Exits b) f) = fl_stopping f"
  by (cases "map_of (fl_workers f) b"; cases "wk_phase (the (map_of (fl_workers f) b))";
      auto simp: phase_of_def worker_over_def update_conv')+

lemma exits_all:
  "fl_stopping f \<Longrightarrow> phase_of (fleet_run (map Exits bs) f) b =
     (if b \<in> set bs \<and> (\<exists>pid. phase_of f b = Some (Alive pid)) then Some Finished else phase_of f b)"
  unfolding fleet_run_def
  by (induction bs arbitrary: f) (auto simp: exits_phase simp del: fleet_step.simps)

lemma keys_step: "distinct (map fst (fl_workers f)) \<Longrightarrow> distinct (map fst (fl_workers (fleet_step e f)))"
proof (cases e)
  case Stop_All
  then show "distinct (map fst (fl_workers f)) \<Longrightarrow> ?thesis" by (simp add: keys_kept)
qed (auto simp: worker_over_def distinct_update split: option.split)

lemma keys_run: "distinct (map fst (fl_workers f)) \<Longrightarrow> distinct (map fst (fl_workers (fleet_run es f)))"
  unfolding fleet_run_def using keys_step by (induction es arbitrary: f) auto

lemma stop_returns_phases:
  assumes "distinct (map fst (fl_workers f))"
  shows "stop_returns f \<longleftrightarrow> (\<forall>b ph. phase_of f b = Some ph \<longrightarrow> ph = Finished)"
  using assms by (fastforce simp: stop_returns_def list_all_iff phase_of_def map_of_eq_Some_iff)

lemma stop_phase:
  "phase_of (fleet_step Stop_All f) b = map_option (\<lambda>ph. if ph = Resting then Finished else ph) (phase_of f b)"
  "fl_stopping (fleet_step Stop_All f)" "fl_signalled (fleet_step Stop_All f) = fl_signalled f @ alive_pids f"
  by (auto simp: phase_of_def stop_all_lookup option.map_comp comp_def alive_pids_def intro: option.map_cong)

lemma runs_on:
  assumes "fl_stopping f" "phase_of f b = Some (Alive pid)" "Exits b \<notin> set es" "Stop_All \<notin> set es"
  shows "phase_of (fleet_run es f) b = Some (Alive pid) \<and> fl_signalled (fleet_run es f) = fl_signalled f"
  using assms
proof (induction es arbitrary: f)
  case (Cons e es)
  have "phase_of (fleet_step e f) b = Some (Alive pid)" "fl_signalled (fleet_step e f) = fl_signalled f" "fl_stopping (fleet_step e f)"
    using Cons.prems by (cases e; auto simp: phase_of_def worker_over_def update_conv' split: option.split)+
  with Cons show ?case by (simp add: fleet_run_def)
qed (simp add: fleet_run_def)

text \<open>
  stopping misses a worker that is just coming up. If no worker is being started, stopping
  signals every living process and returns once these have exited. A worker that is being started
  at that moment comes up afterwards, is never signalled, and \<open>stop\<close> does not return before it
  exits by itself, whatever else happens.
\<close>

theorem stop_misses_starting_worker:
  assumes "distinct (map fst (fl_workers f))"
  shows "((\<forall>b. phase_of f b \<noteq> Some Spawning) \<longrightarrow>
      stop_returns (fleet_run (Stop_All # map Exits (alive_brokers f)) f)) \<and>
    fl_signalled (fleet_run [Stop_All] f) = fl_signalled f @ alive_pids f \<and>
    (phase_of f b = Some Spawning \<and> Exits b \<notin> set es \<and> Stop_All \<notin> set es \<longrightarrow>
      \<not> stop_returns (fleet_run (Stop_All # Spawned b pid # es) f) \<and>
      fl_signalled (fleet_run (Stop_All # Spawned b pid # es) f) = fl_signalled f @ alive_pids f)"
proof -
  let ?s = "fleet_step Stop_All f"
  have alive: "b \<in> set (alive_brokers f)" if "phase_of f b = Some (Alive p)" for b p
    using that assms by (force simp: phase_of_def alive_brokers_def map_of_eq_Some_iff)
  have "stop_returns (fleet_run (map Exits (alive_brokers f)) ?s)" if none: "\<forall>b. phase_of f b \<noteq> Some Spawning"
  proof -
    have "ph = Finished" if "phase_of (fleet_run (map Exits (alive_brokers f)) ?s) b = Some ph" for b ph
      using that none alive [of b]
      by (cases "phase_of f b"; cases "the (phase_of f b)";
          auto simp: exits_all stop_phase simp del: fleet_step.simps split: if_splits)
    then show ?thesis by (simp add: stop_returns_phases keys_run keys_step assms del: fleet_step.simps)
  qed
  moreover have "\<not> stop_returns (fleet_run es (fleet_step (Spawned b pid) ?s)) \<and>
      fl_signalled (fleet_run es (fleet_step (Spawned b pid) ?s)) = fl_signalled ?s"
    if b: "phase_of f b = Some Spawning" and es: "Exits b \<notin> set es" "Stop_All \<notin> set es"
  proof -
    have "phase_of ?s b = Some Spawning" using b by (simp add: stop_phase del: fleet_step.simps)
    then have up: "phase_of (fleet_step (Spawned b pid) ?s) b = Some (Alive pid)"
      "fl_signalled (fleet_step (Spawned b pid) ?s) = fl_signalled ?s" "fl_stopping (fleet_step (Spawned b pid) ?s)"
      using stop_phase(2) [of f]
      by (auto simp: phase_of_def update_conv' simp del: fleet_step.simps(5))
    have "distinct (map fst (fl_workers (fleet_run es (fleet_step (Spawned b pid) ?s))))"
      by (intro keys_run keys_step assms)
    with runs_on [OF up(3,1) es] up(2) show ?thesis by (auto simp: stop_returns_phases)
  qed
  ultimately show ?thesis
    by (simp add: fleet_run_def stop_phase del: fleet_step.simps)
qed

declare map_of_eq_Some_iff [simp]

section \<open>Examples\<close>

lemma living_list: "distinct (map fst (fl_workers f)) \<Longrightarrow> living f = set (alive_pids f)"
  by (force simp: living_def alive_pids_def List.map_filter_def)

definition one_engine :: "server_event list" where
  "one_engine =
     [Opens 1, Opens 2,
      Sends 5 True 1 (Some (JObj [(''type'', JStr ''signal''), (''event'', JStr ''signal.triggered''), (''payload'', JObj [])])),
      Sends 6 True 2 (Some (JObj [(''type'', JStr ''hello''), (''token'', JStr ''t''), (''broker'', JStr ''fbs'')])),
      Sends 7 True 2 (Some (JObj [(''type'', JStr ''signal''), (''event'', JStr ''signal.triggered''), (''payload'', JObj [])]))]"

lemma one_engine_heard:
  "es_effects (server_run (\<lambda>_. []) one_engine (new_engine_server ''t'' False)) =
     [Refused 1 ''expected hello'', Acked 2 ''fbs'', Signal_To_Router (JStr ''signal.triggered'') [] ''fbs'']"
  "connected_brokers (server_run (\<lambda>_. []) one_engine (new_engine_server ''t'' False)) = [''fbs'']"
  by code_simp+

theorem engines_heard_after_hello_witness:
  "(\<exists>c. greeted (\<lambda>_. []) ''t'' one_engine c ''fbs'' \<and> sent_signal one_engine c (JStr ''signal.triggered'') []) \<and>
   (\<exists>c. map_of (es_handlers (server_run (\<lambda>_. []) one_engine (new_engine_server ''t'' False))) c = Some (Serving ''fbs''))"
  using engines_heard_after_hello [of "JStr ''signal.triggered''" "[]" "''fbs''" "\<lambda>_. []" one_engine "''t''" False]
  by (auto simp: one_engine_heard)

text \<open>A broker whose name is empty stays listed when its connection is gone.\<close>

lemma nameless_broker_stays:
  "connected_brokers (server_run (\<lambda>_. [])
     [Opens 1, Sends 6 True 1 (Some (JObj [(''type'', JStr ''hello''), (''token'', JStr ''t''), (''broker'', JStr [])])), Gone 1]
     (new_engine_server ''t'' False)) = [[]]"
  by code_simp

definition two_workers :: supervisor where
  "two_workers = new_supervisor ''/srv/manager'' [''fbs'', ''exness''] ''..'' ''config.yaml'' ''ws://127.0.0.1:9000'' ''t'' [''XAUUSD'']"

lemma two_workers:
  "two_workers = \<lparr>sv_sources = [''fbs'', ''exness''], sv_engine_path = ''/srv'', sv_engine_config = ''/srv/config.yaml'',
     sv_url = ''ws://127.0.0.1:9000'', sv_token = ''t'', sv_symbols = [''XAUUSD'']\<rparr>"
  by code_simp

theorem orphans_are_ended_witness:
  "set (fl_signalled (fleet_start two_workers [] (no_fleet (fl_pid_files
     (fleet_run [Spawned ''fbs'' 41, Spawned ''exness'' 42, Exits ''fbs''] (fleet_start two_workers [] (no_fleet []))))))) = {42}"
proof -
  let ?es = "[Spawned ''fbs'' 41, Spawned ''exness'' 42, Exits ''fbs'']"
  have plain: "plain_sources two_workers" by (simp add: plain_sources_def two_workers)
  have "list_all real_pid ?es" by (simp add: real_pid_def)
  from orphans_are_ended [OF plain this refl, of "[]" "[]"]
  have "set (fl_signalled (fleet_start two_workers [] (no_fleet (fl_pid_files (fleet_run ?es (fleet_start two_workers [] (no_fleet [])))))))
      = living (fleet_run ?es (fleet_start two_workers [] (no_fleet [])))" .
  moreover have "alive_pids (fleet_run ?es (fleet_start two_workers [] (no_fleet []))) = [42]"
    "distinct (map fst (fl_workers (fleet_run ?es (fleet_start two_workers [] (no_fleet [])))))"
    by code_simp+
  ultimately show ?thesis by (simp add: living_list)
qed

definition restarting :: fleet where
  "restarting = fleet_run [Spawned ''fbs'' 41, Exits ''fbs'', Rest_Over ''fbs'', Spawned ''exness'' 42] (fleet_start two_workers [] (no_fleet []))"

theorem stop_misses_starting_worker_witness:
  "\<not> stop_returns (fleet_run (Stop_All # Spawned ''fbs'' 43 # [Exits ''exness'']) restarting) \<and>
   fl_signalled (fleet_run (Stop_All # Spawned ''fbs'' 43 # [Exits ''exness'']) restarting) = [42]"
proof -
  have r: "distinct (map fst (fl_workers restarting))" "phase_of restarting ''fbs'' = Some Spawning"
    "fl_signalled restarting @ alive_pids restarting = [42]"
    by code_simp+
  show ?thesis
    using stop_misses_starting_worker [OF r(1), of "''fbs''" "[Exits ''exness'']" 43] r(2,3) by simp
qed

definition srv_process :: process where
  "srv_process = \<lparr>pr_environ = (\<lambda>_. None), pr_dotenv = (\<lambda>_. None), pr_cwd = ''/srv/manager'', pr_home = ''/root'',
     pr_files = [''/srv/config.yaml'' \<mapsto> Inr (PDict []), ''/srv/mt5-credentials.yaml'' \<mapsto> Inr (PDict [(PStr ''fbs'', PDict fbs_profile)]),
                 ''/srv/fbs.yaml'' \<mapsto> Inr (PDict [])]\<rparr>"


end
