(* ===== verification/Tools.thy ===== *)
theory Tools
  imports Summary Profiles "HOL-Library.Product_Lexorder"
begin

text \<open>
  The scripts around the backtester: app/backtesting/rba.py (all symbols, with retries and a list of
  the failed ones), grid_search.py (every pair of ratio limits, ranked), pf_table.py (profit factors
  of two periods) and analyze_grid.py (how often the portfolio trades). What a run of the backtester
  does, the order in which parallel runs end and the files are arguments; each row of a CSV file has
  all its columns. Command lines, progress lines and the layout of the tables are left out.
\<close>

section \<open>All symbols: rba.py\<close>

definition SUPPORTED_SYMBOLS :: "string list" where "SUPPORTED_SYMBOLS = map fst ASSET_CLASS_MAP"
definition ALL_SYMBOLS :: "string list" where "ALL_SYMBOLS = sort SUPPORTED_SYMBOLS"

definition safe_filename :: "string \<Rightarrow> string" where "safe_filename symbol = unslash symbol"

text \<open>The age of a file comes from the clock and the time of its last change, in seconds.\<close>

definition csv_is_fresh :: "real \<Rightarrow> (string \<Rightarrow> real option) \<Rightarrow> string \<Rightarrow> real \<Rightarrow> bool" where
  "csv_is_fresh now mtime path max_age_hours =
     (case mtime path of None \<Rightarrow> False | Some t \<Rightarrow> now - t < max_age_hours * 3600)"

datatype sub_outcome = Returned int string | Timed_Out real | Not_Started real string

record run_outcome =
  ro_ok :: bool
  ro_elapsed :: real
  ro_output :: string

definition rba_command :: "string \<Rightarrow> string \<Rightarrow> string \<Rightarrow> string list \<Rightarrow> string option \<Rightarrow> string list" where
  "rba_command python symbol out_file extra cache_dir =
     [python, ''-m'', ''src.app.backtesting.backtest'', ''--symbol'', symbol, ''--output'', out_file] @ extra @
     (case cache_dir of None \<Rightarrow> [] | Some d \<Rightarrow> [''--cache-dir'', d])"

definition rba_run_one :: "int \<Rightarrow> real \<Rightarrow> sub_outcome \<Rightarrow> run_outcome" where
  "rba_run_one timeout elapsed r =
     (case r of
        Returned code output \<Rightarrow> \<lparr>ro_ok = (code = 0), ro_elapsed = elapsed, ro_output = output\<rparr>
      | Timed_Out t \<Rightarrow> \<lparr>ro_ok = False, ro_elapsed = t, ro_output = ''TIMEOUT after '' @ show_int timeout @ ''s''\<rparr>
      | Not_Started t msg \<Rightarrow> \<lparr>ro_ok = False, ro_elapsed = t, ro_output = msg\<rparr>)"

text \<open>
  The outcome of the last attempt made and the pauses between the attempts; \<open>run a\<close> is what the
  attempt number \<open>a\<close> would give, \<open>left\<close> the retries that are left.
\<close>

fun attempts :: "(nat \<Rightarrow> run_outcome) \<Rightarrow> nat \<Rightarrow> nat \<Rightarrow> run_outcome \<times> nat list" where
  "attempts run a 0 = (run a, [])"
| "attempts run a (Suc left) =
     (if ro_ok (run a) then (run a, [])
      else case attempts run (Suc a) left of (r, sleeps) \<Rightarrow> (r, 2 ^ a # sleeps))"

definition run_with_retry :: "(nat \<Rightarrow> run_outcome) \<Rightarrow> nat \<Rightarrow> run_outcome \<times> nat list" where
  "run_with_retry run retries = attempts run 0 retries"

record rba_args =
  ra_symbols :: "string list"
  ra_only_failed :: bool
  ra_resume :: bool
  ra_resume_max_age :: real
  ra_output_dir :: string
  ra_from_date :: string
  ra_to_date :: string
  ra_start_balance :: "string option"
  ra_risk_percent :: "string option"

definition rba_extra :: "rba_args \<Rightarrow> string list" where
  "rba_extra args =
     (if ra_from_date args \<noteq> [] then [''--from-date'', ra_from_date args] else []) @
     (if ra_to_date args \<noteq> [] then [''--to-date'', ra_to_date args] else []) @
     (case ra_start_balance args of None \<Rightarrow> [] | Some b \<Rightarrow> [''--start-balance'', b]) @
     (case ra_risk_percent args of None \<Rightarrow> [] | Some r \<Rightarrow> [''--risk-percent'', r])"

text \<open>The symbols to run; \<open>failed\<close> is the list in the state file, if there is one.\<close>

definition rba_symbols :: "rba_args \<Rightarrow> string list option \<Rightarrow> real \<Rightarrow> (string \<Rightarrow> real option) \<Rightarrow> string list" where
  "rba_symbols args failed now mtime =
     (let wanted = map normalize_symbol (if ra_symbols args = [] then ALL_SYMBOLS else ra_symbols args);
          known = filter (\<lambda>s. s \<in> set SUPPORTED_SYMBOLS) wanted;
          listed = (case (ra_only_failed args, failed) of
                      (True, Some names) \<Rightarrow> filter (\<lambda>s. s \<in> set names) known | _ \<Rightarrow> known);
          out = (\<lambda>s. ra_output_dir args @ ''/'' @ safe_filename s @ ''.csv'')
      in if ra_resume args
         then filter (\<lambda>s. \<not> csv_is_fresh now mtime (out s) (ra_resume_max_age args)) listed
         else listed)"

text \<open>
  The rest of \<open>main\<close>: \<open>ended\<close> lists the runs in the order they ended, with their success. The
  counts, and the state file left behind (\<open>None\<close>: removed).
\<close>

definition rba_finish :: "string list \<Rightarrow> (string \<times> bool) list \<Rightarrow> string list option \<Rightarrow> (nat \<times> nat) option \<times> string list option" where
  "rba_finish symbols ended failed =
     (if symbols = [] then (None, failed)
      else
        let good = map fst (filter snd ended); bad = map fst (filter (Not \<circ> snd) ended)
        in (Some (length good, length bad), if bad \<noteq> [] then Some bad else None))"

section \<open>Profit factors\<close>

text \<open>A quotient, or the infinity that stands for no losses.\<close>

datatype factor = Finite real | Infinite

instantiation factor :: linorder
begin

fun less_eq_factor :: "factor \<Rightarrow> factor \<Rightarrow> bool" where
  "less_eq_factor x Infinite = True"
| "less_eq_factor Infinite (Finite y) = False"
| "less_eq_factor (Finite x) (Finite y) = (x \<le> y)"

definition less_factor :: "factor \<Rightarrow> factor \<Rightarrow> bool" where
  "less_factor x y \<longleftrightarrow> x \<le> y \<and> \<not> y \<le> x"

instance
proof
  fix x y z :: factor
  show "x < y \<longleftrightarrow> x \<le> y \<and> \<not> y \<le> x" by (simp add: less_factor_def)
  show "x \<le> x" by (cases x) simp_all
  show "x \<le> y \<Longrightarrow> y \<le> z \<Longrightarrow> x \<le> z" by (cases x; cases y; cases z) simp_all
  show "x \<le> y \<Longrightarrow> y \<le> x \<Longrightarrow> x = y" by (cases x; cases y) simp_all
  show "x \<le> y \<or> y \<le> x" by (cases x; cases y) auto
qed

end

definition GRID_WINS :: "string list" where
  "GRID_WINS = [''WIN_FULL'', ''WIN_PARTIAL'', ''WIN'', ''TP1_HIT'', ''TP2_HIT'']"
definition GRID_LOSSES :: "string list" where "GRID_LOSSES = [''LOSS'', ''SL_HIT'']"

definition outcome_in :: "string list \<Rightarrow> file_row \<Rightarrow> bool" where
  "outcome_in names r \<longleftrightarrow> upper (dict_get r ''outcome'' []) \<in> set names"

definition ratios_of :: "(string \<Rightarrow> real result) \<Rightarrow> file_row list \<Rightarrow> real list result" where
  "ratios_of rd rows = mapR (\<lambda>r. bindR (fld r ''realized_rr'') rd) rows"

text \<open>A file does not exist, cannot be read, or has rows.\<close>

type_synonym csv_files = "string \<Rightarrow> file_row list result option"

definition readable_rows :: "csv_files \<Rightarrow> string \<Rightarrow> file_row list option" where
  "readable_rows fs path = (case fs path of Some (Inr rows) \<Rightarrow> if rows = [] then None else Some rows | _ \<Rightarrow> None)"

record grid_stats =
  gs_trades :: nat
  gs_wins :: nat
  gs_losses :: nat
  gs_win_rate :: real
  gs_factor :: factor

definition round_factor :: "factor \<Rightarrow> factor" where
  "round_factor f = (case f of Finite x \<Rightarrow> Finite (py_round 2 x) | Infinite \<Rightarrow> Infinite)"

definition grid_parse_csv :: "(string \<Rightarrow> real result) \<Rightarrow> csv_files \<Rightarrow> string \<Rightarrow> grid_stats option result" where
  "grid_parse_csv rd fs path =
     (case readable_rows fs path of
        None \<Rightarrow> Inr None
      | Some rows \<Rightarrow>
          let wins = filter (outcome_in GRID_WINS) rows; losses = filter (outcome_in GRID_LOSSES) rows in
          bindR (ratios_of rd wins) (\<lambda>ws.
          bindR (ratios_of rd losses) (\<lambda>ls.
          let gross_win = sum_list ws; gross_loss = sum_list (map abs ls); n = length rows in
          Inr (Some \<lparr>gs_trades = n, gs_wins = length wins, gs_losses = length losses,
            gs_win_rate = py_round 1 (of_nat (length wins) / of_nat n * 100),
            gs_factor = round_factor (if gross_loss > 0 then Finite (gross_win / gross_loss) else Infinite)\<rparr>))))"

definition table_pf :: "(string \<Rightarrow> real result) \<Rightarrow> csv_files \<Rightarrow> string \<Rightarrow> real option result" where
  "table_pf rd fs path =
     (case readable_rows fs path of
        None \<Rightarrow> Inr None
      | Some rows \<Rightarrow>
          bindR (ratios_of rd (filter (outcome_in GRID_WINS) rows)) (\<lambda>ws.
          bindR (ratios_of rd (filter (outcome_in GRID_LOSSES) rows)) (\<lambda>ls.
          let gl = sum_list (map abs ls) in
          Inr (if gl > 0 then Some (py_round 2 (sum_list ws / gl)) else None))))"

definition table_trades :: "csv_files \<Rightarrow> string \<Rightarrow> nat option" where
  "table_trades fs path = (case fs path of Some (Inr rows) \<Rightarrow> Some (length rows) | _ \<Rightarrow> None)"

section \<open>The grid: grid_search.py\<close>

definition MIN_RR_VALUES :: "real list" where "MIN_RR_VALUES = [5, 6, 7, 8, 10, 12, 14]"
definition MAX_RR_VALUES :: "real list" where "MAX_RR_VALUES = [2, 5/2, 3]"

definition combo_key :: "real \<Rightarrow> real \<Rightarrow> string" where
  "combo_key min_rr max_rr = ''min'' @ fmt_fixed 1 min_rr @ ''_max'' @ fmt_fixed 1 max_rr"

definition combo_file :: "string \<Rightarrow> real \<Rightarrow> real \<Rightarrow> string \<Rightarrow> string" where
  "combo_file dir min_rr max_rr symbol = dir @ ''/'' @ combo_key min_rr max_rr @ ''/'' @ symbol @ ''.csv''"

definition grid_tasks :: "string \<Rightarrow> (string \<times> real \<times> real \<times> string) list" where
  "grid_tasks dir =
     concat (map (\<lambda>(mn, mx). map (\<lambda>s. (s, mn, mx, combo_file dir mn mx s)) ALL_SYMBOLS)
       (List.product MIN_RR_VALUES MAX_RR_VALUES))"

record combo_line =
  cl_min :: real
  cl_max :: real
  cl_avg_factor :: factor
  cl_avg_rate :: real
  cl_trades :: nat
  cl_passing :: nat
  cl_pairs :: nat

definition passes :: "grid_stats \<Rightarrow> bool" where "passes g \<longleftrightarrow> Finite (5/2) \<le> gs_factor g"

definition finite_part :: "factor \<Rightarrow> real" where
  "finite_part f = (case f of Finite x \<Rightarrow> x | Infinite \<Rightarrow> 0)"

definition mean_factor :: "factor list \<Rightarrow> factor" where
  "mean_factor fs =
     (if Infinite \<in> set fs then Infinite
      else Finite (sum_list (map finite_part fs) / of_nat (length fs)))"

definition combo_summary :: "real \<Rightarrow> real \<Rightarrow> grid_stats list \<Rightarrow> combo_line option" where
  "combo_summary mn mx rs =
     (if rs = [] then None
      else Some \<lparr>cl_min = mn, cl_max = mx, cl_avg_factor = round_factor (mean_factor (map gs_factor rs)),
        cl_avg_rate = py_round 1 (sum_list (map gs_win_rate rs) / of_nat (length rs)),
        cl_trades = sum_list (map gs_trades rs), cl_passing = length (filter passes rs), cl_pairs = length rs\<rparr>)"

definition grid_line :: "(string \<Rightarrow> real result) \<Rightarrow> csv_files \<Rightarrow> string \<Rightarrow> real \<times> real \<Rightarrow> combo_line option result" where
  "grid_line rd fs dir c =
     bindR (mapR (\<lambda>s. grid_parse_csv rd fs (combo_file dir (fst c) (snd c) s)) ALL_SYMBOLS) (\<lambda>rs.
     Inr (combo_summary (fst c) (snd c) (List.map_filter id rs)))"

text \<open>One line per combination that has data, best first; equal lines keep their order.\<close>

definition rank_combos :: "combo_line list \<Rightarrow> combo_line list" where
  "rank_combos ls = sort_desc (\<lambda>l. (cl_passing l, cl_avg_factor l)) ls"

definition grid_ranking :: "(string \<Rightarrow> real result) \<Rightarrow> csv_files \<Rightarrow> string \<Rightarrow> combo_line list result" where
  "grid_ranking rd fs dir =
     bindR (mapR (grid_line rd fs dir) (List.product MIN_RR_VALUES MAX_RR_VALUES)) (\<lambda>ls.
     Inr (rank_combos (List.map_filter id ls)))"

section \<open>Two periods: pf_table.py\<close>

definition TABLE_MIN_RR :: "real list" where "TABLE_MIN_RR = [5, 7, 8, 10, 12, 14]"
definition TABLE_SYMBOLS :: "string list" where "TABLE_SYMBOLS = [''XAUUSD'', ''XAGUSD'']"

definition table_totals :: "csv_files \<Rightarrow> string \<Rightarrow> (real \<times> nat) list" where
  "table_totals fs dir =
     map (\<lambda>mn. (mn, sum_list (map (\<lambda>s. case table_trades fs (combo_file dir mn 3 s) of None \<Rightarrow> 0 | Some n \<Rightarrow> n) TABLE_SYMBOLS)))
       TABLE_MIN_RR"

definition holds_up :: "real option \<Rightarrow> bool" where
  "holds_up pf \<longleftrightarrow> 2 \<le> (case pf of None \<Rightarrow> 0 | Some x \<Rightarrow> x)"

definition consistent :: "(string \<Rightarrow> real result) \<Rightarrow> csv_files \<Rightarrow> string \<Rightarrow> string \<Rightarrow> string \<Rightarrow> bool result" where
  "consistent rd fs dir1 dir2 symbol =
     bindR (table_pf rd fs (combo_file dir1 8 3 symbol)) (\<lambda>a.
     bindR (table_pf rd fs (combo_file dir2 8 3 symbol)) (\<lambda>b. Inr (holds_up a \<and> holds_up b)))"

section \<open>How often it trades: analyze_grid.py\<close>

definition row_date :: "file_row \<Rightarrow> int result" where
  "row_date r =
     bindR (fld r ''entry_dt'') (\<lambda>s. case parse_day (take 10 s) of None \<Rightarrow> Inl ValueError | Some d \<Rightarrow> Inr d)"

definition is_weekend :: "int \<Rightarrow> bool" where "is_weekend d \<longleftrightarrow> 5 \<le> day_of_week d"

record frequency =
  fq_start :: int
  fq_end :: int
  fq_weekends :: "int list"
  fq_trading :: "int list"
  fq_active :: "int list"
  fq_zero :: "int list"
  fq_counts :: "nat list"
  fq_avg :: real
  fq_active_share :: real
  fq_zero_share :: real
  fq_pairs :: "(string \<times> nat \<times> nat \<times> real) list"

definition count_on :: "int list \<Rightarrow> int \<Rightarrow> nat" where
  "count_on dates d = length (filter (\<lambda>x. x = d) dates)"

text \<open>Days are numbers; the sets of the code are lists in the order of the calendar.\<close>

definition frequency_of :: "(string \<times> int list) list \<Rightarrow> int list \<Rightarrow> frequency result" where
  "frequency_of pairs dates =
     (let first = fold min dates (hd dates); last = fold max dates (hd dates); calendar = [first..last];
          weekends = filter is_weekend calendar; trading = filter (Not \<circ> is_weekend) calendar;
          active = filter (\<lambda>d. d \<in> set dates) trading; idle = filter (\<lambda>d. d \<notin> set dates) trading;
          counts = map (count_on dates) active
      in if trading = [] then Inl ZeroDivisionError
         else Inr \<lparr>fq_start = first, fq_end = last, fq_weekends = weekends, fq_trading = trading, fq_active = active,
           fq_zero = idle, fq_counts = counts,
           fq_avg = (if counts = [] then 0 else of_nat (sum_list counts) / of_nat (length counts)),
           fq_active_share = of_nat (length active) / of_nat (length trading) * 100,
           fq_zero_share = of_nat (length idle) / of_nat (length trading) * 100,
           fq_pairs = map (\<lambda>(s, ds). (s, length ds, length (remdups ds), of_nat (length ds) / of_nat (length trading)))
             (filter (\<lambda>(s, ds). ds \<noteq> []) pairs)\<rparr>)"

definition portfolio_frequency :: "(string \<times> file_row list) list \<Rightarrow> frequency option result" where
  "portfolio_frequency pair_trades =
     (if concat (map snd pair_trades) = [] then Inr None
      else bindR (mapR (\<lambda>(s, rows). bindR (mapR row_date rows) (\<lambda>ds. Inr (s, ds))) pair_trades) (\<lambda>pairs.
           bindR (frequency_of pairs (concat (map snd pairs))) (\<lambda>f. Inr (Some f))))"

end
