(* ===== verification/Backtest_Cli.thy ===== *)
theory Backtest_Cli
  imports Tools Backtest Config
begin

text \<open>
  app/backtesting/backtest.py, the loaders and the command line: the rows of a candle file, the
  options, what they override in the settings, and the run they start. \<open>csv.Sniffer\<close> has split the
  file into the rows after its header; the client of the terminal, built from credentials that no
  option changes, is a pair of functions; \<open>rd\<close> stands for \<open>float(s)\<close> without the infinities. Dates
  have all their digits. Printing is left out.
\<close>

section \<open>Candle files: \<open>load_csv\<close>\<close>

definition date_with :: "char \<Rightarrow> string \<Rightarrow> int option" where
  "date_with c s =
     (if char_is s 4 c \<and> char_is s 7 c then date_at_start (s[4 := CHR ''-'', 7 := CHR ''-'']) else None)"

text \<open>\<open>%H:%M:%S\<close> or \<open>%H:%M\<close> at position 11; a leap second is refused.\<close>

definition clock_at :: "bool \<Rightarrow> string \<Rightarrow> int option" where
  "clock_at seconds s =
     (if char_is s 13 CHR '':'' \<and> (seconds \<longrightarrow> char_is s 16 CHR '':'') \<and> length s = (if seconds then 19 else 16) then
        case (digits_at s 11 2, digits_at s 14 2, if seconds then digits_at s 17 2 else Some 0) of
          (Some h, Some m, Some sec) \<Rightarrow> if h < 24 \<and> m < 60 \<and> sec < 60 then Some (h * 3600 + m * 60 + sec) else None
        | _ \<Rightarrow> None
      else None)"

definition stamp :: "char \<Rightarrow> char \<Rightarrow> bool \<Rightarrow> string \<Rightarrow> int option" where
  "stamp date_sep mid seconds s =
     (case (date_with date_sep s, clock_at seconds s) of
        (Some day, Some sec) \<Rightarrow> if char_is s 10 mid then Some ((day * 86400 + sec) * 1000) else None
      | _ \<Rightarrow> None)"

definition first_reading :: "'a option list \<Rightarrow> 'a option" where
  "first_reading xs = (case List.find (\<lambda>x. x \<noteq> None) xs of None \<Rightarrow> None | Some x \<Rightarrow> x)"

definition csv_time :: "(string \<Rightarrow> real result) \<Rightarrow> string \<Rightarrow> int option" where
  "csv_time rd raw =
     (case rd raw of
        Inr n \<Rightarrow> Some (if n < 1000000000000 then trunc (n * 1000) else trunc n)
      | Inl _ \<Rightarrow>
          first_reading [stamp CHR ''-'' CHR '' '' True raw, stamp CHR ''-'' CHR ''T'' True raw,
                      stamp CHR ''-'' CHR '' '' False raw, stamp CHR ''/'' CHR '' '' True raw])"

text \<open>A row that does not read is passed over, and so are empty rows and comments.\<close>

definition csv_candle :: "(string \<Rightarrow> real result) \<Rightarrow> string list \<Rightarrow> candle option" where
  "csv_candle rd row =
     (if row = [] \<or> take 1 (hd row) = ''#'' then None
      else case csv_time rd (strip (hd row)) of
        None \<Rightarrow> None
      | Some t \<Rightarrow>
          if length row < 5 then None
          else
            (case (mapR rd (slice row 1 5), if 5 < length row then rd (row ! 5) else Inr 0) of
               (Inr ps, Inr vol) \<Rightarrow>
                 Some \<lparr>c_timestamp = t, c_open = ps ! 0, c_high = ps ! 1, c_low = ps ! 2, c_close = ps ! 3, c_volume = vol\<rparr>
             | _ \<Rightarrow> None))"

definition load_csv :: "(string \<Rightarrow> real result) \<Rightarrow> string list list \<Rightarrow> candle list" where
  "load_csv rd rows = sort_key c_timestamp (List.map_filter (csv_candle rd) rows)"

section \<open>Options\<close>

record cli_args =
  ca_symbol :: string
  ca_csv_htf :: string
  ca_csv_ltf :: string
  ca_output :: string
  ca_tf_pair :: string
  ca_htf_lookback :: "int option"
  ca_min_rr :: "real option"
  ca_max_rr :: "real option"
  ca_max_wick :: "real option"
  ca_stale_hours :: "real option"
  ca_max_sl_mult :: "real option"
  ca_no_breakeven :: bool
  ca_no_trend_filter :: bool
  ca_no_session_filter :: bool
  ca_from_date :: string
  ca_to_date :: string
  ca_start_balance :: "raw_num option"
  ca_risk_percent :: "raw_num option"
  ca_giveback :: "raw_num option"
  ca_risk_type :: string
  ca_max_trailing_dd :: "real option"
  ca_max_total_loss :: "real option"

text \<open>The tokens \<open>argparse\<close> knows: options with a value, and switches.\<close>

definition VALUE_OPTIONS :: "string list" where
  "VALUE_OPTIONS =
     [''--symbol'', ''--csv-htf'', ''--csv-ltf'', ''--output'', ''--tf-pair'', ''--htf-lookback'', ''--min-rr'', ''--max-rr'',
      ''--max-wick'', ''--stale-hours'', ''--max-sl-mult'', ''--from-date'', ''--to-date'', ''--start-balance'',
      ''--risk-percent'', ''--trailing-giveback-pct'', ''--trace-out'', ''--risk-type'', ''--max-trailing-dd-pct'',
      ''--max-total-loss-pct'']"

definition SWITCHES :: "string list" where
  "SWITCHES = [''--no-breakeven'', ''--no-trend-filter'', ''--no-session-filter'', ''--risk-sweep'', ''--verbose'', ''--streak-analysis'']"

fun known_options :: "string list \<Rightarrow> bool" where
  "known_options [] = True"
| "known_options (t # ts) =
     (if t \<in> set SWITCHES then known_options ts
      else if t \<in> set VALUE_OPTIONS then (case ts of [] \<Rightarrow> False | v # us \<Rightarrow> known_options us)
      else False)"

text \<open>\<open>dataclasses.replace\<close> builds the settings anew, with their checks.\<close>

definition cli_overrides :: "cli_args \<Rightarrow> settings \<Rightarrow> settings" where
  "cli_overrides a cfg =
     (let c1 = (if ca_no_breakeven a then cfg\<lparr>g_move_sl_to_be_on_tp1 := False\<rparr> else cfg);
          c2 = (if ca_no_trend_filter a then c1\<lparr>g_use_trend_filter := False\<rparr> else c1);
          c3 = (if ca_no_session_filter a then c2\<lparr>g_use_session_filter := False\<rparr> else c2);
          c4 = (case ca_min_rr a of None \<Rightarrow> c3 | Some x \<Rightarrow> c3\<lparr>g_min_rr := x\<rparr>)
      in case ca_max_rr a of None \<Rightarrow> c4 | Some x \<Rightarrow> c4\<lparr>g_max_rr := x, g_tf_max_rr := []\<rparr>)"

definition cli_settings :: "cli_args \<Rightarrow> settings \<Rightarrow> settings result" where
  "cli_settings a cfg =
     (if ca_no_breakeven a \<or> ca_no_trend_filter a \<or> ca_no_session_filter a \<or> ca_min_rr a \<noteq> None \<or> ca_max_rr a \<noteq> None
      then bindR (post_init (cli_overrides a cfg)) (\<lambda>_. Inr (cli_overrides a cfg)) else Inr cfg)"

datatype cli_error = Usage | No_Candles | Raised py_error

type_synonym 'a outcome = "cli_error + 'a"

fun raising :: "'a result \<Rightarrow> 'a outcome" where
  "raising (Inl e) = Inl (Raised e)" | "raising (Inr x) = Inr x"

fun bindC :: "'a outcome \<Rightarrow> ('a \<Rightarrow> 'b outcome) \<Rightarrow> 'b outcome" where
  "bindC (Inl e) f = Inl e" | "bindC (Inr x) f = f x"

fun mapC :: "('a \<Rightarrow> 'b outcome) \<Rightarrow> 'a list \<Rightarrow> 'b list outcome" where
  "mapC f [] = Inr []"
| "mapC f (x # xs) = bindC (f x) (\<lambda>y. bindC (mapC f xs) (\<lambda>ys. Inr (y # ys)))"

definition tf_pair_option :: "string \<Rightarrow> (string \<times> string) outcome" where
  "tf_pair_option s =
     (case split_on CHR '':'' s of
        [h, l] \<Rightarrow> if strip h = [] \<or> strip l = [] then Inl Usage else Inr (strip h, strip l)
      | _ \<Rightarrow> Inl Usage)"

definition pairs_to_run :: "cli_args \<Rightarrow> settings \<Rightarrow> pair list outcome" where
  "pairs_to_run a cfg =
     (if ca_tf_pair a \<noteq> [] then bindC (tf_pair_option (ca_tf_pair a)) (\<lambda>p. Inr [p])
      else Inr (g_tf_pairs cfg))"

definition day_option :: "int \<Rightarrow> string \<Rightarrow> int option result" where
  "day_option extra s =
     (if s = [] then Inr None
      else case parse_day s of None \<Rightarrow> Inl ValueError | Some d \<Rightarrow> Inr (Some ((d * 86400 + extra) * 1000)))"

section \<open>The run\<close>

text \<open>The two functions of the client: the last candles, and those of a range.\<close>

record candle_source =
  src_recent :: "string \<Rightarrow> string \<Rightarrow> int \<Rightarrow> candle list result"
  src_range :: "string \<Rightarrow> string \<Rightarrow> int \<Rightarrow> int option \<Rightarrow> candle list result"

text \<open>\<open>list(dict.fromkeys(xs))\<close> keeps the first of equal elements.\<close>

definition first_of_each :: "'a list \<Rightarrow> 'a list" where
  "first_of_each xs = rev (remdups (rev xs))"

definition nonempty_candles :: "candle list result \<Rightarrow> candle list outcome" where
  "nonempty_candles r = bindC (raising r) (\<lambda>cs. if cs = [] then Inl No_Candles else Inr cs)"

definition api_caches ::
  "candle_source \<Rightarrow> settings \<Rightarrow> string \<Rightarrow> pair list \<Rightarrow> int option \<Rightarrow> int option \<Rightarrow>
   (candle list dict \<times> candle list dict) outcome" where
  "api_caches src cfg symbol pairs start_ts end_ts =
     bindC (mapC (\<lambda>h. bindC (nonempty_candles
         (case start_ts of Some t \<Rightarrow> src_range src symbol h t end_ts
          | None \<Rightarrow> src_recent src symbol h (g_htf_outputsize cfg))) (\<lambda>cs. Inr (h, cs)))
       (first_of_each (map fst pairs))) (\<lambda>htf.
     case htf of
       [] \<Rightarrow> Inl (Raised ValueError)
     | (h, cs) # rest \<Rightarrow>
         let earliest = min_of (map (\<lambda>(h, cs). c_timestamp (hd cs)) htf) in
         bindC (mapC (\<lambda>l. bindC (nonempty_candles (src_range src symbol l earliest end_ts)) (\<lambda>cs. Inr (l, cs)))
           (first_of_each (map snd pairs))) (\<lambda>ltf. Inr (htf, ltf)))"

text \<open>\<open>Path(p).stem\<close>\<close>

definition path_stem :: "string \<Rightarrow> string" where
  "path_stem p =
     (let name = (if CHR ''/'' \<in> set p then snd (rsplit_once CHR ''/'' p) else p);
          parts = rsplit_once CHR ''.'' name
      in if CHR ''.'' \<in> set name \<and> fst parts \<noteq> [] \<and> snd parts \<noteq> [] then fst parts else name)"

definition csv_caches ::
  "(string \<Rightarrow> real result) \<Rightarrow> (string \<Rightarrow> string list list result) \<Rightarrow> cli_args \<Rightarrow> pair list \<Rightarrow>
   (candle list dict \<times> candle list dict) outcome" where
  "csv_caches rd rows a pairs =
     (case pairs of
        [] \<Rightarrow> Inl (Raised IndexError)
      | (h, l) # _ \<Rightarrow>
          bindC (raising (rows (ca_csv_htf a))) (\<lambda>hr.
          bindC (raising (rows (ca_csv_ltf a))) (\<lambda>lr.
          Inr ([(h, load_csv rd hr)], [(l, load_csv rd lr)]))))"

definition giveback_option :: "cli_args \<Rightarrow> raw_num outcome" where
  "giveback_option a =
     (case ca_giveback a of
        None \<Rightarrow> Inr (NumFin 0)
      | Some (NumFin x) \<Rightarrow> if 0 \<le> x \<and> x < 100 then Inr (NumFin x) else Inl Usage
      | Some _ \<Rightarrow> Inl Usage)"

text \<open>The symbol and its candles: from the terminal, or from two files.\<close>

definition cli_inputs ::
  "(string \<Rightarrow> real result) \<Rightarrow> (string \<Rightarrow> string list list result) \<Rightarrow> candle_source \<Rightarrow> cli_args \<Rightarrow> settings \<Rightarrow>
   pair list \<Rightarrow> int option \<Rightarrow> int option \<Rightarrow> (string \<times> candle list dict \<times> candle list dict) outcome" where
  "cli_inputs rd rows src a cfg pairs start_ts end_ts =
     (if ca_symbol a \<noteq> [] then
        let symbol = normalize_symbol (ca_symbol a) in
        if symbol \<notin> set SUPPORTED_SYMBOLS then Inl Usage
        else bindC (api_caches src cfg symbol pairs start_ts end_ts) (\<lambda>(htf, ltf). Inr (symbol, htf, ltf))
      else if ca_csv_ltf a = [] then Inl Usage
      else bindC (csv_caches rd rows a pairs) (\<lambda>(htf, ltf). Inr (path_stem (ca_csv_htf a), htf, ltf)))"

definition cli_backtester ::
  "(string \<Rightarrow> real result) \<Rightarrow> (string \<Rightarrow> string list list result) \<Rightarrow> candle_source \<Rightarrow> (settings \<Rightarrow> string) \<Rightarrow>
   settings result \<Rightarrow> cli_args \<Rightarrow> backtester outcome" where
  "cli_backtester rd rows src digest loaded a =
     bindC (raising loaded) (\<lambda>cfg0.
     bindC (raising (cli_settings a cfg0)) (\<lambda>cfg.
     bindC (pairs_to_run a cfg) (\<lambda>pairs.
     bindC (raising (day_option 0 (ca_from_date a))) (\<lambda>start_ts.
     bindC (raising (day_option 86399 (ca_to_date a))) (\<lambda>end_ts.
     bindC (cli_inputs rd rows src a cfg pairs start_ts end_ts) (\<lambda>(symbol, htf, ltf).
     bindC (giveback_option a) (\<lambda>giveback.
     raising (new_backtester cfg symbol pairs htf ltf (ca_htf_lookback a)
       (case ca_start_balance a of None \<Rightarrow> NumFin 5000 | Some b \<Rightarrow> b)
       (case ca_risk_percent a of None \<Rightarrow> NumFin 1 | Some r \<Rightarrow> r) giveback (ca_risk_type a)
       (ca_max_trailing_dd a) (ca_max_total_loss a) digest))))))))"

datatype saved = Nothing_Saved | Saved_Json string | Saved_Csv string

definition cli_main ::
  "(string \<Rightarrow> real result) \<Rightarrow> (string \<Rightarrow> string list list result) \<Rightarrow> candle_source \<Rightarrow> (settings \<Rightarrow> string) \<Rightarrow>
   settings result \<Rightarrow> cli_args \<Rightarrow> (report \<times> walk \<times> saved) outcome" where
  "cli_main rd rows src digest loaded a =
     bindC (cli_backtester rd rows src digest loaded a) (\<lambda>bt.
     bindC (raising (run bt)) (\<lambda>(rp, w).
     Inr (rp, w, if ca_output a = [] then Nothing_Saved
                 else if ends_with (ca_output a) ''.json'' then Saved_Json (ca_output a) else Saved_Csv (ca_output a))))"

text \<open>What a run of the grid passes.\<close>

definition grid_command :: "string \<Rightarrow> string \<Rightarrow> string \<Rightarrow> string \<Rightarrow> string \<Rightarrow> string list \<Rightarrow> string list" where
  "grid_command python symbol out_file min_rr max_rr extra =
     [python, ''-m'', ''src.app.backtesting.backtest'', ''--symbol'', symbol, ''--output'', out_file,
      ''--min-rr'', min_rr, ''--max-rr'', max_rr] @ extra"

end
