(* ===== verification/Tools_Laws.thy ===== *)
theory Tools_Laws
  imports Tools Config_Laws "HOL-Library.Multiset"
begin

text \<open>
  The scripts around the backtester: the list of failed symbols is that of the last run and forgets
  the others; both tables of profit factors agree except that no losses is infinite in one and
  missing in the other; the ranking holds each combination once, best first, and no two runs of the
  grid write one file; the days of the frequency report add up.
\<close>

section \<open>Runs and retries\<close>

lemma attempts_ok: "ro_ok (fst (attempts run a left)) \<longleftrightarrow> (\<exists>i. a \<le> i \<and> i \<le> a + left \<and> ro_ok (run i))"
proof (induction run a left rule: attempts.induct)
  case (1 run a)
  then show ?case by (auto dest: antisym)
next
  case (2 run a left)
  show ?case
  proof (cases "ro_ok (run a)")
    case True
    then show ?thesis by auto
  next
    case False
    have "Suc a \<le> i \<and> i \<le> Suc a + left \<and> ro_ok (run i) \<longleftrightarrow> a \<le> i \<and> i \<le> a + Suc left \<and> ro_ok (run i)" for i
      using False by (cases "i = a") auto
    then show ?thesis using 2 [OF False] False by (simp add: case_prod_beta)
  qed
qed

lemma failed_members:
  assumes "mset ended = mset (map (\<lambda>s. (s, ok s)) syms)"
  shows "set (map fst (filter (Not \<circ> snd) ended)) = {s \<in> set syms. \<not> ok s}"
proof -
  have "set ended = (\<lambda>s. (s, ok s)) ` set syms" using mset_eq_setD [OF assms] by simp
  then show ?thesis by (auto simp: image_iff)
qed

text \<open>
  the state file knows the last run only. Whatever it listed before and in whatever order the
  runs end, afterwards it lists exactly the symbols of this run whose last attempt failed, and it is
  removed if there are none: a failed symbol that the run did not take, because it was not asked
  for or its older result is still fresh, is forgotten.
\<close>

theorem failed_list_is_last_run:
  assumes "symbols = rba_symbols args failed now mtime" "symbols \<noteq> []"
    and "mset ended = mset (map (\<lambda>s. (s, ro_ok (fst (run_with_retry (run s) retries)))) symbols)"
    and "rba_finish symbols ended failed = (counts, failed')"
  shows "(case failed' of None \<Rightarrow> {} | Some names \<Rightarrow> set names) = {s \<in> set symbols. \<forall>a \<le> retries. \<not> ro_ok (run s a)} \<and>
    (failed' = None \<longleftrightarrow> (\<forall>s \<in> set symbols. \<exists>a \<le> retries. ro_ok (run s a))) \<and>
    (\<exists>good bad. counts = Some (good, bad) \<and> good + bad = length symbols)"
proof -
  have last: "\<not> ro_ok (fst (run_with_retry (run s) retries)) \<longleftrightarrow> (\<forall>a \<le> retries. \<not> ro_ok (run s a))" for s
    by (auto simp: run_with_retry_def attempts_ok)
  define names where "names = map fst (filter (Not \<circ> snd) ended)"
  have bad: "set names = {s \<in> set symbols. \<forall>a \<le> retries. \<not> ro_ok (run s a)}"
    unfolding names_def using failed_members [OF assms(3)] by (simp only: last)
  have f: "failed' = (if names = [] then None else Some names)" "counts = Some (length (filter snd ended), length names)"
    using assms(2,4) by (auto simp: rba_finish_def Let_def names_def)
  have "length (filter snd ended) + length names = length symbols"
    using sum_length_filter_compl [of snd ended] mset_eq_length [OF assms(3)] by (simp add: names_def comp_def)
  moreover have "names = [] \<longleftrightarrow> set names = {}" by simp
  ultimately show ?thesis unfolding f using bad by (auto simp del: set_empty set_empty2)
qed

section \<open>Profit factors\<close>

lemma chained: "bindR (bindR m f) g = bindR m (\<lambda>x. bindR (f x) g)"
  by (cases m) simp_all

definition table_view :: "grid_stats option \<Rightarrow> real option" where
  "table_view g = (case g of None \<Rightarrow> None | Some s \<Rightarrow> (case gs_factor s of Finite x \<Rightarrow> Some x | Infinite \<Rightarrow> None))"

text \<open>
  one profit factor in two scripts. On every file the table of the periods shows the factor of
  the grid search, and raises where it raises; but where the grid has an infinite factor, for a
  symbol without a loss, the table has none: the best result counts as passing in the grid and as
  failing in the table.
\<close>

theorem two_profit_factors_agree:
  "table_pf rd fs path = bindR (grid_parse_csv rd fs path) (\<lambda>g. Inr (table_view g)) \<and>
   (\<forall>s. grid_parse_csv rd fs path = Inr (Some s) \<and> gs_factor s = Infinite \<longrightarrow>
      passes s \<and> table_pf rd fs path = Inr None \<and> \<not> holds_up None)"
proof -
  have eq: "table_pf rd fs path = bindR (grid_parse_csv rd fs path) (\<lambda>g. Inr (table_view g))"
    by (cases "readable_rows fs path")
      (auto simp: table_pf_def grid_parse_csv_def table_view_def Let_def chained round_factor_def intro!: bindR_ext)
  then show ?thesis by (auto simp: passes_def table_view_def holds_up_def)
qed

section \<open>The grid\<close>

lemma combo_keys:
  "map (\<lambda>(a, b). combo_key a b) (List.product MIN_RR_VALUES MAX_RR_VALUES) =
     [''min5.0_max2.0'', ''min5.0_max2.5'', ''min5.0_max3.0'', ''min6.0_max2.0'', ''min6.0_max2.5'', ''min6.0_max3.0'',
      ''min7.0_max2.0'', ''min7.0_max2.5'', ''min7.0_max3.0'', ''min8.0_max2.0'', ''min8.0_max2.5'', ''min8.0_max3.0'',
      ''min10.0_max2.0'', ''min10.0_max2.5'', ''min10.0_max3.0'', ''min12.0_max2.0'', ''min12.0_max2.5'', ''min12.0_max3.0'',
      ''min14.0_max2.0'', ''min14.0_max2.5'', ''min14.0_max3.0'']"
  by code_simp

lemma mapR_map: "mapR f xs = Inr ys \<Longrightarrow> list_all2 (\<lambda>x y. f x = Inr y) xs ys"
  by (induction xs arbitrary: ys) (auto simp: bindR_Inr_iff)

lemma grid_files:
  "map (\<lambda>(s, mn, mx, file). file) (grid_tasks dir) = map (\<lambda>t. dir @ ''/'' @ t)
     (concat (map (\<lambda>(mn, mx). map (\<lambda>s. combo_key mn mx @ ''/'' @ s @ ''.csv'') ALL_SYMBOLS) (List.product MIN_RR_VALUES MAX_RR_VALUES)))"
  by (simp add: grid_tasks_def map_concat comp_def split_def combo_file_def)

lemma grid_files_distinct:
  "distinct (concat (map (\<lambda>(mn, mx). map (\<lambda>s. combo_key mn mx @ ''/'' @ s @ ''.csv'') ALL_SYMBOLS) (List.product MIN_RR_VALUES MAX_RR_VALUES)))"
  by code_simp

text \<open>
  the ranking is a ranking. It holds one line for each combination of limits that has data for
  some symbol, no line below a worse one, so that the combination named best is among those of most
  passing symbols and, of these, of highest average factor; and no two runs write one file.
\<close>

theorem grid_ranks_every_combination:
  assumes "grid_ranking rd fs dir = Inr ranked"
  shows "(\<exists>ls. list_all2 (\<lambda>c l. grid_line rd fs dir c = Inr l) (List.product MIN_RR_VALUES MAX_RR_VALUES) ls \<and>
      mset ranked = mset (List.map_filter id ls)) \<and>
    sorted_wrt (\<lambda>x y. (cl_passing y, cl_avg_factor y) \<le> (cl_passing x, cl_avg_factor x)) ranked \<and>
    distinct (map (\<lambda>(s, mn, mx, file). file) (grid_tasks dir))"
proof -
  obtain ls where ls: "mapR (grid_line rd fs dir) (List.product MIN_RR_VALUES MAX_RR_VALUES) = Inr ls"
    "ranked = rank_combos (List.map_filter id ls)"
    using assms by (auto simp: grid_ranking_def bindR_Inr_iff)
  have "mset ranked = mset (List.map_filter id ls)"
    by (simp add: ls(2) rank_combos_def sort_desc_def)
  moreover have "sorted_wrt (\<lambda>x y. (cl_passing y, cl_avg_factor y) \<le> (cl_passing x, cl_avg_factor x)) ranked"
    unfolding ls(2) rank_combos_def by (rule sorted_sort_desc)
  moreover have "distinct (map (\<lambda>(s, mn, mx, file). file) (grid_tasks dir))"
    unfolding grid_files distinct_map using grid_files_distinct by (simp add: inj_on_def)
  ultimately show ?thesis using mapR_map [OF ls(1)] by blast
qed

section \<open>Days\<close>

lemma count_sum: "distinct ds \<Longrightarrow> sum_list (map (count_on dates) ds) = length (filter (\<lambda>x. x \<in> set ds) dates)"
proof (induction ds)
  case (Cons d ds)
  have "length (filter (\<lambda>x. x = d \<or> x \<in> set ds) dates) = length (filter (\<lambda>x. x = d) dates) + length (filter (\<lambda>x. x \<in> set ds) dates)"
    using Cons.prems by (induction dates) auto
  with Cons show ?case by (simp add: count_on_def)
qed simp

lemma fold_min_le: "fold min xs (a::int) \<le> a \<and> (\<forall>x \<in> set xs. fold min xs a \<le> x)"
  by (induction xs arbitrary: a) (auto, meson min.bounded_iff order_trans, meson min.bounded_iff order_trans)

lemma fold_max_ge: "(a::int) \<le> fold max xs a \<and> (\<forall>x \<in> set xs. x \<le> fold max xs a)"
  by (induction xs arbitrary: a) (auto, meson max.bounded_iff order_trans, meson max.bounded_iff order_trans)

text \<open>
  the days of the report add up. Between the first and the last trade every day is a weekend or
  a trading day, and every trading day has a trade or none; the counts of the active days are all
  trades but those entered at a weekend; and the report fails exactly when no trading day lies
  between the two.
\<close>

theorem frequency_days_add_up:
  assumes "dates \<noteq> []"
  shows "(case frequency_of pairs dates of
      Inl e \<Rightarrow> e = ZeroDivisionError \<and> list_all is_weekend dates
    | Inr f \<Rightarrow> mset (fq_weekends f @ fq_trading f) = mset [fq_start f..fq_end f] \<and>
        mset (fq_active f @ fq_zero f) = mset (fq_trading f) \<and> set dates \<subseteq> {fq_start f..fq_end f} \<and>
        sum_list (fq_counts f) + length (filter is_weekend dates) = length dates \<and>
        fq_active_share f + fq_zero_share f = 100)"
proof -
  define first where "first = fold min dates (hd dates)"
  define final where "final = fold max dates (hd dates)"
  define trading where "trading = filter (Not \<circ> is_weekend) [first..final]"
  define active where "active = filter (\<lambda>d. d \<in> set dates) trading"
  define idle where "idle = filter (\<lambda>d. d \<notin> set dates) trading"
  note defs = first_def [symmetric] final_def [symmetric] trading_def [symmetric] active_def [symmetric] idle_def [symmetric]
  have range: "set dates \<subseteq> {first..final}"
    using fold_min_le [of dates "hd dates"] fold_max_ge [where xs = dates and a = "hd dates"]
    by (auto simp: first_def final_def)
  have weekend: "list_all is_weekend dates" if "trading = []"
    using that range by (auto simp: trading_def filter_empty_conv list_all_iff)
  have "filter (\<lambda>x. x \<in> set active) dates = filter (Not \<circ> is_weekend) dates"
    using range by (intro filter_cong) (auto simp: active_def trading_def)
  then have counts: "sum_list (map (count_on dates) active) + length (filter is_weekend dates) = length dates"
    using sum_length_filter_compl [of is_weekend dates] by (simp add: count_sum active_def trading_def comp_def)
  have days: "mset (filter is_weekend [first..final] @ trading) = mset [first..final]" "mset (active @ idle) = mset trading"
    by (simp_all add: active_def idle_def, simp add: trading_def comp_def)
  have shares: "of_nat (length active) / of_nat (length trading) * 100 + of_nat (length idle) / of_nat (length trading) * 100 = (100::real)"
    if "trading \<noteq> []"
  proof -
    have "real (length active) + real (length idle) = real (length trading)"
      using mset_eq_length [OF days(2)] by (simp flip: of_nat_add)
    moreover have "real (length trading) \<noteq> 0" using that by simp
    ultimately show ?thesis by (simp flip: add_divide_distrib distrib_right)
  qed
  show ?thesis
  proof (cases "trading = []")
    case True
    then show ?thesis using weekend by (simp add: frequency_of_def Let_def defs)
  next
    case False
    then show ?thesis
      using range counts days shares [OF False] by (simp add: frequency_of_def Let_def defs)
  qed
qed

section \<open>Examples\<close>

definition all_args :: rba_args where
  "all_args = \<lparr>ra_symbols = [''xau/usd'', ''eurusd'', ''xagusd''], ra_only_failed = False, ra_resume = True, ra_resume_max_age = 24,
     ra_output_dir = ''out'', ra_from_date = [], ra_to_date = [], ra_start_balance = None, ra_risk_percent = None\<rparr>"

definition fresh_silver :: "string \<Rightarrow> real option" where "fresh_silver = [''out/XAGUSD.csv'' \<mapsto> 0]"

definition failing :: "nat \<Rightarrow> run_outcome" where "failing a = \<lparr>ro_ok = False, ro_elapsed = 1, ro_output = []\<rparr>"

lemma gold_only: "rba_symbols all_args (Some [''XAGUSD'']) 60 fresh_silver = [''XAUUSD'']"
  by code_simp

lemma failing_retries: "\<not> ro_ok (fst (run_with_retry failing 1))"
  by (simp add: run_with_retry_def failing_def)

theorem failed_list_is_last_run_witness:
  "rba_finish [''XAUUSD''] [(''XAUUSD'', False)] (Some [''XAGUSD'']) = (Some (0, 1), Some [''XAUUSD'']) \<and>
   {''XAUUSD''} = {s \<in> set [''XAUUSD'']. \<forall>a \<le> 1. \<not> ro_ok (failing a)}"
proof -
  have fin: "rba_finish [''XAUUSD''] [(''XAUUSD'', False)] (Some [''XAGUSD'']) = (Some (0, 1), Some [''XAUUSD''])"
    by (simp add: rba_finish_def)
  have "mset [(''XAUUSD'', False)] = mset (map (\<lambda>s. (s, ro_ok (fst (run_with_retry failing 1)))) [''XAUUSD''])"
    by (simp only: list.map failing_retries)
  note r = conjunct1 [OF failed_list_is_last_run [OF gold_only [symmetric] _ this fin]]
  have "{''XAUUSD''} = {s \<in> set [''XAUUSD'']. \<forall>a \<le> 1. \<not> ro_ok (failing a)}"
    using r [OF list.distinct(2)] by (simp only: option.case list.set)
  with fin show ?thesis by (rule conjI)
qed

definition one_win :: csv_files where
  "one_win path = (if path = ''g/min5.0_max2.0/XAUUSD.csv'' then Some (Inr [[(''outcome'', ''win_full''), (''realized_rr'', ''3'')]]) else None)"

theorem two_profit_factors_agree_witness:
  "table_pf (\<lambda>_. Inr 3) one_win ''g/min5.0_max2.0/XAUUSD.csv'' = Inr None"
proof -
  have "grid_parse_csv (\<lambda>_. Inr 3) one_win ''g/min5.0_max2.0/XAUUSD.csv'' =
      Inr (Some \<lparr>gs_trades = 1, gs_wins = 1, gs_losses = 0, gs_win_rate = 100, gs_factor = Infinite\<rparr>)"
    by code_simp
  with two_profit_factors_agree [of "\<lambda>_. Inr 3" one_win "''g/min5.0_max2.0/XAUUSD.csv''"]
  show ?thesis by (simp add: table_view_def)
qed

theorem grid_ranks_every_combination_witness:
  "\<exists>l. grid_ranking (\<lambda>_. Inr 3) one_win ''g'' = Inr [l] \<and> cl_passing l = 1 \<and> cl_avg_factor l = Infinite \<and>
     distinct (map (\<lambda>(s, mn, mx, file). file) (grid_tasks ''g''))"
proof -
  have "grid_ranking (\<lambda>_. Inr 3) one_win ''g'' =
      Inr [\<lparr>cl_min = 5, cl_max = 2, cl_avg_factor = Infinite, cl_avg_rate = 100, cl_trades = 1, cl_passing = 1, cl_pairs = 1\<rparr>]"
    by code_simp
  with grid_ranks_every_combination [OF this] show ?thesis by auto
qed

theorem frequency_days_add_up_witness:
  "\<exists>f. frequency_of [] [0, 2, 4] = Inr f \<and> sum_list (fq_counts f) + 1 = 3 \<and> fq_active_share f + fq_zero_share f = 100"
proof -
  have "map_result (\<lambda>f. (fq_start f, fq_end f)) (frequency_of [] [0, 2, 4]) = Inr (0, 4)" by code_simp
  then obtain f where f: "frequency_of [] [0, 2, 4] = Inr f" by (cases "frequency_of [] [0, 2, 4]") (simp_all add: map_result_def)
  have "filter is_weekend [0, 2, 4::int] = [2]" by code_simp
  with frequency_days_add_up [of "[0, 2, 4]" "[]"] f show ?thesis by simp
qed

end
