(* ===== verification/Backtest_Cli_Laws.thy ===== *)
theory Backtest_Cli_Laws
  imports Backtest_Cli Tools_Laws
begin

text \<open>
  The command line of the backtester: the option that caps the ratio changes nothing but the echo of
  itself, so that one axis of the grid search has no effect and its best combination always has the
  first cap; three options are accepted and never read; and a cache directory, which the tool for
  all symbols passes on, is refused. Candle files give candles in the order of time.
\<close>

section \<open>Two walks that differ in the hash of the configuration\<close>

definition unhash :: "trace_record \<Rightarrow> trace_record" where
  "unhash t = t\<lparr>tc_config_hash := []\<rparr>"

definition unhashed :: "walk \<Rightarrow> walk" where
  "unhashed w = w\<lparr>wk_trace := map unhash (wk_trace w)\<rparr>"

definition alike :: "walk \<Rightarrow> walk \<Rightarrow> bool" where
  "alike w w' \<longleftrightarrow> unhashed w = unhashed w'"

definition capped :: "real \<Rightarrow> backtester \<Rightarrow> backtester" where
  "capped m bt = bt\<lparr>bt_cfg := (bt_cfg bt)\<lparr>g_max_rr := m\<rparr>\<rparr>"

lemma alikeE:
  assumes "alike w w'" obtains t where "w' = w\<lparr>wk_trace := t\<rparr>" "map unhash t = map unhash (wk_trace w)"
  using assms by (cases w; cases w') (auto simp: alike_def unhashed_def)

lemma alikeI: "map unhash t = map unhash (wk_trace w) \<Longrightarrow> alike w (w\<lparr>wk_trace := t\<rparr>)"
  by (simp add: alike_def unhashed_def)

lemma alike_refl [simp]: "alike w w" by (simp add: alike_def)

abbreviation same_result :: "('a \<Rightarrow> 'b \<Rightarrow> bool) \<Rightarrow> 'a result \<Rightarrow> 'b result \<Rightarrow> bool" where
  "same_result R \<equiv> rel_sum (=) R"

lemma same_bind:
  "same_result R m m' \<Longrightarrow> (\<And>x y. R x y \<Longrightarrow> same_result S (f x) (g y)) \<Longrightarrow> same_result S (bindR m f) (bindR m' g)"
  by (cases m; cases m') auto

lemma same_bind_eq: "(\<And>x. same_result S (f x) (g x)) \<Longrightarrow> same_result S (bindR m f) (bindR m g)"
  by (cases m) auto

text \<open>What reads the settings reads nothing that the cap changes.\<close>

lemma capped_fields [simp]:
  "bt_symbol (capped m bt) = bt_symbol bt" "bt_pairs (capped m bt) = bt_pairs bt" "bt_htf (capped m bt) = bt_htf bt"
  "bt_ltf (capped m bt) = bt_ltf bt" "bt_lookback (capped m bt) = bt_lookback bt" "bt_giveback (capped m bt) = bt_giveback bt"
  "bt_profiles (capped m bt) = bt_profiles bt" "bt_profile (capped m bt) = bt_profile bt" "bt_stale_ms (capped m bt) = bt_stale_ms bt"
  "bt_htf_ms (capped m bt) = bt_htf_ms bt" "bt_digest (capped m bt) = bt_digest bt" "bt_cfg (capped m bt) = (bt_cfg bt)\<lparr>g_max_rr := m\<rparr>"
  "bt_start_balance (capped m bt) = bt_start_balance bt" "bt_risk_percent (capped m bt) = bt_risk_percent bt"
  "bt_risk_type (capped m bt) = bt_risk_type bt" "bt_max_trailing_dd (capped m bt) = bt_max_trailing_dd bt"
  "bt_max_total_loss (capped m bt) = bt_max_total_loss bt"
  by (simp_all add: capped_def)

lemma registry_capped [simp]: "registry_get (cfg\<lparr>g_max_rr := m\<rparr>) s h l = registry_get cfg s h l"
  using registry_ignores_config_sessions [where cfg = cfg and ses = "g_sessions cfg" and m = m and s = s] by simp

lemma reads_no_cap [simp]:
  "resolve_lookback (capped m bt) = resolve_lookback bt"
  "fresh_ranges (capped m bt) v = fresh_ranges bt v"
  "zone_spent (capped m bt) pr z w = zone_spent bt pr z w"
  "rejection_passes (capped m bt) v z r w = rejection_passes bt v z r w"
  "bt_signal_id (capped m bt) = bt_signal_id bt"
  "book_signal (capped m bt) = book_signal bt"
  "look_at_pair (capped m bt) = look_at_pair bt"
  "trend_at (capped m bt) = trend_at bt"
  "bt_zone_key (capped m bt) = bt_zone_key bt"
  "simulate (cfg\<lparr>g_max_rr := m\<rparr>) g s cs = simulate cfg g s cs"
  by (simp_all add: resolve_lookback_def resolve_htf_lookback_def fresh_ranges_def displacement_mult_for_def Let_def
      zone_spent_def rejection_passes_def bt_zone_key_def bt_rej_key_def bt_dir_key_def bt_signal_id_def
      book_signal_def look_at_pair_def trend_at_def simulate_def fun_eq_iff split: option.split)

lemma ranges_no_cap [simp]: "ranges_at (capped m bt) v w = ranges_at bt v w"
  by (simp add: ranges_at_def)

text \<open>What carries the walk along leaves the trace alone.\<close>

abbreviation with_trace :: "trace_record list \<Rightarrow> walk \<Rightarrow> walk" where
  "with_trace t w \<equiv> w\<lparr>wk_trace := t\<rparr>"

lemma trace_untouched:
  "structure_at v (with_trace t w) = apsnd (with_trace t) (structure_at v w)"
  "trend_at bt v (with_trace t w) = apsnd (with_trace t) (trend_at bt v w)"
  "zone_lo_at v z (with_trace t w) = apsnd (with_trace t) (zone_lo_at v z w)"
  "entry_at v lo z (with_trace t w) = apsnd (with_trace t) (entry_at v lo z w)"
  by (auto simp: structure_at_def trend_at_def zone_lo_at_def entry_at_def Let_def split: option.split prod.split)

lemma ranges_trace:
  "ranges_at bt v (with_trace t w) = map_sum id (apsnd (with_trace t)) (ranges_at bt v w)"
  by (cases "fresh_ranges bt v") (auto simp: ranges_at_def Let_def split: option.split)

lemma reads_no_trace [simp]:
  "zone_spent bt pr z (with_trace t w) = zone_spent bt pr z w"
  "rejection_passes bt v z r (with_trace t w) = rejection_passes bt v z r w"
  "wk_count (with_trace t w) k = wk_count w k"
  "book_signal bt v z r s res (with_trace t w) = with_trace t (book_signal bt v z r s res w)"
  "wk_trace (book_signal bt v z r s res w) = wk_trace w"
  "expire_locks now (with_trace t w) = with_trace t (expire_locks now w)"
  "wk_trace (expire_locks now w) = wk_trace w"
  by (simp_all add: zone_spent_def rejection_passes_def wk_count_def book_signal_def expire_locks_def Let_def)

lemma trace_hash:
  "same_result (\<lambda>x y. unhash x = unhash y)
     (trace_from_signal digest mode s cfg dr br bal risk oc pnl) (trace_from_signal digest mode s cfg' dr br bal risk oc pnl)"
  unfolding trace_from_signal_def Let_def by (rule same_bind_eq) (simp add: unhash_def)

definition step_alike :: "(bool \<times> walk) result \<Rightarrow> (bool \<times> walk) result \<Rightarrow> bool" where
  "step_alike = same_result (\<lambda>(b, w) (b', w'). b = b' \<and> alike w w')"

lemma take_setup_alike:
  assumes "map unhash t = map unhash (wk_trace w)"
  shows "step_alike (take_setup bt v z rej w) (take_setup (capped m bt) v z rej (with_trace t w))"
  unfolding step_alike_def take_setup_def Let_def
  using assms
  by (auto intro!: same_bind_eq same_bind [OF trace_hash] simp: alike_def unhashed_def split: option.split)

lemma scan_zone_alike:
  assumes "map unhash t = map unhash (wk_trace w)"
  shows "step_alike (scan_zone bt v st z w) (scan_zone (capped m bt) v st z (with_trace t w))"
proof -
  obtain lo w1 where 1: "zone_lo_at v z w = (lo, w1)" by force
  obtain e w2 where 2: "entry_at v lo z w1 = (e, w2)" by force
  have "wk_trace w1 = wk_trace w" using 1 by (auto simp: zone_lo_at_def Let_def split: option.splits)
  moreover have "wk_trace w2 = wk_trace w1" using 2 by (auto simp: entry_at_def Let_def split: option.splits prod.splits if_splits)
  ultimately have t: "map unhash t = map unhash (wk_trace w1)" "map unhash t = map unhash (wk_trace w2)" using assms by simp_all
  show ?thesis
    unfolding scan_zone_def trace_untouched 1 reads_no_cap reads_no_trace apsnd_conv prod.case 2
    using t take_setup_alike [OF t(2)] alikeI [OF assms] alikeI [OF t(1)] alikeI [OF t(2)]
    by (auto simp: step_alike_def split: option.split)
qed

definition walk_alike :: "walk result \<Rightarrow> walk result \<Rightarrow> bool" where
  "walk_alike = same_result alike"

lemma scan_zones_alike:
  "alike w w' \<Longrightarrow> walk_alike (scan_zones_bt bt v st zs w) (scan_zones_bt (capped m bt) v st zs w')"
proof (induction zs arbitrary: w w')
  case (Cons z zs)
  from Cons.prems obtain t where "w' = with_trace t w" "map unhash t = map unhash (wk_trace w)" by (rule alikeE)
  then have "step_alike (scan_zone bt v st z w) (scan_zone (capped m bt) v st z w')"
    using scan_zone_alike by blast
  then show ?case
    unfolding scan_zones_bt.simps walk_alike_def step_alike_def
    by (rule same_bind) (use Cons.IH in \<open>auto simp: walk_alike_def\<close>)
qed (simp add: walk_alike_def)

lemma scan_pair_alike:
  "alike w w' \<Longrightarrow> walk_alike (scan_pair bt ac v st zs w) (scan_pair (capped m bt) ac v st zs w')"
  unfolding scan_pair_def Let_def capped_fields walk_alike_def
  by (intro same_bind_eq) (use scan_zones_alike in \<open>auto simp: walk_alike_def\<close>)

lemma trend_trace: "trend_at bt v w = (st, w1) \<Longrightarrow> wk_trace w1 = wk_trace w"
  by (auto simp: trend_at_def structure_at_def Let_def split: if_splits option.splits prod.splits)

lemma ranges_wk_trace: "ranges_at bt v w = Inr (zs, w1) \<Longrightarrow> wk_trace w1 = wk_trace w"
  by (auto simp: ranges_at_def Let_def bindR_Inr_iff split: option.splits if_splits)

lemma walk_view_alike:
  assumes "alike w w'" shows "walk_alike (walk_view bt ac v w) (walk_view (capped m bt) ac v w')"
proof -
  obtain t where t: "w' = with_trace t w" "map unhash t = map unhash (wk_trace w)" using assms by (rule alikeE)
  obtain st w1 where 1: "trend_at bt v w = (st, w1)" by force
  have t1: "map unhash t = map unhash (wk_trace w1)" using t(2) trend_trace [OF 1] by simp
  have "walk_alike (bindR (ranges_at bt v w1) (\<lambda>(zs, w2). scan_pair bt ac v st zs w2))
      (bindR (map_sum id (apsnd (with_trace t)) (ranges_at bt v w1)) (\<lambda>(zs, w2). scan_pair (capped m bt) ac v st zs w2))"
  proof (cases "ranges_at bt v w1")
    case (Inr x)
    obtain zs w2 where x: "x = (zs, w2)" by force
    have "map unhash t = map unhash (wk_trace w2)" using t1 ranges_wk_trace Inr x by simp
    from scan_pair_alike [OF alikeI [OF this]] show ?thesis using Inr x by simp
  qed (simp add: walk_alike_def)
  then show ?thesis
    unfolding walk_view_def t(1) reads_no_cap trace_untouched 1 apsnd_conv prod.case ranges_no_cap ranges_trace
    using alikeI [OF t1] by (simp add: walk_alike_def)
qed

lemma walk_pair_alike: "alike w w' \<Longrightarrow> walk_alike (walk_pair bt ac prl w) (walk_pair (capped m bt) ac prl w')"
proof -
  assume w: "alike w w'"
  obtain pr lookback where prl: "prl = (pr, lookback)" by (cases prl)
  have "look_at_pair bt ac lookback pr w' = look_at_pair bt ac lookback pr w" by (simp add: look_at_pair_def)
  then show ?thesis
    using w walk_view_alike [OF w]
    unfolding walk_pair_def prl prod.case walk_alike_def reads_no_cap
    by (auto intro!: same_bind_eq split: option.split)
qed

lemma walk_pairs_alike: "alike w w' \<Longrightarrow> walk_alike (walk_pairs bt ac prs w) (walk_pairs (capped m bt) ac prs w')"
proof (induction prs arbitrary: w w')
  case (Cons pr prs)
  show ?case
    unfolding walk_pairs.simps walk_alike_def
    by (rule same_bind [OF walk_pair_alike [OF Cons.prems, unfolded walk_alike_def]]) (use Cons.IH in \<open>simp add: walk_alike_def\<close>)
qed (simp add: walk_alike_def)

lemma expire_alike: "alike w w' \<Longrightarrow> alike (expire_locks now w) (expire_locks now w')"
  by (auto elim!: alikeE intro!: alikeI)

lemma walk_steps_alike: "alike w w' \<Longrightarrow> walk_alike (walk_steps bt prs ms cs w) (walk_steps (capped m bt) prs ms cs w')"
proof (induction cs arbitrary: w w')
  case (Cons c cs)
  show ?case
    unfolding walk_steps.simps walk_step_def walk_alike_def
    by (rule same_bind [OF walk_pairs_alike [OF expire_alike [OF Cons.prems], unfolded walk_alike_def]])
      (use Cons.IH in \<open>simp add: walk_alike_def\<close>)
qed (simp add: walk_alike_def)

lemma run_walk_alike: "walk_alike (run_walk bt) (run_walk (capped m bt))"
  unfolding run_walk_def walk_alike_def
  by (auto intro!: same_bind_eq simp: Let_def walk_steps_alike [unfolded walk_alike_def])

section \<open>The option that caps the ratio\<close>

definition with_cap :: "cli_args \<Rightarrow> real \<Rightarrow> cli_args" where
  "with_cap a x = a\<lparr>ca_max_rr := Some x\<rparr>"

lemma with_cap_fields [simp]:
  "ca_symbol (with_cap a x) = ca_symbol a" "ca_csv_htf (with_cap a x) = ca_csv_htf a" "ca_csv_ltf (with_cap a x) = ca_csv_ltf a"
  "ca_output (with_cap a x) = ca_output a" "ca_tf_pair (with_cap a x) = ca_tf_pair a" "ca_htf_lookback (with_cap a x) = ca_htf_lookback a"
  "ca_from_date (with_cap a x) = ca_from_date a" "ca_to_date (with_cap a x) = ca_to_date a"
  "ca_start_balance (with_cap a x) = ca_start_balance a" "ca_risk_percent (with_cap a x) = ca_risk_percent a"
  "ca_giveback (with_cap a x) = ca_giveback a" "ca_risk_type (with_cap a x) = ca_risk_type a"
  "ca_max_trailing_dd (with_cap a x) = ca_max_trailing_dd a" "ca_max_total_loss (with_cap a x) = ca_max_total_loss a"
  by (simp_all add: with_cap_def)

lemma overrides_capped: "cli_overrides (with_cap a y) cfg = (cli_overrides (with_cap a x) cfg)\<lparr>g_max_rr := y\<rparr>"
  by (simp add: with_cap_def cli_overrides_def Let_def split: option.split)

lemma post_init_capped: "post_init (cfg\<lparr>g_max_rr := y\<rparr>) = post_init cfg"
  by (simp add: post_init_def)

definition recap :: "real \<Rightarrow> settings \<Rightarrow> settings" where "recap y cfg = cfg\<lparr>g_max_rr := y\<rparr>"

lemma settings_capped: "cli_settings (with_cap a y) cfg = map_result (recap y) (cli_settings (with_cap a x) cfg)"
proof -
  have "cli_settings (with_cap a z) cfg = bindR (post_init (cli_overrides (with_cap a z) cfg)) (\<lambda>_. Inr (cli_overrides (with_cap a z) cfg))" for z
    by (simp add: cli_settings_def with_cap_def)
  then show ?thesis
    by (simp add: overrides_capped [of a y cfg x] post_init_capped map_result_bindR) (simp add: map_result_def recap_def)
qed

lemma new_backtester_capped:
  "new_backtester (recap m cfg) symbol pairs htf ltf lb b r g rt mtr mtl digest =
   map_result (capped m) (new_backtester cfg symbol pairs htf ltf lb b r g rt mtr mtl digest)"
  by (simp add: new_backtester_def map_result_bindR recap_def) (simp add: map_result_def capped_def)

abbreviation same_outcome :: "('a \<Rightarrow> 'b \<Rightarrow> bool) \<Rightarrow> 'a outcome \<Rightarrow> 'b outcome \<Rightarrow> bool" where
  "same_outcome R \<equiv> rel_sum (=) R"

lemma outcome_bind:
  "same_outcome R m m' \<Longrightarrow> (\<And>x y. R x y \<Longrightarrow> same_outcome S (f x) (g y)) \<Longrightarrow> same_outcome S (bindC m f) (bindC m' g)"
  by (cases m; cases m') auto

lemma outcome_bind_eq: "(\<And>x. same_outcome S (f x) (g x)) \<Longrightarrow> same_outcome S (bindC m f) (bindC m g)"
  by (cases m) auto

lemma outcome_mapped: "same_outcome (\<lambda>x y. y = f x) (raising r) (raising (map_result f r))"
  by (cases r) (simp_all add: map_result_def)

lemma caches_capped [simp]:
  "api_caches src (cfg\<lparr>g_max_rr := y\<rparr>) = api_caches src cfg"
  "csv_caches rd rows (with_cap a y) = csv_caches rd rows a"
proof -
  have out: "g_htf_outputsize (cfg\<lparr>g_max_rr := y\<rparr>) = g_htf_outputsize cfg" by simp
  show "api_caches src (cfg\<lparr>g_max_rr := y\<rparr>) = api_caches src cfg"
    by (intro ext) (simp only: api_caches_def out)
  show "csv_caches rd rows (with_cap a y) = csv_caches rd rows a"
    by (intro ext) (simp only: csv_caches_def with_cap_fields)
qed

lemma inputs_capped:
  "pairs_to_run (with_cap a y) (recap y cfg) = pairs_to_run (with_cap a x) cfg"
  "cli_inputs rd rows src (with_cap a y) (recap y cfg) ps t u = cli_inputs rd rows src (with_cap a x) cfg ps t u"
  "giveback_option (with_cap a y) = giveback_option (with_cap a x)"
  by (simp_all add: pairs_to_run_def cli_inputs_def giveback_option_def recap_def Let_def)

lemma backtester_capped:
  "same_outcome (\<lambda>bt bt'. bt' = capped y bt)
     (cli_backtester rd rows src digest loaded (with_cap a x)) (cli_backtester rd rows src digest loaded (with_cap a y))"
  unfolding cli_backtester_def with_cap_fields
  by (rule outcome_bind_eq, rule outcome_bind [OF outcome_mapped [of "recap y" "cli_settings (with_cap a x) _", folded settings_capped]])
    (auto simp: inputs_capped [where x = x and y = y] new_backtester_capped outcome_mapped intro!: outcome_bind_eq)

lemma cap_alike:
  "same_outcome (\<lambda>(rp, w, sv) (rp', w', sv'). rp' = rp\<lparr>rp_cfg := (rp_cfg rp)\<lparr>g_max_rr := y\<rparr>\<rparr> \<and> alike w w' \<and> sv' = sv)
     (cli_main rd rows src digest loaded (with_cap a x)) (cli_main rd rows src digest loaded (with_cap a y))"
proof -
  have run: "same_result (\<lambda>(rp, w) (rp', w'). rp' = rp\<lparr>rp_cfg := (rp_cfg rp)\<lparr>g_max_rr := y\<rparr>\<rparr> \<and> alike w w') (run bt) (run (capped y bt))" for bt
  proof -
    have res: "wk_results w' = wk_results w" if "alike w w'" for w w' using that by (auto elim: alikeE)
    show ?thesis
      unfolding run_def
      by (rule same_bind [OF run_walk_alike [unfolded walk_alike_def]])
        (auto simp: new_report_def res chained intro!: same_bind_eq)
  qed
  have raise: "same_outcome R (raising r) (raising r')" if "same_result R r r'" for R :: "'x \<Rightarrow> 'y \<Rightarrow> bool" and r r'
    using that by (cases r; cases r') auto
  show ?thesis
    unfolding cli_main_def with_cap_fields
    by (rule outcome_bind [OF backtester_capped]) (auto intro!: outcome_bind [OF raise [OF run]])
qed

text \<open>
  C16: the cap of the command line is an echo. Whatever is backtested, two values of the option
  \<open>--max-rr\<close> give the same error, or the same trades, walk, figures and saved file: they differ in
  the setting that the report repeats and in the hash of the configuration in the trace only.
\<close>

theorem cap_option_is_an_echo:
  "same_outcome (\<lambda>(rp, w, sv) (rp', w', sv'). rp' = rp\<lparr>rp_cfg := (rp_cfg rp)\<lparr>g_max_rr := y\<rparr>\<rparr> \<and> alike w w' \<and> sv' = sv)
     (cli_main rd rows src digest loaded (with_cap a x)) (cli_main rd rows src digest loaded (with_cap a y))"
  by (rule cap_alike)

section \<open>One axis of the grid\<close>

text \<open>
  The file that a run leaves: \<open>render\<close> stands for the writer, which reads the results and the
  account of the report and not its settings; a run that fails leaves none.
\<close>

definition file_left :: "(report \<Rightarrow> file_row list) \<Rightarrow> (report \<times> walk \<times> saved) outcome \<Rightarrow> file_row list result option" where
  "file_left render r =
     (case r of Inl e \<Rightarrow> None | Inr (rp, w, sv) \<Rightarrow> Some (Inr (render (rp\<lparr>rp_cfg := default_settings []\<rparr>))))"

definition grid_args :: "cli_args \<Rightarrow> string \<Rightarrow> real \<Rightarrow> real \<Rightarrow> string \<Rightarrow> cli_args" where
  "grid_args a dir mn mx s =
     with_cap (a\<lparr>ca_symbol := s, ca_output := combo_file dir mn mx s, ca_min_rr := Some mn\<rparr>) mx"

lemma file_left_alike:
  "same_outcome (\<lambda>(rp, w, sv) (rp', w', sv'). rp' = rp\<lparr>rp_cfg := (rp_cfg rp)\<lparr>g_max_rr := y\<rparr>\<rparr> \<and> alike w w') r r' \<Longrightarrow>
   file_left render r' = file_left render r"
  by (cases r; cases r') (auto simp: file_left_def)

lemma csv_output: "csv_caches rd rows (a\<lparr>ca_output := out\<rparr>) = csv_caches rd rows a"
proof -
  have "ca_csv_htf (a\<lparr>ca_output := out\<rparr>) = ca_csv_htf a" "ca_csv_ltf (a\<lparr>ca_output := out\<rparr>) = ca_csv_ltf a" by simp_all
  then show ?thesis by (intro ext) (simp only: csv_caches_def)
qed

lemma output_aside:
  "same_outcome (\<lambda>(rp, w, sv) (rp', w', sv'). rp' = rp \<and> w' = w)
     (cli_main rd rows src digest loaded a) (cli_main rd rows src digest loaded (a\<lparr>ca_output := out\<rparr>))"
proof -
  have "cli_backtester rd rows src digest loaded (a\<lparr>ca_output := out\<rparr>) = cli_backtester rd rows src digest loaded a"
  proof -
    have fields: "cli_overrides (a\<lparr>ca_output := out\<rparr>) = cli_overrides a"
      by (simp add: cli_overrides_def fun_eq_iff)
    have "cli_settings (a\<lparr>ca_output := out\<rparr>) = cli_settings a" by (simp add: cli_settings_def fields fun_eq_iff)
    moreover have "pairs_to_run (a\<lparr>ca_output := out\<rparr>) = pairs_to_run a" by (simp add: pairs_to_run_def fun_eq_iff)
    moreover have "cli_inputs rd rows src (a\<lparr>ca_output := out\<rparr>) = cli_inputs rd rows src a"
      by (simp add: cli_inputs_def csv_output fun_eq_iff)
    ultimately show ?thesis by (simp add: cli_backtester_def giveback_option_def)
  qed
  then show ?thesis
    unfolding cli_main_def by (auto intro!: outcome_bind_eq)
qed

lemma file_left_same:
  "same_outcome (\<lambda>(rp, w, sv) (rp', w', sv'). rp' = rp \<and> w' = w) r r' \<Longrightarrow> file_left render r' = file_left render r"
  by (cases r; cases r') (auto simp: file_left_def)

lemma grid_files_alike:
  "file_left render (cli_main rd rows src digest loaded (grid_args a dir mn mx s)) =
   file_left render (cli_main rd rows src digest loaded (grid_args a dir mn 2 s))"
proof -
  let ?b = "\<lambda>x out. with_cap (a\<lparr>ca_symbol := s, ca_output := out, ca_min_rr := Some mn\<rparr>) x"
  have out: "?b x out = (?b x [])\<lparr>ca_output := out\<rparr>" for x out by (simp add: with_cap_def)
  have "file_left render (cli_main rd rows src digest loaded (?b x out)) = file_left render (cli_main rd rows src digest loaded (?b x []))" for x out
    by (subst out) (rule file_left_same [OF output_aside])
  moreover have "file_left render (cli_main rd rows src digest loaded (?b mx [])) = file_left render (cli_main rd rows src digest loaded (?b 2 []))"
  proof (rule file_left_alike)
    show "same_outcome (\<lambda>(rp, w, sv) (rp', w', sv'). rp' = rp\<lparr>rp_cfg := (rp_cfg rp)\<lparr>g_max_rr := mx\<rparr>\<rparr> \<and> alike w w')
      (cli_main rd rows src digest loaded (?b 2 [])) (cli_main rd rows src digest loaded (?b mx []))"
      by (rule sum.rel_mono_strong [OF cap_alike]) auto
  qed
  ultimately show ?thesis unfolding grid_args_def by metis
qed

definition line_cap :: "real \<Rightarrow> combo_line \<Rightarrow> combo_line" where "line_cap mx l = l\<lparr>cl_max := mx\<rparr>"

definition rank_key :: "combo_line \<Rightarrow> nat \<times> factor" where "rank_key l = (cl_passing l, cl_avg_factor l)"

lemma rank_key_cap [simp]: "rank_key (line_cap mx l) = rank_key l"
  by (simp add: rank_key_def line_cap_def)

text \<open>The lines of one lower limit: none, or one for each cap.\<close>

definition lines_of :: "combo_line option \<Rightarrow> combo_line list" where
  "lines_of l = (case l of None \<Rightarrow> [] | Some l \<Rightarrow> map (\<lambda>mx. line_cap mx l) MAX_RR_VALUES)"

lemma mapR_projr: "mapR f xs = Inr ys \<Longrightarrow> ys = map (projr \<circ> f) xs \<and> (\<forall>x \<in> set xs. \<exists>y. f x = Inr y)"
  by (induction xs arbitrary: ys) (auto simp: bindR_Inr_iff)

lemma product_caps:
  "List.product ms MAX_RR_VALUES = concat (map (\<lambda>mn. map (\<lambda>mx. (mn, mx)) MAX_RR_VALUES) ms)"
  by (induction ms) simp_all

lemma sort_desc_head:
  assumes "sort_desc f xs = b # ys" shows "b = hd (filter (\<lambda>x. f x = f b) xs)"
proof -
  have "filter (\<lambda>x. f x = f b) (sort_key f (rev xs)) = rev (filter (\<lambda>x. f x = f b) xs)"
    by (simp only: sort_key_stable rev_filter)
  then have "filter (\<lambda>x. f x = f b) (sort_desc f xs) = filter (\<lambda>x. f x = f b) xs"
    by (simp only: sort_desc_def rev_filter [symmetric] rev_rev_ident)
  with assms have "filter (\<lambda>x. f x = f b) xs = b # filter (\<lambda>x. f x = f b) ys" by simp
  then show ?thesis by simp
qed

lemma first_of_lines:
  "filter (\<lambda>l. rank_key l = k) (concat (map lines_of ls)) \<noteq> [] \<Longrightarrow>
   cl_max (hd (filter (\<lambda>l. rank_key l = k) (concat (map lines_of ls)))) = 2"
proof (induction ls)
  case (Cons l ls)
  show ?case
  proof (cases "\<exists>x. l = Some x \<and> rank_key x = k")
    case True
    then show ?thesis by (auto simp: lines_of_def MAX_RR_VALUES_def line_cap_def rank_key_def)
  next
    case False
    then have "filter (\<lambda>l. rank_key l = k) (lines_of l) = []"
      by (auto simp: lines_of_def filter_empty_conv split: option.split)
    then show ?thesis using Cons by simp
  qed
qed simp

lemma summary_cap: "combo_summary mn mx rs = map_option (line_cap mx) (combo_summary mn 2 rs)"
  by (simp add: combo_summary_def line_cap_def)

lemma line_of_cap:
  assumes "\<forall>s \<in> set ALL_SYMBOLS. fs (combo_file dir mn mx s) = fs (combo_file dir mn 2 s)"
  shows "grid_line rd fs dir (mn, mx) = map_result (map_option (line_cap mx)) (grid_line rd fs dir (mn, 2))"
proof -
  have parse: "grid_parse_csv rd fs (combo_file dir mn mx s) = grid_parse_csv rd fs (combo_file dir mn 2 s)" if "s \<in> set ALL_SYMBOLS" for s
    using assms that by (simp add: grid_parse_csv_def readable_rows_def)
  have "mapR (\<lambda>s. grid_parse_csv rd fs (combo_file dir mn mx s)) ss = mapR (\<lambda>s. grid_parse_csv rd fs (combo_file dir mn 2 s)) ss"
    if "set ss \<subseteq> set ALL_SYMBOLS" for ss
    using that parse by (induction ss) auto
  then have "mapR (\<lambda>s. grid_parse_csv rd fs (combo_file dir mn mx s)) ALL_SYMBOLS = mapR (\<lambda>s. grid_parse_csv rd fs (combo_file dir mn 2 s)) ALL_SYMBOLS"
    by simp
  then show ?thesis
    unfolding grid_line_def fst_conv snd_conv map_result_bindR summary_cap [of mn mx] by (simp add: map_result_def)
qed

lemma line_has_cap: "grid_line rd fs dir (mn, mx) = Inr (Some l) \<Longrightarrow> cl_max l = mx"
  by (auto simp: grid_line_def bindR_Inr_iff combo_summary_def split: if_splits)

lemma grid_lines_shape:
  assumes "\<forall>mn mx s. mn \<in> set MIN_RR_VALUES \<and> mx \<in> set MAX_RR_VALUES \<and> s \<in> set ALL_SYMBOLS \<longrightarrow>
      fs (combo_file dir mn mx s) = fs (combo_file dir mn 2 s)"
    and "mapR (grid_line rd fs dir) (List.product MIN_RR_VALUES MAX_RR_VALUES) = Inr ls"
  shows "\<exists>ms. List.map_filter id ls = concat (map lines_of ms)"
proof -
  define line where "line mn = projr (grid_line rd fs dir (mn, 2))" for mn
  have ls: "ls = map (projr \<circ> grid_line rd fs dir) (List.product MIN_RR_VALUES MAX_RR_VALUES)"
    using mapR_projr [OF assms(2)] by blast
  have ok: "\<exists>y. grid_line rd fs dir (mn, 2) = Inr y" if "mn \<in> set MIN_RR_VALUES" for mn
    using mapR_projr [OF assms(2)] that by (auto simp: MAX_RR_VALUES_def)
  have cap: "projr (grid_line rd fs dir (mn, mx)) = map_option (line_cap mx) (line mn)"
    if "mn \<in> set MIN_RR_VALUES" "mx \<in> set MAX_RR_VALUES" for mn mx
  proof -
    have "grid_line rd fs dir (mn, mx) = map_result (map_option (line_cap mx)) (grid_line rd fs dir (mn, 2))"
      by (rule line_of_cap) (use assms(1) that in blast)
    with ok [OF that(1)] show ?thesis by (auto simp: map_result_def line_def)
  qed
  have mf: "List.map_filter id (map (\<lambda>mx. map_option (line_cap mx) l) xs) = (case l of None \<Rightarrow> [] | Some l \<Rightarrow> map (\<lambda>mx. line_cap mx l) xs)" for l xs
    by (induction xs) (auto simp: List.map_filter_def split: option.splits)
  have "List.map_filter id (map (projr \<circ> grid_line rd fs dir) (List.product ms MAX_RR_VALUES)) = concat (map lines_of (map line ms))"
    if "set ms \<subseteq> set MIN_RR_VALUES" for ms
    using that
  proof (induction ms)
    case (Cons mn ms)
    have "map (projr \<circ> grid_line rd fs dir) (map (\<lambda>mx. (mn, mx)) MAX_RR_VALUES) = map (\<lambda>mx. map_option (line_cap mx) (line mn)) MAX_RR_VALUES"
      using cap Cons.prems by simp
    then have "List.map_filter id (map (projr \<circ> grid_line rd fs dir) (map (\<lambda>mx. (mn, mx)) MAX_RR_VALUES)) = lines_of (line mn)"
      by (simp only: mf lines_of_def)
    moreover have "List.map_filter id (as @ bs) = List.map_filter id as @ List.map_filter id bs" for as bs :: "combo_line option list"
      by (simp add: List.map_filter_def)
    moreover have "set ms \<subseteq> set MIN_RR_VALUES" using Cons.prems by simp
    moreover note Cons.IH [OF this, unfolded product_caps]
    ultimately show ?case by (simp only: product_caps list.map concat.simps map_append)
  qed (simp add: List.map_filter_def)
  from this [OF subset_refl] ls show ?thesis by blast
qed

text \<open>
  C17: one axis of the grid search is void. When the files of the grid are those that its runs of the
  backtester leave, every line of the ranking stands in it once for each cap, with the same figures,
  and the combination named best always has the first cap of the list.
\<close>

theorem grid_cap_axis_is_void:
  assumes "\<forall>mn mx s. mn \<in> set MIN_RR_VALUES \<and> mx \<in> set MAX_RR_VALUES \<and> s \<in> set ALL_SYMBOLS \<longrightarrow>
      fs (combo_file dir mn mx s) = file_left render (cli_main rd rows src digest loaded (grid_args a dir mn mx s))"
    and "grid_ranking float fs dir = Inr (best # others)"
  shows "cl_max best = 2 \<and> (\<forall>l \<in> set (best # others). \<forall>mx \<in> set MAX_RR_VALUES. l\<lparr>cl_max := mx\<rparr> \<in> set (best # others))"
proof -
  have same: "\<forall>mn mx s. mn \<in> set MIN_RR_VALUES \<and> mx \<in> set MAX_RR_VALUES \<and> s \<in> set ALL_SYMBOLS \<longrightarrow>
      fs (combo_file dir mn mx s) = fs (combo_file dir mn 2 s)"
  proof (intro allI impI)
    fix mn mx s assume m: "mn \<in> set MIN_RR_VALUES \<and> mx \<in> set MAX_RR_VALUES \<and> s \<in> set ALL_SYMBOLS"
    have "2 \<in> set MAX_RR_VALUES" by (simp add: MAX_RR_VALUES_def)
    with m assms(1) show "fs (combo_file dir mn mx s) = fs (combo_file dir mn 2 s)"
      using grid_files_alike by metis
  qed
  obtain ls where ls: "mapR (grid_line float fs dir) (List.product MIN_RR_VALUES MAX_RR_VALUES) = Inr ls"
    "best # others = rank_combos (List.map_filter id ls)"
    using assms(2) by (auto simp: grid_ranking_def bindR_Inr_iff)
  obtain ms where ms: "List.map_filter id ls = concat (map lines_of ms)"
    using grid_lines_shape [OF same ls(1)] by blast
  have ranked: "sort_desc rank_key (concat (map lines_of ms)) = best # others"
    using ls(2) ms by (simp add: rank_combos_def rank_key_def [abs_def])
  have "best \<in> set (concat (map lines_of ms))" using arg_cong [OF ranked, of set] by auto
  then have "cl_max best = 2"
    using sort_desc_head [OF ranked] first_of_lines [of "rank_key best" ms] by (force simp: filter_empty_conv)
  moreover have "l\<lparr>cl_max := mx\<rparr> \<in> set (concat (map lines_of ms))" if l: "l \<in> set (concat (map lines_of ms))" and mx: "mx \<in> set MAX_RR_VALUES" for l mx
  proof -
    obtain x mx' where x: "Some x \<in> set ms" "l = line_cap mx' x"
      using l by (auto simp: lines_of_def split: option.splits)
    have "l\<lparr>cl_max := mx\<rparr> \<in> set (lines_of (Some x))" using x(2) mx by (simp add: lines_of_def line_cap_def)
    with x(1) show ?thesis by auto
  qed
  moreover have sets: "set (concat (map lines_of ms)) = set (best # others)" by (metis ranked set_sort_desc)
  ultimately have "\<forall>l \<in> set (best # others). \<forall>mx \<in> set MAX_RR_VALUES. l\<lparr>cl_max := mx\<rparr> \<in> set (best # others)" by (simp only: sets) blast
  with \<open>cl_max best = 2\<close> show ?thesis ..
qed

section \<open>Options\<close>

text \<open>What is accepted and never read, and what one tool passes to the other in vain.\<close>

lemma unread_options:
  "cli_main rd rows src digest loaded (a\<lparr>ca_max_wick := u, ca_stale_hours := v, ca_max_sl_mult := z\<rparr>) = cli_main rd rows src digest loaded a"
proof -
  let ?a = "a\<lparr>ca_max_wick := u, ca_stale_hours := v, ca_max_sl_mult := z\<rparr>"
  have same: "ca_csv_htf ?a = ca_csv_htf a" "ca_csv_ltf ?a = ca_csv_ltf a" "cli_overrides ?a = cli_overrides a"
    by (simp_all add: cli_overrides_def fun_eq_iff)
  then have "csv_caches rd rows ?a = csv_caches rd rows a" by (intro ext) (simp only: csv_caches_def)
  then have "cli_inputs rd rows src ?a = cli_inputs rd rows src a" by (simp add: cli_inputs_def fun_eq_iff)
  moreover have "cli_settings ?a = cli_settings a" by (simp add: cli_settings_def same fun_eq_iff)
  moreover have "pairs_to_run ?a = pairs_to_run a" by (simp add: pairs_to_run_def fun_eq_iff)
  ultimately show ?thesis by (simp add: cli_main_def cli_backtester_def giveback_option_def)
qed

lemma options_append_bad:
  assumes "t \<notin> set SWITCHES" "t \<notin> set VALUE_OPTIONS"
  shows "known_options ts \<Longrightarrow> \<not> known_options (ts @ t # us)"
proof (induction ts rule: known_options.induct)
  case (2 o' ts)
  then show ?case by (cases ts) (simp_all split: if_splits)
qed (use assms in simp)

lemma options_append: "known_options ts \<Longrightarrow> known_options (ts @ us) = known_options us"
proof (induction ts rule: known_options.induct)
  case (2 o' ts)
  then show ?case by (cases ts) (simp_all split: if_splits)
qed simp

lemma extra_known: "known_options (rba_extra args)"
proof -
  have k: "known_options [''--from-date'', v]" "known_options [''--to-date'', v]" "known_options [''--start-balance'', v]"
    "known_options [''--risk-percent'', v]" for v by (simp_all add: SWITCHES_def VALUE_OPTIONS_def)
  show ?thesis
    unfolding rba_extra_def by (auto simp: options_append k simp del: known_options.simps(2) split: option.split)
qed

text \<open>
  the cache directory breaks every run. Without a cache directory the backtester accepts what
  the tool for all symbols passes, whatever its options; with one it is refused for every symbol and
  every attempt, so that all symbols fail. The command of the grid, which is said to share a cache,
  passes none.
\<close>

theorem cache_dir_is_refused:
  "known_options (drop 3 (rba_command python symbol out_file (rba_extra args) cache_dir)) \<longleftrightarrow> cache_dir = None"
proof -
  have head: "known_options ([''--symbol'', symbol, ''--output'', out_file] @ rba_extra args)"
    by (simp add: options_append [of "[''--symbol'', symbol, ''--output'', out_file]", simplified] SWITCHES_def VALUE_OPTIONS_def extra_known)
  have "''--cache-dir'' \<notin> set SWITCHES" "''--cache-dir'' \<notin> set VALUE_OPTIONS"
    by (simp_all add: SWITCHES_def VALUE_OPTIONS_def)
  from options_append_bad [OF this head] head show ?thesis
    by (cases cache_dir) (simp_all add: rba_command_def del: known_options.simps(2))
qed

lemma load_csv_sorted: "sorted (map c_timestamp (load_csv rd rows))"
  by (simp add: load_csv_def)

section \<open>Examples\<close>

definition flat_source :: candle_source where
  "flat_source = \<lparr>src_recent = (\<lambda>_ _ _. Inr [mk_candle 0 1 1 1 1]), src_range = (\<lambda>_ _ _ _. Inr [mk_candle 0 1 1 1 1])\<rparr>"

definition bare_args :: cli_args where
  "bare_args = \<lparr>ca_symbol = [], ca_csv_htf = [], ca_csv_ltf = [], ca_output = [], ca_tf_pair = ''1h:5min'', ca_htf_lookback = None,
     ca_min_rr = None, ca_max_rr = None, ca_max_wick = None, ca_stale_hours = None, ca_max_sl_mult = None,
     ca_no_breakeven = False, ca_no_trend_filter = False, ca_no_session_filter = False, ca_from_date = [], ca_to_date = [],
     ca_start_balance = None, ca_risk_percent = None, ca_giveback = None, ca_risk_type = ''compound'',
     ca_max_trailing_dd = None, ca_max_total_loss = None\<rparr>"

definition one_row :: "file_row list" where "one_row = [[(''outcome'', ''WIN_FULL''), (''realized_rr'', ''3'')]]"

abbreviation flat_main :: "real \<Rightarrow> real \<Rightarrow> string \<Rightarrow> (report \<times> walk \<times> saved) outcome" where
  "flat_main mn mx s \<equiv>
     cli_main (\<lambda>_. Inl ValueError) (\<lambda>_. Inl FileNotFoundError) flat_source (\<lambda>_. []) (Inr (default_settings []))
       (grid_args bare_args ''g'' mn mx s)"

lemma flat_runs:
  "case flat_main mn 2 ''XAUUSD'' of Inl _ \<Rightarrow> False | Inr _ \<Rightarrow> True"
  "case flat_main mn 2 ''XAGUSD'' of Inl _ \<Rightarrow> False | Inr _ \<Rightarrow> True"
  by code_simp+

lemma flat_symbols: "ALL_SYMBOLS = [''XAGUSD'', ''XAUUSD'']"
  by code_simp

lemma flat_files:
  assumes "s \<in> set ALL_SYMBOLS" "mx \<in> set MAX_RR_VALUES"
  shows "file_left (\<lambda>_. one_row) (flat_main mn mx s) = Some (Inr one_row)"
proof -
  have "file_left (\<lambda>_. one_row) (flat_main mn 2 s) = Some (Inr one_row)"
    using assms(1) flat_runs [of mn] by (auto simp: flat_symbols file_left_def split: sum.splits)
  then show ?thesis by (metis grid_files_alike)
qed

theorem grid_cap_axis_is_void_witness:
  "\<exists>best others. grid_ranking (\<lambda>_. Inr 3) (\<lambda>_. Some (Inr one_row)) ''g'' = Inr (best # others) \<and>
     cl_max best = 2 \<and> best\<lparr>cl_max := 3\<rparr> \<in> set (best # others)"
proof -
  have "case grid_ranking (\<lambda>_. Inr 3) (\<lambda>_. Some (Inr one_row)) ''g'' of Inr (best # others) \<Rightarrow> True | _ \<Rightarrow> False"
    by code_simp
  then obtain best others where r: "grid_ranking (\<lambda>_. Inr 3) (\<lambda>_. Some (Inr one_row)) ''g'' = Inr (best # others)"
    by (auto split: sum.splits list.splits)
  have "cl_max best = 2 \<and> (\<forall>l \<in> set (best # others). \<forall>mx \<in> set MAX_RR_VALUES. l\<lparr>cl_max := mx\<rparr> \<in> set (best # others))"
    using flat_files
    by (intro grid_cap_axis_is_void [where a = bare_args and rd = "\<lambda>_. Inl ValueError" and rows = "\<lambda>_. Inl FileNotFoundError" and
          src = flat_source and digest = "\<lambda>_. []" and loaded = "Inr (default_settings [])" and render = "\<lambda>_. one_row", OF _ r]) simp
  then have "cl_max best = 2" "best\<lparr>cl_max := 3\<rparr> \<in> set (best # others)" by (simp_all add: MAX_RR_VALUES_def)
  with r show ?thesis by blast
qed

end
