(* ===== verification/Spec2Isabelle.thy ===== *)
theory Spec2Isabelle
  imports Backtest_Example Metrics_Example Accounting_Laws Scheduler_Flights Gateway_Laws Market_Laws Engine_Laws Summary_Laws Config_Laws Manager_Laws Workers_Laws Backtest_Cli_Laws
begin

text \<open>
  A verification development for the trading-signal engine under src/src/.

  The program watches candles of several instruments on pairs of a higher and a lower
  timeframe (HTF, LTF). On the HTF it looks for breaks of structure and the supply and demand
  zones they leave; on the LTF it waits for a candle that sweeps back into a zone and closes
  inside (a CRT trigger). Such a candle becomes a signal with entry, stop and two targets, if the
  builder's gates, the deduplication rules and the session's circuit breaker let it through. An
  open signal is stepped through the candles that follow until a target, the stop or its
  expiry closes it, and the outcome feeds the session statistics and the deduplication memory.

  Theories, in the order the code has the parts:

  \<^item> \<open>Prelude\<close>, \<open>Intervals\<close>, \<open>Bisect\<close>, \<open>Effects\<close>: exceptions as values (\<open>result\<close>), strings and
    decimal rendering, calendar arithmetic, the standard library's bisection, and a small
    state-and-exception calculus with triples (\<open>valid\<close>) and frames (\<open>keeps\<close>).
  \<^item> \<open>Entities\<close> (domain/entities): enumerations and records; \<open>Wire\<close> (trade.py, session.py):
    serialisation of signals.
  \<^item> \<open>Swings\<close>, \<open>Structure\<close>, \<open>Rejection\<close> (domain/market, domain/signals/entry.py): pivots, breaks of
    structure, zones, displacement, trend bias, triggers.
  \<^item> \<open>Trade_Management\<close>, \<open>Settings\<close>, \<open>Profiles\<close>, \<open>Builder\<close> (domain/trade_management.py,
    config/settings.py, domain/assets/profiles.py, domain/signals/builder.py,
    app/engine/decision_engine.py): partial-close arithmetic, configuration, instrument profiles,
    construction of a signal.
  \<^item> \<open>Lifecycle\<close> (app/engine/market_replay.py): one lifecycle step and its replay.
  \<^item> \<open>Dedup\<close> (domain/signals/dedup.py), \<open>Store\<close> (infrastructure/persistence), \<open>Coordinator\<close>
    (app/session/coordinator.py): memory, tables and session state.
  \<^item> \<open>Service\<close> (app/services/signal_service.py) with \<open>Service_Laws\<close>, \<open>Service_Causality\<close>,
    \<open>Service_Restart\<close> and the worked run \<open>Service_Example\<close>.
  \<^item> \<open>Scheduler\<close> (interfaces/scheduler.py) with \<open>Scheduler_Laws\<close>, \<open>Scheduler_Threads\<close> and
    \<open>Scheduler_Flights\<close>: subscriptions, timers, weekend sleep, threads.
  \<^item> \<open>Market\<close>, \<open>Market_Laws\<close> (infrastructure/data_providers/market_data.py): symbols, the broker's
    clock, candles and ticks over a terminal. \<open>Metrics\<close>, \<open>Metrics_Laws\<close>, \<open>Metrics_Example\<close>
    (infrastructure/observability/metrics.py): the collector and its tables.
  \<^item> \<open>Engine\<close>, \<open>Engine_Laws\<close> (interfaces/cli/main.py, interfaces/events, tools/parity_check.py): the wired
    engine and the comparison of a live trace with that of a backtest.
  \<^item> \<open>Config\<close>, \<open>Config_Laws\<close> (config/settings.py): readers, layers, credential profiles, factories.
  \<^item> \<open>Consensus\<close>, \<open>Consensus_Laws\<close>, \<open>Gateway\<close>, \<open>Gateway_Laws\<close> (manager/src/core, manager/src/server):
    agreement of brokers, routing, clients, supervised engines, aggregated figures. \<open>Manager\<close>,
    \<open>Manager_Laws\<close> (manager/src/config, manager/src/app, manager/src/core/pipeline.py): the settings of the
    manager and the whole manager as one step function. \<open>Workers\<close>, \<open>Workers_Laws\<close>
    (manager/src/server/engine_server.py, manager/src/supervisor.py): engines as separate processes.
  \<^item> \<open>Accounting\<close>, \<open>Trailing\<close>, \<open>Backtest\<close> (app/backtesting/backtest.py, app/engine/parity_trace.py):
    the simulated account, the trailing stop and the walk over the history, with
    \<open>Accounting_Laws\<close>, \<open>Backtest_Laws\<close> and the worked run \<open>Backtest_Example\<close>.
  \<^item> \<open>Streaks\<close>, \<open>Streaks_Laws\<close> (app/backtesting/streak_analysis.py): streaks, drawdown, the null model
    and the mitigation simulations. \<open>Summary\<close>, \<open>Summary_Laws\<close> (app/backtesting/summarize_result.py):
    the statistics of each instrument and of all together.
  \<^item> \<open>Tools\<close>, \<open>Tools_Laws\<close> (app/backtesting/rba.py, grid_search.py, pf_table.py, analyze_grid.py): runs over
    all symbols with retries, the ranked grid, the comparison of two periods, the frequency of
    trades. \<open>Backtest_Cli\<close>, \<open>Backtest_Cli_Laws\<close> (the loaders and \<open>main\<close> of backtest.py): candle files,
    options, what they override and the run they start.

  How the parts meet. The engine builds the client of the terminal, the service with its stores,
  coordinator and deduplication, the scheduler and the collector; the scheduler calls the
  service per symbol, the service asks the coordinator's gate, writes the stores and delivers
  events to the listeners, among them the collector and, in the manager, the router that brings
  the events of all brokers to the clients. The backtest calls the same builder, deduplication and
  lifecycle functions. In the model each caller calls the definitions of the callee.

  Conventions. Prices and ratios are exact reals (rounding, infinities and NaN of binary floats
  are outside the model, except at the boundary where candles are normalised). Times are
  integer milliseconds. A dict is a map, or an association list where its order shows. A raised
  exception is \<open>Inl\<close> of its class. A method that changes state returns its result and the new
  state, also when it raises. The wall clock and the terminal are functions of the number of
  readings or calls made, or arguments of the step. Threads and tasks are steps of one state; a
  broadcast is one step; events reach their listeners after the call that made them. The file
  system gives what the YAML reader makes of a file; \<open>float\<close>, \<open>json.loads\<close> and the \<open>str\<close> of a
  container are parameters. Code outside the repository (the MetaTrader client, SQLite, asyncio,
  pandas' shuffles) is a parameter or an explicit list of effects; log lines and disk failures are
  left out. The heap of the simulations is a sorted list and its loop a \<open>while_option\<close> that is shown
  to return; other loops are structural or have a measure, so no fuel is used.

  What is shown: no lookahead from swings to signals; every built signal is tradeable; the
  lifecycle follows its status machine and books bounded ratios (under settings whose overrides per
  timeframe are in range, which the validation does not check); the live watchlist is a
  refinement of the pure replay; each rejection candle is announced at most once in any run;
  deduplication survives a restart; serialisation and storage round-trip; no subscribed symbol
  stalls and no symbol runs twice unless it is dropped in the middle; every triggered signal that
  the manager receives is sent, waits or was dropped as a repetition before the gateway; settings are sound whatever the files hold;
  a worker process reads what an engine inside the manager reads; clients of the manager hear
  nothing that no engine said; a restarted supervisor ends exactly the workers left alive; the
  backtest decides by the rules of the live service on HTF and LTF candles that had closed by the
  turn of the decision, its trailing simulation refines the shared replay, and its account stops at the first
  breach; the simulations of the streak analysis look at closed trades only; tables add up;
  the cap of the ratio changes nothing in a backtest, so that one axis of the grid is void; and the
  places where the code does something other than its documentation says.

  Interfaces are locales, each interpreted on the model's own operations: \<open>stepper\<close> (who steps
  a signal), \<open>emission_gate\<close> (a gate with a memory), \<open>keyed_store\<close> (a table by key), \<open>min_queue\<close>
  (a heap).

  Not modelled: the page of the result summary (HTML and JavaScript in strings, most of that
  file), tables printed on the terminal, the parsing of command lines (\<open>argparse\<close>; the options of
  the backtester are a record), \<open>csv.Sniffer\<close>, log files, the echo of the settings in a metrics
  snapshot, the rendering of charts (chart_data.py, which no module imports), the generator of the
  gateway's secret, the tables by day and hour of the streak analysis, the vendored service wrapper
  and the tests. These are output, third-party code, or a single call of the standard library.
\<close>

end
